(* ===== verification/Prelude.thy ===== *)
theory Prelude
  imports Main "HOL-Library.Sublist" "HOL-Library.Monad_Syntax"
begin

text \<open>
  Shared base of the development: the lemma collections the component theories fill, Go's
  results and machine integers, the Go standard library the operator uses (decimal
  formatting, \<open>strings.Join\<close>, \<open>ptr.Deref\<close>), and the generic list, map and option lemmas.

  A Go call that returns \<open>(value, error)\<close> is modelled by the pair itself, with
  \<open>error = string option\<close> and \<open>None\<close> for \<open>nil\<close>, because the operator sometimes uses the
  value although the error is set.  A \<open>panic\<close> is \<open>None\<close> of an option result.
\<close>

named_theorems cond_simps \<open>rules that evaluate status conditions after an operation\<close>
named_theorems frame_simps \<open>what an operation leaves unchanged\<close>

type_synonym go_error = "string option"

text \<open>\<open>int32\<close> arithmetic wraps around: the value of an expression is the signed residue.\<close>

definition wrap32 :: "int \<Rightarrow> int" where
  "wrap32 i = (i + 2 ^ 31) mod 2 ^ 32 - 2 ^ 31"

definition int32 :: "int \<Rightarrow> bool" where
  "int32 i \<longleftrightarrow> - (2 ^ 31) \<le> i \<and> i < 2 ^ 31"

lemma wrap32_id [simp]: "int32 i \<Longrightarrow> wrap32 i = i"
  by (simp add: int32_def wrap32_def)

lemma int32_wrap32 [simp, intro]: "int32 (wrap32 i)"
  by (simp add: int32_def wrap32_def)

lemma int32_diff_nonneg: "int32 a \<Longrightarrow> int32 b \<Longrightarrow> 0 \<le> a \<Longrightarrow> 0 \<le> b \<Longrightarrow> int32 (a - b)"
  by (simp add: int32_def)

text \<open>\<open>fmt.Sprintf("%d", n)\<close>.\<close>

fun show_nat :: "nat \<Rightarrow> string" where
  "show_nat n = (if n < 10 then [char_of (48 + n)]
                 else show_nat (n div 10) @ [char_of (48 + n mod 10)])"

declare show_nat.simps [simp del]

definition show_int :: "int \<Rightarrow> string" where
  "show_int i = (if i < 0 then ''-'' @ show_nat (nat (- i)) else show_nat (nat i))"

definition digits_val :: "string \<Rightarrow> nat" where
  "digits_val = foldl (\<lambda>a c. 10 * a + (of_char c - 48)) 0"

lemma digits_val_snoc: "digits_val (s @ [c]) = 10 * digits_val s + (of_char c - 48)"
  by (simp add: digits_val_def)

lemma of_char_digit: "d < 10 \<Longrightarrow> of_char (char_of (48 + d) :: char) = 48 + (d :: nat)"
  by (simp add: of_char_mod_256)

lemma digits_val_show_nat [simp]: "digits_val (show_nat n) = n"
proof (induction n rule: show_nat.induct)
  case (1 n)
  show ?case
  proof (cases "n < 10")
    case True
    then show ?thesis
      by (subst show_nat.simps) (simp add: digits_val_def of_char_digit)
  next
    case False
    with 1 have "digits_val (show_nat (n div 10)) = n div 10" by simp
    with False show ?thesis
      by (subst show_nat.simps) (simp add: digits_val_snoc of_char_digit)
  qed
qed

lemma show_nat_inject [simp]: "show_nat m = show_nat n \<longleftrightarrow> m = n"
  by (metis digits_val_show_nat)

lemma show_nat_digits: "c \<in> set (show_nat n) \<Longrightarrow> 48 \<le> (of_char c :: nat) \<and> (of_char c :: nat) < 58"
proof (induction n rule: show_nat.induct)
  case (1 n)
  then show ?case
    by (subst (asm) (2) show_nat.simps)
       (auto simp: of_char_digit split: if_splits)
qed

lemma minus_notin_show_nat [simp]: "CHR ''-'' \<notin> set (show_nat n)"
  using show_nat_digits[of "CHR ''-''" n] by auto

text \<open>\<open>strings.Join(parts, sep)\<close>.\<close>

fun join :: "string \<Rightarrow> string list \<Rightarrow> string" where
  "join sep [] = []"
| "join sep [s] = s"
| "join sep (s # t # ss) = s @ sep @ join sep (t # ss)"

text \<open>\<open>ptr.Deref(p, d)\<close>.\<close>

definition ptr_deref :: "'a option \<Rightarrow> 'a \<Rightarrow> 'a" where
  "ptr_deref p d = (case p of None \<Rightarrow> d | Some v \<Rightarrow> v)"

lemma ptr_deref_simps [simp]: "ptr_deref None d = d" "ptr_deref (Some v) d = v"
  by (simp_all add: ptr_deref_def)

lemma option_eqI: "(\<And>v. x = Some v \<longleftrightarrow> y = Some v) \<Longrightarrow> x = y"
  by (cases x; cases y) auto

text \<open>
  \<open>precedes x y xs\<close>: both values are in the list and the first occurrence of \<open>x\<close> is before
  the first of \<open>y\<close>.
\<close>

fun precedes :: "'a \<Rightarrow> 'a \<Rightarrow> 'a list \<Rightarrow> bool" where
  "precedes x y [] \<longleftrightarrow> False"
| "precedes x y (z # zs) \<longleftrightarrow> (if z = x then y \<in> set zs else z \<noteq> y \<and> precedes x y zs)"

lemma precedes_append_left:
  "x \<in> set xs \<Longrightarrow> y \<notin> set xs \<Longrightarrow> y \<in> set ys \<Longrightarrow> precedes x y (xs @ ys)"
  by (induction xs) auto

lemma precedes_index:
  "precedes x y xs \<Longrightarrow> \<exists>i j. i < j \<and> j < length xs \<and> xs ! i = x \<and> xs ! j = y"
proof (induction xs)
  case (Cons z zs)
  show ?case
  proof (cases "z = x")
    case True
    with Cons.prems obtain k where "k < length zs" "zs ! k = y"
      by (auto simp: in_set_conv_nth)
    with True show ?thesis by (intro exI[of _ 0] exI[of _ "Suc k"]) simp
  next
    case False
    with Cons obtain i j where "i < j" "j < length zs" "zs ! i = x" "zs ! j = y" by auto
    then show ?thesis by (intro exI[of _ "Suc i"] exI[of _ "Suc j"]) simp
  qed
qed simp

end
