(* ===== verification/Api_Types.thy ===== *)
theory Api_Types
  imports Prelude
begin

text \<open>
  The custom resource of the operator: enumerations, update plan and status of
  \<open>api/v1/components.go\<close> and \<open>api/v1/ytsaurus_types.go\<close>.  Go enumerations are strings, so an
  enumeration that a stored object can carry with any value has a constructor for the
  values the source gives no name to.
\<close>

section \<open>Component types\<close>

datatype component_type =
    BundleControllerType
  | ControllerAgentType
  | ChytType
  | ClusterConnectionType
  | CypressProxyType
  | DataNodeType
  | DiscoveryType
  | ExecNodeType
  | HttpProxyType
  | ImageHeaterType
  | KafkaProxyType
  | MasterCacheType
  | MasterType
  | NativeClientConfigType
  | OffshoreDataGatewayType
  | QueryTrackerType
  | QueueAgentType
  | RpcProxyType
  | SchedulerType
  | SpytType
  | StrawberryControllerType
  | TabletBalancerType
  | TabletNodeType
  | TcpProxyType
  | TimbertruckType
  | UIType
  | YqlAgentType
  | YtsaurusClientType
  | OtherComponentType string

primrec string_of_type :: "component_type \<Rightarrow> string" where
  "string_of_type BundleControllerType = ''BundleController''"
| "string_of_type ControllerAgentType = ''ControllerAgent''"
| "string_of_type ChytType = ''CHYT''"
| "string_of_type ClusterConnectionType = ''ClusterConnection''"
| "string_of_type CypressProxyType = ''CypressProxy''"
| "string_of_type DataNodeType = ''DataNode''"
| "string_of_type DiscoveryType = ''Discovery''"
| "string_of_type ExecNodeType = ''ExecNode''"
| "string_of_type HttpProxyType = ''HttpProxy''"
| "string_of_type ImageHeaterType = ''ImageHeater''"
| "string_of_type KafkaProxyType = ''KafkaProxy''"
| "string_of_type MasterCacheType = ''MasterCache''"
| "string_of_type MasterType = ''Master''"
| "string_of_type NativeClientConfigType = ''NativeClientConfig''"
| "string_of_type OffshoreDataGatewayType = ''OffshoreDataGateway''"
| "string_of_type QueryTrackerType = ''QueryTracker''"
| "string_of_type QueueAgentType = ''QueueAgent''"
| "string_of_type RpcProxyType = ''RpcProxy''"
| "string_of_type SchedulerType = ''Scheduler''"
| "string_of_type SpytType = ''SPYT''"
| "string_of_type StrawberryControllerType = ''StrawberryController''"
| "string_of_type TabletBalancerType = ''TabletBalancer''"
| "string_of_type TabletNodeType = ''TabletNode''"
| "string_of_type TcpProxyType = ''TcpProxy''"
| "string_of_type TimbertruckType = ''Timbertruck''"
| "string_of_type UIType = ''UI''"
| "string_of_type YqlAgentType = ''YqlAgent''"
| "string_of_type YtsaurusClientType = ''YtsaurusClient''"
| "string_of_type (OtherComponentType s) = s"

definition LocalComponentTypes :: "component_type list" where
  "LocalComponentTypes =
    [BundleControllerType, TabletBalancerType, ControllerAgentType, DataNodeType, DiscoveryType,
     ExecNodeType, HttpProxyType, MasterCacheType, MasterType, QueryTrackerType, QueueAgentType,
     RpcProxyType, SchedulerType, StrawberryControllerType, TabletNodeType, TcpProxyType,
     KafkaProxyType, YqlAgentType, ClusterConnectionType, NativeClientConfigType, ImageHeaterType]"

definition RemoteComponentTypes :: "component_type list" where
  "RemoteComponentTypes = [DataNodeType, ExecNodeType, TabletNodeType, OffshoreDataGatewayType]"

datatype component_class =
    ComponentClassUnspecified
  | ComponentClassNothing
  | ComponentClassEverything
  | ComponentClassStateless
  | OtherComponentClass string

text \<open>\<open>Component\<close>: a component type with the name of an instance group.\<close>

record component_ref =
  ref_type :: component_type
  ref_name :: string

definition component_String :: "component_ref \<Rightarrow> string" where
  "component_String c =
    (if ref_name c = [] then string_of_type (ref_type c)
     else string_of_type (ref_type c) @ ''-'' @ ref_name c)"

section \<open>Cluster and update states\<close>

datatype cluster_shutdown =
    ClusterShutdownNone
  | ClusterShutdownCompute
  | ClusterShutdownEverything
  | ClusterShutdownExceptMasters
  | ClusterShutdownTablets

primrec string_of_shutdown :: "cluster_shutdown \<Rightarrow> string" where
  "string_of_shutdown ClusterShutdownNone = ''''"
| "string_of_shutdown ClusterShutdownCompute = ''Compute''"
| "string_of_shutdown ClusterShutdownEverything = ''Everything''"
| "string_of_shutdown ClusterShutdownExceptMasters = ''ExceptMasters''"
| "string_of_shutdown ClusterShutdownTablets = ''Tablets''"

text \<open>The empty cluster state is the zero value of an object with no status yet.\<close>

datatype cluster_state =
    ClusterStateEmpty
  | ClusterStateCreated
  | ClusterStateInitializing
  | ClusterStatePreparing
  | ClusterStateRunning
  | ClusterStateReconfiguration
  | ClusterStateMaintenance
  | ClusterStateUpdating
  | ClusterStateUpdateCanceled
  | ClusterStateUpdateBlocked
  | ClusterStateUpdateFinished
  | ClusterStateOther string

primrec string_of_cluster_state :: "cluster_state \<Rightarrow> string" where
  "string_of_cluster_state ClusterStateEmpty = ''''"
| "string_of_cluster_state ClusterStateCreated = ''Created''"
| "string_of_cluster_state ClusterStateInitializing = ''Initializing''"
| "string_of_cluster_state ClusterStatePreparing = ''Preparing''"
| "string_of_cluster_state ClusterStateRunning = ''Running''"
| "string_of_cluster_state ClusterStateReconfiguration = ''Reconfiguration''"
| "string_of_cluster_state ClusterStateMaintenance = ''Maintenance''"
| "string_of_cluster_state ClusterStateUpdating = ''Updating''"
| "string_of_cluster_state ClusterStateUpdateCanceled = ''UpdateCanceled''"
| "string_of_cluster_state ClusterStateUpdateBlocked = ''UpdateBlocked''"
| "string_of_cluster_state ClusterStateUpdateFinished = ''UpdateFinished''"
| "string_of_cluster_state (ClusterStateOther s) = s"

datatype update_state =
    UpdateStateUndefined
  | UpdateStateNone
  | UpdateStateWaitingForImageHeater
  | UpdateStatePossibilityCheck
  | UpdateStateImpossibleToStart
  | UpdateStateWaitingForSafeModeEnabled
  | UpdateStateWaitingForTabletCellsSaving
  | UpdateStateWaitingForTabletCellsRemovingStart
  | UpdateStateWaitingForTabletCellsRemoved
  | UpdateStateWaitingForImaginaryChunksAbsence
  | UpdateStateWaitingForSnapshots
  | UpdateStateWaitingForPodsRemoval
  | UpdateStateWaitingForPodsCreation
  | UpdateStateWaitingForMasterReady
  | UpdateStateWaitingForMasterEnterReadOnly
  | UpdateStateWaitingForMasterExitReadOnly
  | UpdateStateWaitingForMasterCellsEnterReadOnly
  | UpdateStateWaitingForMasterCellsExitReadOnly
  | UpdateStateWaitingForMasterCellsPreparation
  | UpdateStateWaitingForMasterCellsAcception
  | UpdateStateWaitingForMasterCellsRegistration
  | UpdateStateWaitingForMasterCellsSettlement
  | UpdateStateWaitingForMasterCellsCompletion
  | UpdateStateWaitingForCypressPatch
  | UpdateStateWaitingForTabletCellsRecovery
  | UpdateStateWaitingForOpArchiveUpdate
  | UpdateStateWaitingForSidecarsInitializingPrepare
  | UpdateStateWaitingForSidecarsInitialize
  | UpdateStateWaitingForQTStateUpdatingPrepare
  | UpdateStateWaitingForQTStateUpdate
  | UpdateStateWaitingForQAStateUpdatingPrepare
  | UpdateStateWaitingForQAStateUpdate
  | UpdateStateWaitingForYqlaUpdate
  | UpdateStateWaitingForSafeModeDisabled
  | UpdateStateWaitingForTimbertruckPrepared
  | UpdateStateOther string

primrec string_of_update_state :: "update_state \<Rightarrow> string" where
  "string_of_update_state UpdateStateUndefined = ''''"
| "string_of_update_state UpdateStateNone = ''None''"
| "string_of_update_state UpdateStateWaitingForImageHeater = ''WaitingForImageHeater''"
| "string_of_update_state UpdateStatePossibilityCheck = ''PossibilityCheck''"
| "string_of_update_state UpdateStateImpossibleToStart = ''ImpossibleToStart''"
| "string_of_update_state UpdateStateWaitingForSafeModeEnabled = ''WaitingForSafeModeEnabled''"
| "string_of_update_state UpdateStateWaitingForTabletCellsSaving = ''WaitingForTabletCellsSaving''"
| "string_of_update_state UpdateStateWaitingForTabletCellsRemovingStart = ''WaitingForTabletCellsRemovingStart''"
| "string_of_update_state UpdateStateWaitingForTabletCellsRemoved = ''WaitingForTabletCellsRemoved''"
| "string_of_update_state UpdateStateWaitingForImaginaryChunksAbsence = ''WaitingForImaginaryChunksAbsence''"
| "string_of_update_state UpdateStateWaitingForSnapshots = ''WaitingForSnapshots''"
| "string_of_update_state UpdateStateWaitingForPodsRemoval = ''WaitingForPodsRemoval''"
| "string_of_update_state UpdateStateWaitingForPodsCreation = ''WaitingForPodsCreation''"
| "string_of_update_state UpdateStateWaitingForMasterReady = ''WaitingForMasterReady''"
| "string_of_update_state UpdateStateWaitingForMasterEnterReadOnly = ''WaitingForMasterEnterReadOnly''"
| "string_of_update_state UpdateStateWaitingForMasterExitReadOnly = ''WaitingForMasterExitReadOnly''"
| "string_of_update_state UpdateStateWaitingForMasterCellsEnterReadOnly = ''WaitingForMasterCellsEnterReadOnly''"
| "string_of_update_state UpdateStateWaitingForMasterCellsExitReadOnly = ''WaitingForMasterCellsExitReadOnly''"
| "string_of_update_state UpdateStateWaitingForMasterCellsPreparation = ''WaitingForMasterCellsPreparation''"
| "string_of_update_state UpdateStateWaitingForMasterCellsAcception = ''WaitingForMasterCellsAcception''"
| "string_of_update_state UpdateStateWaitingForMasterCellsRegistration = ''WaitingForMasterCellsRegistration''"
| "string_of_update_state UpdateStateWaitingForMasterCellsSettlement = ''WaitingForMasterCellsSettlement''"
| "string_of_update_state UpdateStateWaitingForMasterCellsCompletion = ''WaitingForMasterCellsCompletion''"
| "string_of_update_state UpdateStateWaitingForCypressPatch = ''WaitingForCypressPatch''"
| "string_of_update_state UpdateStateWaitingForTabletCellsRecovery = ''WaitingForTabletCellsRecovery''"
| "string_of_update_state UpdateStateWaitingForOpArchiveUpdate = ''WaitingForOpArchiveUpdate''"
| "string_of_update_state UpdateStateWaitingForSidecarsInitializingPrepare = ''WaitingForSidecarsInitializingPrepare''"
| "string_of_update_state UpdateStateWaitingForSidecarsInitialize = ''WaitingForSidecarsInitialize''"
| "string_of_update_state UpdateStateWaitingForQTStateUpdatingPrepare = ''WaitingForQTStateUpdatingPrepare''"
| "string_of_update_state UpdateStateWaitingForQTStateUpdate = ''WaitingForQTStateUpdate''"
| "string_of_update_state UpdateStateWaitingForQAStateUpdatingPrepare = ''WaitingForQAStateUpdatingPrepare''"
| "string_of_update_state UpdateStateWaitingForQAStateUpdate = ''WaitingForQAStateUpdate''"
| "string_of_update_state UpdateStateWaitingForYqlaUpdate = ''WaitingForYqlaUpdate''"
| "string_of_update_state UpdateStateWaitingForSafeModeDisabled = ''WaitingForSafeModeDisabled''"
| "string_of_update_state UpdateStateWaitingForTimbertruckPrepared = ''WaitingForTimbertruckPrepared''"
| "string_of_update_state (UpdateStateOther s) = s"

section \<open>Update plan\<close>

datatype update_mode_type =
    ComponentUpdateModeTypeUnset
  | ComponentUpdateModeTypeBulkUpdate
  | ComponentUpdateModeTypeRollingUpdate
  | ComponentUpdateModeTypeOnDelete

text \<open>The rolling and on-delete modes are empty structs: a pointer to one is a \<open>unit option\<close>.\<close>

record update_strategy =
  strat_RunPreChecks :: "bool option"
  strat_RollingUpdate :: "unit option"
  strat_OnDelete :: "unit option"

record update_selector =
  sel_Class :: component_class
  sel_Component :: component_ref
  sel_Concurrency :: "int option"
  sel_Strategy :: "update_strategy option"

definition strategy_Type :: "update_strategy \<Rightarrow> update_mode_type" where
  "strategy_Type m =
    (if strat_RollingUpdate m \<noteq> None then ComponentUpdateModeTypeRollingUpdate
     else if strat_OnDelete m \<noteq> None then ComponentUpdateModeTypeOnDelete
     else ComponentUpdateModeTypeBulkUpdate)"

definition GetUpdateStrategyType :: "update_selector option \<Rightarrow> update_mode_type" where
  "GetUpdateStrategyType selector =
    (case selector of
       None \<Rightarrow> ComponentUpdateModeTypeUnset
     | Some s \<Rightarrow> (case sel_Strategy s of
         None \<Rightarrow> ComponentUpdateModeTypeUnset
       | Some m \<Rightarrow> strategy_Type m))"

definition zero_selector :: update_selector where
  "zero_selector = \<lparr>sel_Class = ComponentClassUnspecified,
     sel_Component = \<lparr>ref_type = OtherComponentType [], ref_name = []\<rparr>,
     sel_Concurrency = None, sel_Strategy = None\<rparr>"

end
