(* ===== verification/Resource.thy ===== *)
theory Resource
  imports Api_Types
begin

text \<open>
  The \<open>Ytsaurus\<close> object of \<open>api/v1/ytsaurus_types.go\<close> and \<open>api/v1/ytsaurus_config.go\<close>: its
  specification, its status, and the helpers of \<open>api/v1/helpers.go\<close>.  The records keep the fields
  that the modelled operations read; pod templates, ports and the other pass-through settings are
  left out.
\<close>

section \<open>Instance specifications\<close>

datatype location_type =
    LocationTypeChunkStore
  | LocationTypeChunkCache
  | LocationTypeSlots
  | LocationTypeLogs
  | LocationTypeMasterChangelogs
  | LocationTypeMasterSnapshots
  | LocationTypeImageCache
  | LocationTypeJobProxyLogs
  | LocationTypeInitJobLogs
  | OtherLocationType string

record location_spec =
  loc_LocationType :: location_type
  loc_Path :: string
  loc_Medium :: string

fun FindFirstLocation :: "location_spec list \<Rightarrow> location_type \<Rightarrow> location_spec option" where
  "FindFirstLocation [] locationType = None"
| "FindFirstLocation (location # locations) locationType =
    (if loc_LocationType location = locationType then Some location
     else FindFirstLocation locations locationType)"

fun FindAllLocations :: "location_spec list \<Rightarrow> location_type \<Rightarrow> location_spec list" where
  "FindAllLocations [] locationType = []"
| "FindAllLocations (location # locations) locationType =
    (if loc_LocationType location = locationType
     then location # FindAllLocations locations locationType
     else FindAllLocations locations locationType)"

record structured_logger =
  sl_Name :: string
  sl_Category :: "string option"
  sl_CategoriesFilter :: "(string \<times> string list) option"
  sl_EnableDelivery :: "bool option"

record volume_mount =
  vm_Name :: string
  vm_MountPath :: string

text \<open>Secrets are given by name.\<close>

record rpc_transport =
  rt_TLSSecret :: "string option"
  rt_TLSClientSecret :: "string option"
  rt_TLSRequired :: bool
  rt_TLSInsecure :: bool

record instance_spec =
  is_Image :: "string option"
  is_InstanceCount :: int
  is_MinReadyInstanceCount :: "int option"
  is_Locations :: "location_spec list"
  is_StructuredLoggers :: "structured_logger list"
  is_VolumeMounts :: "volume_mount list"
  is_NativeTransport :: "rpc_transport option"
  is_EnableAntiAffinity :: "bool option"
  is_HasPodAntiAffinity :: bool
  is_HostNetwork :: "bool option"
  is_PodLabels :: "(string \<times> string) list"
  is_PodAnnotations :: "(string \<times> string) list"

record timbertruck_spec =
  tt_Image :: "string option"
  tt_DirectoryPath :: "string option"

type_synonym master_cell_role = string

abbreviation "MasterCellRoleCypressNodeHost \<equiv> ''cypress_node_host''"
abbreviation "MasterCellRoleTransactionCoordinator \<equiv> ''transaction_coordinator''"
abbreviation "MasterCellRoleChunkHost \<equiv> ''chunk_host''"
abbreviation "MasterCellRoleDedicatedChunkHost \<equiv> ''dedicated_chunk_host''"

record hydra_persistence_uploader =
  hpu_Image :: "string option"

record masters_spec =
  ms_InstanceSpec :: instance_spec
  ms_CellTag :: nat
  ms_HostAddresses :: "string list"
  ms_Roles :: "master_cell_role list option"
  ms_HydraPersistenceUploader :: "hydra_persistence_uploader option"
  ms_Timbertruck :: "timbertruck_spec option"
  ms_Sidecars :: "string list"

definition GetMasterCellRoles ::
  "master_cell_role list option \<Rightarrow> bool \<Rightarrow> bool \<Rightarrow> master_cell_role list" where
  "GetMasterCellRoles roles isPrimary isMulticell =
    (case roles of
       Some rs \<Rightarrow> rs
     | None \<Rightarrow>
         if isPrimary \<and> isMulticell
         then [MasterCellRoleCypressNodeHost, MasterCellRoleTransactionCoordinator]
         else if isPrimary
         then [MasterCellRoleCypressNodeHost, MasterCellRoleTransactionCoordinator,
               MasterCellRoleChunkHost]
         else [MasterCellRoleCypressNodeHost, MasterCellRoleChunkHost])"

text \<open>
  An instance group: proxies are grouped by role and nodes by name.  HTTPS belongs to HTTP proxies, the
  transport to RPC proxies, and containers to exec nodes; other groups have zero values there.
\<close>

record group_spec =
  gs_InstanceSpec :: instance_spec
  gs_Name :: string
  gs_HTTPSSecret :: "string option"
  gs_DisableHTTP :: bool
  gs_Transport :: rpc_transport
  gs_InitContainers :: "string list"
  gs_Sidecars :: "string list"

record cypress_proxies_spec =
  cp_InstanceSpec :: instance_spec
  cp_Disable :: "bool option"

record cluster_features =
  cf_EnableImageHeater :: bool
  cf_HTTPProxyHaveHTTPSAddress :: bool
  cf_RPCProxyHavePublicAddress :: bool
  cf_SecureClusterTransports :: bool

record cluster_maintenance =
  cmt_Shutdown :: cluster_shutdown
  cmt_AssignMasterCellsRoles :: bool

definition zero_features :: cluster_features where
  "zero_features = \<lparr>cf_EnableImageHeater = False, cf_HTTPProxyHaveHTTPSAddress = False,
     cf_RPCProxyHavePublicAddress = False, cf_SecureClusterTransports = False\<rparr>"

definition zero_maintenance :: cluster_maintenance where
  "zero_maintenance = \<lparr>cmt_Shutdown = ClusterShutdownNone, cmt_AssignMasterCellsRoles = False\<rparr>"

section \<open>Specification of a cluster\<close>

record ui_spec =
  ui_Secure :: bool

record ytsaurus_spec =
  sp_CoreImage :: string
  sp_ClusterFeatures :: "cluster_features option"
  sp_ClusterMaintenance :: "cluster_maintenance option"
  sp_Timbertruck :: "timbertruck_spec option"
  sp_EphemeralCluster :: bool
  sp_UseShortNames :: bool
  sp_RequiresOperatorVersion :: string
  sp_IsManaged :: "bool option"
  sp_UpdatePlan :: "update_selector list"
  sp_Discovery :: instance_spec
  sp_PrimaryMasters :: masters_spec
  sp_SecondaryMasters :: "masters_spec list"
  sp_MasterCaches :: "instance_spec option"
  sp_HTTPProxies :: "group_spec list"
  sp_RPCProxies :: "group_spec list"
  sp_TCPProxies :: "group_spec list"
  sp_KafkaProxies :: "group_spec list"
  sp_DataNodes :: "group_spec list"
  sp_ExecNodes :: "group_spec list"
  sp_Schedulers :: "instance_spec option"
  sp_ControllerAgents :: "instance_spec option"
  sp_TabletNodes :: "group_spec list"
  sp_HasStrawberryController :: bool
  sp_QueryTrackers :: "instance_spec option"
  sp_YQLAgents :: "instance_spec option"
  sp_QueueAgents :: "instance_spec option"
  sp_CypressProxies :: "cypress_proxies_spec option"
  sp_BundleController :: "instance_spec option"
  sp_TabletBalancer :: "instance_spec option"
  sp_UI :: "ui_spec option"
  sp_HasSpyt :: bool
  sp_HostNetwork :: "bool option"
  sp_NativeTransport :: "rpc_transport option"
  sp_ExtraPodAnnotations :: "(string \<times> string) list"
  sp_PodLabels :: "(string \<times> string) list"
  sp_PodAnnotations :: "(string \<times> string) list"

section \<open>Status of a cluster\<close>

text \<open>\<open>metav1.Condition\<close>; the time of the last transition is in seconds.\<close>

datatype condition_status =
    ConditionTrue
  | ConditionFalse
  | ConditionUnknown
  | OtherConditionStatus string

record condition =
  c_Type :: string
  c_Status :: condition_status
  c_ObservedGeneration :: int
  c_LastTransitionTime :: int
  c_Reason :: string
  c_Message :: string

record master_cell_maintenance_info =
  mcm_CellTag :: nat
  mcm_Unregistered :: bool

record tablet_cell_bundle_info =
  tcb_Name :: string
  tcb_TabletCellCount :: int

record bundle_controller_info =
  bci_Disabled :: "bool option"

record update_status =
  us_State :: update_state
  us_UpdatingComponents :: "component_ref list"
  us_UpdatingComponentsSummary :: string
  us_BlockedComponentsSummary :: string
  us_Conditions :: "condition list"
  us_MasterCellsMaintenance :: "master_cell_maintenance_info list"
  us_TabletCellBundles :: "tablet_cell_bundle_info list"
  us_BundleController :: "bundle_controller_info option"

record ytsaurus_status =
  st_State :: cluster_state
  st_Conditions :: "condition list"
  st_ObservedGeneration :: int
  st_UpdateStatus :: update_status

record ytsaurus =
  yt_Name :: string
  yt_Namespace :: string
  yt_Generation :: int
  yt_Spec :: ytsaurus_spec
  yt_Status :: ytsaurus_status

definition GetStatusObservedGeneration :: "ytsaurus \<Rightarrow> int" where
  "GetStatusObservedGeneration r = st_ObservedGeneration (yt_Status r)"

definition SetStatusObservedGeneration :: "int \<Rightarrow> ytsaurus \<Rightarrow> ytsaurus" where
  "SetStatusObservedGeneration generation r =
    r\<lparr>yt_Status := (yt_Status r)\<lparr>st_ObservedGeneration := generation\<rparr>\<rparr>"

definition GetStatusConditions :: "ytsaurus \<Rightarrow> condition list" where
  "GetStatusConditions r = st_Conditions (yt_Status r)"

definition SetStatusConditions :: "condition list \<Rightarrow> ytsaurus \<Rightarrow> ytsaurus" where
  "SetStatusConditions conditions r =
    r\<lparr>yt_Status := (yt_Status r)\<lparr>st_Conditions := conditions\<rparr>\<rparr>"

definition GetUpdatePlan :: "ytsaurus \<Rightarrow> update_selector list" where
  "GetUpdatePlan r =
    (if sp_UpdatePlan (yt_Spec r) \<noteq> [] then sp_UpdatePlan (yt_Spec r)
     else [zero_selector\<lparr>sel_Class := ComponentClassNothing\<rparr>])"

section \<open>Facts\<close>

lemma FindFirstLocation_hd:
  "FindFirstLocation ls t = (case FindAllLocations ls t of [] \<Rightarrow> None | l # _ \<Rightarrow> Some l)"
  by (induction ls) auto

lemma FindAllLocations_filter:
  "FindAllLocations ls t = filter (\<lambda>l. loc_LocationType l = t) ls"
  by (induction ls) auto

lemma GetStatusConditions_Set [simp]:
  "GetStatusConditions (SetStatusConditions cs r) = cs"
  "GetStatusConditions (SetStatusObservedGeneration g r) = GetStatusConditions r"
  "GetStatusObservedGeneration (SetStatusConditions cs r) = GetStatusObservedGeneration r"
  "GetStatusObservedGeneration (SetStatusObservedGeneration g r) = g"
  by (simp_all add: GetStatusConditions_def SetStatusConditions_def
      GetStatusObservedGeneration_def SetStatusObservedGeneration_def)

lemma SetStatusConditions_fields [simp]:
  "yt_Spec (SetStatusConditions cs r) = yt_Spec r"
  "yt_Name (SetStatusConditions cs r) = yt_Name r"
  "yt_Generation (SetStatusConditions cs r) = yt_Generation r"
  "st_State (yt_Status (SetStatusConditions cs r)) = st_State (yt_Status r)"
  "st_UpdateStatus (yt_Status (SetStatusConditions cs r)) = st_UpdateStatus (yt_Status r)"
  "yt_Spec (SetStatusObservedGeneration g r) = yt_Spec r"
  "yt_Name (SetStatusObservedGeneration g r) = yt_Name r"
  "yt_Generation (SetStatusObservedGeneration g r) = yt_Generation r"
  "st_State (yt_Status (SetStatusObservedGeneration g r)) = st_State (yt_Status r)"
  "st_UpdateStatus (yt_Status (SetStatusObservedGeneration g r)) = st_UpdateStatus (yt_Status r)"
  by (simp_all add: SetStatusConditions_def SetStatusObservedGeneration_def)

end
