(* ===== verification/Labeller.thy ===== *)
theory Labeller
  imports Resource
begin

text \<open>
  Names of components, objects and conditions: \<open>pkg/consts/names.go\<close>, \<open>pkg/consts/labels.go\<close> and
  \<open>pkg/labeller/labeller.go\<close>.  Functions of \<open>consts\<close> that panic for a component type they do not
  know return \<open>None\<close> there.
\<close>

section \<open>Prefixes by component type\<close>

fun ComponentServicePrefix :: "component_type \<Rightarrow> string option" where
  "ComponentServicePrefix BundleControllerType = Some ''bundle-controllers''"
| "ComponentServicePrefix TabletBalancerType = Some ''tablet-balancers''"
| "ComponentServicePrefix ControllerAgentType = Some ''controller-agents''"
| "ComponentServicePrefix CypressProxyType = Some ''cypress-proxies''"
| "ComponentServicePrefix DataNodeType = Some ''data-nodes''"
| "ComponentServicePrefix DiscoveryType = Some ''discovery''"
| "ComponentServicePrefix ExecNodeType = Some ''exec-nodes''"
| "ComponentServicePrefix HttpProxyType = Some ''http-proxies''"
| "ComponentServicePrefix MasterCacheType = Some ''master-caches''"
| "ComponentServicePrefix MasterType = Some ''masters''"
| "ComponentServicePrefix QueryTrackerType = Some ''query-trackers''"
| "ComponentServicePrefix QueueAgentType = Some ''queue-agents''"
| "ComponentServicePrefix RpcProxyType = Some ''rpc-proxies''"
| "ComponentServicePrefix SchedulerType = Some ''schedulers''"
| "ComponentServicePrefix StrawberryControllerType = Some ''strawberry''"
| "ComponentServicePrefix TabletNodeType = Some ''tablet-nodes''"
| "ComponentServicePrefix OffshoreDataGatewayType = Some ''offshore-data-gateways''"
| "ComponentServicePrefix TcpProxyType = Some ''tcp-proxies''"
| "ComponentServicePrefix KafkaProxyType = Some ''kafka-proxies''"
| "ComponentServicePrefix YqlAgentType = Some ''yql-agents''"
| "ComponentServicePrefix TimbertruckType = Some ''timbertrucks''"
| "ComponentServicePrefix _ = None"

fun GetServiceKebabCase :: "component_type \<Rightarrow> string option" where
  "GetServiceKebabCase BundleControllerType = Some ''bundle-controller''"
| "GetServiceKebabCase TabletBalancerType = Some ''tablet-balancer''"
| "GetServiceKebabCase ControllerAgentType = Some ''controller-agent''"
| "GetServiceKebabCase CypressProxyType = Some ''cypress-proxy''"
| "GetServiceKebabCase DataNodeType = Some ''data-node''"
| "GetServiceKebabCase DiscoveryType = Some ''discovery''"
| "GetServiceKebabCase ExecNodeType = Some ''exec-node''"
| "GetServiceKebabCase HttpProxyType = Some ''http-proxy''"
| "GetServiceKebabCase MasterCacheType = Some ''master-cache''"
| "GetServiceKebabCase MasterType = Some ''master''"
| "GetServiceKebabCase QueryTrackerType = Some ''query-tracker''"
| "GetServiceKebabCase QueueAgentType = Some ''queue-agent''"
| "GetServiceKebabCase RpcProxyType = Some ''rpc-proxy''"
| "GetServiceKebabCase SchedulerType = Some ''scheduler''"
| "GetServiceKebabCase StrawberryControllerType = Some ''strawberry-controller''"
| "GetServiceKebabCase TabletNodeType = Some ''tablet-node''"
| "GetServiceKebabCase OffshoreDataGatewayType = Some ''offshore-data-gateway''"
| "GetServiceKebabCase TcpProxyType = Some ''tcp-proxy''"
| "GetServiceKebabCase KafkaProxyType = Some ''kafka-proxy''"
| "GetServiceKebabCase YqlAgentType = Some ''yql-agent''"
| "GetServiceKebabCase TimbertruckType = Some ''timbertruck''"
| "GetServiceKebabCase _ = None"

fun GetStatefulSetPrefix :: "component_type \<Rightarrow> string" where
  "GetStatefulSetPrefix BundleControllerType = ''bc''"
| "GetStatefulSetPrefix TabletBalancerType = ''tb''"
| "GetStatefulSetPrefix ControllerAgentType = ''ca''"
| "GetStatefulSetPrefix CypressProxyType = ''cyp''"
| "GetStatefulSetPrefix DataNodeType = ''dnd''"
| "GetStatefulSetPrefix DiscoveryType = ''ds''"
| "GetStatefulSetPrefix ExecNodeType = ''end''"
| "GetStatefulSetPrefix HttpProxyType = ''hp''"
| "GetStatefulSetPrefix MasterCacheType = ''msc''"
| "GetStatefulSetPrefix MasterType = ''ms''"
| "GetStatefulSetPrefix QueryTrackerType = ''qt''"
| "GetStatefulSetPrefix QueueAgentType = ''qa''"
| "GetStatefulSetPrefix RpcProxyType = ''rp''"
| "GetStatefulSetPrefix SchedulerType = ''sch''"
| "GetStatefulSetPrefix TabletNodeType = ''tnd''"
| "GetStatefulSetPrefix OffshoreDataGatewayType = ''odg''"
| "GetStatefulSetPrefix TcpProxyType = ''tp''"
| "GetStatefulSetPrefix KafkaProxyType = ''kp''"
| "GetStatefulSetPrefix YqlAgentType = ''yqla''"
| "GetStatefulSetPrefix TimbertruckType = ''tt''"
| "GetStatefulSetPrefix _ = ''''"

fun GetMicroservicePrefix :: "component_type \<Rightarrow> string" where
  "GetMicroservicePrefix StrawberryControllerType = ''strawberry''"
| "GetMicroservicePrefix UIType = ''ui''"
| "GetMicroservicePrefix _ = ''''"

definition GetDaemonSetPrefix :: "component_type \<Rightarrow> string" where
  "GetDaemonSetPrefix component = (if component = ImageHeaterType then ''ih'' else '''')"

definition GetShortName :: "component_type \<Rightarrow> string" where
  "GetShortName component =
    (let stsPrefix = GetStatefulSetPrefix component in
     if stsPrefix \<noteq> '''' then stsPrefix else
     let dsPrefix = GetDaemonSetPrefix component in
     if dsPrefix \<noteq> '''' then dsPrefix else
     GetMicroservicePrefix component)"

definition ComponentStatefulSetPrefix :: "component_type \<Rightarrow> string option" where
  "ComponentStatefulSetPrefix component =
    (let shortTypeName = GetStatefulSetPrefix component in
     if shortTypeName \<noteq> '''' then Some shortTypeName else None)"

fun ComponentLabel :: "component_type \<Rightarrow> string option" where
  "ComponentLabel MasterType = Some ''yt-master''"
| "ComponentLabel MasterCacheType = Some ''yt-master-cache''"
| "ComponentLabel CypressProxyType = Some ''yt-cypress-proxy''"
| "ComponentLabel DiscoveryType = Some ''yt-discovery''"
| "ComponentLabel SchedulerType = Some ''yt-scheduler''"
| "ComponentLabel ControllerAgentType = Some ''yt-controller-agent''"
| "ComponentLabel DataNodeType = Some ''yt-data-node''"
| "ComponentLabel ExecNodeType = Some ''yt-exec-node''"
| "ComponentLabel TabletNodeType = Some ''yt-tablet-node''"
| "ComponentLabel OffshoreDataGatewayType = Some ''yt-offshore-data-gateway''"
| "ComponentLabel HttpProxyType = Some ''yt-http-proxy''"
| "ComponentLabel RpcProxyType = Some ''yt-rpc-proxy''"
| "ComponentLabel TcpProxyType = Some ''yt-tcp-proxy''"
| "ComponentLabel KafkaProxyType = Some ''yt-kafka-proxy''"
| "ComponentLabel QueueAgentType = Some ''yt-queue-agent''"
| "ComponentLabel QueryTrackerType = Some ''yt-query-tracker''"
| "ComponentLabel YqlAgentType = Some ''yt-yql-agent''"
| "ComponentLabel StrawberryControllerType = Some ''yt-strawberry-controller''"
| "ComponentLabel BundleControllerType = Some ''yt-bundle-controller''"
| "ComponentLabel TabletBalancerType = Some ''yt-tablet-balancer''"
| "ComponentLabel ChytType = Some ''yt-chyt''"
| "ComponentLabel SpytType = Some ''yt-spyt''"
| "ComponentLabel YtsaurusClientType = Some ''yt-client''"
| "ComponentLabel UIType = Some ''yt-ui''"
| "ComponentLabel TimbertruckType = Some ''yt-timbertruck''"
| "ComponentLabel ImageHeaterType = Some ''yt-image-heater''"
| "ComponentLabel _ = None"

abbreviation "DefaultName \<equiv> ''default''"

section \<open>The labeller\<close>

record labeller =
  l_Namespace :: string
  l_ClusterName :: string
  l_ResourceName :: string
  l_ComponentType :: component_type
  l_InstanceGroup :: string
  l_ClusterDomain :: string
  l_Annotations :: "string \<rightharpoonup> string"
  l_UseShortNames :: bool

definition zero_labeller :: labeller where
  "zero_labeller = \<lparr>l_Namespace = '''', l_ClusterName = '''', l_ResourceName = '''',
     l_ComponentType = OtherComponentType '''', l_InstanceGroup = '''', l_ClusterDomain = '''',
     l_Annotations = Map.empty, l_UseShortNames = False\<rparr>"

definition ForComponent :: "component_type \<Rightarrow> string \<Rightarrow> labeller \<Rightarrow> labeller" where
  "ForComponent component instanceGroup l =
    l\<lparr>l_ComponentType := component, l_InstanceGroup := instanceGroup\<rparr>"

definition GetCellName :: "nat \<Rightarrow> string" where
  "GetCellName cellTag = show_nat cellTag"

definition getGroupName :: "labeller \<Rightarrow> string \<Rightarrow> string" where
  "getGroupName l name =
    (if l_InstanceGroup l \<noteq> '''' \<and> l_InstanceGroup l \<noteq> DefaultName
     then name @ ''-'' @ l_InstanceGroup l else name)"

definition getName :: "labeller \<Rightarrow> string \<Rightarrow> string \<Rightarrow> string" where
  "getName l name0 infix0 =
    (let name1 = getGroupName l name0;
         name2 = (if infix0 \<noteq> '''' then name1 @ ''-'' @ infix0 else name1)
     in if \<not> l_UseShortNames l then name2 @ ''-'' @ l_ResourceName l else name2)"

definition GetFullComponentName :: "labeller \<Rightarrow> string" where
  "GetFullComponentName l = getGroupName l (string_of_type (l_ComponentType l))"

definition GetInstanceGroup :: "labeller \<Rightarrow> string" where
  "GetInstanceGroup l = (if l_InstanceGroup l = DefaultName then '''' else l_InstanceGroup l)"

definition GetComponentShortName :: "labeller \<Rightarrow> string" where
  "GetComponentShortName l = getName l (GetShortName (l_ComponentType l)) ''''"

definition GetServerStatefulSetName :: "labeller \<Rightarrow> string option" where
  "GetServerStatefulSetName l =
    map_option (\<lambda>p. getName l p '''') (ComponentStatefulSetPrefix (l_ComponentType l))"

definition GetHeadlessServiceName :: "labeller \<Rightarrow> string option" where
  "GetHeadlessServiceName l =
    map_option (\<lambda>p. getName l p '''') (ComponentServicePrefix (l_ComponentType l))"

definition GetBalancerServiceName :: "labeller \<Rightarrow> string option" where
  "GetBalancerServiceName l =
    map_option (\<lambda>p. getName l p ''lb'') (ComponentServicePrefix (l_ComponentType l))"

definition GetComponentLabel :: "labeller \<Rightarrow> string option" where
  "GetComponentLabel l = ComponentLabel (l_ComponentType l)"

definition GetFullComponentLabel :: "labeller \<Rightarrow> string option" where
  "GetFullComponentLabel l = map_option (getGroupName l) (GetComponentLabel l)"

definition GetMonitoringServiceName :: "labeller \<Rightarrow> string option" where
  "GetMonitoringServiceName l = map_option (\<lambda>s. s @ ''-monitoring'') (GetFullComponentLabel l)"

definition service_address :: "labeller \<Rightarrow> string \<Rightarrow> string" where
  "service_address l svc = svc @ ''.'' @ l_Namespace l @ ''.svc.'' @ l_ClusterDomain l"

definition GetHeadlessServiceAddress :: "labeller \<Rightarrow> string option" where
  "GetHeadlessServiceAddress l = map_option (service_address l) (GetHeadlessServiceName l)"

definition GetBalancerServiceAddress :: "labeller \<Rightarrow> string option" where
  "GetBalancerServiceAddress l = map_option (service_address l) (GetBalancerServiceName l)"

definition GetInstanceAddressWildcard :: "labeller \<Rightarrow> string option" where
  "GetInstanceAddressWildcard l =
    map_option (\<lambda>s. ''*.'' @ service_address l s) (GetHeadlessServiceName l)"

definition GetInstanceAddressPort :: "labeller \<Rightarrow> nat \<Rightarrow> nat \<Rightarrow> string option" where
  "GetInstanceAddressPort l index port = do {
     sts \<leftarrow> GetServerStatefulSetName l;
     svc \<leftarrow> GetHeadlessServiceName l;
     Some (sts @ ''-'' @ show_nat index @ ''.'' @ service_address l svc @ '':'' @ show_nat port)
   }"

text \<open>\<open>make([]string, n)\<close> panics for a negative length; nothing is built when a name panics.\<close>

definition GetInstanceAddresses :: "labeller \<Rightarrow> int \<Rightarrow> nat \<Rightarrow> string list option" where
  "GetInstanceAddresses l instanceCount port =
    (if instanceCount < 0 then None
     else those (map (\<lambda>index. GetInstanceAddressPort l index port) [0 ..< nat instanceCount]))"

definition GetServerConfigName :: "labeller \<Rightarrow> string option" where
  "GetServerConfigName l =
    map_option (\<lambda>s. ''ytserver-'' @ s) (GetServiceKebabCase (l_ComponentType l))"

definition GetCypressPatchConfigMapName :: "labeller \<Rightarrow> string" where
  "GetCypressPatchConfigMapName l = getName l ''yt-cypress-patch'' ''''"

definition GetCypressPatchFileName :: "labeller \<Rightarrow> string \<Rightarrow> string option" where
  "GetCypressPatchFileName l name0 = map_option (\<lambda>s. s @ ''-'' @ name0) (GetFullComponentLabel l)"

definition GetSecretName :: "labeller \<Rightarrow> string option" where
  "GetSecretName l = map_option (\<lambda>s. s @ ''-secret'') (GetFullComponentLabel l)"

definition GetSidecarSecretName :: "labeller \<Rightarrow> string \<Rightarrow> string option" where
  "GetSidecarSecretName l name0 =
    map_option (\<lambda>s. s @ ''-'' @ name0 @ ''-secret'') (GetFullComponentLabel l)"

definition GetMainConfigMapName :: "labeller \<Rightarrow> string option" where
  "GetMainConfigMapName l = map_option (\<lambda>s. s @ ''-config'') (GetFullComponentLabel l)"

definition GetSidecarConfigMapName :: "labeller \<Rightarrow> string \<Rightarrow> string option" where
  "GetSidecarConfigMapName l name0 =
    map_option (\<lambda>s. s @ ''-'' @ name0 @ ''-config'') (GetFullComponentLabel l)"

definition GetInitJobName :: "labeller \<Rightarrow> string \<Rightarrow> string option" where
  "GetInitJobName l name0 = map_option (\<lambda>s. s @ ''-init-job-'' @ name0) (GetFullComponentLabel l)"

definition GetInitJobConfigMapName :: "labeller \<Rightarrow> string \<Rightarrow> string option" where
  "GetInitJobConfigMapName l name0 =
    map_option (\<lambda>s. s @ ''-init-job-'' @ name0 @ ''-config'') (GetFullComponentLabel l)"

section \<open>Names of conditions\<close>

definition GetCondition :: "labeller \<Rightarrow> string \<Rightarrow> string" where
  "GetCondition l suffix0 = GetFullComponentName l @ suffix0"

definition GetReadyCondition :: "labeller \<Rightarrow> string" where
  "GetReadyCondition l = GetCondition l ''Ready''"

definition GetInitJobCompletedCondition :: "labeller \<Rightarrow> string \<Rightarrow> string" where
  "GetInitJobCompletedCondition l name0 = name0 @ GetCondition l ''InitJobCompleted''"

definition GetPodsRemovingStartedCondition :: "labeller \<Rightarrow> string" where
  "GetPodsRemovingStartedCondition l = GetCondition l ''PodsRemovingStarted''"

definition GetPodsRemovedCondition :: "labeller \<Rightarrow> string" where
  "GetPodsRemovedCondition l = GetCondition l ''PodsRemoved''"

definition GetPodsUpdatedCondition :: "labeller \<Rightarrow> string" where
  "GetPodsUpdatedCondition l = GetCondition l ''PodsUpdated''"

definition GetPreChecksRunningCondition :: "labeller \<Rightarrow> string" where
  "GetPreChecksRunningCondition l = GetCondition l ''PreChecksRunning''"

definition GetScalingDownCondition :: "labeller \<Rightarrow> string" where
  "GetScalingDownCondition l = GetCondition l ''ScalingDown''"

definition GetScalingUpCondition :: "labeller \<Rightarrow> string" where
  "GetScalingUpCondition l = GetCondition l ''ScalingUp''"

definition GetWaitingOnDeleteUpdateCondition :: "labeller \<Rightarrow> string" where
  "GetWaitingOnDeleteUpdateCondition l = GetCondition l ''WaitingOnDeleteUpdate''"

definition GetRollingBudgetExhaustedCondition :: "labeller \<Rightarrow> string" where
  "GetRollingBudgetExhaustedCondition l = GetCondition l ''RollingBudgetExhausted''"

section \<open>Labels\<close>

definition GetInstanceLabelValue :: "labeller \<Rightarrow> bool \<Rightarrow> string option" where
  "GetInstanceLabelValue l isInitJob =
    map_option (\<lambda>s. let result = l_ResourceName l @ ''-'' @ s
                    in if isInitJob then result @ ''-'' @ ''init-job'' else result)
      (GetFullComponentLabel l)"

definition GetComponentTypeLabelValue :: "labeller \<Rightarrow> bool \<Rightarrow> string option" where
  "GetComponentTypeLabelValue l isInitJob =
    (if isInitJob then map_option (\<lambda>s. s @ ''-'' @ ''init-job'') (GetComponentLabel l)
     else GetComponentLabel l)"

definition GetPartOfLabelValue :: "labeller \<Rightarrow> string" where
  "GetPartOfLabelValue l = ''yt-'' @ l_ClusterName l"

definition GetSelectorLabelMap :: "labeller \<Rightarrow> (string \<rightharpoonup> string) option" where
  "GetSelectorLabelMap l = map_option (\<lambda>v. [''yt_component'' \<mapsto> v]) (GetInstanceLabelValue l False)"

definition GetMetaLabelMap :: "labeller \<Rightarrow> bool \<Rightarrow> (string \<rightharpoonup> string) option" where
  "GetMetaLabelMap l isInitJob = do {
     typeValue \<leftarrow> GetComponentTypeLabelValue l isInitJob;
     full \<leftarrow> GetFullComponentLabel l;
     inst \<leftarrow> GetInstanceLabelValue l isInitJob;
     Some [''app.kubernetes.io/name'' \<mapsto> typeValue,
           ''app.kubernetes.io/component'' \<mapsto> full,
           ''app.kubernetes.io/part-of'' \<mapsto> GetPartOfLabelValue l,
           ''app.kubernetes.io/managed-by'' \<mapsto> ''ytsaurus-k8s-operator'',
           ''ytsaurus.tech/cluster-name'' \<mapsto> l_ClusterName l,
           ''yt_component'' \<mapsto> inst]
   }"

definition GetMonitoringMetaLabelMap :: "labeller \<Rightarrow> (string \<rightharpoonup> string) option" where
  "GetMonitoringMetaLabelMap l =
    map_option (\<lambda>labels. labels(''yt_metrics'' \<mapsto> ''true'')) (GetMetaLabelMap l False)"

end
