(* ===== verification/Conditions.thy ===== *)
theory Conditions
  imports Labeller "HOL-Library.Product_Lexorder" "HOL-Library.Multiset"
begin

text \<open>
  Lists of status conditions.  The functions of \<open>k8s.io/apimachinery/pkg/api/meta\<close> are a parameter,
  the record \<open>meta_api\<close>; \<open>meta_laws\<close> states their documented behaviour.  The theory models
  \<open>sortConditions\<close> of \<open>pkg/apiproxy/proxy.go\<close> and \<open>pkg/checks/conditions.go\<close>, and proves what a
  condition list answers after each operation.
\<close>

section \<open>The interface of apimachinery\<close>

record meta_api =
  m_Find :: "condition list \<Rightarrow> string \<Rightarrow> condition option"
  m_Set :: "condition list \<Rightarrow> condition \<Rightarrow> condition list \<times> bool"
  m_Remove :: "condition list \<Rightarrow> string \<Rightarrow> condition list"
  m_IsTrue :: "condition list \<Rightarrow> string \<Rightarrow> bool"
  m_IsFalse :: "condition list \<Rightarrow> string \<Rightarrow> bool"

text \<open>The first condition of a type, and the list with it replaced in place or appended.\<close>

definition cond_find :: "condition list \<Rightarrow> string \<Rightarrow> condition option" where
  "cond_find cs t = List.find (\<lambda>c. c_Type c = t) cs"

fun cond_put :: "condition list \<Rightarrow> condition \<Rightarrow> condition list" where
  "cond_put [] c = [c]"
| "cond_put (x # xs) c = (if c_Type x = c_Type c then c # xs else x # cond_put xs c)"

definition same_content :: "condition \<Rightarrow> condition \<Rightarrow> bool" where
  "same_content a b \<longleftrightarrow> c_Status a = c_Status b \<and> c_Reason a = c_Reason b \<and>
     c_Message a = c_Message b \<and> c_ObservedGeneration a = c_ObservedGeneration b"

text \<open>
  Documentation of \<open>meta.SetStatusCondition\<close>: all fields of an existing condition of that type are
  updated, the transition time only if the status differs; otherwise the condition is appended.
  The result tells whether the list changed.
\<close>

definition set_law :: "(condition list \<Rightarrow> condition \<Rightarrow> condition list \<times> bool) \<Rightarrow> bool" where
  "set_law f \<longleftrightarrow> (\<forall>cs c. \<exists>time.
     fst (f cs c) = cond_put cs (c\<lparr>c_LastTransitionTime := time\<rparr>) \<and>
     (case cond_find cs (c_Type c) of
        None \<Rightarrow> snd (f cs c)
      | Some old \<Rightarrow> snd (f cs c) = (\<not> same_content old c) \<and>
                    (c_Status old = c_Status c \<longrightarrow> time = c_LastTransitionTime old)))"

definition meta_laws :: "'a meta_api_scheme \<Rightarrow> bool" where
  "meta_laws M \<longleftrightarrow>
     (\<forall>cs t. m_Find M cs t = cond_find cs t) \<and>
     set_law (m_Set M) \<and>
     (\<forall>cs t. m_Remove M cs t = filter (\<lambda>c. c_Type c \<noteq> t) cs) \<and>
     (\<forall>cs t. m_IsTrue M cs t = (map_option c_Status (cond_find cs t) = Some ConditionTrue)) \<and>
     (\<forall>cs t. m_IsFalse M cs t = (map_option c_Status (cond_find cs t) = Some ConditionFalse))"

section \<open>Sorting\<close>

definition status_index :: "condition_status \<Rightarrow> int" where
  "status_index s =
    (if s = ConditionTrue then 0 else if s = ConditionFalse then 1
     else if s = ConditionUnknown then 2 else -1)"

definition sortConditions :: "condition list \<Rightarrow> condition list" where
  "sortConditions = sort_key (\<lambda>c. (status_index (c_Status c), c_LastTransitionTime c))"

section \<open>Making and merging conditions\<close>

definition MakeCondition :: "string \<Rightarrow> bool \<Rightarrow> string \<Rightarrow> go_error \<Rightarrow> condition" where
  "MakeCondition conditionType ok msg err =
    (let condition = \<lparr>c_Type = conditionType, c_Status = ConditionTrue, c_ObservedGeneration = 0,
                      c_LastTransitionTime = 0, c_Reason = ''OK'', c_Message = msg\<rparr>
     in case err of
          Some e \<Rightarrow> condition\<lparr>c_Status := ConditionUnknown, c_Reason := ''Error'',
                             c_Message := msg @ '' Error: '' @ e\<rparr>
        | None \<Rightarrow> if \<not> ok then condition\<lparr>c_Status := ConditionFalse, c_Reason := ''Failure''\<rparr>
                  else condition)"

definition MergeConditions_step ::
  "(string \<Rightarrow> condition option) \<Rightarrow> string \<Rightarrow> condition \<Rightarrow> condition" where
  "MergeConditions_step getter input output =
    (let cond = ptr_deref (getter input)
           \<lparr>c_Type = input, c_Status = ConditionUnknown, c_ObservedGeneration = 0,
            c_LastTransitionTime = 0, c_Reason = ''Unknown'', c_Message = ''Status not found''\<rparr>
     in if c_Status cond \<noteq> ConditionTrue then
          let output1 = (if c_Status cond = ConditionFalse \<or> c_Status output = ConditionTrue
                         then output\<lparr>c_Status := c_Status cond, c_Reason := c_Reason cond\<rparr>
                         else output)
          in output1\<lparr>c_Message := c_Message output1 @ c_Type cond @ '' '' @ c_Reason cond @ '': '' @
                      c_Message cond @ [CHR 0x0A]\<rparr>
        else output)"

definition MergeConditions ::
  "condition \<Rightarrow> (string \<Rightarrow> condition option) \<Rightarrow> string list \<Rightarrow> condition" where
  "MergeConditions output getter inputs = fold (MergeConditions_step getter) inputs output"

section \<open>Facts on condition lists\<close>

definition cond_wf :: "condition list \<Rightarrow> bool" where
  "cond_wf cs \<longleftrightarrow> distinct (map c_Type cs)"

lemma cond_find_Some: "cond_find cs t = Some c \<Longrightarrow> c \<in> set cs \<and> c_Type c = t"
  unfolding cond_find_def by (auto simp: find_Some_iff)

lemma cond_find_None: "cond_find cs t = None \<longleftrightarrow> t \<notin> c_Type ` set cs"
  unfolding cond_find_def by (auto simp: find_None_iff)

lemma cond_find_distinct:
  assumes "cond_wf cs"
  shows "cond_find cs t = Some c \<longleftrightarrow> c \<in> set cs \<and> c_Type c = t"
proof
  assume "c \<in> set cs \<and> c_Type c = t"
  moreover then obtain d where "cond_find cs t = Some d"
    using cond_find_None[of cs t] by (cases "cond_find cs t") auto
  ultimately show "cond_find cs t = Some c"
    using assms cond_find_Some[of cs t d] inj_onD[of c_Type "set cs" c d]
    by (auto simp: cond_wf_def distinct_map)
qed (rule cond_find_Some)

lemma cond_find_put:
  "cond_find (cond_put cs c) t = (if t = c_Type c then Some c else cond_find cs t)"
  by (induction cs) (auto simp: cond_find_def)

lemma types_cond_put:
  "map c_Type (cond_put cs c) =
    (if c_Type c \<in> c_Type ` set cs then map c_Type cs else map c_Type cs @ [c_Type c])"
  by (induction cs) auto

lemma cond_wf_put [simp, intro]: "cond_wf cs \<Longrightarrow> cond_wf (cond_put cs c)"
  by (auto simp: cond_wf_def types_cond_put)

lemma cond_wf_filter [simp, intro]: "cond_wf cs \<Longrightarrow> cond_wf (filter P cs)"
  by (auto simp: cond_wf_def distinct_map_filter)

lemma cond_wf_Nil [simp]: "cond_wf []"
  by (simp add: cond_wf_def)

lemma cond_find_filter:
  "cond_find (filter (\<lambda>c. c_Type c \<noteq> s) cs) t = (if t = s then None else cond_find cs t)"
  by (induction cs) (auto simp: cond_find_def)

lemma set_sortConditions [simp]: "set (sortConditions cs) = set cs"
  by (simp add: sortConditions_def)

lemma mset_sortConditions [simp]: "mset (sortConditions cs) = mset cs"
  by (simp add: sortConditions_def)

lemma cond_wf_sort [simp]: "cond_wf (sortConditions cs) = cond_wf cs"
proof -
  have "mset (map c_Type (sortConditions cs)) = mset (map c_Type cs)" by simp
  then show ?thesis unfolding cond_wf_def by (metis mset_eq_imp_distinct_iff)
qed

lemma cond_find_sort: "cond_wf cs \<Longrightarrow> cond_find (sortConditions cs) t = cond_find cs t"
  by (rule option_eqI) (simp add: cond_find_distinct)

text \<open>The list after a \<open>SetStatusCondition\<close>, in terms of the laws.\<close>

lemma meta_set:
  assumes "meta_laws M"
  obtains time where
    "fst (m_Set M cs c) = cond_put cs (c\<lparr>c_LastTransitionTime := time\<rparr>)"
  using assms unfolding meta_laws_def set_law_def by blast

lemma meta_laws_simps:
  assumes "meta_laws M"
  shows "m_Find M cs t = cond_find cs t"
    and "m_Remove M cs t = filter (\<lambda>c. c_Type c \<noteq> t) cs"
    and "m_IsTrue M cs t = (map_option c_Status (cond_find cs t) = Some ConditionTrue)"
    and "m_IsFalse M cs t = (map_option c_Status (cond_find cs t) = Some ConditionFalse)"
  using assms unfolding meta_laws_def by blast+

lemma meta_set_status:
  assumes "meta_laws M"
  shows "map_option c_Status (cond_find (fst (m_Set M cs c)) t) =
    (if t = c_Type c then Some (c_Status c) else map_option c_Status (cond_find cs t))"
proof -
  obtain time where "fst (m_Set M cs c) = cond_put cs (c\<lparr>c_LastTransitionTime := time\<rparr>)"
    using meta_set[OF assms] .
  then show ?thesis by (simp add: cond_find_put)
qed

lemma meta_set_find_other:
  assumes "meta_laws M" and "t \<noteq> c_Type c"
  shows "cond_find (fst (m_Set M cs c)) t = cond_find cs t"
proof -
  obtain time where "fst (m_Set M cs c) = cond_put cs (c\<lparr>c_LastTransitionTime := time\<rparr>)"
    using meta_set[OF assms(1)] .
  then show ?thesis using assms(2) by (simp add: cond_find_put)
qed

lemma meta_set_wf [simp, intro]: "meta_laws M \<Longrightarrow> cond_wf cs \<Longrightarrow> cond_wf (fst (m_Set M cs c))"
  by (metis meta_set cond_wf_put)

section \<open>Merging\<close>

text \<open>What a merge sees of an input: a missing condition is unknown.\<close>

definition input_status :: "(string \<Rightarrow> condition option) \<Rightarrow> string \<Rightarrow> condition_status" where
  "input_status getter i = (case getter i of None \<Rightarrow> ConditionUnknown | Some c \<Rightarrow> c_Status c)"

lemma MergeConditions_step_status:
  "c_Status (MergeConditions_step g i out) =
    (if input_status g i = ConditionTrue then c_Status out
     else if input_status g i = ConditionFalse \<or> c_Status out = ConditionTrue
     then input_status g i else c_Status out)"
  by (auto simp: MergeConditions_step_def input_status_def Let_def split: option.splits)

lemma MergeConditions_Cons:
  "MergeConditions out g (i # is) = MergeConditions (MergeConditions_step g i out) g is"
  by (simp add: MergeConditions_def)

lemma MergeConditions_Nil [simp]: "MergeConditions out g [] = out"
  by (simp add: MergeConditions_def)

lemma MergeConditions_step_type [simp]: "c_Type (MergeConditions_step g i out) = c_Type out"
  by (auto simp: MergeConditions_step_def Let_def)

lemma MergeConditions_type [simp]: "c_Type (MergeConditions out g is) = c_Type out"
  by (induction "is" arbitrary: out) (simp_all add: MergeConditions_Cons)

section \<open>A concrete implementation\<close>

text \<open>
  An implementation that satisfies the laws, with the time fixed at \<open>now\<close>.
\<close>

definition meta_set_at :: "int \<Rightarrow> condition list \<Rightarrow> condition \<Rightarrow> condition list \<times> bool" where
  "meta_set_at now cs c =
    (case cond_find cs (c_Type c) of
       None \<Rightarrow> (cond_put cs (c\<lparr>c_LastTransitionTime := now\<rparr>), True)
     | Some old \<Rightarrow>
         (cond_put cs (c\<lparr>c_LastTransitionTime :=
            (if c_Status old = c_Status c then c_LastTransitionTime old else now)\<rparr>),
          \<not> same_content old c))"

definition meta_at :: "int \<Rightarrow> meta_api" where
  "meta_at now = \<lparr>m_Find = cond_find, m_Set = meta_set_at now,
     m_Remove = (\<lambda>cs t. filter (\<lambda>c. c_Type c \<noteq> t) cs),
     m_IsTrue = (\<lambda>cs t. map_option c_Status (cond_find cs t) = Some ConditionTrue),
     m_IsFalse = (\<lambda>cs t. map_option c_Status (cond_find cs t) = Some ConditionFalse)\<rparr>"

lemma set_law_meta_set_at: "set_law (meta_set_at now)"
  unfolding set_law_def meta_set_at_def by (auto split: option.splits)

lemma meta_laws_meta_at [simp]: "meta_laws (meta_at now)"
  by (simp add: meta_laws_def meta_at_def set_law_meta_set_at)

end
