(* ===== verification/Api_Proxy.thy ===== *)
theory Api_Proxy
  imports Conditions
begin

text \<open>
  The proxy of the operator to the API server, \<open>pkg/apiproxy/proxy.go\<close>, on a \<open>Ytsaurus\<close> object.

  The state \<open>yts\<close> holds the object in memory, the events recorded so far, the metrics observed and
  the objects whose status the API server has accepted.  It is an extensible record: components
  add their own objects to it, and every operation here keeps the extension.  Calls to the API
  server are a parameter, the record \<open>env\<close>.
\<close>

section \<open>State and environment\<close>

datatype event_type = EventTypeNormal | EventTypeWarning

record event =
  ev_Type :: event_type
  ev_Reason :: string
  ev_Message :: string

record wait_metric =
  wm_Cluster :: string
  wm_Namespace :: string
  wm_Component :: string
  wm_Since :: "int option"

text \<open>The gauges of \<open>pkg/metrics\<close>: cluster, namespace and component, then the value.\<close>

datatype metric =
    OnDeleteWait wait_metric
  | RollingBudgetExhausted string string string bool

record yts =
  w_object :: ytsaurus
  w_events :: "event list"
  w_metrics :: "metric list"
  w_saved :: "ytsaurus list"

text \<open>
  \<open>e_StatusUpdate\<close> is the client's \<open>Status().Update\<close>; \<open>e_Version\<close> the operator version set at
  link time; \<open>e_Now\<close> the clock in seconds.
\<close>

record env = meta_api +
  e_StatusUpdate :: "ytsaurus \<Rightarrow> go_error"
  e_Version :: string
  e_Now :: int

definition mkcond :: "string \<Rightarrow> condition_status \<Rightarrow> string \<Rightarrow> string \<Rightarrow> condition" where
  "mkcond t s r m = \<lparr>c_Type = t, c_Status = s, c_ObservedGeneration = 0,
     c_LastTransitionTime = 0, c_Reason = r, c_Message = m\<rparr>"

lemma mkcond_simps [simp]:
  "c_Type (mkcond t s r m) = t" "c_Status (mkcond t s r m) = s"
  "c_Reason (mkcond t s r m) = r" "c_Message (mkcond t s r m) = m"
  by (simp_all add: mkcond_def)

definition map_status :: "(ytsaurus_status \<Rightarrow> ytsaurus_status) \<Rightarrow> 'x yts_scheme \<Rightarrow> 'x yts_scheme" where
  "map_status f w = w\<lparr>w_object := (w_object w)\<lparr>yt_Status := f (yt_Status (w_object w))\<rparr>\<rparr>"

definition map_update_status :: "(update_status \<Rightarrow> update_status) \<Rightarrow> 'x yts_scheme \<Rightarrow> 'x yts_scheme" where
  "map_update_status f = map_status (\<lambda>s. s\<lparr>st_UpdateStatus := f (st_UpdateStatus s)\<rparr>)"

abbreviation update_status_of :: "'x yts_scheme \<Rightarrow> update_status" where
  "update_status_of w \<equiv> st_UpdateStatus (yt_Status (w_object w))"

section \<open>The generic proxy\<close>

definition RecordWarning :: "string \<Rightarrow> string \<Rightarrow> 'x yts_scheme \<Rightarrow> 'x yts_scheme" where
  "RecordWarning reason message w =
    w\<lparr>w_events := w_events w @ [\<lparr>ev_Type = EventTypeWarning, ev_Reason = reason, ev_Message = message\<rparr>]\<rparr>"

definition RecordNormal :: "string \<Rightarrow> string \<Rightarrow> 'x yts_scheme \<Rightarrow> 'x yts_scheme" where
  "RecordNormal reason message w =
    w\<lparr>w_events := w_events w @ [\<lparr>ev_Type = EventTypeNormal, ev_Reason = reason, ev_Message = message\<rparr>]\<rparr>"

definition SetStatusCondition :: "'a meta_api_scheme \<Rightarrow> condition \<Rightarrow> 'x yts_scheme \<Rightarrow> 'x yts_scheme" where
  "SetStatusCondition M condition w =
    (let object = w_object w;
         conditions = fst (m_Set M (GetStatusConditions object)
                            (condition\<lparr>c_ObservedGeneration := yt_Generation object\<rparr>))
     in w\<lparr>w_object := SetStatusConditions (sortConditions conditions) object\<rparr>)"

definition RemoveStatusCondition :: "'a meta_api_scheme \<Rightarrow> string \<Rightarrow> 'x yts_scheme \<Rightarrow> 'x yts_scheme" where
  "RemoveStatusCondition M conditionType w =
    w\<lparr>w_object := SetStatusConditions
        (m_Remove M (GetStatusConditions (w_object w)) conditionType) (w_object w)\<rparr>"

definition GetStatusCondition :: "'a meta_api_scheme \<Rightarrow> string \<Rightarrow> 'x yts_scheme \<Rightarrow> condition option" where
  "GetStatusCondition M conditionType w =
    m_Find M (GetStatusConditions (w_object w)) conditionType"

definition IsStatusConditionTrue :: "'a meta_api_scheme \<Rightarrow> string \<Rightarrow> 'x yts_scheme \<Rightarrow> bool" where
  "IsStatusConditionTrue M conditionType w =
    m_IsTrue M (GetStatusConditions (w_object w)) conditionType"

definition IsStatusConditionFalse :: "'a meta_api_scheme \<Rightarrow> string \<Rightarrow> 'x yts_scheme \<Rightarrow> bool" where
  "IsStatusConditionFalse M conditionType w =
    m_IsFalse M (GetStatusConditions (w_object w)) conditionType"

definition IsStatusConditionTrueAndObservedGeneration ::
  "'a meta_api_scheme \<Rightarrow> string \<Rightarrow> 'x yts_scheme \<Rightarrow> bool" where
  "IsStatusConditionTrueAndObservedGeneration M conditionType w =
    (case GetStatusCondition M conditionType w of
       None \<Rightarrow> False
     | Some cond \<Rightarrow> c_Status cond = ConditionTrue \<and>
                    c_ObservedGeneration cond = yt_Generation (w_object w))"

abbreviation "ConditionOperatorVersion \<equiv> ''OperatorVersion''"

definition updateOperatorVersion :: "'e env_scheme \<Rightarrow> 'x yts_scheme \<Rightarrow> 'x yts_scheme \<times> bool" where
  "updateOperatorVersion E w =
    (let object = w_object w;
         conditions0 = GetStatusConditions object;
         conditions1 =
           (case m_Find E conditions0 ConditionOperatorVersion of
              Some condition \<Rightarrow>
                if c_Message condition \<noteq> e_Version E
                then m_Remove E conditions0 ConditionOperatorVersion else conditions0
            | None \<Rightarrow> conditions0);
         (conditions2, changed) = m_Set E conditions1
           ((mkcond ConditionOperatorVersion ConditionTrue ''Observed'' (e_Version E))
              \<lparr>c_ObservedGeneration := yt_Generation object\<rparr>)
     in (w\<lparr>w_object := SetStatusConditions conditions2 object\<rparr>, changed))"

definition UpdateStatus :: "'e env_scheme \<Rightarrow> 'x yts_scheme \<Rightarrow> 'x yts_scheme \<times> go_error" where
  "UpdateStatus E w =
    (let w1 = fst (updateOperatorVersion E w);
         err = e_StatusUpdate E (w_object w1)
     in (if err = None then w1\<lparr>w_saved := w_saved w1 @ [w_object w1]\<rparr> else w1, err))"

definition SyncObservedGeneration :: "'e env_scheme \<Rightarrow> 'x yts_scheme \<Rightarrow> 'x yts_scheme \<times> bool" where
  "SyncObservedGeneration E w =
    (let generation = yt_Generation (w_object w);
         (w1, updated) =
           (if GetStatusObservedGeneration (w_object w) \<noteq> generation
            then (w\<lparr>w_object := SetStatusObservedGeneration generation (w_object w)\<rparr>, True)
            else (w, False));
         (w2, changed) = updateOperatorVersion E w1
     in (w2, if changed then True else updated))"

section \<open>Managed objects\<close>

text \<open>
  Metadata of a Kubernetes object, with its content as the parameter \<open>'p\<close>.  An object that was
  never fetched has the empty resource version.
\<close>

record 'p k8s_object =
  o_Name :: string
  o_GoType :: string
  o_Annotations :: "(string \<rightharpoonup> string) option"
  o_ResourceVersion :: string
  o_Finalizers :: "string list"
  o_Content :: 'p

datatype 'p k8s_request = CreateObject "'p k8s_object" | UpdateObject "'p k8s_object"
  | DeleteRequest "'p k8s_object"

datatype client_error = NotFoundError | ClientError string

record 'p object_client =
  oc_Get :: "string \<Rightarrow> 'p k8s_object + client_error"
  oc_SetControllerReference :: "'p k8s_object \<Rightarrow> 'p k8s_object \<times> go_error"
  oc_Create :: "'p k8s_object \<Rightarrow> go_error"
  oc_Update :: "'p k8s_object \<Rightarrow> go_error"
  oc_Delete :: "'p k8s_object \<Rightarrow> client_error option"

text \<open>A missing object is not an error: the target keeps its initial content.\<close>

definition FetchObject :: "'p object_client \<Rightarrow> string \<Rightarrow> 'p k8s_object \<Rightarrow> 'p k8s_object \<times> client_error option" where
  "FetchObject C name0 obj =
    (case oc_Get C name0 of
       Inl found \<Rightarrow> (found, None)
     | Inr NotFoundError \<Rightarrow> (obj, None)
     | Inr err \<Rightarrow> (obj, Some err))"

definition ObservedGenerationAnnotationName :: string where
  "ObservedGenerationAnnotationName = ''ytsaurus.tech/observed-generation''"

definition IsObjectUpdated :: "'p k8s_object \<Rightarrow> 'x yts_scheme \<Rightarrow> bool" where
  "IsObjectUpdated obj w \<longleftrightarrow>
    ptr_deref (case o_Annotations obj of None \<Rightarrow> None
               | Some a \<Rightarrow> a ObservedGenerationAnnotationName) '''' =
    show_int (yt_Generation (w_object w))"

definition updateObject ::
  "'p object_client \<Rightarrow> 'p k8s_object \<Rightarrow> 'x yts_scheme \<Rightarrow> 'x yts_scheme \<times> 'p k8s_request list \<times> go_error" where
  "updateObject C obj w =
    (case oc_SetControllerReference C obj of
       (_, Some err) \<Rightarrow> (w, [], Some err)
     | (owned, None) \<Rightarrow>
         (case oc_Update C owned of
            Some err \<Rightarrow>
              (RecordWarning ''Reconciliation''
                 (''Failed to update YT object '' @ o_Name obj @ '': '' @ err) w, [UpdateObject owned], Some err)
          | None \<Rightarrow>
              (RecordNormal ''Reconciliation''
                 (''Updated YT object '' @ o_Name obj @ '' ('' @ o_GoType obj @ '')'') w,
               [UpdateObject owned], None)))"

definition createAndReferenceObject ::
  "'p object_client \<Rightarrow> 'p k8s_object \<Rightarrow> 'x yts_scheme \<Rightarrow> 'x yts_scheme \<times> 'p k8s_request list \<times> go_error" where
  "createAndReferenceObject C obj w =
    (case oc_SetControllerReference C obj of
       (_, Some err) \<Rightarrow> (w, [], Some err)
     | (owned, None) \<Rightarrow>
         (case oc_Create C owned of
            Some err \<Rightarrow>
              (RecordWarning ''Reconciliation''
                 (''Failed to create YT object '' @ o_Name obj @ '': '' @ err) w, [CreateObject owned], Some err)
          | None \<Rightarrow>
              (RecordNormal ''Reconciliation''
                 (''Created YT object '' @ o_Name obj @ '' ('' @ o_GoType obj @ '')'') w,
               [CreateObject owned], None)))"

definition SyncObject ::
  "'p object_client \<Rightarrow> 'p k8s_object \<Rightarrow> 'p k8s_object \<Rightarrow> 'x yts_scheme \<Rightarrow>
   'x yts_scheme \<times> 'p k8s_request list \<times> go_error" where
  "SyncObject C oldObj newObj w =
    (if o_Name newObj = '''' then
       (w, [], Some (''cannot sync uninitialized object, object type '' @ o_GoType oldObj))
     else
       let annotations = (case o_Annotations newObj of None \<Rightarrow> Map.empty | Some a \<Rightarrow> a)
             (ObservedGenerationAnnotationName \<mapsto> show_int (yt_Generation (w_object w)));
           newObj1 = newObj\<lparr>o_Annotations := Some annotations\<rparr>
       in if o_ResourceVersion oldObj = '''' then createAndReferenceObject C newObj1 w
          else updateObject C (newObj1\<lparr>o_ResourceVersion := o_ResourceVersion oldObj,
                                       o_Finalizers := o_Finalizers oldObj\<rparr>) w)"

definition DeleteObject ::
  "'p object_client \<Rightarrow> 'p k8s_object \<Rightarrow> 'x yts_scheme \<Rightarrow>
   'x yts_scheme \<times> 'p k8s_request list \<times> client_error option" where
  "DeleteObject C obj w =
    (case oc_Delete C obj of
       Some (ClientError e) \<Rightarrow>
         (RecordWarning ''Reconciliation''
            (''Failed to delete YT object '' @ o_Name obj @ '': '' @ e) w,
          [DeleteRequest obj], Some (ClientError e))
     | _ \<Rightarrow>
         (RecordNormal ''Reconciliation''
            (''Deleted YT object '' @ o_Name obj @ '' ('' @ o_GoType obj @ '')'') w,
          [DeleteRequest obj], None))"

section \<open>Facts\<close>

lemma map_status_fields [simp]:
  "yt_Status (w_object (map_status f w)) = f (yt_Status (w_object w))"
  "yt_Spec (w_object (map_status f w)) = yt_Spec (w_object w)"
  "yt_Generation (w_object (map_status f w)) = yt_Generation (w_object w)"
  "w_events (map_status f w) = w_events w"
  "w_saved (map_status f w) = w_saved w"
  "w_metrics (map_status f w) = w_metrics w"
  by (simp_all add: map_status_def)

lemma map_update_status_fields [simp]:
  "update_status_of (map_update_status f w) = f (update_status_of w)"
  "st_State (yt_Status (w_object (map_update_status f w))) = st_State (yt_Status (w_object w))"
  "st_Conditions (yt_Status (w_object (map_update_status f w))) = st_Conditions (yt_Status (w_object w))"
  "st_ObservedGeneration (yt_Status (w_object (map_update_status f w))) =
     st_ObservedGeneration (yt_Status (w_object w))"
  "yt_Spec (w_object (map_update_status f w)) = yt_Spec (w_object w)"
  "yt_Generation (w_object (map_update_status f w)) = yt_Generation (w_object w)"
  "w_events (map_update_status f w) = w_events w"
  "w_saved (map_update_status f w) = w_saved w"
  by (simp_all add: map_update_status_def)

lemma Record_object [simp]:
  "w_object (RecordNormal r m w) = w_object w" "w_saved (RecordNormal r m w) = w_saved w"
  "w_object (RecordWarning r m w) = w_object w" "w_saved (RecordWarning r m w) = w_saved w"
  by (simp_all add: RecordNormal_def RecordWarning_def)

lemma SetStatusCondition_frame [simp]:
  "yt_Spec (w_object (SetStatusCondition M c w)) = yt_Spec (w_object w)"
  "yt_Generation (w_object (SetStatusCondition M c w)) = yt_Generation (w_object w)"
  "st_State (yt_Status (w_object (SetStatusCondition M c w))) = st_State (yt_Status (w_object w))"
  "update_status_of (SetStatusCondition M c w) = update_status_of w"
  "w_saved (SetStatusCondition M c w) = w_saved w"
  "w_events (SetStatusCondition M c w) = w_events w"
  by (simp_all add: SetStatusCondition_def Let_def)

lemma RemoveStatusCondition_frame [simp]:
  "yt_Spec (w_object (RemoveStatusCondition M t w)) = yt_Spec (w_object w)"
  "yt_Generation (w_object (RemoveStatusCondition M t w)) = yt_Generation (w_object w)"
  "st_State (yt_Status (w_object (RemoveStatusCondition M t w))) = st_State (yt_Status (w_object w))"
  "update_status_of (RemoveStatusCondition M t w) = update_status_of w"
  "w_saved (RemoveStatusCondition M t w) = w_saved w"
  by (simp_all add: RemoveStatusCondition_def)

lemma updateOperatorVersion_frame [simp]:
  "yt_Spec (w_object (fst (updateOperatorVersion E w))) = yt_Spec (w_object w)"
  "yt_Generation (w_object (fst (updateOperatorVersion E w))) = yt_Generation (w_object w)"
  "st_State (yt_Status (w_object (fst (updateOperatorVersion E w)))) = st_State (yt_Status (w_object w))"
  "update_status_of (fst (updateOperatorVersion E w)) = update_status_of w"
  "w_saved (fst (updateOperatorVersion E w)) = w_saved w"
  by (simp_all add: updateOperatorVersion_def Let_def split: prod.splits)

lemma UpdateStatus_frame [simp]:
  "yt_Spec (w_object (fst (UpdateStatus E w))) = yt_Spec (w_object w)"
  "yt_Generation (w_object (fst (UpdateStatus E w))) = yt_Generation (w_object w)"
  "st_State (yt_Status (w_object (fst (UpdateStatus E w)))) = st_State (yt_Status (w_object w))"
  "update_status_of (fst (UpdateStatus E w)) = update_status_of w"
  by (simp_all add: UpdateStatus_def Let_def)

lemma UpdateStatus_saved:
  "w_saved (fst (UpdateStatus E w)) =
    (if snd (UpdateStatus E w) = None then w_saved w @ [w_object (fst (UpdateStatus E w))]
     else w_saved w)"
  by (simp add: UpdateStatus_def Let_def)

text \<open>What the status conditions of the object answer after each operation.\<close>

definition status_of_cond :: "'x yts_scheme \<Rightarrow> string \<Rightarrow> condition_status option" where
  "status_of_cond w t = map_option c_Status (cond_find (GetStatusConditions (w_object w)) t)"

definition conds_wf :: "'x yts_scheme \<Rightarrow> bool" where
  "conds_wf w \<longleftrightarrow> cond_wf (GetStatusConditions (w_object w)) \<and> cond_wf (us_Conditions (update_status_of w))"

lemma IsStatusCondition_iff:
  assumes "meta_laws M"
  shows "IsStatusConditionTrue M t w \<longleftrightarrow> status_of_cond w t = Some ConditionTrue"
    and "IsStatusConditionFalse M t w \<longleftrightarrow> status_of_cond w t = Some ConditionFalse"
  by (simp_all add: IsStatusConditionTrue_def IsStatusConditionFalse_def status_of_cond_def
      meta_laws_simps[OF assms])

lemma status_of_SetStatusCondition:
  assumes "meta_laws M" and "conds_wf w"
  shows "status_of_cond (SetStatusCondition M c w) t =
    (if t = c_Type c then Some (c_Status c) else status_of_cond w t)"
  using assms
  by (simp add: status_of_cond_def SetStatusCondition_def Let_def cond_find_sort conds_wf_def
      meta_set_status)

lemma status_of_RemoveStatusCondition:
  assumes "meta_laws M"
  shows "status_of_cond (RemoveStatusCondition M s w) t = (if t = s then None else status_of_cond w t)"
  by (simp add: status_of_cond_def RemoveStatusCondition_def meta_laws_simps[OF assms] cond_find_filter)

lemma conds_wf_SetStatusCondition [simp, intro]:
  "meta_laws M \<Longrightarrow> conds_wf w \<Longrightarrow> conds_wf (SetStatusCondition M c w)"
  by (auto simp: conds_wf_def SetStatusCondition_def Let_def)

lemma conds_wf_RemoveStatusCondition [simp, intro]:
  "meta_laws M \<Longrightarrow> conds_wf w \<Longrightarrow> conds_wf (RemoveStatusCondition M t w)"
  by (auto simp: conds_wf_def RemoveStatusCondition_def meta_laws_simps)

lemma GetStatusConditions_updateOperatorVersion:
  "GetStatusConditions (w_object (fst (updateOperatorVersion E w))) =
    (let cs = GetStatusConditions (w_object w);
         cs1 = (case m_Find E cs ConditionOperatorVersion of
                  Some c \<Rightarrow> if c_Message c \<noteq> e_Version E
                           then m_Remove E cs ConditionOperatorVersion else cs
                | None \<Rightarrow> cs)
     in fst (m_Set E cs1 ((mkcond ConditionOperatorVersion ConditionTrue ''Observed'' (e_Version E))
              \<lparr>c_ObservedGeneration := yt_Generation (w_object w)\<rparr>)))"
  by (simp add: updateOperatorVersion_def Let_def split: prod.splits)

lemma conds_wf_updateOperatorVersion [simp, intro]:
  assumes "meta_laws E" and "conds_wf w"
  shows "conds_wf (fst (updateOperatorVersion E w))"
proof -
  have "cond_wf (GetStatusConditions (w_object w))" using assms(2) by (simp add: conds_wf_def)
  then show ?thesis
    using assms unfolding conds_wf_def GetStatusConditions_updateOperatorVersion Let_def
    by (auto simp: meta_laws_simps[OF assms(1)] split: option.splits)
qed

lemma status_of_updateOperatorVersion:
  assumes "meta_laws E" and "t \<noteq> ConditionOperatorVersion"
  shows "status_of_cond (fst (updateOperatorVersion E w)) t = status_of_cond w t"
  unfolding status_of_cond_def GetStatusConditions_updateOperatorVersion Let_def
  using assms(2)
  by (auto simp: meta_set_status[OF assms(1)] meta_laws_simps[OF assms(1)] cond_find_filter
      split: option.splits)

lemma conds_wf_UpdateStatus [simp, intro]:
  "meta_laws E \<Longrightarrow> conds_wf w \<Longrightarrow> conds_wf (fst (UpdateStatus E w))"
  using conds_wf_updateOperatorVersion[of E w]
  by (auto simp: UpdateStatus_def Let_def conds_wf_def)

lemma status_of_UpdateStatus:
  assumes "meta_laws E" and "t \<noteq> ConditionOperatorVersion"
  shows "status_of_cond (fst (UpdateStatus E w)) t = status_of_cond w t"
  using status_of_updateOperatorVersion[OF assms]
  by (auto simp: UpdateStatus_def Let_def status_of_cond_def)

end
