(* ===== verification/Ytsaurus_Proxy.thy ===== *)
theory Ytsaurus_Proxy
  imports Api_Proxy
begin

text \<open>
  The cluster object as the controllers use it, \<open>pkg/apiproxy/ytsaurus.go\<close>: cluster state, update
  state, update conditions, pre-check settings and the summaries shown in the status.
\<close>

section \<open>Queries on the cluster state\<close>

definition GetClusterFeatures :: "'x yts_scheme \<Rightarrow> cluster_features" where
  "GetClusterFeatures c = ptr_deref (sp_ClusterFeatures (yt_Spec (w_object c))) zero_features"

definition GetClusterMaintenance :: "'x yts_scheme \<Rightarrow> cluster_maintenance" where
  "GetClusterMaintenance c = ptr_deref (sp_ClusterMaintenance (yt_Spec (w_object c))) zero_maintenance"

definition GetClusterState :: "'x yts_scheme \<Rightarrow> cluster_state" where
  "GetClusterState c = st_State (yt_Status (w_object c))"

definition ready_to_work_state :: "cluster_state \<Rightarrow> bool" where
  "ready_to_work_state s \<longleftrightarrow> s \<in> {ClusterStateRunning, ClusterStateUpdateBlocked}"

definition IsInitializing :: "'x yts_scheme \<Rightarrow> bool" where
  "IsInitializing c \<longleftrightarrow> GetClusterState c = ClusterStateInitializing"

definition IsReadyToWork :: "'x yts_scheme \<Rightarrow> bool" where
  "IsReadyToWork c \<longleftrightarrow> ready_to_work_state (GetClusterState c)"

definition IsReadyToUpdate :: "'x yts_scheme \<Rightarrow> bool" where
  "IsReadyToUpdate c \<longleftrightarrow> GetClusterState c \<in>
     {ClusterStatePreparing, ClusterStateRunning, ClusterStateUpdateBlocked, ClusterStateMaintenance}"

definition IsReadyForInitJobs :: "'x yts_scheme \<Rightarrow> bool" where
  "IsReadyForInitJobs c \<longleftrightarrow> GetClusterState c \<in>
     {ClusterStateInitializing, ClusterStatePreparing, ClusterStateRunning,
      ClusterStateReconfiguration, ClusterStateMaintenance, ClusterStateUpdateBlocked}"

definition IsUpdating :: "'x yts_scheme \<Rightarrow> bool" where
  "IsUpdating c \<longleftrightarrow> GetClusterState c = ClusterStateUpdating"

abbreviation "ConditionReadyToWork \<equiv> ''ReadyToWork''"

definition SetClusterState ::
  "'a meta_api_scheme \<Rightarrow> cluster_state \<Rightarrow> 'x yts_scheme \<Rightarrow> 'x yts_scheme \<times> bool" where
  "SetClusterState M clusterState c =
    (if st_State (yt_Status (w_object c)) = clusterState then (c, False)
     else
       let c1 = map_status (\<lambda>s. s\<lparr>st_State := clusterState\<rparr>) c;
           readyToWork = (if IsReadyToWork c1 then ConditionTrue else ConditionFalse);
           message = ''Cluster state is '' @ string_of_cluster_state clusterState;
           c2 = SetStatusCondition M
                  (mkcond ConditionReadyToWork readyToWork (string_of_cluster_state clusterState) message) c1
       in (RecordNormal ''ClusterState'' message c2, True))"

section \<open>Update state\<close>

definition GetUpdateState :: "'x yts_scheme \<Rightarrow> update_state" where
  "GetUpdateState c = us_State (update_status_of c)"

definition SetUpdateState :: "update_state \<Rightarrow> 'x yts_scheme \<Rightarrow> 'x yts_scheme" where
  "SetUpdateState updateState = map_update_status (\<lambda>u. u\<lparr>us_State := updateState\<rparr>)"

definition GetUpdatingComponents :: "'x yts_scheme \<Rightarrow> component_ref list" where
  "GetUpdatingComponents c = us_UpdatingComponents (update_status_of c)"

definition IsUpdatingComponent :: "component_type \<Rightarrow> string \<Rightarrow> 'x yts_scheme \<Rightarrow> bool" where
  "IsUpdatingComponent componentType componentName c =
    list_ex (\<lambda>component. ref_type component = componentType \<and> ref_name component = componentName)
      (GetUpdatingComponents c)"

definition IsUpdateStatusConditionTrue :: "'a meta_api_scheme \<Rightarrow> string \<Rightarrow> 'x yts_scheme \<Rightarrow> bool" where
  "IsUpdateStatusConditionTrue M condition c = m_IsTrue M (us_Conditions (update_status_of c)) condition"

definition IsUpdateStatusConditionFalse :: "'a meta_api_scheme \<Rightarrow> string \<Rightarrow> 'x yts_scheme \<Rightarrow> bool" where
  "IsUpdateStatusConditionFalse M condition c = m_IsFalse M (us_Conditions (update_status_of c)) condition"

definition GetUpdateStatusCondition ::
  "'a meta_api_scheme \<Rightarrow> string \<Rightarrow> 'x yts_scheme \<Rightarrow> condition option" where
  "GetUpdateStatusCondition M condition c = m_Find M (us_Conditions (update_status_of c)) condition"

definition SetUpdateStatusCondition ::
  "'a meta_api_scheme \<Rightarrow> condition \<Rightarrow> 'x yts_scheme \<Rightarrow> 'x yts_scheme" where
  "SetUpdateStatusCondition M condition =
    map_update_status (\<lambda>u. u\<lparr>us_Conditions := sortConditions (fst (m_Set M (us_Conditions u) condition))\<rparr>)"

section \<open>Summaries\<close>

definition getLabelerComponentName :: "component_ref \<Rightarrow> string" where
  "getLabelerComponentName component =
    GetComponentShortName ((ForComponent (ref_type component) (ref_name component) zero_labeller)
      \<lparr>l_UseShortNames := True\<rparr>)"

definition BuildComponentsSummary :: "component_ref list \<Rightarrow> string" where
  "BuildComponentsSummary components =
    (if components = [] then ''''
     else ''{'' @ join '' '' (map getLabelerComponentName components) @ ''}'')"

definition SetUpdatingComponents :: "component_ref list \<Rightarrow> 'x yts_scheme \<Rightarrow> 'x yts_scheme" where
  "SetUpdatingComponents canUpdate =
    map_update_status (\<lambda>u. u\<lparr>us_UpdatingComponents := canUpdate,
                             us_UpdatingComponentsSummary := BuildComponentsSummary canUpdate\<rparr>)"

definition SetBlockedComponents :: "component_ref list \<Rightarrow> 'x yts_scheme \<Rightarrow> 'x yts_scheme \<times> bool" where
  "SetBlockedComponents components c =
    (let summary = BuildComponentsSummary components
     in if us_BlockedComponentsSummary (update_status_of c) = summary then (c, False)
        else (map_update_status (\<lambda>u. u\<lparr>us_BlockedComponentsSummary := summary\<rparr>) c, True))"

definition ClearUpdateStatus :: "'x yts_scheme \<Rightarrow> 'x yts_scheme" where
  "ClearUpdateStatus =
    map_update_status (\<lambda>u. \<lparr>us_State = UpdateStateUndefined, us_UpdatingComponents = [],
      us_UpdatingComponentsSummary = '''',
      us_BlockedComponentsSummary = us_BlockedComponentsSummary u, us_Conditions = [],
      us_MasterCellsMaintenance = us_MasterCellsMaintenance u, us_TabletCellBundles = [],
      us_BundleController = None\<rparr>)"

section \<open>Pre-checks\<close>

fun enable_pre_checks :: "update_selector list \<Rightarrow> component_type \<Rightarrow> string \<Rightarrow> bool" where
  "enable_pre_checks [] componentType componentName = True"
| "enable_pre_checks (selector # selectors) componentType componentName =
    (if ref_type (sel_Component selector) = componentType \<and>
        (ref_name (sel_Component selector) = '''' \<or> ref_name (sel_Component selector) = componentName)
     then case sel_Strategy selector of
            Some strategy \<Rightarrow> ptr_deref (strat_RunPreChecks strategy) True
          | None \<Rightarrow> enable_pre_checks selectors componentType componentName
     else enable_pre_checks selectors componentType componentName)"

definition shouldEnablePreChecksFromSpec :: "component_type \<Rightarrow> string \<Rightarrow> 'x yts_scheme \<Rightarrow> bool" where
  "shouldEnablePreChecksFromSpec componentType componentName c =
    enable_pre_checks (sp_UpdatePlan (yt_Spec (w_object c))) componentType componentName"

definition ShouldRunPreChecks ::
  "'a meta_api_scheme \<Rightarrow> component_type \<Rightarrow> string \<Rightarrow> 'x yts_scheme \<Rightarrow> bool" where
  "ShouldRunPreChecks M componentType componentName c =
    (if \<not> shouldEnablePreChecksFromSpec componentType componentName c then False
     else case m_Find M (us_Conditions (update_status_of c)) (componentName @ ''Ready'') of
            Some cond \<Rightarrow> \<not> c_Status cond = ConditionTrue
          | None \<Rightarrow> True)"

section \<open>Saving states\<close>

definition LogUpdate :: "string \<Rightarrow> 'x yts_scheme \<Rightarrow> 'x yts_scheme" where
  "LogUpdate message c = RecordNormal ''Update'' message c"

definition SaveClusterState ::
  "'e env_scheme \<Rightarrow> cluster_state \<Rightarrow> 'x yts_scheme \<Rightarrow> 'x yts_scheme \<times> go_error" where
  "SaveClusterState E clusterState c = UpdateStatus E (fst (SetClusterState E clusterState c))"

definition SaveUpdateState ::
  "'e env_scheme \<Rightarrow> update_state \<Rightarrow> 'x yts_scheme \<Rightarrow> 'x yts_scheme \<times> go_error" where
  "SaveUpdateState E updateState c = UpdateStatus E (SetUpdateState updateState c)"

definition GetUpdateStateCompleteCondition :: "update_state \<Rightarrow> string" where
  "GetUpdateStateCompleteCondition updateState = string_of_update_state updateState @ ''Complete''"

section \<open>Waiting summary and image heater\<close>

text \<open>\<open>time.Duration.String\<close> of a whole number of seconds.\<close>

definition duration_string :: "int \<Rightarrow> string" where
  "duration_string secs =
    (let n = nat (abs secs); h = n div 3600; m = n div 60 mod 60; s = n mod 60
     in (if secs < 0 then ''-'' else '''') @
        (if h > 0 then show_nat h @ ''h'' else '''') @
        (if n \<ge> 60 then show_nat m @ ''m'' else '''') @ show_nat s @ ''s'')"

definition wait_summary_step ::
  "'e env_scheme \<Rightarrow> string \<Rightarrow> bool \<Rightarrow> component_ref \<Rightarrow> 'x yts_scheme \<times> string list \<Rightarrow> 'x yts_scheme \<times> string list" where
  "wait_summary_step E waitingOnDeleteConditionType includeWaitinDuration component acc =
    (let (c, summaryParts) = acc;
         observe = (\<lambda>since. c\<lparr>w_metrics := w_metrics c @
           [OnDeleteWait \<lparr>wm_Cluster = yt_Name (w_object c), wm_Namespace = yt_Namespace (w_object c),
             wm_Component = getLabelerComponentName component, wm_Since = since\<rparr>]\<rparr>)
     in case m_Find E (us_Conditions (update_status_of c)) waitingOnDeleteConditionType of
          None \<Rightarrow> acc
        | Some condition \<Rightarrow>
            if c_Status condition = ConditionTrue then
              let componentName = getLabelerComponentName component
              in if includeWaitinDuration then
                   (observe (Some (c_LastTransitionTime condition)),
                    summaryParts @ [''{'' @ componentName @ '' (waiting '' @
                      duration_string (e_Now E - c_LastTransitionTime condition) @ '')}''])
                 else (observe None, summaryParts @ [''{'' @ componentName @ ''}''])
            else acc)"

definition UpdateOnDeleteComponentsSummary ::
  "'e env_scheme \<Rightarrow> string \<Rightarrow> bool \<Rightarrow> 'x yts_scheme \<Rightarrow> 'x yts_scheme" where
  "UpdateOnDeleteComponentsSummary E waitingOnDeleteConditionType includeWaitinDuration c =
    (if GetUpdateState c \<noteq> UpdateStateWaitingForPodsRemoval then c
     else
       let (c1, summaryParts) =
             fold (wait_summary_step E waitingOnDeleteConditionType includeWaitinDuration)
               (us_UpdatingComponents (update_status_of c)) (c, [])
       in if summaryParts \<noteq> []
          then map_update_status (\<lambda>u. u\<lparr>us_UpdatingComponentsSummary := join '', '' summaryParts\<rparr>) c1
          else c1)"

fun find_heater :: "update_selector list \<Rightarrow> string \<Rightarrow> bool \<Rightarrow> update_selector option \<times> bool" where
  "find_heater [] target planned = (None, planned)"
| "find_heater (selector # selectors) target planned =
    (if ref_type (sel_Component selector) = ImageHeaterType then
       let name0 = ref_name (sel_Component selector)
       in if name0 = '''' \<or> target = '''' \<or> name0 = target then (Some selector, True)
          else find_heater selectors target True
     else find_heater selectors target planned)"

definition GetImageHeater :: "string \<Rightarrow> 'x yts_scheme \<Rightarrow> update_selector option" where
  "GetImageHeater target c =
    (case find_heater (sp_UpdatePlan (yt_Spec (w_object c))) target False of
       (Some selector, _) \<Rightarrow> Some selector
     | (None, planned) \<Rightarrow>
         if \<not> planned \<and> cf_EnableImageHeater (GetClusterFeatures c) then Some zero_selector else None)"

section \<open>Facts\<close>

lemma GetClusterState_simps [simp]:
  "GetClusterState (map_update_status f c) = GetClusterState c"
  "GetClusterState (map_status (\<lambda>s. s\<lparr>st_State := st\<rparr>) c) = st"
  "GetClusterState (RecordNormal r m c) = GetClusterState c"
  "GetClusterState (SetStatusCondition M cnd c) = GetClusterState c"
  "GetClusterState (RemoveStatusCondition M t c) = GetClusterState c"
  "GetClusterState (fst (UpdateStatus E c)) = GetClusterState c"
  by (simp_all add: GetClusterState_def)

lemma SetClusterState_state [simp]: "GetClusterState (fst (SetClusterState M s c)) = s"
  by (simp add: SetClusterState_def Let_def GetClusterState_def)

lemma SetClusterState_changed: "snd (SetClusterState M s c) \<longleftrightarrow> GetClusterState c \<noteq> s"
  by (simp add: SetClusterState_def GetClusterState_def Let_def)

lemma SetClusterState_frame [simp]:
  "update_status_of (fst (SetClusterState M s c)) = update_status_of c"
  "yt_Spec (w_object (fst (SetClusterState M s c))) = yt_Spec (w_object c)"
  "yt_Generation (w_object (fst (SetClusterState M s c))) = yt_Generation (w_object c)"
  "w_saved (fst (SetClusterState M s c)) = w_saved c"
  by (simp_all add: SetClusterState_def Let_def)

lemma conds_wf_map_status_state [simp]:
  "conds_wf (map_status (\<lambda>s. s\<lparr>st_State := st\<rparr>) c) = conds_wf c"
  by (simp add: conds_wf_def GetStatusConditions_def)

lemma conds_wf_RecordNormal [simp]: "conds_wf (RecordNormal r m c) = conds_wf c"
  by (simp add: conds_wf_def)

lemma conds_wf_SetClusterState [simp, intro]:
  "meta_laws M \<Longrightarrow> conds_wf c \<Longrightarrow> conds_wf (fst (SetClusterState M s c))"
  by (simp add: SetClusterState_def Let_def conds_wf_SetStatusCondition)

text \<open>The cluster states in which the \<open>ReadyToWork\<close> condition must be true.\<close>

definition ready_cond_ok :: "'x yts_scheme \<Rightarrow> bool" where
  "ready_cond_ok c \<longleftrightarrow>
    status_of_cond c ConditionReadyToWork =
      Some (if ready_to_work_state (GetClusterState c) then ConditionTrue else ConditionFalse)"

lemma ready_cond_SetClusterState:
  assumes "meta_laws M" "conds_wf c" "ready_cond_ok c \<or> GetClusterState c \<noteq> s"
  shows "ready_cond_ok (fst (SetClusterState M s c))"
proof (cases "GetClusterState c = s")
  case True
  then show ?thesis using assms(3) by (simp add: SetClusterState_def GetClusterState_def)
next
  case False
  let ?c1 = "map_status (\<lambda>st. st\<lparr>st_State := s\<rparr>) c"
  have "conds_wf ?c1" using assms(2) by simp
  then show ?thesis
    using False assms(1)
    by (simp add: ready_cond_ok_def SetClusterState_def GetClusterState_def[symmetric] Let_def
        IsReadyToWork_def status_of_cond_def[of "RecordNormal _ _ _"]
        status_of_cond_def[of "SetStatusCondition _ _ _", symmetric] status_of_SetStatusCondition)
qed

lemma status_of_SetClusterState_other:
  assumes "meta_laws M" "conds_wf c" "t \<noteq> ConditionReadyToWork"
  shows "status_of_cond (fst (SetClusterState M s c)) t = status_of_cond c t"
proof (cases "GetClusterState c = s")
  case True
  then show ?thesis by (simp add: SetClusterState_def GetClusterState_def)
next
  case False
  let ?c1 = "map_status (\<lambda>st. st\<lparr>st_State := s\<rparr>) c"
  have "conds_wf ?c1" using assms(2) by simp
  moreover have "status_of_cond ?c1 t = status_of_cond c t"
    by (simp add: status_of_cond_def GetStatusConditions_def)
  ultimately show ?thesis
    using False assms(1,3)
    by (simp add: SetClusterState_def GetClusterState_def[symmetric] Let_def
        status_of_cond_def[of "RecordNormal _ _ _"]
        status_of_cond_def[of "SetStatusCondition _ _ _", symmetric] status_of_SetStatusCondition)
qed

subsection \<open>Update conditions\<close>

definition upd_status :: "'x yts_scheme \<Rightarrow> string \<Rightarrow> condition_status option" where
  "upd_status c t = map_option c_Status (cond_find (us_Conditions (update_status_of c)) t)"

lemma IsUpdateStatusCondition_iff:
  assumes "meta_laws M"
  shows "IsUpdateStatusConditionTrue M t c \<longleftrightarrow> upd_status c t = Some ConditionTrue"
    and "IsUpdateStatusConditionFalse M t c \<longleftrightarrow> upd_status c t = Some ConditionFalse"
  by (simp_all add: IsUpdateStatusConditionTrue_def IsUpdateStatusConditionFalse_def upd_status_def
      meta_laws_simps[OF assms])

lemma upd_status_Set:
  assumes "meta_laws M" and "conds_wf c"
  shows "upd_status (SetUpdateStatusCondition M cnd c) t =
    (if t = c_Type cnd then Some (c_Status cnd) else upd_status c t)"
  using assms
  by (simp add: upd_status_def SetUpdateStatusCondition_def cond_find_sort conds_wf_def meta_set_status)

lemma conds_wf_SetUpdateStatusCondition [simp, intro]:
  "meta_laws M \<Longrightarrow> conds_wf c \<Longrightarrow> conds_wf (SetUpdateStatusCondition M cnd c)"
  by (simp add: conds_wf_def SetUpdateStatusCondition_def meta_set_wf GetStatusConditions_def)

lemma SetUpdateStatusCondition_frame [simp]:
  "us_State (update_status_of (SetUpdateStatusCondition M cnd c)) = us_State (update_status_of c)"
  "GetUpdateState (SetUpdateStatusCondition M cnd c) = GetUpdateState c"
  "GetClusterState (SetUpdateStatusCondition M cnd c) = GetClusterState c"
  "GetUpdatingComponents (SetUpdateStatusCondition M cnd c) = GetUpdatingComponents c"
  "yt_Spec (w_object (SetUpdateStatusCondition M cnd c)) = yt_Spec (w_object c)"
  "GetStatusConditions (w_object (SetUpdateStatusCondition M cnd c)) = GetStatusConditions (w_object c)"
  by (simp_all add: SetUpdateStatusCondition_def GetUpdateState_def GetUpdatingComponents_def
      GetStatusConditions_def)

lemma GetUpdateState_simps [simp]:
  "GetUpdateState (SetUpdateState s c) = s"
  "GetUpdateState (RecordNormal r m c) = GetUpdateState c"
  "GetUpdateState (fst (UpdateStatus E c)) = GetUpdateState c"
  "GetUpdateState (fst (SetClusterState M st c)) = GetUpdateState c"
  "GetUpdateState (SetStatusCondition M cnd c) = GetUpdateState c"
  "GetUpdateState (ClearUpdateStatus c) = UpdateStateUndefined"
  "GetUpdateState (SetUpdatingComponents cs c) = GetUpdateState c"
  by (simp_all add: GetUpdateState_def SetUpdateState_def ClearUpdateStatus_def
      SetUpdatingComponents_def)

lemma SetUpdateState_frame [simp]:
  "GetClusterState (SetUpdateState s c) = GetClusterState c"
  "GetUpdatingComponents (SetUpdateState s c) = GetUpdatingComponents c"
  "conds_wf (SetUpdateState s c) = conds_wf c"
  "w_saved (SetUpdateState s c) = w_saved c"
  "yt_Spec (w_object (SetUpdateState s c)) = yt_Spec (w_object c)"
  "upd_status (SetUpdateState s c) t = upd_status c t"
  by (simp_all add: SetUpdateState_def GetClusterState_def GetUpdatingComponents_def conds_wf_def
      GetStatusConditions_def upd_status_def)

lemma SetUpdatingComponents_frame [simp]:
  "GetClusterState (SetUpdatingComponents cs c) = GetClusterState c"
  "GetUpdatingComponents (SetUpdatingComponents cs c) = cs"
  "conds_wf (SetUpdatingComponents cs c) = conds_wf c"
  "yt_Spec (w_object (SetUpdatingComponents cs c)) = yt_Spec (w_object c)"
  by (simp_all add: SetUpdatingComponents_def GetClusterState_def GetUpdatingComponents_def
      conds_wf_def GetStatusConditions_def)

lemma ClearUpdateStatus_frame [simp]:
  "GetClusterState (ClearUpdateStatus c) = GetClusterState c"
  "GetUpdatingComponents (ClearUpdateStatus c) = []"
  "us_Conditions (update_status_of (ClearUpdateStatus c)) = []"
  "conds_wf c \<Longrightarrow> conds_wf (ClearUpdateStatus c)"
  "yt_Spec (w_object (ClearUpdateStatus c)) = yt_Spec (w_object c)"
  by (simp_all add: ClearUpdateStatus_def GetClusterState_def GetUpdatingComponents_def
      conds_wf_def GetStatusConditions_def)

lemma LogUpdate_frame [simp]:
  "w_object (LogUpdate m c) = w_object c" "w_saved (LogUpdate m c) = w_saved c"
  by (simp_all add: LogUpdate_def)

end
