(* ===== verification/Component.thy ===== *)
theory Component
  imports Ytsaurus_Proxy
begin

text \<open>
  The component interface of \<open>pkg/components/component.go\<close>: sync statuses, the methods every
  component inherits from the embedded \<open>component\<close> struct, and the method table \<open>component\<close> through
  which the component manager calls the concrete components.

  Components are heap objects: the saved status of a component is a cell of \<open>w_status\<close>, addressed
  by the identity \<open>cmp_id\<close> of the object.
\<close>

section \<open>Statuses\<close>

datatype sync_status =
    SyncStatusUndefined
  | SyncStatusReady
  | SyncStatusStarted
  | SyncStatusBlocked
  | SyncStatusPending
  | SyncStatusNeedUpdate
  | SyncStatusUpdating
  | OtherSyncStatus string

primrec string_of_sync_status :: "sync_status \<Rightarrow> string" where
  "string_of_sync_status SyncStatusUndefined = ''''"
| "string_of_sync_status SyncStatusReady = ''Ready''"
| "string_of_sync_status SyncStatusStarted = ''Started''"
| "string_of_sync_status SyncStatusBlocked = ''Blocked''"
| "string_of_sync_status SyncStatusPending = ''Pending''"
| "string_of_sync_status SyncStatusNeedUpdate = ''NeedUpdate''"
| "string_of_sync_status SyncStatusUpdating = ''Updating''"
| "string_of_sync_status (OtherSyncStatus s) = s"

text \<open>The conversion \<open>SyncStatus(s)\<close> of a string.\<close>

definition sync_status_of_string :: "string \<Rightarrow> sync_status" where
  "sync_status_of_string s =
    (if s = '''' then SyncStatusUndefined
     else if s = ''Ready'' then SyncStatusReady
     else if s = ''Started'' then SyncStatusStarted
     else if s = ''Blocked'' then SyncStatusBlocked
     else if s = ''Pending'' then SyncStatusPending
     else if s = ''NeedUpdate'' then SyncStatusNeedUpdate
     else if s = ''Updating'' then SyncStatusUpdating
     else OtherSyncStatus s)"

record component_status =
  cs_Component :: string
  cs_SyncStatus :: sync_status
  cs_Message :: string

definition IsUndefined :: "component_status \<Rightarrow> bool" where
  "IsUndefined cs \<longleftrightarrow> cs_SyncStatus cs = SyncStatusUndefined"

definition IsReady :: "component_status \<Rightarrow> bool" where
  "IsReady cs \<longleftrightarrow> cs_SyncStatus cs = SyncStatusReady"

definition IsNeedUpdate :: "component_status \<Rightarrow> bool" where
  "IsNeedUpdate cs \<longleftrightarrow> cs_SyncStatus cs = SyncStatusNeedUpdate"

definition IsRunning :: "component_status \<Rightarrow> bool" where
  "IsRunning cs \<longleftrightarrow> cs_SyncStatus cs = SyncStatusReady \<or> cs_SyncStatus cs = SyncStatusNeedUpdate"

text \<open>
  \<open>ComponentStatusSprintf(status, format, args...)\<close> with the message already formatted; the
  constructors below only fix the status and a prefix of the message.
\<close>

definition ComponentStatusSprintf :: "sync_status \<Rightarrow> string \<Rightarrow> component_status" where
  "ComponentStatusSprintf status message =
    \<lparr>cs_Component = '''', cs_SyncStatus = status, cs_Message = message\<rparr>"

definition Blocker :: "component_status \<Rightarrow> component_status" where
  "Blocker cs = ComponentStatusSprintf SyncStatusBlocked
     (''Blocked by '' @ cs_Component cs @ '': '' @ string_of_sync_status (cs_SyncStatus cs) @
      '', '' @ cs_Message cs)"

definition ComponentStatusReady :: component_status where
  "ComponentStatusReady = ComponentStatusSprintf SyncStatusReady ''Ready''"

definition ComponentStatusReadyAfter :: "string \<Rightarrow> component_status" where
  "ComponentStatusReadyAfter = ComponentStatusSprintf SyncStatusReady"

definition ComponentStatusStarted :: "string \<Rightarrow> component_status" where
  "ComponentStatusStarted = ComponentStatusSprintf SyncStatusStarted"

definition ComponentStatusBlocked :: "string \<Rightarrow> component_status" where
  "ComponentStatusBlocked = ComponentStatusSprintf SyncStatusBlocked"

definition ComponentStatusBlockedBy :: "string \<Rightarrow> component_status" where
  "ComponentStatusBlockedBy message = ComponentStatusBlocked (''Blocked by '' @ message)"

definition ComponentStatusPending :: "string \<Rightarrow> component_status" where
  "ComponentStatusPending = ComponentStatusSprintf SyncStatusPending"

definition ComponentStatusNeedUpdate :: "string \<Rightarrow> component_status" where
  "ComponentStatusNeedUpdate = ComponentStatusSprintf SyncStatusNeedUpdate"

definition ComponentStatusUpdating :: "string \<Rightarrow> component_status" where
  "ComponentStatusUpdating = ComponentStatusSprintf SyncStatusUpdating"

definition ComponentStatusWaitingFor :: "string \<Rightarrow> component_status" where
  "ComponentStatusWaitingFor message = ComponentStatusSprintf SyncStatusPending (''Waiting for '' @ message)"

definition ComponentStatusUpdateStep :: "string \<Rightarrow> component_status" where
  "ComponentStatusUpdateStep message = ComponentStatusSprintf SyncStatusUpdating (''Updating '' @ message)"

text \<open>\<open>SimpleStatus\<close> reports the file and line of its caller, the argument \<open>caller\<close>.\<close>

definition SimpleStatus :: "string \<Rightarrow> sync_status \<Rightarrow> component_status" where
  "SimpleStatus caller status =
    ComponentStatusSprintf status (string_of_sync_status status @ '' at '' @ caller)"

lemmas component_status_defs =
  ComponentStatusSprintf_def Blocker_def ComponentStatusReady_def ComponentStatusReadyAfter_def
  ComponentStatusStarted_def ComponentStatusBlocked_def ComponentStatusBlockedBy_def
  ComponentStatusPending_def ComponentStatusNeedUpdate_def ComponentStatusUpdating_def
  ComponentStatusWaitingFor_def ComponentStatusUpdateStep_def SimpleStatus_def

lemma cs_SyncStatus_simps [simp]:
  "cs_SyncStatus (ComponentStatusSprintf s m) = s"
  "cs_SyncStatus (Blocker cs) = SyncStatusBlocked"
  "cs_SyncStatus ComponentStatusReady = SyncStatusReady"
  "cs_SyncStatus (ComponentStatusReadyAfter m) = SyncStatusReady"
  "cs_SyncStatus (ComponentStatusStarted m) = SyncStatusStarted"
  "cs_SyncStatus (ComponentStatusBlocked m) = SyncStatusBlocked"
  "cs_SyncStatus (ComponentStatusBlockedBy m) = SyncStatusBlocked"
  "cs_SyncStatus (ComponentStatusPending m) = SyncStatusPending"
  "cs_SyncStatus (ComponentStatusNeedUpdate m) = SyncStatusNeedUpdate"
  "cs_SyncStatus (ComponentStatusUpdating m) = SyncStatusUpdating"
  "cs_SyncStatus (ComponentStatusWaitingFor m) = SyncStatusPending"
  "cs_SyncStatus (ComponentStatusUpdateStep m) = SyncStatusUpdating"
  "cs_SyncStatus (SimpleStatus caller s) = s"
  by (simp_all add: component_status_defs)

section \<open>Components\<close>

record comps = yts +
  w_status :: "nat \<Rightarrow> component_status"

definition undefined_status :: component_status where
  "undefined_status = \<lparr>cs_Component = '''', cs_SyncStatus = SyncStatusUndefined, cs_Message = ''''\<rparr>"

text \<open>An interface value: the identity of the object, its labeller and its own methods.\<close>

record 'x component =
  cmp_id :: nat
  cmp_labeller :: labeller
  cmp_Fetch :: "'x comps_scheme \<Rightarrow> 'x comps_scheme \<times> go_error"
  cmp_NeedUpdate :: "'x comps_scheme \<Rightarrow> 'x comps_scheme \<times> component_status"
  cmp_Sync :: "bool \<Rightarrow> 'x comps_scheme \<Rightarrow> 'x comps_scheme \<times> component_status \<times> go_error"

definition GetFullName :: "'x component \<Rightarrow> string" where
  "GetFullName c = GetFullComponentName (cmp_labeller c)"

definition GetShortName_cmp :: "'x component \<Rightarrow> string" where
  "GetShortName_cmp c = GetInstanceGroup (cmp_labeller c)"

definition GetType :: "'x component \<Rightarrow> component_type" where
  "GetType c = l_ComponentType (cmp_labeller c)"

definition GetComponent :: "'x component \<Rightarrow> component_ref" where
  "GetComponent c = \<lparr>ref_type = GetType c, ref_name = GetShortName_cmp c\<rparr>"

definition GetStatus :: "'x component \<Rightarrow> 'x comps_scheme \<Rightarrow> component_status" where
  "GetStatus c w =
    (let status = w_status w (cmp_id c)
     in if cs_SyncStatus status = SyncStatusUndefined
        then \<lparr>cs_Component = GetFullName c, cs_SyncStatus = SyncStatusUndefined,
              cs_Message = ''BUG: component status undefined''\<rparr>
        else status)"

definition SetStatus :: "'x component \<Rightarrow> component_status \<Rightarrow> 'x comps_scheme \<Rightarrow> 'x comps_scheme" where
  "SetStatus c status w =
    w\<lparr>w_status := (w_status w)(cmp_id c := status\<lparr>cs_Component := GetFullName c\<rparr>)\<rparr>"

definition GetReadyCondition_cmp ::
  "'a meta_api_scheme \<Rightarrow> 'x component \<Rightarrow> 'x comps_scheme \<Rightarrow> component_status" where
  "GetReadyCondition_cmp M c w =
    (let mk = (\<lambda>s m. \<lparr>cs_Component = GetFullName c, cs_SyncStatus = s, cs_Message = m\<rparr>)
     in case GetStatusCondition M (GetReadyCondition (cmp_labeller c)) w of
          None \<Rightarrow> mk SyncStatusUndefined ''Status unknown''
        | Some cond \<Rightarrow>
            if c_Status cond = ConditionUnknown then mk SyncStatusUndefined (c_Message cond)
            else if c_Status cond = ConditionTrue then mk SyncStatusReady (c_Message cond)
            else mk (sync_status_of_string (c_Reason cond)) (c_Message cond))"

definition SetReadyCondition ::
  "'a meta_api_scheme \<Rightarrow> 'x component \<Rightarrow> component_status \<Rightarrow> 'x comps_scheme \<Rightarrow> 'x comps_scheme" where
  "SetReadyCondition M c status w =
    (let ready = (if cs_SyncStatus status = SyncStatusReady then ConditionTrue else ConditionFalse)
     in SetStatusCondition M
          (mkcond (GetReadyCondition (cmp_labeller c)) ready
             (string_of_sync_status (cs_SyncStatus status)) (cs_Message status)) w)"

text \<open>\<open>IsUpdatingResources\<close> of a component whose owner is a Ytsaurus object.\<close>

definition IsUpdatingResources :: "labeller \<Rightarrow> 'x yts_scheme \<Rightarrow> bool" where
  "IsUpdatingResources l w \<longleftrightarrow>
    IsUpdating w \<and> IsUpdatingComponent (l_ComponentType l) (GetInstanceGroup l) w \<and>
    GetUpdateState w = UpdateStateWaitingForPodsCreation"

section \<open>Facts\<close>

lemma sync_status_string_roundtrip:
  "(\<forall>s. st \<noteq> OtherSyncStatus s) \<Longrightarrow> sync_status_of_string (string_of_sync_status st) = st"
  by (cases st) (simp_all add: sync_status_of_string_def)

lemma SetStatus_frame [simp]:
  "w_object (SetStatus c st w) = w_object w" "w_saved (SetStatus c st w) = w_saved w"
  "w_events (SetStatus c st w) = w_events w"
  by (simp_all add: SetStatus_def)

lemma GetStatus_SetStatus:
  "cs_SyncStatus st \<noteq> SyncStatusUndefined \<Longrightarrow> cmp_id d = cmp_id c \<Longrightarrow>
   GetStatus d (SetStatus c st w) = st\<lparr>cs_Component := GetFullName c\<rparr>"
  by (simp add: GetStatus_def SetStatus_def)

lemma GetStatus_SetStatus_other:
  "cmp_id d \<noteq> cmp_id c \<Longrightarrow> GetStatus d (SetStatus c st w) = GetStatus d w"
  by (simp add: GetStatus_def SetStatus_def)

lemma SetReadyCondition_frame [simp]:
  "yt_Spec (w_object (SetReadyCondition M c st w)) = yt_Spec (w_object w)"
  "yt_Generation (w_object (SetReadyCondition M c st w)) = yt_Generation (w_object w)"
  "GetClusterState (SetReadyCondition M c st w) = GetClusterState w"
  "update_status_of (SetReadyCondition M c st w) = update_status_of w"
  "w_saved (SetReadyCondition M c st w) = w_saved w"
  by (simp_all add: SetReadyCondition_def Let_def)

text \<open>
  What every component promises the controller: it may change conditions, its own objects and the
  bookkeeping fields of an update, but neither the specification, nor the cluster and update state,
  nor the set of updating components, nor the saved status of a component; and it never saves the
  object itself.
\<close>

definition same_control :: "'x comps_scheme \<Rightarrow> 'x comps_scheme \<Rightarrow> bool" where
  "same_control w w' \<longleftrightarrow>
    yt_Spec (w_object w') = yt_Spec (w_object w) \<and>
    yt_Generation (w_object w') = yt_Generation (w_object w) \<and>
    GetClusterState w' = GetClusterState w \<and>
    GetUpdateState w' = GetUpdateState w \<and>
    GetUpdatingComponents w' = GetUpdatingComponents w \<and>
    us_BlockedComponentsSummary (update_status_of w') = us_BlockedComponentsSummary (update_status_of w) \<and>
    w_saved w' = w_saved w \<and>
    (conds_wf w \<longrightarrow> conds_wf w' \<and>
       status_of_cond w' ''ReadyToWork'' = status_of_cond w ''ReadyToWork'')"

lemma same_control_refl [simp]: "same_control w w"
  by (simp add: same_control_def)

lemma same_control_trans [trans]:
  "same_control u v \<Longrightarrow> same_control v w \<Longrightarrow> same_control u w"
  by (auto simp: same_control_def)

lemma same_control_SetStatus [simp]: "same_control w (SetStatus c st w)"
  by (simp add: same_control_def GetClusterState_def GetUpdateState_def GetUpdatingComponents_def
      conds_wf_def status_of_cond_def)

lemma same_control_SetStatusCondition:
  "meta_laws M \<Longrightarrow> c_Type c \<noteq> ''ReadyToWork'' \<Longrightarrow> same_control w (SetStatusCondition M c w)"
  by (auto simp: same_control_def GetUpdateState_def GetUpdatingComponents_def
      status_of_SetStatusCondition)

lemma same_control_RemoveStatusCondition:
  "meta_laws M \<Longrightarrow> t \<noteq> ''ReadyToWork'' \<Longrightarrow> same_control w (RemoveStatusCondition M t w)"
  by (auto simp: same_control_def GetUpdateState_def GetUpdatingComponents_def
      status_of_RemoveStatusCondition)

lemma GetReadyCondition_not_ReadyToWork [simp]: "GetReadyCondition l \<noteq> ''ReadyToWork''"
proof
  assume "GetReadyCondition l = ''ReadyToWork''"
  then have "last (GetReadyCondition l) = CHR ''k''" by simp
  then show False by (simp add: GetReadyCondition_def GetCondition_def)
qed

lemma same_control_RecordNormal [simp]: "same_control w (RecordNormal r m w)"
  by (simp add: same_control_def status_of_cond_def GetUpdatingComponents_def)

definition keeps :: "'x comps_scheme \<Rightarrow> 'x comps_scheme \<Rightarrow> bool" where
  "keeps w w' \<longleftrightarrow> same_control w w' \<and> w_status w' = w_status w"

lemma keeps_refl [simp]: "keeps w w"
  by (simp add: keeps_def)

lemma keeps_trans [trans]: "keeps u v \<Longrightarrow> keeps v w \<Longrightarrow> keeps u w"
  by (auto simp: keeps_def intro: same_control_trans)

definition well_behaved :: "'x component \<Rightarrow> bool" where
  "well_behaved c \<longleftrightarrow>
    (\<forall>w. keeps w (fst (cmp_Fetch c w))) \<and>
    (\<forall>w. keeps w (fst (cmp_NeedUpdate c w))) \<and>
    (\<forall>dry w. keeps w (fst (cmp_Sync c dry w)))"

lemma well_behaved_keeps:
  "well_behaved c \<Longrightarrow> cmp_Fetch c w = (w', e) \<Longrightarrow> keeps w w'"
  "well_behaved c \<Longrightarrow> cmp_NeedUpdate c w = (w', st) \<Longrightarrow> keeps w w'"
  "well_behaved c \<Longrightarrow> cmp_Sync c dry w = (w', r) \<Longrightarrow> keeps w w'"
  by (metis well_behaved_def fst_conv)+

lemma well_behavedD:
  "well_behaved c \<Longrightarrow> cmp_Fetch c w = (w', e) \<Longrightarrow> same_control w w'"
  "well_behaved c \<Longrightarrow> cmp_Sync c dry w = (w', r) \<Longrightarrow> same_control w w'"
  by (auto dest: well_behaved_keeps simp: keeps_def)

end
