(* ===== verification/Timbertruck_Delivery.thy ===== *)
theory Timbertruck_Delivery
  imports Component
begin

text \<open>
  Which server components deliver structured logs: the resolution functions of
  \<open>pkg/components/timbertruck.go\<close>, shared by the server sidecars, the virtual timbertruck component
  and its step of the update flow.
\<close>

section \<open>Resolution of the delivery settings\<close>

record timbertruck_delivery =
  td_Image :: string
  td_LogsDirectory :: string
  td_LogsDeliveryPath :: string
  td_Loggers :: "structured_logger list"

definition DefaultTimbertruckDirectoryPath :: string where
  "DefaultTimbertruckDirectoryPath = ''//sys/admin/logs''"

fun first_nonempty :: "string option list \<Rightarrow> string option" where
  "first_nonempty [] = None"
| "first_nonempty (v # vs) =
    (case v of Some s \<Rightarrow> if s \<noteq> '''' then Some s else first_nonempty vs | None \<Rightarrow> first_nonempty vs)"

definition effectiveTimbertruckImage ::
  "timbertruck_spec option \<Rightarrow> timbertruck_spec option \<Rightarrow> string" where
  "effectiveTimbertruckImage componentTT commonTT =
    ptr_deref (first_nonempty (map (\<lambda>tt. Option.bind tt tt_Image) [componentTT, commonTT])) ''''"

definition effectiveLogsDeliveryPath ::
  "timbertruck_spec option \<Rightarrow> timbertruck_spec option \<Rightarrow> string" where
  "effectiveLogsDeliveryPath componentTT commonTT =
    ptr_deref (first_nonempty (map (\<lambda>tt. Option.bind tt tt_DirectoryPath) [componentTT, commonTT]))
      DefaultTimbertruckDirectoryPath"

fun explicit_loggers :: "structured_logger list \<Rightarrow> structured_logger list \<times> bool \<Rightarrow> structured_logger list \<times> bool" where
  "explicit_loggers [] acc = acc"
| "explicit_loggers (logger # loggers) (explicit, anyExplicit) =
    (case sl_EnableDelivery logger of
       None \<Rightarrow> explicit_loggers loggers (explicit, anyExplicit)
     | Some b \<Rightarrow> explicit_loggers loggers (if b then explicit @ [logger] else explicit, True))"

definition deliveredStructuredLoggers ::
  "timbertruck_spec option \<Rightarrow> structured_logger list \<Rightarrow> structured_logger list" where
  "deliveredStructuredLoggers componentTT loggers =
    (let (explicit, anyExplicit) = explicit_loggers loggers ([], False)
     in if anyExplicit then explicit
        else if componentTT \<noteq> None then loggers else [])"

definition resolveTimbertruckDelivery ::
  "timbertruck_spec option \<Rightarrow> timbertruck_spec option \<Rightarrow> instance_spec \<Rightarrow> timbertruck_delivery option" where
  "resolveTimbertruckDelivery componentTT commonTT instanceSpec =
    (let delivered = deliveredStructuredLoggers componentTT (is_StructuredLoggers instanceSpec)
     in if delivered = [] then None else
     let image = effectiveTimbertruckImage componentTT commonTT
     in if image = '''' then None else
     case FindFirstLocation (is_Locations instanceSpec) LocationTypeLogs of
       None \<Rightarrow> None
     | Some logsLocation \<Rightarrow>
         Some \<lparr>td_Image = image, td_LogsDirectory = loc_Path logsLocation,
               td_LogsDeliveryPath = effectiveLogsDeliveryPath componentTT commonTT,
               td_Loggers = delivered\<rparr>)"

section \<open>Sources of delivered logs\<close>

text \<open>
  The labeller a source builds is kept as the pair of component type and instance group, or the
  cell tag of a master.
\<close>

datatype logger_labeller = MasterSource nat | GroupSource component_type string

record logger_source =
  ls_componentTT :: "timbertruck_spec option"
  ls_instanceSpec :: instance_spec
  ls_labeller :: logger_labeller

definition add_source :: "component_type \<Rightarrow> string \<Rightarrow> instance_spec \<Rightarrow> logger_source" where
  "add_source componentType instanceGroup instanceSpec =
    \<lparr>ls_componentTT = None, ls_instanceSpec = instanceSpec,
     ls_labeller = GroupSource componentType instanceGroup\<rparr>"

definition add_master_source :: "masters_spec \<Rightarrow> logger_source" where
  "add_master_source m =
    \<lparr>ls_componentTT = ms_Timbertruck m, ls_instanceSpec = ms_InstanceSpec m,
     ls_labeller = MasterSource (ms_CellTag m)\<rparr>"

definition group_sources :: "component_type \<Rightarrow> group_spec list \<Rightarrow> logger_source list" where
  "group_sources t = map (\<lambda>g. add_source t (gs_Name g) (gs_InstanceSpec g))"

definition option_source :: "component_type \<Rightarrow> instance_spec option \<Rightarrow> logger_source list" where
  "option_source t s = (case s of None \<Rightarrow> [] | Some i \<Rightarrow> [add_source t '''' i])"

definition timbertruckLoggerSources :: "ytsaurus_spec \<Rightarrow> logger_source list" where
  "timbertruckLoggerSources spec =
    [add_master_source (sp_PrimaryMasters spec)] @
    map add_master_source (sp_SecondaryMasters spec) @
    option_source MasterCacheType (sp_MasterCaches spec) @
    [add_source DiscoveryType '''' (sp_Discovery spec)] @
    group_sources HttpProxyType (sp_HTTPProxies spec) @
    group_sources RpcProxyType (sp_RPCProxies spec) @
    group_sources TcpProxyType (sp_TCPProxies spec) @
    group_sources KafkaProxyType (sp_KafkaProxies spec) @
    group_sources DataNodeType (sp_DataNodes spec) @
    group_sources ExecNodeType (sp_ExecNodes spec) @
    group_sources TabletNodeType (sp_TabletNodes spec) @
    option_source SchedulerType (sp_Schedulers spec) @
    option_source ControllerAgentType (sp_ControllerAgents spec) @
    option_source QueryTrackerType (sp_QueryTrackers spec) @
    option_source YqlAgentType (sp_YQLAgents spec) @
    option_source QueueAgentType (sp_QueueAgents spec) @
    option_source CypressProxyType (map_option cp_InstanceSpec (sp_CypressProxies spec)) @
    option_source BundleControllerType (sp_BundleController spec) @
    option_source TabletBalancerType (sp_TabletBalancer spec)"

definition TimbertruckDeliveryEnabled :: "ytsaurus_spec \<Rightarrow> bool" where
  "TimbertruckDeliveryEnabled spec =
    list_ex (\<lambda>source. resolveTimbertruckDelivery (ls_componentTT source) (sp_Timbertruck spec)
                        (ls_instanceSpec source) \<noteq> None)
      (timbertruckLoggerSources spec)"

record component_loggers =
  cl_Source :: logger_labeller
  cl_StructuredLoggers :: "structured_logger list"
  cl_LogsDeliveryPath :: string

text \<open>The component name is a function of the labeller; it is applied where the name is used.\<close>

definition GetDeliveryLoggers :: "ytsaurus_spec \<Rightarrow> component_loggers list" where
  "GetDeliveryLoggers spec =
    concat (map (\<lambda>source.
      case resolveTimbertruckDelivery (ls_componentTT source) (sp_Timbertruck spec) (ls_instanceSpec source) of
        None \<Rightarrow> []
      | Some delivery \<Rightarrow> [\<lparr>cl_Source = ls_labeller source,
                           cl_StructuredLoggers = td_Loggers delivery,
                           cl_LogsDeliveryPath = td_LogsDeliveryPath delivery\<rparr>])
      (timbertruckLoggerSources spec))"

section \<open>Facts\<close>

lemma explicit_loggers_filter:
  "explicit_loggers ls (acc, b) =
    (acc @ filter (\<lambda>l. sl_EnableDelivery l = Some True) ls, b \<or> list_ex (\<lambda>l. sl_EnableDelivery l \<noteq> None) ls)"
  by (induction ls arbitrary: acc b) (auto split: option.splits)

lemma deliveredStructuredLoggers_eq:
  "deliveredStructuredLoggers tt ls =
    (if list_ex (\<lambda>l. sl_EnableDelivery l \<noteq> None) ls
     then filter (\<lambda>l. sl_EnableDelivery l = Some True) ls
     else if tt \<noteq> None then ls else [])"
  by (simp add: deliveredStructuredLoggers_def explicit_loggers_filter)

text \<open>Delivery resolves exactly when there is a logger to deliver, an image and a logs location.\<close>

lemma resolveTimbertruckDelivery_iff:
  "resolveTimbertruckDelivery tt common i \<noteq> None \<longleftrightarrow>
    deliveredStructuredLoggers tt (is_StructuredLoggers i) \<noteq> [] \<and>
    effectiveTimbertruckImage tt common \<noteq> '''' \<and>
    FindAllLocations (is_Locations i) LocationTypeLogs \<noteq> []"
  by (simp add: resolveTimbertruckDelivery_def Let_def FindFirstLocation_hd split: list.splits option.splits)

text \<open>
  The virtual component exists exactly when it has loggers to prepare: the check of the update
  flow and the enumeration of the component agree.
\<close>

lemma TimbertruckDeliveryEnabled_iff:
  "TimbertruckDeliveryEnabled spec \<longleftrightarrow> GetDeliveryLoggers spec \<noteq> []"
  by (auto simp: TimbertruckDeliveryEnabled_def GetDeliveryLoggers_def list_ex_iff split: option.splits)

end
