(* ===== verification/Sample_Cluster.thy ===== *)
theory Sample_Cluster
  imports Timbertruck_Delivery
begin

text \<open>
  A concrete environment and a small cluster, three masters with one HTTP proxy, data nodes and
  tablet nodes: the inputs at which theorems with hypotheses are applied.
\<close>

definition sample_env :: env where
  "sample_env = meta_api.extend (meta_at 100)
     \<lparr>e_StatusUpdate = (\<lambda>_. None), e_Version = ''0.30.0'', e_Now = 100\<rparr>"

lemma m_sample_env [simp]:
  "m_Find sample_env = cond_find" "m_Set sample_env = meta_set_at 100"
  "m_Remove sample_env = (\<lambda>cs t. filter (\<lambda>c. c_Type c \<noteq> t) cs)"
  "m_IsTrue sample_env = (\<lambda>cs t. map_option c_Status (cond_find cs t) = Some ConditionTrue)"
  "m_IsFalse sample_env = (\<lambda>cs t. map_option c_Status (cond_find cs t) = Some ConditionFalse)"
  "e_StatusUpdate sample_env = (\<lambda>_. None)" "e_Version sample_env = ''0.30.0''" "e_Now sample_env = 100"
  by (simp_all add: sample_env_def meta_api.defs meta_at_def)

lemma meta_laws_sample_env [simp]: "meta_laws sample_env"
  by (simp add: meta_laws_def set_law_meta_set_at)

definition sample_instance :: "int \<Rightarrow> instance_spec" where
  "sample_instance n = \<lparr>is_Image = None, is_InstanceCount = n, is_MinReadyInstanceCount = None,
     is_Locations = [], is_StructuredLoggers = [], is_VolumeMounts = [], is_NativeTransport = None,
     is_EnableAntiAffinity = None, is_HasPodAntiAffinity = False, is_HostNetwork = None, is_PodLabels = [], is_PodAnnotations = []\<rparr>"

definition zero_transport :: rpc_transport where
  "zero_transport = \<lparr>rt_TLSSecret = None, rt_TLSClientSecret = None, rt_TLSRequired = False, rt_TLSInsecure = False\<rparr>"

definition sample_masters :: masters_spec where
  "sample_masters = \<lparr>ms_InstanceSpec = sample_instance 3, ms_CellTag = 1, ms_HostAddresses = [],
     ms_Roles = None, ms_HydraPersistenceUploader = None, ms_Timbertruck = None, ms_Sidecars = []\<rparr>"

definition sample_group :: "string \<Rightarrow> int \<Rightarrow> group_spec" where
  "sample_group name0 n = \<lparr>gs_InstanceSpec = sample_instance n, gs_Name = name0, gs_HTTPSSecret = None,
     gs_DisableHTTP = False, gs_Transport = zero_transport, gs_InitContainers = [], gs_Sidecars = []\<rparr>"

definition sample_spec :: ytsaurus_spec where
  "sample_spec = \<lparr>sp_CoreImage = ''ytsaurus:stable'', sp_ClusterFeatures = None,
     sp_ClusterMaintenance = None, sp_Timbertruck = None, sp_EphemeralCluster = False,
     sp_UseShortNames = True, sp_RequiresOperatorVersion = '''', sp_IsManaged = None,
     sp_UpdatePlan = [], sp_Discovery = sample_instance 1, sp_PrimaryMasters = sample_masters,
     sp_SecondaryMasters = [], sp_MasterCaches = None,
     sp_HTTPProxies = [sample_group ''default'' 1], sp_RPCProxies = [], sp_TCPProxies = [],
     sp_KafkaProxies = [], sp_DataNodes = [sample_group ''default'' 3], sp_ExecNodes = [],
     sp_Schedulers = None, sp_ControllerAgents = None, sp_TabletNodes = [sample_group ''default'' 1],
     sp_HasStrawberryController = False, sp_QueryTrackers = None, sp_YQLAgents = None,
     sp_QueueAgents = None, sp_CypressProxies = None, sp_BundleController = None,
     sp_TabletBalancer = None, sp_UI = None, sp_HasSpyt = False, sp_HostNetwork = None, sp_NativeTransport = None,
     sp_ExtraPodAnnotations = [], sp_PodLabels = [], sp_PodAnnotations = []\<rparr>"

definition empty_update_status :: update_status where
  "empty_update_status = \<lparr>us_State = UpdateStateUndefined, us_UpdatingComponents = [],
     us_UpdatingComponentsSummary = '''', us_BlockedComponentsSummary = '''', us_Conditions = [],
     us_MasterCellsMaintenance = [], us_TabletCellBundles = [], us_BundleController = None\<rparr>"

definition sample_object :: "cluster_state \<Rightarrow> update_status \<Rightarrow> condition list \<Rightarrow> ytsaurus" where
  "sample_object state upd conds = \<lparr>yt_Name = ''yt'', yt_Namespace = ''default'', yt_Generation = 7,
     yt_Spec = sample_spec,
     yt_Status = \<lparr>st_State = state, st_Conditions = conds, st_ObservedGeneration = 7,
                  st_UpdateStatus = upd\<rparr>\<rparr>"

definition sample_world :: "cluster_state \<Rightarrow> update_status \<Rightarrow> condition list \<Rightarrow> comps" where
  "sample_world state upd conds = \<lparr>w_object = sample_object state upd conds, w_events = [],
     w_metrics = [], w_saved = [], w_status = (\<lambda>_. undefined_status)\<rparr>"

text \<open>A component that owns no objects and reports a fixed status.\<close>

definition const_component :: "nat \<Rightarrow> component_type \<Rightarrow> string \<Rightarrow> sync_status \<Rightarrow> 'x component" where
  "const_component i t g st = \<lparr>cmp_id = i, cmp_labeller = ForComponent t g zero_labeller,
     cmp_Fetch = (\<lambda>w. (w, None)), cmp_NeedUpdate = (\<lambda>w. (w, ComponentStatusSprintf st '''')),
     cmp_Sync = (\<lambda>_ w. (w, ComponentStatusSprintf st '''', None))\<rparr>"

lemma well_behaved_const [simp]: "well_behaved (const_component i t g st)"
  by (simp add: well_behaved_def const_component_def)

lemma const_component_simps [simp]:
  "cmp_id (const_component i t g st) = i"
  "cmp_labeller (const_component i t g st) = ForComponent t g zero_labeller"
  "cmp_Fetch (const_component i t g st) w = (w, None)"
  "cmp_NeedUpdate (const_component i t g st) w = (w, ComponentStatusSprintf st '''')"
  "cmp_Sync (const_component i t g st) d w = (w, ComponentStatusSprintf st '''', None)"
  by (simp_all add: const_component_def)

lemmas sample_defs = sample_world_def sample_object_def sample_spec_def sample_group_def
  sample_masters_def sample_instance_def empty_update_status_def

end
