(* ===== verification/Component_Manager.thy ===== *)
theory Component_Manager
  imports Sample_Cluster
begin

text \<open>
  The component manager of \<open>controllers/component_manager.go\<close>: which components a specification
  asks for and in which order, the aggregated status, the update plan, and the sync loop.
\<close>

section \<open>The components of a cluster\<close>

text \<open>One constructor per \<open>components.New...\<close> call, with the part of the specification it gets.\<close>

datatype component_kind =
    ImageHeaterK
  | SecondaryMasterK masters_spec
  | PrimaryMasterK masters_spec
  | HTTPProxyK group_spec
  | YtsaurusClientK
  | DiscoveryK
  | DataNodeK group_spec
  | UIK
  | RPCProxyK group_spec
  | TCPProxyK group_spec
  | KafkaProxyK group_spec
  | ExecNodeK group_spec
  | TabletNodeK group_spec bool
  | SchedulerK
  | ControllerAgentK
  | QueryTrackerK
  | QueueAgentK
  | YQLAgentK
  | StrawberryControllerK
  | MasterCacheK
  | CypressProxyK
  | BundleControllerK
  | TabletBalancerK
  | TimbertruckK

definition tablet_node_kinds :: "ytsaurus_spec \<Rightarrow> component_kind list" where
  "tablet_node_kinds spec = map2 (\<lambda>idx tndSpec. TabletNodeK tndSpec (idx = 0))
     [0 ..< length (sp_TabletNodes spec)] (sp_TabletNodes spec)"

definition if_kind :: "bool \<Rightarrow> component_kind \<Rightarrow> component_kind list" where
  "if_kind b k = (if b then [k] else [])"

text \<open>\<open>None\<close>: indexing the first HTTP proxy of an empty list panics.\<close>

definition component_kinds :: "'x yts_scheme \<Rightarrow> component_kind list option" where
  "component_kinds w =
    (let spec = yt_Spec (w_object w)
     in if sp_HTTPProxies spec = [] then None else Some (
       if_kind (GetImageHeater '''' w \<noteq> None) ImageHeaterK @
       map SecondaryMasterK (sp_SecondaryMasters spec) @
       [PrimaryMasterK (sp_PrimaryMasters spec)] @
       map HTTPProxyK (sp_HTTPProxies spec) @
       [YtsaurusClientK, DiscoveryK] @
       map DataNodeK (sp_DataNodes spec) @
       if_kind (sp_UI spec \<noteq> None) UIK @
       map RPCProxyK (sp_RPCProxies spec) @
       map TCPProxyK (sp_TCPProxies spec) @
       map KafkaProxyK (sp_KafkaProxies spec) @
       map ExecNodeK (sp_ExecNodes spec) @
       tablet_node_kinds spec @
       if_kind (sp_Schedulers spec \<noteq> None) SchedulerK @
       if_kind (sp_ControllerAgents spec \<noteq> None) ControllerAgentK @
       if_kind (sp_QueryTrackers spec \<noteq> None \<and> sp_Schedulers spec \<noteq> None \<and> sp_TabletNodes spec \<noteq> [])
         QueryTrackerK @
       if_kind (sp_QueueAgents spec \<noteq> None \<and> sp_TabletNodes spec \<noteq> []) QueueAgentK @
       if_kind (sp_YQLAgents spec \<noteq> None) YQLAgentK @
       if_kind (sp_HasStrawberryController spec \<and> sp_Schedulers spec \<noteq> None) StrawberryControllerK @
       if_kind (sp_MasterCaches spec \<noteq> None) MasterCacheK @
       if_kind (sp_CypressProxies spec \<noteq> None) CypressProxyK @
       if_kind (sp_BundleController spec \<noteq> None) BundleControllerK @
       if_kind (sp_TabletBalancer spec \<noteq> None) TabletBalancerK @
       if_kind (TimbertruckDeliveryEnabled spec) TimbertruckK))"

text \<open>The components each constructor call is given.\<close>

definition kind_deps :: "ytsaurus_spec \<Rightarrow> component_kind \<Rightarrow> component_kind list" where
  "kind_deps spec k =
    (let m = PrimaryMasterK (sp_PrimaryMasters spec);
         yc = YtsaurusClientK;
         tnds = tablet_node_kinds spec;
         dnds = map DataNodeK (sp_DataNodes spec)
     in case k of
          PrimaryMasterK _ \<Rightarrow> map SecondaryMasterK (sp_SecondaryMasters spec)
        | HTTPProxyK _ \<Rightarrow> [m]
        | YtsaurusClientK \<Rightarrow> [m, HTTPProxyK (hd (sp_HTTPProxies spec))]
        | DiscoveryK \<Rightarrow> [yc, m]
        | DataNodeK _ \<Rightarrow> [m, yc]
        | UIK \<Rightarrow> [m]
        | RPCProxyK _ \<Rightarrow> [m]
        | TCPProxyK _ \<Rightarrow> [m]
        | KafkaProxyK _ \<Rightarrow> [m]
        | ExecNodeK _ \<Rightarrow> [m, yc]
        | TabletNodeK _ _ \<Rightarrow> [yc, m]
        | SchedulerK \<Rightarrow> [m, yc] @ tnds
        | ControllerAgentK \<Rightarrow> [m, yc]
        | QueryTrackerK \<Rightarrow> [yc] @ tnds
        | QueueAgentK \<Rightarrow> [yc, m] @ tnds
        | YQLAgentK \<Rightarrow> [yc, m]
        | StrawberryControllerK \<Rightarrow> [m, SchedulerK] @ dnds
        | MasterCacheK \<Rightarrow> [yc, m]
        | TimbertruckK \<Rightarrow> tnds @ [yc]
        | _ \<Rightarrow> [])"

section \<open>State of the manager\<close>

record component_manager_status =
  s_masterReady :: bool
  s_allStarted :: bool
  s_allRunning :: bool
  s_allReady :: bool
  s_pending :: "component_ref list"
  s_blocked :: "component_ref list"
  s_started :: "component_ref list"
  s_needUpdate :: "component_ref list"
  s_canUpdate :: "component_ref list"
  s_cannotUpdate :: "component_ref list"
  s_nowUpdating :: "component_ref list"
  s_clusterMaintenance :: bool
  s_mastersMaintenance :: bool
  s_shutdownStorage :: bool
  s_shutdownTablets :: bool
  s_shutdownCompute :: bool
  s_removeTabletCellsOnUpdate :: bool
  s_masterHotUpdate :: bool

record 'x component_manager =
  cm_allComponents :: "'x component list"
  cm_status :: component_manager_status
  cm_getHeaterStatus :: "(component_ref \<Rightarrow> 'x comps_scheme \<Rightarrow> component_status) option"

definition zero_cm_status :: component_manager_status where
  "zero_cm_status = \<lparr>s_masterReady = False, s_allStarted = False, s_allRunning = False,
     s_allReady = False, s_pending = [], s_blocked = [], s_started = [], s_needUpdate = [],
     s_canUpdate = [], s_cannotUpdate = [], s_nowUpdating = [], s_clusterMaintenance = False,
     s_mastersMaintenance = False, s_shutdownStorage = False, s_shutdownTablets = False,
     s_shutdownCompute = False, s_removeTabletCellsOnUpdate = False, s_masterHotUpdate = False\<rparr>"

text \<open>
  The constructors of the concrete components: \<open>cf_build i k\<close> is the component of kind \<open>k\<close> at
  address \<open>i\<close>, \<open>cf_heaterStatus\<close> the method \<open>GetHeaterStatus\<close> of the image heater.
\<close>

record 'x component_factory =
  cf_build :: "nat \<Rightarrow> component_kind \<Rightarrow> 'x component"
  cf_heaterStatus :: "component_ref \<Rightarrow> 'x comps_scheme \<Rightarrow> component_status"

definition NewComponentManager ::
  "'x component_factory \<Rightarrow> 'x comps_scheme \<Rightarrow> string \<Rightarrow> (string + 'x component_manager) option" where
  "NewComponentManager F w clusterDomain =
    (if clusterDomain = '''' then Some (Inl ''cluster domain is not defined'')
     else map_option (\<lambda>kinds. Inr
       \<lparr>cm_allComponents = map2 (cf_build F) [0 ..< length kinds] kinds,
        cm_status = zero_cm_status,
        cm_getHeaterStatus = (if GetImageHeater '''' w \<noteq> None then Some (cf_heaterStatus F) else None)\<rparr>)
       (component_kinds w))"

section \<open>Fetching the status\<close>

definition initial_status :: "cluster_shutdown \<Rightarrow> component_manager_status" where
  "initial_status shutdown = zero_cm_status
     \<lparr>s_masterReady := True, s_allStarted := True, s_allRunning := True, s_allReady := True,
      s_clusterMaintenance := shutdown \<noteq> ClusterShutdownNone,
      s_mastersMaintenance := shutdown = ClusterShutdownExceptMasters,
      s_shutdownCompute := shutdown = ClusterShutdownExceptMasters \<or>
        shutdown = ClusterShutdownEverything \<or> shutdown = ClusterShutdownCompute,
      s_shutdownStorage := shutdown = ClusterShutdownExceptMasters \<or>
        shutdown = ClusterShutdownEverything,
      s_shutdownTablets := shutdown = ClusterShutdownExceptMasters \<or>
        shutdown = ClusterShutdownEverything \<or> shutdown = ClusterShutdownTablets\<rparr>"

text \<open>Lines 267 to 301: the contribution of one component; \<open>None\<close> is the unknown sync status.\<close>

definition classify ::
  "component_type \<Rightarrow> component_ref \<Rightarrow> component_status \<Rightarrow> component_manager_status \<Rightarrow>
   component_manager_status option" where
  "classify type ref status s =
    (if type = YtsaurusClientType \<and> \<not> IsReady status then
       Some (s\<lparr>s_pending := s_pending s @ [ref], s_allReady := False\<rparr>)
     else
       let s1 = (if type = MasterType \<and> \<not> IsReady status then s\<lparr>s_masterReady := False\<rparr> else s)
       in case cs_SyncStatus status of
            SyncStatusReady \<Rightarrow> Some s1
          | SyncStatusNeedUpdate \<Rightarrow>
              Some (s1\<lparr>s_needUpdate := s_needUpdate s1 @ [ref], s_allReady := False\<rparr>)
          | SyncStatusStarted \<Rightarrow>
              Some (s1\<lparr>s_started := s_started s1 @ [ref], s_allReady := False, s_allRunning := False\<rparr>)
          | SyncStatusPending \<Rightarrow>
              Some (s1\<lparr>s_pending := s_pending s1 @ [ref], s_allReady := False, s_allRunning := False,
                       s_allStarted := False\<rparr>)
          | SyncStatusUpdating \<Rightarrow>
              Some (s1\<lparr>s_pending := s_pending s1 @ [ref], s_allReady := False, s_allRunning := False,
                       s_allStarted := False\<rparr>)
          | SyncStatusBlocked \<Rightarrow>
              Some (s1\<lparr>s_blocked := s_blocked s1 @ [ref], s_allReady := False, s_allRunning := False,
                       s_allStarted := False\<rparr>)
          | _ \<Rightarrow> None)"

text \<open>Lines 242 to 260: the status of one component, or the error.\<close>

definition fetch_component ::
  "'e env_scheme \<Rightarrow> 'x component \<Rightarrow> 'x comps_scheme \<Rightarrow> 'x comps_scheme \<times> (string + component_status)" where
  "fetch_component E c w =
    (case cmp_Fetch c w of
       (w1, Some err) \<Rightarrow> (w1, Inl (''failed to fetch component '' @ GetFullName c @ '': '' @ err))
     | (w1, None) \<Rightarrow>
         (let (w1, status0) = (if IsReadyToUpdate w1 then cmp_NeedUpdate c w1 else (w1, undefined_status))
          in case (if \<not> IsNeedUpdate status0 then cmp_Sync c True w1 else (w1, status0, None)) of
               (w2, status, Some err) \<Rightarrow>
                 (w2, Inl (''failed to get component '' @ GetFullName c @ '' status: '' @ err))
             | (w2, status, None) \<Rightarrow>
                 (SetReadyCondition E c status (SetStatus c status w2), Inr status)))"

fun fetch_components ::
  "'e env_scheme \<Rightarrow> 'x component list \<Rightarrow> component_manager_status \<Rightarrow> 'x comps_scheme \<Rightarrow>
   'x comps_scheme \<times> component_manager_status \<times> go_error" where
  "fetch_components E [] s w = (w, s, None)"
| "fetch_components E (c # cs) s w =
    (case fetch_component E c w of
       (w1, Inl err) \<Rightarrow> (w1, s, Some err)
     | (w1, Inr status) \<Rightarrow>
         (case classify (GetType c) (GetComponent c) status s of
            Some s1 \<Rightarrow> fetch_components E cs s1 w1
          | None \<Rightarrow> (w1, s, Some (''component '' @ GetFullName c @ '' has unknown sync status: '' @
                                   string_of_sync_status (cs_SyncStatus status)))))"

definition FetchStatus ::
  "'e env_scheme \<Rightarrow> 'x component_manager \<Rightarrow> 'x comps_scheme \<Rightarrow>
   'x comps_scheme \<times> 'x component_manager \<times> go_error" where
  "FetchStatus E cm w =
    (let shutdown = cmt_Shutdown (GetClusterMaintenance w);
         (w1, s, err) = fetch_components E (cm_allComponents cm) (initial_status shutdown) w
     in (w1, cm\<lparr>cm_status := s\<rparr>, err))"

section \<open>Update plan\<close>

definition canUpdateComponent :: "update_selector \<Rightarrow> component_ref \<Rightarrow> bool" where
  "canUpdateComponent selector component =
    (case sel_Class selector of
       ComponentClassUnspecified \<Rightarrow>
         ref_type (sel_Component selector) = ref_type component \<and>
         (ref_name (sel_Component selector) = '''' \<or> ref_name (sel_Component selector) = ref_name component)
     | ComponentClassEverything \<Rightarrow> True
     | ComponentClassNothing \<Rightarrow> False
     | ComponentClassStateless \<Rightarrow>
         ref_type component \<notin> {DataNodeType, TabletNodeType, MasterType}
     | OtherComponentClass _ \<Rightarrow> False)"

text \<open>Lines 437 to 446: the first selector that admits the component within its concurrency.\<close>

fun find_selector :: "update_selector list \<Rightarrow> int list \<Rightarrow> component_ref \<Rightarrow> nat \<Rightarrow> nat option" where
  "find_selector (selector # plan) (n # counts) component i =
    (if \<not> canUpdateComponent selector component then find_selector plan counts component (Suc i)
     else if (case sel_Concurrency selector of None \<Rightarrow> False | Some limit \<Rightarrow> limit \<le> n)
     then find_selector plan counts component (Suc i)
     else Some i)"
| "find_selector _ _ component i = None"

fun apply_plan ::
  "update_selector list \<Rightarrow> component_ref list \<Rightarrow> int list \<Rightarrow>
   component_ref list \<times> component_ref list \<Rightarrow> component_ref list \<times> component_ref list" where
  "apply_plan plan [] counts acc = acc"
| "apply_plan plan (component # needUpdate) counts (canUpdate, cannotUpdate) =
    (case find_selector plan counts component 0 of
       Some index \<Rightarrow>
         apply_plan plan needUpdate (counts[index := wrap32 (counts ! index + 1)])
           (canUpdate @ [component], cannotUpdate)
     | None \<Rightarrow> apply_plan plan needUpdate counts (canUpdate, cannotUpdate @ [component]))"

definition applyUpdatePlan ::
  "update_selector list \<Rightarrow> component_manager_status \<Rightarrow> component_manager_status" where
  "applyUpdatePlan updatePlan s =
    (let (canUpdate, cannotUpdate) =
           apply_plan updatePlan (s_needUpdate s) (replicate (length updatePlan) 0) ([], [])
     in s\<lparr>s_canUpdate := canUpdate, s_cannotUpdate := cannotUpdate\<rparr>)"

fun runs_pre_update_steps :: "update_selector list \<Rightarrow> component_ref \<Rightarrow> bool" where
  "runs_pre_update_steps [] component = False"
| "runs_pre_update_steps (selector # plan) component =
    (if \<not> canUpdateComponent selector component then runs_pre_update_steps plan component
     else case sel_Strategy selector of
            None \<Rightarrow> True
          | Some strategy \<Rightarrow> strategy_Type strategy \<noteq> ComponentUpdateModeTypeOnDelete)"

definition shouldRunPreUpdateStepsFor ::
  "component_type \<Rightarrow> update_selector list \<Rightarrow> component_ref list \<Rightarrow> bool" where
  "shouldRunPreUpdateStepsFor componentType updatePlan updatingComponents =
    list_ex (\<lambda>component. ref_type component = componentType \<and> runs_pre_update_steps updatePlan component)
      updatingComponents"

definition shouldRemoveTabletCellsOnUpdate :: "update_selector list \<Rightarrow> component_ref list \<Rightarrow> bool" where
  "shouldRemoveTabletCellsOnUpdate updatePlan updatingComponents =
    shouldRunPreUpdateStepsFor TabletNodeType updatePlan updatingComponents"

definition shouldUseMasterHotUpdate :: "update_selector list \<Rightarrow> component_ref list \<Rightarrow> bool" where
  "shouldUseMasterHotUpdate updatePlan updatingComponents =
    (\<not> shouldRunPreUpdateStepsFor MasterType updatePlan updatingComponents)"

section \<open>Queries of the update flow\<close>

definition allUpdatingImagesAreHeated :: "'x component_manager \<Rightarrow> 'x comps_scheme \<Rightarrow> bool" where
  "allUpdatingImagesAreHeated cm w =
    (case cm_getHeaterStatus cm of
       None \<Rightarrow> True
     | Some getHeaterStatus \<Rightarrow>
         list_all (\<lambda>component. IsReady (getHeaterStatus component w)) (s_nowUpdating (cm_status cm)))"

definition areComponentPodsRemoved :: "'a meta_api_scheme \<Rightarrow> 'x component \<Rightarrow> 'x comps_scheme \<Rightarrow> bool" where
  "areComponentPodsRemoved M c w =
    (IsUpdateStatusConditionTrue M (GetPodsRemovedCondition (cmp_labeller c)) w \<or>
     IsUpdateStatusConditionTrue M (GetPodsUpdatedCondition (cmp_labeller c)) w)"

definition arePodsRemoved :: "'a meta_api_scheme \<Rightarrow> 'x component_manager \<Rightarrow> 'x comps_scheme \<Rightarrow> bool" where
  "arePodsRemoved M cm w =
    list_all (\<lambda>cmp. GetType cmp = YtsaurusClientType \<or> GetType cmp = ImageHeaterType \<or>
        \<not> (IsUpdatingComponent (GetType cmp) (GetShortName_cmp cmp) w \<and> \<not> areComponentPodsRemoved M cmp w))
      (cm_allComponents cm)"

definition initUpdateConditions :: "'e env_scheme \<Rightarrow> 'x yts_scheme \<Rightarrow> 'x yts_scheme" where
  "initUpdateConditions E w =
    fold (\<lambda>name0 w. case GetStatusCondition E name0 w of
                     Some condition \<Rightarrow> SetUpdateStatusCondition E condition w
                   | None \<Rightarrow> w)
      [''MasterCellsPreparation'', ''MasterCellsRegistration'', ''MasterCellsCompletion''] w"

section \<open>The sync loop\<close>

text \<open>\<open>ctrl.Result\<close>: requeue at once, or after a number of seconds (0 is unset).\<close>

record ctrl_result =
  r_Requeue :: bool
  r_RequeueAfter :: int

definition empty_result :: ctrl_result where
  "empty_result = \<lparr>r_Requeue = False, r_RequeueAfter = 0\<rparr>"

definition requeue_result :: ctrl_result where
  "requeue_result = \<lparr>r_Requeue = True, r_RequeueAfter = 0\<rparr>"

definition requeue_after :: "int \<Rightarrow> ctrl_result" where
  "requeue_after secs = \<lparr>r_Requeue = False, r_RequeueAfter = secs\<rparr>"

definition DefaultClusterStatusPollPeriod :: int where
  "DefaultClusterStatusPollPeriod = 60"

record loop_state =
  lp_hasPending :: bool
  lp_hasStarted :: bool
  lp_syncErr :: go_error

datatype loop_exit = LoopDone loop_state | LoopFailed string

abbreviation "ConditionImageHeaterReady \<equiv> ''ImageHeaterReady''"
abbreviation "ConditionImageHeaterComplete \<equiv> ''ImageHeaterComplete''"
abbreviation "ConditionClusterMaintenance \<equiv> ''ClusterMaintenance''"
abbreviation "ConditionUpdateIsPossible \<equiv> ''UpdateIsPossible''"

text \<open>
  Lines 374 to 381: a cluster being initialized waits for the image heater; \<open>Some\<close> is the break.
\<close>

definition heater_break :: "'e env_scheme \<Rightarrow> 'x component \<Rightarrow> 'x comps_scheme \<Rightarrow> 'x comps_scheme option" where
  "heater_break E c w =
    (if IsInitializing w \<and> GetType c = ImageHeaterType then
       (case GetStatusCondition E ConditionImageHeaterComplete w of
          Some complete \<Rightarrow>
            if c_Status complete \<noteq> ConditionTrue
            then Some (RecordNormal ''Initialization''
                        (''Waiting for image heater completion: '' @ c_Message complete) w)
            else None
        | None \<Rightarrow> None)
     else None)"

fun sync_components ::
  "'e env_scheme \<Rightarrow> 'x component list \<Rightarrow> loop_state \<Rightarrow> 'x comps_scheme \<Rightarrow> 'x comps_scheme \<times> loop_exit" where
  "sync_components E [] ls w = (w, LoopDone ls)"
| "sync_components E (c # cs) ls w =
    (case cmp_Sync c True w of
       (w1, status, Some err) \<Rightarrow>
         (w1, LoopFailed (''failed to get status for '' @ GetFullName c @ '': '' @ err))
     | (w1, status, None) \<Rightarrow>
         (let w2 = SetStatus c status w1;
              (w3, ls1) =
                (if cs_SyncStatus status = SyncStatusPending \<or> cs_SyncStatus status = SyncStatusUpdating
                 then case cmp_Sync c False w2 of
                        (w3, _, syncErr) \<Rightarrow> (w3, ls\<lparr>lp_hasPending := True, lp_syncErr := syncErr\<rparr>)
                 else if cs_SyncStatus status = SyncStatusStarted
                 then (w2, ls\<lparr>lp_hasStarted := True\<rparr>)
                 else (w2, ls))
          in if lp_syncErr ls1 \<noteq> None then (w3, LoopDone ls1)
             else case heater_break E c w3 of
                    Some w4 \<Rightarrow> (w4, LoopDone ls1)
                  | None \<Rightarrow> sync_components E cs ls1 w3))"

definition sync_prologue :: "'e env_scheme \<Rightarrow> 'x component_manager \<Rightarrow> 'x comps_scheme \<Rightarrow> 'x comps_scheme" where
  "sync_prologue E cm w =
    (let w1 = (if GetImageHeater '''' w = None
               then RemoveStatusCondition E ConditionImageHeaterComplete
                      (RemoveStatusCondition E ConditionImageHeaterReady w)
               else w)
     in if s_clusterMaintenance (cm_status cm) then
          let shutdown = string_of_shutdown (cmt_Shutdown (GetClusterMaintenance w1))
          in SetStatusCondition E (mkcond ConditionClusterMaintenance ConditionTrue shutdown
                (''Cluster is under maintenance, shutdown '' @ shutdown)) w1
        else RemoveStatusCondition E ConditionClusterMaintenance w1)"

definition cm_Sync ::
  "'e env_scheme \<Rightarrow> 'x component_manager \<Rightarrow> 'x comps_scheme \<Rightarrow> 'x comps_scheme \<times> ctrl_result \<times> go_error" where
  "cm_Sync E cm w =
    (case sync_components E (cm_allComponents cm)
            \<lparr>lp_hasPending = False, lp_hasStarted = False, lp_syncErr = None\<rparr> (sync_prologue E cm w) of
       (w1, LoopFailed err) \<Rightarrow> (w1, requeue_result, Some err)
     | (w1, LoopDone ls) \<Rightarrow>
         (case UpdateStatus E w1 of
            (w2, Some err) \<Rightarrow> (w2, requeue_result, Some err)
          | (w2, None) \<Rightarrow>
              (w2,
               if lp_syncErr ls \<noteq> None then (requeue_result, lp_syncErr ls)
               else if lp_hasPending ls then (requeue_after 1, None)
               else if lp_hasStarted ls then (requeue_after 5, None)
               else (requeue_after DefaultClusterStatusPollPeriod, None))))"

section \<open>Order of the components\<close>

fun deps_first :: "('k \<Rightarrow> 'k list) \<Rightarrow> 'k set \<Rightarrow> 'k list \<Rightarrow> bool" where
  "deps_first deps seen [] \<longleftrightarrow> True"
| "deps_first deps seen (k # ks) \<longleftrightarrow> set (deps k) \<subseteq> seen \<and> deps_first deps (insert k seen) ks"

lemma deps_first_append [simp]:
  "deps_first deps seen (xs @ ys) \<longleftrightarrow> deps_first deps seen xs \<and> deps_first deps (seen \<union> set xs) ys"
  by (induction xs arbitrary: seen) auto

lemma deps_first_mono: "deps_first deps seen ks \<Longrightarrow> seen \<subseteq> seen' \<Longrightarrow> deps_first deps seen' ks"
  by (induction ks arbitrary: seen seen') (auto, meson insert_mono)

lemma deps_first_all: "(\<And>k. k \<in> set ks \<Longrightarrow> set (deps k) \<subseteq> seen) \<Longrightarrow> deps_first deps seen ks"
  by (induction ks arbitrary: seen) (simp_all add: subset_insertI2)

lemma deps_first_split: "deps_first deps seen (xs @ k # ys) \<Longrightarrow> set (deps k) \<subseteq> seen \<union> set xs"
  by simp

lemma set_if_kind [simp]: "set (if_kind b k) = (if b then {k} else {})"
  by (simp add: if_kind_def)

lemma deps_first_if_kind [simp]: "deps_first deps seen (if_kind b k) \<longleftrightarrow> (b \<longrightarrow> set (deps k) \<subseteq> seen)"
  by (simp add: if_kind_def)

lemma deps_first_map [simp]:
  "(\<forall>x \<in> set xs. set (deps (f x)) \<subseteq> seen) \<Longrightarrow> deps_first deps seen (map f xs)"
  by (rule deps_first_all) auto

lemma kind_deps_simps [simp]:
  fixes spec defines "m \<equiv> PrimaryMasterK (sp_PrimaryMasters spec)" and "tnds \<equiv> tablet_node_kinds spec"
  shows "kind_deps spec ImageHeaterK = []" "kind_deps spec (SecondaryMasterK s) = []"
    "kind_deps spec (PrimaryMasterK p) = map SecondaryMasterK (sp_SecondaryMasters spec)"
    "kind_deps spec (HTTPProxyK g) = [m]"
    "kind_deps spec YtsaurusClientK = [m, HTTPProxyK (hd (sp_HTTPProxies spec))]"
    "kind_deps spec DiscoveryK = [YtsaurusClientK, m]"
    "kind_deps spec (DataNodeK g) = [m, YtsaurusClientK]"
    "kind_deps spec UIK = [m]" "kind_deps spec (RPCProxyK g) = [m]"
    "kind_deps spec (TCPProxyK g) = [m]" "kind_deps spec (KafkaProxyK g) = [m]"
    "kind_deps spec (ExecNodeK g) = [m, YtsaurusClientK]"
    "kind_deps spec (TabletNodeK g b) = [YtsaurusClientK, m]"
    "kind_deps spec SchedulerK = [m, YtsaurusClientK] @ tnds"
    "kind_deps spec ControllerAgentK = [m, YtsaurusClientK]"
    "kind_deps spec QueryTrackerK = [YtsaurusClientK] @ tnds"
    "kind_deps spec QueueAgentK = [YtsaurusClientK, m] @ tnds"
    "kind_deps spec YQLAgentK = [YtsaurusClientK, m]"
    "kind_deps spec StrawberryControllerK = [m, SchedulerK] @ map DataNodeK (sp_DataNodes spec)"
    "kind_deps spec MasterCacheK = [YtsaurusClientK, m]"
    "kind_deps spec CypressProxyK = []" "kind_deps spec BundleControllerK = []"
    "kind_deps spec TabletBalancerK = []" "kind_deps spec TimbertruckK = tnds @ [YtsaurusClientK]"
  unfolding m_def tnds_def by (simp_all add: kind_deps_def)

lemma deps_first_tablet_nodes [simp]:
  "YtsaurusClientK \<in> seen \<Longrightarrow> PrimaryMasterK (sp_PrimaryMasters spec) \<in> seen \<Longrightarrow>
   deps_first (kind_deps spec) seen (tablet_node_kinds spec)"
  by (rule deps_first_all) (auto simp: tablet_node_kinds_def)

lemma component_kinds_deps_first:
  assumes "component_kinds w = Some kinds"
  shows "deps_first (kind_deps (yt_Spec (w_object w))) {} kinds"
proof -
  let ?spec = "yt_Spec (w_object w)"
  have hp: "sp_HTTPProxies ?spec \<noteq> []"
    using assms by (auto simp: component_kinds_def Let_def split: if_splits)
  have kinds: "kinds = the (component_kinds w)" using assms by simp
  show ?thesis
    unfolding kinds component_kinds_def Let_def using hp
    by (simp add: subset_insertI2 le_supI1 le_supI2)
qed


section \<open>Aggregated status\<close>

definition status_known :: "component_type \<Rightarrow> sync_status \<Rightarrow> bool" where
  "status_known t s \<longleftrightarrow> s \<in> {SyncStatusReady, SyncStatusNeedUpdate, SyncStatusStarted, SyncStatusPending,
     SyncStatusUpdating, SyncStatusBlocked} \<or> t = YtsaurusClientType"

lemma classify_None: "classify t r st s = None \<longleftrightarrow> \<not> status_known t (cs_SyncStatus st)"
  by (cases "cs_SyncStatus st") (auto simp: classify_def IsReady_def Let_def status_known_def)

text \<open>The classes of \<open>FetchStatus\<close> as predicates on the type and the status of a component.\<close>

definition is_client_wait :: "component_type \<times> sync_status \<Rightarrow> bool" where
  "is_client_wait p \<longleftrightarrow> fst p = YtsaurusClientType \<and> snd p \<noteq> SyncStatusReady"

definition in_class :: "sync_status set \<Rightarrow> component_type \<times> sync_status \<Rightarrow> bool" where
  "in_class S p \<longleftrightarrow> \<not> is_client_wait p \<and> snd p \<in> S"

lemma classify_Some:
  assumes "classify t r st s = Some s'"
  defines "p \<equiv> (t, cs_SyncStatus st)"
  shows "s_allReady s' = (s_allReady s \<and> snd p = SyncStatusReady)"
    and "s_allRunning s' = (s_allRunning s \<and> (is_client_wait p \<or> snd p \<in> {SyncStatusReady, SyncStatusNeedUpdate}))"
    and "s_allStarted s' = (s_allStarted s \<and>
           (is_client_wait p \<or> snd p \<in> {SyncStatusReady, SyncStatusNeedUpdate, SyncStatusStarted}))"
    and "s_masterReady s' = (s_masterReady s \<and> (t = MasterType \<longrightarrow> snd p = SyncStatusReady))"
    and "s_needUpdate s' = s_needUpdate s @ (if in_class {SyncStatusNeedUpdate} p then [r] else [])"
    and "s_started s' = s_started s @ (if in_class {SyncStatusStarted} p then [r] else [])"
    and "s_blocked s' = s_blocked s @ (if in_class {SyncStatusBlocked} p then [r] else [])"
    and "s_pending s' = s_pending s @
           (if is_client_wait p \<or> in_class {SyncStatusPending, SyncStatusUpdating} p then [r] else [])"
  using assms(1) unfolding p_def
  by (cases "cs_SyncStatus st";
      auto simp: classify_def IsReady_def Let_def is_client_wait_def in_class_def split: if_splits)+

lemma classify_frame:
  assumes "classify t r st s = Some s'"
  shows "s_clusterMaintenance s' = s_clusterMaintenance s \<and> s_mastersMaintenance s' = s_mastersMaintenance s \<and>
    s_shutdownTablets s' = s_shutdownTablets s \<and> s_canUpdate s' = s_canUpdate s"
  using assms
  by (cases "cs_SyncStatus st";
      auto simp: classify_def IsReady_def Let_def split: if_splits)


text \<open>Statuses saved by the loop.\<close>

lemma SetReadyCondition_w_status [simp]: "w_status (SetReadyCondition M c st w) = w_status w"
  by (simp add: SetReadyCondition_def SetStatusCondition_def Let_def)

lemma fetch_component_status:
  assumes "well_behaved c" and "fetch_component E c w = (w1, Inr status)"
  shows "w_status w1 = (w_status w)(cmp_id c := status\<lparr>cs_Component := GetFullName c\<rparr>)"
proof -
  obtain wf err where f: "cmp_Fetch c w = (wf, err)" by fastforce
  obtain wn st0 where n: "(if IsReadyToUpdate wf then cmp_NeedUpdate c wf else (wf, undefined_status)) = (wn, st0)"
    by fastforce
  obtain ws st e where sy: "cmp_Sync c True wn = (ws, st, e)" by (metis prod_cases3)
  have "keeps w wn" using n well_behaved_keeps(1,2)[OF assms(1)] f
    by (metis (no_types, lifting) keeps_trans prod.inject)
  moreover have "keeps wn ws" using well_behaved_keeps(3)[OF assms(1) sy] .
  ultimately show ?thesis using assms(2) f n sy
    by (auto simp: fetch_component_def Let_def SetStatus_def keeps_def split: option.splits if_splits)
qed

lemma fetch_components_status_other:
  assumes "fetch_components E cs s w = (w', s', err)" and "list_all well_behaved cs"
    and "err = None" and "i \<notin> cmp_id ` set cs"
  shows "w_status w' i = w_status w i"
  using assms
proof (induction cs arbitrary: s w)
  case (Cons c cs)
  obtain w1 st where fc: "fetch_component E c w = (w1, Inr st)"
    using Cons.prems by (auto split: prod.splits sum.splits)
  then obtain s1 where "fetch_components E cs s1 w1 = (w', s', err)"
    using Cons.prems by (auto split: option.splits)
  with Cons fetch_component_status[OF _ fc] show ?case by auto
qed simp

definition saved_sync :: "'x comps_scheme \<Rightarrow> 'x component \<Rightarrow> component_type \<times> sync_status" where
  "saved_sync w c = (GetType c, cs_SyncStatus (w_status w (cmp_id c)))"

text \<open>The aggregate \<open>s'\<close> extends \<open>s\<close> by the components \<open>cs\<close> with the statuses \<open>f\<close>.\<close>

definition aggregates ::
  "component_manager_status \<Rightarrow> 'x component list \<Rightarrow> ('x component \<Rightarrow> component_type \<times> sync_status) \<Rightarrow>
   component_manager_status \<Rightarrow> bool" where
  "aggregates s cs f s' \<longleftrightarrow>
    s_allReady s' = (s_allReady s \<and> (\<forall>c \<in> set cs. snd (f c) = SyncStatusReady)) \<and>
    s_allRunning s' = (s_allRunning s \<and>
      (\<forall>c \<in> set cs. is_client_wait (f c) \<or> snd (f c) \<in> {SyncStatusReady, SyncStatusNeedUpdate})) \<and>
    s_allStarted s' = (s_allStarted s \<and>
      (\<forall>c \<in> set cs. is_client_wait (f c) \<or>
         snd (f c) \<in> {SyncStatusReady, SyncStatusNeedUpdate, SyncStatusStarted})) \<and>
    s_masterReady s' = (s_masterReady s \<and>
      (\<forall>c \<in> set cs. GetType c = MasterType \<longrightarrow> snd (f c) = SyncStatusReady)) \<and>
    s_needUpdate s' = s_needUpdate s @ map GetComponent (filter (\<lambda>c. in_class {SyncStatusNeedUpdate} (f c)) cs) \<and>
    s_started s' = s_started s @ map GetComponent (filter (\<lambda>c. in_class {SyncStatusStarted} (f c)) cs) \<and>
    s_blocked s' = s_blocked s @ map GetComponent (filter (\<lambda>c. in_class {SyncStatusBlocked} (f c)) cs) \<and>
    s_pending s' = s_pending s @ map GetComponent
      (filter (\<lambda>c. is_client_wait (f c) \<or> in_class {SyncStatusPending, SyncStatusUpdating} (f c)) cs)"

lemma aggregates_Cons:
  assumes "classify (GetType c) (GetComponent c) st s = Some s1" and "f c = (GetType c, cs_SyncStatus st)"
    and "aggregates s1 cs f s'"
  shows "aggregates s (c # cs) f s'"
  using assms(3) classify_Some[OF assms(1)] assms(2) unfolding aggregates_def by auto

lemma fetch_components_aggregates:
  assumes "fetch_components E cs s w = (w', s', None)" and "list_all well_behaved cs"
    and "distinct (map cmp_id cs)"
  shows "aggregates s cs (saved_sync w') s'"
  using assms
proof (induction cs arbitrary: s w)
  case Nil
  then show ?case by (simp add: aggregates_def)
next
  case (Cons c cs)
  obtain w1 st where fc: "fetch_component E c w = (w1, Inr st)"
    using Cons.prems by (auto split: prod.splits sum.splits)
  with Cons.prems obtain s1 where cl: "classify (GetType c) (GetComponent c) st s = Some s1"
    and rest: "fetch_components E cs s1 w1 = (w', s', None)"
    by (auto split: option.splits)
  have "w_status w' (cmp_id c) = w_status w1 (cmp_id c)"
    using fetch_components_status_other[OF rest] Cons.prems by auto
  then have "saved_sync w' c = (GetType c, cs_SyncStatus st)"
    using fetch_component_status[OF _ fc] Cons.prems(2) by (simp add: saved_sync_def)
  from aggregates_Cons[where f = "saved_sync w'", OF cl this] Cons.IH[OF rest] Cons.prems show ?case by simp
qed

lemma initial_status_simps [simp]:
  "s_allReady (initial_status sd)" "s_allRunning (initial_status sd)" "s_allStarted (initial_status sd)"
  "s_masterReady (initial_status sd)" "s_needUpdate (initial_status sd) = []"
  "s_started (initial_status sd) = []" "s_blocked (initial_status sd) = []"
  "s_pending (initial_status sd) = []"
  by (simp_all add: initial_status_def zero_cm_status_def)

text \<open>
  When \<open>FetchStatus\<close> succeeds, its flags and lists are exactly what the saved statuses of the
  components say: all are ready; all but a waiting client are running, or started; all masters are
  ready; and the components that need an update, are started, blocked or pending are listed in the
  order of the component list, a client that is not ready being pending only.
\<close>

theorem FetchStatus_reflects_components:
  assumes "FetchStatus E cm w = (w', cm', None)"
    and "list_all well_behaved (cm_allComponents cm)"
    and "distinct (map cmp_id (cm_allComponents cm))"
  defines "cs \<equiv> cm_allComponents cm" and "st \<equiv> saved_sync w'"
  shows "(s_allReady (cm_status cm') \<longleftrightarrow> (\<forall>c \<in> set cs. snd (st c) = SyncStatusReady)) \<and>
    (s_allRunning (cm_status cm') \<longleftrightarrow>
      (\<forall>c \<in> set cs. is_client_wait (st c) \<or> snd (st c) \<in> {SyncStatusReady, SyncStatusNeedUpdate})) \<and>
    (s_allStarted (cm_status cm') \<longleftrightarrow>
      (\<forall>c \<in> set cs. is_client_wait (st c) \<or>
         snd (st c) \<in> {SyncStatusReady, SyncStatusNeedUpdate, SyncStatusStarted})) \<and>
    (s_masterReady (cm_status cm') \<longleftrightarrow>
      (\<forall>c \<in> set cs. GetType c = MasterType \<longrightarrow> snd (st c) = SyncStatusReady)) \<and>
    s_needUpdate (cm_status cm') = map GetComponent (filter (\<lambda>c. in_class {SyncStatusNeedUpdate} (st c)) cs) \<and>
    s_started (cm_status cm') = map GetComponent (filter (\<lambda>c. in_class {SyncStatusStarted} (st c)) cs) \<and>
    s_blocked (cm_status cm') = map GetComponent (filter (\<lambda>c. in_class {SyncStatusBlocked} (st c)) cs) \<and>
    s_pending (cm_status cm') = map GetComponent
      (filter (\<lambda>c. is_client_wait (st c) \<or> in_class {SyncStatusPending, SyncStatusUpdating} (st c)) cs)"
proof -
  obtain s where "fetch_components E cs (initial_status (cmt_Shutdown (GetClusterMaintenance w))) w = (w', s, None)"
    and "cm_status cm' = s"
    using assms(1) unfolding cs_def by (auto simp: FetchStatus_def Let_def split: prod.splits)
  then have "aggregates (initial_status (cmt_Shutdown (GetClusterMaintenance w))) cs st (cm_status cm')"
    using fetch_components_aggregates assms(2,3) unfolding cs_def st_def by blast
  then show ?thesis unfolding aggregates_def by simp
qed


section \<open>Update plan\<close>

definition limit_reached :: "update_selector \<Rightarrow> int \<Rightarrow> bool" where
  "limit_reached sel n \<longleftrightarrow> (\<exists>limit. sel_Concurrency sel = Some limit \<and> limit \<le> n)"

lemma find_selector_Some:
  assumes "find_selector plan ns c k = Some i" and "length ns = length plan"
  shows "k \<le> i \<and> i - k < length plan \<and> canUpdateComponent (plan ! (i - k)) c \<and>
    \<not> limit_reached (plan ! (i - k)) (ns ! (i - k))"
  using assms
proof (induction plan ns c k rule: find_selector.induct)
  case (1 sel plan n ns c k)
  show ?case
  proof (cases "canUpdateComponent sel c \<and> \<not> limit_reached sel n")
    case True
    then show ?thesis using 1 by (auto simp: limit_reached_def split: option.splits if_splits)
  next
    case False
    then have "find_selector plan ns c (Suc k) = Some i"
      using 1 by (auto simp: limit_reached_def split: option.splits if_splits)
    with False 1 have *: "Suc k \<le> i \<and> i - Suc k < length plan \<and> canUpdateComponent (plan ! (i - Suc k)) c \<and>
      \<not> limit_reached (plan ! (i - Suc k)) (ns ! (i - Suc k))"
      by (auto simp: limit_reached_def split: option.splits if_splits)
    then obtain d where "i = Suc k + d" by (metis le_Suc_ex)
    with * show ?thesis by simp
  qed
qed auto

lemma find_selector_None:
  assumes "find_selector plan ns c k = None" and "length ns = length plan" and "i < length plan"
    and "canUpdateComponent (plan ! i) c"
  shows "limit_reached (plan ! i) (ns ! i)"
  using assms
proof (induction plan ns c k arbitrary: i rule: find_selector.induct)
  case (1 sel plan n ns c k)
  then show ?case
    by (cases i) (auto simp: limit_reached_def split: option.splits if_splits)
qed auto

text \<open>
  \<open>plan_ok plan need used can cannot\<close>: the selectors \<open>used\<close> admit the components \<open>can\<close> one by
  one within their limits, and only exhausted selectors match a component of \<open>cannot\<close>.
\<close>

definition plan_ok ::
  "update_selector list \<Rightarrow> nat list \<Rightarrow> component_ref list \<Rightarrow> component_ref list \<Rightarrow> bool" where
  "plan_ok plan used can cannot \<longleftrightarrow>
    list_all2 (\<lambda>i c. i < length plan \<and> canUpdateComponent (plan ! i) c) used can \<and>
    (\<forall>i < length plan. \<forall>n. sel_Concurrency (plan ! i) = Some n \<longrightarrow> int (count_list used i) \<le> max 0 n) \<and>
    (\<forall>c \<in> set cannot. \<forall>i < length plan. canUpdateComponent (plan ! i) c \<longrightarrow>
       limit_reached (plan ! i) (int (count_list used i)))"

definition counts_of :: "update_selector list \<Rightarrow> nat list \<Rightarrow> int list" where
  "counts_of plan used = map (\<lambda>i. int (count_list used i)) [0 ..< length plan]"

lemma counts_of_snoc:
  assumes "i < length plan" and "length used + 1 < 2 ^ 31"
  shows "(counts_of plan used)[i := wrap32 (counts_of plan used ! i + 1)] = counts_of plan (used @ [i])"
proof -
  have "count_list used i \<le> length used" by (rule count_le_length)
  then have "int32 (int (count_list used i) + 1)" using assms(2) by (simp add: int32_def)
  with assms(1) show ?thesis
    by (auto simp: counts_of_def nth_list_update intro!: nth_equalityI)
qed

lemma limit_reached_mono: "limit_reached sel m \<Longrightarrow> m \<le> n \<Longrightarrow> limit_reached sel n"
  by (auto simp: limit_reached_def)

lemma apply_plan_ok:
  assumes "apply_plan plan need (counts_of plan used) (can, cannot) = (can', cannot')"
    and "plan_ok plan used can cannot" and "length used + length need < 2 ^ 31"
  shows "\<exists>used'. plan_ok plan used' can' cannot'"
  using assms
proof (induction need arbitrary: used can cannot)
  case (Cons c need)
  have len: "length (counts_of plan used) = length plan" by (simp add: counts_of_def)
  show ?case
  proof (cases "find_selector plan (counts_of plan used) c 0")
    case None
    from find_selector_None[OF None len]
    have "plan_ok plan used can (cannot @ [c])"
      using Cons.prems(2) by (auto simp: plan_ok_def counts_of_def)
    then show ?thesis using Cons.IH[of used can "cannot @ [c]"] Cons.prems None by simp
  next
    case (Some i)
    from find_selector_Some[OF Some len] have i: "i < length plan" "canUpdateComponent (plan ! i) c"
      "\<not> limit_reached (plan ! i) (int (count_list used i))" by (auto simp: counts_of_def)
    from i(3) have lim: "\<And>n. sel_Concurrency (plan ! i) = Some n \<Longrightarrow> int (count_list used i) < n"
      by (auto simp: limit_reached_def not_le)
    have "plan_ok plan (used @ [i]) (can @ [c]) cannot"
      using Cons.prems(2) i lim unfolding plan_ok_def
      by (fastforce intro: list_all2_appendI elim: limit_reached_mono)
    then show ?thesis
      using Cons.IH[of "used @ [i]" "can @ [c]" cannot] Cons.prems Some
        counts_of_snoc[OF i(1), of used] by simp
  qed
qed auto

lemma apply_plan_shuffle:
  assumes "apply_plan plan need ns (can, cannot) = (can', cannot')"
  shows "\<exists>xs ys. can' = can @ xs \<and> cannot' = cannot @ ys \<and> need \<in> shuffles xs ys"
  using assms
proof (induction need arbitrary: ns can cannot)
  case (Cons c need)
  show ?case
  proof (cases "find_selector plan ns c 0")
    case None
    with Cons.IH[of ns can "cannot @ [c]"] Cons.prems obtain xs ys
      where "can' = can @ xs" "cannot' = (cannot @ [c]) @ ys" "need \<in> shuffles xs ys" by auto
    then show ?thesis by (intro exI[of _ xs] exI[of _ "c # ys"]) (auto intro: Cons_in_shuffles_rightI)
  next
    case (Some i)
    with Cons.IH Cons.prems obtain xs ys
      where "can' = (can @ [c]) @ xs" "cannot' = cannot @ ys" "need \<in> shuffles xs ys" by fastforce
    then show ?thesis by (intro exI[of _ "c # xs"] exI[of _ ys]) (auto intro: Cons_in_shuffles_leftI)
  qed
qed auto

text \<open>
  The update plan splits the components that need an update into those that can and those
  that cannot be updated, keeping their order and losing none.
\<close>

theorem update_plan_partitions:
  "s_needUpdate s \<in> shuffles (s_canUpdate (applyUpdatePlan plan s)) (s_cannotUpdate (applyUpdatePlan plan s))"
proof -
  obtain can cannot where
    ap: "apply_plan plan (s_needUpdate s) (replicate (length plan) 0) ([], []) = (can, cannot)" by fastforce
  from apply_plan_shuffle[OF this] show ?thesis by (simp add: applyUpdatePlan_def ap)
qed



section \<open>Frame of the loops\<close>

lemma same_control_fetch_component:
  assumes "meta_laws E" "well_behaved c" "fetch_component E c w = (w', r)"
  shows "same_control w w'"
proof -
  obtain w1 e where f: "cmp_Fetch c w = (w1, e)" by fastforce
  note s1 = well_behavedD(1)[OF assms(2) f]
  obtain wn st0 where n: "(if IsReadyToUpdate w1 then cmp_NeedUpdate c w1 else (w1, undefined_status)) = (wn, st0)"
    by fastforce
  have "same_control w1 wn" using n well_behaved_keeps(2)[OF assms(2), of w1]
    by (cases "IsReadyToUpdate w1") (auto simp: keeps_def)
  note sn = same_control_trans[OF s1 this]
  obtain w2 st e2 where sy: "cmp_Sync c True wn = (w2, st, e2)" by (metis prod_cases3)
  note s2 = same_control_trans[OF sn well_behavedD(2)[OF assms(2) sy]]
  have set: "same_control v (SetReadyCondition E c st' (SetStatus c st' v))" for v st'
    unfolding SetReadyCondition_def Let_def
    by (rule same_control_trans[OF same_control_SetStatus same_control_SetStatusCondition[OF assms(1)]]) simp
  show ?thesis using assms(3) s1 s2 f n sy
    by (auto simp: fetch_component_def Let_def split: option.splits if_splits
        intro: same_control_trans[OF sn set] same_control_trans[OF s2 set])
qed

lemma same_control_fetch_components:
  assumes "meta_laws E" "list_all well_behaved cs" "fetch_components E cs s w = (w', s', e)"
  shows "same_control w w'"
  using assms(2,3)
proof (induction cs arbitrary: s w)
  case (Cons c cs)
  obtain w1 r where fc: "fetch_component E c w = (w1, r)" by fastforce
  note s1 = same_control_fetch_component[OF assms(1) _ fc]
  show ?case using Cons fc s1
    by (auto split: sum.splits option.splits intro: same_control_trans)
qed simp

lemma same_control_heater_break: "heater_break E c w = Some w' \<Longrightarrow> same_control w w'"
  by (auto simp: heater_break_def split: if_splits option.splits)

lemma same_control_sync_components:
  assumes "list_all well_behaved cs" "sync_components E cs ls w = (w', r)"
  shows "same_control w w'"
  using assms
proof (induction cs arbitrary: ls w)
  case (Cons c cs)
  obtain w1 st e where sy: "cmp_Sync c True w = (w1, st, e)" by (metis prod_cases3)
  obtain w3 st' e' where sy': "cmp_Sync c False (SetStatus c st w1) = (w3, st', e')" by (metis prod_cases3)
  have wb: "well_behaved c" using Cons.prems by simp
  note s1 = well_behavedD(2)[OF wb sy]
  note s2 = same_control_trans[OF s1 same_control_SetStatus[of w1 c st]]
  note s3 = same_control_trans[OF s2 well_behavedD(2)[OF wb sy']]
  show ?case using Cons sy sy' s1 s2 s3
    by (auto simp: Let_def split: option.splits if_splits
        intro: same_control_trans same_control_heater_break)
qed simp

lemma same_control_sync_prologue:
  assumes "meta_laws E"
  shows "same_control w (sync_prologue E cm w)"
proof -
  note set = same_control_SetStatusCondition[OF assms] and rem = same_control_RemoveStatusCondition[OF assms]
  define w1 where "w1 = (if GetImageHeater '''' w = None
    then RemoveStatusCondition E ConditionImageHeaterComplete
           (RemoveStatusCondition E ConditionImageHeaterReady w) else w)"
  have "same_control w w1"
    unfolding w1_def by (simp add: same_control_trans[OF rem rem])
  moreover have "same_control w1 (sync_prologue E cm w)"
    unfolding sync_prologue_def Let_def w1_def[symmetric] by (simp add: set rem)
  ultimately show ?thesis by (rule same_control_trans)
qed

lemma cm_Sync_effect:
  assumes "meta_laws E" and "list_all well_behaved (cm_allComponents cm)"
    and "cm_Sync E cm w = (w', result, err)"
  shows "GetClusterState w' = GetClusterState w \<and> GetUpdateState w' = GetUpdateState w \<and>
    GetUpdatingComponents w' = GetUpdatingComponents w \<and> yt_Spec (w_object w') = yt_Spec (w_object w) \<and>
    (r_Requeue result \<or> r_RequeueAfter result > 0) \<and>
    (w_saved w' = w_saved w @ [w_object w'] \<or> w_saved w' = w_saved w \<and> err \<noteq> None)"
proof -
  let ?p = "sync_prologue E cm w" and ?ls = "\<lparr>lp_hasPending = False, lp_hasStarted = False, lp_syncErr = None\<rparr>"
  obtain w1 r where loop: "sync_components E (cm_allComponents cm) ?ls ?p = (w1, r)" by fastforce
  have ctl: "same_control w w1"
    using same_control_trans[OF same_control_sync_prologue[OF assms(1)] same_control_sync_components[OF assms(2) loop]] .
  show ?thesis
  proof (cases r)
    case (LoopFailed e)
    with assms(3) loop ctl show ?thesis by (auto simp: cm_Sync_def same_control_def requeue_result_def)
  next
    case (LoopDone ls)
    obtain w2 e where up: "UpdateStatus E w1 = (w2, e)" by fastforce
    have w': "w' = w2" and err: "e \<noteq> None \<Longrightarrow> err = e"
      and res: "r_Requeue result \<or> r_RequeueAfter result > 0"
      using assms(3)
      by (auto simp: cm_Sync_def loop LoopDone up requeue_result_def requeue_after_def
          DefaultClusterStatusPollPeriod_def split: option.splits if_splits)
    have "w_saved w2 = (if e = None then w_saved w1 @ [w_object w2] else w_saved w1)"
      using UpdateStatus_saved[of E w1] by (simp add: up)
    moreover have "GetClusterState w2 = GetClusterState w1" "GetUpdateState w2 = GetUpdateState w1"
      "GetUpdatingComponents w2 = GetUpdatingComponents w1" "yt_Spec (w_object w2) = yt_Spec (w_object w1)"
      using GetClusterState_simps(6)[of E w1] GetUpdateState_simps(3)[of E w1] UpdateStatus_frame[of E w1]
      by (simp_all add: up GetUpdatingComponents_def)
    ultimately show ?thesis using ctl res err unfolding w' same_control_def by (simp split: if_splits)
  qed
qed


section \<open>Witnesses\<close>

definition sample_manager :: "component_manager_status \<Rightarrow> 'x component_manager" where
  "sample_manager s = \<lparr>cm_allComponents =
       [const_component 0 MasterType '''' SyncStatusReady,
        const_component 2 DataNodeType '''' SyncStatusNeedUpdate],
     cm_status = s, cm_getHeaterStatus = None\<rparr>"

lemma sample_manager_simps [simp]:
  "cm_allComponents (sample_manager s) =
     [const_component 0 MasterType '''' SyncStatusReady, const_component 2 DataNodeType '''' SyncStatusNeedUpdate]"
  "cm_status (sample_manager s) = s" "cm_getHeaterStatus (sample_manager s) = None"
  by (simp_all add: sample_manager_def)

abbreviation sample_running :: comps where
  "sample_running \<equiv> sample_world ClusterStateRunning empty_update_status []"


theorem FetchStatus_reflects_components_witness:
  "\<exists>w' cm'. FetchStatus sample_env (sample_manager zero_cm_status) sample_running = (w', cm', None) \<and>
     \<not> s_allReady (cm_status cm') \<and> s_allRunning (cm_status cm') \<and>
     s_needUpdate (cm_status cm') = [\<lparr>ref_type = DataNodeType, ref_name = ''''\<rparr>]"
proof -
  let ?cm = "sample_manager zero_cm_status :: unit component_manager"
  obtain w' cm' err where f: "FetchStatus sample_env ?cm sample_running = (w', cm', err)"
    by (metis prod_cases3)
  have none: "err = None"
    using f by (simp add: FetchStatus_def Let_def fetch_component_def classify_def
        IsReadyToUpdate_def IsNeedUpdate_def IsReady_def GetType_def ForComponent_def split: prod.splits if_splits)
  have st: "saved_sync w' (const_component 0 MasterType '''' SyncStatusReady) = (MasterType, SyncStatusReady)"
    "saved_sync w' (const_component 2 DataNodeType '''' SyncStatusNeedUpdate) = (DataNodeType, SyncStatusNeedUpdate)"
    using f by (auto simp: FetchStatus_def Let_def fetch_component_def classify_def saved_sync_def undefined_status_def
        IsReadyToUpdate_def IsNeedUpdate_def IsReady_def GetType_def ForComponent_def SetStatus_def
        split: prod.splits if_splits)
  note F = FetchStatus_reflects_components[OF f[unfolded none]]
  show ?thesis using F f none
    by (auto simp: st is_client_wait_def in_class_def GetComponent_def GetType_def GetShortName_cmp_def
        GetInstanceGroup_def ForComponent_def)
qed


end
