(* ===== verification/Update_Flow.thy ===== *)
theory Update_Flow
  imports Component_Manager
begin

text \<open>
  The update state machine of \<open>controllers/update_flow_steps.go\<close>.  Steps are allocated on a heap, a
  list indexed by addresses, because chaining mutates the steps already built; a flow tree is an
  index from update states to addresses.  The abstract view of a flow is the list of its states:
  the interface \<open>update_flow\<close> states what that list promises, and both flows of the operator are
  shown to implement it.
\<close>

section \<open>Steps\<close>

datatype step_mark = stepResultMarkUnsatisfied | stepResultMarkHappy | stepResultMarkUnhappy

definition terminateTransitions :: "update_state \<rightharpoonup> cluster_state" where
  "terminateTransitions = [UpdateStateImpossibleToStart \<mapsto> ClusterStateUpdateCanceled]"

record flow_step =
  fs_updateState :: update_state
  fs_nextSteps :: "(step_mark \<rightharpoonup> nat) option"

type_synonym flow_heap = "flow_step list"

definition newSimpleStep :: "update_state \<Rightarrow> flow_heap \<Rightarrow> flow_heap \<times> nat" where
  "newSimpleStep updateState h = (h @ [\<lparr>fs_updateState = updateState, fs_nextSteps = None\<rparr>], length h)"

definition newConditionalForkStep :: "update_state \<Rightarrow> nat \<Rightarrow> flow_heap \<Rightarrow> flow_heap \<times> nat" where
  "newConditionalForkStep updateState unhappyNext h =
    (h @ [\<lparr>fs_updateState = updateState, fs_nextSteps = Some [stepResultMarkUnhappy \<mapsto> unhappyNext]\<rparr>],
     length h)"

definition step_next :: "flow_heap \<Rightarrow> nat \<Rightarrow> step_mark \<Rightarrow> nat option" where
  "step_next h s mark =
    (if mark = stepResultMarkUnsatisfied then None
     else Option.bind (fs_nextSteps (h ! s)) (\<lambda>m. m mark))"

definition addHappyPath :: "nat \<Rightarrow> nat \<Rightarrow> flow_heap \<Rightarrow> flow_heap" where
  "addHappyPath s next0 h =
    h[s := (h ! s)\<lparr>fs_nextSteps :=
        Some ((case fs_nextSteps (h ! s) of None \<Rightarrow> Map.empty | Some m \<Rightarrow> m)(stepResultMarkHappy \<mapsto> next0))\<rparr>]"

fun step_chain :: "nat \<Rightarrow> nat list \<Rightarrow> flow_heap \<Rightarrow> flow_heap \<times> nat" where
  "step_chain current [] h = (h, current)"
| "step_chain current (step # steps) h = step_chain step steps (addHappyPath current step h)"

section \<open>Flow trees\<close>

record flow_tree =
  ft_index :: "update_state \<rightharpoonup> nat"
  ft_head :: nat
  ft_tail :: nat

type_synonym flow = "flow_heap \<times> flow_tree"

definition newFlowTree :: "nat \<Rightarrow> flow_heap \<Rightarrow> flow" where
  "newFlowTree head0 h =
    (h, \<lparr>ft_index = [fs_updateState (h ! head0) \<mapsto> head0], ft_head = head0, ft_tail = head0\<rparr>)"

definition tree_chain_step :: "nat \<Rightarrow> flow \<Rightarrow> flow" where
  "tree_chain_step step f =
    (let (h, t) = f;
         index1 = (ft_index t)(fs_updateState (h ! step) \<mapsto> step);
         index2 = (case fs_nextSteps (h ! step) of
                     None \<Rightarrow> index1
                   | Some m \<Rightarrow> (case m stepResultMarkUnhappy of
                       None \<Rightarrow> index1
                     | Some unhappyStep \<Rightarrow> index1(fs_updateState (h ! unhappyStep) \<mapsto> unhappyStep)));
         h1 = fst (step_chain (ft_tail t) [step] h)
     in (h1, t\<lparr>ft_index := index2, ft_tail := step\<rparr>))"

definition tree_chain :: "nat list \<Rightarrow> flow \<Rightarrow> flow" where
  "tree_chain steps f = fold tree_chain_step steps f"

definition tree_chainIf :: "bool \<Rightarrow> nat list \<Rightarrow> flow \<Rightarrow> flow" where
  "tree_chainIf cond steps f = (if cond then tree_chain steps f else f)"

text \<open>
  The arguments of a chaining call are built before the call, whether or not its condition holds.
\<close>

fun new_steps :: "update_state list \<Rightarrow> flow_heap \<Rightarrow> flow_heap \<times> nat list" where
  "new_steps [] h = (h, [])"
| "new_steps (s # ss) h =
    (let (h1, a) = newSimpleStep s h; (h2, as) = new_steps ss h1 in (h2, a # as))"

definition chainIf_st :: "bool \<Rightarrow> update_state list \<Rightarrow> flow \<Rightarrow> flow" where
  "chainIf_st cond states f =
    (let (h, t) = f; (h1, steps) = new_steps states h in tree_chainIf cond steps (h1, t))"

definition chainIf_fork :: "bool \<Rightarrow> update_state \<Rightarrow> update_state \<Rightarrow> flow \<Rightarrow> flow" where
  "chainIf_fork cond state unhappy f =
    (let (h, t) = f; (h1, u) = newSimpleStep unhappy h; (h2, step) = newConditionalForkStep state u h1
     in tree_chainIf cond [step] (h2, t))"

definition start_flow :: "update_state \<Rightarrow> flow" where
  "start_flow state = (let (h, a) = newSimpleStep state [] in newFlowTree a h)"

section \<open>Conditions\<close>

type_synonym 'x flow_condition = "'x component_manager \<Rightarrow> 'x comps_scheme \<Rightarrow> step_mark"

definition mark_of :: "bool \<Rightarrow> step_mark" where
  "mark_of b = (if b then stepResultMarkHappy else stepResultMarkUnsatisfied)"

definition flowCheckStatusCondition :: "'e env_scheme \<Rightarrow> string \<Rightarrow> 'x flow_condition" where
  "flowCheckStatusCondition E conditionName cm w = mark_of (IsUpdateStatusConditionTrue E conditionName w)"

definition flowUpdateStateCondition :: "'e env_scheme \<Rightarrow> update_state \<Rightarrow> 'x flow_condition" where
  "flowUpdateStateCondition E updateState cm w =
    mark_of (IsUpdateStatusConditionTrue E (GetUpdateStateCompleteCondition updateState) w)"

fun flowConditions :: "'e env_scheme \<Rightarrow> update_state \<Rightarrow> 'x flow_condition option" where
  "flowConditions E UpdateStateNone = Some (\<lambda>cm w. stepResultMarkHappy)"
| "flowConditions E UpdateStateWaitingForImageHeater =
    Some (\<lambda>cm w. mark_of (allUpdatingImagesAreHeated cm w))"
| "flowConditions E UpdateStatePossibilityCheck =
    Some (\<lambda>cm w. if IsStatusConditionTrueAndObservedGeneration E ConditionUpdateIsPossible w
                 then stepResultMarkHappy
                 else if IsStatusConditionFalse E ConditionUpdateIsPossible w
                 then stepResultMarkUnhappy else stepResultMarkUnsatisfied)"
| "flowConditions E UpdateStateImpossibleToStart = Some (\<lambda>cm w. mark_of (s_allReady (cm_status cm)))"
| "flowConditions E UpdateStateWaitingForSafeModeEnabled = Some (flowCheckStatusCondition E ''SafeModeEnabled'')"
| "flowConditions E UpdateStateWaitingForTabletCellsSaving = Some (flowCheckStatusCondition E ''TabletCellsSaved'')"
| "flowConditions E UpdateStateWaitingForTabletCellsRemovingStart =
    Some (flowCheckStatusCondition E ''TabletCellsRemovingStarted'')"
| "flowConditions E UpdateStateWaitingForTabletCellsRemoved = Some (flowCheckStatusCondition E ''TabletCellsRemoved'')"
| "flowConditions E UpdateStateWaitingForImaginaryChunksAbsence =
    Some (flowCheckStatusCondition E ''DataNodesWithImaginaryChunksAbsent'')"
| "flowConditions E UpdateStateWaitingForSnapshots = Some (flowCheckStatusCondition E ''SnaphotsSaved'')"
| "flowConditions E UpdateStateWaitingForTabletCellsRecovery =
    Some (flowCheckStatusCondition E ''TabletCellsRecovered'')"
| "flowConditions E UpdateStateWaitingForOpArchiveUpdate =
    Some (flowUpdateStateCondition E UpdateStateWaitingForOpArchiveUpdate)"
| "flowConditions E UpdateStateWaitingForSidecarsInitialize =
    Some (flowUpdateStateCondition E UpdateStateWaitingForSidecarsInitialize)"
| "flowConditions E UpdateStateWaitingForQTStateUpdatingPrepare =
    Some (flowCheckStatusCondition E ''QTStatePreparedForUpdating'')"
| "flowConditions E UpdateStateWaitingForQTStateUpdate = Some (flowCheckStatusCondition E ''QTStateUpdated'')"
| "flowConditions E UpdateStateWaitingForYqlaUpdate = Some (flowUpdateStateCondition E UpdateStateWaitingForYqlaUpdate)"
| "flowConditions E UpdateStateWaitingForQAStateUpdatingPrepare =
    Some (flowCheckStatusCondition E ''QAStatePreparedForUpdating'')"
| "flowConditions E UpdateStateWaitingForQAStateUpdate = Some (flowCheckStatusCondition E ''QAStateUpdated'')"
| "flowConditions E UpdateStateWaitingForSafeModeDisabled = Some (flowCheckStatusCondition E ''SafeModeDisabled'')"
| "flowConditions E UpdateStateWaitingForMasterReady = Some (\<lambda>cm w. mark_of (s_masterReady (cm_status cm)))"
| "flowConditions E UpdateStateWaitingForMasterEnterReadOnly =
    Some (flowUpdateStateCondition E UpdateStateWaitingForMasterEnterReadOnly)"
| "flowConditions E UpdateStateWaitingForMasterExitReadOnly =
    Some (flowUpdateStateCondition E UpdateStateWaitingForMasterExitReadOnly)"
| "flowConditions E UpdateStateWaitingForMasterCellsEnterReadOnly =
    Some (flowUpdateStateCondition E UpdateStateWaitingForMasterCellsEnterReadOnly)"
| "flowConditions E UpdateStateWaitingForMasterCellsExitReadOnly =
    Some (flowUpdateStateCondition E UpdateStateWaitingForMasterCellsExitReadOnly)"
| "flowConditions E UpdateStateWaitingForMasterCellsPreparation =
    Some (flowUpdateStateCondition E UpdateStateWaitingForMasterCellsPreparation)"
| "flowConditions E UpdateStateWaitingForMasterCellsAcception =
    Some (flowUpdateStateCondition E UpdateStateWaitingForMasterCellsAcception)"
| "flowConditions E UpdateStateWaitingForMasterCellsRegistration =
    Some (flowUpdateStateCondition E UpdateStateWaitingForMasterCellsRegistration)"
| "flowConditions E UpdateStateWaitingForMasterCellsSettlement =
    Some (flowUpdateStateCondition E UpdateStateWaitingForMasterCellsSettlement)"
| "flowConditions E UpdateStateWaitingForMasterCellsCompletion =
    Some (flowUpdateStateCondition E UpdateStateWaitingForMasterCellsCompletion)"
| "flowConditions E UpdateStateWaitingForCypressPatch = Some (flowCheckStatusCondition E ''CypressPatchApplied'')"
| "flowConditions E UpdateStateWaitingForTimbertruckPrepared =
    Some (\<lambda>cm w. mark_of (\<not> TimbertruckDeliveryEnabled (yt_Spec (w_object w)) \<or>
                          IsUpdateStatusConditionTrue E ''TimbertruckPrepared'' w))"
| "flowConditions E UpdateStateWaitingForPodsRemoval = Some (\<lambda>cm w. mark_of (arePodsRemoved E cm w))"
| "flowConditions E UpdateStateWaitingForPodsCreation = Some (\<lambda>cm w. mark_of (s_allStarted (cm_status cm)))"
| "flowConditions E _ = None"

definition checkCondition :: "'e env_scheme \<Rightarrow> flow_heap \<Rightarrow> nat \<Rightarrow> 'x flow_condition" where
  "checkCondition E h s cm w =
    (case flowConditions E (fs_updateState (h ! s)) of
       None \<Rightarrow> stepResultMarkUnsatisfied
     | Some condition \<Rightarrow> condition cm w)"

section \<open>Execution of one step\<close>

definition execute ::
  "'e env_scheme \<Rightarrow> flow \<Rightarrow> 'x component_manager \<Rightarrow> 'x comps_scheme \<Rightarrow> 'x comps_scheme \<times> bool \<times> go_error" where
  "execute E f cm w =
    (let (h, t) = f; currentState = GetUpdateState w
     in case ft_index t currentState of
          None \<Rightarrow> (w, False, Some (''unexpected update state: '' @ string_of_update_state currentState))
        | Some currentStep \<Rightarrow>
            (let mark = checkCondition E h currentStep cm w
             in if mark = stepResultMarkUnsatisfied
                then (LogUpdate (''Update flow: condition not met for '' @ string_of_update_state currentState) w,
                      False, None)
                else case step_next h currentStep mark of
                       None \<Rightarrow>
                         (let clusterState = (case terminateTransitions currentState of
                                None \<Rightarrow> ClusterStateUpdateFinished | Some s \<Rightarrow> s);
                              w1 = LogUpdate (''Update flow finishing with cluster state: '' @
                                     string_of_cluster_state clusterState) w
                          in case SaveClusterState E clusterState w1 of
                               (w2, Some err) \<Rightarrow> (w2, False, Some err)
                             | (w2, None) \<Rightarrow> (w2, True, None))
                     | Some nextStep \<Rightarrow>
                         (let w1 = LogUpdate (''Update flow advance '' @ string_of_update_state currentState @
                                     '' -> '' @ string_of_update_state (fs_updateState (h ! nextStep))) w
                          in case SaveUpdateState E (fs_updateState (h ! nextStep)) w1 of
                               (w2, Some err) \<Rightarrow> (w2, False, Some err)
                             | (w2, None) \<Rightarrow> (w2, True, None))))"

section \<open>The two flows\<close>

definition hasComponent :: "component_ref list \<Rightarrow> component_type \<Rightarrow> bool" where
  "hasComponent updatingComponents componentType =
    list_ex (\<lambda>component. ref_type component = componentType) updatingComponents"

definition buildFlowTree :: "'x component_manager \<Rightarrow> flow" where
  "buildFlowTree cm =
    (let s = cm_status cm;
         updatingComponents = s_nowUpdating s;
         updMaster = hasComponent updatingComponents MasterType;
         updTablet = hasComponent updatingComponents TabletNodeType;
         updDataNodes = hasComponent updatingComponents DataNodeType;
         updScheduler = hasComponent updatingComponents SchedulerType;
         updQueryTracker = hasComponent updatingComponents QueryTrackerType;
         updYqlAgent = hasComponent updatingComponents YqlAgentType;
         updQueueAgent = hasComponent updatingComponents QueueAgentType;
         removeTabletCells = s_removeTabletCellsOnUpdate s;
         masterHotUpdate = s_masterHotUpdate s
     in fold (\<lambda>f. f)
       [chainIf_st (cm_getHeaterStatus cm \<noteq> None) [UpdateStateWaitingForImageHeater],
        chainIf_fork ((updMaster \<or> updTablet) \<and> \<not> s_mastersMaintenance s)
          UpdateStatePossibilityCheck UpdateStateImpossibleToStart,
        chainIf_st (updMaster \<and> \<not> masterHotUpdate) [UpdateStateWaitingForSafeModeEnabled],
        chainIf_st (updTablet \<and> \<not> s_shutdownTablets s \<and> removeTabletCells)
          [UpdateStateWaitingForTabletCellsSaving, UpdateStateWaitingForTabletCellsRemovingStart,
           UpdateStateWaitingForTabletCellsRemoved],
        chainIf_st (updDataNodes \<or> updMaster) [UpdateStateWaitingForImaginaryChunksAbsence],
        chainIf_st (updMaster \<and> \<not> masterHotUpdate) [UpdateStateWaitingForSnapshots],
        chainIf_st True [UpdateStateWaitingForPodsRemoval],
        chainIf_st updMaster [UpdateStateWaitingForMasterReady],
        chainIf_st (updMaster \<and> \<not> masterHotUpdate) [UpdateStateWaitingForMasterExitReadOnly],
        chainIf_st True [UpdateStateWaitingForPodsCreation],
        chainIf_st updMaster [UpdateStateWaitingForSidecarsInitialize],
        chainIf_st True [UpdateStateWaitingForCypressPatch],
        chainIf_st (updTablet \<and> \<not> s_shutdownTablets s \<and> removeTabletCells)
          [UpdateStateWaitingForTabletCellsRecovery],
        chainIf_st (updScheduler \<and> \<not> s_clusterMaintenance s) [UpdateStateWaitingForOpArchiveUpdate],
        chainIf_st (updQueryTracker \<and> \<not> s_clusterMaintenance s)
          [UpdateStateWaitingForQTStateUpdatingPrepare, UpdateStateWaitingForQTStateUpdate],
        chainIf_st (updYqlAgent \<and> \<not> s_clusterMaintenance s) [UpdateStateWaitingForYqlaUpdate],
        chainIf_st (updQueueAgent \<and> \<not> s_clusterMaintenance s)
          [UpdateStateWaitingForQAStateUpdatingPrepare, UpdateStateWaitingForQAStateUpdate],
        chainIf_st (updMaster \<and> \<not> masterHotUpdate) [UpdateStateWaitingForSafeModeDisabled],
        chainIf_st True [UpdateStateWaitingForTimbertruckPrepared]]
       (start_flow UpdateStateNone))"

definition masterMaintenanceFlow :: "'e env_scheme \<Rightarrow> 'x component_manager \<Rightarrow> 'x comps_scheme \<Rightarrow> flow" where
  "masterMaintenanceFlow E cm w =
    (let updMaster = hasComponent (s_nowUpdating (cm_status cm)) MasterType;
         preparation = IsUpdateStatusConditionTrue E ''MasterCellsPreparation'' w;
         registration = IsUpdateStatusConditionTrue E ''MasterCellsRegistration'' w;
         completion = IsUpdateStatusConditionTrue E ''MasterCellsCompletion'' w
     in fold (\<lambda>f. f)
       [chainIf_st (updMaster \<and> preparation) [UpdateStateWaitingForMasterCellsPreparation],
        chainIf_st (updMaster \<and> registration) [UpdateStateWaitingForMasterCellsRegistration],
        chainIf_st updMaster [UpdateStateWaitingForMasterCellsEnterReadOnly],
        chainIf_st True [UpdateStateWaitingForPodsRemoval, UpdateStateWaitingForPodsCreation,
                         UpdateStateWaitingForMasterReady],
        chainIf_st updMaster [UpdateStateWaitingForMasterCellsExitReadOnly],
        chainIf_st (updMaster \<and> preparation) [UpdateStateWaitingForMasterCellsAcception],
        chainIf_st (updMaster \<and> registration) [UpdateStateWaitingForMasterCellsSettlement],
        chainIf_st (updMaster \<and> completion) [UpdateStateWaitingForMasterCellsCompletion]]
       (start_flow UpdateStateNone))"

section \<open>Flows as lists of states\<close>

fun list_succ :: "'a list \<Rightarrow> 'a \<Rightarrow> 'a option" where
  "list_succ (y # z # zs) x = (if y = x then Some z else list_succ (z # zs) x)"
| "list_succ _ x = None"

lemma list_succ_nth:
  "distinct xs \<Longrightarrow> i < length xs \<Longrightarrow>
   list_succ xs (xs ! i) = (if Suc i < length xs then Some (xs ! Suc i) else None)"
proof (induction xs "xs ! i" arbitrary: i rule: list_succ.induct)
  case (1 y z zs)
  then show ?case by (cases i) (auto simp: nth_Cons')
qed auto

definition flow_next :: "flow \<Rightarrow> update_state \<Rightarrow> step_mark \<Rightarrow> update_state option option" where
  "flow_next f st mark =
    map_option (\<lambda>a. map_option (\<lambda>b. fs_updateState (fst f ! b)) (step_next (fst f) a mark))
      (ft_index (snd f) st)"

text \<open>
  \<open>rep h t as F\<close>: the steps at the addresses \<open>as\<close> form the happy path of the tree, \<open>F\<close> gives
  their unhappy successors, which have no successors, and the index finds exactly these steps.
\<close>

definition rep :: "flow_heap \<Rightarrow> flow_tree \<Rightarrow> nat list \<Rightarrow> (nat \<rightharpoonup> nat) \<Rightarrow> bool" where
  "rep h t as F \<longleftrightarrow> as \<noteq> [] \<and> distinct as \<and> set as \<union> ran F \<subseteq> {..<length h} \<and>
    set as \<inter> ran F = {} \<and> dom F \<subseteq> set as \<and> ft_tail t = last as \<and>
    (\<forall>i < length as. step_next h (as ! i) stepResultMarkHappy =
       (if Suc i < length as then Some (as ! Suc i) else None)) \<and>
    (\<forall>a \<in> set as. step_next h a stepResultMarkUnhappy = F a) \<and>
    (\<forall>u \<in> ran F. fs_nextSteps (h ! u) = None) \<and>
    (\<forall>st a. ft_index t st = Some a \<longleftrightarrow> a \<in> set as \<union> ran F \<and> fs_updateState (h ! a) = st)"

lemma length_addHappyPath [simp]: "length (addHappyPath s n h) = length h"
  by (simp add: addHappyPath_def)

lemma state_addHappyPath [simp]: "fs_updateState (addHappyPath s n h ! x) = fs_updateState (h ! x)"
  by (cases "s < length h"; cases "x = s") (simp_all add: addHappyPath_def list_update_beyond)

lemma nextSteps_addHappyPath: "x \<noteq> s \<Longrightarrow> fs_nextSteps (addHappyPath s n h ! x) = fs_nextSteps (h ! x)"
  by (simp add: addHappyPath_def)

lemma step_next_addHappyPath:
  "s < length h \<Longrightarrow> step_next (addHappyPath s n h) x m =
    (if x = s \<and> m = stepResultMarkHappy then Some n else step_next h x m)"
  by (cases "x = s") (auto simp: addHappyPath_def step_next_def split: option.splits)

lemma rep_extend:
  assumes "rep h t as F" shows "rep (h @ xs) t as F"
proof -
  have "step_next (h @ xs) a m = step_next h a m" if "a < length h" for a m
    using that by (simp add: step_next_def nth_append)
  moreover have "a \<in> set as \<union> ran F \<Longrightarrow> a < length h" for a
    using assms unfolding rep_def by blast
  ultimately show ?thesis
    using assms unfolding rep_def
    by (auto simp: nth_append less_imp_le trans_less_add1 subset_iff)
qed

text \<open>A step that can be chained: it is new to the tree, and so is its unhappy successor.\<close>

definition fresh_step :: "flow_heap \<Rightarrow> flow_tree \<Rightarrow> nat list \<Rightarrow> (nat \<rightharpoonup> nat) \<Rightarrow> nat \<Rightarrow> bool" where
  "fresh_step h t as F a \<longleftrightarrow> a < length h \<and> a \<notin> set as \<union> ran F \<and> ft_index t (fs_updateState (h ! a)) = None \<and>
    step_next h a stepResultMarkHappy = None \<and>
    (case step_next h a stepResultMarkUnhappy of
       None \<Rightarrow> True
     | Some u \<Rightarrow> u < length h \<and> u \<noteq> a \<and> u \<notin> set as \<union> ran F \<and> fs_nextSteps (h ! u) = None \<and>
                 ft_index t (fs_updateState (h ! u)) = None \<and> fs_updateState (h ! u) \<noteq> fs_updateState (h ! a))"

lemma tree_chain_step_eq:
  "tree_chain_step a (h, t) = (addHappyPath (ft_tail t) a h,
     t\<lparr>ft_index := (case step_next h a stepResultMarkUnhappy of
         None \<Rightarrow> (ft_index t)(fs_updateState (h ! a) \<mapsto> a)
       | Some u \<Rightarrow> (ft_index t)(fs_updateState (h ! a) \<mapsto> a, fs_updateState (h ! u) \<mapsto> u)),
       ft_tail := a\<rparr>)"
  by (auto simp: tree_chain_step_def step_next_def Let_def split: option.splits)

lemma rep_chain_step:
  assumes r: "rep h t as F" and fr: "fresh_step h t as F a"
    and s: "tree_chain_step a (h, t) = (h', t')"
  shows "rep h' t' (as @ [a]) (F(a := step_next h a stepResultMarkUnhappy))"
proof -
  let ?G = "F(a := step_next h a stepResultMarkUnhappy)" and ?U = "set_option (step_next h a stepResultMarkUnhappy)"
  have Fa: "F a = None" using r fr unfolding rep_def fresh_step_def by blast
  then have ranG: "ran ?G = ran F \<union> ?U"
    by (cases "step_next h a stepResultMarkUnhappy") (auto simp: ran_def, (metis option.distinct(1))+)
  have h': "h' = addHappyPath (ft_tail t) a h" and tl: "ft_tail t' = a"
    using s by (auto simp: tree_chain_step_eq)
  have nem: "as \<noteq> []" and sub: "set as \<subseteq> {..<length h}" and tail: "ft_tail t = last as"
    using r unfolding rep_def by auto
  have lin: "last as \<in> set as" using nem by simp
  have "last as < length h" using subsetD[OF sub lin] by simp
  note lst = tail lin this nem
  have la: "a \<noteq> last as" using fr lin unfolding fresh_step_def by (metis UnI1)
  have "\<forall>u \<in> ?U. u \<notin> set as" using fr unfolding fresh_step_def by (auto split: option.splits)
  moreover have "last as \<notin> ran F" using r lin unfolding rep_def by blast
  ultimately have lu: "last as \<notin> ran ?G" using lin unfolding ranG by blast
  have nxt: "step_next h' x m = (if x = last as \<and> m = stepResultMarkHappy then Some a else step_next h x m)" for x m
    using lst by (simp add: h' step_next_addHappyPath)
  have happy: "step_next h' ((as @ [a]) ! i) stepResultMarkHappy =
      (if Suc i < length (as @ [a]) then Some ((as @ [a]) ! Suc i) else None)" if "i < length (as @ [a])" for i
  proof (cases "Suc i = length as \<or> i = length as")
    case True
    then have "i = length as - Suc 0 \<or> i = length as" by auto
    then show ?thesis using fr la lst(4) unfolding nxt
      by (auto simp: fresh_step_def nth_append last_conv_nth)
  next
    case False
    with that have i: "Suc i < length as" by auto
    then have "as ! i \<noteq> last as"
      using r lst(4) unfolding rep_def last_conv_nth[OF lst(4)] by (simp add: nth_eq_iff_index_eq)
    with i r show ?thesis unfolding nxt rep_def by (simp add: nth_append)
  qed
  have idx: "ft_index t' st = Some b \<longleftrightarrow> b \<in> set (as @ [a]) \<union> ran ?G \<and> fs_updateState (h' ! b) = st" for st b
  proof -
    have old: "ft_index t st = Some b \<longleftrightarrow> b \<in> set as \<union> ran F \<and> fs_updateState (h ! b) = st" for st b
      using r unfolding rep_def by blast
    then have new: "b \<in> set as \<union> ran F \<Longrightarrow> ft_index t (fs_updateState (h ! b)) = Some b" for b by blast
    have fra: "ft_index t (fs_updateState (h ! a)) = None" using fr by (simp add: fresh_step_def)
    show ?thesis
    proof (cases "step_next h a stepResultMarkUnhappy")
      case None
      then have "ft_index t' = (ft_index t)(fs_updateState (h ! a) \<mapsto> a)"
        using s by (auto simp: tree_chain_step_eq)
      then show ?thesis unfolding ranG h' using old[of st b] new[of b] fra None by auto
    next
      case (Some u)
      then have "ft_index t' = (ft_index t)(fs_updateState (h ! a) \<mapsto> a, fs_updateState (h ! u) \<mapsto> u)"
        using s by (auto simp: tree_chain_step_eq)
      moreover have "ft_index t (fs_updateState (h ! u)) = None" "fs_updateState (h ! u) \<noteq> fs_updateState (h ! a)"
        using fr Some by (simp_all add: fresh_step_def)
      ultimately show ?thesis unfolding ranG h' using old[of st b] new[of b] fra Some by auto
    qed
  qed
  have "fs_nextSteps (h ! u) = None" if "u \<in> ran ?G" for u
    using that r fr unfolding ranG rep_def fresh_step_def by (auto split: option.splits)
  then have "\<forall>u \<in> ran ?G. fs_nextSteps (h' ! u) = None"
    using lu lst(1) unfolding h' by (metis nextSteps_addHappyPath)
  with happy idx tl show ?thesis
    using r fr la lst unfolding rep_def[of h' t'] ranG nxt
    unfolding rep_def fresh_step_def
    by (auto simp: h' split: option.splits)
qed

subsection \<open>Chaining at the level of states\<close>

text \<open>\<open>flow_rep f path fork\<close>: the states of the happy path and the unhappy successor of a state.\<close>

definition flow_rep :: "flow \<Rightarrow> update_state list \<Rightarrow> (update_state \<rightharpoonup> update_state) \<Rightarrow> bool" where
  "flow_rep f path fork \<longleftrightarrow> (\<exists>as F. rep (fst f) (snd f) as F \<and>
     path = map (\<lambda>a. fs_updateState (fst f ! a)) as \<and>
     (\<forall>st. fork st = (case ft_index (snd f) st of None \<Rightarrow> None
        | Some a \<Rightarrow> map_option (\<lambda>u. fs_updateState (fst f ! u)) (F a))))"

lemma rep_index: "rep h t as F \<Longrightarrow> ft_index t st = Some a \<longleftrightarrow> a \<in> set as \<union> ran F \<and> fs_updateState (h ! a) = st"
  unfolding rep_def by blast

lemma rep_states_inj:
  assumes "rep h t as F" shows "inj_on (\<lambda>a. fs_updateState (h ! a)) (set as \<union> ran F)"
  by (rule inj_onI) (metis assms rep_index option.inject)

lemma fork_ran:
  assumes r: "rep h t as F"
    and fork: "\<And>st. fork st = (case ft_index t st of None \<Rightarrow> None
       | Some a \<Rightarrow> map_option (\<lambda>u. fs_updateState (h ! u)) (F a))"
  shows "st \<in> ran fork \<longleftrightarrow> (\<exists>u \<in> ran F. fs_updateState (h ! u) = st)"
proof
  assume "st \<in> ran fork"
  then show "\<exists>u \<in> ran F. fs_updateState (h ! u) = st"
    by (auto simp: ran_def fork split: option.splits, blast)
next
  assume "\<exists>u \<in> ran F. fs_updateState (h ! u) = st"
  then obtain a u where F: "F a = Some u" "fs_updateState (h ! u) = st" unfolding ran_def by blast
  then have "ft_index t (fs_updateState (h ! a)) = Some a" using r unfolding rep_def by blast
  with F show "st \<in> ran fork" by (intro ranI[of fork "fs_updateState (h ! a)"]) (simp add: fork)
qed

text \<open>The components of \<open>flow_rep\<close> in the form in which its consequences use them.\<close>

lemma flow_repE:
  assumes "flow_rep f path fork"
  obtains as F where "rep (fst f) (snd f) as F" "path = map (\<lambda>a. fs_updateState (fst f ! a)) as"
    "\<And>st. st \<in> ran fork \<longleftrightarrow> (\<exists>u \<in> ran F. fs_updateState (fst f ! u) = st)"
    "\<And>a. a \<in> set as \<Longrightarrow> fork (fs_updateState (fst f ! a)) = map_option (\<lambda>u. fs_updateState (fst f ! u)) (F a)"
    "\<And>st. st \<notin> set path \<Longrightarrow> fork st = None"
    "\<And>u. u \<in> ran F \<Longrightarrow> fs_updateState (fst f ! u) \<notin> set path"
proof -
  let ?s = "\<lambda>a. fs_updateState (fst f ! a)"
  from assms obtain as F where r: "rep (fst f) (snd f) as F" and p: "path = map ?s as"
    and fork: "\<And>st. fork st = (case ft_index (snd f) st of None \<Rightarrow> None | Some a \<Rightarrow> map_option ?s (F a))"
    unfolding flow_rep_def by blast
  note idx = rep_index[OF r]
  have domF: "dom F \<subseteq> set as" and disj: "set as \<inter> ran F = {}" using r unfolding rep_def by blast+
  show thesis
  proof (rule that[OF r p fork_ran[OF r fork]])
    show "fork (?s a) = map_option ?s (F a)" if "a \<in> set as" for a
      using that idx[of "?s a" a] fork[of "?s a"] by simp
    show "fork st = None" if "st \<notin> set path" for st
    proof (cases "ft_index (snd f) st")
      case (Some a)
      then have "a \<notin> set as" using idx that unfolding p by auto
      then have "F a = None" using domF by blast
      then show ?thesis by (simp add: fork Some)
    qed (simp add: fork)
    show "?s u \<notin> set path" if "u \<in> ran F" for u
      using that inj_onD[OF rep_states_inj[OF r]] disj unfolding p by auto
  qed
qed

lemma flow_rep_path:
  assumes "flow_rep f path fork"
  shows "distinct path" "path \<noteq> []" "dom fork \<subseteq> set path" "ran fork \<inter> set path = {}"
proof -
  from assms obtain as F where r: "rep (fst f) (snd f) as F" and p: "path = map (\<lambda>a. fs_updateState (fst f ! a)) as"
    and *: "\<And>st. st \<in> ran fork \<longleftrightarrow> (\<exists>u \<in> ran F. fs_updateState (fst f ! u) = st)"
    "\<And>st. st \<notin> set path \<Longrightarrow> fork st = None" "\<And>u. u \<in> ran F \<Longrightarrow> fs_updateState (fst f ! u) \<notin> set path"
    by (elim flow_repE) blast
  show "distinct path" "path \<noteq> []"
    using rep_states_inj[OF r] r unfolding p rep_def by (auto simp: distinct_map inj_on_Un)
  show "dom fork \<subseteq> set path" using *(2) by (metis domIff subsetI)
  show "ran fork \<inter> set path = {}" using * by auto
qed

lemma flow_rep_index:
  assumes "flow_rep f path fork"
  shows "ft_index (snd f) st = None \<longleftrightarrow> st \<notin> set path \<union> ran fork"
proof -
  from assms obtain as F where r: "rep (fst f) (snd f) as F"
    and p: "path = map (\<lambda>a. fs_updateState (fst f ! a)) as"
    and *: "\<And>st. st \<in> ran fork \<longleftrightarrow> (\<exists>u \<in> ran F. fs_updateState (fst f ! u) = st)"
    by (elim flow_repE) blast
  have "ft_index (snd f) st = None \<longleftrightarrow> (\<forall>a \<in> set as \<union> ran F. fs_updateState (fst f ! a) \<noteq> st)"
    using rep_index[OF r, of st] by (cases "ft_index (snd f) st") auto
  then show ?thesis by (auto simp: p *)
qed

lemma flow_rep_off_path:
  assumes "flow_rep f path fork" and "st \<notin> set path" and "m \<noteq> stepResultMarkUnsatisfied"
  shows "flow_next f st m = (if st \<in> ran fork then Some None else None)"
proof -
  from assms(1) obtain as F where r: "rep (fst f) (snd f) as F"
    and p: "path = map (\<lambda>a. fs_updateState (fst f ! a)) as"
    and *: "\<And>st. st \<in> ran fork \<longleftrightarrow> (\<exists>u \<in> ran F. fs_updateState (fst f ! u) = st)"
    by (elim flow_repE) blast
  show ?thesis
  proof (cases "ft_index (snd f) st")
    case None
    then show ?thesis using flow_rep_index[OF assms(1), of st] by (simp add: flow_next_def)
  next
    case (Some a)
    then have a: "a \<in> ran F" "fs_updateState (fst f ! a) = st"
      using rep_index[OF r, of st a] assms(2) unfolding p by auto
    then have "fs_nextSteps (fst f ! a) = None" using r unfolding rep_def by blast
    with a Some * show ?thesis by (auto simp: flow_next_def step_next_def)
  qed
qed

lemma flow_rep_next:
  assumes "flow_rep f path fork" and "st \<in> set path"
  shows "flow_next f st stepResultMarkHappy = Some (list_succ path st)"
    and "flow_next f st stepResultMarkUnhappy = Some (fork st)"
proof -
  from assms(1) obtain as F where r: "rep (fst f) (snd f) as F"
    and p: "path = map (\<lambda>a. fs_updateState (fst f ! a)) as"
    and fa: "\<And>a. a \<in> set as \<Longrightarrow> fork (fs_updateState (fst f ! a)) = map_option (\<lambda>u. fs_updateState (fst f ! u)) (F a)"
    by (elim flow_repE) blast
  from assms(2) obtain i where i: "i < length as" "st = fs_updateState (fst f ! (as ! i))"
    unfolding p by (auto simp: in_set_conv_nth)
  then have idx: "ft_index (snd f) st = Some (as ! i)" using rep_index[OF r] by simp
  have nxt: "step_next (fst f) (as ! i) stepResultMarkHappy = (if Suc i < length as then Some (as ! Suc i) else None)"
    "step_next (fst f) (as ! i) stepResultMarkUnhappy = F (as ! i)"
    using r i unfolding rep_def by auto
  show "flow_next f st stepResultMarkHappy = Some (list_succ path st)"
    using list_succ_nth[OF flow_rep_path(1)[OF assms(1)], of i] i idx nxt p by (simp add: flow_next_def)
  show "flow_next f st stepResultMarkUnhappy = Some (fork st)"
    using fa[of "as ! i"] i idx nxt by (simp add: flow_next_def)
qed

lemma chain_step_heap:
  "tree_chain_step a (h, t) = (h', t') \<Longrightarrow>
    length h' = length h \<and> fs_updateState (h' ! x) = fs_updateState (h ! x)"
  by (auto simp: tree_chain_step_eq)

lemma flow_rep_chain_step:
  assumes "rep h t as F" and "fresh_step h t as F a" and "tree_chain_step a (h, t) = f'"
    and "flow_rep (h, t) path fork" and "path = map (\<lambda>a. fs_updateState (h ! a)) as"
    and "\<And>st. fork st = (case ft_index t st of None \<Rightarrow> None
        | Some a \<Rightarrow> map_option (\<lambda>u. fs_updateState (h ! u)) (F a))"
  shows "flow_rep f' (path @ [fs_updateState (h ! a)])
    (fork(fs_updateState (h ! a) := map_option (\<lambda>u. fs_updateState (h ! u)) (step_next h a stepResultMarkUnhappy)))"
proof -
  obtain h' t' where f': "f' = (h', t')" by fastforce
  note r' = rep_chain_step[OF assms(1,2) assms(3)[unfolded f']]
  have st: "fs_updateState (h' ! x) = fs_updateState (h ! x)" for x
    using chain_step_heap[OF assms(3)[unfolded f']] by blast
  have ix: "ft_index t' = (case step_next h a stepResultMarkUnhappy of
         None \<Rightarrow> (ft_index t)(fs_updateState (h ! a) \<mapsto> a)
       | Some u \<Rightarrow> (ft_index t)(fs_updateState (h ! a) \<mapsto> a, fs_updateState (h ! u) \<mapsto> u))"
    using assms(3) unfolding f' by (auto simp: tree_chain_step_eq)
  have Fu: "F u = None" if "step_next h a stepResultMarkUnhappy = Some u" for u
    using that assms(1,2) unfolding rep_def fresh_step_def by (auto simp: domIff subset_iff)
  have nota: "b \<noteq> a" if "ft_index t st = Some b" for st b
    using that assms(1,2) unfolding rep_def fresh_step_def by blast
  have nou: "fork (fs_updateState (h ! u)) = None" if "step_next h a stepResultMarkUnhappy = Some u" for u
    using that assms(2,6) unfolding fresh_step_def by simp
  have "(fork(fs_updateState (h ! a) := map_option (\<lambda>u. fs_updateState (h ! u)) (step_next h a stepResultMarkUnhappy))) st =
    (case ft_index t' st of None \<Rightarrow> None
     | Some b \<Rightarrow> map_option (\<lambda>u. fs_updateState (h ! u)) ((F(a := step_next h a stepResultMarkUnhappy)) b))" for st
  proof (cases "step_next h a stepResultMarkUnhappy")
    case None
    then show ?thesis using nota[of st] by (auto simp: ix assms(6) split: option.splits)
  next
    case (Some u)
    then have "u \<noteq> a" "fs_updateState (h ! u) \<noteq> fs_updateState (h ! a)" using assms(2) by (simp_all add: fresh_step_def)
    then show ?thesis using nota[of st] Fu[OF Some] nou[OF Some]
      by (cases "st = fs_updateState (h ! u)") (auto simp: ix Some assms(6) split: option.splits)
  qed
  then show ?thesis unfolding flow_rep_def f' fst_conv snd_conv st
    using r' assms(5) by (intro exI[of _ "as @ [a]"] exI[of _ "F(a := step_next h a stepResultMarkUnhappy)"]) simp
qed

lemma flow_rep_extend:
  assumes "flow_rep (h, t) path fork" shows "flow_rep (h @ xs, t) path fork"
proof -
  from assms obtain as F where r: "rep h t as F" and p: "path = map (\<lambda>a. fs_updateState (h ! a)) as"
    and fork: "\<And>st. fork st = (case ft_index t st of None \<Rightarrow> None
        | Some a \<Rightarrow> map_option (\<lambda>u. fs_updateState (h ! u)) (F a))"
    unfolding flow_rep_def fst_conv snd_conv by blast
  have lt: "a < length h" if "a \<in> set as \<union> ran F" for a using r that unfolding rep_def by blast
  have "path = map (\<lambda>a. fs_updateState ((h @ xs) ! a)) as"
    unfolding p using lt by (simp add: nth_append)
  moreover have "map_option (\<lambda>u. fs_updateState ((h @ xs) ! u)) (F a) = map_option (\<lambda>u. fs_updateState (h ! u)) (F a)" for a
    using lt by (cases "F a") (auto simp: nth_append ran_def)
  ultimately show ?thesis unfolding flow_rep_def fst_conv snd_conv
    using rep_extend[OF r] fork by (intro exI[of _ as] exI[of _ F]) (simp split: option.split)
qed

text \<open>Chaining one new simple step, and one new fork.\<close>

lemma flow_rep_simple:
  assumes "flow_rep (h, t) path fork" and "s \<notin> set path \<union> ran fork"
    and "a < length h" "fs_updateState (h ! a) = s" "fs_nextSteps (h ! a) = None"
  shows "flow_rep (tree_chain_step a (h, t)) (path @ [s]) fork"
proof -
  from assms(1) obtain as F where r: "rep h t as F" and p: "path = map (\<lambda>a. fs_updateState (h ! a)) as"
    and fork: "\<And>st. fork st = (case ft_index t st of None \<Rightarrow> None
        | Some a \<Rightarrow> map_option (\<lambda>u. fs_updateState (h ! u)) (F a))"
    unfolding flow_rep_def fst_conv snd_conv by blast
  have none: "ft_index t s = None" using flow_rep_index[OF assms(1), of s] assms(2) by simp
  have nxt: "step_next h a m = None" for m using assms(5) by (simp add: step_next_def)
  have "a \<notin> set as \<union> ran F" using rep_index[OF r, of s a] none assms(4) by simp
  then have "fresh_step h t as F a" using none nxt assms(3,4) by (simp add: fresh_step_def)
  from flow_rep_chain_step[OF r this refl assms(1) p fork]
  show ?thesis using none fork[of s] by (simp add: nxt assms(4) fun_upd_idem)
qed

lemma flow_rep_fork:
  assumes "flow_rep (h, t) path fork" and "s \<notin> set path \<union> ran fork" "u \<notin> set path \<union> ran fork" "s \<noteq> u"
    and "a < length h" "fs_updateState (h ! a) = s" "fs_nextSteps (h ! a) = Some [stepResultMarkUnhappy \<mapsto> b]"
    and "b < length h" "fs_updateState (h ! b) = u" "fs_nextSteps (h ! b) = None"
  shows "flow_rep (tree_chain_step a (h, t)) (path @ [s]) (fork(s \<mapsto> u))"
proof -
  from assms(1) obtain as F where r: "rep h t as F" and p: "path = map (\<lambda>a. fs_updateState (h ! a)) as"
    and fork: "\<And>st. fork st = (case ft_index t st of None \<Rightarrow> None
        | Some a \<Rightarrow> map_option (\<lambda>u. fs_updateState (h ! u)) (F a))"
    unfolding flow_rep_def fst_conv snd_conv by blast
  have none: "ft_index t s = None" "ft_index t u = None" 
    using flow_rep_index[OF assms(1), of s] flow_rep_index[OF assms(1), of u] assms(2,3) by simp_all
  have nxt: "step_next h a stepResultMarkUnhappy = Some b" "step_next h a stepResultMarkHappy = None"
    using assms(7) by (simp_all add: step_next_def)
  have "a \<notin> set as \<union> ran F" "b \<notin> set as \<union> ran F"
    using rep_index[OF r, of s a] rep_index[OF r, of u b] none assms(6,9) by simp_all
  then have "fresh_step h t as F a"
    using none nxt assms by (auto simp: fresh_step_def)
  from flow_rep_chain_step[OF r this refl assms(1) p fork]
  show ?thesis by (simp add: nxt assms(6,9))
qed

lemma flow_rep_start: "flow_rep (start_flow s) [s] Map.empty"
  unfolding flow_rep_def
  by (intro exI[of _ "[0]"] exI[of _ Map.empty])
     (auto simp: start_flow_def newSimpleStep_def newFlowTree_def rep_def step_next_def split: option.splits)

lemma new_steps_spec:
  "new_steps ss h = (h @ map (\<lambda>s. \<lparr>fs_updateState = s, fs_nextSteps = None\<rparr>) ss, [length h ..< length h + length ss])"
  by (induction ss arbitrary: h) (auto simp: newSimpleStep_def upt_rec)

lemma flow_rep_tree_chain:
  assumes "flow_rep (h, t) path fork" and "distinct ss" "set ss \<inter> (set path \<union> ran fork) = {}"
    and "list_all2 (\<lambda>a s. a < length h \<and> fs_updateState (h ! a) = s \<and> fs_nextSteps (h ! a) = None) as ss"
    and "distinct as" "ft_tail t \<notin> set as"
  shows "flow_rep (tree_chain as (h, t)) (path @ ss) fork"
  using assms
proof (induction ss arbitrary: as path h t)
  case Nil
  then show ?case by (simp add: tree_chain_def)
next
  case (Cons s ss)
  then obtain a as' where as: "as = a # as'" and a: "a < length h" "fs_updateState (h ! a) = s" "fs_nextSteps (h ! a) = None"
    and rest: "list_all2 (\<lambda>a s. a < length h \<and> fs_updateState (h ! a) = s \<and> fs_nextSteps (h ! a) = None) as' ss"
    by (auto simp: list_all2_Cons2)
  have one: "flow_rep (tree_chain_step a (h, t)) (path @ [s]) fork"
    using flow_rep_simple[OF Cons.prems(1) _ a] Cons.prems(3) by auto
  obtain h' t' where s': "tree_chain_step a (h, t) = (h', t')" by fastforce
  then have h': "h' = addHappyPath (ft_tail t) a h" and t': "ft_tail t' = a" by (auto simp: tree_chain_step_eq)
  have "list_all2 (\<lambda>a s. a < length h' \<and> fs_updateState (h' ! a) = s \<and> fs_nextSteps (h' ! a) = None) as' ss"
    using rest
  proof (rule list.rel_mono_strong)
    fix b s assume "b \<in> set as'" and *: "b < length h \<and> fs_updateState (h ! b) = s \<and> fs_nextSteps (h ! b) = None"
    then have "b \<noteq> ft_tail t" using Cons.prems(6) as by auto
    then show "b < length h' \<and> fs_updateState (h' ! b) = s \<and> fs_nextSteps (h' ! b) = None"
      using * by (simp add: h' nextSteps_addHappyPath)
  qed
  then have "flow_rep (tree_chain as' (h', t')) ((path @ [s]) @ ss) fork"
    using Cons.prems one by (intro Cons.IH) (auto simp: s' as t')
  then show ?case by (simp add: as tree_chain_def s')
qed

lemma flow_rep_tail: "flow_rep (h, t) path fork \<Longrightarrow> ft_tail t < length h"
  unfolding flow_rep_def rep_def by (auto simp: subset_iff)

lemma flow_rep_chainIf_st:
  assumes "flow_rep f path fork" and "c \<Longrightarrow> distinct ss \<and> set ss \<inter> (set path \<union> ran fork) = {}"
  shows "flow_rep (chainIf_st c ss f) (path @ (if c then ss else [])) fork"
proof -
  obtain h t where f: "f = (h, t)" by fastforce
  let ?h = "h @ map (\<lambda>s. \<lparr>fs_updateState = s, fs_nextSteps = None\<rparr>) ss"
  have r: "flow_rep (?h, t) path fork" using flow_rep_extend assms(1) unfolding f by blast
  have "list_all2 (\<lambda>a s. a < length ?h \<and> fs_updateState (?h ! a) = s \<and> fs_nextSteps (?h ! a) = None)
      [length h ..< length h + length ss] ss"
    by (auto simp: list_all2_conv_all_nth nth_append)
  then have "c \<Longrightarrow> flow_rep (tree_chain [length h ..< length h + length ss] (?h, t)) (path @ ss) fork"
    using flow_rep_tree_chain[OF r] assms(2) flow_rep_tail[of h t path fork] assms(1) unfolding f by simp
  with r show ?thesis by (simp add: chainIf_st_def f new_steps_spec tree_chainIf_def)
qed

lemma flow_rep_chainIf_fork:
  assumes "flow_rep f path fork"
    and "c \<Longrightarrow> s \<noteq> u \<and> s \<notin> set path \<union> ran fork \<and> u \<notin> set path \<union> ran fork"
  shows "flow_rep (chainIf_fork c s u f) (path @ (if c then [s] else [])) (if c then fork(s \<mapsto> u) else fork)"
proof -
  obtain h t where f: "f = (h, t)" by fastforce
  let ?h = "h @ [\<lparr>fs_updateState = u, fs_nextSteps = None\<rparr>,
      \<lparr>fs_updateState = s, fs_nextSteps = Some [stepResultMarkUnhappy \<mapsto> length h]\<rparr>]"
  have r: "flow_rep (?h, t) path fork" using flow_rep_extend assms(1) unfolding f by blast
  have "c \<Longrightarrow> flow_rep (tree_chain_step (Suc (length h)) (?h, t)) (path @ [s]) (fork(s \<mapsto> u))"
    using assms(2) by (intro flow_rep_fork[OF r, where b = "length h"]) (auto simp: nth_append)
  with r show ?thesis
    by (simp add: chainIf_fork_def f newSimpleStep_def newConditionalForkStep_def tree_chainIf_def tree_chain_def)
qed

section \<open>The interface of a flow\<close>

text \<open>The state after \<open>n\<close> happy steps: \<open>None\<close> once the flow has ended.\<close>

primrec flow_run ::
  "(update_state \<Rightarrow> step_mark \<Rightarrow> update_state option option) \<Rightarrow> nat \<Rightarrow> update_state option \<Rightarrow> update_state option" where
  "flow_run nxt 0 st = st"
| "flow_run nxt (Suc n) st =
    flow_run nxt n (Option.bind st (\<lambda>s. Option.bind (nxt s stepResultMarkHappy) id))"

text \<open>
  \<open>next_of st mark\<close> is \<open>None\<close> for a state outside of the flow and \<open>Some None\<close> at its end.
\<close>

locale update_flow =
  fixes next_of :: "update_state \<Rightarrow> step_mark \<Rightarrow> update_state option option"
    and path :: "update_state list"
    and fork :: "update_state \<rightharpoonup> update_state"
  assumes path_start: "path \<noteq> [] \<and> hd path = UpdateStateNone"
    and path_distinct: "distinct path"
    and fork_off: "ran fork \<inter> set path = {}"
    and next_path: "st \<in> set path \<Longrightarrow>
      next_of st stepResultMarkHappy = Some (list_succ path st) \<and> next_of st stepResultMarkUnhappy = Some (fork st)"
    and next_off: "st \<notin> set path \<Longrightarrow> m \<noteq> stepResultMarkUnsatisfied \<Longrightarrow>
      next_of st m = (if st \<in> ran fork then Some None else None)"
begin

lemma run_nth:
  assumes "i < length path"
  shows "flow_run next_of n (Some (path ! i)) = (if i + n < length path then Some (path ! (i + n)) else None)"
  using assms
proof (induction n arbitrary: i)
  case (Suc n)
  have "Option.bind (next_of (path ! i) stepResultMarkHappy) id =
      (if Suc i < length path then Some (path ! Suc i) else None)"
    using next_path[of "path ! i"] list_succ_nth[OF path_distinct Suc.prems] Suc.prems by simp
  moreover have "flow_run next_of n None = None" for n by (induction n) simp_all
  ultimately show ?case using Suc.IH[of "Suc i"] by simp
qed simp

lemma run_from_start: "flow_run next_of n (Some UpdateStateNone) = (if n < length path then Some (path ! n) else None)"
proof -
  have "path ! 0 = UpdateStateNone" using path_start hd_conv_nth[of path] by simp
  then show ?thesis using run_nth[of 0 n] path_start by simp
qed

lemma ends: "flow_run next_of (length path) (Some UpdateStateNone) = None"
  by (simp add: run_from_start)

end

section \<open>The flows implement the interface\<close>

definition upd :: "'x component_manager \<Rightarrow> component_type \<Rightarrow> bool" where
  "upd cm t = hasComponent (s_nowUpdating (cm_status cm)) t"

text \<open>A full master update, and an update that removes and recovers the tablet cells.\<close>

definition full_master :: "'x component_manager \<Rightarrow> bool" where
  "full_master cm \<longleftrightarrow> upd cm MasterType \<and> \<not> s_masterHotUpdate (cm_status cm)"

definition moves_cells :: "'x component_manager \<Rightarrow> bool" where
  "moves_cells cm \<longleftrightarrow> upd cm TabletNodeType \<and> \<not> s_shutdownTablets (cm_status cm) \<and>
     s_removeTabletCellsOnUpdate (cm_status cm)"

definition checks_possibility :: "'x component_manager \<Rightarrow> bool" where
  "checks_possibility cm \<longleftrightarrow> (upd cm MasterType \<or> upd cm TabletNodeType) \<and> \<not> s_mastersMaintenance (cm_status cm)"

definition opt :: "bool \<Rightarrow> 'a list \<Rightarrow> 'a list" where
  "opt b xs = (if b then xs else [])"

lemma set_opt [simp]: "set (opt b xs) = (if b then set xs else {})"
  by (simp add: opt_def)

lemma distinct_opt [simp]: "distinct (opt b xs) \<longleftrightarrow> (b \<longrightarrow> distinct xs)"
  by (simp add: opt_def)

text \<open>The states of an ordinary update, in order.\<close>

definition update_path :: "'x component_manager \<Rightarrow> update_state list" where
  "update_path cm =
    (let s = cm_status cm; active = \<not> s_clusterMaintenance s in
    [UpdateStateNone] @
    opt (cm_getHeaterStatus cm \<noteq> None) [UpdateStateWaitingForImageHeater] @
    opt (checks_possibility cm) [UpdateStatePossibilityCheck] @
    opt (full_master cm) [UpdateStateWaitingForSafeModeEnabled] @
    opt (moves_cells cm) [UpdateStateWaitingForTabletCellsSaving,
      UpdateStateWaitingForTabletCellsRemovingStart, UpdateStateWaitingForTabletCellsRemoved] @
    opt (upd cm DataNodeType \<or> upd cm MasterType) [UpdateStateWaitingForImaginaryChunksAbsence] @
    opt (full_master cm) [UpdateStateWaitingForSnapshots] @
    [UpdateStateWaitingForPodsRemoval] @
    opt (upd cm MasterType) [UpdateStateWaitingForMasterReady] @
    opt (full_master cm) [UpdateStateWaitingForMasterExitReadOnly] @
    [UpdateStateWaitingForPodsCreation] @
    opt (upd cm MasterType) [UpdateStateWaitingForSidecarsInitialize] @
    [UpdateStateWaitingForCypressPatch] @
    opt (moves_cells cm) [UpdateStateWaitingForTabletCellsRecovery] @
    opt (upd cm SchedulerType \<and> active) [UpdateStateWaitingForOpArchiveUpdate] @
    opt (upd cm QueryTrackerType \<and> active)
      [UpdateStateWaitingForQTStateUpdatingPrepare, UpdateStateWaitingForQTStateUpdate] @
    opt (upd cm YqlAgentType \<and> active) [UpdateStateWaitingForYqlaUpdate] @
    opt (upd cm QueueAgentType \<and> active)
      [UpdateStateWaitingForQAStateUpdatingPrepare, UpdateStateWaitingForQAStateUpdate] @
    opt (full_master cm) [UpdateStateWaitingForSafeModeDisabled] @
    [UpdateStateWaitingForTimbertruckPrepared])"

definition update_fork :: "'x component_manager \<Rightarrow> update_state \<rightharpoonup> update_state" where
  "update_fork cm =
    (if checks_possibility cm then [UpdateStatePossibilityCheck \<mapsto> UpdateStateImpossibleToStart] else Map.empty)"

lemma chainIf_st_opt:
  "flow_rep f path fork \<Longrightarrow> (c \<Longrightarrow> distinct ss \<and> set ss \<inter> (set path \<union> ran fork) = {}) \<Longrightarrow>
   flow_rep (chainIf_st c ss f) (path @ opt c ss) fork"
  using flow_rep_chainIf_st by (simp add: opt_def)

lemma chainIf_fork_opt:
  "flow_rep f path Map.empty \<Longrightarrow> (c \<Longrightarrow> s \<noteq> u \<and> s \<notin> set path \<and> u \<notin> set path) \<Longrightarrow>
   flow_rep (chainIf_fork c s u f) (path @ opt c [s]) (if c then [s \<mapsto> u] else Map.empty)"
  using flow_rep_chainIf_fork[of f path Map.empty] by (simp add: opt_def)

lemma ran_update_fork [simp]: "ran (if c then [s \<mapsto> u] else Map.empty) = (if c then {u} else {})"
  by simp

lemma flow_rep_buildFlowTree: "flow_rep (buildFlowTree cm) (update_path cm) (update_fork cm)"
  unfolding buildFlowTree_def update_path_def update_fork_def Let_def fold.simps comp_apply id_apply
    upd_def[symmetric] full_master_def[symmetric] moves_cells_def[symmetric] checks_possibility_def[symmetric]
  apply (rule back_subst[of "\<lambda>p. flow_rep _ p _"])
   apply (rule chainIf_st_opt chainIf_fork_opt flow_rep_start | simp)+
  by (simp add: opt_def)

text \<open>The states of the maintenance of master cells, in order.\<close>

definition maintenance_path :: "'e env_scheme \<Rightarrow> 'x component_manager \<Rightarrow> 'x comps_scheme \<Rightarrow> update_state list" where
  "maintenance_path E cm w =
    (let m = upd cm MasterType;
         preparation = IsUpdateStatusConditionTrue E ''MasterCellsPreparation'' w;
         registration = IsUpdateStatusConditionTrue E ''MasterCellsRegistration'' w;
         completion = IsUpdateStatusConditionTrue E ''MasterCellsCompletion'' w in
    [UpdateStateNone] @
    opt (m \<and> preparation) [UpdateStateWaitingForMasterCellsPreparation] @
    opt (m \<and> registration) [UpdateStateWaitingForMasterCellsRegistration] @
    opt m [UpdateStateWaitingForMasterCellsEnterReadOnly] @
    [UpdateStateWaitingForPodsRemoval, UpdateStateWaitingForPodsCreation, UpdateStateWaitingForMasterReady] @
    opt m [UpdateStateWaitingForMasterCellsExitReadOnly] @
    opt (m \<and> preparation) [UpdateStateWaitingForMasterCellsAcception] @
    opt (m \<and> registration) [UpdateStateWaitingForMasterCellsSettlement] @
    opt (m \<and> completion) [UpdateStateWaitingForMasterCellsCompletion])"

lemma flow_rep_masterMaintenanceFlow:
  "flow_rep (masterMaintenanceFlow E cm w) (maintenance_path E cm w) Map.empty"
  unfolding masterMaintenanceFlow_def maintenance_path_def Let_def fold.simps comp_apply id_apply
    upd_def[symmetric]
  apply (rule back_subst[of "\<lambda>p. flow_rep _ p _"])
   apply (rule chainIf_st_opt flow_rep_start | simp)+
  by (simp add: opt_def)

lemma update_flow_of_rep:
  assumes "flow_rep f path fork" and "hd path = UpdateStateNone"
  shows "update_flow (flow_next f) path fork"
  using assms flow_rep_path[OF assms(1)] flow_rep_next[OF assms(1)] flow_rep_off_path[OF assms(1)]
  by unfold_locales auto

interpretation bf: update_flow "flow_next (buildFlowTree cm)" "update_path cm" "update_fork cm" for cm
  by (rule update_flow_of_rep[OF flow_rep_buildFlowTree]) (simp add: update_path_def Let_def)

interpretation mf: update_flow "flow_next (masterMaintenanceFlow E cm w)" "maintenance_path E cm w" Map.empty
  for E cm w
  by (rule update_flow_of_rep[OF flow_rep_masterMaintenanceFlow]) (simp add: maintenance_path_def Let_def)

section \<open>Properties\<close>

text \<open>
  (C5) The step heap built for an ordinary update implements the list of its states: from a state
  of the list a satisfied step leads to the next one and the last one ends the flow, the only fork
  is from the possibility check to \<open>ImpossibleToStart\<close>, which ends the flow, and no other state
  belongs to it.
\<close>

theorem buildFlowTree_refines_path:
  "flow_next (buildFlowTree cm) st stepResultMarkHappy =
     (if st \<in> set (update_path cm) then Some (list_succ (update_path cm) st)
      else if st = UpdateStateImpossibleToStart \<and> checks_possibility cm then Some None else None) \<and>
   flow_next (buildFlowTree cm) st stepResultMarkUnhappy =
     (if st \<in> set (update_path cm)
      then Some (if st = UpdateStatePossibilityCheck then Some UpdateStateImpossibleToStart else None)
      else if st = UpdateStateImpossibleToStart \<and> checks_possibility cm then Some None else None)"
proof -
  have fork: "update_fork cm st =
      (if st = UpdateStatePossibilityCheck \<and> checks_possibility cm then Some UpdateStateImpossibleToStart else None)"
    by (simp add: update_fork_def)
  have ran: "st \<in> ran (update_fork cm) \<longleftrightarrow> st = UpdateStateImpossibleToStart \<and> checks_possibility cm"
    by (simp add: update_fork_def)
  have "UpdateStatePossibilityCheck \<in> set (update_path cm) \<longleftrightarrow> checks_possibility cm"
    by (simp add: update_path_def Let_def)
  then show ?thesis
    using bf.next_path[of st cm] bf.next_off[of st cm stepResultMarkHappy] bf.next_off[of st cm stepResultMarkUnhappy]
    by (auto simp: fork ran)
qed

lemma length_opt: "length (opt b xs) \<le> length xs"
  by (simp add: opt_def)

lemma length_update_path: "length (update_path cm) \<le> 24"
  unfolding update_path_def Let_def by (simp add: opt_def)


text \<open>
  The maintenance of master cells terminates in at most 11 steps, and its states follow the
  phases of master cell extension.
\<close>

theorem maintenance_flow_terminates:
  "flow_run (flow_next (masterMaintenanceFlow E cm w)) n (Some UpdateStateNone) =
     (if n < length (maintenance_path E cm w) then Some (maintenance_path E cm w ! n) else None) \<and>
   length (maintenance_path E cm w) \<le> 11"
proof -
  have "length (maintenance_path E cm w) \<le> 11"
    unfolding maintenance_path_def Let_def by (simp add: opt_def)
  then show ?thesis using mf.run_from_start[of E cm w] by simp
qed

text \<open>
  No step of either flow is stuck for want of a condition: every state of the two flows, the
  cancelled one included, has an entry in the table of flow conditions.
\<close>

theorem flow_states_have_conditions:
  "list_all (\<lambda>st. flowConditions E st \<noteq> (None :: 'x flow_condition option))
     (update_path cm @ maintenance_path E cm w @ [UpdateStateImpossibleToStart])"
  by (simp add: update_path_def maintenance_path_def Let_def opt_def)



section \<open>Execution\<close>

definition flow_mark :: "'e env_scheme \<Rightarrow> update_state \<Rightarrow> 'x flow_condition" where
  "flow_mark E st cm w =
    (case flowConditions E st of None \<Rightarrow> stepResultMarkUnsatisfied | Some condition \<Rightarrow> condition cm w)"

definition end_state :: "update_state \<Rightarrow> cluster_state" where
  "end_state st = (if st = UpdateStateImpossibleToStart then ClusterStateUpdateCanceled else ClusterStateUpdateFinished)"

definition saved_result :: "'x comps_scheme \<times> go_error \<Rightarrow> 'x comps_scheme \<times> bool \<times> go_error" where
  "saved_result p = (fst p, snd p = None, snd p)"

lemma execute_flow_next:
  assumes "flow_rep f path fork"
  shows "execute E f cm w =
    (let st = GetUpdateState w; mark = flow_mark E st cm w
     in if st \<notin> set path \<union> ran fork
        then (w, False, Some (''unexpected update state: '' @ string_of_update_state st))
        else if mark = stepResultMarkUnsatisfied
        then (LogUpdate (''Update flow: condition not met for '' @ string_of_update_state st) w, False, None)
        else case the (flow_next f st mark) of
               None \<Rightarrow> saved_result (SaveClusterState E (end_state st)
                 (LogUpdate (''Update flow finishing with cluster state: '' @ string_of_cluster_state (end_state st)) w))
             | Some nxt \<Rightarrow> saved_result (SaveUpdateState E nxt
                 (LogUpdate (''Update flow advance '' @ string_of_update_state st @ '' -> '' @ string_of_update_state nxt) w)))"
proof -
  obtain h t where f: "f = (h, t)" by fastforce
  let ?st = "GetUpdateState w"
  have fin: "(case terminateTransitions ?st of None \<Rightarrow> ClusterStateUpdateFinished | Some s \<Rightarrow> s) = end_state ?st"
    by (simp add: terminateTransitions_def end_state_def)
  have res: "(case p of (w2, None) \<Rightarrow> (w2, True, None) | (w2, Some err) \<Rightarrow> (w2, False, Some err)) = saved_result p" for p
    by (cases p) (auto simp: saved_result_def split: option.splits)
  show ?thesis
  proof (cases "ft_index t ?st")
    case None
    then show ?thesis using flow_rep_index[OF assms, of ?st] by (simp add: execute_def f)
  next
    case (Some a)
    obtain as F where r: "rep h t as F" using assms unfolding flow_rep_def f by auto
    have "fs_updateState (h ! a) = ?st" using rep_index[OF r] Some by simp
    then have m: "checkCondition E h a cm w = flow_mark E ?st cm w"
      by (simp add: checkCondition_def flow_mark_def)
    have n: "the (flow_next f ?st mk) = map_option (\<lambda>b. fs_updateState (h ! b)) (step_next h a mk)" for mk
      by (simp add: flow_next_def f Some)
    have "?st \<in> set path \<union> ran fork" using flow_rep_index[OF assms, of ?st] Some unfolding f by auto
    then show ?thesis
      by (auto simp: execute_def f Let_def Some m n[unfolded f] fin res split: option.split)
  qed
qed

lemma SaveClusterState_result:
  "GetClusterState (fst (SaveClusterState E s w)) = s"
  "GetUpdateState (fst (SaveClusterState E s w)) = GetUpdateState w"
  "GetUpdatingComponents (fst (SaveClusterState E s w)) = GetUpdatingComponents w"
  "yt_Spec (w_object (fst (SaveClusterState E s w))) = yt_Spec (w_object w)"
  "w_saved (fst (SaveClusterState E s w)) =
     (if snd (SaveClusterState E s w) = None then w_saved w @ [w_object (fst (SaveClusterState E s w))] else w_saved w)"
  by (simp_all add: SaveClusterState_def UpdateStatus_saved GetUpdatingComponents_def)

lemma SaveUpdateState_result:
  "GetClusterState (fst (SaveUpdateState E s w)) = GetClusterState w"
  "GetUpdateState (fst (SaveUpdateState E s w)) = s"
  "GetUpdatingComponents (fst (SaveUpdateState E s w)) = GetUpdatingComponents w"
  "yt_Spec (w_object (fst (SaveUpdateState E s w))) = yt_Spec (w_object w)"
  "w_saved (fst (SaveUpdateState E s w)) =
     (if snd (SaveUpdateState E s w) = None then w_saved w @ [w_object (fst (SaveUpdateState E s w))] else w_saved w)"
proof -
  show "GetUpdatingComponents (fst (SaveUpdateState E s w)) = GetUpdatingComponents w"
    using SetUpdateState_frame(2)[of s w] by (simp add: SaveUpdateState_def GetUpdatingComponents_def)
qed (simp_all add: SaveUpdateState_def UpdateStatus_saved)

lemma LogUpdate_states [simp]:
  "GetClusterState (LogUpdate m w) = GetClusterState w"
  "GetUpdateState (LogUpdate m w) = GetUpdateState w"
  "GetUpdatingComponents (LogUpdate m w) = GetUpdatingComponents w"
  by (simp_all add: GetClusterState_def GetUpdateState_def GetUpdatingComponents_def)

text \<open>What one execution of a flow does to the cluster, for any flow given by its states.\<close>

definition flow_step_ok ::
  "'e env_scheme \<Rightarrow> update_state list \<Rightarrow> (update_state \<rightharpoonup> update_state) \<Rightarrow> 'x component_manager \<Rightarrow>
   'x comps_scheme \<Rightarrow> 'x comps_scheme \<Rightarrow> bool \<Rightarrow> bool" where
  "flow_step_ok E path fork cm w w' progressed \<longleftrightarrow>
    (let st = GetUpdateState w; mark = flow_mark E st cm w
     in if \<not> progressed
        then mark = stepResultMarkUnsatisfied \<and> w_object w' = w_object w \<and> w_saved w' = w_saved w
        else w_saved w' = w_saved w @ [w_object w'] \<and>
             (case (if mark = stepResultMarkHappy then list_succ path st else fork st) of
                Some nxt \<Rightarrow> GetUpdateState w' = nxt \<and> GetClusterState w' = GetClusterState w
              | None \<Rightarrow> GetUpdateState w' = st \<and> GetClusterState w' = end_state st))"

lemma list_succ_off: "x \<notin> set xs \<Longrightarrow> list_succ xs x = None"
  by (induction xs x rule: list_succ.induct) auto

lemma execute_step_ok:
  assumes "flow_rep f path fork" and "execute E f cm w = (w', progressed, None)"
  shows "GetUpdateState w \<in> set path \<union> ran fork \<and> flow_step_ok E path fork cm w w' progressed"
proof -
  let ?st = "GetUpdateState w" and ?mark = "flow_mark E (GetUpdateState w) cm w"
  note ex = assms(2)[unfolded execute_flow_next[OF assms(1)] Let_def]
  have st: "?st \<in> set path \<union> ran fork" using ex by (auto split: if_splits)
  have nxt: "the (flow_next f ?st ?mark) = (if ?mark = stepResultMarkHappy then list_succ path ?st else fork ?st)"
    if "?mark \<noteq> stepResultMarkUnsatisfied"
  proof (cases "?st \<in> set path")
    case True
    then show ?thesis using flow_rep_next[OF assms(1) True] that by (cases ?mark) simp_all
  next
    case False
    with st have "?st \<in> ran fork" by simp
    moreover have "fork ?st = None" using False flow_rep_path(3)[OF assms(1)] by blast
    ultimately show ?thesis
      using flow_rep_off_path[OF assms(1) False that] list_succ_off[OF False] by simp
  qed
  show ?thesis
  proof (cases "?mark = stepResultMarkUnsatisfied")
    case True
    then show ?thesis using ex st by (auto simp: flow_step_ok_def split: if_splits)
  next
    case False
    then show ?thesis using ex st nxt[OF False]
      by (auto simp: flow_step_ok_def saved_result_def SaveClusterState_result SaveUpdateState_result
          split: if_splits option.splits)
  qed
qed

text \<open>
  One execution of the ordinary update flow that reports no error starts in a state of the
  flow.  It either changes and saves nothing, because the condition of the state does not hold, or
  saves exactly one object in which the update state is the next of the list, or the cancelled one
  if the possibility check has failed, or in which the cluster state is \<open>UpdateFinished\<close> after the
  last state and \<open>UpdateCanceled\<close> after the cancelled one.
\<close>

theorem update_flow_execute:
  assumes "execute E (buildFlowTree cm) cm w = (w', progressed, None)"
  defines "st \<equiv> GetUpdateState w"
  shows "(st \<in> set (update_path cm) \<or> st = UpdateStateImpossibleToStart) \<and>
    (if \<not> progressed then flow_mark E st cm w = stepResultMarkUnsatisfied \<and> w_object w' = w_object w \<and> w_saved w' = w_saved w
     else w_saved w' = w_saved w @ [w_object w'] \<and>
       (if flow_mark E st cm w = stepResultMarkUnhappy \<and> st = UpdateStatePossibilityCheck
        then GetUpdateState w' = UpdateStateImpossibleToStart \<and> GetClusterState w' = GetClusterState w
        else case list_succ (update_path cm) st of
          Some nxt \<Rightarrow> GetUpdateState w' = nxt \<and> GetClusterState w' = GetClusterState w
        | None \<Rightarrow> GetUpdateState w' = st \<and> GetClusterState w' =
            (if st = UpdateStateImpossibleToStart then ClusterStateUpdateCanceled else ClusterStateUpdateFinished)))"
proof -
  have ok: "st \<in> set (update_path cm) \<union> ran (update_fork cm)" "flow_step_ok E (update_path cm) (update_fork cm) cm w w' progressed"
    using execute_step_ok[OF flow_rep_buildFlowTree assms(1)] unfolding st_def by blast+
  have ran: "ran (update_fork cm) \<subseteq> {UpdateStateImpossibleToStart}" by (simp add: update_fork_def)
  have unh: "st = UpdateStatePossibilityCheck" if "flow_mark E st cm w = stepResultMarkUnhappy"
    using that by (cases st) (auto simp: flow_mark_def flowCheckStatusCondition_def flowUpdateStateCondition_def mark_of_def split: if_splits)
  have pc: "st = UpdateStatePossibilityCheck \<Longrightarrow> update_fork cm st = Some UpdateStateImpossibleToStart"
    using ok(1) ran by (auto simp: update_fork_def update_path_def Let_def split: if_splits)
  have mk: "progressed \<Longrightarrow> flow_mark E st cm w \<noteq> stepResultMarkUnsatisfied"
    using assms(1) unfolding execute_flow_next[OF flow_rep_buildFlowTree] Let_def st_def[symmetric] by (auto split: if_splits)
  show ?thesis
    using ok ran unh pc mk unfolding flow_step_ok_def Let_def st_def[symmetric] end_state_def
    by (cases "flow_mark E st cm w") (auto split: if_splits option.splits)
qed

section \<open>Instances\<close>

definition master_update_manager :: "'x component_manager" where
  "master_update_manager = sample_manager (zero_cm_status\<lparr>s_nowUpdating := [\<lparr>ref_type = MasterType, ref_name = ''''\<rparr>]\<rparr>)"


abbreviation sample_updating :: comps where
  "sample_updating \<equiv> sample_world ClusterStateUpdating (empty_update_status\<lparr>us_State := UpdateStateNone,
     us_UpdatingComponents := [\<lparr>ref_type = MasterType, ref_name = ''''\<rparr>]\<rparr>) []"

theorem update_flow_execute_witness:
  "\<exists>w'. execute sample_env (buildFlowTree (master_update_manager :: unit component_manager))
        master_update_manager sample_updating =
      (w', True, None) \<and> GetUpdateState w' = UpdateStatePossibilityCheck"
proof -
  let ?cm = "master_update_manager :: unit component_manager" and ?w = "sample_updating"
  have st: "GetUpdateState ?w = UpdateStateNone"
    by (simp add: GetUpdateState_def sample_world_def sample_object_def)
  have path: "update_path ?cm = UpdateStateNone # UpdateStatePossibilityCheck # tl (tl (update_path ?cm))"
    by (simp add: update_path_def Let_def opt_def master_update_manager_def zero_cm_status_def
        checks_possibility_def upd_def hasComponent_def)
  have mem: "UpdateStateNone \<in> set (update_path ?cm)" by (simp add: update_path_def Let_def)
  have succ: "list_succ (update_path ?cm) UpdateStateNone = Some UpdateStatePossibilityCheck"
    by (subst path) simp
  have mark: "flow_mark sample_env UpdateStateNone ?cm ?w = stepResultMarkHappy" by (simp add: flow_mark_def)
  have "flow_next (buildFlowTree ?cm) UpdateStateNone stepResultMarkHappy = Some (Some UpdateStatePossibilityCheck)"
    using bf.next_path[OF mem] succ by simp
  then obtain w' where ex: "execute sample_env (buildFlowTree ?cm) ?cm ?w = (w', True, None)"
    unfolding execute_flow_next[OF flow_rep_buildFlowTree] Let_def st mark
    by (simp add: mem saved_result_def SaveUpdateState_def UpdateStatus_def Let_def)
  from update_flow_execute[OF ex] have "GetUpdateState w' = UpdateStatePossibilityCheck"
    by (simp add: st mark succ)
  with ex show ?thesis by blast
qed

end
