(* ===== verification/Reconciler.thy ===== *)
theory Reconciler
  imports Update_Flow
begin

text \<open>
  The reconciler of \<open>controllers/ytsaurus_controller.go\<close>: the cluster state machine.  One
  reconciliation fetches the status of all components, moves the cluster state or the update state
  by at most one transition, and otherwise runs the sync loop of the component manager.
\<close>

section \<open>The decision in a state that is ready to update\<close>

text \<open>
  Lines 184 to 269, up to the save.  The result is the manager with the update plan applied, the
  new state and whether the status has to be saved.
\<close>

definition reconfiguration_message :: "component_manager_status \<Rightarrow> string" where
  "reconfiguration_message s =
    ''Components pending: '' @ BuildComponentsSummary (s_pending s) @
    '', blocked: '' @ BuildComponentsSummary (s_blocked s) @
    '', started: '' @ BuildComponentsSummary (s_started s)"

definition choose_state ::
  "'e env_scheme \<Rightarrow> component_manager_status \<Rightarrow> 'x comps_scheme \<Rightarrow> bool \<Rightarrow> 'x comps_scheme \<times> bool" where
  "choose_state E s w needStatusUpdate =
    (if s_allReady s \<and> s_clusterMaintenance s then
       (case SetClusterState E ClusterStateMaintenance w of
          (w1, True) \<Rightarrow>
            (RecordNormal ''Maintenance''
               (''Ytsaurus cluster is under maintenance, shutdown '' @
                string_of_shutdown (cmt_Shutdown (GetClusterMaintenance w1))) w1, True)
        | (w1, False) \<Rightarrow> (w1, needStatusUpdate))
     else if s_allReady s then
       (case SetClusterState E ClusterStateRunning w of
          (w1, changed) \<Rightarrow> (w1, if changed then True else needStatusUpdate))
     else if \<not> s_allRunning s then
       (case SetClusterState E ClusterStateReconfiguration
               (RecordNormal ''Reconfiguration'' (reconfiguration_message s) w) of
          (w1, changed) \<Rightarrow> (w1, if changed then True else needStatusUpdate))
     else if s_needUpdate s = [] \<and> \<not> s_allReady s then
       (if GetClusterState w = ClusterStateRunning then SetClusterState E ClusterStatePreparing w
        else (w, needStatusUpdate))
     else if s_needUpdate s = [] then
       (case SetClusterState E ClusterStateRunning w of
          (w1, changed) \<Rightarrow> (w1, if changed then True else needStatusUpdate))
     else if \<not> IsStatusConditionTrue E ConditionUpdateIsPossible w then
       (if IsStatusConditionFalse E ConditionUpdateIsPossible w then
          (case SetClusterState E ClusterStateUpdateBlocked w of
             (w1, changed) \<Rightarrow> (w1, if changed then True else needStatusUpdate))
        else (w, needStatusUpdate))
     else if s_canUpdate s \<noteq> [] then
       (initUpdateConditions E (fst (SetClusterState E ClusterStateUpdating
          (SetUpdateState UpdateStateNone (SetUpdatingComponents (s_canUpdate s) w)))), True)
     else if s_cannotUpdate s \<noteq> [] then
       (case SetClusterState E ClusterStateUpdateBlocked w of
          (w1, changed) \<Rightarrow> (w1, if changed then True else needStatusUpdate))
     else (w, needStatusUpdate))"

definition sync_ready ::
  "'e env_scheme \<Rightarrow> 'x component_manager \<Rightarrow> 'x comps_scheme \<Rightarrow> 'x comps_scheme \<times> ctrl_result \<times> go_error" where
  "sync_ready E cm w =
    (let s = applyUpdatePlan (GetUpdatePlan (w_object w)) (cm_status cm);
         (w1, observed) = SyncObservedGeneration E w;
         (w2, blocked) = SetBlockedComponents (s_cannotUpdate s) w1;
         (w3, needStatusUpdate) = choose_state E s w2 (if blocked then True else observed)
     in if needStatusUpdate then
          (case UpdateStatus E w3 of (w4, err) \<Rightarrow> (w4, requeue_result, err))
        else if s_allReady s then (w3, empty_result, None)
        else cm_Sync E (cm\<lparr>cm_status := s\<rparr>) w3)"

section \<open>Updating\<close>

definition updating_message :: "component_manager_status \<Rightarrow> update_state \<Rightarrow> string" where
  "updating_message s st =
    ''Update flow starting with '' @ string_of_update_state st @
    '', for updating components: '' @ BuildComponentsSummary (s_nowUpdating s) @
    '', pending: '' @ BuildComponentsSummary (s_pending s) @
    '', blocked: '' @ BuildComponentsSummary (s_blocked s) @
    '', started: '' @ BuildComponentsSummary (s_started s)"

definition updating_manager :: "'x component_manager \<Rightarrow> 'x comps_scheme \<Rightarrow> 'x component_manager" where
  "updating_manager cm w =
    (let nowUpdating = GetUpdatingComponents w; updatePlan = GetUpdatePlan (w_object w)
     in cm\<lparr>cm_status := (cm_status cm)
          \<lparr>s_nowUpdating := nowUpdating,
           s_removeTabletCellsOnUpdate := shouldRemoveTabletCellsOnUpdate updatePlan nowUpdating,
           s_masterHotUpdate := shouldUseMasterHotUpdate updatePlan nowUpdating\<rparr>\<rparr>)"

definition sync_updating ::
  "'e env_scheme \<Rightarrow> 'x component_manager \<Rightarrow> 'x comps_scheme \<Rightarrow> 'x comps_scheme \<times> ctrl_result \<times> go_error" where
  "sync_updating E cm w =
    (let cm1 = updating_manager cm w;
         w1 = RecordNormal ''Update'' (updating_message (cm_status cm1) (GetUpdateState w)) w;
         updateFlow = (if s_mastersMaintenance (cm_status cm1) then masterMaintenanceFlow E cm1 w1
                       else buildFlowTree cm1)
     in case execute E updateFlow cm1 w1 of
          (w2, progressed, Some err) \<Rightarrow> (w2, empty_result, Some err)
        | (w2, True, None) \<Rightarrow> (w2, requeue_result, None)
        | (w2, False, None) \<Rightarrow> cm_Sync E cm1 w2)"

section \<open>One reconciliation\<close>

definition save_and_requeue ::
  "'e env_scheme \<Rightarrow> cluster_state \<Rightarrow> 'x comps_scheme \<Rightarrow> 'x comps_scheme \<times> ctrl_result \<times> go_error" where
  "save_and_requeue E state w = (case SaveClusterState E state w of (w1, err) \<Rightarrow> (w1, requeue_result, err))"

definition sync_state ::
  "'e env_scheme \<Rightarrow> 'x component_manager \<Rightarrow> 'x comps_scheme \<Rightarrow> 'x comps_scheme \<times> ctrl_result \<times> go_error" where
  "sync_state E cm w =
    (case GetClusterState w of
       ClusterStateEmpty \<Rightarrow> save_and_requeue E ClusterStateInitializing w
     | ClusterStateCreated \<Rightarrow> save_and_requeue E ClusterStateInitializing w
     | ClusterStateInitializing \<Rightarrow>
         if s_allRunning (cm_status cm) then save_and_requeue E ClusterStatePreparing w else cm_Sync E cm w
     | ClusterStatePreparing \<Rightarrow> sync_ready E cm w
     | ClusterStateRunning \<Rightarrow> sync_ready E cm w
     | ClusterStateUpdateBlocked \<Rightarrow> sync_ready E cm w
     | ClusterStateMaintenance \<Rightarrow> sync_ready E cm w
     | ClusterStateReconfiguration \<Rightarrow>
         if s_allRunning (cm_status cm) then save_and_requeue E ClusterStatePreparing w else cm_Sync E cm w
     | ClusterStateUpdating \<Rightarrow> sync_updating E cm w
     | ClusterStateUpdateFinished \<Rightarrow> save_and_requeue E ClusterStatePreparing (ClearUpdateStatus w)
     | ClusterStateUpdateCanceled \<Rightarrow> save_and_requeue E ClusterStatePreparing (ClearUpdateStatus w)
     | ClusterStateOther s \<Rightarrow> (w, empty_result, Some (''unknown cluster state: '' @ [CHR 0x22] @ s @ [CHR 0x22])))"

text \<open>\<open>None\<close> is the panic of the component manager's constructor.\<close>

definition Sync ::
  "'e env_scheme \<Rightarrow> 'x component_factory \<Rightarrow> string \<Rightarrow> 'x comps_scheme \<Rightarrow>
   ('x comps_scheme \<times> ctrl_result \<times> go_error) option" where
  "Sync E F clusterDomain w0 =
    (let w = w0\<lparr>w_status := (\<lambda>_. undefined_status)\<rparr>
     in case NewComponentManager F w clusterDomain of
          None \<Rightarrow> None
        | Some (Inl err) \<Rightarrow> Some (w, requeue_result, Some err)
        | Some (Inr cm) \<Rightarrow>
            (case FetchStatus E cm w of
               (w1, cm1, Some err) \<Rightarrow> Some (w1, requeue_result, Some err)
             | (w1, cm1, None) \<Rightarrow> Some (sync_state E cm1 w1)))"

definition ShouldIgnoreResource :: "(string \<rightharpoonup> string) \<Rightarrow> string \<Rightarrow> bool" where
  "ShouldIgnoreResource labels watchOperatorInstance \<longleftrightarrow>
    ptr_deref (labels ''ytsaurus.tech/operator-instance'') '''' \<noteq> watchOperatorInstance"

text \<open>
  \<open>get\<close> is the client's \<open>Get\<close> of the object with its labels, \<open>satisfies\<close> the check of the version
  constraint by the semantic version library, with its error.
\<close>

definition ValidateVersionConstraint :: "(string \<Rightarrow> go_error) \<Rightarrow> string \<Rightarrow> go_error" where
  "ValidateVersionConstraint satisfies constraintStr =
    (if constraintStr = '''' then None else satisfies constraintStr)"

definition Reconcile ::
  "'e env_scheme \<Rightarrow> 'x component_factory \<Rightarrow> string \<Rightarrow> string \<Rightarrow> (string \<Rightarrow> go_error) \<Rightarrow>
   ((string \<rightharpoonup> string) \<times> 'x comps_scheme) + client_error \<Rightarrow>
   ('x comps_scheme option \<times> ctrl_result \<times> go_error) option" where
  "Reconcile E F clusterDomain watchOperatorInstance satisfies get =
    (case get of
       Inr NotFoundError \<Rightarrow> Some (None, empty_result, None)
     | Inr (ClientError err) \<Rightarrow> Some (None, empty_result, Some err)
     | Inl (labels, w) \<Rightarrow>
         (let spec = yt_Spec (w_object w)
          in if \<not> ptr_deref (sp_IsManaged spec) True \<or> ShouldIgnoreResource labels watchOperatorInstance
             then Some (Some w, requeue_after DefaultClusterStatusPollPeriod, None)
             else case ValidateVersionConstraint satisfies (sp_RequiresOperatorVersion spec) of
                    Some err \<Rightarrow> Some (Some w, empty_result, Some err)
                  | None \<Rightarrow> map_option (\<lambda>(w1, result, err). (Some w1, result, err)) (Sync E F clusterDomain w)))"

section \<open>The cluster state machine\<close>

inductive cluster_step :: "cluster_state \<Rightarrow> cluster_state \<Rightarrow> bool" where
  init_empty: "cluster_step ClusterStateEmpty ClusterStateInitializing"
| init_created: "cluster_step ClusterStateCreated ClusterStateInitializing"
| initialized: "cluster_step ClusterStateInitializing ClusterStatePreparing"
| reconfigured: "cluster_step ClusterStateReconfiguration ClusterStatePreparing"
| finish: "cluster_step ClusterStateUpdating ClusterStateUpdateFinished"
| cancel: "cluster_step ClusterStateUpdating ClusterStateUpdateCanceled"
| finished: "cluster_step ClusterStateUpdateFinished ClusterStatePreparing"
| canceled: "cluster_step ClusterStateUpdateCanceled ClusterStatePreparing"
| not_ready: "cluster_step ClusterStateRunning ClusterStatePreparing"
| ready: "s \<in> {ClusterStatePreparing, ClusterStateRunning, ClusterStateUpdateBlocked, ClusterStateMaintenance} \<Longrightarrow>
    s' \<in> {ClusterStateRunning, ClusterStateMaintenance, ClusterStateReconfiguration, ClusterStateUpdating,
          ClusterStateUpdateBlocked} \<Longrightarrow> cluster_step s s'"

code_pred cluster_step .

inductive_simps cluster_step_from [simp]:
  "cluster_step ClusterStateEmpty s" "cluster_step ClusterStateCreated s" "cluster_step ClusterStateInitializing s"
  "cluster_step ClusterStateReconfiguration s" "cluster_step ClusterStateUpdating s"
  "cluster_step ClusterStateUpdateFinished s" "cluster_step ClusterStateUpdateCanceled s"
  "cluster_step ClusterStatePreparing s" "cluster_step ClusterStateRunning s"
  "cluster_step ClusterStateUpdateBlocked s" "cluster_step ClusterStateMaintenance s"
  "cluster_step (ClusterStateOther x) s"

text \<open>
  The invariant of the object: no condition type occurs twice, and once the cluster has left its
  initial state the \<open>ReadyToWork\<close> condition agrees with the cluster state.
\<close>

definition cluster_inv :: "'x yts_scheme \<Rightarrow> bool" where
  "cluster_inv w \<longleftrightarrow> conds_wf w \<and>
    (GetClusterState w \<in> {ClusterStateEmpty, ClusterStateCreated} \<and>
       status_of_cond w ConditionReadyToWork \<noteq> Some ConditionTrue \<or> ready_cond_ok w)"

definition good_step :: "'x yts_scheme \<Rightarrow> 'x yts_scheme \<Rightarrow> bool" where
  "good_step w w' \<longleftrightarrow>
    (GetClusterState w' = GetClusterState w \<or> cluster_step (GetClusterState w) (GetClusterState w')) \<and>
    (cluster_inv w \<longrightarrow> cluster_inv w')"

lemma cluster_inv_cong:
  "GetClusterState w' = GetClusterState w \<Longrightarrow> status_of_cond w' ConditionReadyToWork = status_of_cond w ConditionReadyToWork \<Longrightarrow>
   (conds_wf w \<Longrightarrow> conds_wf w') \<Longrightarrow> cluster_inv w \<Longrightarrow> cluster_inv w'"
  by (auto simp: cluster_inv_def ready_cond_ok_def)

lemma cluster_inv_same_control: "same_control w w' \<Longrightarrow> cluster_inv w \<Longrightarrow> cluster_inv w'"
  by (auto simp: cluster_inv_def ready_cond_ok_def same_control_def)

lemma good_step_refl [simp]: "good_step w w"
  by (simp add: good_step_def)

lemma good_step_same_control: "same_control w w' \<Longrightarrow> good_step w w'"
  using cluster_inv_same_control[of w w'] by (auto simp: good_step_def same_control_def)

lemma good_step_comp:
  "good_step u v \<Longrightarrow> GetClusterState v = GetClusterState u \<Longrightarrow> good_step v w \<Longrightarrow> good_step u w"
  "good_step u v \<Longrightarrow> good_step v w \<Longrightarrow> GetClusterState w = GetClusterState v \<Longrightarrow> good_step u w"
  by (auto simp: good_step_def)

lemma cluster_inv_SetClusterState:
  assumes "meta_laws M" "cluster_inv w" "s \<notin> {ClusterStateEmpty, ClusterStateCreated}"
  shows "cluster_inv (fst (SetClusterState M s w))"
proof -
  have "ready_cond_ok w \<or> GetClusterState w \<noteq> s" using assms(2,3) by (auto simp: cluster_inv_def)
  then show ?thesis using assms ready_cond_SetClusterState[of M w s] by (simp add: cluster_inv_def)
qed

lemma cluster_inv_UpdateStatus:
  assumes "meta_laws E" "cluster_inv w" shows "cluster_inv (fst (UpdateStatus E w))"
  using assms by (intro cluster_inv_cong[OF _ _ _ assms(2)]) (auto simp: status_of_UpdateStatus)

lemma status_of_map_update_status [simp]: "status_of_cond (map_update_status f w) t = status_of_cond w t"
  by (simp add: status_of_cond_def GetStatusConditions_def)

lemma status_of_update_fields [simp]:
  "status_of_cond (SetUpdateState s w) t = status_of_cond w t"
  "status_of_cond (SetUpdatingComponents cs w) t = status_of_cond w t"
  "status_of_cond (ClearUpdateStatus w) t = status_of_cond w t"
  "status_of_cond (SetUpdateStatusCondition M c w) t = status_of_cond w t"
  by (simp_all add: SetUpdateState_def SetUpdatingComponents_def ClearUpdateStatus_def SetUpdateStatusCondition_def)

lemma cluster_inv_update_fields:
  "cluster_inv w \<Longrightarrow> cluster_inv (SetUpdateState s w)"
  "cluster_inv w \<Longrightarrow> cluster_inv (SetUpdatingComponents cs w)"
  "cluster_inv w \<Longrightarrow> cluster_inv (ClearUpdateStatus w)"
  "meta_laws M \<Longrightarrow> cluster_inv w \<Longrightarrow> cluster_inv (SetUpdateStatusCondition M c w)"
  by (simp_all add: cluster_inv_def ready_cond_ok_def)

lemma cluster_inv_RecordNormal [simp]: "cluster_inv (RecordNormal r m w) = cluster_inv w"
  by (simp add: cluster_inv_def ready_cond_ok_def status_of_cond_def)

lemma cluster_inv_LogUpdate [simp]: "cluster_inv (LogUpdate m w) = cluster_inv w"
  by (simp add: LogUpdate_def)

lemma good_step_Save:
  assumes "meta_laws E" "s \<notin> {ClusterStateEmpty, ClusterStateCreated}"
    "GetClusterState w = s \<or> cluster_step (GetClusterState w) s"
  shows "good_step w (fst (SaveClusterState E s w))"
  using assms cluster_inv_UpdateStatus[OF assms(1) cluster_inv_SetClusterState[OF assms(1) _ assms(2)], of w]
  by (auto simp: good_step_def SaveClusterState_def)

lemma good_step_SaveUpdateState:
  assumes "meta_laws E" shows "good_step w (fst (SaveUpdateState E s w))"
  by (auto simp: good_step_def SaveUpdateState_def
      intro!: cluster_inv_UpdateStatus[OF assms] cluster_inv_update_fields(1))

lemma good_step_cm_Sync:
  assumes "meta_laws E" "list_all well_behaved (cm_allComponents cm)" "cm_Sync E cm w = (w', r, e)"
  shows "good_step w w' \<and> GetClusterState w' = GetClusterState w"
proof -
  let ?p = "sync_prologue E cm w" and ?ls = "\<lparr>lp_hasPending = False, lp_hasStarted = False, lp_syncErr = None\<rparr>"
  obtain w1 r1 where loop: "sync_components E (cm_allComponents cm) ?ls ?p = (w1, r1)" by fastforce
  have ctl: "same_control w w1"
    using same_control_trans[OF same_control_sync_prologue[OF assms(1)] same_control_sync_components[OF assms(2) loop]] .
  have "w' = w1 \<or> w' = fst (UpdateStatus E w1)"
    using assms(3) by (auto simp: cm_Sync_def loop split: loop_exit.splits prod.splits option.splits if_splits)
  then have "cluster_inv w \<Longrightarrow> cluster_inv w'" and "GetClusterState w' = GetClusterState w1"
    using cluster_inv_same_control[OF ctl] cluster_inv_UpdateStatus[OF assms(1)] by auto
  with ctl show ?thesis by (simp add: good_step_def same_control_def)
qed

lemma initUpdateConditions_frame:
  "GetClusterState (initUpdateConditions E w) = GetClusterState w"
  "GetUpdateState (initUpdateConditions E w) = GetUpdateState w"
  "GetUpdatingComponents (initUpdateConditions E w) = GetUpdatingComponents w"
  "meta_laws E \<Longrightarrow> cluster_inv w \<Longrightarrow> cluster_inv (initUpdateConditions E w)"
  by (auto simp: initUpdateConditions_def cluster_inv_update_fields split: option.splits)

lemma good_step_SetClusterState:
  assumes "meta_laws M" "s \<notin> {ClusterStateEmpty, ClusterStateCreated}"
    "GetClusterState w = s \<or> cluster_step (GetClusterState w) s"
  shows "good_step w (fst (SetClusterState M s w))"
  using assms cluster_inv_SetClusterState[OF assms(1) _ assms(2), of w] by (auto simp: good_step_def)

lemma SyncObservedGeneration_frame:
  assumes "SyncObservedGeneration E w = (w', b)"
  shows "GetClusterState w' = GetClusterState w" "GetUpdateState w' = GetUpdateState w"
    "yt_Spec (w_object w') = yt_Spec (w_object w)" "update_status_of w' = update_status_of w"
    "meta_laws E \<Longrightarrow> cluster_inv w \<Longrightarrow> cluster_inv w'"
    "meta_laws E \<Longrightarrow> t \<noteq> ConditionOperatorVersion \<Longrightarrow> status_of_cond w' t = status_of_cond w t"
proof -
  obtain w1 where w1: "w' = fst (updateOperatorVersion E w1)"
    "w1 = w \<or> w1 = w\<lparr>w_object := SetStatusObservedGeneration (yt_Generation (w_object w)) (w_object w)\<rparr>"
    using assms by (auto simp: SyncObservedGeneration_def Let_def split: prod.splits if_splits) (metis fst_conv)+
  then have c1: "GetClusterState w1 = GetClusterState w" "status_of_cond w1 t = status_of_cond w t"
    "conds_wf w1 = conds_wf w" "update_status_of w1 = update_status_of w" "yt_Spec (w_object w1) = yt_Spec (w_object w)" for t
    by (auto simp: GetClusterState_def status_of_cond_def conds_wf_def)
  show c: "GetClusterState w' = GetClusterState w" using c1 w1 by (simp add: GetClusterState_def)
  show "update_status_of w' = update_status_of w" "yt_Spec (w_object w') = yt_Spec (w_object w)" using c1 w1 by simp_all
  then show "GetUpdateState w' = GetUpdateState w" by (simp add: GetUpdateState_def)
  show st: "status_of_cond w' t = status_of_cond w t" if "meta_laws E" "t \<noteq> ConditionOperatorVersion" for t
    using that c1 w1(1) status_of_updateOperatorVersion by metis
  show "meta_laws E \<Longrightarrow> cluster_inv w \<Longrightarrow> cluster_inv w'"
    using c1 w1(1) by (intro cluster_inv_cong[OF c st]) auto
qed

lemma SetBlockedComponents_frame:
  assumes "SetBlockedComponents cs w = (w', b)"
  shows "GetClusterState w' = GetClusterState w" "GetUpdateState w' = GetUpdateState w"
    "GetUpdatingComponents w' = GetUpdatingComponents w"
    "yt_Spec (w_object w') = yt_Spec (w_object w)" "status_of_cond w' t = status_of_cond w t"
    "cluster_inv w \<Longrightarrow> cluster_inv w'"
  using assms
  by (auto simp: SetBlockedComponents_def Let_def GetUpdateState_def GetUpdatingComponents_def cluster_inv_def
      ready_cond_ok_def conds_wf_def GetStatusConditions_def split: if_splits)

text \<open>What a choice of state may do, with the state it starts an update from.\<close>

definition ready_states :: "cluster_state set" where
  "ready_states = {ClusterStatePreparing, ClusterStateRunning, ClusterStateUpdateBlocked, ClusterStateMaintenance}"

lemma choose_state_good:
  assumes "meta_laws E" "GetClusterState w \<in> ready_states" "choose_state E s w b = (w', b')"
  shows "good_step w w'"
proof -
  note S = good_step_SetClusterState[OF assms(1)]
  have R: "good_step w (fst (SetClusterState E ClusterStateReconfiguration (RecordNormal r m w)))" for r m
    using S[of ClusterStateReconfiguration "RecordNormal r m w"] assms(2)
    by (simp add: good_step_def ready_states_def cluster_step.simps)
  have I: "good_step w (initUpdateConditions E (fst (SetClusterState E ClusterStateUpdating
          (SetUpdateState UpdateStateNone (SetUpdatingComponents cs w)))))" for cs
    using assms(2)
    by (auto simp: good_step_def ready_states_def initUpdateConditions_frame(1) intro!: initUpdateConditions_frame(4)[OF assms(1)]
        cluster_inv_SetClusterState[OF assms(1)] cluster_inv_update_fields)
  have M: "good_step w (RecordNormal r m (fst (SetClusterState E ClusterStateMaintenance w)))" for r m
    using S[of ClusterStateMaintenance w] assms(2) by (auto simp: good_step_def ready_states_def)
  have T: "good_step w (fst (SetClusterState E st w))"
    if "st \<in> {ClusterStateRunning, ClusterStateUpdateBlocked, ClusterStateMaintenance}" for st
    using that S[of st w] assms(2) by (auto simp: ready_states_def)
  have P: "good_step w (fst (SetClusterState E ClusterStatePreparing w))" if "GetClusterState w = ClusterStateRunning"
    using that S[of ClusterStatePreparing w] by auto
  show ?thesis using assms(3) R I M T P
    by (auto simp: choose_state_def split: if_splits prod.splits bool.splits) (metis fst_conv insertCI)+
qed

lemma good_step_prefix:
  "GetClusterState v = GetClusterState u \<Longrightarrow> (cluster_inv u \<Longrightarrow> cluster_inv v) \<Longrightarrow> good_step v w \<Longrightarrow> good_step u w"
  by (auto simp: good_step_def)

lemma good_step_UpdateStatus: "meta_laws E \<Longrightarrow> good_step u v \<Longrightarrow> good_step u (fst (UpdateStatus E v))"
  by (auto simp: good_step_def intro: cluster_inv_UpdateStatus)

lemma sync_ready_good:
  assumes "meta_laws E" "list_all well_behaved (cm_allComponents cm)" "GetClusterState w \<in> ready_states"
    "sync_ready E cm w = (w', r, e)"
  shows "good_step w w'"
proof -
  let ?s = "applyUpdatePlan (GetUpdatePlan (w_object w)) (cm_status cm)"
  obtain w1 b1 where s1: "SyncObservedGeneration E w = (w1, b1)" by fastforce
  obtain w2 b2 where s2: "SetBlockedComponents (s_cannotUpdate ?s) w1 = (w2, b2)" by fastforce
  obtain w3 b3 where s3: "choose_state E ?s w2 (if b2 then True else b1) = (w3, b3)" by fastforce
  note f1 = SyncObservedGeneration_frame[OF s1] and f2 = SetBlockedComponents_frame[OF s2]
  have "good_step w2 w3" using choose_state_good[OF assms(1) _ s3] assms(3) f1 f2 by simp
  then have g3: "good_step w w3"
    using f1(1,5) f2(1,6) assms(1) by (intro good_step_prefix[of w2 w w3]) auto
  have "w' = fst (UpdateStatus E w3) \<or> w' = w3 \<or> (\<exists>r e. cm_Sync E (cm\<lparr>cm_status := ?s\<rparr>) w3 = (w', r, e))"
    using assms(4) unfolding sync_ready_def Let_def s1 s2 s3 prod.case by (auto split: prod.splits if_splits)
  moreover have "good_step w w'" if "cm_Sync E (cm\<lparr>cm_status := ?s\<rparr>) w3 = (w', r, e)" for r e
    using good_step_cm_Sync[OF assms(1) _ that] assms(2) good_step_comp(2)[OF g3] by simp
  ultimately show ?thesis using g3 good_step_UpdateStatus[OF assms(1) g3] by blast
qed

lemma cluster_inv_LogUpdate_good: "good_step (LogUpdate m w) w' = good_step w w'"
  by (simp add: good_step_def)

lemma execute_good:
  assumes "meta_laws E" "GetClusterState w = ClusterStateUpdating" "flow_rep f path fork"
    "execute E f cm w = (w', p, e)"
  shows "good_step w w'"
proof -
  have S: "good_step w (fst (SaveClusterState E (end_state st) (LogUpdate m w)))" for st m
    using good_step_Save[OF assms(1), of "end_state st" "LogUpdate m w"] assms(2)
    by (auto simp: cluster_inv_LogUpdate_good end_state_def)
  have U: "good_step w (fst (SaveUpdateState E st (LogUpdate m w)))" for st m
    using good_step_SaveUpdateState[OF assms(1), of "LogUpdate m w" st] by (simp add: cluster_inv_LogUpdate_good)
  have L: "good_step w (LogUpdate m w)" for m by (simp add: good_step_def)
  show ?thesis using assms(4) S U L unfolding execute_flow_next[OF assms(3)] Let_def
    by (auto simp: saved_result_def split: if_splits option.splits)
qed

lemma sync_updating_good:
  assumes "meta_laws E" "list_all well_behaved (cm_allComponents cm)" "GetClusterState w = ClusterStateUpdating"
    "sync_updating E cm w = (w', r, e)"
  shows "good_step w w'"
proof -
  let ?cm = "updating_manager cm w" and ?f = "\<lambda>w1. if s_mastersMaintenance (cm_status (updating_manager cm w))
    then masterMaintenanceFlow E (updating_manager cm w) w1 else buildFlowTree (updating_manager cm w)"
  define w1 where "w1 = RecordNormal ''Update'' (updating_message (cm_status ?cm) (GetUpdateState w)) w"
  obtain w2 p e2 where ex: "execute E (?f w1) ?cm w1 = (w2, p, e2)" by (metis prod_cases3)
  have "\<exists>path fork. flow_rep (?f w1) path fork"
    by (auto intro: flow_rep_buildFlowTree flow_rep_masterMaintenanceFlow)
  then have "good_step w1 w2" using execute_good[OF assms(1) _ _ ex] assms(3) by (auto simp: w1_def)
  then have g: "good_step w w2" by (simp add: w1_def good_step_def)
  have cs: "list_all well_behaved (cm_allComponents ?cm)" using assms(2) by (simp add: updating_manager_def Let_def)
  have "w' = w2 \<or> (\<exists>r e. cm_Sync E ?cm w2 = (w', r, e))"
    using assms(4) ex unfolding sync_updating_def Let_def w1_def by (auto split: option.splits bool.splits)
  then show ?thesis using g good_step_comp(2)[OF g] good_step_cm_Sync[OF assms(1) cs] by blast
qed

lemma good_step_save_and_requeue:
  assumes "meta_laws E" "s \<notin> {ClusterStateEmpty, ClusterStateCreated}" "cluster_step (GetClusterState w) s"
    "save_and_requeue E s w = (w', r, e)"
  shows "good_step w w'"
  using good_step_Save[OF assms(1,2), of w] assms(3,4) by (auto simp: save_and_requeue_def split: prod.splits)

lemma sync_state_good:
  assumes "meta_laws E" "list_all well_behaved (cm_allComponents cm)" "sync_state E cm w = (w', r, e)"
  shows "good_step w w'"
proof -
  note save = good_step_save_and_requeue[OF assms(1)]
  have clear: "good_step w w'" if "GetClusterState w \<in> {ClusterStateUpdateFinished, ClusterStateUpdateCanceled}"
    "save_and_requeue E ClusterStatePreparing (ClearUpdateStatus w) = (w', r, e)"
  proof -
    have "good_step (ClearUpdateStatus w) w'"
      by (rule save[OF _ _ that(2)]) (use that(1) in auto)
    then show ?thesis by (rule good_step_prefix[rotated 2]) (simp_all add: cluster_inv_update_fields)
  qed
  show ?thesis
    using assms(3) save[of _ w w' r e] clear good_step_cm_Sync[OF assms(1,2)] sync_updating_good[OF assms(1,2)]
      sync_ready_good[OF assms(1,2)]
    by (cases "GetClusterState w") (auto simp: sync_state_def ready_states_def split: if_splits)
qed

section \<open>Saving the status\<close>

definition saves_once :: "'x yts_scheme \<Rightarrow> 'x yts_scheme \<Rightarrow> bool" where
  "saves_once w w' \<longleftrightarrow> w_saved w' = w_saved w \<or> w_saved w' = w_saved w @ [w_object w']"

lemma saved_frame [simp]:
  "w_saved (SetUpdatingComponents cs w) = w_saved w"
  "w_saved (ClearUpdateStatus w) = w_saved w"
  "w_saved (SetUpdateStatusCondition M c w) = w_saved w"
  by (simp_all add: SetUpdatingComponents_def ClearUpdateStatus_def SetUpdateStatusCondition_def)

lemma saved_initUpdateConditions [simp]: "w_saved (initUpdateConditions E w) = w_saved w"
  by (auto simp: initUpdateConditions_def split: option.splits)

lemma saved_SyncObservedGeneration: "SyncObservedGeneration E w = (w', b) \<Longrightarrow> w_saved w' = w_saved w"
  by (auto simp: SyncObservedGeneration_def Let_def split: prod.splits if_splits)
     (metis fst_conv updateOperatorVersion_frame(5) yts.select_convs(4) yts.surjective yts.update_convs(1))+

lemma saved_SetBlockedComponents: "SetBlockedComponents cs w = (w', b) \<Longrightarrow> w_saved w' = w_saved w"
  by (auto simp: SetBlockedComponents_def Let_def split: if_splits)

lemma SetClusterState_saved: "SetClusterState M s w = (w', b) \<Longrightarrow> w_saved w' = w_saved w"
  using SetClusterState_frame(4)[of M s w] by simp

lemma saved_choose_state: "choose_state E s w b = (w', b') \<Longrightarrow> w_saved w' = w_saved w"
  by (auto simp: choose_state_def split: if_splits prod.splits bool.splits dest!: SetClusterState_saved)

lemma saves_once_UpdateStatus: "w_saved v = w_saved w \<Longrightarrow> saves_once w (fst (UpdateStatus E v))"
  by (simp add: saves_once_def UpdateStatus_saved)

lemma saves_once_cm_Sync:
  assumes "meta_laws E" "list_all well_behaved (cm_allComponents cm)" "cm_Sync E cm v = (w', r, e)" "w_saved v = w_saved w"
  shows "saves_once w w'"
  using cm_Sync_effect[OF assms(1-3)] assms(4) by (auto simp: saves_once_def)

lemma saves_once_save: "saves_once w (fst (SaveClusterState E s w))" "saves_once w (fst (SaveUpdateState E u w))"
  by (simp_all add: saves_once_def SaveClusterState_result SaveUpdateState_result)

lemma saves_once_refl [simp]: "saves_once w w"
  by (simp add: saves_once_def)

lemma saves_once_prefix: "w_saved v = w_saved u \<Longrightarrow> saves_once v w \<Longrightarrow> saves_once u w"
  by (simp add: saves_once_def)

lemma sync_ready_saves_once:
  assumes "meta_laws E" "list_all well_behaved (cm_allComponents cm)" "sync_ready E cm w = (w', r, e)"
  shows "saves_once w w'"
proof -
  let ?s = "applyUpdatePlan (GetUpdatePlan (w_object w)) (cm_status cm)"
  obtain w1 b1 where s1: "SyncObservedGeneration E w = (w1, b1)" by fastforce
  obtain w2 b2 where s2: "SetBlockedComponents (s_cannotUpdate ?s) w1 = (w2, b2)" by fastforce
  obtain w3 b3 where s3: "choose_state E ?s w2 (if b2 then True else b1) = (w3, b3)" by fastforce
  have sv: "w_saved w3 = w_saved w"
    using saved_SyncObservedGeneration[OF s1] saved_SetBlockedComponents[OF s2] saved_choose_state[OF s3] by simp
  have "w' = fst (UpdateStatus E w3) \<or> w' = w3 \<or> (\<exists>r e. cm_Sync E (cm\<lparr>cm_status := ?s\<rparr>) w3 = (w', r, e))"
    using assms(3) unfolding sync_ready_def Let_def s1 s2 s3 prod.case by (auto split: prod.splits if_splits)
  then show ?thesis
  proof (elim disjE exE)
    fix r e assume "cm_Sync E (cm\<lparr>cm_status := ?s\<rparr>) w3 = (w', r, e)"
    from saves_once_cm_Sync[OF assms(1) _ this sv] assms(2) show ?thesis by simp
  qed (auto simp: saves_once_UpdateStatus[OF sv], simp add: saves_once_def sv)
qed

lemma execute_saves_once: "flow_rep f path fork \<Longrightarrow> execute E f cm w = (w', p, e) \<Longrightarrow>
   saves_once w w' \<and> (p = False \<and> e = None \<longrightarrow> w_saved w' = w_saved w)"
  unfolding execute_flow_next Let_def
  by (auto simp: saved_result_def saves_once_def SaveClusterState_result SaveUpdateState_result
      split: if_splits option.splits)

lemma sync_updating_saves_once:
  assumes "meta_laws E" "list_all well_behaved (cm_allComponents cm)" "sync_updating E cm w = (w', r, e)"
  shows "saves_once w w'"
proof -
  let ?cm = "updating_manager cm w" and ?f = "\<lambda>w1. if s_mastersMaintenance (cm_status (updating_manager cm w))
    then masterMaintenanceFlow E (updating_manager cm w) w1 else buildFlowTree (updating_manager cm w)"
  define w1 where "w1 = RecordNormal ''Update'' (updating_message (cm_status ?cm) (GetUpdateState w)) w"
  obtain w2 p e2 where ex: "execute E (?f w1) ?cm w1 = (w2, p, e2)" by (metis prod_cases3)
  have "\<exists>path fork. flow_rep (?f w1) path fork"
    by (auto intro: flow_rep_buildFlowTree flow_rep_masterMaintenanceFlow)
  then have once: "saves_once w w2" "p = False \<and> e2 = None \<longrightarrow> w_saved w2 = w_saved w"
    using execute_saves_once[OF _ ex] by (auto simp: w1_def saves_once_def)
  have cs: "list_all well_behaved (cm_allComponents ?cm)" using assms(2) by (simp add: updating_manager_def Let_def)
  show ?thesis
  proof (cases "p = False \<and> e2 = None")
    case True
    then have "cm_Sync E ?cm w2 = (w', r, e)" using assms(3) ex unfolding sync_updating_def Let_def w1_def by simp
    then show ?thesis using saves_once_cm_Sync[OF assms(1) cs] once(2) True by blast
  next
    case False
    then have "w' = w2"
      using assms(3) ex unfolding sync_updating_def Let_def w1_def by (auto split: option.splits bool.splits)
    then show ?thesis using once by simp
  qed
qed

lemma sync_state_saves_once:
  assumes "meta_laws E" "list_all well_behaved (cm_allComponents cm)" "sync_state E cm w = (w', r, e)"
  shows "saves_once w w'"
proof -
  have save: "saves_once w w'" if "save_and_requeue E s v = (w', r, e)" "w_saved v = w_saved w" for s v
  proof -
    have "w' = fst (SaveClusterState E s v)" using that(1) by (auto simp: save_and_requeue_def split: prod.splits)
    then show ?thesis using saves_once_prefix[OF that(2) saves_once_save(1)] by simp
  qed
  show ?thesis
    using assms(3) save[of _ w] save[of _ "ClearUpdateStatus w"] saves_once_cm_Sync[OF assms(1,2)]
      sync_updating_saves_once[OF assms(1,2)] sync_ready_saves_once[OF assms(1,2)]
    by (cases "GetClusterState w") (auto simp: sync_state_def split: if_splits)
qed

section \<open>One reconciliation\<close>

abbreviation reset_components :: "'x comps_scheme \<Rightarrow> 'x comps_scheme" where
  "reset_components w \<equiv> w\<lparr>w_status := (\<lambda>_. undefined_status)\<rparr>"

lemma reset_components_same [simp]: "same_control w (reset_components w)"
  by (simp add: same_control_def GetClusterState_def GetUpdateState_def GetUpdatingComponents_def
      conds_wf_def status_of_cond_def)

text \<open>A reconciliation fails before the state machine, or runs it after a successful fetch.\<close>

lemma Sync_cases:
  assumes "meta_laws E" "\<And>i k. well_behaved (cf_build F i k)" "Sync E F dom0 w = Some (w', r, e)"
  obtains (failed) "same_control w w'" "e \<noteq> None" "r = requeue_result"
  | (synced) cm w1 cm1 where "NewComponentManager F (reset_components w) dom0 = Some (Inr cm)"
      "FetchStatus E cm (reset_components w) = (w1, cm1, None)" "same_control w w1"
      "list_all well_behaved (cm_allComponents cm)" "cm_allComponents cm1 = cm_allComponents cm"
      "sync_state E cm1 w1 = (w', r, e)"
proof -
  let ?w = "reset_components w"
  consider (new) err where "NewComponentManager F ?w dom0 = Some (Inl err)"
    | (cm) cm where "NewComponentManager F ?w dom0 = Some (Inr cm)"
    using assms(3) unfolding Sync_def Let_def by (auto split: option.splits sum.splits)
  then show thesis
  proof cases
    case new
    then show ?thesis using assms(3) by (intro failed) (auto simp: Sync_def)
  next
    case cm
    have wb: "list_all well_behaved (cm_allComponents cm)"
      using cm assms(2) by (auto simp: NewComponentManager_def list_all_iff split: if_splits)
    obtain w1 cm1 e1 where f: "FetchStatus E cm ?w = (w1, cm1, e1)" by (metis prod_cases3)
    then obtain s1 where "fetch_components E (cm_allComponents cm)
        (initial_status (cmt_Shutdown (GetClusterMaintenance ?w))) ?w = (w1, s1, e1)"
      by (auto simp: FetchStatus_def Let_def split: prod.splits)
    then have sc: "same_control w w1"
      using same_control_trans[OF reset_components_same same_control_fetch_components[OF assms(1) wb]] by blast
    have all: "cm_allComponents cm1 = cm_allComponents cm"
      using f by (auto simp: FetchStatus_def Let_def split: prod.splits)
    show ?thesis
    proof (cases e1)
      case None
      then have "sync_state E cm1 w1 = (w', r, e)" using assms(3) cm f by (simp add: Sync_def)
      with None f show ?thesis using synced[OF cm _ sc wb all] by simp
    next
      case (Some er)
      then have "w' = w1 \<and> e = Some er \<and> r = requeue_result" using assms(3) cm f by (simp add: Sync_def)
      with sc show ?thesis by (intro failed) auto
    qed
  qed
qed

lemma Sync_good:
  assumes "meta_laws E" "\<And>i k. well_behaved (cf_build F i k)" "Sync E F dom0 w = Some (w', r, e)"
  shows "good_step w w' \<and> saves_once w w'"
  using assms
proof (cases rule: Sync_cases)
  case failed
  then show ?thesis using good_step_same_control[of w w'] by (simp add: saves_once_def same_control_def)
next
  case (synced cm w1 cm1)
  have wb: "list_all well_behaved (cm_allComponents cm1)" using synced by simp
  have "GetClusterState w1 = GetClusterState w" "w_saved w1 = w_saved w"
    using synced(3) by (simp_all add: same_control_def)
  then show ?thesis
    using sync_state_good[OF assms(1) wb synced(6)] sync_state_saves_once[OF assms(1) wb synced(6)]
      good_step_same_control[OF synced(3)] good_step_comp(1)[of w w1 w'] saves_once_prefix[of w1 w w'] by simp
qed

text \<open>
  (C1) One reconciliation moves the cluster state by at most one transition of the cluster state
  machine, for every component implementation that respects the component contract, whatever the
  API server and the components answer.
\<close>

theorem reconcile_follows_state_machine:
  assumes "meta_laws E" and "\<And>i k. well_behaved (cf_build F i k)"
    and "Sync E F clusterDomain w = Some (w', result, err)"
  shows "GetClusterState w' = GetClusterState w \<or> cluster_step (GetClusterState w) (GetClusterState w')"
  using Sync_good[OF assms] by (simp add: good_step_def)

text \<open>
  (C10) One reconciliation saves the status at most once, and what it saves is its final state.
\<close>

theorem reconcile_saves_at_most_once:
  assumes "meta_laws E" and "\<And>i k. well_behaved (cf_build F i k)"
    and "Sync E F clusterDomain w = Some (w', result, err)"
  shows "w_saved w' = w_saved w \<or> w_saved w' = w_saved w @ [w_object w']"
  using Sync_good[OF assms] by (simp add: saves_once_def)

section \<open>Reachable objects\<close>

text \<open>
  The stored object over time.  It starts without a status; a reconciliation replaces it if it
  saved; the user may change the specification, which changes the generation; everything else in
  the world, and the environment of each reconciliation, is arbitrary.
\<close>

inductive reachable :: "'x component_factory \<Rightarrow> string \<Rightarrow> 'x comps_scheme \<Rightarrow> bool"
  for F :: "'x component_factory" and clusterDomain :: string where
  created: "GetClusterState w = ClusterStateEmpty \<Longrightarrow> GetStatusConditions (w_object w) = [] \<Longrightarrow>
    us_Conditions (update_status_of w) = [] \<Longrightarrow> reachable F clusterDomain w"
| edited: "reachable F clusterDomain w \<Longrightarrow>
    w_object w' = (w_object w)\<lparr>yt_Spec := spec, yt_Generation := generation\<rparr> \<Longrightarrow> reachable F clusterDomain w'"
| reconciled: "reachable F clusterDomain w \<Longrightarrow> meta_laws (E :: env) \<Longrightarrow>
    Sync E F clusterDomain w = Some (w', result, err) \<Longrightarrow>
    w_object v = (if w_saved w' = w_saved w then w_object w else w_object w') \<Longrightarrow> reachable F clusterDomain v"

lemma cluster_inv_object:
  "yt_Status (w_object w') = yt_Status (w_object w) \<Longrightarrow> cluster_inv w' = cluster_inv w"
  by (simp add: cluster_inv_def conds_wf_def ready_cond_ok_def status_of_cond_def GetStatusConditions_def
      GetClusterState_def)

lemma reachable_inv:
  assumes "\<And>i k. well_behaved (cf_build F i k)" and "reachable F clusterDomain w"
  shows "cluster_inv w"
  using assms(2)
proof induction
  case (created w)
  then show ?case by (simp add: cluster_inv_def conds_wf_def status_of_cond_def cond_find_def)
next
  case (edited w w' spec generation)
  then show ?case using cluster_inv_object[of w' w] by simp
next
  case (reconciled w E w' result err v)
  then have "cluster_inv w'" using Sync_good[OF reconciled(2) assms(1) reconciled(3)] by (simp add: good_step_def)
  then show ?case using reconciled cluster_inv_object[of v w] cluster_inv_object[of v w'] by (simp split: if_splits)
qed

text \<open>
  (C2) In every stored object the \<open>ReadyToWork\<close> condition is true exactly in the cluster states
  \<open>Running\<close> and \<open>UpdateBlocked\<close>, and no condition type is listed twice, whatever sequence of
  reconciliations, failed saves and user edits has led to it.
\<close>

theorem ready_condition_matches_state:
  assumes "\<And>i k. well_behaved (cf_build F i k)" and "reachable F clusterDomain w"
  shows "(status_of_cond w ConditionReadyToWork = Some ConditionTrue \<longleftrightarrow>
      GetClusterState w \<in> {ClusterStateRunning, ClusterStateUpdateBlocked}) \<and>
    distinct (map c_Type (GetStatusConditions (w_object w)))"
  using reachable_inv[OF assms]
  by (auto simp: cluster_inv_def ready_cond_ok_def ready_to_work_state_def conds_wf_def cond_wf_def split: if_splits)

section \<open>Starting an update\<close>

lemma choose_state_updating:
  assumes "choose_state E s w b = (w', b')" "GetClusterState w' = ClusterStateUpdating" "GetClusterState w \<noteq> ClusterStateUpdating"
  shows "\<not> s_allReady s \<and> s_allRunning s \<and> IsStatusConditionTrue E ConditionUpdateIsPossible w \<and> s_canUpdate s \<noteq> [] \<and>
    b' \<and> GetUpdateState w' = UpdateStateNone \<and> GetUpdatingComponents w' = s_canUpdate s"
proof -
  have st: "GetClusterState (fst p) = st" if "p = SetClusterState E st v" for p st and v :: "'a comps_scheme"
    using that by simp
  have fst_st: "GetClusterState v' = st" if "SetClusterState E st v = (v', c)" for st c and v v' :: "'a comps_scheme"
    using that SetClusterState_state[of E st v] by simp
  have upd: "GetUpdatingComponents (fst (SetClusterState E st v)) = GetUpdatingComponents v" for st and v :: "'a comps_scheme"
    by (simp add: GetUpdatingComponents_def)
  show ?thesis using assms
    by (auto simp: choose_state_def initUpdateConditions_frame upd split: if_splits prod.splits bool.splits dest!: fst_st)
qed

text \<open>
  (C3) An update starts only when it may: if a reconciliation moves the cluster into \<open>Updating\<close>,
  then all components are running, the cluster health condition \<open>UpdateIsPossible\<close> was true, the
  update plan admits at least one component, exactly the admitted components are marked as
  updating, the update flow is at its first state, and the status was submitted for saving.
\<close>

theorem update_starts_only_when_possible:
  assumes "meta_laws E" and "list_all well_behaved (cm_allComponents cm)"
    and "sync_state E cm w = (w', result, err)"
    and "GetClusterState w \<noteq> ClusterStateUpdating" and "GetClusterState w' = ClusterStateUpdating"
  defines "s \<equiv> applyUpdatePlan (GetUpdatePlan (w_object w)) (cm_status cm)"
  shows "GetClusterState w \<in> ready_states \<and> s_allRunning (cm_status cm) \<and> \<not> s_allReady (cm_status cm) \<and>
    status_of_cond w ConditionUpdateIsPossible = Some ConditionTrue \<and> s_canUpdate s \<noteq> [] \<and>
    GetUpdatingComponents w' = s_canUpdate s \<and> GetUpdateState w' = UpdateStateNone \<and>
    (err = None \<longrightarrow> w_saved w' = w_saved w @ [w_object w'])"
proof -
  have "cluster_step (GetClusterState w) ClusterStateUpdating"
    using sync_state_good[OF assms(1-3)] assms(4,5) by (auto simp: good_step_def)
  then have rs: "GetClusterState w \<in> ready_states" by (cases "GetClusterState w") (auto simp: ready_states_def)
  then have sr: "sync_ready E cm w = (w', result, err)" using assms(3) by (auto simp: sync_state_def ready_states_def)
  obtain w1 b1 where s1: "SyncObservedGeneration E w = (w1, b1)" by fastforce
  obtain w2 b2 where s2: "SetBlockedComponents (s_cannotUpdate s) w1 = (w2, b2)" by fastforce
  obtain w3 b3 where s3: "choose_state E s w2 (if b2 then True else b1) = (w3, b3)" by fastforce
  note f1 = SyncObservedGeneration_frame[OF s1] and f2 = SetBlockedComponents_frame[OF s2]
  have sv: "w_saved w3 = w_saved w"
    using saved_SyncObservedGeneration[OF s1] saved_SetBlockedComponents[OF s2] saved_choose_state[OF s3] by simp
  have frame: "s_allReady s = s_allReady (cm_status cm)" "s_allRunning s = s_allRunning (cm_status cm)"
    by (simp_all add: s_def applyUpdatePlan_def split: prod.splits)
  have cl: "GetClusterState w3 = ClusterStateUpdating"
  proof (rule ccontr)
    assume n: "GetClusterState w3 \<noteq> ClusterStateUpdating"
    have "w' = fst (UpdateStatus E w3) \<or> w' = w3 \<or> (\<exists>r e. cm_Sync E (cm\<lparr>cm_status := s\<rparr>) w3 = (w', r, e))"
      using sr unfolding sync_ready_def Let_def s_def[symmetric] s1 s2 s3 prod.case by (auto split: prod.splits if_splits)
    then show False using n assms(5) good_step_cm_Sync[OF assms(1), of "cm\<lparr>cm_status := s\<rparr>" w3] assms(2) by auto
  qed
  then have C: "\<not> s_allReady s \<and> s_allRunning s \<and> IsStatusConditionTrue E ConditionUpdateIsPossible w2 \<and> s_canUpdate s \<noteq> [] \<and>
      b3 \<and> GetUpdateState w3 = UpdateStateNone \<and> GetUpdatingComponents w3 = s_canUpdate s"
    using choose_state_updating[OF s3] rs f1(1) f2(1) by (auto simp: ready_states_def)
  then have w': "w' = fst (UpdateStatus E w3)" "err = snd (UpdateStatus E w3)"
    using sr unfolding sync_ready_def Let_def s_def[symmetric] s1 s2 s3 prod.case by (auto split: prod.splits)
  have "status_of_cond w ConditionUpdateIsPossible = Some ConditionTrue"
    using C by (simp add: IsStatusCondition_iff(1)[OF assms(1)] f1(6)[OF assms(1)] f2(5))
  then show ?thesis using C rs w' sv frame by (auto simp: UpdateStatus_saved GetUpdatingComponents_def)
qed


section \<open>Instances\<close>

fun kind_type :: "component_kind \<Rightarrow> component_type" where
  "kind_type (SecondaryMasterK _) = MasterType"
| "kind_type (PrimaryMasterK _) = MasterType"
| "kind_type (HTTPProxyK _) = HttpProxyType"
| "kind_type (DataNodeK _) = DataNodeType"
| "kind_type (TabletNodeK _ _) = TabletNodeType"
| "kind_type YtsaurusClientK = YtsaurusClientType"
| "kind_type _ = DiscoveryType"

definition ready_factory :: "'x component_factory" where
  "ready_factory = \<lparr>cf_build = (\<lambda>i k. const_component i (kind_type k) '''' SyncStatusReady),
     cf_heaterStatus = (\<lambda>_ _. ComponentStatusReady)\<rparr>"

lemma ready_factory_well_behaved: "well_behaved (cf_build ready_factory i k)"
  by (simp add: ready_factory_def)

abbreviation sample_created :: comps where
  "sample_created \<equiv> sample_world ClusterStateCreated empty_update_status []"

lemma sample_Sync_total: "\<exists>w' r e. Sync sample_env ready_factory ''cluster.local'' sample_created = Some (w', r, e)"
proof -
  have "\<exists>cm. NewComponentManager (ready_factory :: unit component_factory) (reset_components sample_created) ''cluster.local'' = Some (Inr cm)"
    by (simp add: NewComponentManager_def component_kinds_def Let_def sample_world_def sample_object_def sample_spec_def)
  then show ?thesis by (auto simp: Sync_def Let_def split: prod.splits option.splits) (metis prod_cases3)+
qed

lemma sample_created_state [simp]: "GetClusterState sample_created = ClusterStateCreated"
  by (simp add: GetClusterState_def sample_world_def sample_object_def)

theorem reconcile_follows_state_machine_witness:
  "\<exists>w' r e. Sync sample_env ready_factory ''cluster.local'' sample_created = Some (w', r, e) \<and>
     (GetClusterState w' = ClusterStateCreated \<or> GetClusterState w' = ClusterStateInitializing)"
proof -
  obtain w' r e where s: "Sync sample_env ready_factory ''cluster.local'' sample_created = Some (w', r, e)"
    using sample_Sync_total by blast
  from reconcile_follows_state_machine[OF meta_laws_sample_env ready_factory_well_behaved s] s show ?thesis by simp
qed

theorem reconcile_saves_at_most_once_witness:
  "\<exists>w' r e. Sync sample_env ready_factory ''cluster.local'' sample_created = Some (w', r, e) \<and> length (w_saved w') \<le> 1"
proof -
  obtain w' r e where s: "Sync sample_env ready_factory ''cluster.local'' sample_created = Some (w', r, e)"
    using sample_Sync_total by blast
  have "w_saved sample_created = []" by (simp add: sample_world_def)
  with reconcile_saves_at_most_once[OF meta_laws_sample_env ready_factory_well_behaved s] s show ?thesis by auto
qed

abbreviation sample_new :: comps where
  "sample_new \<equiv> sample_world ClusterStateEmpty empty_update_status []"

theorem ready_condition_matches_state_witness:
  "status_of_cond sample_new ConditionReadyToWork \<noteq> Some ConditionTrue"
proof -
  have "reachable ready_factory ''cluster.local'' sample_new"
    by (rule reachable.created) (simp_all add: GetClusterState_def GetStatusConditions_def sample_world_def
        sample_object_def empty_update_status_def)
  from ready_condition_matches_state[OF ready_factory_well_behaved this] show ?thesis
    by (simp add: GetClusterState_def sample_world_def sample_object_def)
qed


definition update_world :: comps where
  "update_world = (let w = sample_world ClusterStateRunning empty_update_status
       [mkcond ConditionUpdateIsPossible ConditionTrue ''OK'' '''']
     in w\<lparr>w_object := (w_object w)\<lparr>yt_Spec := sample_spec\<lparr>sp_UpdatePlan :=
          [zero_selector\<lparr>sel_Class := ComponentClassEverything\<rparr>]\<rparr>\<rparr>\<rparr>)"

definition update_manager :: "'x component_manager" where
  "update_manager = sample_manager (zero_cm_status\<lparr>s_allRunning := True, s_needUpdate := [\<lparr>ref_type = MasterType, ref_name = ''''\<rparr>]\<rparr>)"

theorem update_starts_only_when_possible_witness:
  "\<exists>w' r e. sync_state sample_env update_manager update_world = (w', r, e) \<and> GetClusterState w' = ClusterStateUpdating \<and>
     GetUpdatingComponents w' = [\<lparr>ref_type = MasterType, ref_name = ''''\<rparr>]"
proof -
  let ?m = "\<lparr>ref_type = MasterType, ref_name = ''''\<rparr>"
  let ?cm = "update_manager :: unit component_manager"
  let ?s = "applyUpdatePlan (GetUpdatePlan (w_object update_world)) (cm_status ?cm)"
  have st: "GetClusterState update_world = ClusterStateRunning"
    by (simp add: update_world_def Let_def GetClusterState_def sample_world_def sample_object_def)
  have s: "s_allReady ?s = False" "s_allRunning ?s" "s_needUpdate ?s = [?m]" "s_canUpdate ?s = [?m]" "s_cannotUpdate ?s = []"
    by (simp_all add: applyUpdatePlan_def update_manager_def zero_cm_status_def GetUpdatePlan_def update_world_def Let_def
        sample_world_def sample_object_def sample_spec_def zero_selector_def canUpdateComponent_def)
  have poss: "status_of_cond update_world ConditionUpdateIsPossible = Some ConditionTrue"
    by (simp add: status_of_cond_def update_world_def Let_def sample_world_def sample_object_def GetStatusConditions_def
        cond_find_def mkcond_def)
  obtain w1 b1 where s1: "SyncObservedGeneration sample_env update_world = (w1, b1)" by fastforce
  obtain w2 b2 where s2: "SetBlockedComponents (s_cannotUpdate ?s) w1 = (w2, b2)" by fastforce
  note f1 = SyncObservedGeneration_frame[OF s1] and f2 = SetBlockedComponents_frame[OF s2]
  have "IsStatusConditionTrue sample_env ConditionUpdateIsPossible w2"
    using poss by (simp add: IsStatusCondition_iff(1)[OF meta_laws_sample_env] f1(6)[OF meta_laws_sample_env] f2(5))
  then obtain w3 where s3: "choose_state sample_env ?s w2 (if b2 then True else b1) = (w3, True)" "GetClusterState w3 = ClusterStateUpdating"
    by (simp add: choose_state_def s initUpdateConditions_frame)
  obtain w' e where up: "UpdateStatus sample_env w3 = (w', e)" by fastforce
  have "sync_ready sample_env ?cm update_world = (w', requeue_result, e)"
    unfolding sync_ready_def Let_def s1 s2 s3 prod.case up by simp
  then have sy: "sync_state sample_env ?cm update_world = (w', requeue_result, e)" by (simp add: sync_state_def st)
  have cl: "GetClusterState w' = ClusterStateUpdating" using s3(2) GetClusterState_simps(6)[of sample_env w3] by (simp add: up)
  have wb: "list_all well_behaved (cm_allComponents ?cm)" by (simp add: update_manager_def)
  from update_starts_only_when_possible[OF meta_laws_sample_env wb sy _ cl] st s(4) sy cl show ?thesis by auto
qed

end
