(* ===== verification/Actions.thy ===== *)
theory Actions
  imports Component "HOL-Library.State_Monad"
begin

text \<open>
  Component code as state-passing actions.  A method of a component threads the state of the
  operator through many calls, so it is written in the state monad; Go's multiple results are
  tuples, and an early \<open>return\<close> is an optional result (\<open>or_else\<close>).

  \<open>quiet\<close> is the contract every component owes the controller (\<open>keeps\<close>), lifted to actions; its
  introduction rules are collected in \<open>kept_intros\<close>.
\<close>

type_synonym ('x, 'a) act = "('x comps_scheme, 'a) state"

abbreviation (input) ret :: "'a \<Rightarrow> ('s, 'a) state" where
  "ret \<equiv> State_Monad.return"

definition reads :: "('s \<Rightarrow> 'a) \<Rightarrow> ('s, 'a) state" where
  "reads f = State (\<lambda>w. (f w, w))"

definition modifies :: "('s \<Rightarrow> 's) \<Rightarrow> ('s, unit) state" where
  "modifies f = State (\<lambda>w. ((), f w))"

text \<open>An action whose optional result, when there is one, is the result of the caller.\<close>

definition or_else :: "('s, 'a option) state \<Rightarrow> ('s, 'a) state \<Rightarrow> ('s, 'a) state" where
  "or_else m k = do { r \<leftarrow> m; case r of Some x \<Rightarrow> ret x | None \<Rightarrow> k }"

definition when_do :: "bool \<Rightarrow> ('s, go_error) state \<Rightarrow> ('s, go_error) state" where
  "when_do b m = (if b then m else ret None)"

lemma run_reads [simp]: "run_state (reads f) w = (f w, w)"
  by (simp add: reads_def)

lemma run_modifies [simp]: "run_state (modifies f) w = ((), f w)"
  by (simp add: modifies_def)

lemma run_or_else:
  "run_state (or_else m k) w =
    (case run_state m w of (Some x, w') \<Rightarrow> (x, w') | (None, w') \<Rightarrow> run_state k w')"
  by (auto simp: or_else_def split: prod.splits option.splits)

lemma run_when_do [simp]: "run_state (when_do b m) w = (if b then run_state m w else (None, w))"
  by (simp add: when_do_def)

section \<open>Relations kept by an action\<close>

text \<open>
  \<open>kept R m\<close>: the states before and after \<open>m\<close> are related by \<open>R\<close>.  For a preorder this is
  compositional.
\<close>

named_theorems kept_intros \<open>composition rules for \<open>kept\<close>\<close>

definition preord :: "('s \<Rightarrow> 's \<Rightarrow> bool) \<Rightarrow> bool" where
  "preord R \<longleftrightarrow> reflp R \<and> transp R"

definition kept :: "('s \<Rightarrow> 's \<Rightarrow> bool) \<Rightarrow> ('s, 'a) state \<Rightarrow> bool" where
  "kept R m \<longleftrightarrow> state_io_rel R m"

lemma keptI: "(\<And>w. R w (snd (run_state m w))) \<Longrightarrow> kept R m"
  by (simp add: kept_def state_io_rel_def)

lemma keptD: "kept R m \<Longrightarrow> R w (snd (run_state m w))"
  by (simp add: kept_def state_io_rel_def)

lemma keptD_eq: "kept R m \<Longrightarrow> run_state m w = (x, w') \<Longrightarrow> R w w'"
  using keptD[of R m w] by simp

lemma preordD: "preord R \<Longrightarrow> R w w" "preord R \<Longrightarrow> R u v \<Longrightarrow> R v w \<Longrightarrow> R u w"
  by (auto simp: preord_def dest: reflpD transpD)

lemma kept_bind [kept_intros]:
  assumes "preord R" "kept R m" "\<And>x. kept R (f x)" shows "kept R (State_Monad.bind m f)"
proof (rule keptI)
  fix w obtain x v where m: "run_state m w = (x, v)" by fastforce
  from preordD(2)[OF assms(1) keptD_eq[OF assms(2) m] keptD[OF assms(3)]] m
  show "R w (snd (run_state (State_Monad.bind m f) w))" by simp
qed

lemma kept_return [kept_intros]: "preord R \<Longrightarrow> kept R (ret x)"
  by (rule keptI) (simp add: preordD)

lemma kept_reads [kept_intros]: "preord R \<Longrightarrow> kept R (reads f)"
  by (rule keptI) (simp add: preordD)

lemma kept_modifies: "(\<And>w. R w (f w)) \<Longrightarrow> kept R (modifies f)"
  by (rule keptI) simp

lemma kept_if [kept_intros]: "(b \<Longrightarrow> kept R m) \<Longrightarrow> (\<not> b \<Longrightarrow> kept R n) \<Longrightarrow> kept R (if b then m else n)"
  by simp

lemma kept_option [kept_intros]:
  "kept R n \<Longrightarrow> (\<And>x. kept R (f x)) \<Longrightarrow> kept R (case v of None \<Rightarrow> n | Some x \<Rightarrow> f x)"
  by (cases v) simp_all

lemma kept_sum [kept_intros]:
  "(\<And>x. kept R (f x)) \<Longrightarrow> (\<And>y. kept R (g y)) \<Longrightarrow> kept R (case v of Inl x \<Rightarrow> f x | Inr y \<Rightarrow> g y)"
  by (cases v) simp_all

lemma kept_prod [kept_intros]: "(\<And>x y. kept R (f x y)) \<Longrightarrow> kept R (case v of (x, y) \<Rightarrow> f x y)"
  by (cases v) simp

lemma kept_list [kept_intros]:
  "kept R n \<Longrightarrow> (\<And>x xs. kept R (f x xs)) \<Longrightarrow> kept R (case v of [] \<Rightarrow> n | x # xs \<Rightarrow> f x xs)"
  by (cases v) simp_all

lemma kept_Let [kept_intros]: "kept R (f v) \<Longrightarrow> kept R (let x = v in f x)"
  by simp

lemma kept_or_else [kept_intros]: "preord R \<Longrightarrow> kept R m \<Longrightarrow> kept R k \<Longrightarrow> kept R (or_else m k)"
  unfolding or_else_def by (intro kept_intros)

lemma kept_when_do [kept_intros]: "preord R \<Longrightarrow> (b \<Longrightarrow> kept R m) \<Longrightarrow> kept R (when_do b m)"
  by (simp add: when_do_def kept_return)

text \<open>The contract of a component, for actions.\<close>

abbreviation quiet :: "('x, 'a) act \<Rightarrow> bool" where
  "quiet \<equiv> kept keeps"

lemma preord_keeps [kept_intros]: "preord keeps"
  by (auto simp: preord_def reflp_def transp_def intro: keeps_trans)

section \<open>Operations of the proxy as actions\<close>

lemma keeps_map_update_status:
  assumes "\<And>u. us_State (f u) = us_State u" "\<And>u. us_UpdatingComponents (f u) = us_UpdatingComponents u"
    "\<And>u. us_BlockedComponentsSummary (f u) = us_BlockedComponentsSummary u"
    "\<And>u. cond_wf (us_Conditions u) \<Longrightarrow> cond_wf (us_Conditions (f u))"
  shows "keeps w (map_update_status f w)"
  using assms
  by (auto simp: keeps_def same_control_def GetClusterState_def GetUpdateState_def
      GetUpdatingComponents_def conds_wf_def status_of_cond_def GetStatusConditions_def
      map_update_status_def map_status_def)

definition set_update_condition :: "'e env_scheme \<Rightarrow> string \<Rightarrow> condition_status \<Rightarrow> string \<Rightarrow> string \<Rightarrow> ('x, unit) act" where
  "set_update_condition E type status reason message =
    modifies (SetUpdateStatusCondition E (mkcond type status reason message))"

definition set_status_condition :: "'e env_scheme \<Rightarrow> string \<Rightarrow> condition_status \<Rightarrow> string \<Rightarrow> string \<Rightarrow> ('x, unit) act" where
  "set_status_condition E type status reason message =
    modifies (SetStatusCondition E (mkcond type status reason message))"

definition record_normal :: "string \<Rightarrow> string \<Rightarrow> ('x, unit) act" where
  "record_normal reason message = modifies (RecordNormal reason message)"

definition record_warning :: "string \<Rightarrow> string \<Rightarrow> ('x, unit) act" where
  "record_warning reason message = modifies (RecordWarning reason message)"

lemma run_proxy_actions [simp]:
  "run_state (set_update_condition E t s r m) w = ((), SetUpdateStatusCondition E (mkcond t s r m) w)"
  "run_state (set_status_condition E t s r m) w = ((), SetStatusCondition E (mkcond t s r m) w)"
  "run_state (record_normal r m) w = ((), RecordNormal r m w)"
  "run_state (record_warning r m) w = ((), RecordWarning r m w)"
  by (simp_all add: set_update_condition_def set_status_condition_def record_normal_def record_warning_def)

lemma keeps_SetUpdateStatusCondition: "meta_laws E \<Longrightarrow> keeps w (SetUpdateStatusCondition E c w)"
  unfolding SetUpdateStatusCondition_def by (rule keeps_map_update_status) (simp_all add: meta_set_wf)

lemma keeps_SetStatusCondition:
  "meta_laws E \<Longrightarrow> c_Type c \<noteq> ''ReadyToWork'' \<Longrightarrow> keeps w (SetStatusCondition E c w)"
  by (simp add: keeps_def same_control_SetStatusCondition) (simp add: SetStatusCondition_def Let_def)

lemma quiet_set_update_condition [kept_intros]: "meta_laws E \<Longrightarrow> quiet (set_update_condition E t s r m)"
  unfolding set_update_condition_def by (intro kept_modifies keeps_SetUpdateStatusCondition)

lemma quiet_set_status_condition [kept_intros]:
  "meta_laws E \<Longrightarrow> t \<noteq> ''ReadyToWork'' \<Longrightarrow> quiet (set_status_condition E t s r m)"
  unfolding set_status_condition_def by (intro kept_modifies keeps_SetStatusCondition) simp_all

lemma quiet_record [kept_intros]: "quiet (record_normal r m)" "quiet (record_warning r m)"
  unfolding record_normal_def record_warning_def
  by (intro kept_modifies, simp add: keeps_def same_control_def GetUpdateState_def GetUpdatingComponents_def
      GetClusterState_def conds_wf_def status_of_cond_def RecordNormal_def RecordWarning_def)+

end
