(* ===== verification/Pods.thy ===== *)
theory Pods
  imports Component
begin

text \<open>
  Pods and instance counts: the counting and classification of pods of
  \<open>pkg/components/pods_manager.go\<close>, and the arithmetic of \<open>pkg/components/server.go\<close> on instance
  counts, update completion and rolling updates.
\<close>

section \<open>Pods\<close>

record container_status =
  ct_Name :: string
  ct_Started :: "bool option"
  ct_Running :: bool
  ct_Ready :: bool

text \<open>
  \<open>p_DeletionTimestamp\<close> is \<open>None\<close> for a nil or zero time; \<open>p_Conditions\<close> holds types and statuses.
\<close>

record pod =
  p_Name :: string
  p_Labels :: "string \<rightharpoonup> string"
  p_DeletionTimestamp :: "int option"
  p_Containers :: "string list"
  p_Conditions :: "(string \<times> condition_status) list"
  p_ContainerStatuses :: "container_status list"

abbreviation "PodScheduled \<equiv> ''PodScheduled''"
abbreviation "PodReady \<equiv> ''Ready''"
abbreviation "StatefulSetRevisionLabel \<equiv> ''controller-revision-hash''"

definition podConditionIsTrue :: "pod \<Rightarrow> string \<Rightarrow> bool" where
  "podConditionIsTrue pod conditionType =
    list_ex (\<lambda>(t, s). t = conditionType \<and> s = ConditionTrue) (p_Conditions pod)"

definition podIsTerminating :: "pod \<Rightarrow> bool" where
  "podIsTerminating pod \<longleftrightarrow> p_DeletionTimestamp pod \<noteq> None"

definition podIsScheduled :: "pod \<Rightarrow> bool" where
  "podIsScheduled pod = podConditionIsTrue pod PodScheduled"

definition podContainerIsRunning :: "pod \<Rightarrow> string \<Rightarrow> bool" where
  "podContainerIsRunning pod name =
    list_ex (\<lambda>s. ct_Name s = name \<and> ptr_deref (ct_Started s) False \<and> ct_Running s) (p_ContainerStatuses pod)"

definition podContainerIsReady :: "pod \<Rightarrow> string \<Rightarrow> bool" where
  "podContainerIsReady pod name =
    list_ex (\<lambda>s. ct_Name s = name \<and> ct_Ready s) (p_ContainerStatuses pod)"

definition podContainerNames :: "pod \<Rightarrow> string list \<Rightarrow> string list" where
  "podContainerNames pod names = (if names = [] then p_Containers pod else names)"

record pod_counts =
  n_pending :: int
  n_scheduled :: int
  n_running :: int
  n_ready :: int
  n_terminating :: int

definition inc32 :: "int \<Rightarrow> int" where
  "inc32 n = wrap32 (n + 1)"

definition count_pod :: "string list \<Rightarrow> pod \<Rightarrow> pod_counts \<Rightarrow> pod_counts" where
  "count_pod containerNames pod n =
    (if podIsTerminating pod then n\<lparr>n_terminating := inc32 (n_terminating n)\<rparr>
     else if \<not> podIsScheduled pod then n\<lparr>n_pending := inc32 (n_pending n)\<rparr>
     else
       let n1 = n\<lparr>n_scheduled := inc32 (n_scheduled n)\<rparr>;
           names = podContainerNames pod containerNames;
           containersAreRunning = list_all (podContainerIsRunning pod) names;
           containersAreReady = list_all (podContainerIsReady pod) names;
           n2 = (if containersAreRunning then n1\<lparr>n_running := inc32 (n_running n1)\<rparr> else n1)
       in if containersAreReady then n2\<lparr>n_ready := inc32 (n_ready n2)\<rparr> else n2)"

definition countPods :: "pod list \<Rightarrow> string list \<Rightarrow> pod_counts" where
  "countPods pods containerNames =
    fold (count_pod containerNames) pods
      \<lparr>n_pending = 0, n_scheduled = 0, n_running = 0, n_ready = 0, n_terminating = 0\<rparr>"

text \<open>The classification of \<open>arePodsReady\<close>, after the pods have been listed.\<close>

definition pods_status :: "pod list \<Rightarrow> string list \<Rightarrow> int \<Rightarrow> int \<Rightarrow> component_status" where
  "pods_status pods containerNames instanceCount minReadyCount =
    (let n = countPods pods containerNames; len = int (length pods)
     in if len > instanceCount then
          ComponentStatusBlocked (''Too many pods: '' @ show_int len @ '' of '' @ show_int instanceCount @
            '', running '' @ show_int (n_running n) @ '', terminating '' @ show_int (n_terminating n))
        else if n_running n < minReadyCount then
          ComponentStatusBlocked (''Not enough running pods: '' @ show_int (n_running n) @ '' of '' @
            show_int instanceCount @ '', pending '' @ show_int (n_pending n) @ '', scheduled '' @
            show_int (n_scheduled n) @ '', need '' @ show_int minReadyCount)
        else if n_ready n < minReadyCount then
          ComponentStatusStarted (''Not enough ready pods: '' @ show_int (n_ready n) @ '' of '' @
            show_int instanceCount @ '', running '' @ show_int (n_running n) @ '', need '' @
            show_int minReadyCount)
        else
          ComponentStatusReadyAfter (''Pods are ready: '' @ show_int (n_ready n) @ '' of '' @
            show_int instanceCount @ '', running '' @ show_int (n_running n) @ '', need '' @
            show_int minReadyCount))"

section \<open>Instance counts\<close>

text \<open>Lines 162 to 183 of \<open>server.go\<close>: the instance count under cluster maintenance.\<close>

definition maintenance_instance_count ::
  "cluster_maintenance option \<Rightarrow> component_type \<Rightarrow> int \<Rightarrow> int" where
  "maintenance_instance_count clusterMaintenance componentType instanceCount =
    (case clusterMaintenance of
       None \<Rightarrow> instanceCount
     | Some maintenance \<Rightarrow>
         (case cmt_Shutdown maintenance of
            ClusterShutdownCompute \<Rightarrow>
              if componentType \<in> {ExecNodeType, YqlAgentType} then 0 else instanceCount
          | ClusterShutdownEverything \<Rightarrow> 0
          | ClusterShutdownExceptMasters \<Rightarrow> if componentType \<noteq> MasterType then 0 else instanceCount
          | ClusterShutdownTablets \<Rightarrow> if componentType = TabletNodeType then 0 else instanceCount
          | _ \<Rightarrow> instanceCount))"

definition min_ready_count :: "int option \<Rightarrow> int \<Rightarrow> int \<Rightarrow> int" where
  "min_ready_count minReadyInstanceCount instanceCount margin =
    (let bound = max (wrap32 (instanceCount - margin)) 0
     in min (ptr_deref minReadyInstanceCount bound) bound)"

section \<open>Completion of an OnDelete update\<close>

definition pod_revision :: "pod \<Rightarrow> string" where
  "pod_revision pod = ptr_deref (p_Labels pod StatefulSetRevisionLabel) ''''"

definition quoted :: "string \<Rightarrow> string" where
  "quoted s = [CHR 0x22] @ s @ [CHR 0x22]"

fun on_delete_loop :: "pod list \<Rightarrow> string \<Rightarrow> int \<Rightarrow> string + int" where
  "on_delete_loop [] updateRevision readyCount = Inr readyCount"
| "on_delete_loop (pod # pods) updateRevision readyCount =
    (if pod_revision pod \<noteq> updateRevision then
       Inl (''pod '' @ p_Name pod @ '' not updated: revision '' @ quoted (pod_revision pod) @
            '' != updateRevision '' @ quoted updateRevision)
     else on_delete_loop pods updateRevision
       (if podIsScheduled pod \<and> podConditionIsTrue pod PodReady then inc32 readyCount else readyCount))"

definition evaluateOnDeleteCompletion :: "pod list \<Rightarrow> string \<Rightarrow> int \<Rightarrow> int \<Rightarrow> bool \<times> string" where
  "evaluateOnDeleteCompletion pods updateRevision replicas minReady =
    (if int (length pods) \<noteq> replicas then
       (False, ''pod count mismatch: expected '' @ show_int replicas @ '', got '' @ show_int (int (length pods)))
     else case on_delete_loop pods updateRevision 0 of
            Inl waitReason \<Rightarrow> (False, waitReason)
          | Inr readyCount \<Rightarrow>
              if readyCount < minReady then
                (False, ''not enough ready pods: '' @ show_int readyCount @ '' ready < minReady '' @
                        show_int minReady)
              else (True, ''''))"

section \<open>Rolling updates\<close>

record sts_rolling_status =
  rs_partition :: int
  rs_availableReplicas :: int
  rs_updatedReplicas :: int
  rs_totalCount :: int
  rs_updateRevision :: string
  rs_currentRevision :: string

definition IsFinished :: "sts_rolling_status \<Rightarrow> bool" where
  "IsFinished s \<longleftrightarrow> rs_partition s = 0 \<and> rs_updatedReplicas s = rs_totalCount s"

definition UnavailableReplicas :: "sts_rolling_status \<Rightarrow> int" where
  "UnavailableReplicas s = max 0 (wrap32 (rs_totalCount s - rs_availableReplicas s))"

definition InProgressReplicas :: "sts_rolling_status \<Rightarrow> int" where
  "InProgressReplicas s =
    max 0 (wrap32 (wrap32 (rs_totalCount s - rs_partition s) - rs_updatedReplicas s))"

definition UnavailableOrInProgressReplicas :: "sts_rolling_status \<Rightarrow> int" where
  "UnavailableOrInProgressReplicas s = max (UnavailableReplicas s) (InProgressReplicas s)"

section \<open>What counting pods gives\<close>

definition pod_is_running :: "string list \<Rightarrow> pod \<Rightarrow> bool" where
  "pod_is_running names pod \<longleftrightarrow> \<not> podIsTerminating pod \<and> podIsScheduled pod \<and>
    list_all (podContainerIsRunning pod) (podContainerNames pod names)"

definition pod_is_ready :: "string list \<Rightarrow> pod \<Rightarrow> bool" where
  "pod_is_ready names pod \<longleftrightarrow> \<not> podIsTerminating pod \<and> podIsScheduled pod \<and>
    list_all (podContainerIsReady pod) (podContainerNames pod names)"

definition filter_count :: "('a \<Rightarrow> bool) \<Rightarrow> 'a list \<Rightarrow> int" where
  "filter_count P xs = int (length (filter P xs))"

lemma filter_count_simps [simp]:
  "filter_count P [] = 0"
  "filter_count P (x # xs) = (if P x then 1 else 0) + filter_count P xs"
  by (simp_all add: filter_count_def)

lemma filter_count_bounds: "0 \<le> filter_count P xs \<and> filter_count P xs \<le> int (length xs)"
  by (simp add: filter_count_def)

text \<open>Counting from \<open>a\<close> the elements that satisfy \<open>P\<close> does not wrap around in a list this short.\<close>

lemma inc32_id: "0 \<le> a \<Longrightarrow> a + 1 < 2 ^ 31 \<Longrightarrow> inc32 a = a + 1"
  by (simp add: inc32_def int32_def)

lemma fold_inc32:
  assumes "\<And>x n. x \<in> set xs \<Longrightarrow> f (g x n) = (if P x then inc32 (f n) else f n)"
    and "0 \<le> f n" "f n + int (length xs) < 2 ^ 31"
  shows "f (fold g xs n) = f n + filter_count P xs"
  using assms
proof (induction xs arbitrary: n)
  case (Cons x xs)
  have step: "f (g x n) = f n + (if P x then 1 else 0)"
    using Cons.prems by (simp add: inc32_id)
  have "f (fold g xs (g x n)) = f (g x n) + filter_count P xs"
    using Cons.prems step by (intro Cons.IH) auto
  then show ?case using step by simp
qed simp

lemma count_pod_fields:
  "n_terminating (count_pod ns p n) = (if podIsTerminating p then inc32 (n_terminating n) else n_terminating n)"
  "n_pending (count_pod ns p n) =
     (if \<not> podIsTerminating p \<and> \<not> podIsScheduled p then inc32 (n_pending n) else n_pending n)"
  "n_scheduled (count_pod ns p n) =
     (if \<not> podIsTerminating p \<and> podIsScheduled p then inc32 (n_scheduled n) else n_scheduled n)"
  "n_running (count_pod ns p n) = (if pod_is_running ns p then inc32 (n_running n) else n_running n)"
  "n_ready (count_pod ns p n) = (if pod_is_ready ns p then inc32 (n_ready n) else n_ready n)"
  by (simp_all add: count_pod_def Let_def pod_is_running_def pod_is_ready_def)

lemma countPods_counts:
  assumes "int (length pods) < 2 ^ 31"
  shows "n_terminating (countPods pods ns) = filter_count podIsTerminating pods"
    and "n_pending (countPods pods ns) = filter_count (\<lambda>p. \<not> podIsTerminating p \<and> \<not> podIsScheduled p) pods"
    and "n_scheduled (countPods pods ns) = filter_count (\<lambda>p. \<not> podIsTerminating p \<and> podIsScheduled p) pods"
    and "n_running (countPods pods ns) = filter_count (pod_is_running ns) pods"
    and "n_ready (countPods pods ns) = filter_count (pod_is_ready ns) pods"
  using assms unfolding countPods_def
  by (simp_all add: fold_inc32[where f = n_terminating, OF count_pod_fields(1)]
      fold_inc32[where f = n_pending, OF count_pod_fields(2)]
      fold_inc32[where f = n_scheduled, OF count_pod_fields(3)]
      fold_inc32[where f = n_running, OF count_pod_fields(4)]
      fold_inc32[where f = n_ready, OF count_pod_fields(5)])

lemma filter_count_split:
  "(\<And>x. x \<in> set xs \<Longrightarrow> P x \<longleftrightarrow> \<not> Q x) \<Longrightarrow> filter_count P xs + filter_count Q xs = int (length xs)"
  by (induction xs) auto

lemma filter_count_mono: "(\<And>x. x \<in> set xs \<Longrightarrow> P x \<Longrightarrow> Q x) \<Longrightarrow> filter_count P xs \<le> filter_count Q xs"
  by (induction xs) auto

text \<open>
  The readiness of the pods of a component is decided by exact counts: every pod is counted
  once as terminating, pending or scheduled, and the component is ready exactly when there are no
  more pods than instances and at least the required number of pods have all their containers both
  running and ready.  A component whose pods run but are not ready yet is started, and every other
  shortage or surplus of pods blocks it.  Below two to the 31st pods no counter wraps around.
\<close>

theorem pods_status_exact:
  assumes "int (length pods) < 2 ^ 31"
  shows "(let n = countPods pods names; st = cs_SyncStatus (pods_status pods names instanceCount minReady);
              running = filter_count (pod_is_running names) pods; ready = filter_count (pod_is_ready names) pods
          in n_terminating n + n_pending n + n_scheduled n = int (length pods) \<and>
             (st = SyncStatusReady \<longleftrightarrow>
                int (length pods) \<le> instanceCount \<and> minReady \<le> running \<and> minReady \<le> ready) \<and>
             (st = SyncStatusStarted \<longleftrightarrow>
                int (length pods) \<le> instanceCount \<and> minReady \<le> running \<and> ready < minReady) \<and>
             (st = SyncStatusBlocked \<longleftrightarrow> instanceCount < int (length pods) \<or> running < minReady))"
proof -
  have split: "filter_count podIsTerminating pods + filter_count (\<lambda>p. \<not> podIsTerminating p) pods = int (length pods)"
    by (rule filter_count_split) simp
  have "filter_count (\<lambda>p. \<not> podIsTerminating p \<and> \<not> podIsScheduled p) ps +
      filter_count (\<lambda>p. \<not> podIsTerminating p \<and> podIsScheduled p) ps = filter_count (\<lambda>p. \<not> podIsTerminating p) ps" for ps
    by (induction ps) auto
  from this[of pods] split show ?thesis
    by (auto simp: Let_def countPods_counts[OF assms(1)] pods_status_def)
qed


lemma on_delete_loop_all:
  "(\<exists>n. on_delete_loop pods rev0 k = Inr n) \<longleftrightarrow> (\<forall>p \<in> set pods. pod_revision p = rev0)"
  by (induction pods arbitrary: k) auto

lemma on_delete_loop_count:
  assumes "0 \<le> k" "k + int (length pods) < 2 ^ 31" "on_delete_loop pods rev0 k = Inr n"
  shows "n = k + filter_count (\<lambda>p. podIsScheduled p \<and> podConditionIsTrue p PodReady) pods"
  using assms
proof (induction pods arbitrary: k)
  case (Cons p pods)
  define k' where "k' = (if podIsScheduled p \<and> podConditionIsTrue p PodReady then k + 1 else k)"
  have "on_delete_loop pods rev0 k' = Inr n"
    using Cons.prems by (auto simp: k'_def inc32_id split: if_splits)
  from Cons.IH[OF _ _ this] Cons.prems show ?case by (auto simp: k'_def split: if_splits)
qed simp

text \<open>
  An OnDelete update is complete exactly when there is one pod per replica, every pod has been
  recreated at the new revision, and enough pods are scheduled and ready; in every other case a
  reason to wait is given.
\<close>

theorem on_delete_completion_iff:
  assumes "int (length pods) < 2 ^ 31"
  shows "(fst (evaluateOnDeleteCompletion pods updateRevision replicas minReady) \<longleftrightarrow>
      int (length pods) = replicas \<and> list_all (\<lambda>p. pod_revision p = updateRevision) pods \<and>
      minReady \<le> filter_count (\<lambda>p. podIsScheduled p \<and> podConditionIsTrue p PodReady) pods) \<and>
    (fst (evaluateOnDeleteCompletion pods updateRevision replicas minReady) \<longleftrightarrow>
      snd (evaluateOnDeleteCompletion pods updateRevision replicas minReady) = '''')"
proof -
  note all = on_delete_loop_all[of pods updateRevision 0] and cnt = on_delete_loop_count[of 0 pods updateRevision]
  have "on_delete_loop ps u k \<noteq> Inl ''''" for ps u k
    by (induction ps u k rule: on_delete_loop.induct) auto
  then show ?thesis using assms all cnt
    by (cases "on_delete_loop pods updateRevision 0") (auto simp: evaluateOnDeleteCompletion_def list_all_iff)
qed

section \<open>Witnesses\<close>

definition sample_pod :: "string \<Rightarrow> bool \<Rightarrow> pod" where
  "sample_pod name ready =
    \<lparr>p_Name = name, p_Labels = [StatefulSetRevisionLabel \<mapsto> ''r2''], p_DeletionTimestamp = None,
     p_Containers = [''ytserver''],
     p_Conditions = [(PodScheduled, ConditionTrue), (PodReady, if ready then ConditionTrue else ConditionFalse)],
     p_ContainerStatuses = [\<lparr>ct_Name = ''ytserver'', ct_Started = Some True, ct_Running = True, ct_Ready = ready\<rparr>]\<rparr>"

theorem pods_status_exact_witness:
  "cs_SyncStatus (pods_status [sample_pod ''a'' True, sample_pod ''b'' False] [] 3 2) = SyncStatusStarted"
  using pods_status_exact[of "[sample_pod ''a'' True, sample_pod ''b'' False]" "[]" 3 2]
  by (simp add: Let_def pod_is_running_def pod_is_ready_def sample_pod_def podIsTerminating_def podIsScheduled_def
      podConditionIsTrue_def podContainerNames_def podContainerIsRunning_def podContainerIsReady_def)


theorem on_delete_completion_iff_witness:
  "fst (evaluateOnDeleteCompletion [sample_pod ''a'' True, sample_pod ''b'' False] ''r2'' 2 1)"
  using on_delete_completion_iff[of "[sample_pod ''a'' True, sample_pod ''b'' False]" "''r2''" 2 1]
  by (simp add: sample_pod_def pod_revision_def podIsScheduled_def podConditionIsTrue_def)

end
