(* ===== verification/Server.thy ===== *)
theory Server
  imports Actions Pods
begin

text \<open>
  Servers and their updates: the interfaces \<open>podsManager\<close> and \<open>server\<close> of
  \<open>pkg/components/pods_manager.go\<close> and \<open>pkg/components/server.go\<close> as tables of methods, and the
  functions of \<open>pkg/components/helpers.go\<close> that drive a server through an update in each of the
  update strategies.

  The locale \<open>server_contract\<close> is what the components rely on: no method of a server decides about
  the cluster, and the reading methods keep a relation \<open>R\<close> of the owner's choice.
\<close>

section \<open>Interfaces\<close>

record 'x pods_manager =
  pm_getInstanceCount :: "'x comps_scheme \<Rightarrow> int"
  pm_getMinReadyInstanceCount :: "int \<Rightarrow> 'x comps_scheme \<Rightarrow> int"
  pm_listPods :: "('x, string + pod list) act"
  pm_removePods :: "('x, go_error) act"
  pm_podsImageCorrespondsToSpec :: "'x comps_scheme \<Rightarrow> bool"
  pm_arePodsUpdatedToNewRevision :: "('x, bool) act"

datatype sts_strategy_type = RollingUpdateStatefulSetStrategyType | OnDeleteStatefulSetStrategyType

record 'x server = "'x pods_manager" +
  srv_Fetch :: "('x, go_error) act"
  srv_Exists :: "'x comps_scheme \<Rightarrow> bool"
  srv_Sync :: "('x, go_error) act"
  srv_setUpdateStrategy :: "sts_strategy_type \<Rightarrow> int \<Rightarrow> int \<Rightarrow> ('x, unit) act"
  srv_getRollingUpdateStatus :: "('x, sts_rolling_status option \<times> go_error) act"
  srv_needUpdate :: "('x, component_status) act"
  srv_needSync :: "bool \<Rightarrow> ('x, bool) act"

section \<open>Pods of a component\<close>

definition arePodsReady ::
  "('x, 'z) pods_manager_scheme \<Rightarrow> string list \<Rightarrow> ('x, component_status \<times> go_error) act" where
  "arePodsReady manager containerNames = do {
     listed \<leftarrow> pm_listPods manager;
     case listed of
       Inl err \<Rightarrow> ret (ComponentStatusBlocked (''Cannot list pods: '' @ err), Some err)
     | Inr pods \<Rightarrow> do {
         instanceCount \<leftarrow> reads (pm_getInstanceCount manager);
         minReadyCount \<leftarrow> reads (pm_getMinReadyInstanceCount manager 0);
         ret (pods_status pods containerNames instanceCount minReadyCount, None)
       }
   }"

definition removePods ::
  "'e env_scheme \<Rightarrow> ('x, 'z) pods_manager_scheme \<Rightarrow> labeller \<Rightarrow> ('x, go_error) act" where
  "removePods E manager l = do {
     started \<leftarrow> reads (IsUpdateStatusConditionTrue E (GetPodsRemovingStartedCondition l));
     if \<not> started then do {
       removed \<leftarrow> pm_removePods manager;
       case removed of
         Some err \<Rightarrow> ret (Some err)
       | None \<Rightarrow> do {
           set_update_condition E (GetPodsRemovingStartedCondition l) ConditionTrue ''Update''
             ''Pods removing was started'';
           ret None
         }
     } else do {
       listed \<leftarrow> pm_listPods manager;
       case listed of
         Inl err \<Rightarrow> ret (Some err)
       | Inr pods \<Rightarrow>
           if pods = [] then do {
             set_update_condition E (GetPodsRemovedCondition l) ConditionTrue ''Update'' ''Pods removed'';
             ret None
           } else ret None
     }
   }"

section \<open>Update strategies\<close>

fun first_selector :: "(update_selector \<Rightarrow> bool) \<Rightarrow> update_selector list \<Rightarrow> update_selector option" where
  "first_selector P [] = None"
| "first_selector P (selector # plan) = (if P selector then Some selector else first_selector P plan)"

definition selects_component :: "component_type \<Rightarrow> string \<Rightarrow> update_selector \<Rightarrow> bool" where
  "selects_component componentType componentName selector \<longleftrightarrow>
    ref_type (sel_Component selector) = componentType \<and>
    (ref_name (sel_Component selector) = '''' \<or> ref_name (sel_Component selector) = componentName)"

definition doesComponentUseNewUpdateMode :: "component_type \<Rightarrow> string \<Rightarrow> 'x yts_scheme \<Rightarrow> bool" where
  "doesComponentUseNewUpdateMode componentType componentName w =
    (case first_selector (selects_component componentType componentName) (sp_UpdatePlan (yt_Spec (w_object w))) of
       Some selector \<Rightarrow> sel_Strategy selector \<noteq> None
     | None \<Rightarrow> False)"

definition getComponentUpdateStrategy :: "component_type \<Rightarrow> string \<Rightarrow> 'x yts_scheme \<Rightarrow> update_mode_type" where
  "getComponentUpdateStrategy componentType componentName w =
    GetUpdateStrategyType (first_selector
      (\<lambda>selector. selects_component componentType componentName selector \<and> sel_Strategy selector \<noteq> None)
      (sp_UpdatePlan (yt_Spec (w_object w))))"

section \<open>Updating a component\<close>

text \<open>
  The component is given by its labeller and its method \<open>UpdatePreCheck\<close>.  A handler returns the
  status the component has to report, or nothing when the component goes on by itself.
\<close>

type_synonym 'x handler = "('x, component_status option \<times> go_error) act"

definition runPrechecks :: "'e env_scheme \<Rightarrow> labeller \<Rightarrow> ('x, component_status) act \<Rightarrow> 'x handler" where
  "runPrechecks E l updatePreCheck = do {
     set_update_condition E (GetPreChecksRunningCondition l) ConditionTrue ''RunningPreChecks'' ''running pre-checks'';
     preCheckStatus \<leftarrow> updatePreCheck;
     if cs_SyncStatus preCheckStatus \<noteq> SyncStatusReady then do {
       let msg = (if cs_Message preCheckStatus = '''' then ''pre-checks failed'' else cs_Message preCheckStatus);
       set_update_condition E (GetReadyCondition l) ConditionFalse ''PreChecksFailed'' msg;
       ret (Some (ComponentStatusBlocked msg), None)
     } else do {
       set_update_condition E (GetReadyCondition l) ConditionTrue ''PreChecksCompleted'' ''pre-checks completed'';
       ret (None, None)
     }
   }"

text \<open>\<open>if ShouldRunPreChecks \{ if status, err := runPrechecks(...); status != nil \{ return status, err \} \}\<close>\<close>

definition prechecks_guard ::
  "'e env_scheme \<Rightarrow> labeller \<Rightarrow> ('x, component_status) act \<Rightarrow> ('x, (component_status option \<times> go_error) option) act" where
  "prechecks_guard E l updatePreCheck = do {
     should \<leftarrow> reads (ShouldRunPreChecks E (l_ComponentType l) (GetFullComponentName l));
     if should then do {
       (status, err) \<leftarrow> runPrechecks E l updatePreCheck;
       ret (if status \<noteq> None then Some (status, err) else None)
     } else ret None
   }"

definition handleUpdatingClusterState ::
  "'e env_scheme \<Rightarrow> labeller \<Rightarrow> ('x, 'z) pods_manager_scheme \<Rightarrow> bool \<Rightarrow> 'x handler" where
  "handleUpdatingClusterState E l manager dry = do {
     updating \<leftarrow> reads (IsUpdatingComponent (l_ComponentType l) (GetInstanceGroup l));
     updateState \<leftarrow> reads GetUpdateState;
     if updating then
       if updateState = UpdateStateWaitingForPodsRemoval then do {
         err \<leftarrow> when_do (\<not> dry) (removePods E manager l);
         ret (Some (ComponentStatusUpdateStep ''pods removal''), err)
       } else ret (if updateState \<noteq> UpdateStateWaitingForPodsCreation then Some ComponentStatusReady else None, None)
     else ret (Some (ComponentStatusReadyAfter ''Not updating component''), None)
   }"

definition handleBulkUpdatingClusterState ::
  "'e env_scheme \<Rightarrow> labeller \<Rightarrow> ('x, component_status) act \<Rightarrow> ('x, 'z) pods_manager_scheme \<Rightarrow> bool \<Rightarrow> 'x handler" where
  "handleBulkUpdatingClusterState E l updatePreCheck manager dry = do {
     updateState \<leftarrow> reads GetUpdateState;
     if updateState = UpdateStateWaitingForPodsRemoval then do {
       newMode \<leftarrow> reads (doesComponentUseNewUpdateMode (l_ComponentType l) (GetFullComponentName l));
       if \<not> newMode then do {
         err \<leftarrow> when_do (\<not> dry) (removePods E manager l);
         ret (Some (ComponentStatusUpdateStep ''pods removal''), err)
       } else do {
         set_update_condition E (GetCondition l ''BulkUpdateModeStarted'') ConditionTrue
           ''BulkUpdateModeStarted'' ''bulk update mode started'';
         or_else (prechecks_guard E l updatePreCheck) (do {
           err \<leftarrow> when_do (\<not> dry) (do {
             set_update_condition E (GetScalingDownCondition l) ConditionTrue ''RemovingPods'' ''removing pods'';
             removePods E manager l
           });
           ret (Some (ComponentStatusUpdateStep ''pods removal''), err)
         })
       }
     } else if updateState = UpdateStateWaitingForPodsCreation then do {
       set_update_condition E (GetScalingUpCondition l) ConditionTrue ''CreatingPods'' ''creating new pods'';
       ret (None, None)
     } else ret (None, None)
   }"

definition handleOnDeleteUpdatingClusterState ::
  "'e env_scheme \<Rightarrow> labeller \<Rightarrow> ('x, component_status) act \<Rightarrow> ('x, 'z) server_scheme \<Rightarrow> bool \<Rightarrow> 'x handler" where
  "handleOnDeleteUpdatingClusterState E l updatePreCheck server dry = do {
     updateState \<leftarrow> reads GetUpdateState;
     let onDeleteWaitingCondition = GetWaitingOnDeleteUpdateCondition l;
     if updateState \<noteq> UpdateStateWaitingForPodsRemoval then ret (None, None)
     else if dry then do {
       waiting \<leftarrow> reads (IsUpdateStatusConditionTrue E onDeleteWaitingCondition);
       ret (Some (ComponentStatusWaitingFor
              (if \<not> waiting then ''OnDelete mode setup'' else ''manual pod update by user'')), None)
     } else or_else (prechecks_guard E l updatePreCheck) (do {
       srv_setUpdateStrategy server OnDeleteStatefulSetStrategyType 0 0;
       synced \<leftarrow> srv_Sync server;
       case synced of
         Some err \<Rightarrow> ret (Some (ComponentStatusBlocked ''Failed to sync StatefulSet''), Some err)
       | None \<Rightarrow> do {
           fetched \<leftarrow> srv_Fetch server;
           case fetched of
             Some err \<Rightarrow> ret (Some (ComponentStatusBlocked ''Failed to fetch StatefulSet''), Some err)
           | None \<Rightarrow> do {
               set_update_condition E onDeleteWaitingCondition ConditionTrue ''OnDeleteModeStarted''
                 ''OnDelete update mode started, StatefulSet synced, waiting for manual pod update'';
               updated \<leftarrow> pm_arePodsUpdatedToNewRevision server;
               if updated then do {
                 set_update_condition E (GetPodsUpdatedCondition l) ConditionTrue ''PodsUpdated''
                   ''All pods have been updated to new revision'';
                 modifies (UpdateOnDeleteComponentsSummary E onDeleteWaitingCondition False);
                 ret (None, None)
               } else do {
                 modifies (UpdateOnDeleteComponentsSummary E onDeleteWaitingCondition True);
                 ret (Some (ComponentStatusUpdateStep ''pods removal''), None)
               }
             }
         }
     })
   }"

definition setRollingBudgetExhaustedCondition ::
  "'e env_scheme \<Rightarrow> labeller \<Rightarrow> int \<Rightarrow> int \<Rightarrow> int \<Rightarrow> ('x, unit) act" where
  "setRollingBudgetExhaustedCondition E l maxUnavailable effectiveUnavailable partition0 = do {
     set_update_condition E (GetRollingBudgetExhaustedCondition l) ConditionTrue ''BudgetExhausted''
       (''rolling update is paused: budget exhausted (effectiveUnavailable='' @ show_int effectiveUnavailable @
        '', maxUnavailable='' @ show_int maxUnavailable @ '', partition='' @ show_int partition0 @ '')'');
     modifies (\<lambda>w. w\<lparr>w_metrics := w_metrics w @
       [RollingBudgetExhausted (yt_Name (w_object w)) (yt_Namespace (w_object w)) (GetComponentShortName l) True]\<rparr>)
   }"

definition setPodsUpdatedCondition :: "'e env_scheme \<Rightarrow> labeller \<Rightarrow> ('x, unit) act" where
  "setPodsUpdatedCondition E l =
     set_update_condition E (GetPodsUpdatedCondition l) ConditionTrue ''PodsUpdated'' ''All pods updated''"

text \<open>The last part of the rolling handler, once the StatefulSet carries the new specification.\<close>

definition advance_rolling ::
  "'e env_scheme \<Rightarrow> labeller \<Rightarrow> ('x, component_status) act \<Rightarrow> ('x, 'z) server_scheme \<Rightarrow> int \<Rightarrow> sts_rolling_status \<Rightarrow> 'x handler" where
  "advance_rolling E l updatePreCheck server maxUnavailable roll =
    (let wasted = UnavailableOrInProgressReplicas roll;
         done = ret (Some (ComponentStatusUpdating (''Rolling update: '' @ show_int (rs_updatedReplicas roll) @
                  '' of '' @ show_int (rs_totalCount roll) @ '' pods'')), None)
     in if wasted \<ge> maxUnavailable then do {
          setRollingBudgetExhaustedCondition E l maxUnavailable wasted (rs_partition roll);
          done
        } else if rs_partition roll \<noteq> 0 then or_else (prechecks_guard E l updatePreCheck) (do {
          srv_setUpdateStrategy server RollingUpdateStatefulSetStrategyType
            (wrap32 (rs_partition roll - 1)) maxUnavailable;
          synced \<leftarrow> srv_Sync server;
          case synced of
            Some err \<Rightarrow> ret (Some (ComponentStatusBlocked
               (''failed to advance rolling update partition for '' @ GetFullComponentName l)), Some err)
          | None \<Rightarrow> done
        })
        else done)"

definition handleRollingUpdatingClusterState ::
  "'e env_scheme \<Rightarrow> labeller \<Rightarrow> ('x, component_status) act \<Rightarrow> ('x, 'z) server_scheme \<Rightarrow> bool \<Rightarrow> 'x handler" where
  "handleRollingUpdatingClusterState E l updatePreCheck server dry = do {
     updateState \<leftarrow> reads GetUpdateState;
     if updateState \<noteq> UpdateStateWaitingForPodsRemoval then ret (None, None)
     else do {
       instanceCount \<leftarrow> reads (pm_getInstanceCount server);
       minReady \<leftarrow> reads (pm_getMinReadyInstanceCount server 1);
       let maxUnavailable = wrap32 (instanceCount - minReady);
       if maxUnavailable \<le> 0 then
         ret (Some (ComponentStatusBlocked
           (''instanceCount - minReadyInstanceCount must be positive for rolling update on '' @
            GetFullComponentName l)), None)
       else if dry then ret (Some (ComponentStatusUpdateStep ''rolling update''), None)
       else do {
         (rolling, err) \<leftarrow> srv_getRollingUpdateStatus server;
         case (err, rolling) of
           (None, Some roll) \<Rightarrow> do {
             status \<leftarrow> srv_needUpdate server;
             if IsNeedUpdate status then do {
               srv_setUpdateStrategy server RollingUpdateStatefulSetStrategyType (rs_totalCount roll) maxUnavailable;
               synced \<leftarrow> srv_Sync server;
               case synced of
                 Some err \<Rightarrow> ret (Some (ComponentStatusBlocked
                    (''failed to initialize rolling update for '' @ GetFullComponentName l)), Some err)
               | None \<Rightarrow> ret (Some (ComponentStatusUpdateStep ''rolling started''), None)
             } else if IsFinished roll then do {
               setPodsUpdatedCondition E l;
               ret (None, None)
             } else advance_rolling E l updatePreCheck server maxUnavailable roll
           }
         | _ \<Rightarrow> ret (Some (ComponentStatusUpdateStep ''rolling update is not ready''), err)
       }
     }
   }"

definition dispatchComponentUpdate ::
  "'e env_scheme \<Rightarrow> labeller \<Rightarrow> ('x, component_status) act \<Rightarrow> ('x, 'z) server_scheme \<Rightarrow> bool \<Rightarrow> 'x handler" where
  "dispatchComponentUpdate E l updatePreCheck server dry = do {
     updating \<leftarrow> reads (IsUpdatingComponent (l_ComponentType l) (GetInstanceGroup l));
     if \<not> updating then ret (Some (ComponentStatusReadyAfter ''Not updating component''), None)
     else do {
       strategy \<leftarrow> reads (getComponentUpdateStrategy (l_ComponentType l) (GetInstanceGroup l));
       if strategy = ComponentUpdateModeTypeRollingUpdate
       then handleRollingUpdatingClusterState E l updatePreCheck server dry
       else if strategy = ComponentUpdateModeTypeOnDelete
       then handleOnDeleteUpdatingClusterState E l updatePreCheck server dry
       else handleBulkUpdatingClusterState E l updatePreCheck server dry
     }
   }"

section \<open>What the components rely on\<close>

lemma keeps_metrics [simp]: "keeps w (w\<lparr>w_metrics := ms\<rparr>)"
  by (simp add: keeps_def same_control_def GetClusterState_def GetUpdateState_def
      GetUpdatingComponents_def conds_wf_def status_of_cond_def)

lemma keeps_wait_summary_step: "keeps (fst acc) (fst (wait_summary_step E t b c acc))"
  by (cases acc) (simp add: wait_summary_step_def Let_def split: option.splits)

lemma keeps_wait_summary_fold: "keeps (fst acc) (fst (fold (wait_summary_step E t b) cs acc))"
proof (induction cs arbitrary: acc)
  case (Cons c cs)
  from keeps_trans[OF keeps_wait_summary_step Cons] show ?case by simp
qed simp

lemma keeps_UpdateOnDeleteComponentsSummary: "keeps w (UpdateOnDeleteComponentsSummary E t b w)"
proof -
  obtain w1 parts where f: "fold (wait_summary_step E t b) (us_UpdatingComponents (update_status_of w)) (w, []) = (w1, parts)"
    by fastforce
  then have "keeps w w1" using keeps_wait_summary_fold[of "(w, [])" E t b] by (metis fst_conv)
  moreover have "keeps w1 (map_update_status (\<lambda>u. u\<lparr>us_UpdatingComponentsSummary := join '', '' parts\<rparr>) w1)"
    by (rule keeps_map_update_status) simp_all
  ultimately show ?thesis using f by (auto simp: UpdateOnDeleteComponentsSummary_def intro: keeps_trans)
qed

lemma quiet_summary [kept_intros]: "quiet (modifies (UpdateOnDeleteComponentsSummary E t b))"
  by (intro kept_modifies keeps_UpdateOnDeleteComponentsSummary)

lemma quiet_runPrechecks:
  "meta_laws E \<Longrightarrow> quiet pre \<Longrightarrow> quiet (runPrechecks E l pre)"
  unfolding runPrechecks_def by (intro kept_intros)

lemma quiet_prechecks_guard [kept_intros]:
  "meta_laws E \<Longrightarrow> quiet pre \<Longrightarrow> quiet (prechecks_guard E l pre)"
  unfolding prechecks_guard_def by (intro kept_intros quiet_runPrechecks)

lemma quiet_setRollingBudgetExhaustedCondition [kept_intros]:
  "meta_laws E \<Longrightarrow> quiet (setRollingBudgetExhaustedCondition E l m u p)"
  unfolding setRollingBudgetExhaustedCondition_def by (intro kept_intros kept_modifies keeps_metrics)

lemma quiet_setPodsUpdatedCondition [kept_intros]: "meta_laws E \<Longrightarrow> quiet (setPodsUpdatedCondition E l)"
  unfolding setPodsUpdatedCondition_def by (intro kept_intros)

text \<open>The contract of a pods manager and of a server.\<close>

locale pods_contract =
  fixes manager :: "('x, 'z) pods_manager_scheme"
  assumes quiet_listPods: "quiet (pm_listPods manager)"
    and quiet_removePods: "quiet (pm_removePods manager)"
    and quiet_arePodsUpdated: "quiet (pm_arePodsUpdatedToNewRevision manager)"
begin

lemma quiet_arePodsReady: "quiet (arePodsReady manager names)"
  unfolding arePodsReady_def by (intro kept_intros quiet_listPods)

lemma quiet_remove: "meta_laws E \<Longrightarrow> quiet (removePods E manager l)"
  unfolding removePods_def by (intro kept_intros quiet_listPods quiet_removePods)

lemma quiet_handleUpdatingClusterState: "meta_laws E \<Longrightarrow> quiet (handleUpdatingClusterState E l manager dry)"
  unfolding handleUpdatingClusterState_def by (intro kept_intros quiet_remove)

lemma quiet_handleBulk:
  "meta_laws E \<Longrightarrow> quiet pre \<Longrightarrow> quiet (handleBulkUpdatingClusterState E l pre manager dry)"
  unfolding handleBulkUpdatingClusterState_def by (intro kept_intros quiet_remove)

end

locale server_contract = pods_contract server for server :: "('x, 'z) server_scheme" +
  assumes quiet_Fetch: "quiet (srv_Fetch server)"
    and quiet_Sync: "quiet (srv_Sync server)"
    and quiet_setUpdateStrategy: "quiet (srv_setUpdateStrategy server t p m)"
    and quiet_getRollingUpdateStatus: "quiet (srv_getRollingUpdateStatus server)"
    and quiet_needUpdate: "quiet (srv_needUpdate server)"
    and quiet_needSync: "quiet (srv_needSync server b)"
begin

lemmas quiet_server = quiet_Fetch quiet_Sync quiet_setUpdateStrategy quiet_getRollingUpdateStatus
  quiet_needUpdate quiet_needSync quiet_listPods quiet_arePodsUpdated

lemma quiet_handleOnDelete:
  "meta_laws E \<Longrightarrow> quiet pre \<Longrightarrow> quiet (handleOnDeleteUpdatingClusterState E l pre server dry)"
  unfolding handleOnDeleteUpdatingClusterState_def by (intro kept_intros quiet_server)

lemma quiet_advance:
  "meta_laws E \<Longrightarrow> quiet pre \<Longrightarrow> quiet (advance_rolling E l pre server m roll)"
  unfolding advance_rolling_def by (intro kept_intros quiet_server)

lemma quiet_handleRolling:
  "meta_laws E \<Longrightarrow> quiet pre \<Longrightarrow> quiet (handleRollingUpdatingClusterState E l pre server dry)"
  unfolding handleRollingUpdatingClusterState_def
  by (intro kept_intros quiet_server quiet_advance)

lemma quiet_dispatch:
  "meta_laws E \<Longrightarrow> quiet pre \<Longrightarrow> quiet (dispatchComponentUpdate E l pre server dry)"
  unfolding dispatchComponentUpdate_def
  by (intro kept_intros quiet_handleRolling quiet_handleOnDelete quiet_handleBulk)

end

text \<open>
  Reading methods: a relation \<open>R\<close> kept by the conditions of the update, by listing pods and by
  looking for changes is kept by every dry run.
\<close>

locale pods_reader =
  fixes E :: "'e env_scheme" and manager :: "('x, 'z) pods_manager_scheme"
    and R :: "'x comps_scheme \<Rightarrow> 'x comps_scheme \<Rightarrow> bool"
  assumes preord_R: "preord R"
    and R_condition: "R w (SetUpdateStatusCondition E c w)"
    and R_listPods: "kept R (pm_listPods manager)"
begin

lemma R_set_update_condition: "kept R (set_update_condition E t s r m)"
  unfolding set_update_condition_def by (intro kept_modifies R_condition)

lemmas R_intros = kept_intros preord_R R_set_update_condition

lemma R_arePodsReady: "kept R (arePodsReady manager names)"
  unfolding arePodsReady_def by (intro R_intros R_listPods)

lemma R_prechecks_guard: "kept R pre \<Longrightarrow> kept R (prechecks_guard E l pre)"
  unfolding prechecks_guard_def runPrechecks_def by (intro R_intros)

lemma R_handleUpdatingClusterState: "kept R (handleUpdatingClusterState E l manager True)"
  unfolding handleUpdatingClusterState_def by (intro R_intros) simp_all

lemma R_handleBulk: "kept R pre \<Longrightarrow> kept R (handleBulkUpdatingClusterState E l pre manager True)"
  unfolding handleBulkUpdatingClusterState_def by (intro R_intros R_prechecks_guard) simp_all

end

locale server_reader = pods_reader E server R
  for E :: "'e env_scheme" and server :: "('x, 'z) server_scheme" and R +
  assumes R_needUpdate: "kept R (srv_needUpdate server)"
    and R_needSync: "kept R (srv_needSync server b)"
begin

lemma R_handleOnDelete: "kept R (handleOnDeleteUpdatingClusterState E l pre server True)"
  unfolding handleOnDeleteUpdatingClusterState_def by (intro R_intros) simp_all

lemma R_handleRolling: "kept R (handleRollingUpdatingClusterState E l pre server True)"
  unfolding handleRollingUpdatingClusterState_def by (intro R_intros) simp_all

lemma R_dispatch: "kept R pre \<Longrightarrow> kept R (dispatchComponentUpdate E l pre server True)"
  unfolding dispatchComponentUpdate_def
  by (intro R_intros R_handleOnDelete R_handleRolling R_handleBulk)

end

end
