(* ===== verification/Kube.thy ===== *)
theory Kube
  imports Server
begin

text \<open>
  Managed Kubernetes objects, \<open>pkg/resources/resource.go\<close>: fetching, existence and synchronisation
  of one object, and of several in a row.

  Every call to the API server may see a different cluster: the environment answers the \<open>n\<close>-th call
  with the client \<open>e_Kube E n\<close>, and \<open>k_calls\<close> counts the calls.  \<open>k_requests\<close> is the history of the
  writing requests.
\<close>

section \<open>Objects\<close>

record rolling_update_strategy =
  ru_Partition :: "int option"
  ru_MaxUnavailable :: "int option"

record sts_update_strategy =
  ust_Type :: "sts_strategy_type option"
  ust_RollingUpdate :: "rolling_update_strategy option"

text \<open>
  A StatefulSet: of its pod template the containers with their images, the labels and the
  annotations; of its status the fields the operator reads.
\<close>

record stateful_set =
  ss_Generation :: int
  ss_Replicas :: "int option"
  ss_ServiceName :: string
  ss_UpdateStrategy :: sts_update_strategy
  ss_TemplateLabels :: "string \<rightharpoonup> string"
  ss_TemplateAnnotations :: "string \<rightharpoonup> string"
  ss_Containers :: "(string \<times> string) list"
  ss_ObservedGeneration :: int
  ss_CurrentRevision :: string
  ss_UpdateRevision :: string
  ss_UpdatedReplicas :: int
  ss_AvailableReplicas :: int

type_synonym config_map = "string \<rightharpoonup> string"

record service =
  svc_Type :: string
  svc_ClusterIP :: string
  svc_Selector :: "string \<rightharpoonup> string"

text \<open>
  A job: of its pod template the image, the command, the mounted config map, the network and the
  annotations; of its status the conditions, the pods, and the times of start and completion.
\<close>

record job =
  jb_BackoffLimit :: int
  jb_ActiveDeadlineSeconds :: int
  jb_Image :: string
  jb_Command :: "string list"
  jb_ConfigMap :: string
  jb_HostNetwork :: bool
  jb_TemplateAnnotations :: "string \<rightharpoonup> string"
  jb_Conditions :: "(string \<times> condition_status) list"
  jb_Active :: int
  jb_Failed :: int
  jb_StartTime :: "int option"
  jb_CompletionTime :: "int option"

record secret =
  sec_Data :: "string \<rightharpoonup> string"
  sec_StringData :: "string \<rightharpoonup> string"

text \<open>A Deployment: of its pod template the containers with their images, the labels and the annotations.\<close>

record deployment =
  dp_Replicas :: "int option"
  dp_TemplateLabels :: "string \<rightharpoonup> string"
  dp_TemplateAnnotations :: "string \<rightharpoonup> string"
  dp_InitContainers :: "(string \<times> string) list"
  dp_Containers :: "(string \<times> string) list"

text \<open>
  A DaemonSet: of its metadata the generation, whether it is being deleted and the labels; of its pod
  template where the pods may run, as opaque values, and the containers with their images; the budget
  of its rolling update; its status.
\<close>

record daemon_set =
  ds_Generation :: int
  ds_Deleted :: bool
  ds_Labels :: "string \<rightharpoonup> string"
  ds_MaxUnavailable :: int
  ds_TemplateLabels :: "string \<rightharpoonup> string"
  ds_TemplateAnnotations :: "string \<rightharpoonup> string"
  ds_ImagePullSecrets :: "string list"
  ds_NodeSelector :: "string \<rightharpoonup> string"
  ds_Tolerations :: "string list"
  ds_NodeAffinity :: "string option"
  ds_Containers :: "(string \<times> string) list"
  ds_ObservedGeneration :: int
  ds_DesiredNumberScheduled :: int
  ds_CurrentNumberScheduled :: int
  ds_UpdatedNumberScheduled :: int
  ds_NumberReady :: int
  ds_NumberAvailable :: int

datatype kube_request =
    StsRequest "stateful_set k8s_request"
  | CmRequest "config_map k8s_request"
  | SvcRequest "service k8s_request"
  | JobRequest "job k8s_request"
  | SecretRequest "secret k8s_request"
  | DeploymentRequest "deployment k8s_request"
  | DsRequest "daemon_set k8s_request"

section \<open>Environment and state\<close>

text \<open>
  \<open>ka_ListDaemonSets\<close> lists the DaemonSets of image heaters of a cluster, \<open>ka_Written\<close> is what the client leaves in
  the object of a write that succeeded: the answer of the server is decoded into it.
\<close>

record kube_api =
  ka_sts :: "stateful_set object_client"
  ka_cm :: "config_map object_client"
  ka_svc :: "service object_client"
  ka_job :: "job object_client"
  ka_secret :: "secret object_client"
  ka_deployment :: "deployment object_client"
  ka_ds :: "daemon_set object_client"
  ka_ListPods :: "labeller \<Rightarrow> string + pod list"
  ka_ListDaemonSets :: "labeller \<Rightarrow> string + daemon_set k8s_object list"
  ka_Written :: "daemon_set k8s_object \<Rightarrow> daemon_set k8s_object"

text \<open>
  The libraries the configuration builder calls: \<open>cc_Override\<close> unmarshals a YSON document and then
  the override into one ordered value and marshals it; \<open>cc_YamlToYson\<close> and the other conversions
  go through a generic value; \<open>cc_Diff\<close> is the unified difference of a file and \<open>cc_Hash\<close> the
  hash of \<open>resources.Hash\<close>, on a pod template \<open>cc_HashTemplate\<close>.
\<close>

record config_codec =
  cc_Override :: "string \<Rightarrow> string \<Rightarrow> string + string"
  cc_YamlToYson :: "string \<Rightarrow> string + string"
  cc_YsonToJson :: "string \<Rightarrow> string + string"
  cc_YsonToToml :: "string \<Rightarrow> string + string"
  cc_YsonToYaml :: "string \<Rightarrow> string + string"
  cc_Diff :: "string \<Rightarrow> string \<Rightarrow> string \<Rightarrow> string + string"
  cc_Hash :: "config_map \<Rightarrow> string + string"
  cc_HashTemplate :: "(string \<rightharpoonup> string) \<Rightarrow> (string \<rightharpoonup> string) \<Rightarrow> (string \<times> string) list \<Rightarrow> string + string"

record kenv = env +
  e_Kube :: "nat \<Rightarrow> kube_api"
  e_Codec :: config_codec

record kube = comps +
  k_calls :: nat
  k_requests :: "kube_request list"

type_synonym ('x, 'a) kact = "('x kube_scheme, 'a) state"

definition api_call :: "'e kenv_scheme \<Rightarrow> ('x, kube_api) kact" where
  "api_call E = State (\<lambda>w. (e_Kube E (k_calls w), w\<lparr>k_calls := Suc (k_calls w)\<rparr>))"

definition add_requests :: "kube_request list \<Rightarrow> ('x, unit) kact" where
  "add_requests reqs = modifies (\<lambda>w. w\<lparr>k_requests := k_requests w @ reqs\<rparr>)"

section \<open>Managed resources\<close>

record 'p managed =
  mr_name :: string
  mr_old :: "'p k8s_object"
  mr_new :: "'p k8s_object"

definition go_error_of :: "client_error option \<Rightarrow> go_error" where
  "go_error_of e = (case e of None \<Rightarrow> None | Some NotFoundError \<Rightarrow> Some ''not found'' | Some (ClientError s) \<Rightarrow> Some s)"

definition managed_Exists :: "'p managed \<Rightarrow> bool" where
  "managed_Exists r \<longleftrightarrow> o_ResourceVersion (mr_old r) \<noteq> ''''"

definition managed_Fetch ::
  "(kube_api \<Rightarrow> 'p object_client) \<Rightarrow> 'e kenv_scheme \<Rightarrow> 'p managed \<Rightarrow> ('x, 'p managed \<times> go_error) kact" where
  "managed_Fetch client E r = do {
     api \<leftarrow> api_call E;
     let (obj, err) = FetchObject (client api) (mr_name r) ((mr_old r)\<lparr>o_ResourceVersion := ''''\<rparr>);
     ret (r\<lparr>mr_old := obj\<rparr>, go_error_of err)
   }"

definition managed_Sync ::
  "(kube_api \<Rightarrow> 'p object_client) \<Rightarrow> ('p k8s_request \<Rightarrow> kube_request) \<Rightarrow> 'e kenv_scheme \<Rightarrow> 'p managed \<Rightarrow> ('x, go_error) kact" where
  "managed_Sync client request E r = do {
     api \<leftarrow> api_call E;
     (reqs, err) \<leftarrow> State (\<lambda>w. case SyncObject (client api) (mr_old r) (mr_new r) w of
       (w1, reqs, err) \<Rightarrow> ((reqs, err), w1));
     add_requests (map request reqs);
     ret err
   }"

text \<open>\<open>DeleteForeground\<close> and \<open>DeleteBackground\<close>, which differ in the propagation policy they ask for.\<close>

definition managed_Delete ::
  "(kube_api \<Rightarrow> 'p object_client) \<Rightarrow> ('p k8s_request \<Rightarrow> kube_request) \<Rightarrow> 'e kenv_scheme \<Rightarrow> 'p managed \<Rightarrow> ('x, go_error) kact" where
  "managed_Delete client request E r = do {
     api \<leftarrow> api_call E;
     (reqs, err) \<leftarrow> State (\<lambda>w. case DeleteObject (client api) (mr_old r) w of
       (w1, reqs, err) \<Rightarrow> ((reqs, err), w1));
     add_requests (map request reqs);
     ret (go_error_of err)
   }"

definition annotation_of :: "'p k8s_object \<Rightarrow> string \<Rightarrow> string option" where
  "annotation_of obj ann = (case o_Annotations obj of None \<Rightarrow> None | Some a \<Rightarrow> a ann)"

definition IsAnnotationChanged :: "'p managed \<Rightarrow> string \<Rightarrow> bool" where
  "IsAnnotationChanged r ann \<longleftrightarrow> annotation_of (mr_old r) ann \<noteq> annotation_of (mr_new r) ann"

definition SetMetaDataAnnotation :: "string \<Rightarrow> string \<Rightarrow> 'p k8s_object \<Rightarrow> 'p k8s_object" where
  "SetMetaDataAnnotation ann value obj = obj\<lparr>o_Annotations :=
     Some ((case o_Annotations obj of None \<Rightarrow> Map.empty | Some a \<Rightarrow> a)(ann \<mapsto> value))\<rparr>"

text \<open>
  \<open>resources.Fetch\<close> and \<open>resources.Sync\<close>: the objects in order, nil objects skipped, up to the first
  error; \<open>resources.Exists\<close>.
\<close>

fun resources_seq :: "('s, go_error) state option list \<Rightarrow> ('s, go_error) state" where
  "resources_seq [] = ret None"
| "resources_seq (None # objects) = resources_seq objects"
| "resources_seq (Some obj # objects) = do {
     err \<leftarrow> obj;
     if err \<noteq> None then ret err else resources_seq objects
   }"

definition resources_Exists :: "bool option list \<Rightarrow> bool" where
  "resources_Exists objects \<longleftrightarrow> list_all (\<lambda>obj. case obj of None \<Rightarrow> True | Some e \<Rightarrow> e) objects"

section \<open>What calls to the API server keep\<close>

text \<open>
  Relations that do not see the events and the calls (\<open>reading\<close>), nor the requests
  (\<open>bookkeeping\<close>): every operation on managed resources keeps them.
\<close>

locale reading =
  fixes R :: "'x kube_scheme \<Rightarrow> 'x kube_scheme \<Rightarrow> bool"
  assumes preord_R: "preord R"
    and R_normal: "R w (RecordNormal r m w)"
    and R_warning: "R w (RecordWarning r m w)"
    and R_calls: "R w (w\<lparr>k_calls := Suc (k_calls w)\<rparr>)"
begin

lemma kept_record: "kept R (record_normal r m)" "kept R (record_warning r m)"
  unfolding record_normal_def record_warning_def by (intro kept_modifies R_normal R_warning)+

lemma kept_api_call: "kept R (api_call E)"
  by (rule keptI) (simp add: api_call_def R_calls)

lemma kept_managed_Fetch: "kept R (managed_Fetch cl E r)"
  unfolding managed_Fetch_def by (intro kept_intros preord_R kept_api_call)

end

locale bookkeeping = reading +
  assumes R_requests: "R w (w\<lparr>k_requests := reqs\<rparr>)"
begin

lemma kept_add_requests: "kept R (add_requests reqs)"
  unfolding add_requests_def by (intro kept_modifies R_requests)

lemma R_SyncObject: "SyncObject C a b w = (w', reqs, err) \<Longrightarrow> R w w'"
  using R_normal R_warning preordD(1)[OF preord_R]
  by (auto simp: SyncObject_def createAndReferenceObject_def updateObject_def Let_def
      split: if_splits option.splits prod.splits)

lemma kept_managed_Sync: "kept R (managed_Sync cl rq E r)"
proof -
  have "kept R (State (\<lambda>w. case SyncObject C a b w of (w1, reqs, err) \<Rightarrow> ((reqs, err), w1)))" for C :: "'b object_client" and a b
    by (rule keptI) (auto split: prod.splits dest: R_SyncObject)
  then show ?thesis unfolding managed_Sync_def by (intro kept_intros preord_R kept_api_call kept_add_requests)
qed

lemma kept_managed_Delete: "kept R (managed_Delete cl rq E r)"
proof -
  have "R w w'" if "DeleteObject C a w = (w', reqs, err)" for C :: "'b object_client" and a w w' reqs err
    using that R_normal R_warning by (auto simp: DeleteObject_def split: option.splits client_error.splits)
  then have "kept R (State (\<lambda>w. case DeleteObject C a w of (w1, reqs, err) \<Rightarrow> ((reqs, err), w1)))"
    for C :: "'b object_client" and a
    by (intro keptI) (auto split: prod.splits)
  then show ?thesis unfolding managed_Delete_def by (intro kept_intros preord_R kept_api_call kept_add_requests)
qed

end

lemma kept_resources_seq:
  "preord R \<Longrightarrow> (\<And>m. Some m \<in> set ms \<Longrightarrow> kept R m) \<Longrightarrow> kept R (resources_seq ms)"
  by (induction ms rule: resources_seq.induct) (auto intro!: kept_intros)

section \<open>Three relations\<close>

text \<open>The contract of the components.\<close>

lemma keeps_kube_fields [simp]:
  "keeps w (k_calls_update f w)" "keeps w (k_requests_update g w)"
  by (simp_all add: keeps_def same_control_def GetClusterState_def GetUpdateState_def
      GetUpdatingComponents_def conds_wf_def status_of_cond_def)

lemma keeps_RecordNormal [simp]: "keeps w (RecordNormal r m w)" "keeps w (RecordWarning r m w)"
  using keptD[OF quiet_record(1), of w r m] keptD[OF quiet_record(2), of w r m] by simp_all

interpretation qt: bookkeeping keeps
  by unfold_locales (simp_all add: preord_keeps)

text \<open>Reading only: no writing request is issued.\<close>

definition no_request :: "'x kube_scheme \<Rightarrow> 'x kube_scheme \<Rightarrow> bool" where
  "no_request w w' \<longleftrightarrow> k_requests w' = k_requests w"

lemma preord_no_request [kept_intros]: "preord no_request"
  by (auto simp: preord_def reflp_def transp_def no_request_def)

lemma requests_of_proxy [simp]:
  "k_requests (map_status f w) = k_requests w"
  "k_requests (map_update_status g w) = k_requests w"
  "k_requests (SetUpdateStatusCondition M c w) = k_requests w"
  "k_requests (SetStatusCondition M c w) = k_requests w"
  "k_requests (RemoveStatusCondition M t w) = k_requests w"
  "k_requests (RecordNormal r m w) = k_requests w"
  "k_requests (RecordWarning r m w) = k_requests w"
  by (simp_all add: map_status_def map_update_status_def SetUpdateStatusCondition_def SetStatusCondition_def
      RemoveStatusCondition_def RecordNormal_def RecordWarning_def Let_def)

interpretation rq: reading no_request
  by unfold_locales (simp_all add: preord_no_request, simp_all add: no_request_def)

text \<open>The conditions of the update are left alone.\<close>

definition same_update_conditions :: "'x comps_scheme \<Rightarrow> 'x comps_scheme \<Rightarrow> bool" where
  "same_update_conditions w w' \<longleftrightarrow> us_Conditions (update_status_of w') = us_Conditions (update_status_of w)"

lemma preord_same_update_conditions [kept_intros]: "preord same_update_conditions"
  by (auto simp: preord_def reflp_def transp_def same_update_conditions_def)

interpretation uc: bookkeeping same_update_conditions
  by unfold_locales (simp_all add: preord_same_update_conditions, simp_all add: same_update_conditions_def)

lemmas kube_kept [kept_intros] =
  qt.kept_api_call qt.kept_add_requests qt.kept_managed_Fetch qt.kept_managed_Sync qt.kept_managed_Delete
  rq.kept_api_call rq.kept_record rq.kept_managed_Fetch
  uc.kept_api_call uc.kept_record uc.kept_managed_Fetch uc.kept_managed_Sync uc.kept_managed_Delete

lemma no_request_conditions [kept_intros]:
  "kept no_request (set_update_condition E t s r m)"
  "kept no_request (set_status_condition E t s r m)"
  by (rule keptI, simp add: no_request_def)+

text \<open>A managed object that is synced yields at most one writing request.\<close>

lemma SyncObject_one_request: "SyncObject C a b w = (w', reqs, err) \<Longrightarrow> length reqs \<le> 1"
  by (auto simp: SyncObject_def createAndReferenceObject_def updateObject_def Let_def
      split: if_splits option.splits prod.splits)

end
