(* ===== verification/Config_Map.thy ===== *)
theory Config_Map
  imports Kube Sample_Cluster
begin

text \<open>
  The configuration builder of \<open>pkg/components/config_map_builder.go\<close>: a config map is generated
  file by file, overrides of the user are applied in a fixed order, and the result is compared with
  the config map in the cluster.
\<close>

section \<open>Generators and builder\<close>

datatype config_format =
    ConfigFormatText | ConfigFormatYson | ConfigFormatJson | ConfigFormatJsonWithJsPrologue
  | ConfigFormatToml | ConfigFormatYaml | ConfigFormatHeader | ConfigFormatFooter

text \<open>A generator yields bytes or an error; \<open>None\<close> is a nil slice.\<close>

record config_generator =
  cg_FileName :: string
  cg_ConfigOverridesName :: string
  cg_GlobalOverridesName :: string
  cg_Format :: config_format
  cg_Generator :: "string + string option"

record config_map_builder =
  cb_labeller :: labeller
  cb_generators :: "config_generator list"
  cb_configOverrides :: "string option"
  cb_overridesMap :: "config_map k8s_object"
  cb_configMap :: "config_map managed"

definition bytes_of :: "string option \<Rightarrow> string" where
  "bytes_of b = (case b of None \<Rightarrow> '''' | Some s \<Rightarrow> s)"

fun JoinTextLines :: "string list \<Rightarrow> string" where
  "JoinTextLines [] = ''''"
| "JoinTextLines (line # text) = line @ [CHR 0x0A] @ JoinTextLines text"

definition ServerConfigGenerator :: "labeller \<Rightarrow> string + string option \<Rightarrow> config_generator option" where
  "ServerConfigGenerator l generator = map_option (\<lambda>configName.
     \<lparr>cg_FileName = configName @ ''.yson'', cg_ConfigOverridesName = configName,
      cg_GlobalOverridesName = ''ytserver-all'', cg_Format = ConfigFormatYson, cg_Generator = generator\<rparr>)
     (GetServerConfigName l)"

section \<open>Overrides\<close>

definition overrideYsonConfigs :: "config_codec \<Rightarrow> string \<Rightarrow> string \<Rightarrow> config_format \<Rightarrow> string + string" where
  "overrideYsonConfigs C base overrides format =
    (if format = ConfigFormatHeader then Inr (overrides @ base)
     else if format = ConfigFormatFooter then Inr (base @ overrides)
     else if format = ConfigFormatYaml then
       (case cc_YamlToYson C overrides of Inl err \<Rightarrow> Inl err | Inr o1 \<Rightarrow> cc_Override C base o1)
     else cc_Override C base overrides)"

text \<open>The names under which an override of a file is looked up, in the order of application.\<close>

definition override_names :: "string \<Rightarrow> config_generator \<Rightarrow> (string \<times> config_format) list" where
  "override_names name d =
    [(cg_GlobalOverridesName d @ ''.yaml'', ConfigFormatYaml),
     (cg_GlobalOverridesName d @ ''.yson'', ConfigFormatYson),
     (cg_ConfigOverridesName d @ ''.yaml'', ConfigFormatYaml),
     (cg_FileName d, ConfigFormatYson),
     (name @ ''--'' @ cg_ConfigOverridesName d @ ''.yaml'', ConfigFormatYaml),
     (name @ ''--'' @ cg_FileName d, ConfigFormatYson),
     (''header-'' @ cg_FileName d, ConfigFormatHeader),
     (''footer-'' @ cg_FileName d, ConfigFormatFooter),
     (name @ ''--header-'' @ cg_FileName d, ConfigFormatHeader),
     (name @ ''--footer-'' @ cg_FileName d, ConfigFormatFooter)]"

fun apply_overrides ::
  "config_codec \<Rightarrow> string \<Rightarrow> string \<Rightarrow> config_map \<Rightarrow> (string \<times> config_format) list \<Rightarrow> string option \<Rightarrow>
   ('x, string + string option) kact" where
  "apply_overrides C name fileName data [] config = ret (Inr config)"
| "apply_overrides C name fileName data ((overrideName, format) # overrides) config =
    (case data overrideName of
       None \<Rightarrow> apply_overrides C name fileName data overrides config
     | Some value \<Rightarrow>
         (case overrideYsonConfigs C (bytes_of config) value format of
            Inl err \<Rightarrow> do {
              record_warning ''Failure'' (''Cannot apply configmap/'' @ name @ '' '' @ quoted fileName @
                '' override '' @ quoted overrideName @ '': '' @ err);
              ret (Inl (''failed to apply configmap/'' @ name @ '' '' @ quoted fileName @
                '' override '' @ quoted overrideName @ '': '' @ err))
            }
          | Inr config1 \<Rightarrow> do {
              record_normal ''Override'' (''Applied configmap/'' @ name @ '' '' @ quoted fileName @
                '' override '' @ quoted overrideName);
              apply_overrides C name fileName data overrides (Some config1)
            }))"

definition convert_config :: "config_codec \<Rightarrow> config_format \<Rightarrow> string option \<Rightarrow> string + string option" where
  "convert_config C format config =
    (case format of
       ConfigFormatJson \<Rightarrow> map_sum id Some (cc_YsonToJson C (bytes_of config))
     | ConfigFormatJsonWithJsPrologue \<Rightarrow>
         map_sum id (\<lambda>json. Some (''module.exports = '' @ json)) (cc_YsonToJson C (bytes_of config))
     | ConfigFormatToml \<Rightarrow> map_sum id Some (cc_YsonToToml C (bytes_of config))
     | ConfigFormatYaml \<Rightarrow> map_sum id Some (cc_YsonToYaml C (bytes_of config))
     | _ \<Rightarrow> Inr config)"

definition getConfig :: "'e kenv_scheme \<Rightarrow> config_map_builder \<Rightarrow> config_generator \<Rightarrow> ('x, string + string option) kact" where
  "getConfig E h descriptor =
    (let name = mr_name (cb_configMap h); fileName = cg_FileName descriptor
     in case cg_Generator descriptor of
          Inl err \<Rightarrow> do {
            record_warning ''Failure'' (''Cannot build configmap/'' @ name @ '' '' @ quoted fileName @ '': '' @ err);
            ret (Inl (''failed to generate configmap/'' @ name @ '' '' @ quoted fileName @ '': '' @ err))
          }
        | Inr config0 \<Rightarrow> do {
            overridden \<leftarrow>
              (if o_ResourceVersion (cb_overridesMap h) \<noteq> ''''
               then apply_overrides (e_Codec E) name fileName (o_Content (cb_overridesMap h))
                      (override_names name descriptor) config0
               else ret (Inr config0));
            ret (case overridden of
                   Inl err \<Rightarrow> Inl err
                 | Inr config1 \<Rightarrow> convert_config (e_Codec E) (cg_Format descriptor) config1)
          })"

section \<open>Comparison with the cluster\<close>

definition builder_Exists :: "config_map_builder \<Rightarrow> bool" where
  "builder_Exists h = managed_Exists (cb_configMap h)"

definition getCurrentConfigValue :: "config_map_builder \<Rightarrow> string \<Rightarrow> string option" where
  "getCurrentConfigValue h fileName =
    (if \<not> builder_Exists h then None else o_Content (mr_old (cb_configMap h)) fileName)"

abbreviation "InitJobReasonAnnotationName \<equiv> ''ytsaurus.tech/init-job-reason''"
abbreviation "ConfigHashAnnotationName \<equiv> ''ytsaurus.tech/config-hash''"

fun need_reload_loop ::
  "'e kenv_scheme \<Rightarrow> config_map_builder \<Rightarrow> config_generator list \<Rightarrow> ('x, (component_status \<times> go_error) option) kact" where
  "need_reload_loop E h [] = ret None"
| "need_reload_loop E h (descriptor # generators) = do {
     generated \<leftarrow> getConfig E h descriptor;
     let fileName = cg_FileName descriptor;
     case generated of
       Inl err \<Rightarrow> ret (Some (ComponentStatusBlocked (''Config '' @ fileName @ '' generation error: '' @ err), Some err))
     | Inr newConfig \<Rightarrow> (
         let curConfig = getCurrentConfigValue h fileName
         in if curConfig = None \<and> newConfig \<noteq> None then do {
              record_normal ''Reconciliation'' (''Config '' @ fileName @ '' needs creation'');
              ret (Some (ComponentStatusNeedUpdate (''Config '' @ fileName @ '' needs creation''), None))
            } else if bytes_of curConfig \<noteq> bytes_of newConfig then
              (case cc_Diff (e_Codec E) fileName (bytes_of curConfig) (bytes_of newConfig) of
                 Inl err \<Rightarrow> ret (Some (ComponentStatusBlocked
                   (''Config '' @ fileName @ '' diff generation error: '' @ err), Some err))
               | Inr configsDiff \<Rightarrow> do {
                   record_normal ''Reconciliation'' (''Config '' @ fileName @ '' needs reload. Diff:'' @ [CHR 0x0A] @ configsDiff);
                   ret (Some (ComponentStatusNeedUpdate (''Config '' @ fileName @ '' needs reload''), None))
                 })
            else need_reload_loop E h generators)
   }"

definition needReload :: "'e kenv_scheme \<Rightarrow> config_map_builder \<Rightarrow> ('x, component_status \<times> go_error) kact" where
  "needReload E h = or_else (need_reload_loop E h (cb_generators h))
     (ret (if IsAnnotationChanged (cb_configMap h) InitJobReasonAnnotationName
           then ComponentStatusNeedUpdate (''Annotation '' @ InitJobReasonAnnotationName @ '' changed'')
           else ComponentStatusReady, None))"

section \<open>Building and synchronising\<close>

fun build_loop ::
  "'e kenv_scheme \<Rightarrow> config_map_builder \<Rightarrow> config_generator list \<Rightarrow> config_map \<Rightarrow> ('x, config_map \<times> go_error) kact" where
  "build_loop E h [] data = ret (data, None)"
| "build_loop E h (descriptor # generators) data =
    (if data (cg_FileName descriptor) \<noteq> None
     then ret (data, Some (''duplicate config generator: '' @ cg_FileName descriptor))
     else do {
       generated \<leftarrow> getConfig E h descriptor;
       case generated of
         Inl err \<Rightarrow> ret (data, Some err)
       | Inr config \<Rightarrow> build_loop E h generators
           (case config of None \<Rightarrow> data | Some bytes \<Rightarrow> data(cg_FileName descriptor \<mapsto> bytes))
     })"

text \<open>The object meta of \<open>GetObjectMeta\<close>, as far as the objects here carry it.\<close>

definition object_meta :: "labeller \<Rightarrow> string \<Rightarrow> string \<Rightarrow> 'p \<Rightarrow> 'p k8s_object" where
  "object_meta l name goType content = \<lparr>o_Name = name, o_GoType = goType,
     o_Annotations = Some (l_Annotations l), o_ResourceVersion = '''', o_Finalizers = [], o_Content = content\<rparr>"

text \<open>\<open>Build\<close> returns the builder with the new object, even a partial one when it fails.\<close>

definition builder_Build :: "'e kenv_scheme \<Rightarrow> config_map_builder \<Rightarrow> ('x, config_map_builder \<times> go_error) kact" where
  "builder_Build E h =
    (let cm0 = object_meta (cb_labeller h) (mr_name (cb_configMap h)) ''*v1.ConfigMap'' Map.empty;
         version = o_ResourceVersion (cb_overridesMap h);
         cm1 = (if version \<noteq> '''' then SetMetaDataAnnotation ''ytsaurus.tech/config-overrides-version'' version cm0 else cm0);
         with_new = (\<lambda>cm. h\<lparr>cb_configMap := (cb_configMap h)\<lparr>mr_new := cm\<rparr>\<rparr>)
     in do {
          (data, err) \<leftarrow> build_loop E h (cb_generators h) Map.empty;
          let cm2 = cm1\<lparr>o_Content := data\<rparr>;
          case err of
            Some e \<Rightarrow> ret (with_new cm2, Some e)
          | None \<Rightarrow>
              (case cc_Hash (e_Codec E) data of
                 Inl e \<Rightarrow> ret (with_new cm2, Some e)
               | Inr currentHash \<Rightarrow> ret (with_new (SetMetaDataAnnotation ConfigHashAnnotationName currentHash cm2), None))
        })"

definition builder_Sync :: "'e kenv_scheme \<Rightarrow> config_map_builder \<Rightarrow> ('x, go_error) kact" where
  "builder_Sync E h = do {
     (status, err) \<leftarrow> needReload E h;
     case err of
       Some e \<Rightarrow> ret (Some e)
     | None \<Rightarrow>
         if builder_Exists h \<and> \<not> IsNeedUpdate status then ret None
         else managed_Sync ka_cm CmRequest E (cb_configMap h)
   }"

definition builder_Fetch :: "'e kenv_scheme \<Rightarrow> config_map_builder \<Rightarrow> ('x, config_map_builder \<times> go_error) kact" where
  "builder_Fetch E h = do {
     (h1, err) \<leftarrow> (case cb_configOverrides h of
        None \<Rightarrow> ret (h, None)
      | Some name \<Rightarrow> do {
          api \<leftarrow> api_call E;
          let (obj, err) = FetchObject (ka_cm api) name (cb_overridesMap h);
          ret (h\<lparr>cb_overridesMap := obj\<rparr>, go_error_of err)
        });
     case err of
       Some e \<Rightarrow> ret (h1, Some e)
     | None \<Rightarrow> do {
         (cm, err1) \<leftarrow> managed_Fetch ka_cm E (cb_configMap h1);
         ret (h1\<lparr>cb_configMap := cm\<rparr>, err1)
       }
   }"

definition getAnnotation :: "config_map_builder \<Rightarrow> string \<Rightarrow> string" where
  "getAnnotation h ann = ptr_deref (annotation_of (mr_old (cb_configMap h)) ann) ''''"

definition setAnnotation :: "string \<Rightarrow> string \<Rightarrow> config_map_builder \<Rightarrow> config_map_builder" where
  "setAnnotation ann value h = h\<lparr>cb_configMap := (cb_configMap h)\<lparr>mr_new := SetMetaDataAnnotation ann value (mr_new (cb_configMap h))\<rparr>\<rparr>"

section \<open>Contracts\<close>

context reading
begin

lemma kept_apply_overrides: "kept R (apply_overrides C name fileName data ovs config)"
  by (induction C name fileName data ovs config rule: apply_overrides.induct)
     (auto intro!: kept_intros preord_R kept_record split: option.splits sum.splits)

lemma kept_getConfig: "kept R (getConfig E h d)"
  unfolding getConfig_def by (intro kept_intros kept_apply_overrides preord_R kept_record)

lemma kept_needReload: "kept R (needReload E h)"
proof -
  have "kept R (need_reload_loop E h gs)" for gs
    by (induction gs) (auto intro!: kept_intros kept_getConfig preord_R kept_record)
  then show ?thesis unfolding needReload_def by (intro kept_intros preord_R)
qed

lemma kept_builder_Build: "kept R (builder_Build E h)"
proof -
  have "kept R (build_loop E h gs data)" for gs data
    by (induction gs arbitrary: data) (auto intro!: kept_intros kept_getConfig preord_R)
  then show ?thesis unfolding builder_Build_def by (intro kept_intros preord_R)
qed

lemma kept_builder_Fetch: "kept R (builder_Fetch E h)"
  unfolding builder_Fetch_def by (intro kept_intros preord_R kept_api_call kept_managed_Fetch)

lemmas kept_builder = kept_needReload kept_builder_Build kept_builder_Fetch

end

context bookkeeping
begin

lemma kept_builder_Sync: "kept R (builder_Sync E h)"
  unfolding builder_Sync_def by (intro kept_intros preord_R kept_needReload kept_managed_Sync)

end

section \<open>Round trip through the cluster\<close>

text \<open>The configuration of a file, without the events.\<close>

fun overridden :: "config_codec \<Rightarrow> string \<Rightarrow> string \<Rightarrow> config_map \<Rightarrow> (string \<times> config_format) list \<Rightarrow> string option \<Rightarrow> string + string option" where
  "overridden C name fileName data [] config = Inr config"
| "overridden C name fileName data ((overrideName, format) # overrides) config =
    (case data overrideName of
       None \<Rightarrow> overridden C name fileName data overrides config
     | Some value \<Rightarrow>
         (case overrideYsonConfigs C (bytes_of config) value format of
            Inl err \<Rightarrow> Inl (''failed to apply configmap/'' @ name @ '' '' @ quoted fileName @
                '' override '' @ quoted overrideName @ '': '' @ err)
          | Inr config1 \<Rightarrow> overridden C name fileName data overrides (Some config1)))"

definition config_value :: "'e kenv_scheme \<Rightarrow> config_map_builder \<Rightarrow> config_generator \<Rightarrow> string + string option" where
  "config_value E h d =
    (let name = mr_name (cb_configMap h)
     in case cg_Generator d of
          Inl err \<Rightarrow> Inl (''failed to generate configmap/'' @ name @ '' '' @ quoted (cg_FileName d) @ '': '' @ err)
        | Inr config0 \<Rightarrow>
            (case (if o_ResourceVersion (cb_overridesMap h) \<noteq> ''''
                   then overridden (e_Codec E) name (cg_FileName d) (o_Content (cb_overridesMap h)) (override_names name d) config0
                   else Inr config0) of
               Inl err \<Rightarrow> Inl err
             | Inr config1 \<Rightarrow> convert_config (e_Codec E) (cg_Format d) config1))"

lemma apply_overrides_value: "fst (run_state (apply_overrides C name f data ovs config) w) = overridden C name f data ovs config"
  by (induction C name f data ovs config arbitrary: w rule: overridden.induct)
     (auto split: option.splits sum.splits)

lemma apply_overrides_eq:
  "run_state (apply_overrides C name f data ovs config) w = (x, w') \<Longrightarrow> overridden C name f data ovs config = x"
  by (metis apply_overrides_value fst_conv)

lemma getConfig_value [simp]: "fst (run_state (getConfig E h d) w) = config_value E h d"
  by (auto simp: getConfig_def config_value_def Let_def dest!: apply_overrides_eq split: sum.splits prod.splits)

lemma run_getConfig: "\<exists>w'. run_state (getConfig E h d) w = (config_value E h d, w')"
  by (metis getConfig_value prod.collapse)

definition file_current :: "'e kenv_scheme \<Rightarrow> config_map_builder \<Rightarrow> config_generator \<Rightarrow> bool" where
  "file_current E h d \<longleftrightarrow> (\<exists>c. config_value E h d = Inr c \<and>
     \<not> (getCurrentConfigValue h (cg_FileName d) = None \<and> c \<noteq> None) \<and>
     bytes_of (getCurrentConfigValue h (cg_FileName d)) = bytes_of c)"

lemma need_reload_loop_step:
  assumes "run_state (getConfig E h d) w = (Inr c, w1)" "getCurrentConfigValue h (cg_FileName d) = cur"
  shows "fst (run_state (need_reload_loop E h (d # gs)) w) = None \<longleftrightarrow>
    \<not> (cur = None \<and> c \<noteq> None) \<and> bytes_of cur = bytes_of c \<and> fst (run_state (need_reload_loop E h gs) w1) = None"
proof (cases "cur = None \<and> c \<noteq> None")
  case False
  then show ?thesis using assms
    by (cases "cc_Diff (e_Codec E) (cg_FileName d) (bytes_of cur) (bytes_of c)") (auto simp: Let_def)
qed (use assms in \<open>simp add: Let_def\<close>)

lemma need_reload_loop_None:
  "fst (run_state (need_reload_loop E h gs) w) = None \<longleftrightarrow> list_all (file_current E h) gs"
proof (induction gs arbitrary: w)
  case (Cons d gs)
  obtain w1 where g: "run_state (getConfig E h d) w = (config_value E h d, w1)" using run_getConfig by blast
  show ?case
  proof (cases "config_value E h d")
    case (Inr c)
    then show ?thesis using need_reload_loop_step[of E h d w c w1] g Cons[of w1] by (simp add: file_current_def del: need_reload_loop.simps)
  qed (simp add: g file_current_def)
qed simp

lemma needReload_ready:
  "list_all (file_current E h) (cb_generators h) \<Longrightarrow> \<not> IsAnnotationChanged (cb_configMap h) InitJobReasonAnnotationName \<Longrightarrow>
   fst (run_state (needReload E h) w) = (ComponentStatusReady, None)"
  using need_reload_loop_None[of E h "cb_generators h" w]
  by (auto simp: needReload_def run_or_else split: prod.splits option.splits)

lemma build_loop_value:
  assumes "fst (run_state (build_loop E h gs data) w) = (data', None)" "distinct (map cg_FileName gs)"
  shows "(\<forall>d \<in> set gs. data (cg_FileName d) = None \<and> config_value E h d = Inr (data' (cg_FileName d))) \<and>
    (\<forall>f. f \<notin> cg_FileName ` set gs \<longrightarrow> data' f = data f)"
  using assms
proof (induction gs arbitrary: data w)
  case (Cons d gs)
  obtain w1 where g: "run_state (getConfig E h d) w = (config_value E h d, w1)" using run_getConfig by blast
  obtain c where c: "config_value E h d = Inr c" and free: "data (cg_FileName d) = None"
    and rest: "fst (run_state (build_loop E h gs (case c of None \<Rightarrow> data | Some b \<Rightarrow> data(cg_FileName d \<mapsto> b))) w1) = (data', None)"
    using Cons.prems(1) g by (auto split: if_splits sum.splits)
  have new: "cg_FileName d \<notin> cg_FileName ` set gs" using Cons.prems(2) by auto
  note IH = Cons.IH[OF rest] and dist = Cons.prems(2)
  have "data' (cg_FileName d) = c"
    using IH dist new free by (auto split: option.splits)
  moreover have "data f = None" if "f \<in> cg_FileName ` set gs" for f
    using IH dist that new by (force split: option.splits if_splits)
  ultimately show ?case using IH dist c free new by (auto split: option.splits)
qed simp

lemma builder_Build_value:
  assumes "run_state (builder_Build E h) w = ((h', None), w')" "distinct (map cg_FileName (cb_generators h))"
  obtains cm where "h' = h\<lparr>cb_configMap := (cb_configMap h)\<lparr>mr_new := cm\<rparr>\<rparr>"
    "\<And>d. d \<in> set (cb_generators h) \<Longrightarrow> config_value E h d = Inr (o_Content cm (cg_FileName d))"
proof -
  obtain data err w1 where l: "run_state (build_loop E h (cb_generators h) Map.empty) w = ((data, err), w1)"
    by (metis surj_pair)
  with assms(1) obtain cm where cm: "err = None" "h' = h\<lparr>cb_configMap := (cb_configMap h)\<lparr>mr_new := cm\<rparr>\<rparr>" "o_Content cm = data"
    by (auto simp: builder_Build_def Let_def SetMetaDataAnnotation_def split: option.splits sum.splits)
  with l build_loop_value[of E h "cb_generators h" Map.empty w data] assms(2) that show ?thesis by auto
qed

lemma config_value_cong:
  "cb_overridesMap h' = cb_overridesMap h \<Longrightarrow> mr_name (cb_configMap h') = mr_name (cb_configMap h) \<Longrightarrow>
   config_value E h' d = config_value E h d"
  by (cases "cg_Generator d") (simp_all add: config_value_def Let_def)

definition stored_as :: "'p managed \<Rightarrow> 'p k8s_object \<Rightarrow> bool" where
  "stored_as r obj \<longleftrightarrow> o_ResourceVersion obj \<noteq> '''' \<and> o_Content obj = o_Content (mr_new r) \<and>
     annotation_of obj InitJobReasonAnnotationName = annotation_of (mr_new r) InitJobReasonAnnotationName"

text \<open>
  (C16) Configurations are stable: once the config map that was built is stored in the cluster, it
  is found up to date, for every file and whatever overrides are applied, and a further
  synchronisation of the builder succeeds without a writing request.
\<close>

theorem built_config_is_current:
  assumes "run_state (builder_Build E h) w = ((h', None), w')"
    and "distinct (map cg_FileName (cb_generators h))"
    and "stored_as (cb_configMap h') obj"
  shows "(let h'' = h'\<lparr>cb_configMap := (cb_configMap h')\<lparr>mr_old := obj\<rparr>\<rparr>
          in fst (run_state (needReload E h'') v) = (ComponentStatusReady, None) \<and>
             fst (run_state (builder_Sync E h'') v) = None \<and>
             k_requests (snd (run_state (builder_Sync E h'') v)) = k_requests v)"
proof -
  obtain cm where h': "h' = h\<lparr>cb_configMap := (cb_configMap h)\<lparr>mr_new := cm\<rparr>\<rparr>"
    and val: "\<And>d. d \<in> set (cb_generators h) \<Longrightarrow> config_value E h d = Inr (o_Content cm (cg_FileName d))"
    using builder_Build_value[OF assms(1,2)] by blast
  define h'' where "h'' = h'\<lparr>cb_configMap := (cb_configMap h')\<lparr>mr_old := obj\<rparr>\<rparr>"
  have ex: "builder_Exists h''" using assms(3) by (simp add: h''_def builder_Exists_def managed_Exists_def stored_as_def)
  then have cur: "getCurrentConfigValue h'' f = o_Content cm f" for f
    using assms(3) by (simp add: getCurrentConfigValue_def stored_as_def h''_def h')
  have "file_current E h'' d" if "d \<in> set (cb_generators h)" for d
  proof -
    have "config_value E h'' d = config_value E h d" by (rule config_value_cong) (simp_all add: h''_def h')
    with val[OF that] show ?thesis by (auto simp: file_current_def cur)
  qed
  then have all: "list_all (file_current E h'') (cb_generators h'')" by (simp add: list_all_iff h''_def h')
  have "\<not> IsAnnotationChanged (cb_configMap h'') InitJobReasonAnnotationName"
    using assms(3) by (simp add: IsAnnotationChanged_def stored_as_def h''_def)
  from needReload_ready[OF all this] have ready: "fst (run_state (needReload E h'') v) = (ComponentStatusReady, None)" .
  moreover have "k_requests (snd (run_state (needReload E h'') v)) = k_requests v"
    using keptD[OF rq.kept_needReload] by (simp add: no_request_def)
  moreover have "run_state (builder_Sync E h'') v = (None, snd (run_state (needReload E h'') v))"
    using ready ex by (auto simp: builder_Sync_def IsNeedUpdate_def split: prod.splits)
  ultimately show ?thesis by (simp add: h''_def)
qed

section \<open>A sample environment\<close>

definition sample_codec :: config_codec where
  "sample_codec = \<lparr>cc_Override = (\<lambda>base overrides. Inr (base @ overrides)), cc_YamlToYson = Inr, cc_YsonToJson = Inr,
     cc_YsonToToml = Inr, cc_YsonToYaml = Inr, cc_Diff = (\<lambda>f a b. Inr ''diff''), cc_Hash = (\<lambda>_. Inr ''hash''),
     cc_HashTemplate = (\<lambda>_ _ _. Inr ''hash'')\<rparr>"

definition sample_client :: "'p k8s_object option \<Rightarrow> 'p object_client" where
  "sample_client found = \<lparr>oc_Get = (\<lambda>_. case found of Some obj \<Rightarrow> Inl obj | None \<Rightarrow> Inr NotFoundError),
     oc_SetControllerReference = (\<lambda>obj. (obj, None)), oc_Create = (\<lambda>_. None), oc_Update = (\<lambda>_. None),
     oc_Delete = (\<lambda>_. None)\<rparr>"

definition sample_api :: "stateful_set k8s_object option \<Rightarrow> pod list \<Rightarrow> kube_api" where
  "sample_api sts pods = \<lparr>ka_sts = sample_client sts, ka_cm = sample_client None, ka_svc = sample_client None,
     ka_job = sample_client None, ka_secret = sample_client None, ka_deployment = sample_client None, ka_ds = sample_client None,
     ka_ListPods = (\<lambda>_. Inr pods), ka_ListDaemonSets = (\<lambda>_. Inr []), ka_Written = (\<lambda>obj. obj)\<rparr>"

definition sample_kenv :: "(nat \<Rightarrow> kube_api) \<Rightarrow> kenv" where
  "sample_kenv api = env.extend sample_env \<lparr>e_Kube = api, e_Codec = sample_codec\<rparr>"

definition sample_generator :: "string \<Rightarrow> string \<Rightarrow> config_generator" where
  "sample_generator f text = \<lparr>cg_FileName = f, cg_ConfigOverridesName = '''', cg_GlobalOverridesName = '''',
     cg_Format = ConfigFormatYson, cg_Generator = Inr (Some text)\<rparr>"

definition sample_builder :: config_map_builder where
  "sample_builder = \<lparr>cb_labeller = zero_labeller, cb_generators = [sample_generator ''a.yson'' ''{}''],
     cb_configOverrides = None, cb_overridesMap = object_meta zero_labeller '''' '''' Map.empty,
     cb_configMap = \<lparr>mr_name = ''config'', mr_old = object_meta zero_labeller '''' '''' Map.empty,
       mr_new = object_meta zero_labeller '''' '''' Map.empty\<rparr>\<rparr>"

definition sample_kube :: "cluster_state \<Rightarrow> update_status \<Rightarrow> condition list \<Rightarrow> kube" where
  "sample_kube state upd conds = comps.extend (sample_world state upd conds) \<lparr>k_calls = 0, k_requests = []\<rparr>"

theorem built_config_is_current_witness:
  "\<exists>h'. fst (run_state (builder_Build (sample_kenv (\<lambda>_. sample_api None [])) sample_builder)
           (sample_kube ClusterStateRunning empty_update_status [])) = (h', None) \<and>
     fst (run_state (needReload (sample_kenv (\<lambda>_. sample_api None []))
       (h'\<lparr>cb_configMap := (cb_configMap h')\<lparr>mr_old := (mr_new (cb_configMap h'))\<lparr>o_ResourceVersion := ''1''\<rparr>\<rparr>\<rparr>))
       (sample_kube ClusterStateRunning empty_update_status [])) = (ComponentStatusReady, None)"
proof -
  let ?E = "sample_kenv (\<lambda>_. sample_api None [])" and ?w = "sample_kube ClusterStateRunning empty_update_status []"
  obtain h' err w' where b: "run_state (builder_Build ?E sample_builder) ?w = ((h', err), w')" by (metis surj_pair)
  moreover have "snd (fst (run_state (builder_Build ?E sample_builder) ?w)) = None" by code_simp
  ultimately have "err = None" by simp
  note b = b[unfolded this]
  let ?obj = "(mr_new (cb_configMap h'))\<lparr>o_ResourceVersion := ''1''\<rparr>"
  have "stored_as (cb_configMap h') ?obj" by (simp add: stored_as_def annotation_of_def)
  moreover have "distinct (map cg_FileName (cb_generators sample_builder))" by (simp add: sample_builder_def)
  ultimately show ?thesis
    using built_config_is_current[OF b, of ?obj ?w] b by (auto simp: Let_def)
qed

end
