(* ===== verification/Server_Impl.thy ===== *)
theory Server_Impl
  imports Config_Map
begin

text \<open>
  The implementation of a server, \<open>serverImpl\<close> of \<open>pkg/components/server.go\<close>: a StatefulSet with its
  config maps and services.  The objects of the operator live in \<open>k_servers\<close>, by address; the
  built StatefulSet is the new object of the managed StatefulSet, as the pointers are the same.

  At the end \<open>serverImpl\<close> is shown to satisfy the contracts the components rely on.
\<close>

section \<open>State\<close>

record server_impl =
  si_labeller :: labeller
  si_image :: string
  si_sidecarImages :: "(string \<times> string) list"
  si_commonPodLabels :: "string \<rightharpoonup> string"
  si_instancePodLabels :: "string \<rightharpoonup> string"
  si_commonPodAnnotations :: "string \<rightharpoonup> string"
  si_instancePodAnnotations :: "string \<rightharpoonup> string"
  si_MinReadyInstanceCount :: "int option"
  si_instanceCount :: int
  si_statefulSet :: "stateful_set managed"
  si_built :: bool
  si_headlessService :: "service managed"
  si_monitoringService :: "service managed"
  si_configs :: config_map_builder
  si_timbertruckConfigs :: "config_map_builder option"
  si_timbertruckImage :: string
  si_builtStatefulSet :: bool
  si_updateStrategy :: "sts_update_strategy option"

record servers = kube +
  k_servers :: "nat \<Rightarrow> server_impl"

type_synonym ('x, 'a) sact = "('x servers_scheme, 'a) state"

definition get_server :: "nat \<Rightarrow> ('x, server_impl) sact" where
  "get_server a = reads (\<lambda>w. k_servers w a)"

definition upd_server :: "nat \<Rightarrow> (server_impl \<Rightarrow> server_impl) \<Rightarrow> ('x, unit) sact" where
  "upd_server a f = modifies (\<lambda>w. w\<lparr>k_servers := (k_servers w)(a := f (k_servers w a))\<rparr>)"

lemma run_server_access [simp]:
  "run_state (get_server a) w = (k_servers w a, w)"
  "run_state (upd_server a f) w = ((), w\<lparr>k_servers := (k_servers w)(a := f (k_servers w a))\<rparr>)"
  by (simp_all add: get_server_def upd_server_def)

section \<open>Fetching\<close>

definition fetch_statefulSet :: "'e kenv_scheme \<Rightarrow> nat \<Rightarrow> ('x, go_error) sact" where
  "fetch_statefulSet E a = do {
     s \<leftarrow> get_server a;
     (r, err) \<leftarrow> managed_Fetch ka_sts E (si_statefulSet s);
     upd_server a (\<lambda>s. s\<lparr>si_statefulSet := r\<rparr>);
     ret err
   }"

definition fetch_configs :: "'e kenv_scheme \<Rightarrow> nat \<Rightarrow> ('x, go_error) sact" where
  "fetch_configs E a = do {
     s \<leftarrow> get_server a;
     (h, err) \<leftarrow> builder_Fetch E (si_configs s);
     upd_server a (\<lambda>s. s\<lparr>si_configs := h\<rparr>);
     ret err
   }"

definition fetch_timbertruck :: "'e kenv_scheme \<Rightarrow> nat \<Rightarrow> ('x, go_error) sact" where
  "fetch_timbertruck E a = do {
     s \<leftarrow> get_server a;
     case si_timbertruckConfigs s of
       None \<Rightarrow> ret None
     | Some h0 \<Rightarrow> do {
         (h, err) \<leftarrow> builder_Fetch E h0;
         upd_server a (\<lambda>s. s\<lparr>si_timbertruckConfigs := Some h\<rparr>);
         ret err
       }
   }"

definition fetch_headless :: "'e kenv_scheme \<Rightarrow> nat \<Rightarrow> ('x, go_error) sact" where
  "fetch_headless E a = do {
     s \<leftarrow> get_server a;
     (r, err) \<leftarrow> managed_Fetch ka_svc E (si_headlessService s);
     upd_server a (\<lambda>s. s\<lparr>si_headlessService := r\<rparr>);
     ret err
   }"

definition fetch_monitoring :: "'e kenv_scheme \<Rightarrow> nat \<Rightarrow> ('x, go_error) sact" where
  "fetch_monitoring E a = do {
     s \<leftarrow> get_server a;
     (r, err) \<leftarrow> managed_Fetch ka_svc E (si_monitoringService s);
     upd_server a (\<lambda>s. s\<lparr>si_monitoringService := r\<rparr>);
     ret err
   }"

definition impl_Fetch :: "'e kenv_scheme \<Rightarrow> nat \<Rightarrow> ('x, go_error) sact" where
  "impl_Fetch E a = do {
     fetched \<leftarrow> resources_seq [Some (fetch_statefulSet E a), Some (fetch_configs E a), Some (fetch_timbertruck E a),
       Some (fetch_headless E a), Some (fetch_monitoring E a)];
     case fetched of
       Some err \<Rightarrow> ret (Some err)
     | None \<Rightarrow> do {
         s \<leftarrow> get_server a;
         case si_timbertruckConfigs s of
           None \<Rightarrow> ret None
         | Some h \<Rightarrow>
             if builder_Exists h then do {
               (status, err) \<leftarrow> needReload E h;
               ret (map_option (\<lambda>e. ''failed to check timbertruck configuration: '' @ e) err)
             } else ret None
       }
   }"

definition impl_Exists :: "server_impl \<Rightarrow> bool" where
  "impl_Exists s = resources_Exists [Some (managed_Exists (si_statefulSet s)), Some (builder_Exists (si_configs s)),
     map_option builder_Exists (si_timbertruckConfigs s), Some (managed_Exists (si_headlessService s)),
     Some (managed_Exists (si_monitoringService s))]"

section \<open>Looking for changes\<close>

abbreviation "YTServerContainerName \<equiv> ''ytserver''"
abbreviation "HydraPersistenceUploaderContainerName \<equiv> ''hydra-persistence-uploader''"
abbreviation "TimbertruckContainerName \<equiv> ''timbertruck''"

primrec image_loop :: "(string \<times> string) list \<Rightarrow> string \<Rightarrow> (string \<times> string) list \<Rightarrow> nat \<Rightarrow> bool" where
  "image_loop [] img sidecarImages found = (found = length sidecarImages)"
| "image_loop (container # containers) img sidecarImages found =
    (let (name, containerImage) = container
     in if name = YTServerContainerName then
          if containerImage \<noteq> img then False else image_loop containers img sidecarImages found
        else if name = HydraPersistenceUploaderContainerName \<or> name = TimbertruckContainerName then
          if map_of sidecarImages name \<noteq> Some containerImage then False
          else image_loop containers img sidecarImages (Suc found)
        else image_loop containers img sidecarImages found)"

definition podsImageCorrespondsToSpec :: "server_impl \<Rightarrow> bool" where
  "podsImageCorrespondsToSpec s =
    image_loop (ss_Containers (o_Content (mr_old (si_statefulSet s)))) (si_image s) (si_sidecarImages s) 0"

definition timbertruckConfigNeedsReload :: "'e kenv_scheme \<Rightarrow> nat \<Rightarrow> ('x, bool) sact" where
  "timbertruckConfigNeedsReload E a = do {
     s \<leftarrow> get_server a;
     case si_timbertruckConfigs s of
       None \<Rightarrow> ret False
     | Some h \<Rightarrow>
         if \<not> builder_Exists h then ret True
         else do {
           (status, err) \<leftarrow> needReload E h;
           ret (err = None \<and> IsNeedUpdate status)
         }
   }"

definition impl_needUpdate :: "'e kenv_scheme \<Rightarrow> nat \<Rightarrow> ('x, component_status) sact" where
  "impl_needUpdate E a = do {
     s \<leftarrow> get_server a;
     if \<not> impl_Exists s then ret (ComponentStatusPending ''init'')
     else if \<not> podsImageCorrespondsToSpec s then ret (ComponentStatusNeedUpdate ''image update'')
     else do {
       (status, err) \<leftarrow> needReload E (si_configs s);
       ret (if err = None \<and> IsNeedUpdate status then status else ComponentStatusReady)
     }
   }"

definition GetReplicas :: "server_impl \<Rightarrow> int" where
  "GetReplicas s = ptr_deref (ss_Replicas (o_Content (mr_old (si_statefulSet s)))) 1"

definition impl_needSync :: "'e kenv_scheme \<Rightarrow> nat \<Rightarrow> bool \<Rightarrow> ('x, bool) sact" where
  "impl_needSync E a updating = do {
     update \<leftarrow> (if updating then do { status \<leftarrow> impl_needUpdate E a; ret (IsNeedUpdate status) } else ret False);
     if update then ret True
     else do {
       s \<leftarrow> get_server a;
       if \<not> impl_Exists s then ret True
       else do {
         reload \<leftarrow> timbertruckConfigNeedsReload E a;
         ret (reload \<or> GetReplicas s \<noteq> si_instanceCount s)
       }
     }
   }"

section \<open>Building and synchronising\<close>

definition zero_strategy :: sts_update_strategy where
  "zero_strategy = \<lparr>ust_Type = None, ust_RollingUpdate = None\<rparr>"

definition new_stateful_set :: "labeller \<Rightarrow> stateful_set" where
  "new_stateful_set l = \<lparr>ss_Generation = 0, ss_Replicas = None, ss_ServiceName = '''', ss_UpdateStrategy = zero_strategy,
     ss_TemplateLabels = ptr_deref (GetMetaLabelMap l False) Map.empty, ss_TemplateAnnotations = l_Annotations l,
     ss_Containers = [], ss_ObservedGeneration = 0, ss_CurrentRevision = '''', ss_UpdateRevision = '''',
     ss_UpdatedReplicas = 0, ss_AvailableReplicas = 0\<rparr>"

text \<open>\<open>StatefulSet.Build\<close>: the new object is initialised once.\<close>

definition sts_Build :: "server_impl \<Rightarrow> server_impl" where
  "sts_Build s =
    (if si_built s then s
     else s\<lparr>si_built := True, si_statefulSet := (si_statefulSet s)\<lparr>mr_new :=
            object_meta (si_labeller s) (mr_name (si_statefulSet s)) ''*v1.StatefulSet'' (new_stateful_set (si_labeller s))\<rparr>\<rparr>)"

definition map_new :: "(stateful_set \<Rightarrow> stateful_set) \<Rightarrow> server_impl \<Rightarrow> server_impl" where
  "map_new f s = s\<lparr>si_statefulSet := (si_statefulSet s)\<lparr>mr_new :=
     (mr_new (si_statefulSet s))\<lparr>o_Content := f (o_Content (mr_new (si_statefulSet s)))\<rparr>\<rparr>\<rparr>"

text \<open>
  Of the pod template the labels, annotations, containers and their images; a server is created with
  at least one configuration file, so the panic without one is not reached.
\<close>

definition rebuildStatefulSet :: "server_impl \<Rightarrow> server_impl" where
  "rebuildStatefulSet s0 =
    (let s = sts_Build s0
     in (map_new (\<lambda>ss. ss
          \<lparr>ss_TemplateLabels := ss_TemplateLabels ss ++ si_commonPodLabels s ++ si_instancePodLabels s,
           ss_TemplateAnnotations := ss_TemplateAnnotations ss ++ si_commonPodAnnotations s ++ si_instancePodAnnotations s,
           ss_Replicas := Some (si_instanceCount s),
           ss_ServiceName := mr_name (si_headlessService s),
           ss_UpdateStrategy := (case si_updateStrategy s of None \<Rightarrow> ss_UpdateStrategy ss | Some st \<Rightarrow> st),
           ss_Containers := (YTServerContainerName, si_image s) #
             (if si_timbertruckConfigs s \<noteq> None then [(TimbertruckContainerName, si_timbertruckImage s)] else [])\<rparr>) s)
        \<lparr>si_builtStatefulSet := True\<rparr>)"

definition buildStatefulSet :: "server_impl \<Rightarrow> server_impl" where
  "buildStatefulSet s = (if si_builtStatefulSet s then s else rebuildStatefulSet s)"

definition setConfigHash :: "config_map k8s_object \<Rightarrow> server_impl \<Rightarrow> server_impl \<times> go_error" where
  "setConfigHash cm s =
    (let configHash = ptr_deref (annotation_of cm ConfigHashAnnotationName) ''''
     in if configHash = '''' then (s, Some (''config hash is not found for '' @ o_Name cm))
        else (map_new (\<lambda>ss. ss\<lparr>ss_TemplateAnnotations := (ss_TemplateAnnotations ss)(ConfigHashAnnotationName \<mapsto> configHash)\<rparr>) s, None))"

definition setInstanceHash :: "config_codec \<Rightarrow> server_impl \<Rightarrow> server_impl \<times> go_error" where
  "setInstanceHash C s =
    (let ss = o_Content (mr_new (si_statefulSet s))
     in case cc_HashTemplate C (ss_TemplateLabels ss) (ss_TemplateAnnotations ss) (ss_Containers ss) of
       Inl err \<Rightarrow> (s, Some err)
     | Inr instanceHash \<Rightarrow> (s\<lparr>si_statefulSet := (si_statefulSet s)\<lparr>mr_new :=
         SetMetaDataAnnotation ''ytsaurus.tech/instance-hash'' instanceHash (mr_new (si_statefulSet s))\<rparr>\<rparr>, None))"

definition build_service :: "labeller \<Rightarrow> string \<Rightarrow> service managed \<Rightarrow> service managed" where
  "build_service l clusterIP r = r\<lparr>mr_new := object_meta l (mr_name r) ''*v1.Service''
     \<lparr>svc_Type = '''', svc_ClusterIP = clusterIP, svc_Selector = ptr_deref (GetSelectorLabelMap l) Map.empty\<rparr>\<rparr>"

definition build_timbertruck :: "'e kenv_scheme \<Rightarrow> nat \<Rightarrow> ('x, go_error) sact" where
  "build_timbertruck E a = do {
     s \<leftarrow> get_server a;
     case si_timbertruckConfigs s of
       None \<Rightarrow> ret None
     | Some h \<Rightarrow> do {
         (h1, err) \<leftarrow> builder_Build E h;
         upd_server a (\<lambda>s. s\<lparr>si_timbertruckConfigs := Some h1\<rparr>);
         ret err
       }
   }"

text \<open>The in-memory part of \<open>Sync\<close>, between building the config maps and writing.\<close>

definition build_objects :: "config_codec \<Rightarrow> server_impl \<Rightarrow> server_impl \<times> go_error" where
  "build_objects C s =
    (let l = si_labeller s;
         s1 = buildStatefulSet (s\<lparr>si_headlessService := build_service l ''None'' (si_headlessService s),
                                  si_monitoringService := build_service l '''' (si_monitoringService s)\<rparr>);
         (s2, err) = setConfigHash (mr_new (cb_configMap (si_configs s))) s1
     in case err of Some e \<Rightarrow> (s2, Some e) | None \<Rightarrow> setInstanceHash C s2)"

definition impl_Sync :: "'e kenv_scheme \<Rightarrow> nat \<Rightarrow> ('x, go_error) sact" where
  "impl_Sync E a = do {
     s \<leftarrow> get_server a;
     (h, err) \<leftarrow> builder_Build E (si_configs s);
     upd_server a (\<lambda>s. s\<lparr>si_configs := h\<rparr>);
     case err of
       Some e \<Rightarrow> ret (Some e)
     | None \<Rightarrow> do {
         built \<leftarrow> build_timbertruck E a;
         case built of
           Some e \<Rightarrow> ret (Some e)
         | None \<Rightarrow> do {
             s1 \<leftarrow> get_server a;
             let (s2, err2) = build_objects (e_Codec E) s1;
             upd_server a (\<lambda>_. s2);
             case err2 of
               Some e \<Rightarrow> ret (Some e)
             | None \<Rightarrow> resources_seq
                 [Some (managed_Sync ka_sts StsRequest E (si_statefulSet s2)),
                  Some (builder_Sync E (si_configs s2)),
                  map_option (builder_Sync E) (si_timbertruckConfigs s2),
                  Some (managed_Sync ka_svc SvcRequest E (si_headlessService s2)),
                  Some (managed_Sync ka_svc SvcRequest E (si_monitoringService s2))]
           }
       }
   }"

definition impl_removePods :: "'e kenv_scheme \<Rightarrow> nat \<Rightarrow> ('x, go_error) sact" where
  "impl_removePods E a = do {
     upd_server a (\<lambda>s. map_new (\<lambda>ss. ss\<lparr>ss_Replicas := Some 0\<rparr>) (rebuildStatefulSet s));
     impl_Sync E a
   }"

definition setUpdateStrategy :: "sts_strategy_type \<Rightarrow> int \<Rightarrow> int \<Rightarrow> server_impl \<Rightarrow> server_impl" where
  "setUpdateStrategy strategy partition0 maxUnavailable s =
    (let st = \<lparr>ust_Type = Some strategy,
               ust_RollingUpdate = (if strategy = RollingUpdateStatefulSetStrategyType
                 then Some \<lparr>ru_Partition = Some partition0, ru_MaxUnavailable = Some maxUnavailable\<rparr> else None)\<rparr>;
         s1 = s\<lparr>si_updateStrategy := Some st\<rparr>
     in if si_builtStatefulSet s1 then map_new (\<lambda>ss. ss\<lparr>ss_UpdateStrategy := st\<rparr>) s1 else s1)"

section \<open>Progress of an update\<close>

text \<open>\<open>None\<close>: there is no StatefulSet, or its status does not yet reflect its specification.\<close>

definition fetchAndValidateStatefulSet :: "'e kenv_scheme \<Rightarrow> nat \<Rightarrow> ('x, stateful_set option \<times> go_error) sact" where
  "fetchAndValidateStatefulSet E a = do {
     s \<leftarrow> get_server a;
     if \<not> managed_Exists (si_statefulSet s) then ret (None, None)
     else do {
       fetched \<leftarrow> fetch_statefulSet E a;
       case fetched of
         Some err \<Rightarrow> ret (None, Some err)
       | None \<Rightarrow> do {
           s1 \<leftarrow> get_server a;
           let sts = o_Content (mr_old (si_statefulSet s1));
           ret (if ss_UpdateRevision sts = '''' \<or> ss_Generation sts \<noteq> ss_ObservedGeneration sts then None else Some sts, None)
         }
     }
   }"

definition impl_getRollingUpdateStatus :: "'e kenv_scheme \<Rightarrow> nat \<Rightarrow> ('x, sts_rolling_status option \<times> go_error) sact" where
  "impl_getRollingUpdateStatus E a = do {
     (found, err) \<leftarrow> fetchAndValidateStatefulSet E a;
     ret (case (err, found) of
            (None, Some sts) \<Rightarrow>
              (Some \<lparr>rs_partition = (case ust_RollingUpdate (ss_UpdateStrategy sts) of
                       None \<Rightarrow> 0 | Some ru \<Rightarrow> ptr_deref (ru_Partition ru) 0),
                     rs_availableReplicas = ss_AvailableReplicas sts,
                     rs_updatedReplicas = ss_UpdatedReplicas sts,
                     rs_totalCount = ptr_deref (ss_Replicas sts) 1,
                     rs_updateRevision = ss_UpdateRevision sts,
                     rs_currentRevision = ss_CurrentRevision sts\<rparr>, None)
          | _ \<Rightarrow> (None, err))
   }"

definition impl_listPods :: "'e kenv_scheme \<Rightarrow> nat \<Rightarrow> ('x, string + pod list) sact" where
  "impl_listPods E a = do {
     s \<leftarrow> get_server a;
     api \<leftarrow> api_call E;
     ret (ka_ListPods api (si_labeller s))
   }"

definition impl_minReady :: "nat \<Rightarrow> int \<Rightarrow> 'x servers_scheme \<Rightarrow> int" where
  "impl_minReady a margin w =
    min_ready_count (si_MinReadyInstanceCount (k_servers w a)) (si_instanceCount (k_servers w a)) margin"

text \<open>\<open>*sts.Spec.Replicas\<close> of a nil pointer panics; the API server always sets it, the default is 1.\<close>

definition impl_arePodsUpdatedToNewRevision :: "'e kenv_scheme \<Rightarrow> nat \<Rightarrow> ('x, bool) sact" where
  "impl_arePodsUpdatedToNewRevision E a = do {
     (found, err) \<leftarrow> fetchAndValidateStatefulSet E a;
     case (err, found) of
       (None, Some sts) \<Rightarrow>
         if ust_Type (ss_UpdateStrategy sts) = Some OnDeleteStatefulSetStrategyType then do {
           listed \<leftarrow> impl_listPods E a;
           case listed of
             Inl _ \<Rightarrow> ret False
           | Inr pods \<Rightarrow> do {
               minReady \<leftarrow> reads (impl_minReady a 0);
               ret (fst (evaluateOnDeleteCompletion pods (ss_UpdateRevision sts) (ptr_deref (ss_Replicas sts) 1) minReady))
             }
         } else ret (ss_CurrentRevision sts = ss_UpdateRevision sts)
     | _ \<Rightarrow> ret False
   }"

section \<open>The method table\<close>

definition serverImpl :: "'e kenv_scheme \<Rightarrow> nat \<Rightarrow> 'x servers_ext kube_ext server" where
  "serverImpl E a =
    \<lparr>pm_getInstanceCount = (\<lambda>w. si_instanceCount (k_servers w a)),
     pm_getMinReadyInstanceCount = impl_minReady a,
     pm_listPods = impl_listPods E a,
     pm_removePods = impl_removePods E a,
     pm_podsImageCorrespondsToSpec = (\<lambda>w. podsImageCorrespondsToSpec (k_servers w a)),
     pm_arePodsUpdatedToNewRevision = impl_arePodsUpdatedToNewRevision E a,
     srv_Fetch = impl_Fetch E a,
     srv_Exists = (\<lambda>w. impl_Exists (k_servers w a)),
     srv_Sync = impl_Sync E a,
     srv_setUpdateStrategy = (\<lambda>strategy partition0 maxUnavailable.
       upd_server a (setUpdateStrategy strategy partition0 maxUnavailable)),
     srv_getRollingUpdateStatus = impl_getRollingUpdateStatus E a,
     srv_needUpdate = impl_needUpdate E a,
     srv_needSync = impl_needSync E a\<rparr>"

lemma serverImpl_simps [simp]:
  "pm_getInstanceCount (serverImpl E a) w = si_instanceCount (k_servers w a)"
  "pm_getMinReadyInstanceCount (serverImpl E a) = impl_minReady a"
  "pm_listPods (serverImpl E a) = impl_listPods E a"
  "pm_removePods (serverImpl E a) = impl_removePods E a"
  "pm_arePodsUpdatedToNewRevision (serverImpl E a) = impl_arePodsUpdatedToNewRevision E a"
  "srv_Fetch (serverImpl E a) = impl_Fetch E a"
  "srv_Exists (serverImpl E a) w = impl_Exists (k_servers w a)"
  "srv_Sync (serverImpl E a) = impl_Sync E a"
  "srv_setUpdateStrategy (serverImpl E a) t p m = upd_server a (setUpdateStrategy t p m)"
  "srv_getRollingUpdateStatus (serverImpl E a) = impl_getRollingUpdateStatus E a"
  "srv_needUpdate (serverImpl E a) = impl_needUpdate E a"
  "srv_needSync (serverImpl E a) = impl_needSync E a"
  by (simp_all add: serverImpl_def)

section \<open>Contracts\<close>

locale server_reading = reading R for R :: "'x servers_scheme \<Rightarrow> 'x servers_scheme \<Rightarrow> bool" +
  assumes R_servers: "R w (w\<lparr>k_servers := f\<rparr>)"
begin

lemma kept_server_access: "kept R (get_server a)" "kept R (upd_server a g)"
  unfolding get_server_def upd_server_def by (intro kept_reads preord_R kept_modifies R_servers)+

lemmas read_intros = kept_intros preord_R kept_server_access kept_api_call kept_managed_Fetch kept_builder

lemma kept_fetch_parts:
  "kept R (fetch_statefulSet E a)" "kept R (fetch_configs E a)" "kept R (fetch_timbertruck E a)"
  "kept R (fetch_headless E a)" "kept R (fetch_monitoring E a)"
  unfolding fetch_statefulSet_def fetch_configs_def fetch_timbertruck_def fetch_headless_def fetch_monitoring_def
  by (intro read_intros)+

lemma kept_impl_Fetch: "kept R (impl_Fetch E a)"
  unfolding impl_Fetch_def by (intro read_intros kept_resources_seq; auto intro: kept_fetch_parts)

lemma kept_impl_listPods: "kept R (impl_listPods E a)"
  unfolding impl_listPods_def by (intro read_intros)

lemma kept_impl_needUpdate: "kept R (impl_needUpdate E a)"
  unfolding impl_needUpdate_def by (intro read_intros)

lemma kept_impl_needSync: "kept R (impl_needSync E a b)"
  unfolding impl_needSync_def timbertruckConfigNeedsReload_def by (intro read_intros kept_impl_needUpdate)

lemma kept_fetchAndValidate: "kept R (fetchAndValidateStatefulSet E a)"
  unfolding fetchAndValidateStatefulSet_def by (intro read_intros kept_fetch_parts)

lemma kept_impl_getRollingUpdateStatus: "kept R (impl_getRollingUpdateStatus E a)"
  unfolding impl_getRollingUpdateStatus_def by (intro read_intros kept_fetchAndValidate)

lemma kept_impl_arePodsUpdated: "kept R (impl_arePodsUpdatedToNewRevision E a)"
  unfolding impl_arePodsUpdatedToNewRevision_def by (intro read_intros kept_fetchAndValidate kept_impl_listPods)

lemma kept_build_timbertruck: "kept R (build_timbertruck E a)"
  unfolding build_timbertruck_def by (intro read_intros)

lemmas kept_impl_reads = kept_impl_Fetch kept_impl_listPods kept_impl_needUpdate kept_impl_needSync
  kept_impl_getRollingUpdateStatus kept_impl_arePodsUpdated kept_server_access

end

locale server_bookkeeping = server_reading R + bookkeeping R for R :: "'x servers_scheme \<Rightarrow> 'x servers_scheme \<Rightarrow> bool"
begin

lemma kept_optional_Sync: "Some m = map_option (builder_Sync E) h \<Longrightarrow> kept R m"
  by (cases h) (simp_all add: kept_builder_Sync)

lemma kept_impl_Sync: "kept R (impl_Sync E a)"
  unfolding impl_Sync_def
  by (intro read_intros kept_build_timbertruck kept_resources_seq;
      auto intro: kept_managed_Sync kept_builder_Sync kept_optional_Sync)

lemma kept_impl_removePods: "kept R (impl_removePods E a)"
  unfolding impl_removePods_def by (intro kept_intros preord_R kept_server_access kept_impl_Sync)

end

interpretation sq: server_bookkeeping keeps
  by unfold_locales (simp add: keeps_def same_control_def GetClusterState_def GetUpdateState_def
      GetUpdatingComponents_def conds_wf_def status_of_cond_def)

interpretation sr: server_reading no_request
  by unfold_locales (simp add: no_request_def)

interpretation su: server_bookkeeping same_update_conditions
  by unfold_locales (simp add: same_update_conditions_def)

text \<open>The server satisfies the contracts its clients rely on.\<close>

interpretation impl: server_contract "serverImpl E a" for E :: "'e kenv_scheme" and a
  by unfold_locales (simp_all add: sq.kept_impl_reads sq.kept_impl_Sync sq.kept_impl_removePods)

interpretation impl_read: server_reader E "serverImpl E a" no_request for E :: "'e kenv_scheme" and a
  by unfold_locales (simp_all add: sr.kept_impl_reads preord_no_request, simp add: no_request_def)

end
