(* ===== verification/Server_Updates.thy ===== *)
theory Server_Updates
  imports Server_Impl
begin

text \<open>
  What an update does to the StatefulSet of a server: the requests a server issues, the safety of
  rolling updates, and the removal of pods.
\<close>

section \<open>Requests of an action\<close>

definition issues :: "(kube_request \<Rightarrow> bool) \<Rightarrow> 'x kube_scheme \<Rightarrow> 'x kube_scheme \<Rightarrow> bool" where
  "issues P w w' \<longleftrightarrow> (\<exists>reqs. k_requests w' = k_requests w @ reqs \<and> list_all P reqs)"

lemma preord_issues [kept_intros]: "preord (issues P)"
proof -
  have "issues P u w" if "issues P u v" "issues P v w" for u v w :: "'x kube_scheme"
    using that by (force simp: issues_def)
  then show ?thesis unfolding preord_def reflp_def transp_def by (auto simp: issues_def)
qed

lemma issues_no_request: "no_request w w' \<Longrightarrow> issues P w w'"
  by (auto simp: no_request_def issues_def)

lemma kept_issues_no_request: "kept no_request m \<Longrightarrow> kept (issues P) m"
  by (auto intro!: keptI issues_no_request dest: keptD)

text \<open>The StatefulSets written by requests.\<close>

fun sts_write :: "kube_request \<Rightarrow> stateful_set option" where
  "sts_write (StsRequest (CreateObject obj)) = Some (o_Content obj)"
| "sts_write (StsRequest (UpdateObject obj)) = Some (o_Content obj)"
| "sts_write _ = None"

abbreviation writes_sts :: "(stateful_set \<Rightarrow> bool) \<Rightarrow> kube_request \<Rightarrow> bool" where
  "writes_sts Q \<equiv> (\<lambda>req. pred_option Q (sts_write req))"

text \<open>
  Documented behaviour of \<open>controllerutil.SetControllerReference\<close>: it only sets an owner reference in
  the metadata of the object.
\<close>

definition keeps_content :: "'e kenv_scheme \<Rightarrow> bool" where
  "keeps_content E \<longleftrightarrow> (\<forall>n obj. o_Content (fst (oc_SetControllerReference (ka_sts (e_Kube E n)) obj)) = o_Content obj)"

lemma SyncObject_content:
  assumes "SyncObject C a b w = (w', reqs, err)" "\<And>obj. o_Content (fst (oc_SetControllerReference C obj)) = o_Content obj"
  shows "list_all (\<lambda>r. (\<exists>obj. o_Content obj = o_Content b \<and> (r = CreateObject obj \<or> r = UpdateObject obj))) reqs"
proof -
  have ref: "o_Content owned = o_Content obj" if "oc_SetControllerReference C obj = (owned, e)" for obj owned e
    using assms(2)[of obj] that by simp
  show ?thesis using assms(1)
    by (auto simp: SyncObject_def createAndReferenceObject_def updateObject_def Let_def dest!: ref
        split: if_splits option.splits prod.splits)
qed

lemma requests_managed_Sync:
  assumes "run_state (managed_Sync cl rq E r) w = (err, w')"
  obtains reqs w1 err' where "SyncObject (cl (e_Kube E (k_calls w))) (mr_old r) (mr_new r) (w\<lparr>k_calls := Suc (k_calls w)\<rparr>) = (w1, reqs, err')"
    "k_requests w' = k_requests w @ map rq reqs"
proof -
  let ?w = "w\<lparr>k_calls := Suc (k_calls w)\<rparr>"
  obtain w1 reqs err' where s: "SyncObject (cl (e_Kube E (k_calls w))) (mr_old r) (mr_new r) ?w = (w1, reqs, err')"
    by (metis prod_cases3)
  then have "k_requests w1 = k_requests w"
    by (auto simp: SyncObject_def createAndReferenceObject_def updateObject_def Let_def
        split: if_splits option.splits prod.splits)
  with s assms have "k_requests w' = k_requests w @ map rq reqs"
    by (auto simp: managed_Sync_def api_call_def add_requests_def)
  with s that show thesis by blast
qed

lemma issues_managed_Sync_other:
  assumes "\<And>r. P (rq r)" shows "kept (issues P) (managed_Sync cl rq E r)"
proof (rule keptI)
  fix w obtain err w' where r: "run_state (managed_Sync cl rq E r) w = (err, w')" by fastforce
  obtain reqs where "k_requests w' = k_requests w @ map rq reqs" by (rule requests_managed_Sync[OF r])
  with r show "issues P w (snd (run_state (managed_Sync cl rq E r) w))"
    using assms by (auto simp: issues_def list_all_iff)
qed

lemma issues_managed_Sync_sts:
  assumes "keeps_content E" "Q (o_Content (mr_new r))"
  shows "kept (issues (writes_sts Q)) (managed_Sync ka_sts StsRequest E r)"
proof (rule keptI)
  fix w obtain err w' where r: "run_state (managed_Sync ka_sts StsRequest E r) w = (err, w')" by fastforce
  obtain reqs w1 err' where s: "SyncObject (ka_sts (e_Kube E (k_calls w))) (mr_old r) (mr_new r) (w\<lparr>k_calls := Suc (k_calls w)\<rparr>) = (w1, reqs, err')"
    "k_requests w' = k_requests w @ map StsRequest reqs" by (rule requests_managed_Sync[OF r])
  have "list_all (\<lambda>r'. (\<exists>obj. o_Content obj = o_Content (mr_new r) \<and> (r' = CreateObject obj \<or> r' = UpdateObject obj))) reqs"
    by (rule SyncObject_content[OF s(1)]) (use assms(1) in \<open>simp add: keeps_content_def\<close>)
  then have "list_all (writes_sts Q) (map StsRequest reqs)"
    using assms(2) by (fastforce simp: list_all_iff)
  with r s(2) show "issues (writes_sts Q) w (snd (run_state (managed_Sync ka_sts StsRequest E r) w))"
    by (auto simp: issues_def)
qed

lemma issues_builder_Sync: "kept (issues (writes_sts Q)) (builder_Sync E h)"
  unfolding builder_Sync_def
  by (intro kept_intros kept_issues_no_request[OF rq.kept_needReload] issues_managed_Sync_other) simp

section \<open>The StatefulSet a server writes\<close>

abbreviation new_sts :: "server_impl \<Rightarrow> stateful_set" where
  "new_sts s \<equiv> o_Content (mr_new (si_statefulSet s))"

lemma new_sts_simps [simp]:
  "new_sts (map_new f s) = f (new_sts s)"
  "new_sts (s\<lparr>si_builtStatefulSet := b\<rparr>) = new_sts s"
  "si_updateStrategy (map_new f s) = si_updateStrategy s"
  "si_builtStatefulSet (map_new f s) = si_builtStatefulSet s"
  "si_instanceCount (map_new f s) = si_instanceCount s"
  by (simp_all add: map_new_def)

lemma sts_Build_fields [simp]:
  "si_updateStrategy (sts_Build s) = si_updateStrategy s"
  "si_instanceCount (sts_Build s) = si_instanceCount s"
  by (simp_all add: sts_Build_def)

lemma build_objects_new:
  assumes "build_objects C s = (s2, None)"
  shows "si_builtStatefulSet s \<Longrightarrow> ss_UpdateStrategy (new_sts s2) = ss_UpdateStrategy (new_sts s) \<and> ss_Replicas (new_sts s2) = ss_Replicas (new_sts s)"
    and "\<not> si_builtStatefulSet s \<Longrightarrow> si_updateStrategy s = Some st \<Longrightarrow> ss_UpdateStrategy (new_sts s2) = st"
  using assms
  by (auto simp: build_objects_def Let_def buildStatefulSet_def rebuildStatefulSet_def setConfigHash_def
      setInstanceHash_def SetMetaDataAnnotation_def split: if_splits sum.splits option.splits)

text \<open>
  \<open>impl_Sync\<close> only writes StatefulSets that satisfy \<open>Q\<close>, if building the server in memory, whatever
  its config maps, gives one.
\<close>

definition config_change :: "server_impl \<Rightarrow> server_impl \<Rightarrow> bool" where
  "config_change s s' \<longleftrightarrow> si_updateStrategy s' = si_updateStrategy s \<and> si_builtStatefulSet s' = si_builtStatefulSet s \<and>
     si_statefulSet s' = si_statefulSet s"

lemma k_servers_frame [simp]:
  "k_servers (RecordNormal r m w) = k_servers w" "k_servers (RecordWarning r m w) = k_servers w"
  by (simp_all add: RecordNormal_def RecordWarning_def)

definition same_servers :: "'x servers_scheme \<Rightarrow> 'x servers_scheme \<Rightarrow> bool" where
  "same_servers w w' \<longleftrightarrow> k_servers w' = k_servers w"

lemma preord_same_servers [kept_intros]: "preord same_servers"
  by (auto simp: preord_def reflp_def transp_def same_servers_def)

interpretation ss: reading same_servers
  by unfold_locales (simp_all add: preord_same_servers, simp_all add: same_servers_def)

lemma impl_Sync_issues:
  assumes "keeps_content E"
    and Q: "\<And>s s2. config_change (k_servers w a) s \<Longrightarrow> build_objects (e_Codec E) s = (s2, None) \<Longrightarrow> Q (new_sts s2)"
  shows "issues (writes_sts Q) w (snd (run_state (impl_Sync E a) w))"
proof -
  let ?s = "k_servers w a"
  obtain h err w1 where b: "run_state (builder_Build E (si_configs ?s)) w = ((h, err), w1)" by (metis surj_pair)
  have w1: "k_servers w1 = k_servers w" "no_request w w1"
    using keptD_eq[OF ss.kept_builder_Build b] keptD_eq[OF rq.kept_builder_Build b] by (auto simp: same_servers_def)
  let ?w2 = "w1\<lparr>k_servers := (k_servers w1)(a := (k_servers w1 a)\<lparr>si_configs := h\<rparr>)\<rparr>"
  have w2: "no_request w ?w2" "config_change ?s (k_servers ?w2 a)"
    using w1 by (auto simp: no_request_def config_change_def)
  obtain built w3 where t: "run_state (build_timbertruck E a) ?w2 = (built, w3)" by fastforce
  have w3: "no_request w w3" "config_change ?s (k_servers w3 a)"
  proof -
    show "config_change ?s (k_servers w3 a)"
    proof (cases "si_timbertruckConfigs (k_servers ?w2 a)")
      case (Some h0)
      obtain h1 e1 v where r: "run_state (builder_Build E h0) ?w2 = ((h1, e1), v)" by (metis surj_pair)
      then have "k_servers v = k_servers ?w2" using keptD_eq[OF ss.kept_builder_Build r] by (simp add: same_servers_def)
      with t r Some w2(2) show ?thesis
        by (auto simp: build_timbertruck_def config_change_def)
    qed (use t w2(2) in \<open>simp add: build_timbertruck_def\<close>)
    from preordD(2)[OF preord_no_request w2(1) keptD_eq[OF sr.kept_build_timbertruck t]] show "no_request w w3" .
  qed
  obtain s2 err2 where o: "build_objects (e_Codec E) (k_servers w3 a) = (s2, err2)" by fastforce
  let ?w4 = "w3\<lparr>k_servers := (k_servers w3)(a := s2)\<rparr>"
  have w4: "no_request w ?w4" using w3(1) by (simp add: no_request_def)
  let ?rest = "resources_seq
                 [Some (managed_Sync ka_sts StsRequest E (si_statefulSet s2)),
                  Some (builder_Sync E (si_configs s2)),
                  map_option (builder_Sync E) (si_timbertruckConfigs s2),
                  Some (managed_Sync ka_svc SvcRequest E (si_headlessService s2)),
                  Some (managed_Sync ka_svc SvcRequest E (si_monitoringService s2))]"
  have "kept (issues (writes_sts Q)) ?rest" if "err2 = None"
  proof -
    have sts: "kept (issues (writes_sts Q)) (managed_Sync ka_sts StsRequest E (si_statefulSet s2))"
      using Q[OF w3(2)] o that by (intro issues_managed_Sync_sts assms(1)) auto
    have opt: "kept (issues (writes_sts Q)) m" if "Some m = map_option (builder_Sync E) h'" for m h'
      using that issues_builder_Sync by (cases h') auto
    show ?thesis
      by (rule kept_resources_seq[OF preord_issues])
         (auto intro: sts opt issues_builder_Sync issues_managed_Sync_other)
  qed
  then have "issues (writes_sts Q) ?w4 (snd (run_state ?rest ?w4))" if "err2 = None"
    using that by (blast intro: keptD)
  then have last: "issues (writes_sts Q) w (snd (run_state ?rest ?w4))" if "err2 = None"
    using that preordD(2)[OF preord_issues issues_no_request[OF w4]] by blast
  show ?thesis
    using b t o last issues_no_request[OF w3(1)] issues_no_request[OF w4] issues_no_request[OF w2(1)]
    by (simp add: impl_Sync_def Let_def del: resources_seq.simps split: option.splits)
qed

section \<open>Rolling updates stay within their budget\<close>

definition sts_strategy_of :: "sts_strategy_type \<Rightarrow> int \<Rightarrow> int \<Rightarrow> sts_update_strategy" where
  "sts_strategy_of t p m = \<lparr>ust_Type = Some t, ust_RollingUpdate = (if t = RollingUpdateStatefulSetStrategyType
     then Some \<lparr>ru_Partition = Some p, ru_MaxUnavailable = Some m\<rparr> else None)\<rparr>"

lemma setUpdateStrategy_state:
  "si_updateStrategy (setUpdateStrategy t p m s) = Some (sts_strategy_of t p m)"
  "si_builtStatefulSet (setUpdateStrategy t p m s) \<Longrightarrow> ss_UpdateStrategy (new_sts (setUpdateStrategy t p m s)) = sts_strategy_of t p m"
  by (auto simp: setUpdateStrategy_def sts_strategy_of_def Let_def)

lemma strategy_Sync_issues:
  assumes "keeps_content E" "\<And>ss. ss_UpdateStrategy ss = sts_strategy_of t p m \<Longrightarrow> Q ss"
  shows "kept (issues (writes_sts Q)) (State_Monad.bind (upd_server a (setUpdateStrategy t p m)) (\<lambda>_. impl_Sync E a))"
proof (rule keptI)
  fix w :: "'x servers_scheme"
  let ?s = "setUpdateStrategy t p m (k_servers w a)"
  let ?w = "w\<lparr>k_servers := (k_servers w)(a := ?s)\<rparr>"
  have "issues (writes_sts Q) ?w (snd (run_state (impl_Sync E a) ?w))"
  proof (rule impl_Sync_issues[OF assms(1)])
    fix s s2 assume ch: "config_change (k_servers ?w a) s" and b: "build_objects (e_Codec E) s = (s2, None)"
    then have "si_updateStrategy s = Some (sts_strategy_of t p m)"
      "si_builtStatefulSet s \<Longrightarrow> ss_UpdateStrategy (new_sts s) = sts_strategy_of t p m"
      using setUpdateStrategy_state[of t p m "k_servers w a"] by (auto simp: config_change_def)
    with build_objects_new[OF b] show "Q (new_sts s2)" by (cases "si_builtStatefulSet s") (auto intro: assms(2))
  qed
  then show "issues (writes_sts Q) w (snd (run_state (State_Monad.bind (upd_server a (setUpdateStrategy t p m)) (\<lambda>_. impl_Sync E a)) w))"
    by (simp add: issues_def)
qed

text \<open>A status the StatefulSet controller can report.\<close>

definition roll_wf :: "sts_rolling_status \<Rightarrow> bool" where
  "roll_wf roll \<longleftrightarrow> int32 (rs_totalCount roll) \<and> 0 \<le> rs_partition roll \<and> rs_partition roll \<le> rs_totalCount roll \<and>
     0 \<le> rs_updatedReplicas roll \<and> rs_updatedReplicas roll \<le> rs_totalCount roll \<and>
     0 \<le> rs_availableReplicas roll \<and> rs_availableReplicas roll \<le> rs_totalCount roll"

text \<open>
  A StatefulSet that respects the budget \<open>m\<close> in a rollout with status \<open>roll\<close>: at most \<open>m\<close> of the pods
  above its partition are still to be updated, and the partition is either the initial one, which
  exposes no pod, or one less than before while fewer than \<open>m\<close> pods are unavailable.
\<close>

definition within_budget :: "int \<Rightarrow> sts_rolling_status \<Rightarrow> stateful_set \<Rightarrow> bool" where
  "within_budget m roll ss \<longleftrightarrow>
    (\<exists>p. ss_UpdateStrategy ss = sts_strategy_of RollingUpdateStatefulSetStrategyType p m \<and>
       0 \<le> p \<and> p \<le> rs_totalCount roll \<and> rs_totalCount roll - p - rs_updatedReplicas roll \<le> m \<and>
       (p = rs_totalCount roll \<or>
        p = rs_partition roll - 1 \<and> rs_totalCount roll - rs_availableReplicas roll < m))"

lemma within_budget_start:
  "roll_wf roll \<Longrightarrow> 0 < m \<Longrightarrow> ss_UpdateStrategy ss = sts_strategy_of RollingUpdateStatefulSetStrategyType (rs_totalCount roll) m \<Longrightarrow>
   within_budget m roll ss"
  by (auto simp: within_budget_def roll_wf_def)

lemma within_budget_advance:
  assumes "roll_wf roll" "UnavailableOrInProgressReplicas roll < m" "rs_partition roll \<noteq> 0"
    "ss_UpdateStrategy ss = sts_strategy_of RollingUpdateStatefulSetStrategyType (wrap32 (rs_partition roll - 1)) m"
  shows "within_budget m roll ss"
proof -
  have w: "int32 i \<Longrightarrow> wrap32 i = i" for i by simp
  have r: "int32 (rs_totalCount roll - rs_availableReplicas roll)" "int32 (rs_totalCount roll - rs_partition roll)"
    "int32 (rs_totalCount roll - rs_partition roll - rs_updatedReplicas roll)" "int32 (rs_partition roll - 1)"
    using assms(1,3) by (auto simp: roll_wf_def int32_def)
  then have "rs_totalCount roll - rs_availableReplicas roll < m"
    "rs_totalCount roll - rs_partition roll - rs_updatedReplicas roll < m"
    using assms(2) by (simp_all add: UnavailableOrInProgressReplicas_def UnavailableReplicas_def InProgressReplicas_def)
  with r assms show ?thesis by (auto simp: within_budget_def roll_wf_def)
qed

lemma bind_result: "do { x \<leftarrow> m; y \<leftarrow> n; f y } = do { y \<leftarrow> do { x \<leftarrow> m; n }; f y }"
  for m :: "('s, 'a) state" and n :: "('s, 'b) state"
  by simp

lemma advance_rolling_issues:
  assumes "keeps_content E" "kept no_request pre" "roll_wf roll"
  shows "kept (issues (writes_sts (within_budget m roll))) (advance_rolling E l pre (serverImpl E a) m roll)"
proof -
  let ?R = "issues (writes_sts (within_budget m roll))"
  have guard: "kept ?R (prechecks_guard E l pre)"
    using impl_read.R_prechecks_guard[OF assms(2)] by (rule kept_issues_no_request)
  have cond: "kept ?R (setRollingBudgetExhaustedCondition E l m u p)" for u p
    unfolding setRollingBudgetExhaustedCondition_def
    by (intro kept_issues_no_request kept_intros kept_modifies) (simp add: no_request_def)
  have sync: "kept ?R (State_Monad.bind (upd_server a (setUpdateStrategy RollingUpdateStatefulSetStrategyType
      (wrap32 (rs_partition roll - 1)) m)) (\<lambda>_. impl_Sync E a))"
    if "UnavailableOrInProgressReplicas roll < m" "rs_partition roll \<noteq> 0"
    using that assms by (intro strategy_Sync_issues within_budget_advance)
  show ?thesis unfolding advance_rolling_def Let_def serverImpl_simps bind_result
    by (intro kept_intros guard cond sync) (simp_all add: not_le)
qed

definition rolling_budget :: "nat \<Rightarrow> 'x servers_scheme \<Rightarrow> int" where
  "rolling_budget a w = wrap32 (si_instanceCount (k_servers w a) - impl_minReady a 1 w)"

lemma handleRolling_run:
  assumes "GetUpdateState w = UpdateStateWaitingForPodsRemoval" "0 < rolling_budget a w"
    and "run_state (impl_getRollingUpdateStatus E a) w = ((Some roll, None), w1)"
  shows "run_state (handleRollingUpdatingClusterState E l pre (serverImpl E a) False) w =
    run_state (do {
      status \<leftarrow> impl_needUpdate E a;
      if IsNeedUpdate status then do {
        synced \<leftarrow> State_Monad.bind (upd_server a (setUpdateStrategy RollingUpdateStatefulSetStrategyType (rs_totalCount roll) (rolling_budget a w)))
          (\<lambda>_. impl_Sync E a);
        case synced of
          Some err \<Rightarrow> ret (Some (ComponentStatusBlocked
             (''failed to initialize rolling update for '' @ GetFullComponentName l)), Some err)
        | None \<Rightarrow> ret (Some (ComponentStatusUpdateStep ''rolling started''), None)
      } else if IsFinished roll then do {
        setPodsUpdatedCondition E l;
        ret (None, None)
      } else advance_rolling E l pre (serverImpl E a) (rolling_budget a w) roll
    }) w1"
  using assms by (simp add: handleRollingUpdatingClusterState_def rolling_budget_def Let_def cong: if_cong split: prod.split)

text \<open>
  (C14) A rolling update never takes down more pods than its budget, the instances beyond the
  minimal ready count: every StatefulSet the operator writes while it rolls a component either
  starts the rollout with no pod exposed, or exposes exactly one more pod, and only while fewer pods
  than the budget are unavailable; in both cases at most a budget of exposed pods is left to be
  updated.
\<close>

theorem rolling_update_within_budget:
  assumes "keeps_content E" and "kept no_request pre"
    and "fst (run_state (impl_getRollingUpdateStatus E a) w) = (Some roll, None)" and "roll_wf roll"
  shows "\<exists>reqs. k_requests (snd (run_state (handleRollingUpdatingClusterState E l pre (serverImpl E a) False) w)) =
      k_requests w @ reqs \<and> list_all (writes_sts (within_budget (rolling_budget a w) roll)) reqs"
proof -
  let ?h = "handleRollingUpdatingClusterState E l pre (serverImpl E a) False" and ?m = "rolling_budget a w"
  let ?R = "issues (writes_sts (within_budget ?m roll))"
  obtain w1 where r: "run_state (impl_getRollingUpdateStatus E a) w = ((Some roll, None), w1)"
    using assms(3) by (metis prod.collapse)
  have "?R w (snd (run_state ?h w))"
  proof (cases "GetUpdateState w = UpdateStateWaitingForPodsRemoval \<and> 0 < ?m")
    case True
    have w1: "?R w w1" using keptD_eq[OF sr.kept_impl_getRollingUpdateStatus r] by (rule issues_no_request)
    have sync: "kept ?R (State_Monad.bind (upd_server a (setUpdateStrategy RollingUpdateStatefulSetStrategyType (rs_totalCount roll) ?m))
          (\<lambda>_. impl_Sync E a))"
      using True assms(1,4) by (intro strategy_Sync_issues within_budget_start) auto
    have "?R w1 (snd (run_state ?h w))"
      unfolding handleRolling_run[OF conjunct1[OF True] conjunct2[OF True] r] setPodsUpdatedCondition_def
      by (rule keptD) (intro kept_intros sync advance_rolling_issues assms kept_issues_no_request[OF sr.kept_impl_needUpdate]
          kept_issues_no_request[OF no_request_conditions(1)])
    with w1 show ?thesis by (rule preordD(2)[OF preord_issues])
  next
    case False
    then have "snd (run_state ?h w) = w"
      by (auto simp: handleRollingUpdatingClusterState_def rolling_budget_def not_less Let_def)
    then show ?thesis by (simp add: issues_def)
  qed
  then show ?thesis by (simp add: issues_def)
qed

section \<open>Removal of pods\<close>

lemma removePods_started:
  assumes "IsUpdateStatusConditionTrue E (GetPodsRemovingStartedCondition l) w"
    and "ka_ListPods (e_Kube E (k_calls w)) (si_labeller (k_servers w a)) = listed"
  shows "run_state (removePods E (serverImpl E a) l) w =
    (case listed of
       Inl err \<Rightarrow> (Some err, w\<lparr>k_calls := Suc (k_calls w)\<rparr>)
     | Inr pods \<Rightarrow> (None,
         if pods = [] then SetUpdateStatusCondition E (mkcond (GetPodsRemovedCondition l) ConditionTrue ''Update'' ''Pods removed'')
           (w\<lparr>k_calls := Suc (k_calls w)\<rparr>)
         else w\<lparr>k_calls := Suc (k_calls w)\<rparr>))"
  using assms by (auto simp: removePods_def impl_listPods_def api_call_def split: sum.splits)

lemma impl_removePods_issues:
  assumes "keeps_content E"
  shows "kept (issues (writes_sts (\<lambda>ss. ss_Replicas ss = Some 0))) (impl_removePods E a)"
proof (rule keptI)
  fix w :: "'x servers_scheme"
  let ?Q = "writes_sts (\<lambda>ss. ss_Replicas ss = Some 0)"
  let ?s = "map_new (\<lambda>ss. ss\<lparr>ss_Replicas := Some 0\<rparr>) (rebuildStatefulSet (k_servers w a))"
  let ?w = "w\<lparr>k_servers := (k_servers w)(a := ?s)\<rparr>"
  have "issues ?Q ?w (snd (run_state (impl_Sync E a) ?w))"
  proof (rule impl_Sync_issues[OF assms])
    fix s s2 assume ch: "config_change (k_servers ?w a) s" and b: "build_objects (e_Codec E) s = (s2, None)"
    then have "si_builtStatefulSet s" "ss_Replicas (new_sts s) = Some 0"
      by (auto simp: config_change_def rebuildStatefulSet_def Let_def)
    with build_objects_new(1)[OF b] show "ss_Replicas (new_sts s2) = Some 0" by simp
  qed
  then show "issues ?Q w (snd (run_state (impl_removePods E a) w))" by (simp add: impl_removePods_def issues_def)
qed

lemma conds_wf_kept: "keeps w w' \<Longrightarrow> conds_wf w \<Longrightarrow> conds_wf w'"
  by (simp add: keeps_def same_control_def)

text \<open>
  (C15) Pods of a component are reported removed only when they are gone: the first removal step only
  ever writes a StatefulSet scaled down to zero, and the removed condition becomes true only in a
  later step, after removal has started, when the API server lists no pod of the component any more.
\<close>

theorem pods_removed_only_when_gone:
  assumes "meta_laws E" and "keeps_content E" and "conds_wf w"
    and "run_state (removePods E (serverImpl E a) l) w = (err, w')"
  shows "(\<exists>reqs. k_requests w' = k_requests w @ reqs \<and> list_all (writes_sts (\<lambda>ss. ss_Replicas ss = Some 0)) reqs) \<and>
    (upd_status w' (GetPodsRemovedCondition l) = Some ConditionTrue \<longrightarrow>
       upd_status w (GetPodsRemovedCondition l) = Some ConditionTrue \<or>
       upd_status w (GetPodsRemovingStartedCondition l) = Some ConditionTrue \<and>
       ka_ListPods (e_Kube E (k_calls w)) (si_labeller (k_servers w a)) = Inr [])"
proof -
  have iff: "IsUpdateStatusConditionTrue E (GetPodsRemovingStartedCondition l) w \<longleftrightarrow>
      upd_status w (GetPodsRemovingStartedCondition l) = Some ConditionTrue"
    using assms(1) by (rule IsUpdateStatusCondition_iff(1))
  show ?thesis
  proof (cases "IsUpdateStatusConditionTrue E (GetPodsRemovingStartedCondition l) w")
    case True
    then show ?thesis using assms(4) removePods_started[OF True refl, of a] iff
      by (auto simp: upd_status_def split: sum.splits if_splits)
  next
    case False
    obtain e1 w1 where r: "run_state (impl_removePods E a) w = (e1, w1)" by fastforce
    have wr: "issues (writes_sts (\<lambda>ss. ss_Replicas ss = Some 0)) w w1"
      using keptD_eq[OF impl_removePods_issues[OF assms(2)] r] .
    have "us_Conditions (update_status_of w1) = us_Conditions (update_status_of w)"
      using keptD_eq[OF su.kept_impl_removePods r] by (simp add: same_update_conditions_def)
    then have same: "upd_status w1 t = upd_status w t" for t by (simp add: upd_status_def)
    have wf: "conds_wf w1" using conds_wf_kept[OF keptD_eq[OF sq.kept_impl_removePods r] assms(3)] .
    have neq: "GetPodsRemovedCondition l \<noteq> GetPodsRemovingStartedCondition l"
      by (simp add: GetPodsRemovedCondition_def GetPodsRemovingStartedCondition_def GetCondition_def)
    show ?thesis using False assms(4) r wr same neq upd_status_Set[OF assms(1) wf]
      by (auto simp: removePods_def issues_def split: option.splits)
  qed
qed

section \<open>Sample servers\<close>

definition sample_sts :: "int \<Rightarrow> int \<Rightarrow> stateful_set k8s_object" where
  "sample_sts part avail = (object_meta zero_labeller ''dnd'' ''*v1.StatefulSet''
     \<lparr>ss_Generation = 4, ss_Replicas = Some 3, ss_ServiceName = ''data-nodes'',
      ss_UpdateStrategy = \<lparr>ust_Type = Some RollingUpdateStatefulSetStrategyType,
        ust_RollingUpdate = Some \<lparr>ru_Partition = Some part, ru_MaxUnavailable = Some 1\<rparr>\<rparr>,
      ss_TemplateLabels = Map.empty, ss_TemplateAnnotations = Map.empty,
      ss_Containers = [(YTServerContainerName, ''ytsaurus:new'')],
      ss_ObservedGeneration = 4, ss_CurrentRevision = ''r1'', ss_UpdateRevision = ''r2'',
      ss_UpdatedReplicas = 3 - part, ss_AvailableReplicas = avail\<rparr>)\<lparr>o_ResourceVersion := ''5''\<rparr>"

definition sample_service :: "string \<Rightarrow> service managed" where
  "sample_service name0 = (let obj = object_meta zero_labeller name0 ''*v1.Service''
      \<lparr>svc_Type = '''', svc_ClusterIP = '''', svc_Selector = Map.empty\<rparr>
    in \<lparr>mr_name = name0, mr_old = obj\<lparr>o_ResourceVersion := ''3''\<rparr>, mr_new = obj\<rparr>)"

definition sample_server :: "stateful_set k8s_object \<Rightarrow> server_impl" where
  "sample_server sts = \<lparr>si_labeller = zero_labeller, si_image = ''ytsaurus:new'', si_sidecarImages = [],
     si_commonPodLabels = Map.empty, si_instancePodLabels = Map.empty,
     si_commonPodAnnotations = Map.empty, si_instancePodAnnotations = Map.empty,
     si_MinReadyInstanceCount = None, si_instanceCount = 3,
     si_statefulSet = \<lparr>mr_name = ''dnd'', mr_old = sts, mr_new = sts\<rparr>, si_built = False,
     si_headlessService = sample_service ''data-nodes'', si_monitoringService = sample_service ''monitoring'',
     si_configs = sample_builder, si_timbertruckConfigs = None, si_timbertruckImage = '''',
     si_builtStatefulSet = False, si_updateStrategy = None\<rparr>"

definition sample_servers :: "update_status \<Rightarrow> stateful_set k8s_object \<Rightarrow> servers" where
  "sample_servers upd sts = kube.extend (sample_kube ClusterStateUpdating upd []) \<lparr>k_servers = (\<lambda>_. sample_server sts)\<rparr>"

definition removing_status :: "condition list \<Rightarrow> update_status" where
  "removing_status conds = empty_update_status\<lparr>us_State := UpdateStateWaitingForPodsRemoval, us_Conditions := conds\<rparr>"

lemma keeps_content_sample: "keeps_content (sample_kenv (\<lambda>_. sample_api sts pods))"
  by (simp add: keeps_content_def sample_kenv_def sample_api_def sample_client_def env.defs)

lemma meta_laws_sample_kenv [simp]: "meta_laws (sample_kenv api)"
  using meta_laws_sample_env by (simp add: meta_laws_def sample_kenv_def env.defs)

theorem rolling_update_within_budget_witness:
  "let E = sample_kenv (\<lambda>_. sample_api (Some (sample_sts 2 3)) []); w = sample_servers (removing_status []) (sample_sts 2 3)
   in \<exists>reqs. k_requests (snd (run_state (handleRollingUpdatingClusterState E zero_labeller
          (ret ComponentStatusReady) (serverImpl E 0) False) w)) = k_requests w @ reqs \<and>
        list_all (writes_sts (within_budget 1 \<lparr>rs_partition = 2, rs_availableReplicas = 3, rs_updatedReplicas = 1,
          rs_totalCount = 3, rs_updateRevision = ''r2'', rs_currentRevision = ''r1''\<rparr>)) reqs"
proof -
  let ?E = "sample_kenv (\<lambda>_. sample_api (Some (sample_sts 2 3)) [])" and ?w = "sample_servers (removing_status []) (sample_sts 2 3)"
  let ?roll = "\<lparr>rs_partition = 2, rs_availableReplicas = 3, rs_updatedReplicas = 1,
    rs_totalCount = 3, rs_updateRevision = ''r2'', rs_currentRevision = ''r1''\<rparr>"
  have "fst (run_state (impl_getRollingUpdateStatus ?E 0) ?w) = (Some ?roll, None)" by code_simp
  moreover have "rolling_budget 0 ?w = 1" by code_simp
  moreover have "roll_wf ?roll" by code_simp
  moreover have "kept no_request (ret ComponentStatusReady)" by (intro kept_intros)
  ultimately show ?thesis
    using rolling_update_within_budget[OF keeps_content_sample[of "Some (sample_sts 2 3)" "[]"],
        of "ret ComponentStatusReady" 0 ?w ?roll zero_labeller]
    by (simp add: Let_def)
qed

theorem pods_removed_only_when_gone_witness:
  "let E = sample_kenv (\<lambda>_. sample_api None []);
       w = sample_servers (removing_status [mkcond (GetPodsRemovingStartedCondition zero_labeller) ConditionTrue ''Update'' '''']) (sample_sts 3 3);
       w' = snd (run_state (removePods E (serverImpl E 0) zero_labeller) w)
   in upd_status w' (GetPodsRemovedCondition zero_labeller) = Some ConditionTrue \<and>
      ka_ListPods (e_Kube E (k_calls w)) (si_labeller (k_servers w 0)) = Inr []"
proof -
  let ?E = "sample_kenv (\<lambda>_. sample_api None [])" and ?l = zero_labeller
  let ?w = "sample_servers (removing_status [mkcond (GetPodsRemovingStartedCondition ?l) ConditionTrue ''Update'' '''']) (sample_sts 3 3)"
  obtain err w' where r: "run_state (removePods ?E (serverImpl ?E 0) ?l) ?w = (err, w')" by fastforce
  have wf: "conds_wf ?w" by code_simp
  have "upd_status (snd (run_state (removePods ?E (serverImpl ?E 0) ?l) ?w)) (GetPodsRemovedCondition ?l) = Some ConditionTrue"
    by code_simp
  moreover have "upd_status ?w (GetPodsRemovedCondition ?l) \<noteq> Some ConditionTrue" by code_simp
  ultimately show ?thesis
    using pods_removed_only_when_gone[OF meta_laws_sample_kenv keeps_content_sample wf r] r by (simp add: Let_def)
qed

end
