(* ===== verification/Yt_Api.thy ===== *)
theory Yt_Api
  imports Server_Updates "HOL-Library.AList"
begin

text \<open>
  The YTsaurus cluster as the components see it: reading and writing Cypress nodes through the
  client of \<open>pkg/components/ytsaurus_client.go\<close>, the paths of \<open>pkg/consts/cypress.go\<close>, and the
  checks on registered instances of \<open>pkg/components/precheck.go\<close>.

  The client library is a parameter: the environment answers the \<open>n\<close>-th call with \<open>e_Yt E n\<close>.
  \<open>GetNode\<close> and \<open>ListNode\<close> decode the answer into the type of the result variable, so there is one
  method per type.  \<open>k_commands\<close> is the history of the writing commands.
\<close>

section \<open>Client\<close>

datatype yt_value =
    YEntity
  | YBool bool
  | YInt int
  | YString string
  | YMap "(string \<times> yt_value) list"
  | YList "yt_value list"

record controller_agent_info =
  ca_Address :: string
  ca_Maintenance :: bool

text \<open>
  Nodes listed with attributes: tablet cell bundles with the number of cells or their health, data nodes,
  and masters; \<open>master_hydra\<close> has the fields of the monitoring of a master that checks read.
\<close>

record bundle_health =
  bh_Name :: string
  bh_Health :: string

record data_node_meta =
  dn_Name :: string
  dn_UseImaginaryChunks :: bool
  dn_State :: string

record master_address =
  ma_Address :: string
  ma_Maintenance :: bool

record master_hydra =
  mh_State :: string
  mh_SelfID :: int
  mh_Active :: bool
  mh_ReadOnly :: bool
  mh_LastSnapshotReadOnly :: bool

record yt_api =
  ya_ListNode :: "string \<Rightarrow> string + string list"
  ya_ListAgents :: "string \<Rightarrow> string + controller_agent_info list"
  ya_NodeExists :: "string \<Rightarrow> string + bool"
  ya_GetInt :: "string \<Rightarrow> string + int"
  ya_GetBool :: "string \<Rightarrow> string + bool"
  ya_GetString :: "string \<Rightarrow> string + string"
  ya_GetMap :: "string \<Rightarrow> string + (string \<times> yt_value) list"
  ya_GetValue :: "string \<Rightarrow> string + yt_value"
  ya_GetList :: "string \<Rightarrow> string + yt_value list"
  ya_GetHydra :: "string \<Rightarrow> string + master_hydra"
  ya_ListBundles :: "string \<Rightarrow> string + tablet_cell_bundle_info list"
  ya_ListHealth :: "string \<Rightarrow> string + bundle_health list"
  ya_ListDataNodes :: "string \<Rightarrow> string + data_node_meta list"
  ya_ListMasters :: "string \<Rightarrow> string + master_address list"
  ya_SetNode :: "string \<Rightarrow> yt_value \<Rightarrow> go_error"
  ya_SetNodeRecursive :: "string \<Rightarrow> yt_value \<Rightarrow> go_error"
  ya_RemoveNode :: "string \<Rightarrow> bool \<Rightarrow> bool \<Rightarrow> go_error"
  ya_CreateNode :: "string \<Rightarrow> string \<Rightarrow> (string \<times> yt_value) list \<Rightarrow> bool \<Rightarrow> bool \<Rightarrow> go_error"
  ya_CreateObject :: "string \<Rightarrow> (string \<times> yt_value) list \<Rightarrow> go_error"
  ya_EnsureObject :: "string \<Rightarrow> (string \<times> yt_value) list \<Rightarrow> go_error"
  ya_AddMember :: "string \<Rightarrow> string \<Rightarrow> go_error"

text \<open>
  The flags of a removal are \<open>Recursive\<close> and \<open>Force\<close>, those of the creation of a node of some type
  \<open>Recursive\<close> and \<open>IgnoreExisting\<close>; \<open>EnsureObject\<close> is \<open>CreateObject\<close> with the option \<open>IgnoreExisting\<close>.
\<close>

datatype yt_command =
    SetNode string yt_value
  | SetNodeRecursive string yt_value
  | RemoveNode string bool bool
  | CreateNode string string "(string \<times> yt_value) list" bool bool
  | CreateObject string "(string \<times> yt_value) list"
  | EnsureObject string "(string \<times> yt_value) list"
  | AddMember string string

text \<open>
  \<open>e_Child\<close> and \<open>e_Attr\<close> are the path operations of the package \<open>ypath\<close>; \<open>e_DecodeContainer\<close> parses
  the YAML of a container and yields its name and image; \<open>e_ContainsResolveError\<close> and
  \<open>e_AlreadyPresent\<close> (the error code \<open>AlreadyPresentInGroup\<close>) are predicates of the package \<open>yterrors\<close> on
  errors of the client.  \<open>e_Split\<close> and \<open>e_SplitTokens\<close> are the functions of \<open>ypath\<close> on paths, \<open>e_Sha256\<close> the
  hexadecimal hash, \<open>e_Token\<close> the random token drawn after a number of calls, and \<open>e_NewClient\<close> the error
  of creating a client.
\<close>

record cenv = kenv +
  e_Yt :: "nat \<Rightarrow> yt_api"
  e_Child :: "string \<Rightarrow> string \<Rightarrow> string"
  e_Attr :: "string \<Rightarrow> string \<Rightarrow> string"
  e_DecodeContainer :: "string \<Rightarrow> string + string \<times> string"
  e_ContainsResolveError :: "string \<Rightarrow> bool"
  e_AlreadyPresent :: "string \<Rightarrow> bool"
  e_Split :: "string \<Rightarrow> string + string \<times> string"
  e_SplitTokens :: "string \<Rightarrow> string + string list"
  e_Sha256 :: "string \<Rightarrow> string"
  e_Token :: "nat \<Rightarrow> string"
  e_NewClient :: go_error

text \<open>
  The remaining objects of components: balancing services and configurations of sidecars, by the
  address of their component, and whether the YTsaurus client has been created.
\<close>

record cluster = servers +
  k_services :: "nat \<Rightarrow> service managed"
  k_sidecars :: "nat \<Rightarrow> config_map_builder option"
  k_client :: bool
  k_commands :: "yt_command list"

type_synonym ('x, 'a) cact = "('x cluster_scheme, 'a) state"
type_synonym 'x ccomponent = "'x cluster_ext servers_ext kube_ext component"

definition yt_call :: "'e cenv_scheme \<Rightarrow> ('x, yt_api) cact" where
  "yt_call E = State (\<lambda>w. (e_Yt E (k_calls w), w\<lparr>k_calls := Suc (k_calls w)\<rparr>))"

text \<open>A writing command is recorded whether or not it is reported to succeed.\<close>

definition yt_write :: "'e cenv_scheme \<Rightarrow> yt_command \<Rightarrow> ('x, go_error) cact" where
  "yt_write E cmd = do {
     api \<leftarrow> yt_call E;
     modifies (\<lambda>w. w\<lparr>k_commands := k_commands w @ [cmd]\<rparr>);
     ret (case cmd of
            SetNode path v \<Rightarrow> ya_SetNode api path v
          | SetNodeRecursive path v \<Rightarrow> ya_SetNodeRecursive api path v
          | RemoveNode path recursive force \<Rightarrow> ya_RemoveNode api path recursive force
          | CreateNode path t attrs recursive ignoreExisting \<Rightarrow> ya_CreateNode api path t attrs recursive ignoreExisting
          | CreateObject t attrs \<Rightarrow> ya_CreateObject api t attrs
          | EnsureObject t attrs \<Rightarrow> ya_EnsureObject api t attrs
          | AddMember group0 member0 \<Rightarrow> ya_AddMember api group0 member0)
   }"

lemma run_yt [simp]:
  "run_state (yt_call E) w = (e_Yt E (k_calls w), w\<lparr>k_calls := Suc (k_calls w)\<rparr>)"
  by (simp add: yt_call_def)

section \<open>Paths\<close>

fun ComponentCypressPath :: "component_type \<Rightarrow> string" where
  "ComponentCypressPath ControllerAgentType = ''//sys/controller_agents/instances''"
| "ComponentCypressPath DataNodeType = ''//sys/data_nodes''"
| "ComponentCypressPath DiscoveryType = ''//sys/discovery_servers''"
| "ComponentCypressPath ExecNodeType = ''//sys/exec_nodes''"
| "ComponentCypressPath HttpProxyType = ''//sys/http_proxies''"
| "ComponentCypressPath MasterCacheType = ''//sys/master_caches''"
| "ComponentCypressPath MasterType = ''//sys/cluster_masters''"
| "ComponentCypressPath QueryTrackerType = ''//sys/query_tracker/instances''"
| "ComponentCypressPath QueueAgentType = ''//sys/queue_agents/instances''"
| "ComponentCypressPath RpcProxyType = ''//sys/rpc_proxies''"
| "ComponentCypressPath SchedulerType = ''//sys/scheduler/instances''"
| "ComponentCypressPath TabletNodeType = ''//sys/tablet_nodes''"
| "ComponentCypressPath TcpProxyType = ''//sys/tcp_proxies/instances''"
| "ComponentCypressPath KafkaProxyType = ''//sys/kafka_proxies/instances''"
| "ComponentCypressPath YqlAgentType = ''//sys/yql_agent/instances''"
| "ComponentCypressPath _ = ''''"

abbreviation "LostVitalChunksCountPath \<equiv> ''//sys/lost_vital_chunks/@count''"
abbreviation "ParityMissingChunksCountPath \<equiv> ''//sys/parity_missing_chunks/@count''"
abbreviation "DataMissingChunksCountPath \<equiv> ''//sys/data_missing_chunks/@count''"
abbreviation "UnsafelyPlacedChunksCountPath \<equiv> ''//sys/unsafely_placed_chunks/@count''"
abbreviation "QuorumMissingChunksCountPath \<equiv> ''//sys/quorum_missing_chunks/@count''"
abbreviation "DisableSchedulerJobsAttr \<equiv> ''disable_scheduler_jobs''"

section \<open>Registered instances\<close>

definition IsInstanceCountEqualYTSpec :: "'e cenv_scheme \<Rightarrow> component_type \<Rightarrow> int \<Rightarrow> ('x, go_error) cact" where
  "IsInstanceCountEqualYTSpec E componentType expectedCount = do {
     let cypressPath = ComponentCypressPath componentType;
     api \<leftarrow> yt_call E;
     ret (case ya_ListNode api cypressPath of
            Inl err \<Rightarrow> Some (''failed to list '' @ string_of_type componentType @ '' instances from '' @ cypressPath @ '': '' @ err)
          | Inr instances \<Rightarrow>
              if int (length instances) \<noteq> expectedCount
              then Some (string_of_type componentType @ '' instance count mismatch: expected '' @ show_int expectedCount @
                '', got '' @ show_nat (length instances) @ '' instances in '' @ cypressPath)
              else None)
   }"

text \<open>
  The prologue of every pre-check: the component must have been given a YTsaurus client component,
  and that component must have created its client.
\<close>

definition with_client :: "bool \<Rightarrow> ('x, component_status) cact \<Rightarrow> ('x, component_status) cact" where
  "with_client hasClient check = do {
     ytClient \<leftarrow> reads k_client;
     if \<not> hasClient then ret (ComponentStatusBlocked ''YtsaurusClient component is not available'')
     else if \<not> ytClient then ret (ComponentStatusBlocked ''YT client is not available'')
     else check
   }"

section \<open>What calls to YTsaurus keep\<close>

text \<open>Reading only: neither a request to Kubernetes nor a command to YTsaurus is issued.\<close>

definition no_write :: "'x cluster_scheme \<Rightarrow> 'x cluster_scheme \<Rightarrow> bool" where
  "no_write w w' \<longleftrightarrow> k_requests w' = k_requests w \<and> k_commands w' = k_commands w"

lemma preord_no_write [kept_intros]: "preord no_write"
  by (auto simp: preord_def reflp_def transp_def no_write_def)

locale yt_reading = server_reading R for R :: "'x cluster_scheme \<Rightarrow> 'x cluster_scheme \<Rightarrow> bool" +
  assumes R_services: "R w (w\<lparr>k_services := f\<rparr>)"
    and R_sidecars: "R w (w\<lparr>k_sidecars := g\<rparr>)"
begin

lemma kept_yt_call: "kept R (yt_call E)"
  by (rule keptI) (simp add: R_calls)

lemma kept_objects:
  "kept R (modifies (\<lambda>w. w\<lparr>k_services := (k_services w)(a := svc)\<rparr>))"
  "kept R (modifies (\<lambda>w. w\<lparr>k_sidecars := (k_sidecars w)(a := h)\<rparr>))"
  by (intro kept_modifies R_services R_sidecars)+

lemmas yt_intros = read_intros kept_yt_call kept_objects

lemma kept_IsInstanceCountEqualYTSpec: "kept R (IsInstanceCountEqualYTSpec E t n)"
  unfolding IsInstanceCountEqualYTSpec_def by (intro yt_intros)

lemma kept_with_client: "kept R check \<Longrightarrow> kept R (with_client b check)"
  unfolding with_client_def by (intro yt_intros)

end

locale yt_writing = yt_reading R for R :: "'x cluster_scheme \<Rightarrow> 'x cluster_scheme \<Rightarrow> bool" +
  assumes R_commands: "R w (w\<lparr>k_commands := cmds\<rparr>)"
begin

lemma kept_yt_write: "kept R (yt_write E cmd)"
  unfolding yt_write_def by (intro yt_intros kept_modifies R_commands)

end

locale cluster_bookkeeping = yt_writing R + server_bookkeeping R
  for R :: "'x cluster_scheme \<Rightarrow> 'x cluster_scheme \<Rightarrow> bool"

interpretation cq: cluster_bookkeeping keeps
  by unfold_locales (simp_all add: keeps_def same_control_def GetClusterState_def GetUpdateState_def
      GetUpdatingComponents_def conds_wf_def status_of_cond_def)

interpretation cw: yt_writing no_request
  by unfold_locales (simp_all add: no_request_def)

interpretation cr: yt_reading no_write
  by unfold_locales (simp_all add: preord_no_write, simp_all add: no_write_def RecordNormal_def RecordWarning_def)

section \<open>A sample cluster\<close>

definition sample_yt :: yt_api where
  "sample_yt = \<lparr>ya_ListNode = (\<lambda>_. Inr []), ya_ListAgents = (\<lambda>_. Inr []), ya_NodeExists = (\<lambda>_. Inr True),
     ya_GetInt = (\<lambda>_. Inr 0), ya_GetBool = (\<lambda>_. Inr True), ya_GetString = (\<lambda>_. Inr ''good''), ya_GetMap = (\<lambda>_. Inr []),
     ya_GetValue = (\<lambda>_. Inr (YBool True)), ya_GetList = (\<lambda>_. Inr []), ya_GetHydra = (\<lambda>_. Inl ''no master''), ya_ListBundles = (\<lambda>_. Inr []),
     ya_ListHealth = (\<lambda>_. Inr []), ya_ListDataNodes = (\<lambda>_. Inr []), ya_ListMasters = (\<lambda>_. Inr []),
     ya_SetNode = (\<lambda>_ _. None), ya_SetNodeRecursive = (\<lambda>_ _. None), ya_RemoveNode = (\<lambda>_ _ _. None), ya_CreateNode = (\<lambda>_ _ _ _ _. None),
     ya_CreateObject = (\<lambda>_ _. None), ya_EnsureObject = (\<lambda>_ _. None), ya_AddMember = (\<lambda>_ _. None)\<rparr>"

definition sample_cenv :: "kube_api \<Rightarrow> cenv" where
  "sample_cenv api = kenv.extend (sample_kenv (\<lambda>_. api)) \<lparr>e_Yt = (\<lambda>_. sample_yt), e_Child = (\<lambda>path c. path @ ''/'' @ c),
     e_Attr = (\<lambda>path a. path @ ''/@'' @ a), e_DecodeContainer = (\<lambda>_. Inl ''not a container''),
     e_ContainsResolveError = (\<lambda>_. False), e_AlreadyPresent = (\<lambda>_. False),
     e_Split = (\<lambda>path. Inl ''no parent''), e_SplitTokens = (\<lambda>path. Inr [take 1 path, drop 1 path]),
     e_Sha256 = (\<lambda>s. s), e_Token = (\<lambda>_. ''token''), e_NewClient = None\<rparr>"

text \<open>A server whose objects exist.\<close>

definition existing_server :: "stateful_set k8s_object \<Rightarrow> server_impl" where
  "existing_server sts = (sample_server sts)\<lparr>si_configs := sample_builder\<lparr>cb_configMap :=
     (cb_configMap sample_builder)\<lparr>mr_old := (mr_old (cb_configMap sample_builder))\<lparr>o_ResourceVersion := ''7''\<rparr>\<rparr>\<rparr>\<rparr>"

definition sample_cluster :: "cluster_state \<Rightarrow> update_status \<Rightarrow> server_impl \<Rightarrow> cluster" where
  "sample_cluster state upd server = servers.extend
     (kube.extend (sample_kube state upd []) \<lparr>k_servers = (\<lambda>_. server)\<rparr>)
     \<lparr>k_services = (\<lambda>_. sample_service ''lb''), k_sidecars = (\<lambda>_. None), k_client = True, k_commands = []\<rparr>"

lemma meta_laws_sample_cenv [simp]: "meta_laws (sample_cenv api)"
  using meta_laws_sample_kenv by (simp add: meta_laws_def sample_cenv_def kenv.defs)

lemma sample_cenv_kube [simp]: "e_Kube (sample_cenv api) = (\<lambda>_. api)"
  by (simp add: sample_cenv_def sample_kenv_def kenv.defs env.defs)

end
