(* ===== verification/Server_Components.thy ===== *)
theory Server_Components
  imports Yt_Api
begin

text \<open>
  The components of \<open>pkg/components\<close> that consist of one server: discovery, proxies, nodes, caches and
  agents, with their \<open>Fetch\<close>, \<open>NeedUpdate\<close>, \<open>Sync\<close> and \<open>UpdatePreCheck\<close>.  The methods \<open>Sync\<close> share
  their building blocks: react to an update of the cluster, wait for the masters, synchronise the
  server, create the balancing service, and look at the pods.
\<close>

section \<open>Building blocks\<close>

text \<open>
  The object of a component: its address, also that of its server, balancing service and sidecar
  configuration, the component of the masters, and whether it was given a YTsaurus client.
\<close>

record 'x server_component =
  sc_id :: nat
  sc_labeller :: labeller
  sc_master :: "'x ccomponent option"
  sc_hasClient :: bool

type_synonym 'x outcome = "('x, component_status \<times> go_error) cact"

definition serverComponent_NeedSync :: "'e kenv_scheme \<Rightarrow> ('x, 'z) server_component_scheme \<Rightarrow> ('x, bool) cact" where
  "serverComponent_NeedSync E c = do {
     updating \<leftarrow> reads (IsUpdatingResources (sc_labeller c));
     impl_needSync E (sc_id c) updating
   }"

definition serverComponent_ArePodsReady :: "'e kenv_scheme \<Rightarrow> ('x, 'z) server_component_scheme \<Rightarrow> 'x outcome" where
  "serverComponent_ArePodsReady E c = arePodsReady (serverImpl E (sc_id c)) []"

text \<open>\<open>if status, err := handle(...); status != nil \{ return *status, err \}\<close>\<close>

definition handled ::
  "('s, component_status option \<times> go_error) state \<Rightarrow> ('s, component_status \<times> go_error) state \<Rightarrow>
   ('s, component_status \<times> go_error) state" where
  "handled h rest = do {
     (status, err) \<leftarrow> h;
     case status of Some st \<Rightarrow> ret (st, err) | None \<Rightarrow> rest
   }"

definition if_updating ::
  "(('x cluster_scheme, component_status \<times> go_error) state \<Rightarrow> 'x outcome) \<Rightarrow> 'x outcome \<Rightarrow> 'x outcome" where
  "if_updating update rest = do {
     state \<leftarrow> reads GetClusterState;
     if state = ClusterStateUpdating then update rest else rest
   }"

definition only_creating :: "'x outcome \<Rightarrow> 'x outcome" where
  "only_creating rest = do {
     updateState \<leftarrow> reads GetUpdateState;
     if updateState \<noteq> UpdateStateWaitingForPodsCreation then ret (ComponentStatusReady, None) else rest
   }"

definition wait_for :: "'x ccomponent option \<Rightarrow> 'x outcome \<Rightarrow> 'x outcome" where
  "wait_for dependency rest =
    (case dependency of
       None \<Rightarrow> rest
     | Some c \<Rightarrow> do {
         status \<leftarrow> reads (GetStatus c);
         if \<not> IsRunning status then ret (Blocker status, None) else rest
       })"

definition sync_server :: "('x, bool) cact \<Rightarrow> bool \<Rightarrow> ('x, go_error) cact \<Rightarrow> 'x outcome \<Rightarrow> 'x outcome" where
  "sync_server needSync dry sync rest = do {
     need \<leftarrow> needSync;
     if need then do {
       err \<leftarrow> when_do (\<not> dry) sync;
       ret (ComponentStatusWaitingFor ''components'', err)
     } else rest
   }"

text \<open>The balancing service, built with the given type when there is one.\<close>

definition sync_service :: "'e kenv_scheme \<Rightarrow> ('x, 'z) server_component_scheme \<Rightarrow> string option \<Rightarrow> ('x, go_error) cact" where
  "sync_service E c serviceType = do {
     old \<leftarrow> reads (\<lambda>w. k_services w (sc_id c));
     let r = build_service (sc_labeller c) '''' old;
     let svc = (case serviceType of None \<Rightarrow> r
       | Some t \<Rightarrow> r\<lparr>mr_new := (mr_new r)\<lparr>o_Content := (o_Content (mr_new r))\<lparr>svc_Type := t\<rparr>\<rparr>\<rparr>);
     modifies (\<lambda>w. w\<lparr>k_services := (k_services w)(sc_id c := svc)\<rparr>);
     managed_Sync ka_svc SvcRequest E svc
   }"

definition balancing ::
  "'e kenv_scheme \<Rightarrow> ('x, 'z) server_component_scheme \<Rightarrow> bool \<Rightarrow> string option \<Rightarrow> 'x outcome \<Rightarrow> 'x outcome" where
  "balancing E c dry serviceType rest = do {
     svc \<leftarrow> reads (\<lambda>w. k_services w (sc_id c));
     if \<not> managed_Exists svc then do {
       err \<leftarrow> when_do (\<not> dry) (sync_service E c serviceType);
       ret (ComponentStatusWaitingFor (mr_name svc), err)
     } else rest
   }"

definition fetch_service :: "'e kenv_scheme \<Rightarrow> nat \<Rightarrow> ('x, go_error) cact" where
  "fetch_service E a = do {
     svc \<leftarrow> reads (\<lambda>w. k_services w a);
     (r, err) \<leftarrow> managed_Fetch ka_svc E svc;
     modifies (\<lambda>w. w\<lparr>k_services := (k_services w)(a := r)\<rparr>);
     ret err
   }"

text \<open>Fetching the server, and the balancing service when there is one.\<close>

definition component_Fetch :: "'e kenv_scheme \<Rightarrow> nat \<Rightarrow> bool \<Rightarrow> ('x, go_error) cact" where
  "component_Fetch E a hasService =
     resources_seq [Some (impl_Fetch E a), if hasService then Some (fetch_service E a) else None]"

section \<open>Discovery\<close>

primrec orchid_loop :: "'e cenv_scheme \<Rightarrow> string \<Rightarrow> string list \<Rightarrow> ('x, component_status) cact" where
  "orchid_loop E cypressPath [] = ret ComponentStatusReady"
| "orchid_loop E cypressPath (server # servers) = do {
     api \<leftarrow> yt_call E;
     case ya_GetMap api (cypressPath @ ''/'' @ server @ ''/orchid'') of
       Inl err \<Rightarrow> ret (ComponentStatusBlocked (''Failed to get discovery orchid data for '' @ server @ '': '' @ err))
     | Inr _ \<Rightarrow> orchid_loop E cypressPath servers
   }"

definition Discovery_UpdatePreCheck :: "'e cenv_scheme \<Rightarrow> ('x, 'z) server_component_scheme \<Rightarrow> ('x, component_status) cact" where
  "Discovery_UpdatePreCheck E d = with_client (sc_hasClient d) (do {
     instanceCount \<leftarrow> reads (\<lambda>w. si_instanceCount (k_servers w (sc_id d)));
     counted \<leftarrow> IsInstanceCountEqualYTSpec E DiscoveryType instanceCount;
     case counted of
       Some err \<Rightarrow> ret (ComponentStatusBlocked (''Error: '' @ err))
     | None \<Rightarrow> do {
         let cypressPath = ComponentCypressPath DiscoveryType;
         api \<leftarrow> yt_call E;
         case ya_ListNode api cypressPath of
           Inl err \<Rightarrow> ret (ComponentStatusBlocked (''Error: '' @ err))
         | Inr discoveryServers \<Rightarrow> orchid_loop E cypressPath discoveryServers
       }
   })"

definition Discovery_Sync :: "'e cenv_scheme \<Rightarrow> ('x, 'z) server_component_scheme \<Rightarrow> bool \<Rightarrow> 'x outcome" where
  "Discovery_Sync E d dry =
    if_updating (\<lambda>rest. handled (dispatchComponentUpdate E (sc_labeller d) (Discovery_UpdatePreCheck E d)
        (serverImpl E (sc_id d)) dry) (only_creating rest))
    (wait_for (sc_master d)
    (sync_server (serverComponent_NeedSync E d) dry (impl_Sync E (sc_id d))
    (serverComponent_ArePodsReady E d)))"

section \<open>Proxies\<close>

text \<open>Proxies have no pre-check of their own.\<close>

definition component_UpdatePreCheck :: "('s, component_status) state" where
  "component_UpdatePreCheck = ret ComponentStatusReady"

text \<open>
  A secret for HTTPS is mounted in the pod template, which builds the StatefulSet; the volumes of
  the template are not part of the model.
\<close>

definition mount_secret :: "nat \<Rightarrow> bool \<Rightarrow> bool \<Rightarrow> ('x servers_scheme, unit) state" where
  "mount_secret a hasSecret dry = (if \<not> dry \<and> hasSecret then upd_server a buildStatefulSet else ret ())"

record 'x proxy = "'x server_component" +
  px_hasSecret :: bool
  px_serviceType :: "string option"

definition HttpProxy_Sync :: "'e cenv_scheme \<Rightarrow> ('x, 'z) proxy_scheme \<Rightarrow> bool \<Rightarrow> 'x outcome" where
  "HttpProxy_Sync E hp dry = do {
     mount_secret (sc_id hp) (px_hasSecret hp) dry;
     if_updating (\<lambda>rest. handled (dispatchComponentUpdate E (sc_labeller hp) component_UpdatePreCheck
        (serverImpl E (sc_id hp)) dry) (only_creating rest))
     (wait_for (sc_master hp)
     (sync_server (serverComponent_NeedSync E hp) dry (impl_Sync E (sc_id hp))
     (balancing E hp dry (px_serviceType hp)
     (serverComponent_ArePodsReady E hp))))
   }"

text \<open>The other proxies have a balancing service only when a service type is given.\<close>

definition optional_balancing ::
  "'e kenv_scheme \<Rightarrow> ('x, 'z) proxy_scheme \<Rightarrow> bool \<Rightarrow> string option \<Rightarrow> 'x outcome \<Rightarrow> 'x outcome" where
  "optional_balancing E p dry serviceType rest =
    (if px_serviceType p \<noteq> None then balancing E p dry serviceType rest else rest)"

definition RpcProxy_Sync :: "'e cenv_scheme \<Rightarrow> ('x, 'z) proxy_scheme \<Rightarrow> bool \<Rightarrow> 'x outcome" where
  "RpcProxy_Sync E rp dry = do {
     mount_secret (sc_id rp) (px_hasSecret rp) dry;
     if_updating (\<lambda>rest. handled (dispatchComponentUpdate E (sc_labeller rp) component_UpdatePreCheck
        (serverImpl E (sc_id rp)) dry) (only_creating rest))
     (wait_for (sc_master rp)
     (sync_server (serverComponent_NeedSync E rp) dry (impl_Sync E (sc_id rp))
     (optional_balancing E rp dry (px_serviceType rp)
     (serverComponent_ArePodsReady E rp))))
   }"

definition TcpProxy_Sync :: "'e cenv_scheme \<Rightarrow> ('x, 'z) proxy_scheme \<Rightarrow> bool \<Rightarrow> 'x outcome" where
  "TcpProxy_Sync E tp dry =
     if_updating (\<lambda>rest. handled (dispatchComponentUpdate E (sc_labeller tp) component_UpdatePreCheck
        (serverImpl E (sc_id tp)) dry) rest)
     (wait_for (sc_master tp)
     (sync_server (serverComponent_NeedSync E tp) dry (impl_Sync E (sc_id tp))
     (optional_balancing E tp dry (px_serviceType tp)
     (serverComponent_ArePodsReady E tp))))"

text \<open>The service of a Kafka proxy is built without the type of the specification.\<close>

definition KafkaProxy_Sync :: "'e cenv_scheme \<Rightarrow> ('x, 'z) proxy_scheme \<Rightarrow> bool \<Rightarrow> 'x outcome" where
  "KafkaProxy_Sync E kp dry =
     if_updating (\<lambda>rest. handled (handleUpdatingClusterState E (sc_labeller kp)
        (serverImpl E (sc_id kp)) dry) rest)
     (wait_for (sc_master kp)
     (sync_server (serverComponent_NeedSync E kp) dry (impl_Sync E (sc_id kp))
     (optional_balancing E kp dry None
     (serverComponent_ArePodsReady E kp))))"

section \<open>Data nodes\<close>

primrec counter_loop :: "'e cenv_scheme \<Rightarrow> (string \<times> string) list \<Rightarrow> ('x, component_status) cact" where
  "counter_loop E [] = ret ComponentStatusReady"
| "counter_loop E (check # checks) = do {
     let (path, name0) = check;
     api \<leftarrow> yt_call E;
     case ya_GetInt api path of
       Inl err \<Rightarrow> ret (ComponentStatusBlocked (''failed to get '' @ name0 @ '' count: '' @ err))
     | Inr n \<Rightarrow>
         if n > 0 then ret (ComponentStatusBlocked (''there are '' @ name0 @ '': '' @ show_int n))
         else counter_loop E checks
   }"

definition dataNodeRollingCounterChecks :: "(string \<times> string) list" where
  "dataNodeRollingCounterChecks =
    [(LostVitalChunksCountPath, ''lost vital chunks''),
     (ParityMissingChunksCountPath, ''parity missing chunks''),
     (DataMissingChunksCountPath, ''data missing chunks''),
     (UnsafelyPlacedChunksCountPath, ''unsafely placed chunks''),
     (QuorumMissingChunksCountPath, ''quorum missing chunks'')]"

definition DataNode_UpdatePreCheck :: "'e cenv_scheme \<Rightarrow> ('x, 'z) server_component_scheme \<Rightarrow> ('x, component_status) cact" where
  "DataNode_UpdatePreCheck E n = with_client (sc_hasClient n) (counter_loop E dataNodeRollingCounterChecks)"

definition handleImaginaryChunksMigration ::
  "'e cenv_scheme \<Rightarrow> ('x, 'z) server_component_scheme \<Rightarrow> bool \<Rightarrow> ('x, component_status option \<times> go_error) cact" where
  "handleImaginaryChunksMigration E n dry = do {
     removal \<leftarrow> reads (IsUpdateStatusConditionTrue E ''DataNodesNeedPodsRemoval'');
     if \<not> removal then ret (None, None)
     else do {
       err \<leftarrow> when_do (\<not> dry) (removePods E (serverImpl E (sc_id n)) (sc_labeller n));
       ret (Some (ComponentStatusUpdateStep ''pods removal for imaginary chunks migration''), err)
     }
   }"

definition DataNode_Sync :: "'e cenv_scheme \<Rightarrow> ('x, 'z) server_component_scheme \<Rightarrow> bool \<Rightarrow> 'x outcome" where
  "DataNode_Sync E n dry =
    if_updating (\<lambda>rest. do {
       updateState \<leftarrow> reads GetUpdateState;
       handled (if updateState = UpdateStateWaitingForImaginaryChunksAbsence
                then handleImaginaryChunksMigration E n dry else ret (None, None))
       (handled (dispatchComponentUpdate E (sc_labeller n) (DataNode_UpdatePreCheck E n)
          (serverImpl E (sc_id n)) dry) rest)
     })
    (wait_for (sc_master n)
    (sync_server (serverComponent_NeedSync E n) dry (impl_Sync E (sc_id n))
    (serverComponent_ArePodsReady E n)))"

section \<open>Exec nodes\<close>

record 'x exec_node = "'x server_component" +
  en_initContainers :: "string list"
  en_sidecars :: "string list"
  en_hasCRIService :: bool
  en_Isolated :: bool

definition sidecarConfigNeedsReload :: "'e kenv_scheme \<Rightarrow> nat \<Rightarrow> ('x, bool) cact" where
  "sidecarConfigNeedsReload E a = do {
     sidecar \<leftarrow> reads (\<lambda>w. k_sidecars w a);
     case sidecar of
       None \<Rightarrow> ret False
     | Some h \<Rightarrow> do {
         (status, err) \<leftarrow> needReload E h;
         ret (err = None \<and> IsNeedUpdate status)
       }
   }"

definition baseExecNode_Fetch :: "'e kenv_scheme \<Rightarrow> nat \<Rightarrow> ('x, go_error) cact" where
  "baseExecNode_Fetch E a = resources_seq [Some (impl_Fetch E a), Some (do {
     sidecar \<leftarrow> reads (\<lambda>w. k_sidecars w a);
     case sidecar of
       None \<Rightarrow> ret None
     | Some h0 \<Rightarrow> do {
         (h, err) \<leftarrow> builder_Fetch E h0;
         modifies (\<lambda>w. w\<lparr>k_sidecars := (k_sidecars w)(a := Some h)\<rparr>);
         ret err
       }
   })]"

definition baseExecNode_NeedSync :: "'e kenv_scheme \<Rightarrow> ('x, 'z) server_component_scheme \<Rightarrow> ('x, bool) cact" where
  "baseExecNode_NeedSync E n = do {
     updating \<leftarrow> reads (IsUpdatingResources (sc_labeller n));
     need \<leftarrow> impl_needSync E (sc_id n) updating;
     if need then ret True
     else if updating then sidecarConfigNeedsReload E (sc_id n)
     else ret False
   }"

definition baseExecNode_NeedUpdate :: "'e kenv_scheme \<Rightarrow> ('x, 'z) server_component_scheme \<Rightarrow> ('x, component_status) cact" where
  "baseExecNode_NeedUpdate E n = do {
     update \<leftarrow> impl_needUpdate E (sc_id n);
     if IsNeedUpdate update then ret update
     else do {
       reload \<leftarrow> sidecarConfigNeedsReload E (sc_id n);
       ret (if reload then ComponentStatusNeedUpdate ''sidecar config update'' else ComponentStatusReady)
     }
   }"

primrec AddInitContainersToPodSpec :: "'e cenv_scheme \<Rightarrow> string list \<Rightarrow> go_error" where
  "AddInitContainersToPodSpec E [] = None"
| "AddInitContainersToPodSpec E (spec # specs) =
    (case e_DecodeContainer E spec of Inl err \<Rightarrow> Some err | Inr _ \<Rightarrow> AddInitContainersToPodSpec E specs)"

primrec AddSidecarsToPodSpec ::
  "'e cenv_scheme \<Rightarrow> string list \<Rightarrow> (string \<times> string) list \<Rightarrow> (string \<times> string) list \<times> go_error" where
  "AddSidecarsToPodSpec E [] containers = (containers, None)"
| "AddSidecarsToPodSpec E (sidecarSpec # sidecars) containers =
    (case e_DecodeContainer E sidecarSpec of
       Inl err \<Rightarrow> (containers, Some (''failed to parse sidecar: '' @ err))
     | Inr sidecar \<Rightarrow> AddSidecarsToPodSpec E sidecars (containers @ [sidecar]))"

text \<open>
  \<open>log.Panicf\<close> ends the reconciliation; it is an error that carries the message.  Of the pod
  template the containers are built.
\<close>

definition doBuildBase :: "'e cenv_scheme \<Rightarrow> ('x, 'z) exec_node_scheme \<Rightarrow> ('x, go_error) cact" where
  "doBuildBase E n = do {
     let a = sc_id n;
     upd_server a buildStatefulSet;
     s \<leftarrow> get_server a;
     let containers = ss_Containers (o_Content (mr_new (si_statefulSet s)));
     if length containers \<noteq> 1 then
       ret (Some (''panic: Number of exec node containers is expected to be 1, actual '' @ show_nat (length containers)))
     else case AddInitContainersToPodSpec E (en_initContainers n) of
       Some err \<Rightarrow> ret (Some err)
     | None \<Rightarrow> do {
         let (containers1, err) = AddSidecarsToPodSpec E (en_sidecars n) containers;
         upd_server a (map_new (\<lambda>ss. ss\<lparr>ss_Containers := containers1\<rparr>));
         case err of
           Some e \<Rightarrow> ret (Some e)
         | None \<Rightarrow> do {
             (if en_hasCRIService n \<and> en_Isolated n
              then upd_server a (map_new (\<lambda>ss. ss\<lparr>ss_Containers := containers1 @ [(''jobs'', snd (hd containers1))]\<rparr>))
              else ret ());
             sidecar \<leftarrow> reads (\<lambda>w. k_sidecars w a);
             case sidecar of
               None \<Rightarrow> ret None
             | Some h \<Rightarrow> do {
                 (h1, err1) \<leftarrow> builder_Build E h;
                 modifies (\<lambda>w. w\<lparr>k_sidecars := (k_sidecars w)(a := Some h1)\<rparr>);
                 ret err1
               }
           }
       }
   }"

definition doSyncBase :: "'e kenv_scheme \<Rightarrow> nat \<Rightarrow> ('x, go_error) cact" where
  "doSyncBase E a = do {
     sidecar \<leftarrow> reads (\<lambda>w. k_sidecars w a);
     resources_seq [Some (impl_Sync E a), map_option (builder_Sync E) sidecar]
   }"

text \<open>The Cypress node of the exec node with the given ordinal.\<close>

definition execNodeInstancePath :: "'e cenv_scheme \<Rightarrow> labeller \<Rightarrow> int \<Rightarrow> string" where
  "execNodeInstancePath E l ordinal = e_Child E (ComponentCypressPath ExecNodeType)
     (ptr_deref (GetInstanceAddressPort l (nat ordinal) 9029) '''')"

definition setExecNodeDisableSchedulerJobs ::
  "'e cenv_scheme \<Rightarrow> labeller \<Rightarrow> int \<Rightarrow> bool \<Rightarrow> ('x, go_error) cact" where
  "setExecNodeDisableSchedulerJobs E l ordinal value0 =
     yt_write E (SetNode (e_Attr E (execNodeInstancePath E l ordinal) DisableSchedulerJobsAttr) (YBool value0))"

definition userSlotsPath :: "'e cenv_scheme \<Rightarrow> labeller \<Rightarrow> int \<Rightarrow> string" where
  "userSlotsPath E l ordinal = e_Child E (e_Attr E (execNodeInstancePath E l ordinal) ''resource_usage'') ''user_slots''"

definition drainExecNode :: "'e cenv_scheme \<Rightarrow> labeller \<Rightarrow> int \<Rightarrow> ('x, component_status) cact" where
  "drainExecNode E l ordinal = do {
     let instancePath = execNodeInstancePath E l ordinal;
     api \<leftarrow> yt_call E;
     case ya_GetInt api (userSlotsPath E l ordinal) of
       Inl err \<Rightarrow> ret (ComponentStatusBlocked (''Failed to get user_slots for '' @ instancePath @ '': '' @ err))
     | Inr userSlots \<Rightarrow>
         if userSlots = 0 then ret ComponentStatusReady
         else do {
           disabled \<leftarrow> setExecNodeDisableSchedulerJobs E l ordinal True;
           ret (ComponentStatusBlocked (case disabled of
              Some err \<Rightarrow> ''Failed to set '' @ DisableSchedulerJobsAttr @ '' for '' @ instancePath @ '': '' @ err
            | None \<Rightarrow> ''Exec node '' @ instancePath @ '' still has '' @ show_int userSlots @ '' user slots in use''))
         }
   }"

primrec enable_jobs :: "'e cenv_scheme \<Rightarrow> labeller \<Rightarrow> int list \<Rightarrow> ('x, (int \<times> string) option) cact" where
  "enable_jobs E l [] = ret None"
| "enable_jobs E l (i # ordinals) = do {
     enabled \<leftarrow> setExecNodeDisableSchedulerJobs E l i False;
     case enabled of Some err \<Rightarrow> ret (Some (i, err)) | None \<Rightarrow> enable_jobs E l ordinals
   }"

definition drainExecNodeForRollingUpdate ::
  "'e cenv_scheme \<Rightarrow> ('x, 'z) server_component_scheme \<Rightarrow> ('x, component_status) cact" where
  "drainExecNodeForRollingUpdate E n = do {
     (rolling, err) \<leftarrow> impl_getRollingUpdateStatus E (sc_id n);
     case (err, rolling) of
       (Some e, _) \<Rightarrow> ret (ComponentStatusBlocked (''Error: '' @ e))
     | (None, None) \<Rightarrow> ret ComponentStatusReady
     | (None, Some roll) \<Rightarrow>
         if rs_partition roll = 0 then ret ComponentStatusReady
         else do {
           drained \<leftarrow> drainExecNode E (sc_labeller n) (rs_partition roll - 1);
           if cs_SyncStatus drained \<noteq> SyncStatusReady then ret drained
           else do {
             enabled \<leftarrow> enable_jobs E (sc_labeller n) [rs_partition roll .. rs_totalCount roll - 1];
             ret (case enabled of
                Some (i, e) \<Rightarrow> ComponentStatusBlocked (''Failed to re-enable scheduler jobs for ordinal '' @ show_int i @ '': '' @ e)
              | None \<Rightarrow> ComponentStatusReady)
           }
         }
   }"

definition ExecNode_UpdatePreCheck :: "'e cenv_scheme \<Rightarrow> ('x, 'z) server_component_scheme \<Rightarrow> ('x, component_status) cact" where
  "ExecNode_UpdatePreCheck E n = with_client (sc_hasClient n) (do {
     strategy \<leftarrow> reads (getComponentUpdateStrategy (l_ComponentType (sc_labeller n)) (GetInstanceGroup (sc_labeller n)));
     if strategy = ComponentUpdateModeTypeRollingUpdate then drainExecNodeForRollingUpdate E n
     else ret ComponentStatusReady
   })"

definition enableSchedulerJobs :: "'e cenv_scheme \<Rightarrow> ('x, 'z) server_component_scheme \<Rightarrow> ('x, unit) cact" where
  "enableSchedulerJobs E n = do {
     ytClient \<leftarrow> reads k_client;
     if \<not> sc_hasClient n \<or> \<not> ytClient then ret ()
     else do {
       totalCount \<leftarrow> reads (\<lambda>w. si_instanceCount (k_servers w (sc_id n)));
       _ \<leftarrow> enable_jobs E (sc_labeller n) [0 .. totalCount - 1];
       ret ()
     }
   }"

definition ExecNode_Sync :: "'e cenv_scheme \<Rightarrow> ('x, 'z) exec_node_scheme \<Rightarrow> bool \<Rightarrow> 'x outcome" where
  "ExecNode_Sync E n dry = do {
     built \<leftarrow> when_do (\<not> dry) (doBuildBase E n);
     if built \<noteq> None then ret (ComponentStatusBlockedBy ''cannot build exec node spec'', built)
     else
       if_updating (\<lambda>rest. handled (dispatchComponentUpdate E (sc_labeller n) (ExecNode_UpdatePreCheck E n)
          (serverImpl E (sc_id n)) dry) (do {
            (if dry then ret () else enableSchedulerJobs E n);
            rest
          }))
       (wait_for (sc_master n)
       (sync_server (baseExecNode_NeedSync E n) dry (doSyncBase E (sc_id n))
       (serverComponent_ArePodsReady E n)))
   }"

section \<open>Tablet nodes\<close>

abbreviation "SysBundle \<equiv> ''sys''"
abbreviation "DefaultBundle \<equiv> ''default''"

record bundle_bootstrap =
  bb_SnapshotPrimaryMedium :: "string option"
  bb_ChangelogPrimaryMedium :: "string option"
  bb_TabletCellCount :: int
  bb_NodeTagFilter :: "string option"

record bundles_bootstrap =
  bbs_Sys :: "bundle_bootstrap option"
  bbs_Default :: "bundle_bootstrap option"

text \<open>
  A group of tablet nodes; the first group initialises the bundles.  \<open>tn_maxReplicationFactor\<close> is
  computed by the configuration generator from the number of data nodes.
\<close>

record 'x tablet_node = "'x server_component" +
  tn_client :: "'x ccomponent"
  tn_doInitialization :: bool
  tn_bootstrap :: "bundles_bootstrap option"
  tn_defaultPrimaryMedium :: "string option"
  tn_maxReplicationFactor :: int

abbreviation "initBundlesCondition \<equiv> ''bundlesTabletNodeInitCompleted''"

definition ShouldSkipCypressOperations :: "'x yts_scheme \<Rightarrow> bool" where
  "ShouldSkipCypressOperations w \<longleftrightarrow>
    (let spec = yt_Spec (w_object w)
     in sp_EphemeralCluster spec \<and> ptr_deref (is_MinReadyInstanceCount (ms_InstanceSpec (sp_PrimaryMasters spec))) 1 = 0)"

definition getBundleBootstrap :: "('x, 'z) tablet_node_scheme \<Rightarrow> string \<Rightarrow> bundle_bootstrap option" where
  "getBundleBootstrap tn bundle =
    (case tn_bootstrap tn of
       None \<Rightarrow> None
     | Some b \<Rightarrow> if bundle = SysBundle then bbs_Sys b else if bundle = DefaultBundle then bbs_Default b else None)"

definition set_option :: "string \<Rightarrow> string option \<Rightarrow> (string \<times> yt_value) list \<Rightarrow> (string \<times> yt_value) list" where
  "set_option key value0 options = (case value0 of None \<Rightarrow> options | Some v \<Rightarrow> AList.update key (YString v) options)"

definition getBundleOptions :: "('x, 'z) tablet_node_scheme \<Rightarrow> string \<Rightarrow> (string \<times> yt_value) list" where
  "getBundleOptions tn bundle =
    (let options0 = (if bundle = SysBundle then [(''changelog_account'', YString ''sys''), (''snapshot_account'', YString ''sys'')] else []);
         options1 = set_option ''snapshot_primary_medium'' (tn_defaultPrimaryMedium tn)
                   (set_option ''changelog_primary_medium'' (tn_defaultPrimaryMedium tn) options0);
         options2 = (case getBundleBootstrap tn bundle of
             None \<Rightarrow> options1
           | Some bootstrap \<Rightarrow> set_option ''snapshot_primary_medium'' (bb_SnapshotPrimaryMedium bootstrap)
               (set_option ''changelog_primary_medium'' (bb_ChangelogPrimaryMedium bootstrap) options1))
     in if tn_maxReplicationFactor tn < 3
        then fold (\<lambda>key. AList.update key (YInt 1))
          [''changelog_replication_factor'', ''changelog_read_quorum'', ''changelog_write_quorum'', ''snapshot_replication_factor'']
          options2
        else options2)"

primrec create_cells :: "'e cenv_scheme \<Rightarrow> string \<Rightarrow> nat \<Rightarrow> ('x, go_error) cact" where
  "create_cells E bundle 0 = ret None"
| "create_cells E bundle (Suc n) = do {
     err \<leftarrow> yt_write E (CreateObject ''tablet_cell'' [(''tablet_cell_bundle'', YString bundle)]);
     if err \<noteq> None then ret err else create_cells E bundle n
   }"

definition CreateTabletCells :: "'e cenv_scheme \<Rightarrow> string \<Rightarrow> int \<Rightarrow> ('x, go_error) cact" where
  "CreateTabletCells E bundle tabletCellCount = do {
     api \<leftarrow> yt_call E;
     case ya_GetInt api (''//sys/tablet_cell_bundles/'' @ bundle @ ''/@tablet_cell_count'') of
       Inl err \<Rightarrow> ret (Some err)
     | Inr initTabletCellCount \<Rightarrow> create_cells E bundle (nat (tabletCellCount - initTabletCellCount))
   }"

abbreviation bundle_path :: "'e cenv_scheme \<Rightarrow> string \<Rightarrow> string" where
  "bundle_path E bundle \<equiv> e_Child E ''//sys/tablet_cell_bundles'' bundle"

text \<open>The steps of \<open>initBundles\<close>: each returns the status and error to report when it fails.\<close>

definition create_sys_bundle :: "'e cenv_scheme \<Rightarrow> ('x, 'z) tablet_node_scheme \<Rightarrow> ('x, (component_status \<times> go_error) option) cact" where
  "create_sys_bundle E tn = do {
     let failed = ComponentStatusWaitingFor ''tablet_cell_bundle creation'';
     api \<leftarrow> yt_call E;
     case ya_NodeExists api (bundle_path E SysBundle) of
       Inl err \<Rightarrow> ret (Some (failed, Some err))
     | Inr sysBundleExists \<Rightarrow>
         if sysBundleExists then ret None
         else do {
           err \<leftarrow> yt_write E (CreateObject ''tablet_cell_bundle''
             [(''name'', YString SysBundle), (''options'', YMap (getBundleOptions tn SysBundle))]);
           ret (if err \<noteq> None then Some (failed, err) else None)
         }
   }"

definition set_default_options :: "'e cenv_scheme \<Rightarrow> ('x, 'z) tablet_node_scheme \<Rightarrow> ('x, (component_status \<times> go_error) option) cact" where
  "set_default_options E tn =
    (let options = getBundleOptions tn DefaultBundle; path = e_Attr E (bundle_path E DefaultBundle) ''options''
     in if options = [] then ret None
        else do {
          api \<leftarrow> yt_call E;
          case ya_GetMap api path of
            Inl err \<Rightarrow> ret (Some (ComponentStatusWaitingFor ''getting default bundle options'', Some err))
          | Inr bundleOptions \<Rightarrow> do {
              err \<leftarrow> yt_write E (SetNode path (YMap (AList.merge bundleOptions options)));
              ret (if err \<noteq> None then Some (ComponentStatusWaitingFor ''setting default bundle options'', err) else None)
            }
        })"

primrec set_filters :: "'e cenv_scheme \<Rightarrow> ('x, 'z) tablet_node_scheme \<Rightarrow> string list \<Rightarrow> ('x, (component_status \<times> go_error) option) cact" where
  "set_filters E tn [] = ret None"
| "set_filters E tn (bundle # bundles) =
    (case Option.bind (getBundleBootstrap tn bundle) bb_NodeTagFilter of
       None \<Rightarrow> set_filters E tn bundles
     | Some tagFilter \<Rightarrow> do {
         err \<leftarrow> yt_write E (SetNode (e_Attr E (bundle_path E bundle) ''node_tag_filter'') (YString tagFilter));
         if err \<noteq> None
         then ret (Some (ComponentStatusWaitingFor (''setting bundle '' @ quoted bundle @ '' node tag filter''), err))
         else set_filters E tn bundles
       })"

primrec create_all_cells :: "'e cenv_scheme \<Rightarrow> ('x, 'z) tablet_node_scheme \<Rightarrow> string list \<Rightarrow> ('x, (component_status \<times> go_error) option) cact" where
  "create_all_cells E tn [] = ret None"
| "create_all_cells E tn (bundle # bundles) = do {
     err \<leftarrow> CreateTabletCells E bundle
       (case getBundleBootstrap tn bundle of None \<Rightarrow> 1 | Some bootstrap \<Rightarrow> bb_TabletCellCount bootstrap);
     if err \<noteq> None then ret (Some (ComponentStatusWaitingFor ''tablet cells creation'', err))
     else create_all_cells E tn bundles
   }"

definition initBundles :: "'e cenv_scheme \<Rightarrow> ('x, 'z) tablet_node_scheme \<Rightarrow> 'x outcome" where
  "initBundles E tn =
    or_else (create_sys_bundle E tn)
    (or_else (set_default_options E tn)
    (or_else (set_filters E tn [DefaultBundle, SysBundle])
    (or_else (create_all_cells E tn [DefaultBundle, SysBundle])
    (do {
       set_status_condition E initBundlesCondition ConditionTrue ''InitBundlesCompleted'' ''Init bundles successfully completed'';
       ret (ComponentStatusReady, None)
     }))))"

definition TabletNode_update :: "'e cenv_scheme \<Rightarrow> ('x, 'z) tablet_node_scheme \<Rightarrow> bool \<Rightarrow> ('x, component_status option \<times> go_error) cact" where
  "TabletNode_update E tn dry = do {
     let l = sc_labeller tn;
     updating \<leftarrow> reads (IsUpdatingComponent (l_ComponentType l) (GetInstanceGroup l));
     if \<not> updating then ret (Some (ComponentStatusReadyAfter ''Not updating component''), None)
     else do {
       strategy \<leftarrow> reads (getComponentUpdateStrategy (l_ComponentType l) (GetInstanceGroup l));
       if strategy = ComponentUpdateModeTypeOnDelete
       then handleOnDeleteUpdatingClusterState E l component_UpdatePreCheck (serverImpl E (sc_id tn)) dry
       else handleBulkUpdatingClusterState E l component_UpdatePreCheck (serverImpl E (sc_id tn)) dry
     }
   }"

definition TabletNode_Sync :: "'e cenv_scheme \<Rightarrow> ('x, 'z) tablet_node_scheme \<Rightarrow> bool \<Rightarrow> 'x outcome" where
  "TabletNode_Sync E tn dry =
    if_updating (handled (TabletNode_update E tn dry))
    (wait_for (sc_master tn)
    (sync_server (serverComponent_NeedSync E tn) dry (impl_Sync E (sc_id tn))
    (do {
       (status, err) \<leftarrow> serverComponent_ArePodsReady E tn;
       if \<not> IsReady status \<or> err \<noteq> None then ret (status, err)
       else do {
         initialised \<leftarrow> reads (IsStatusConditionTrue E initBundlesCondition);
         skip \<leftarrow> reads ShouldSkipCypressOperations;
         if \<not> tn_doInitialization tn \<or> initialised \<or> skip then ret (ComponentStatusReady, None)
         else wait_for (Some (tn_client tn)) (do {
           (status1, err1) \<leftarrow> (if \<not> dry then initBundles E tn else ret (ComponentStatusReady, None));
           if err1 \<noteq> None then ret (status1, err1)
           else ret (ComponentStatusWaitingFor (''setting '' @ initBundlesCondition @ '' condition''), None)
         })
       }
     })))"

section \<open>Master caches, agents and controllers\<close>

definition MasterCache_UpdatePreCheck :: "'e cenv_scheme \<Rightarrow> ('x, 'z) server_component_scheme \<Rightarrow> ('x, component_status) cact" where
  "MasterCache_UpdatePreCheck E mc = with_client (sc_hasClient mc) (do {
     instanceCount \<leftarrow> reads (\<lambda>w. si_instanceCount (k_servers w (sc_id mc)));
     counted \<leftarrow> IsInstanceCountEqualYTSpec E MasterCacheType instanceCount;
     ret (case counted of Some err \<Rightarrow> ComponentStatusBlocked (''Error: '' @ err) | None \<Rightarrow> ComponentStatusReady)
   })"

text \<open>The affinity to host addresses is a part of the pod template outside the model.\<close>

definition MasterCache_doServerSync :: "'e kenv_scheme \<Rightarrow> nat \<Rightarrow> ('x, go_error) cact" where
  "MasterCache_doServerSync E a = do {
     upd_server a buildStatefulSet;
     impl_Sync E a
   }"

definition MasterCache_Sync :: "'e cenv_scheme \<Rightarrow> ('x, 'z) server_component_scheme \<Rightarrow> bool \<Rightarrow> 'x outcome" where
  "MasterCache_Sync E mc dry =
    if_updating (\<lambda>rest. handled (dispatchComponentUpdate E (sc_labeller mc) (MasterCache_UpdatePreCheck E mc)
        (serverImpl E (sc_id mc)) dry) (only_creating rest))
    (wait_for (sc_master mc)
    (sync_server (serverComponent_NeedSync E mc) dry (MasterCache_doServerSync E (sc_id mc))
    (serverComponent_ArePodsReady E mc)))"

definition CypressProxy_Sync :: "'e cenv_scheme \<Rightarrow> ('x, 'z) server_component_scheme \<Rightarrow> bool \<Rightarrow> 'x outcome" where
  "CypressProxy_Sync E cyp dry =
    if_updating (handled (dispatchComponentUpdate E (sc_labeller cyp) component_UpdatePreCheck (serverImpl E (sc_id cyp)) dry))
    (sync_server (serverComponent_NeedSync E cyp) dry (impl_Sync E (sc_id cyp))
    (serverComponent_ArePodsReady E cyp))"

definition BundleController_Sync :: "'e cenv_scheme \<Rightarrow> ('x, 'z) server_component_scheme \<Rightarrow> bool \<Rightarrow> 'x outcome" where
  "BundleController_Sync E bc dry =
    if_updating (handled (handleUpdatingClusterState E (sc_labeller bc) (serverImpl E (sc_id bc)) dry))
    (sync_server (serverComponent_NeedSync E bc) dry (impl_Sync E (sc_id bc))
    (serverComponent_ArePodsReady E bc))"

definition TabletBalancer_Sync :: "'e cenv_scheme \<Rightarrow> ('x, 'z) server_component_scheme \<Rightarrow> bool \<Rightarrow> 'x outcome" where
  "TabletBalancer_Sync E tb dry =
    if_updating (handled (handleUpdatingClusterState E (sc_labeller tb) (serverImpl E (sc_id tb)) dry))
    (sync_server (serverComponent_NeedSync E tb) dry (impl_Sync E (sc_id tb))
    (serverComponent_ArePodsReady E tb))"

primrec agents_loop :: "'e cenv_scheme \<Rightarrow> string \<Rightarrow> controller_agent_info list \<Rightarrow> ('x, component_status) cact" where
  "agents_loop E cypressPath [] = ret ComponentStatusReady"
| "agents_loop E cypressPath (agent # agents) = do {
     api \<leftarrow> yt_call E;
     case ya_GetBool api (cypressPath @ ''/'' @ ca_Address agent @ ''/orchid/controller_agent/service/connected'') of
       Inl err \<Rightarrow> ret (ComponentStatusBlocked (''Error: '' @ err))
     | Inr connected \<Rightarrow>
         if \<not> connected then ret (ComponentStatusBlocked (''Controller agent is not connected: '' @ ca_Address agent))
         else if ca_Maintenance agent
         then ret (ComponentStatusBlocked (''There is a controller agent in maintenance: '' @ ca_Address agent))
         else agents_loop E cypressPath agents
   }"

definition ControllerAgent_UpdatePreCheck :: "'e cenv_scheme \<Rightarrow> ('x, 'z) server_component_scheme \<Rightarrow> ('x, component_status) cact" where
  "ControllerAgent_UpdatePreCheck E ca = with_client (sc_hasClient ca) (do {
     instanceCount \<leftarrow> reads (\<lambda>w. si_instanceCount (k_servers w (sc_id ca)));
     counted \<leftarrow> IsInstanceCountEqualYTSpec E ControllerAgentType instanceCount;
     case counted of
       Some err \<Rightarrow> ret (ComponentStatusBlocked (''Error: '' @ err))
     | None \<Rightarrow> do {
         let cypressPath = ComponentCypressPath ControllerAgentType;
         api \<leftarrow> yt_call E;
         case ya_ListAgents api cypressPath of
           Inl err \<Rightarrow> ret (ComponentStatusBlocked (''Error: '' @ err))
         | Inr agents \<Rightarrow> agents_loop E cypressPath agents
       }
   })"

definition ControllerAgent_Sync :: "'e cenv_scheme \<Rightarrow> ('x, 'z) server_component_scheme \<Rightarrow> bool \<Rightarrow> 'x outcome" where
  "ControllerAgent_Sync E ca dry =
    if_updating (\<lambda>rest. handled (dispatchComponentUpdate E (sc_labeller ca) (ControllerAgent_UpdatePreCheck E ca)
        (serverImpl E (sc_id ca)) dry) (only_creating rest))
    (wait_for (sc_master ca)
    (sync_server (serverComponent_NeedSync E ca) dry (impl_Sync E (sc_id ca))
    (serverComponent_ArePodsReady E ca)))"

section \<open>The components\<close>

text \<open>
  The kinds of components that consist of one server, and their method tables.
\<close>

datatype 'x server_kind =
    Discovery "'x server_component"
  | HttpProxy "'x proxy"
  | RpcProxy "'x proxy"
  | TcpProxy "'x proxy"
  | KafkaProxy "'x proxy"
  | DataNode "'x server_component"
  | ExecNode "'x exec_node"
  | TabletNode "'x tablet_node"
  | MasterCache "'x server_component"
  | CypressProxy "'x server_component"
  | BundleController "'x server_component"
  | TabletBalancer "'x server_component"
  | ControllerAgent "'x server_component"

primrec base_of :: "'x server_kind \<Rightarrow> 'x server_component" where
  "base_of (Discovery c) = c"
| "base_of (HttpProxy c) = server_component.truncate c"
| "base_of (RpcProxy c) = server_component.truncate c"
| "base_of (TcpProxy c) = server_component.truncate c"
| "base_of (KafkaProxy c) = server_component.truncate c"
| "base_of (DataNode c) = c"
| "base_of (ExecNode c) = server_component.truncate c"
| "base_of (TabletNode c) = server_component.truncate c"
| "base_of (MasterCache c) = c"
| "base_of (CypressProxy c) = c"
| "base_of (BundleController c) = c"
| "base_of (TabletBalancer c) = c"
| "base_of (ControllerAgent c) = c"

primrec kind_Sync :: "'e cenv_scheme \<Rightarrow> 'x server_kind \<Rightarrow> bool \<Rightarrow> 'x outcome" where
  "kind_Sync E (Discovery c) dry = Discovery_Sync E c dry"
| "kind_Sync E (HttpProxy c) dry = HttpProxy_Sync E c dry"
| "kind_Sync E (RpcProxy c) dry = RpcProxy_Sync E c dry"
| "kind_Sync E (TcpProxy c) dry = TcpProxy_Sync E c dry"
| "kind_Sync E (KafkaProxy c) dry = KafkaProxy_Sync E c dry"
| "kind_Sync E (DataNode c) dry = DataNode_Sync E c dry"
| "kind_Sync E (ExecNode c) dry = ExecNode_Sync E c dry"
| "kind_Sync E (TabletNode c) dry = TabletNode_Sync E c dry"
| "kind_Sync E (MasterCache c) dry = MasterCache_Sync E c dry"
| "kind_Sync E (CypressProxy c) dry = CypressProxy_Sync E c dry"
| "kind_Sync E (BundleController c) dry = BundleController_Sync E c dry"
| "kind_Sync E (TabletBalancer c) dry = TabletBalancer_Sync E c dry"
| "kind_Sync E (ControllerAgent c) dry = ControllerAgent_Sync E c dry"

definition kind_Fetch :: "'e cenv_scheme \<Rightarrow> 'x server_kind \<Rightarrow> ('x, go_error) cact" where
  "kind_Fetch E k =
    (let a = sc_id (base_of k)
     in case k of
          HttpProxy c \<Rightarrow> component_Fetch E a True
        | RpcProxy c \<Rightarrow> component_Fetch E a (px_serviceType c \<noteq> None)
        | TcpProxy c \<Rightarrow> component_Fetch E a (px_serviceType c \<noteq> None)
        | KafkaProxy c \<Rightarrow> component_Fetch E a (px_serviceType c \<noteq> None)
        | ExecNode c \<Rightarrow> baseExecNode_Fetch E a
        | _ \<Rightarrow> component_Fetch E a False)"

definition kind_NeedUpdate :: "'e cenv_scheme \<Rightarrow> 'x server_kind \<Rightarrow> ('x, component_status) cact" where
  "kind_NeedUpdate E k =
    (case k of ExecNode c \<Rightarrow> baseExecNode_NeedUpdate E c | _ \<Rightarrow> impl_needUpdate E (sc_id (base_of k)))"

text \<open>A component of the controller from its actions.\<close>

definition component_of :: "'e cenv_scheme \<Rightarrow> 'x server_kind \<Rightarrow> 'x ccomponent" where
  "component_of E k =
    \<lparr>cmp_id = sc_id (base_of k), cmp_labeller = sc_labeller (base_of k),
     cmp_Fetch = (\<lambda>w. case run_state (kind_Fetch E k) w of (err, w') \<Rightarrow> (w', err)),
     cmp_NeedUpdate = (\<lambda>w. case run_state (kind_NeedUpdate E k) w of (status, w') \<Rightarrow> (w', status)),
     cmp_Sync = (\<lambda>dry w. case run_state (kind_Sync E k dry) w of ((status, err), w') \<Rightarrow> (w', status, err))\<rparr>"

end
