(* ===== verification/Server_Contracts.thy ===== *)
theory Server_Contracts
  imports Server_Components
begin

text \<open>
  What the components of \<open>Server_Components\<close> promise: they satisfy the contract of the controller,
  a dry run writes nothing, they wait for the masters, and they report readiness only when enough
  pods are ready.
\<close>

section \<open>Composition rules\<close>

lemma kept_handled [kept_intros]: "preord R \<Longrightarrow> kept R h \<Longrightarrow> kept R rest \<Longrightarrow> kept R (handled h rest)"
  unfolding handled_def by (intro kept_intros)

lemma kept_if_updating [kept_intros]:
  assumes "preord R" "kept R rest" "kept R rest \<Longrightarrow> kept R (update rest)"
  shows "kept R (if_updating update rest)"
  unfolding if_updating_def by (intro kept_intros assms)

lemma kept_only_creating [kept_intros]: "preord R \<Longrightarrow> kept R rest \<Longrightarrow> kept R (only_creating rest)"
  unfolding only_creating_def by (intro kept_intros)

lemma kept_wait_for [kept_intros]: "preord R \<Longrightarrow> kept R rest \<Longrightarrow> kept R (wait_for c rest)"
  unfolding wait_for_def by (intro kept_intros)

lemma kept_sync_server [kept_intros]:
  "preord R \<Longrightarrow> kept R need \<Longrightarrow> (\<not> dry \<Longrightarrow> kept R sync) \<Longrightarrow> kept R rest \<Longrightarrow> kept R (sync_server need dry sync rest)"
  unfolding sync_server_def by (intro kept_intros)

lemma kept_balancing [kept_intros]:
  "preord R \<Longrightarrow> (\<not> dry \<Longrightarrow> kept R (sync_service E c t)) \<Longrightarrow> kept R rest \<Longrightarrow> kept R (balancing E c dry t rest)"
  unfolding balancing_def by (intro kept_intros)

lemma kept_optional_balancing [kept_intros]:
  "preord R \<Longrightarrow> (\<not> dry \<Longrightarrow> kept R (sync_service E c t)) \<Longrightarrow> kept R rest \<Longrightarrow> kept R (optional_balancing E c dry t rest)"
  unfolding optional_balancing_def by (intro kept_intros)

lemma kept_component_UpdatePreCheck [kept_intros]: "preord R \<Longrightarrow> kept R component_UpdatePreCheck"
  unfolding component_UpdatePreCheck_def by (intro kept_intros)

section \<open>Reading parts\<close>

context yt_reading
begin

lemma kept_need: "kept R (serverComponent_NeedSync E c)" "kept R (baseExecNode_NeedSync E n)"
  "kept R (baseExecNode_NeedUpdate E n)"
  unfolding serverComponent_NeedSync_def baseExecNode_NeedSync_def baseExecNode_NeedUpdate_def sidecarConfigNeedsReload_def
  by (intro yt_intros kept_impl_needSync kept_impl_needUpdate)+

lemma kept_pods: "kept R (serverComponent_ArePodsReady E c)"
  unfolding serverComponent_ArePodsReady_def arePodsReady_def serverImpl_simps by (intro yt_intros kept_impl_listPods)

lemma kept_mount_secret: "kept R (mount_secret a s d)"
  unfolding mount_secret_def by (intro yt_intros)

lemma kept_doBuildBase: "kept R (doBuildBase E n)"
  unfolding doBuildBase_def by (intro yt_intros)

lemma kept_component_Fetch: "kept R (component_Fetch E a s)"
  unfolding component_Fetch_def fetch_service_def
  by (rule kept_resources_seq[OF preord_R]) (auto intro!: yt_intros kept_impl_Fetch split: if_splits)

lemma kept_baseExecNode_Fetch: "kept R (baseExecNode_Fetch E a)"
  unfolding baseExecNode_Fetch_def
  by (rule kept_resources_seq[OF preord_R]) (auto intro!: yt_intros kept_impl_Fetch)

lemma kept_kind_Fetch: "kept R (kind_Fetch E k)"
  by (cases k) (simp_all add: kind_Fetch_def kept_component_Fetch kept_baseExecNode_Fetch)

lemma kept_kind_NeedUpdate: "kept R (kind_NeedUpdate E k)"
  by (cases k) (simp_all add: kind_NeedUpdate_def kept_need kept_impl_needUpdate)

lemma kept_orchid_loop: "kept R (orchid_loop E p servers)"
  by (induction servers) (auto intro!: yt_intros)

lemma kept_counter_loop: "kept R (counter_loop E checks)"
  by (induction checks) (auto intro!: yt_intros)

lemma kept_agents_loop: "kept R (agents_loop E p agents)"
  by (induction agents) (auto intro!: yt_intros)

lemma kept_prechecks:
  "kept R (Discovery_UpdatePreCheck E c)" "kept R (DataNode_UpdatePreCheck E c)"
  "kept R (MasterCache_UpdatePreCheck E c)" "kept R (ControllerAgent_UpdatePreCheck E c)"
  unfolding Discovery_UpdatePreCheck_def DataNode_UpdatePreCheck_def MasterCache_UpdatePreCheck_def
    ControllerAgent_UpdatePreCheck_def
  by (intro kept_with_client yt_intros kept_IsInstanceCountEqualYTSpec kept_orchid_loop kept_counter_loop kept_agents_loop)+

end

section \<open>Writing parts\<close>

context yt_writing
begin

lemma kept_setExecNodeDisableSchedulerJobs: "kept R (setExecNodeDisableSchedulerJobs E l i b)"
  unfolding setExecNodeDisableSchedulerJobs_def by (rule kept_yt_write)

lemma kept_enable_jobs: "kept R (enable_jobs E l ordinals)"
  by (induction ordinals) (auto intro!: yt_intros kept_setExecNodeDisableSchedulerJobs)

lemma kept_drain: "kept R (drainExecNode E l i)"
  unfolding drainExecNode_def by (intro yt_intros kept_setExecNodeDisableSchedulerJobs)

lemma kept_ExecNode_UpdatePreCheck: "kept R (ExecNode_UpdatePreCheck E n)"
  unfolding ExecNode_UpdatePreCheck_def drainExecNodeForRollingUpdate_def
  by (intro kept_with_client yt_intros kept_impl_getRollingUpdateStatus kept_drain kept_enable_jobs)

lemma kept_enableSchedulerJobs: "kept R (enableSchedulerJobs E n)"
  unfolding enableSchedulerJobs_def by (intro yt_intros kept_enable_jobs)

lemma kept_create_cells: "kept R (create_cells E bundle n)"
  by (induction n) (auto intro!: yt_intros kept_yt_write)

lemma kept_set_filters: "kept R (set_filters E tn bundles)"
  by (induction bundles) (auto intro!: yt_intros kept_yt_write)

lemma kept_create_all_cells: "kept R (create_all_cells E tn bundles)"
  by (induction bundles) (auto intro!: yt_intros kept_create_cells simp: CreateTabletCells_def)

lemma kept_bundle_steps: "kept R (create_sys_bundle E tn)" "kept R (set_default_options E tn)"
  unfolding create_sys_bundle_def set_default_options_def by (intro yt_intros kept_yt_write)+

end

context cluster_bookkeeping
begin

lemma kept_sync_service: "kept R (sync_service E c t)"
  unfolding sync_service_def by (intro yt_intros kept_managed_Sync)

lemma kept_doSyncBase: "kept R (doSyncBase E a)"
  unfolding doSyncBase_def
  by (intro yt_intros kept_resources_seq) (auto intro: kept_impl_Sync kept_optional_Sync)

lemma kept_MasterCache_doServerSync: "kept R (MasterCache_doServerSync E a)"
  unfolding MasterCache_doServerSync_def by (intro yt_intros kept_impl_Sync)

end

section \<open>The contract of the controller\<close>

lemma quiet_initBundles: "meta_laws E \<Longrightarrow> quiet (initBundles E tn)"
  unfolding initBundles_def
  by (intro kept_intros cq.kept_bundle_steps cq.kept_set_filters cq.kept_create_all_cells) simp_all

lemma quiet_handleImaginaryChunksMigration: "meta_laws E \<Longrightarrow> quiet (handleImaginaryChunksMigration E n dry)"
  unfolding handleImaginaryChunksMigration_def by (intro kept_intros impl.quiet_remove)

lemma quiet_TabletNode_update: "meta_laws E \<Longrightarrow> quiet (TabletNode_update E tn dry)"
  unfolding TabletNode_update_def by (intro kept_intros impl.quiet_handleOnDelete impl.quiet_handleBulk)

lemmas quiet_parts = impl.quiet_dispatch impl.quiet_handleUpdatingClusterState cq.kept_need cq.kept_pods cq.kept_mount_secret
  cq.kept_prechecks cq.kept_ExecNode_UpdatePreCheck sq.kept_impl_Sync cq.kept_sync_service cq.kept_doBuildBase
  cq.kept_doSyncBase cq.kept_enableSchedulerJobs cq.kept_MasterCache_doServerSync
  quiet_initBundles quiet_handleImaginaryChunksMigration quiet_TabletNode_update

lemmas Sync_defs = Discovery_Sync_def HttpProxy_Sync_def RpcProxy_Sync_def TcpProxy_Sync_def KafkaProxy_Sync_def
  DataNode_Sync_def ExecNode_Sync_def TabletNode_Sync_def MasterCache_Sync_def CypressProxy_Sync_def
  BundleController_Sync_def TabletBalancer_Sync_def ControllerAgent_Sync_def

lemma quiet_Syncs:
  assumes "meta_laws E"
  shows "quiet (Discovery_Sync E c dry)" "quiet (HttpProxy_Sync E p dry)" "quiet (RpcProxy_Sync E p dry)"
    "quiet (TcpProxy_Sync E p dry)" "quiet (KafkaProxy_Sync E p dry)" "quiet (DataNode_Sync E c dry)"
    "quiet (ExecNode_Sync E n dry)" "quiet (TabletNode_Sync E tn dry)" "quiet (MasterCache_Sync E c dry)"
    "quiet (CypressProxy_Sync E c dry)" "quiet (BundleController_Sync E c dry)" "quiet (TabletBalancer_Sync E c dry)"
    "quiet (ControllerAgent_Sync E c dry)"
  unfolding Sync_defs by (intro kept_intros quiet_parts assms; assumption)+

lemma quiet_kind_Sync: "meta_laws E \<Longrightarrow> quiet (kind_Sync E k dry)"
  by (cases k) (simp_all add: quiet_Syncs)

text \<open>
  Every server component implements the interface the controller relies on: whatever the API
  server and YTsaurus answer, fetching, looking for updates and synchronising, dry or not, change
  neither the specification nor the cluster and update state, nor the updating components, nor the
  status of any component, and never save the object.
\<close>

theorem server_components_well_behaved:
  assumes "meta_laws E"
  shows "well_behaved (component_of E k)"
proof -
  have "keeps w (snd (run_state (kind_Fetch E k) w))" "keeps w (snd (run_state (kind_NeedUpdate E k) w))"
    "keeps w (snd (run_state (kind_Sync E k dry) w))" for w dry
    by (rule keptD[OF cq.kept_kind_Fetch] keptD[OF cq.kept_kind_NeedUpdate] keptD[OF quiet_kind_Sync[OF assms]])+
  then show ?thesis by (simp add: well_behaved_def component_of_def case_prod_beta)
qed

section \<open>Dry runs\<close>

lemma commands_of_proxy [simp]:
  "k_commands (map_status f w) = k_commands w"
  "k_commands (map_update_status g w) = k_commands w"
  "k_commands (SetUpdateStatusCondition M c w) = k_commands w"
  "k_commands (SetStatusCondition M c w) = k_commands w"
  by (simp_all add: map_status_def map_update_status_def SetUpdateStatusCondition_def SetStatusCondition_def Let_def)

text \<open>
  A relation that no dry run breaks.  For exec nodes it is weakened to what holds unless the update is
  a rolling one, whose pre-check drains a node; a rolling update is not checked in a dry run.
\<close>

locale dry_reading = yt_reading R for E :: "'e cenv_scheme" and R :: "'x cluster_scheme \<Rightarrow> 'x cluster_scheme \<Rightarrow> bool" +
  assumes R_condition: "R w (SetUpdateStatusCondition E c w)"
begin

sublocale rd: server_reader E "serverImpl E a" R for a
  by unfold_locales (simp_all add: preord_R R_condition kept_impl_listPods kept_impl_needUpdate kept_impl_needSync)

lemma kept_dry_updates:
  "kept R (handleImaginaryChunksMigration E n True)" "kept R (TabletNode_update E tn True)"
  unfolding handleImaginaryChunksMigration_def TabletNode_update_def
  by (intro kept_intros yt_intros rd.R_handleOnDelete rd.R_handleBulk; simp)+

lemmas dry_parts = rd.R_dispatch rd.R_handleUpdatingClusterState kept_need kept_pods kept_mount_secret kept_prechecks
  kept_dry_updates

lemma kept_dry_Syncs:
  "kept R (Discovery_Sync E c True)" "kept R (HttpProxy_Sync E p True)" "kept R (RpcProxy_Sync E p True)"
  "kept R (TcpProxy_Sync E p True)" "kept R (KafkaProxy_Sync E p True)" "kept R (DataNode_Sync E c True)"
  "kept R (TabletNode_Sync E tn True)" "kept R (MasterCache_Sync E c True)"
  "kept R (CypressProxy_Sync E c True)" "kept R (BundleController_Sync E c True)" "kept R (TabletBalancer_Sync E c True)"
  "kept R (ControllerAgent_Sync E c True)"
  unfolding Sync_defs by (intro kept_intros yt_intros dry_parts; (assumption | simp))+

lemma kept_dry_ExecNode: "kept R (ExecNode_UpdatePreCheck E n) \<Longrightarrow> kept R (ExecNode_Sync E n True)"
  unfolding Sync_defs by (intro kept_intros yt_intros dry_parts; (assumption | simp))

end

interpretation dw: dry_reading E no_write for E :: "'e cenv_scheme"
  by unfold_locales (simp add: no_write_def)

text \<open>For exec nodes the relation is weakened to updates that are not rolling.\<close>

definition no_write_unless_rolling :: "labeller \<Rightarrow> 'x cluster_scheme \<Rightarrow> 'x cluster_scheme \<Rightarrow> bool" where
  "no_write_unless_rolling l w w' \<longleftrightarrow> yt_Spec (w_object w') = yt_Spec (w_object w) \<and>
     (getComponentUpdateStrategy (l_ComponentType l) (GetInstanceGroup l) w \<noteq> ComponentUpdateModeTypeRollingUpdate \<longrightarrow> no_write w w')"

lemma preord_no_write_unless_rolling: "preord (no_write_unless_rolling l)"
  unfolding preord_def reflp_def transp_def
  by (auto simp: no_write_unless_rolling_def no_write_def getComponentUpdateStrategy_def)

interpretation du: dry_reading E "no_write_unless_rolling l" for E :: "'e cenv_scheme" and l
  by unfold_locales (simp_all add: preord_no_write_unless_rolling,
      simp_all add: no_write_unless_rolling_def no_write_def RecordNormal_def RecordWarning_def
        SetUpdateStatusCondition_def map_update_status_def map_status_def)

lemma ExecNode_UpdatePreCheck_not_rolling:
  "kept (no_write_unless_rolling (sc_labeller n)) (ExecNode_UpdatePreCheck E n)"
proof (rule keptI)
  fix w
  have "keeps w (snd (run_state (ExecNode_UpdatePreCheck E n) w))" by (rule keptD[OF cq.kept_ExecNode_UpdatePreCheck])
  moreover have "snd (run_state (ExecNode_UpdatePreCheck E n) w) = w"
    if "getComponentUpdateStrategy (l_ComponentType (sc_labeller n)) (GetInstanceGroup (sc_labeller n)) w \<noteq> ComponentUpdateModeTypeRollingUpdate"
    using that by (simp add: ExecNode_UpdatePreCheck_def with_client_def)
  ultimately show "no_write_unless_rolling (sc_labeller n) w (snd (run_state (ExecNode_UpdatePreCheck E n) w))"
    by (auto simp: no_write_unless_rolling_def no_write_def keeps_def same_control_def)
qed

lemma dispatch_rolling_dry:
  "getComponentUpdateStrategy (l_ComponentType l) (GetInstanceGroup l) w = ComponentUpdateModeTypeRollingUpdate \<Longrightarrow>
   run_state (dispatchComponentUpdate E l pre srv True) w = run_state (dispatchComponentUpdate E l pre' srv True) w"
  by (simp add: dispatchComponentUpdate_def handleRollingUpdatingClusterState_def Let_def)

lemma run_handled: "run_state h w = run_state h' w \<Longrightarrow> run_state (handled h rest) w = run_state (handled h' rest) w"
  by (simp add: handled_def)

lemma no_write_dry_ExecNode: "kept no_write (ExecNode_Sync E n True)"
proof (rule keptI)
  fix w
  let ?l = "sc_labeller n" and ?s = "serverImpl E (sc_id n)"
  let ?dispatch = "\<lambda>pre. dispatchComponentUpdate E ?l pre ?s True"
  let ?rest = "wait_for (sc_master n) (sync_server (baseExecNode_NeedSync E n) True (doSyncBase E (sc_id n))
    (serverComponent_ArePodsReady E n))"
  have sync: "ExecNode_Sync E n True = if_updating (handled (?dispatch (ExecNode_UpdatePreCheck E n))) ?rest"
    by (simp add: ExecNode_Sync_def when_do_def)
  show "no_write w (snd (run_state (ExecNode_Sync E n True) w))"
  proof (cases "getComponentUpdateStrategy (l_ComponentType ?l) (GetInstanceGroup ?l) w = ComponentUpdateModeTypeRollingUpdate")
    case True
    have "run_state (handled (?dispatch (ExecNode_UpdatePreCheck E n)) ?rest) w =
        run_state (handled (?dispatch component_UpdatePreCheck) ?rest) w"
      by (rule run_handled[OF dispatch_rolling_dry[OF True]])
    then have "run_state (ExecNode_Sync E n True) w = run_state (if_updating (handled (?dispatch component_UpdatePreCheck)) ?rest) w"
      unfolding sync if_updating_def by simp
    moreover have "kept no_write (if_updating (handled (?dispatch component_UpdatePreCheck)) ?rest)"
      by (intro kept_intros dw.dry_parts; (assumption | simp))
    ultimately show ?thesis using keptD by metis
  next
    case False
    have "no_write_unless_rolling ?l w (snd (run_state (ExecNode_Sync E n True) w))"
      by (rule keptD[OF du.kept_dry_ExecNode[OF ExecNode_UpdatePreCheck_not_rolling]])
    with False show ?thesis by (simp add: no_write_unless_rolling_def)
  qed
qed

text \<open>
  A dry run writes nothing: when the controller only asks for the status of a server component,
  no request that creates, changes or deletes an object is sent to Kubernetes and no writing
  command is sent to YTsaurus, in every state of the cluster and of the update.
\<close>

theorem dry_run_writes_nothing: "no_write w (snd (run_state (kind_Sync E k True) w))"
proof -
  have "kept no_write (kind_Sync E k True)"
    by (cases k) (simp_all add: dw.kept_dry_Syncs no_write_dry_ExecNode)
  then show ?thesis by (rule keptD)
qed

section \<open>Order of start\<close>

text \<open>The components that have a reference to the masters and look at their status.\<close>

definition waits_for_masters :: "'x server_kind \<Rightarrow> bool" where
  "waits_for_masters k \<longleftrightarrow>
    (case k of CypressProxy _ \<Rightarrow> False | BundleController _ \<Rightarrow> False | TabletBalancer _ \<Rightarrow> False | _ \<Rightarrow> True)"

lemma run_blocked:
  assumes "GetClusterState w \<noteq> ClusterStateUpdating" "\<not> IsRunning (GetStatus m w)"
  shows "run_state (if_updating u (wait_for (Some m) rest)) w = ((Blocker (GetStatus m w), None), w)"
  using assms by (simp add: if_updating_def wait_for_def)

lemma blocked_after:
  assumes "GetClusterState w \<noteq> ClusterStateUpdating" "\<not> IsRunning (GetStatus m w)"
    and "kept keeps pre" "kept no_write pre" "run_state pre w = (x, w1)"
  shows "run_state (if_updating u (wait_for (Some m) rest)) w1 = ((Blocker (GetStatus m w), None), w1)" "no_write w w1"
proof -
  have k: "keeps w w1" using assms(3,5) by (rule keptD_eq)
  then have "GetStatus m w1 = GetStatus m w" by (simp add: keeps_def GetStatus_def)
  with k run_blocked[of w1 m u rest] assms(1,2) show "run_state (if_updating u (wait_for (Some m) rest)) w1 = ((Blocker (GetStatus m w), None), w1)"
    by (simp add: keeps_def same_control_def)
  show "no_write w w1" using assms(4,5) by (rule keptD_eq)
qed

lemma blocked_ExecNode:
  assumes "GetClusterState w \<noteq> ClusterStateUpdating" "sc_master n = Some m" "\<not> IsRunning (GetStatus m w)"
    and "run_state (ExecNode_Sync E n dry) w = ((status, err), w')"
  shows "cs_SyncStatus status = SyncStatusBlocked \<and> no_write w w'"
proof -
  let ?build = "when_do (\<not> dry) (doBuildBase E n)"
  obtain built w1 where b: "run_state ?build w = (built, w1)" by fastforce
  have "kept keeps ?build" "kept no_write ?build"
    by (intro kept_intros cq.kept_doBuildBase cr.kept_doBuildBase)+
  from blocked_after[OF assms(1,3) this b] show ?thesis
    using assms(2,4) b by (auto simp: ExecNode_Sync_def split: if_splits)
qed

lemma blocked_mount:
  assumes "GetClusterState w \<noteq> ClusterStateUpdating" "\<not> IsRunning (GetStatus m w)"
    and "run_state (do { mount_secret a s dry; if_updating u (wait_for (Some m) rest) }) w = ((status, err), w')"
  shows "cs_SyncStatus status = SyncStatusBlocked \<and> no_write w w'"
proof -
  obtain w1 where b: "run_state (mount_secret a s dry) w = ((), w1)" by (metis surj_pair unit.exhaust)
  from blocked_after[OF assms(1,2) cq.kept_mount_secret cr.kept_mount_secret b] b assms(3)
  show ?thesis by auto
qed

text \<open>
  Servers start after the masters: outside an update, as long as the masters are not running,
  synchronising a component that depends on them reports it as blocked and writes nothing, neither
  to Kubernetes nor to YTsaurus.
\<close>

theorem servers_wait_for_masters:
  assumes "waits_for_masters k" and "sc_master (base_of k) = Some m"
    and "GetClusterState w \<noteq> ClusterStateUpdating" and "\<not> IsRunning (GetStatus m w)"
    and "run_state (kind_Sync E k dry) w = ((status, err), w')"
  shows "cs_SyncStatus status = SyncStatusBlocked \<and> no_write w w'"
proof -
  have blocked: "run_state (if_updating u (wait_for (Some m) rest)) w = ((Blocker (GetStatus m w), None), w)" for u rest
    using assms(3,4) by (rule run_blocked)
  have same: "no_write w w" by (simp add: no_write_def)
  show ?thesis
  proof (cases k)
    case (ExecNode n)
    with assms(2,5) show ?thesis by (intro blocked_ExecNode[OF assms(3) _ assms(4)]) (simp_all add: server_component.defs)
  qed (use assms blocked same blocked_mount[OF assms(3,4)] in \<open>auto simp: waits_for_masters_def server_component.defs Discovery_Sync_def
      HttpProxy_Sync_def RpcProxy_Sync_def TcpProxy_Sync_def KafkaProxy_Sync_def DataNode_Sync_def TabletNode_Sync_def
      MasterCache_Sync_def ControllerAgent_Sync_def\<close>)
qed

section \<open>Readiness\<close>

text \<open>What the listing of pods depends on, and the number of calls made so far.\<close>

definition same_view :: "nat \<Rightarrow> 'x servers_scheme \<Rightarrow> 'x servers_scheme \<Rightarrow> bool" where
  "same_view a w w' \<longleftrightarrow> GetClusterState w' = GetClusterState w \<and> k_calls w \<le> k_calls w' \<and>
     (let s = k_servers w a; s' = k_servers w' a
      in si_labeller s' = si_labeller s \<and> si_instanceCount s' = si_instanceCount s \<and>
         si_MinReadyInstanceCount s' = si_MinReadyInstanceCount s)"

lemma preord_same_view [kept_intros]: "preord (same_view a)"
  unfolding preord_def reflp_def transp_def by (auto simp: same_view_def Let_def)

interpretation sv: reading "same_view a" for a
  by unfold_locales (simp_all add: preord_same_view,
      simp_all add: same_view_def GetClusterState_def RecordNormal_def RecordWarning_def)

lemma same_view_server [kept_intros]:
  "kept (same_view a) (get_server b)"
  "(\<And>s. si_labeller (f s) = si_labeller s \<and> si_instanceCount (f s) = si_instanceCount s \<and>
     si_MinReadyInstanceCount (f s) = si_MinReadyInstanceCount s) \<Longrightarrow> kept (same_view a) (upd_server b f)"
  by (rule keptI, simp add: same_view_def GetClusterState_def)+

lemma same_view_objects [kept_intros]:
  "kept (same_view a) (modifies (\<lambda>w. w\<lparr>k_sidecars := g w\<rparr>))"
  by (rule kept_modifies) (simp add: same_view_def GetClusterState_def)

lemma same_view_need [kept_intros]:
  "kept (same_view a) (serverComponent_NeedSync E c)" "kept (same_view a) (baseExecNode_NeedSync E n)"
  unfolding serverComponent_NeedSync_def baseExecNode_NeedSync_def impl_needSync_def impl_needUpdate_def
    timbertruckConfigNeedsReload_def sidecarConfigNeedsReload_def
  by (intro kept_intros sv.kept_builder)+

lemma same_view_build:
  "si_labeller (buildStatefulSet s) = si_labeller s" "si_instanceCount (buildStatefulSet s) = si_instanceCount s"
  "si_MinReadyInstanceCount (buildStatefulSet s) = si_MinReadyInstanceCount s"
  "si_labeller (map_new g s) = si_labeller s" "si_instanceCount (map_new g s) = si_instanceCount s"
  "si_MinReadyInstanceCount (map_new g s) = si_MinReadyInstanceCount s"
  by (simp_all add: buildStatefulSet_def rebuildStatefulSet_def sts_Build_def map_new_def Let_def)

lemma same_view_mount [kept_intros]: "kept (same_view a) (mount_secret b s dry)" "kept (same_view a) (doBuildBase E n)"
  unfolding mount_secret_def doBuildBase_def by (intro kept_intros sv.kept_builder; simp add: same_view_build)+

text \<open>
  A report of readiness rests on a list of pods that the API server returned in this very run.
\<close>

definition pods_seen :: "'e kenv_scheme \<Rightarrow> nat \<Rightarrow> 'x servers_scheme \<Rightarrow> bool" where
  "pods_seen E a w \<longleftrightarrow> (\<exists>n\<ge>k_calls w. \<exists>pods. ka_ListPods (e_Kube E n) (si_labeller (k_servers w a)) = Inr pods \<and>
     IsReady (pods_status pods [] (si_instanceCount (k_servers w a)) (impl_minReady a 0 w)))"

definition ready_sound :: "'e kenv_scheme \<Rightarrow> nat \<Rightarrow> 'x outcome \<Rightarrow> bool" where
  "ready_sound E a m \<longleftrightarrow> (\<forall>w status w'. run_state m w = ((status, None), w') \<longrightarrow> IsReady status \<longrightarrow>
     GetClusterState w \<noteq> ClusterStateUpdating \<longrightarrow> pods_seen E a w)"

named_theorems sound_intros \<open>composition rules for \<open>ready_sound\<close>\<close>

lemma pods_seen_before: "same_view a w w1 \<Longrightarrow> pods_seen E a w1 \<Longrightarrow> pods_seen E a w"
  by (auto simp: pods_seen_def same_view_def Let_def impl_minReady_def intro: order_trans)

lemma sound_bind:
  assumes "kept (same_view a) m" "\<And>x. ready_sound E a (f x)"
  shows "ready_sound E a (State_Monad.bind m f)"
  unfolding ready_sound_def
proof (intro allI impI)
  fix w status w' assume r: "run_state (State_Monad.bind m f) w = ((status, None), w')" "IsReady status"
    and cs: "GetClusterState w \<noteq> ClusterStateUpdating"
  obtain x w1 where m: "run_state m w = (x, w1)" by fastforce
  have v: "same_view a w w1" using assms(1) m by (rule keptD_eq)
  have "pods_seen E a w1" using assms(2)[of x] r cs m v by (auto simp: ready_sound_def same_view_def)
  with v show "pods_seen E a w" by (rule pods_seen_before)
qed

lemma sound_never_ready [sound_intros]: "\<not> IsReady st \<Longrightarrow> ready_sound E a (do { err \<leftarrow> m; ret (st, err) })"
  by (auto simp: ready_sound_def split: prod.splits)

lemma sound_if_updating [sound_intros]: "ready_sound E a rest \<Longrightarrow> ready_sound E a (if_updating u rest)"
  by (simp add: ready_sound_def if_updating_def)

lemma sound_wait_for [sound_intros]: "ready_sound E a rest \<Longrightarrow> ready_sound E a (wait_for c rest)"
  by (cases c) (auto simp: ready_sound_def wait_for_def IsReady_def)

lemma sound_sync_server [sound_intros]:
  "kept (same_view a) need \<Longrightarrow> ready_sound E a rest \<Longrightarrow> ready_sound E a (sync_server need dry sync rest)"
  unfolding sync_server_def by (rule sound_bind) (auto intro!: sound_never_ready simp: IsReady_def)

lemma sound_balancing [sound_intros]:
  "ready_sound E a rest \<Longrightarrow> ready_sound E a (balancing E' c dry t rest)"
  "ready_sound E a rest \<Longrightarrow> ready_sound E a (optional_balancing E' p dry t rest)"
  unfolding balancing_def optional_balancing_def
  by (auto intro!: sound_bind sound_never_ready kept_intros simp: IsReady_def)

lemma sound_pods [sound_intros]: "sc_id c = a \<Longrightarrow> ready_sound E a (serverComponent_ArePodsReady E c)"
  by (auto simp: ready_sound_def serverComponent_ArePodsReady_def arePodsReady_def impl_listPods_def api_call_def
      pods_seen_def impl_minReady_def split: sum.splits)

lemma sound_pods_then [sound_intros]:
  assumes "sc_id c = a"
  shows "ready_sound E a (do { (status, err) \<leftarrow> serverComponent_ArePodsReady E c;
    if \<not> IsReady status \<or> err \<noteq> None then ret (status, err) else k })"
  using sound_pods[OF assms, of E] by (auto simp: ready_sound_def split: prod.splits if_splits)

lemma sound_Syncs:
  "ready_sound E (sc_id c) (Discovery_Sync E c dry)" "ready_sound E (sc_id p) (HttpProxy_Sync E p dry)"
  "ready_sound E (sc_id p) (RpcProxy_Sync E p dry)" "ready_sound E (sc_id p) (TcpProxy_Sync E p dry)"
  "ready_sound E (sc_id p) (KafkaProxy_Sync E p dry)" "ready_sound E (sc_id c) (DataNode_Sync E c dry)"
  "ready_sound E (sc_id tn) (TabletNode_Sync E tn dry)" "ready_sound E (sc_id c) (MasterCache_Sync E c dry)"
  "ready_sound E (sc_id c) (CypressProxy_Sync E c dry)" "ready_sound E (sc_id c) (BundleController_Sync E c dry)"
  "ready_sound E (sc_id c) (TabletBalancer_Sync E c dry)" "ready_sound E (sc_id c) (ControllerAgent_Sync E c dry)"
  unfolding Sync_defs by (intro sound_intros sound_bind kept_intros refl)+

lemma sound_ExecNode: "ready_sound E (sc_id n) (ExecNode_Sync E n dry)"
proof -
  have "ready_sound E (sc_id n) (ret (ComponentStatusBlockedBy s, built))" for s built
    by (simp add: ready_sound_def IsReady_def)
  then show ?thesis unfolding ExecNode_Sync_def by (intro sound_bind kept_intros) (auto intro!: sound_intros kept_intros)
qed

lemma sound_kind_Sync: "ready_sound E (sc_id (base_of k)) (kind_Sync E k dry)"
  using sound_Syncs sound_ExecNode by (cases k) (simp_all add: server_component.defs)

text \<open>
  (C23) A server component is reported ready only on evidence: outside an update, when \<open>Sync\<close> says
  ready without an error, the API server has listed the pods of the component during this call, and
  there were not too many of them and enough of them running and ready.
\<close>

theorem ready_only_with_pods:
  assumes "GetClusterState w \<noteq> ClusterStateUpdating"
    and "run_state (kind_Sync E k dry) w = ((status, None), w')" and "IsReady status"
  shows "\<exists>n\<ge>k_calls w. \<exists>pods. let s = k_servers w (sc_id (base_of k)) in
    ka_ListPods (e_Kube E n) (si_labeller s) = Inr pods \<and>
    IsReady (pods_status pods [] (si_instanceCount s) (min_ready_count (si_MinReadyInstanceCount s) (si_instanceCount s) 0))"
  using sound_kind_Sync[of E k dry] assms by (simp add: ready_sound_def pods_seen_def impl_minReady_def Let_def)

section \<open>Witnesses\<close>

definition sample_component :: "component_type \<Rightarrow> unit server_component" where
  "sample_component t = \<lparr>sc_id = 0, sc_labeller = ForComponent t '''' zero_labeller,
     sc_master = Some (const_component 1 MasterType '''' SyncStatusReady), sc_hasClient = True\<rparr>"

abbreviation "sample_running \<equiv> sample_cluster ClusterStateRunning empty_update_status (existing_server (sample_sts 0 3))"

theorem server_components_well_behaved_witness:
  "well_behaved (component_of (sample_cenv (sample_api None [])) (Discovery (sample_component DiscoveryType)))"
  by (rule server_components_well_behaved) simp

theorem servers_wait_for_masters_witness:
  "cs_SyncStatus (fst (fst (run_state (kind_Sync (sample_cenv (sample_api None [])) (DataNode (sample_component DataNodeType)) False)
     sample_running))) = SyncStatusBlocked"
proof -
  let ?E = "sample_cenv (sample_api None [])" and ?k = "DataNode (sample_component DataNodeType)"
  obtain status err w' where r: "run_state (kind_Sync ?E ?k False) sample_running = ((status, err), w')"
    by (metis surj_pair)
  have "GetClusterState sample_running \<noteq> ClusterStateUpdating" by code_simp
  moreover have "\<not> IsRunning (GetStatus (const_component 1 MasterType '''' SyncStatusReady) sample_running)" by code_simp
  ultimately show ?thesis
    using servers_wait_for_masters[OF _ _ _ _ r, of "const_component 1 MasterType '''' SyncStatusReady"] r
    by (simp add: waits_for_masters_def sample_component_def)
qed

theorem ready_only_with_pods_witness:
  "\<exists>n pods. ka_ListPods (e_Kube (sample_cenv (sample_api None [sample_pod ''a'' True, sample_pod ''b'' True, sample_pod ''c'' True])) n)
      (si_labeller (existing_server (sample_sts 0 3))) = Inr pods \<and> IsReady (pods_status pods [] 3 3)"
proof -
  let ?E = "sample_cenv (sample_api None [sample_pod ''a'' True, sample_pod ''b'' True, sample_pod ''c'' True])"
  let ?k = "CypressProxy (sample_component CypressProxyType)"
  obtain status err w' where r: "run_state (kind_Sync ?E ?k False) sample_running = ((status, err), w')"
    by (metis surj_pair)
  have "snd (fst (run_state (kind_Sync ?E ?k False) sample_running)) = None" by code_simp
  with r have err: "err = None" by simp
  have "IsReady (fst (fst (run_state (kind_Sync ?E ?k False) sample_running)))" by code_simp
  with r have st: "IsReady status" by simp
  have "GetClusterState sample_running \<noteq> ClusterStateUpdating" by code_simp
  from ready_only_with_pods[OF this r[unfolded err] st] obtain n pods where
    "let s = k_servers sample_running (sc_id (base_of ?k)) in ka_ListPods (e_Kube ?E n) (si_labeller s) = Inr pods \<and>
      IsReady (pods_status pods [] (si_instanceCount s) (min_ready_count (si_MinReadyInstanceCount s) (si_instanceCount s) 0))"
    by blast
  moreover have "k_servers sample_running (sc_id (base_of ?k)) = existing_server (sample_sts 0 3)"
    by (simp add: sample_cluster_def servers.defs kube.defs)
  moreover have "si_instanceCount (existing_server (sample_sts 0 3)) = 3" "si_MinReadyInstanceCount (existing_server (sample_sts 0 3)) = None"
    by (simp_all add: existing_server_def sample_server_def)
  moreover have "min_ready_count None 3 0 = 3" by code_simp
  ultimately show ?thesis by (auto simp: Let_def)
qed

end
