(* ===== verification/Prechecks.thy ===== *)
theory Prechecks
  imports Server_Contracts
begin

text \<open>
  Pre-checks of updates: which pods of a rolling update they guard, in particular the draining of
  exec nodes before their pods are replaced.
\<close>

section \<open>Pre-checks run once\<close>

lemma ShouldRunPreChecks_done:
  assumes "meta_laws E" "upd_status w (GetReadyCondition l) = Some ConditionTrue"
  shows "\<not> ShouldRunPreChecks E t (GetFullComponentName l) w"
  using assms
  by (auto simp: ShouldRunPreChecks_def upd_status_def GetReadyCondition_def GetCondition_def meta_laws_simps split: option.splits)

text \<open>
  The pre-checks of a component run at most once in an update: after they have passed, they are
  not asked again, so every further step of the rollout, each of which replaces another pod, is the
  same whatever the pre-checks would say.
\<close>

theorem prechecks_run_once:
  assumes "meta_laws E" and "quiet pre" and "conds_wf w"
    and "run_state (runPrechecks E l pre) w = ((None, err), w')"
  shows "\<not> ShouldRunPreChecks E (l_ComponentType l) (GetFullComponentName l) w' \<and>
    run_state (advance_rolling E l pre1 srv m roll) w' = run_state (advance_rolling E l pre2 srv m roll) w'"
proof -
  let ?w1 = "SetUpdateStatusCondition E (mkcond (GetPreChecksRunningCondition l) ConditionTrue ''RunningPreChecks'' ''running pre-checks'') w"
  obtain st w2 where p: "run_state pre ?w1 = (st, w2)" by fastforce
  have "conds_wf ?w1" using assms(1,3) by (rule conds_wf_SetUpdateStatusCondition)
  then have wf: "conds_wf w2" using conds_wf_kept[OF keptD_eq[OF assms(2) p]] by blast
  have "w' = SetUpdateStatusCondition E (mkcond (GetReadyCondition l) ConditionTrue ''PreChecksCompleted'' ''pre-checks completed'') w2"
    using assms(4) p by (cases "cs_SyncStatus st = SyncStatusReady") (simp_all add: runPrechecks_def Let_def)
  then have "upd_status w' (GetReadyCondition l) = Some ConditionTrue" using upd_status_Set[OF assms(1) wf] by simp
  then have skip: "\<not> ShouldRunPreChecks E (l_ComponentType l) (GetFullComponentName l) w'"
    using ShouldRunPreChecks_done[OF assms(1)] by blast
  then have "run_state (prechecks_guard E l pre1) w' = run_state (prechecks_guard E l pre2) w'"
    by (simp add: prechecks_guard_def)
  with skip show ?thesis by (simp add: advance_rolling_def Let_def run_or_else)
qed

section \<open>Exec nodes with log delivery\<close>

lemma containers_built:
  "\<not> si_builtStatefulSet s \<Longrightarrow> ss_Containers (o_Content (mr_new (si_statefulSet (buildStatefulSet s)))) =
    (YTServerContainerName, si_image s) # (if si_timbertruckConfigs s \<noteq> None then [(TimbertruckContainerName, si_timbertruckImage s)] else [])"
  by (simp add: buildStatefulSet_def rebuildStatefulSet_def map_new_def sts_Build_def Let_def)

text \<open>
  An exec node that delivers logs cannot be synchronised: with the sidecar of log delivery its
  pod has two containers, and building its specification panics before anything is written.
\<close>

theorem exec_node_with_log_delivery_panics:
  assumes "si_timbertruckConfigs (k_servers w (sc_id n)) \<noteq> None" and "\<not> si_builtStatefulSet (k_servers w (sc_id n))"
  shows "fst (run_state (ExecNode_Sync E n False) w) =
      (ComponentStatusBlockedBy ''cannot build exec node spec'',
       Some ''panic: Number of exec node containers is expected to be 1, actual 2'') \<and>
    no_write w (snd (run_state (ExecNode_Sync E n False) w))"
proof -
  have "show_nat 2 = ''2''" by code_simp
  then have "show_nat (Suc (Suc 0)) = ''2''" by (simp add: numeral_2_eq_2)
  then show ?thesis using assms containers_built[of "k_servers w (sc_id n)"]
    by (simp add: ExecNode_Sync_def doBuildBase_def no_write_def Let_def)
qed

section \<open>Draining of exec nodes\<close>

text \<open>
  A StatefulSet that nobody else changes meanwhile: every read returns the same object, and the API
  server gives every object a resource version.
\<close>

definition stable_sts :: "'e kenv_scheme \<Rightarrow> string \<Rightarrow> stateful_set k8s_object \<Rightarrow> bool" where
  "stable_sts E name0 obj \<longleftrightarrow> (\<forall>n. oc_Get (ka_sts (e_Kube E n)) name0 = Inl obj) \<and> o_ResourceVersion obj \<noteq> ''''"

definition rolling_of :: "stateful_set \<Rightarrow> sts_rolling_status option" where
  "rolling_of sts =
    (if ss_UpdateRevision sts = '''' \<or> ss_Generation sts \<noteq> ss_ObservedGeneration sts then None
     else Some \<lparr>rs_partition = (case ust_RollingUpdate (ss_UpdateStrategy sts) of
              None \<Rightarrow> 0 | Some ru \<Rightarrow> ptr_deref (ru_Partition ru) 0),
            rs_availableReplicas = ss_AvailableReplicas sts, rs_updatedReplicas = ss_UpdatedReplicas sts,
            rs_totalCount = ptr_deref (ss_Replicas sts) 1,
            rs_updateRevision = ss_UpdateRevision sts, rs_currentRevision = ss_CurrentRevision sts\<rparr>)"

definition sts_watched :: "'x servers_scheme \<Rightarrow> nat \<Rightarrow> string \<Rightarrow> bool" where
  "sts_watched w a name0 \<longleftrightarrow> mr_name (si_statefulSet (k_servers w a)) = name0 \<and> managed_Exists (si_statefulSet (k_servers w a))"

lemma getRollingUpdateStatus_stable:
  assumes "stable_sts E name0 obj" "sts_watched w a name0" "run_state (impl_getRollingUpdateStatus E a) w = (r, w')"
  shows "r = (rolling_of (o_Content obj), None)" "sts_watched w' a name0" "w_object w' = w_object w"
  using assms
  by (auto simp: impl_getRollingUpdateStatus_def fetchAndValidateStatefulSet_def fetch_statefulSet_def managed_Fetch_def
      api_call_def FetchObject_def stable_sts_def sts_watched_def go_error_of_def managed_Exists_def rolling_of_def Let_def)

text \<open>The node with the given ordinal has been seen without running jobs.\<close>

definition drained :: "'e cenv_scheme \<Rightarrow> labeller \<Rightarrow> int \<Rightarrow> bool" where
  "drained E l ordinal \<longleftrightarrow> (\<exists>n. ya_GetInt (e_Yt E n) (userSlotsPath E l ordinal) = Inr 0)"

lemma drainExecNode_ready:
  "run_state (drainExecNode E l i) w = (st, w') \<Longrightarrow> cs_SyncStatus st = SyncStatusReady \<Longrightarrow> drained E l i"
  by (auto simp: drainExecNode_def drained_def Let_def split: sum.splits if_splits prod.splits)

lemma drain_for_rolling:
  assumes "stable_sts E name0 obj" "sts_watched w (sc_id n) name0" "rolling_of (o_Content obj) = Some roll"
    "rs_partition roll \<noteq> 0"
    and "run_state (drainExecNodeForRollingUpdate E n) w = (st, w')" "cs_SyncStatus st = SyncStatusReady"
  shows "drained E (sc_labeller n) (rs_partition roll - 1)"
proof -
  obtain r w1 where g: "run_state (impl_getRollingUpdateStatus E (sc_id n)) w = (r, w1)" by fastforce
  obtain st1 w2 where d: "run_state (drainExecNode E (sc_labeller n) (rs_partition roll - 1)) w1 = (st1, w2)" by fastforce
  have "cs_SyncStatus st1 = SyncStatusReady"
    using assms(3-6) g d getRollingUpdateStatus_stable(1)[OF assms(1,2) g]
    by (auto simp: drainExecNodeForRollingUpdate_def split: if_splits)
  then show ?thesis using drainExecNode_ready[OF d] by blast
qed

lemma precheck_drains:
  assumes "stable_sts E name0 obj" "sts_watched w (sc_id n) name0" "rolling_of (o_Content obj) = Some roll" "rs_partition roll \<noteq> 0"
    and "getComponentUpdateStrategy (l_ComponentType (sc_labeller n)) (GetInstanceGroup (sc_labeller n)) w = ComponentUpdateModeTypeRollingUpdate"
    and "run_state (ExecNode_UpdatePreCheck E n) w = (st, w')" "cs_SyncStatus st = SyncStatusReady"
  shows "drained E (sc_labeller n) (rs_partition roll - 1)"
  using assms drain_for_rolling[OF assms(1-4), of st w']
  by (auto simp: ExecNode_UpdatePreCheck_def with_client_def split: if_splits)

lemma guard_passed:
  assumes "run_state (prechecks_guard E l pre) w = (None, w')"
    and "ShouldRunPreChecks E (l_ComponentType l) (GetFullComponentName l) w"
  obtains st w1 where "run_state pre (SetUpdateStatusCondition E (mkcond (GetPreChecksRunningCondition l) ConditionTrue
      ''RunningPreChecks'' ''running pre-checks'') w) = (st, w1)" "cs_SyncStatus st = SyncStatusReady"
  using assms by (auto simp: prechecks_guard_def runPrechecks_def Let_def split: prod.splits if_splits)

lemma spec_readers:
  assumes "w_object w' = w_object w"
  shows "getComponentUpdateStrategy t g w' = getComponentUpdateStrategy t g w"
    "ShouldRunPreChecks E t g w' = ShouldRunPreChecks E t g w"
  by (simp_all add: getComponentUpdateStrategy_def ShouldRunPreChecks_def shouldEnablePreChecksFromSpec_def assms)

text \<open>Looking for an update changes neither the object nor the servers.\<close>

definition same_objects :: "'x servers_scheme \<Rightarrow> 'x servers_scheme \<Rightarrow> bool" where
  "same_objects w w' \<longleftrightarrow> w_object w' = w_object w \<and> k_servers w' = k_servers w"

lemma preord_same_objects [kept_intros]: "preord same_objects"
  by (auto simp: preord_def reflp_def transp_def same_objects_def)

interpretation so: reading same_objects
  by unfold_locales (simp_all add: preord_same_objects, simp_all add: same_objects_def RecordNormal_def RecordWarning_def)

lemma same_objects_needUpdate: "kept same_objects (impl_needUpdate E a)"
  unfolding impl_needUpdate_def get_server_def by (intro kept_intros so.kept_builder)

text \<open>
  A StatefulSet that exposes no pod beyond the drained ones: when its partition is below the number of replicas,
  the node at the partition is drained.
\<close>

definition exposes_drained :: "'e cenv_scheme \<Rightarrow> labeller \<Rightarrow> int \<Rightarrow> stateful_set \<Rightarrow> bool" where
  "exposes_drained E l replicas ss \<longleftrightarrow>
    (case Option.bind (ust_RollingUpdate (ss_UpdateStrategy ss)) ru_Partition of
       Some p \<Rightarrow> p < replicas \<longrightarrow> drained E l p
     | None \<Rightarrow> True)"

lemma exposes_drained_strategy:
  "ss_UpdateStrategy ss = sts_strategy_of RollingUpdateStatefulSetStrategyType p m \<Longrightarrow>
   (p < replicas \<Longrightarrow> drained E l p) \<Longrightarrow> exposes_drained E l replicas ss"
  by (simp add: exposes_drained_def sts_strategy_of_def)

lemma guarded_advance:
  assumes "keeps_content E" "stable_sts E name0 obj" "sts_watched w (sc_id n) name0" "rolling_of (o_Content obj) = Some roll" "roll_wf roll"
    and "getComponentUpdateStrategy (l_ComponentType (sc_labeller n)) (GetInstanceGroup (sc_labeller n)) w = ComponentUpdateModeTypeRollingUpdate"
    and "ShouldRunPreChecks E (l_ComponentType (sc_labeller n)) (GetFullComponentName (sc_labeller n)) w"
  shows "issues (writes_sts (exposes_drained E (sc_labeller n) (rs_totalCount roll))) w
    (snd (run_state (advance_rolling E (sc_labeller n) (ExecNode_UpdatePreCheck E n) (serverImpl E (sc_id n)) m roll) w))"
proof -
  let ?l = "sc_labeller n" and ?pre = "ExecNode_UpdatePreCheck E n" and ?a = "sc_id n"
  let ?R = "issues (writes_sts (exposes_drained E ?l (rs_totalCount roll)))"
  let ?sync = "State_Monad.bind (upd_server ?a (setUpdateStrategy RollingUpdateStatefulSetStrategyType
        (wrap32 (rs_partition roll - 1)) m)) (\<lambda>_. impl_Sync E ?a)"
  show ?thesis
  proof (cases "UnavailableOrInProgressReplicas roll < m \<and> rs_partition roll \<noteq> 0")
    case True
    obtain g w1 where g: "run_state (prechecks_guard E ?l ?pre) w = (g, w1)" by fastforce
    have w1: "?R w w1"
      using keptD_eq[OF impl_read.R_prechecks_guard[OF cw.kept_ExecNode_UpdatePreCheck] g] by (rule issues_no_request)
    show ?thesis
    proof (cases g)
      case None
      obtain st w2 where p: "run_state ?pre (SetUpdateStatusCondition E (mkcond (GetPreChecksRunningCondition ?l) ConditionTrue
          ''RunningPreChecks'' ''running pre-checks'') w) = (st, w2)" "cs_SyncStatus st = SyncStatusReady"
        by (rule guard_passed[OF g[unfolded None] assms(7)])
      have "drained E ?l (rs_partition roll - 1)"
        by (rule precheck_drains[OF assms(2) _ assms(4) _ _ p])
          (use assms(3,6) True in \<open>simp_all add: sts_watched_def getComponentUpdateStrategy_def SetUpdateStatusCondition_def
            map_update_status_def map_status_def\<close>)
      moreover have "wrap32 (rs_partition roll - 1) = rs_partition roll - 1"
        using assms(5) True by (simp add: roll_wf_def int32_def)
      ultimately have sync: "kept ?R ?sync"
        by (intro strategy_Sync_issues[OF assms(1)] exposes_drained_strategy) simp_all
      have "snd (run_state (advance_rolling E ?l ?pre (serverImpl E ?a) m roll) w) = snd (run_state ?sync w1)"
        using True g None by (auto simp: advance_rolling_def Let_def run_or_else split: prod.split option.split)
      with preordD(2)[OF preord_issues w1 keptD[OF sync]] show ?thesis by (simp only:)
    next
      case (Some r)
      then show ?thesis using g w1 True by (simp add: advance_rolling_def Let_def run_or_else)
    qed
  next
    case False
    then show ?thesis
      by (auto simp: advance_rolling_def Let_def issues_def setRollingBudgetExhaustedCondition_def not_less)
  qed
qed


section \<open>Witnesses\<close>

definition sample_exec :: "unit exec_node" where
  "sample_exec = server_component.extend (sample_component ExecNodeType)
     \<lparr>en_initContainers = [], en_sidecars = [], en_hasCRIService = False, en_Isolated = False\<rparr>"

definition rolling_cluster :: cluster where
  "rolling_cluster = (sample_cluster ClusterStateUpdating (removing_status []) (existing_server (sample_sts 2 3)))
     \<lparr>w_object := (sample_object ClusterStateUpdating (removing_status []) [])\<lparr>yt_Spec := sample_spec\<lparr>sp_UpdatePlan :=
        [zero_selector\<lparr>sel_Component := \<lparr>ref_type = ExecNodeType, ref_name = ''''\<rparr>,
          sel_Strategy := Some \<lparr>strat_RunPreChecks = None, strat_RollingUpdate = Some (), strat_OnDelete = None\<rparr>\<rparr>]\<rparr>\<rparr>\<rparr>"

theorem prechecks_run_once_witness:
  "let l = ForComponent ExecNodeType '''' zero_labeller; E = sample_cenv (sample_api None []);
       w' = snd (run_state (runPrechecks E l (ret ComponentStatusReady)) rolling_cluster)
   in \<not> ShouldRunPreChecks E (l_ComponentType l) (GetFullComponentName l) w'"
proof -
  let ?l = "ForComponent ExecNodeType '''' zero_labeller" and ?E = "sample_cenv (sample_api None [])"
  obtain status err w' where r: "run_state (runPrechecks ?E ?l (ret ComponentStatusReady)) rolling_cluster = ((status, err), w')"
    by (metis surj_pair)
  have "fst (fst (run_state (runPrechecks ?E ?l (ret ComponentStatusReady)) rolling_cluster)) = None" by code_simp
  with r have st: "status = None" by simp
  have wf: "conds_wf rolling_cluster" by code_simp
  have q: "quiet (ret ComponentStatusReady)" by (intro kept_intros)
  show ?thesis using prechecks_run_once[OF meta_laws_sample_cenv q wf r[unfolded st], THEN conjunct1] r by (simp add: Let_def)
qed

theorem exec_node_with_log_delivery_panics_witness:
  "snd (fst (run_state (ExecNode_Sync (sample_cenv (sample_api None [])) sample_exec False)
     (sample_cluster ClusterStateRunning empty_update_status
       ((existing_server (sample_sts 0 3))\<lparr>si_timbertruckConfigs := Some sample_builder\<rparr>)))) =
   Some ''panic: Number of exec node containers is expected to be 1, actual 2''"
  by (subst exec_node_with_log_delivery_panics[THEN conjunct1])
    (simp_all add: sample_cluster_def servers.defs kube.defs existing_server_def sample_server_def)


end
