(* ===== verification/Webhook.thy ===== *)
theory Webhook
  imports Reconciler Pods "HOL-Library.Sublist"
begin

text \<open>
  The admission webhook: \<open>validators/ytsaurus_webhook.go\<close> and the set of unique values of
  \<open>validators/helpers.go\<close>.  A validation returns the list of errors; the object is admitted when the
  list is empty.

  The validation of labels and annotations, the parsing of containers, the operator version and the
  listing of the other Ytsaurus objects are parameters (\<open>validation_lib\<close>).
\<close>

section \<open>Field errors\<close>

datatype path_element = Child string | Index nat

type_synonym field_path = "path_element list"

datatype error_type =
    ErrorTypeRequired | ErrorTypeInvalid | ErrorTypeForbidden | ErrorTypeDuplicate
  | ErrorTypeNotFound | ErrorTypeTooMany | ErrorTypeInternal

record field_error =
  fe_Type :: error_type
  fe_Field :: field_path
  fe_Detail :: string

text \<open>The rejected value, which \<open>field.Error\<close> also carries, only serves the message.\<close>

abbreviation "Required path detail \<equiv> \<lparr>fe_Type = ErrorTypeRequired, fe_Field = path, fe_Detail = detail\<rparr>"
abbreviation "Invalid path detail \<equiv> \<lparr>fe_Type = ErrorTypeInvalid, fe_Field = path, fe_Detail = detail\<rparr>"
abbreviation "Forbidden path detail \<equiv> \<lparr>fe_Type = ErrorTypeForbidden, fe_Field = path, fe_Detail = detail\<rparr>"
abbreviation "Duplicate path detail \<equiv> \<lparr>fe_Type = ErrorTypeDuplicate, fe_Field = path, fe_Detail = detail\<rparr>"
abbreviation "NotFound path \<equiv> \<lparr>fe_Type = ErrorTypeNotFound, fe_Field = path, fe_Detail = ''''\<rparr>"
abbreviation "TooMany path \<equiv> \<lparr>fe_Type = ErrorTypeTooMany, fe_Field = path, fe_Detail = ''''\<rparr>"

definition error_if :: "bool \<Rightarrow> field_error \<Rightarrow> field_error list" where
  "error_if b e = (if b then [e] else [])"

lemma error_if_Nil [simp]: "error_if b e = [] \<longleftrightarrow> \<not> b"
  by (simp add: error_if_def)

primrec element_string :: "path_element \<Rightarrow> string" where
  "element_string (Child s) = ''.'' @ s"
| "element_string (Index i) = ''['' @ show_nat i @ '']''"

definition path_string :: "field_path \<Rightarrow> string" where
  "path_string path = (case path of [] \<Rightarrow> '''' | e # es \<Rightarrow>
     (case e of Child s \<Rightarrow> s | Index i \<Rightarrow> element_string e) @ concat (map element_string es))"

record validation_lib =
  vl_ValidateLabels :: "(string \<times> string) list \<Rightarrow> field_path \<Rightarrow> field_error list"
  vl_ValidateAnnotations :: "(string \<times> string) list \<Rightarrow> field_path \<Rightarrow> field_error list"
  vl_DecodeContainer :: "string \<Rightarrow> string \<times> go_error"
  vl_List :: "string \<Rightarrow> string list \<times> client_error option"
  vl_ParseConstraints :: "string \<Rightarrow> go_error"
  vl_satisfies :: "string \<Rightarrow> go_error"

section \<open>Unique values\<close>

text \<open>\<open>UniqueValues\<close>: a map from values to the paths where they were first seen.\<close>

type_synonym 'a unique_values = "('a \<times> field_path) list"

definition uv_Count :: "'a unique_values \<Rightarrow> 'a list \<Rightarrow> nat" where
  "uv_Count u values = length (filter (\<lambda>v. map_of u v \<noteq> None) values)"

definition uv_Insert :: "'a unique_values \<Rightarrow> 'a \<Rightarrow> field_path \<Rightarrow> 'a unique_values \<times> field_error list" where
  "uv_Insert u v path =
    (case map_of u v of
       Some dup \<Rightarrow> (u, [Duplicate path (''duplicates: '' @ path_string dup)])
     | None \<Rightarrow> ((v, path) # u, []))"

primrec uv_insert_from ::
  "'a unique_values \<Rightarrow> nat \<Rightarrow> 'a list \<Rightarrow> field_path \<Rightarrow> 'a unique_values \<times> field_error list" where
  "uv_insert_from u i [] path = (u, [])"
| "uv_insert_from u i (v # vs) path =
    (let (u1, errs) = uv_Insert u v (path @ [Index i]);
         (u2, errs2) = uv_insert_from u1 (Suc i) vs path
     in (u2, errs @ errs2))"

definition uv_InsertAll :: "'a unique_values \<Rightarrow> 'a list \<Rightarrow> field_path \<Rightarrow> 'a unique_values \<times> field_error list" where
  "uv_InsertAll u vs path = uv_insert_from u 0 vs path"

section \<open>Transport, timbertruck and instances\<close>

definition validateTransportSecurity :: "ytsaurus_spec \<Rightarrow> rpc_transport option \<Rightarrow> field_path \<Rightarrow> field_error list" where
  "validateTransportSecurity common spec0 path =
    (let secure = cf_SecureClusterTransports (ptr_deref (sp_ClusterFeatures common) zero_features);
         secretPath = path @ [Child ''tlsSecret'']; clientSecretPath = path @ [Child ''tlsClientSecret'']
     in case (case spec0 of None \<Rightarrow> sp_NativeTransport common | Some s \<Rightarrow> Some s) of
          None \<Rightarrow> error_if secure (Required path ''Secure cluster transport demands TLS setup'')
        | Some spec \<Rightarrow>
            error_if (rt_TLSSecret spec = None \<and> (rt_TLSRequired spec \<or> \<not> rt_TLSInsecure spec))
              (Required secretPath ''TLS certificate for native transport is required'') @
            error_if (rt_TLSClientSecret spec = None \<and> rt_TLSRequired spec \<and> \<not> rt_TLSInsecure spec)
              (Required clientSecretPath ''Client TLS certificate for native transport is required'') @
            (if secure then
               error_if (\<not> rt_TLSRequired spec) (Forbidden (path @ [Child ''tlsRequired'']) ''Secure cluster transport demands TLS-only native transport'') @
               error_if (rt_TLSInsecure spec) (Forbidden (path @ [Child ''tlsInsecure'']) ''Secure cluster transport demands TLS certificate validation'') @
               error_if (rt_TLSSecret spec = None) (Required secretPath ''Secure cluster transport demands TLS certificate for native transport'') @
               error_if (rt_TLSClientSecret spec = None) (Required clientSecretPath ''Secure cluster transport demands client TLS certificate for native transport'')
             else []))"

definition requireLocations :: "field_path \<Rightarrow> location_spec list \<Rightarrow> string \<Rightarrow> (location_type \<times> string) list \<Rightarrow> field_error list" where
  "requireLocations path locations reason types = concat (map (\<lambda>(t, name0).
     error_if (FindFirstLocation locations t = None) (Required path (name0 @ '' location must be configured for '' @ reason))) types)"

definition validateHydraPersistenceUploaderSpec ::
  "hydra_persistence_uploader option \<Rightarrow> location_spec list \<Rightarrow> field_path \<Rightarrow> field_error list" where
  "validateHydraPersistenceUploaderSpec uploader locations path =
    (case uploader of
       None \<Rightarrow> []
     | Some u \<Rightarrow>
         error_if (hpu_Image u = None) (Required (path @ [Child ''hydraPersistenceUploader'', Child ''image''])
           ''hydraPersistenceUploader image is required'') @
         requireLocations (path @ [Child ''locations'']) locations ''hydraPersistenceUploader''
           [(LocationTypeMasterSnapshots, ''MasterSnapshots''), (LocationTypeMasterChangelogs, ''MasterChangelogs'')])"

definition has_image :: "timbertruck_spec option \<Rightarrow> bool" where
  "has_image tt \<longleftrightarrow> (case Option.bind tt tt_Image of None \<Rightarrow> False | Some s \<Rightarrow> s \<noteq> '''')"

definition validateTimbertruckSpec ::
  "timbertruck_spec option \<Rightarrow> timbertruck_spec option \<Rightarrow> structured_logger list \<Rightarrow> location_spec list \<Rightarrow> field_path \<Rightarrow> field_error list" where
  "validateTimbertruckSpec componentTimbertruck commonTimbertruck loggers locations path =
    (let anyPerLogDelivery = list_ex (\<lambda>l. sl_EnableDelivery l = Some True) loggers;
         legacyMaster = componentTimbertruck \<noteq> None
     in if \<not> anyPerLogDelivery \<and> \<not> legacyMaster then []
        else error_if (\<not> has_image componentTimbertruck \<and> \<not> has_image commonTimbertruck)
               (Required (path @ [Child ''timbertruck'', Child ''image''])
                 ''timbertruck image is required (set it here or in spec.timbertruck.image) when log delivery is enabled'') @
             error_if (legacyMaster \<and> loggers = []) (Required (path @ [Child ''structuredLoggers''])
               ''structuredLoggers must be configured when timbertruck is enabled'') @
             requireLocations (path @ [Child ''locations'']) locations ''timbertruck'' [(LocationTypeLogs, ''Logs'')])"

text \<open>A loop over a list with the index of each element.\<close>

definition indexed :: "(nat \<Rightarrow> 'a \<Rightarrow> field_error list) \<Rightarrow> 'a list \<Rightarrow> field_error list" where
  "indexed f xs = concat (map2 f [0 ..< length xs] xs)"

definition validateStructuredLoggers :: "structured_logger list \<Rightarrow> field_path \<Rightarrow> field_error list" where
  "validateStructuredLoggers loggers path = indexed (\<lambda>i logger.
     let loggerPath = path @ [Child ''structuredLoggers'', Index i]
     in error_if ((sl_Category logger \<noteq> None) = (sl_CategoriesFilter logger \<noteq> None))
          (Invalid loggerPath ''exactly one of category and categoriesFilter must be set'') @
        error_if (sl_Category logger = Some '''') (Required (loggerPath @ [Child ''category'']) ''category must not be empty'') @
        error_if (case sl_CategoriesFilter logger of None \<Rightarrow> False | Some (t, values) \<Rightarrow> t = '''' \<or> values = [])
          (Required (loggerPath @ [Child ''categoriesFilter'']) ''categoriesFilter requires type and values'')) loggers"

definition validatePodSpec :: "validation_lib \<Rightarrow> (string \<times> string) list \<Rightarrow> (string \<times> string) list \<Rightarrow> field_path \<Rightarrow> field_error list" where
  "validatePodSpec V podLabels podAnnotations path =
     vl_ValidateLabels V podLabels (path @ [Child ''podLabels'']) @
     vl_ValidateAnnotations V podAnnotations (path @ [Child ''podAnnotations''])"

text \<open>\<open>components.FindVolumeMountForPath\<close> (\<open>pkg/components/volume.go\<close>): the mounts are scanned backward.\<close>

definition under_mount :: "string \<Rightarrow> volume_mount \<Rightarrow> bool" where
  "under_mount path mount \<longleftrightarrow> path = vm_MountPath mount \<or> prefix (vm_MountPath mount @ ''/'') path"

definition FindVolumeMountForPath :: "volume_mount list \<Rightarrow> string \<Rightarrow> volume_mount option" where
  "FindVolumeMountForPath mounts path = find (under_mount path) (rev mounts)"

definition validate_volume_mounts :: "volume_mount list \<Rightarrow> field_path \<Rightarrow> field_error list" where
  "validate_volume_mounts mounts path = indexed (\<lambda>mountIdx mount.
     let mountPath = path @ [Child ''volumeMounts'', Index mountIdx]
     in error_if (suffix ''/'' (vm_MountPath mount)) (Invalid mountPath (''mount path must not end with '' @ [CHR 0x27] @ ''/'' @ [CHR 0x27])) @
        concat (map (\<lambda>previous.
          error_if (under_mount (vm_MountPath previous) mount)
            (Invalid mountPath (''volume mount completely covers previous volume mount '' @ quoted (vm_MountPath previous))))
          (take mountIdx mounts))) mounts"

definition validate_locations :: "instance_spec \<Rightarrow> field_path \<Rightarrow> field_error list" where
  "validate_locations spec path = indexed (\<lambda>locationIdx location.
     let locationPath = path @ [Child ''locations'', Index locationIdx]
     in error_if (suffix ''/'' (loc_Path location))
          (Invalid locationPath (''location path must not end with '' @ [CHR 0x27] @ ''/'' @ [CHR 0x27])) @
        error_if (FindVolumeMountForPath (is_VolumeMounts spec) (loc_Path location) = None)
          (Invalid locationPath ''location path is not in any volume mount'')) (is_Locations spec)"

definition validateInstanceSpecWithTimbertruck ::
  "validation_lib \<Rightarrow> ytsaurus_spec \<Rightarrow> instance_spec \<Rightarrow> timbertruck_spec option \<Rightarrow> field_path \<Rightarrow> field_error list" where
  "validateInstanceSpecWithTimbertruck V common spec componentTimbertruck path =
     validatePodSpec V (is_PodLabels spec) (is_PodAnnotations spec) path @
     validateTimbertruckSpec componentTimbertruck (sp_Timbertruck common) (is_StructuredLoggers spec) (is_Locations spec) path @
     validateStructuredLoggers (is_StructuredLoggers spec) path @
     error_if (is_EnableAntiAffinity spec \<noteq> None) (Invalid (path @ [Child ''EnableAntiAffinity''])
       ''EnableAntiAffinity is deprecated, use Affinity instead'') @
     validateTransportSecurity common (is_NativeTransport spec) (path @ [Child ''nativeTransport'']) @
     validate_volume_mounts (is_VolumeMounts spec) path @
     validate_locations spec path"

definition validateInstanceSpec :: "validation_lib \<Rightarrow> ytsaurus_spec \<Rightarrow> instance_spec \<Rightarrow> field_path \<Rightarrow> field_error list" where
  "validateInstanceSpec V common spec path = validateInstanceSpecWithTimbertruck V common spec None path"

primrec sidecars_from :: "validation_lib \<Rightarrow> field_path \<Rightarrow> nat \<Rightarrow> string list \<Rightarrow> string list \<Rightarrow> field_error list" where
  "sidecars_from V path i names [] = []"
| "sidecars_from V path i names (spec # specs) =
    (let (name0, err) = vl_DecodeContainer V spec
     in (case err of Some e \<Rightarrow> [Invalid (path @ [Index i]) e] | None \<Rightarrow> []) @
        error_if (name0 \<in> set names) (Duplicate (path @ [Index i, Child ''name'']) '''') @
        sidecars_from V path (Suc i) (name0 # names) specs)"

definition validateSidecars :: "validation_lib \<Rightarrow> string list \<Rightarrow> field_path \<Rightarrow> field_error list" where
  "validateSidecars V sidecars path = sidecars_from V path 0 [] sidecars"

section \<open>Masters\<close>

abbreviation spec_path :: "string \<Rightarrow> field_path" where
  "spec_path name0 \<equiv> [Child ''spec'', Child name0]"

definition validateHostAddresses :: "ytsaurus_spec \<Rightarrow> masters_spec \<Rightarrow> field_path \<Rightarrow> field_error list" where
  "validateHostAddresses spec mastersSpec path =
    (let hostAddressesPath = path @ [Child ''hostAddresses'']; addresses = ms_HostAddresses mastersSpec
     in error_if (\<not> ptr_deref (is_HostNetwork (ms_InstanceSpec mastersSpec)) (ptr_deref (sp_HostNetwork spec) False) \<and> addresses \<noteq> [])
          (Required (spec_path ''hostNetwork'') (path_string hostAddressesPath @ '' doesn'' @ [CHR 0x27] @ ''t make sense without hostNetwork=true'')) @
        error_if (addresses \<noteq> [] \<and> int (length addresses) \<noteq> is_InstanceCount (ms_InstanceSpec mastersSpec))
          (Invalid hostAddressesPath (path_string hostAddressesPath @ '' list length should be equal to '' @
            path_string (path @ [Child ''instanceCount'']))))"

text \<open>Go's division of integers truncates toward zero.\<close>

definition half :: "int \<Rightarrow> int" where
  "half n = (if n < 0 then - ((- n) div 2) else n div 2)"

definition min_ready :: "masters_spec \<Rightarrow> int" where
  "min_ready m = (let n = is_InstanceCount (ms_InstanceSpec m)
                  in min n (ptr_deref (is_MinReadyInstanceCount (ms_InstanceSpec m)) n))"

text \<open>Roles of an existing cell that are no longer listed.\<close>

definition chunk_roles :: "master_cell_role list" where
  "chunk_roles = [MasterCellRoleChunkHost, MasterCellRoleDedicatedChunkHost]"

definition removed_roles :: "master_cell_role unique_values \<Rightarrow> master_cell_role list \<Rightarrow> master_cell_role list" where
  "removed_roles cellRoles oldCellRoles = filter (\<lambda>role. map_of cellRoles role = None) oldCellRoles"

definition validate_roles ::
  "ytsaurus_spec \<Rightarrow> ytsaurus_spec \<Rightarrow> masters_spec \<Rightarrow> masters_spec option \<Rightarrow> bool \<Rightarrow>
   master_cell_role unique_values \<Rightarrow> field_path \<Rightarrow> bool \<times> field_error list" where
  "validate_roles new old mastersSpec oldMastersSpec isPrimary cellRoles rolesPath =
    (case oldMastersSpec of
       None \<Rightarrow> (False, [])
     | Some oldM \<Rightarrow>
         if is_InstanceCount (ms_InstanceSpec oldM) \<le> 0 then (False, [])
         else
           (let wasMulticell = sp_SecondaryMasters old \<noteq> [];
                oldCellRoles = GetMasterCellRoles (ms_Roles oldM) isPrimary wasMulticell;
                removed = removed_roles cellRoles oldCellRoles
            in (length cellRoles \<noteq> length oldCellRoles \<or> removed \<noteq> [],
                concat (map (\<lambda>role.
                  error_if (\<not> (role \<in> set chunk_roles \<and> uv_Count cellRoles chunk_roles > 0))
                    (Forbidden rolesPath (''Cell '' @ show_nat (ms_CellTag mastersSpec) @ '' role could not be removed: '' @ role))) removed) @
                error_if (isPrimary \<and> sp_SecondaryMasters new \<noteq> [] \<and> \<not> wasMulticell \<and> ms_Roles mastersSpec = None)
                  (Required rolesPath ''Upgrade to multicell requires filling roles for primary cell''))))"

text \<open>The comparison with the specification before an update.\<close>

definition validate_master_change ::
  "ytsaurus \<Rightarrow> ytsaurus_spec \<Rightarrow> masters_spec \<Rightarrow> masters_spec \<Rightarrow> bool \<Rightarrow> bool \<Rightarrow> field_path \<Rightarrow> field_error list" where
  "validate_master_change newYtsaurus old mastersSpec oldM isPrimary cellRolesChanged path =
    (let newInstanceCount = is_InstanceCount (ms_InstanceSpec mastersSpec);
         oldInstanceCount = is_InstanceCount (ms_InstanceSpec oldM);
         oldMinReady = min_ready oldM;
         instanceCountPath = path @ [Child ''instanceCount'']; rolesPath = path @ [Child ''roles''];
         oldMaintenance = ptr_deref (sp_ClusterMaintenance old) zero_maintenance;
         newMaintenance = ptr_deref (sp_ClusterMaintenance (yt_Spec newYtsaurus)) zero_maintenance
     in error_if (\<not> isPrimary \<and> newInstanceCount \<noteq> 0 \<and> oldInstanceCount = 0 \<and>
            \<not> list_ex (\<lambda>info. mcm_CellTag info = ms_CellTag mastersSpec \<and> mcm_Unregistered info)
              (us_MasterCellsMaintenance (st_UpdateStatus (yt_Status newYtsaurus))))
          (Invalid instanceCountPath ''Master cell must be unregistered'') @
        error_if (newInstanceCount < 1 \<and> oldInstanceCount > 0) (Invalid instanceCountPath ''Cannot remove last instance'') @
        error_if (half newInstanceCount < wrap32 (oldInstanceCount - oldMinReady))
          (Invalid instanceCountPath ''Cannot shrink without possibility of losing quorum, increase minReadyInstanceCount first'') @
        error_if (newInstanceCount > wrap32 (oldMinReady * 2 - 1) \<and> oldInstanceCount > 1)
          (Invalid instanceCountPath (''Cannot grow bigger than previous minReadyInstanceCount*2-1 ('' @
             show_int (wrap32 (oldMinReady * 2 - 1)) @ '') in one step'')) @
        (if cmt_Shutdown oldMaintenance \<noteq> ClusterShutdownExceptMasters \<or> cmt_Shutdown newMaintenance \<noteq> ClusterShutdownExceptMasters
         then error_if (oldInstanceCount \<noteq> newInstanceCount) (Forbidden instanceCountPath ''Could be changed only during master cells maintenance'') @
              error_if cellRolesChanged (Forbidden rolesPath ''Could be changed only during master cells maintenance'')
         else []) @
        error_if (oldInstanceCount > 0 \<and> cellRolesChanged \<and>
            (cmt_AssignMasterCellsRoles oldMaintenance \<or> \<not> cmt_AssignMasterCellsRoles newMaintenance))
          (Forbidden rolesPath ''Could be changed only together with enabling assignMasterCellsRoles''))"

definition validateMasterSpec ::
  "validation_lib \<Rightarrow> ytsaurus \<Rightarrow> ytsaurus option \<Rightarrow> masters_spec \<Rightarrow> masters_spec option \<Rightarrow> field_path \<Rightarrow> field_error list" where
  "validateMasterSpec V newYtsaurus oldYtsaurus mastersSpec oldMastersSpec path =
    (let new = yt_Spec newYtsaurus; instance0 = ms_InstanceSpec mastersSpec;
         rolesPath = path @ [Child ''roles'']; minReadyPath = path @ [Child ''minReadyInstanceCount''];
         isPrimary = (ms_CellTag mastersSpec = ms_CellTag (sp_PrimaryMasters new));
         isMulticell = (sp_SecondaryMasters new \<noteq> []);
         (cellRoles, roleErrors) = uv_InsertAll [] (GetMasterCellRoles (ms_Roles mastersSpec) isPrimary isMulticell) rolesPath;
         (cellRolesChanged, oldRoleErrors) = validate_roles new (yt_Spec (ptr_deref oldYtsaurus newYtsaurus)) mastersSpec oldMastersSpec
           isPrimary cellRoles rolesPath;
         newInstanceCount = is_InstanceCount instance0; newMinReady = min_ready mastersSpec
     in validateInstanceSpecWithTimbertruck V new instance0 (ms_Timbertruck mastersSpec) path @
        validateHostAddresses new mastersSpec path @
        error_if (FindFirstLocation (is_Locations instance0) LocationTypeMasterChangelogs = None) (NotFound (path @ [Child ''locations''])) @
        error_if (FindFirstLocation (is_Locations instance0) LocationTypeMasterSnapshots = None) (NotFound (path @ [Child ''locations''])) @
        (case oldMastersSpec of None \<Rightarrow> []
         | Some oldM \<Rightarrow> error_if (ms_CellTag oldM \<noteq> ms_CellTag mastersSpec) (Invalid (path @ [Child ''cellTag'']) ''Could not be changed'')) @
        roleErrors @
        error_if (uv_Count cellRoles chunk_roles > 1)
          (Forbidden rolesPath (''Master cell '' @ show_nat (ms_CellTag mastersSpec) @ '' has role conflict: chunk_host dedicated_chunk_host'')) @
        oldRoleErrors @
        error_if (newInstanceCount > 0 \<and> newMinReady \<le> half newInstanceCount \<and> \<not> sp_EphemeralCluster new)
          (Invalid minReadyPath ''Must be bigger than half of instanceCount'') @
        error_if (newMinReady > newInstanceCount) (Invalid minReadyPath ''Cannot be bigger than instanceCount'') @
        (case oldMastersSpec of
           None \<Rightarrow> error_if (oldYtsaurus \<noteq> None \<and> \<not> isPrimary \<and> newInstanceCount \<noteq> 0)
             (Forbidden (path @ [Child ''instanceCount'']) ''New secondary master cell initially must have instanceCount = 0'')
         | Some oldM \<Rightarrow> validate_master_change newYtsaurus (yt_Spec (ptr_deref oldYtsaurus newYtsaurus)) mastersSpec oldM isPrimary
             cellRolesChanged path) @
        error_if (newInstanceCount > 1 \<and> \<not> sp_EphemeralCluster new \<and> \<not> is_HasPodAntiAffinity instance0)
          (Required (path @ [Child ''affinity'', Child ''podAntiAffinity'']) ''Masters should be placed on different nodes'') @
        validateHydraPersistenceUploaderSpec (ms_HydraPersistenceUploader mastersSpec) (is_Locations instance0) path @
        validateSidecars V (ms_Sidecars mastersSpec) (path @ [Child ''sidecars'']))"

definition validatePrimaryMasters :: "validation_lib \<Rightarrow> ytsaurus \<Rightarrow> ytsaurus option \<Rightarrow> field_error list" where
  "validatePrimaryMasters V newYtsaurus oldYtsaurus =
    (let mastersSpec = sp_PrimaryMasters (yt_Spec newYtsaurus); path = spec_path ''primaryMasters'';
         oldMastersSpec = map_option (\<lambda>old. sp_PrimaryMasters (yt_Spec old)) oldYtsaurus
     in validateMasterSpec V newYtsaurus oldYtsaurus mastersSpec oldMastersSpec path @
        error_if (is_InstanceCount (ms_InstanceSpec mastersSpec) < 1) (Invalid (path @ [Child ''instanceCount'']) ''Cannot be below 1''))"

abbreviation "MinValidCellTag \<equiv> (0x0001 :: nat)"
abbreviation "MaxValidCellTag \<equiv> (0xf000 :: nat)"
abbreviation "MaxSecondaryMasterCells \<equiv> (48 :: nat)"

definition nth_option :: "'a list \<Rightarrow> nat \<Rightarrow> 'a option" where
  "nth_option xs i = (if i < length xs then Some (xs ! i) else None)"

text \<open>The loop over the secondary cells, with the cell tags and host addresses seen before.\<close>

primrec secondary_from ::
  "validation_lib \<Rightarrow> ytsaurus \<Rightarrow> ytsaurus option \<Rightarrow> nat \<Rightarrow> nat unique_values \<Rightarrow> string unique_values \<Rightarrow>
   masters_spec list \<Rightarrow> nat unique_values \<times> field_error list" where
  "secondary_from V newYtsaurus oldYtsaurus i cellTags hostAddresses [] = (cellTags, [])"
| "secondary_from V newYtsaurus oldYtsaurus i cellTags hostAddresses (mastersSpec # rest) =
    (let path = spec_path ''secondaryMasters'' @ [Index i];
         oldMastersSpec = Option.bind oldYtsaurus (\<lambda>old. nth_option (sp_SecondaryMasters (yt_Spec old)) i);
         (cellTags1, tagErrors) = uv_Insert cellTags (ms_CellTag mastersSpec) (path @ [Child ''cellTag'']);
         (hostAddresses1, addressErrors) = uv_InsertAll hostAddresses (ms_HostAddresses mastersSpec) (path @ [Child ''hostAddresses'']);
         (cellTags2, errors) = secondary_from V newYtsaurus oldYtsaurus (Suc i) cellTags1 hostAddresses1 rest
     in (cellTags2,
         validateMasterSpec V newYtsaurus oldYtsaurus mastersSpec oldMastersSpec path @ tagErrors @ addressErrors @ errors))"

text \<open>The source ranges over the map of cell tags in an unspecified order; the model takes the latest first.\<close>

definition validateSecondaryMasters :: "validation_lib \<Rightarrow> ytsaurus \<Rightarrow> ytsaurus option \<Rightarrow> field_error list" where
  "validateSecondaryMasters V newYtsaurus oldYtsaurus =
    (let primary = sp_PrimaryMasters (yt_Spec newYtsaurus); secondary = sp_SecondaryMasters (yt_Spec newYtsaurus);
         primaryPath = spec_path ''primaryMasters''; secondaryMastersPath = spec_path ''secondaryMasters'';
         (cellTags0, _) = uv_Insert [] (ms_CellTag primary) (primaryPath @ [Child ''cellTag'']);
         (hostAddresses, addressErrors) = uv_InsertAll [] (ms_HostAddresses primary) (primaryPath @ [Child ''hostAddresses'']);
         (cellTags, errors) = secondary_from V newYtsaurus oldYtsaurus 0 cellTags0 hostAddresses secondary
     in addressErrors @ errors @
        error_if (length cellTags - 1 > MaxSecondaryMasterCells) (TooMany secondaryMastersPath) @
        concat (map (\<lambda>(cellTag, path). error_if (cellTag < MinValidCellTag \<or> cellTag > MaxValidCellTag)
          (Invalid path (''Cell tag must be in range '' @ show_nat MinValidCellTag @ ''..'' @ show_nat MaxValidCellTag))) cellTags) @
        (case oldYtsaurus of
           None \<Rightarrow> []
         | Some old \<Rightarrow> concat (map (\<lambda>i.
             error_if (is_InstanceCount (ms_InstanceSpec (sp_SecondaryMasters (yt_Spec old) ! i)) > 0)
               (Forbidden (secondaryMastersPath @ [Index i]) ''Cannot remove cell with instances''))
             [length secondary ..< length (sp_SecondaryMasters (yt_Spec old))])))"

section \<open>Other components\<close>

definition validateDiscovery :: "validation_lib \<Rightarrow> ytsaurus_spec \<Rightarrow> field_error list" where
  "validateDiscovery V spec = validateInstanceSpec V spec (sp_Discovery spec) (spec_path ''discovery'')"

text \<open>
  The loop that the groups of proxies and nodes share: names (roles) are unique, and every group has a
  valid instance specification; \<open>check\<close> stands for the conditions of the kind of group.
\<close>

definition validate_groups ::
  "validation_lib \<Rightarrow> ytsaurus_spec \<Rightarrow> string \<Rightarrow> string \<Rightarrow> (group_spec \<Rightarrow> field_path \<Rightarrow> field_error list) \<Rightarrow> group_spec list \<Rightarrow> field_error list" where
  "validate_groups V spec field0 key check groups = indexed (\<lambda>i group0.
     let path = spec_path field0 @ [Index i]
     in error_if (gs_Name group0 \<in> gs_Name ` set (take i groups)) (Duplicate (path @ [Child key]) '''') @
        validateInstanceSpec V spec (gs_InstanceSpec group0) path @
        check group0 path) groups"

abbreviation "DefaultHTTPProxyRole \<equiv> ''default''"

abbreviation features_of :: "ytsaurus_spec \<Rightarrow> cluster_features" where
  "features_of spec \<equiv> ptr_deref (sp_ClusterFeatures spec) zero_features"

definition validateHTTPProxies :: "validation_lib \<Rightarrow> ytsaurus_spec \<Rightarrow> field_error list" where
  "validateHTTPProxies V spec =
     validate_groups V spec ''httpProxies'' ''role'' (\<lambda>hp path.
       error_if (cf_HTTPProxyHaveHTTPSAddress (features_of spec) \<and> gs_HTTPSSecret hp = None)
         (Required (path @ [Child ''transport'', Child ''httpsSecret''])
           ''Cluster feature httpProxyHaveHttpsAddress requires HTTPS for all HTTP proxies'') @
       error_if (cf_SecureClusterTransports (features_of spec) \<and> \<not> gs_DisableHTTP hp)
         (Forbidden (path @ [Child ''transport'', Child ''disableHttp'']) ''Secure cluster transport demands HTTPS-only proxies''))
       (sp_HTTPProxies spec) @
     error_if (\<not> list_ex (\<lambda>hp. gs_Name hp = DefaultHTTPProxyRole) (sp_HTTPProxies spec))
       (Required (spec_path ''httpProxies'') (''HTTP proxy with `'' @ DefaultHTTPProxyRole @ ''` role should exist''))"

definition validateRPCProxies :: "validation_lib \<Rightarrow> ytsaurus_spec \<Rightarrow> field_error list" where
  "validateRPCProxies V spec =
     validate_groups V spec ''rpcProxies'' ''role'' (\<lambda>rp path.
       let transportPath = path @ [Child ''transport'']; transport = gs_Transport rp
       in error_if (rt_TLSRequired transport \<and> rt_TLSSecret transport = None)
            (Required (transportPath @ [Child ''tlsSecret'']) ''TLS-only RPC proxy requires certificate'') @
          (if cf_SecureClusterTransports (features_of spec) then
             error_if (\<not> rt_TLSRequired transport)
               (Required (transportPath @ [Child ''tlsRequired'']) ''Secure cluster transport demands TLS-only RPC proxies'') @
             error_if (rt_TLSInsecure transport)
               (Forbidden (transportPath @ [Child ''tlsInsecure'']) ''Secure cluster transport demands TLS certificate validation'') @
             error_if (rt_TLSSecret transport = None)
               (Required (transportPath @ [Child ''tlsSecret'']) ''Secure cluster transport demands RPC proxy certificate'')
           else []))
       (sp_RPCProxies spec)"

definition validateTCPProxies :: "validation_lib \<Rightarrow> ytsaurus_spec \<Rightarrow> field_error list" where
  "validateTCPProxies V spec = validate_groups V spec ''tcpProxies'' ''role'' (\<lambda>_ _. []) (sp_TCPProxies spec)"

definition validateDataNodes :: "validation_lib \<Rightarrow> ytsaurus_spec \<Rightarrow> field_error list" where
  "validateDataNodes V spec = validate_groups V spec ''dataNodes'' ''name'' (\<lambda>dn path.
     error_if (FindFirstLocation (is_Locations (gs_InstanceSpec dn)) LocationTypeChunkStore = None) (NotFound (path @ [Child ''locations''])))
     (sp_DataNodes spec)"

definition validateExecNodes :: "validation_lib \<Rightarrow> ytsaurus_spec \<Rightarrow> field_error list" where
  "validateExecNodes V spec =
     validate_groups V spec ''execNodes'' ''name'' (\<lambda>en path.
       error_if (FindFirstLocation (is_Locations (gs_InstanceSpec en)) LocationTypeChunkCache = None) (NotFound (path @ [Child ''locations''])) @
       error_if (FindFirstLocation (is_Locations (gs_InstanceSpec en)) LocationTypeSlots = None) (NotFound (path @ [Child ''locations''])) @
       validateSidecars V (gs_InitContainers en) (path @ [Child ''initContainers'']) @
       validateSidecars V (gs_Sidecars en) (path @ [Child ''sidecars'']))
       (sp_ExecNodes spec) @
     error_if (sp_ExecNodes spec \<noteq> [] \<and> sp_Schedulers spec = None)
       (Required (spec_path ''schedulers'') (''execNodes doesn'' @ [CHR 0x27] @ ''t make sense without schedulers''))"

definition validateTabletNodes :: "validation_lib \<Rightarrow> ytsaurus_spec \<Rightarrow> field_error list" where
  "validateTabletNodes V spec = validate_groups V spec ''tabletNodes'' ''name'' (\<lambda>_ _. []) (sp_TabletNodes spec)"

text \<open>A component with a single instance group, which needs other components (\<open>needs\<close>).\<close>

definition validate_single :: "validation_lib \<Rightarrow> ytsaurus_spec \<Rightarrow> string \<Rightarrow> instance_spec option \<Rightarrow> field_error list \<Rightarrow> field_error list" where
  "validate_single V spec field0 instance0 needs =
    (case instance0 of None \<Rightarrow> [] | Some inst \<Rightarrow> validateInstanceSpec V spec inst (spec_path field0) @ needs)"

definition validateSchedulers :: "validation_lib \<Rightarrow> ytsaurus_spec \<Rightarrow> field_error list" where
  "validateSchedulers V spec = validate_single V spec ''schedulers'' (sp_Schedulers spec)
     (error_if (sp_ControllerAgents spec = None)
       (Required (spec_path ''controllerAgents'') (''schedulers doesn'' @ [CHR 0x27] @ ''t make sense without controllerAgents'')))"

definition validateControllerAgents :: "validation_lib \<Rightarrow> ytsaurus_spec \<Rightarrow> field_error list" where
  "validateControllerAgents V spec = validate_single V spec ''controllerAgents'' (sp_ControllerAgents spec)
     (error_if (sp_Schedulers spec = None)
       (Required (spec_path ''schedulers'') (''controllerAgents doesn'' @ [CHR 0x27] @ ''t make sense without schedulers'')))"

definition validateStrawberry :: "ytsaurus_spec \<Rightarrow> field_error list" where
  "validateStrawberry spec = error_if (sp_HasStrawberryController spec \<and> sp_Schedulers spec = None)
     (Required (spec_path ''schedulers'') ''schedulers are required for strawberry'')"

definition validateQueryTrackers :: "validation_lib \<Rightarrow> ytsaurus_spec \<Rightarrow> field_error list" where
  "validateQueryTrackers V spec = validate_single V spec ''queryTrackers'' (sp_QueryTrackers spec)
     (error_if (sp_TabletNodes spec = []) (Required (spec_path ''tabletNodes'') ''tabletNodes are required for queryTrackers'') @
      error_if (sp_Schedulers spec = None) (Required (spec_path ''schedulers'') ''schedulers are required for queryTrackers''))"

definition validateQueueAgents :: "validation_lib \<Rightarrow> ytsaurus_spec \<Rightarrow> field_error list" where
  "validateQueueAgents V spec = validate_single V spec ''queueAgents'' (sp_QueueAgents spec)
     (error_if (sp_TabletNodes spec = []) (Required (spec_path ''tabletNodes'') ''tabletNodes are required for queueAgents''))"

definition validateSpyt :: "ytsaurus_spec \<Rightarrow> field_error list" where
  "validateSpyt spec = error_if (sp_HasSpyt spec) (Invalid (spec_path ''spyt'') ''spyt is deprecated here, use Spyt resource instead'')"

definition validateYQLAgents :: "validation_lib \<Rightarrow> ytsaurus_spec \<Rightarrow> field_error list" where
  "validateYQLAgents V spec = validate_single V spec ''YQLAgents'' (sp_YQLAgents spec)
     (error_if (sp_QueryTrackers spec = None)
       (Required (spec_path ''queryTrackers'') (''yqlAgents doesn'' @ [CHR 0x27] @ ''t make sense without queryTrackers'')))"

text \<open>Only the first proxy group with the default role is looked at.\<close>

primrec ui_from :: "nat \<Rightarrow> group_spec list \<Rightarrow> field_error list" where
  "ui_from i [] = []"
| "ui_from i (hp # rest) =
    (if gs_Name hp \<noteq> DefaultHTTPProxyRole then ui_from (Suc i) rest
     else error_if (gs_HTTPSSecret hp = None)
       (Required (spec_path ''httpProxies'' @ [Index i, Child ''transport'', Child ''httpsSecret''])
         (''configured HTTPS for proxy with `'' @ DefaultHTTPProxyRole @ ''` role is required for ui.secure'')))"

definition validateUi :: "ytsaurus_spec \<Rightarrow> field_error list" where
  "validateUi spec = (case sp_UI spec of None \<Rightarrow> []
     | Some ui \<Rightarrow> if ui_Secure ui then ui_from 0 (sp_HTTPProxies spec) else [])"

definition validate_delivery :: "ytsaurus_spec \<Rightarrow> instance_spec \<Rightarrow> field_path \<Rightarrow> field_error list" where
  "validate_delivery spec inst path =
     validateTimbertruckSpec None (sp_Timbertruck spec) (is_StructuredLoggers inst) (is_Locations inst) path @
     validateStructuredLoggers (is_StructuredLoggers inst) path"

definition validateExtraTimbertruckComponents :: "ytsaurus_spec \<Rightarrow> field_error list" where
  "validateExtraTimbertruckComponents spec =
    (let single = \<lambda>instance0 field0. (case instance0 of None \<Rightarrow> [] | Some inst \<Rightarrow> validate_delivery spec inst (spec_path field0))
     in single (sp_MasterCaches spec) ''masterCaches'' @
        indexed (\<lambda>i kp. validate_delivery spec (gs_InstanceSpec kp) (spec_path ''kafkaProxies'' @ [Index i])) (sp_KafkaProxies spec) @
        single (map_option cp_InstanceSpec (sp_CypressProxies spec)) ''cypressProxies'' @
        single (sp_BundleController spec) ''bundleController'' @
        single (sp_TabletBalancer spec) ''tabletBalancers'')"

section \<open>Common specification and update plan\<close>

definition validateExistsYtsaurus :: "validation_lib \<Rightarrow> ytsaurus \<Rightarrow> field_error list" where
  "validateExistsYtsaurus V y =
    (case vl_List V (yt_Namespace y) of
       (_, Some (ClientError err)) \<Rightarrow> [\<lparr>fe_Type = ErrorTypeInternal, fe_Field = [Child ''k8sClient''], fe_Detail = err\<rparr>]
     | (names, _) \<Rightarrow>
         error_if (\<not> (length names = 1 \<and> names ! 0 = yt_Name y) \<and> length names \<noteq> 0)
           (Forbidden [Child ''metadata'', Child ''namespace''] (''A Ytsaurus object already exists in the given namespace '' @ yt_Namespace y)))"

definition validateCommonSpec :: "validation_lib \<Rightarrow> ytsaurus_spec \<Rightarrow> field_error list" where
  "validateCommonSpec V spec =
    (case sp_ClusterFeatures spec of
       None \<Rightarrow> []
     | Some features \<Rightarrow>
         if cf_SecureClusterTransports features then
           error_if (\<not> cf_RPCProxyHavePublicAddress features)
             (Required (spec_path ''clusterFeatures'' @ [Child ''rpcProxyHavePublicAddress''])
               ''Secure cluster transport demands public address for RPC proxies'') @
           error_if (\<not> cf_HTTPProxyHaveHTTPSAddress features)
             (Required (spec_path ''clusterFeatures'' @ [Child ''httpProxyHaveHttpsAddress''])
               ''Secure cluster transport demands HTTPS for HTTP proxies'')
         else []) @
    vl_ValidateAnnotations V (sp_ExtraPodAnnotations spec) (spec_path ''extraPodAnnotations'') @
    validateTransportSecurity spec (sp_NativeTransport spec) (spec_path ''nativeTransport'')"

abbreviation no_type :: "component_ref \<Rightarrow> bool" where
  "no_type c \<equiv> string_of_type (ref_type c) = ''''"

definition bulkOnlyComponentTypes :: "component_type list" where
  "bulkOnlyComponentTypes = [QueueAgentType, QueryTrackerType, YqlAgentType]"

definition validateUpdateModeForSelector :: "ytsaurus_spec \<Rightarrow> update_selector \<Rightarrow> field_path \<Rightarrow> field_error list" where
  "validateUpdateModeForSelector spec selector path =
    (let modeType = GetUpdateStrategyType (Some selector); c = sel_Component selector
     in if sel_Class selector \<noteq> ComponentClassUnspecified \<and> modeType \<noteq> ComponentUpdateModeTypeUnset
        then [Invalid (path @ [Child ''strategy'']) ''strategy is supported only for specific components, not for component classes'']
        else if sel_Class selector = ComponentClassUnspecified \<and> no_type c \<and> sel_Strategy selector \<noteq> None
        then [Invalid path ''component.type must be set to use strategy'']
        else if sel_Class selector = ComponentClassUnspecified \<and> ref_type c \<in> set bulkOnlyComponentTypes \<and>
                modeType \<noteq> ComponentUpdateModeTypeUnset \<and> modeType \<noteq> ComponentUpdateModeTypeBulkUpdate
        then [Invalid (path @ [Child ''strategy'']) (string_of_type (ref_type c) @ '' supports only BulkUpdate mode'')]
        else (case modeType of
            ComponentUpdateModeTypeBulkUpdate \<Rightarrow>
              error_if (case sel_Strategy selector of None \<Rightarrow> False | Some s \<Rightarrow> strat_RollingUpdate s \<noteq> None)
                (Invalid (path @ [Child ''rollingUpdate'']) ''rolling configuration is not valid for BulkUpdate'')
          | ComponentUpdateModeTypeRollingUpdate \<Rightarrow>
              error_if (no_type c) (Invalid (path @ [Child ''type'']) ''rolling update requires a concrete component selector'') @
              error_if (ref_type c = DataNodeType \<and> ref_name c = '''' \<and> length (sp_DataNodes spec) > 1 \<and> sel_Concurrency selector = None)
                (Invalid (path @ [Child ''concurrency'']) ''rolling update for several data node groups requires concurrency limit'')
          | ComponentUpdateModeTypeOnDelete \<Rightarrow>
              error_if (no_type c) (Invalid (path @ [Child ''type'']) ''onDelete update requires a concrete component selector'')
          | ComponentUpdateModeTypeUnset \<Rightarrow> []))"

primrec string_of_class :: "component_class \<Rightarrow> string" where
  "string_of_class ComponentClassUnspecified = ''''"
| "string_of_class ComponentClassNothing = ''Nothing''"
| "string_of_class ComponentClassEverything = ''Everything''"
| "string_of_class ComponentClassStateless = ''Stateless''"
| "string_of_class (OtherComponentClass s) = s"

abbreviation exclusive :: "component_class \<Rightarrow> bool" where
  "exclusive c \<equiv> c = ComponentClassNothing \<or> c = ComponentClassEverything"

primrec plan_from :: "ytsaurus_spec \<Rightarrow> nat \<Rightarrow> component_class \<Rightarrow> update_selector list \<Rightarrow> field_error list" where
  "plan_from spec i exclusiveClass [] = []"
| "plan_from spec i exclusiveClass (entry # rest) =
    (let entryPath = spec_path ''updatePlan'' @ [Index i]; c = sel_Component entry
     in error_if (sel_Class entry \<noteq> ComponentClassUnspecified \<and> (\<not> no_type c \<or> ref_name c \<noteq> ''''))
          (Invalid (entryPath @ [Child ''component'']) ''Only one of component or class should be specified'') @
        error_if (sel_Class entry = ComponentClassUnspecified \<and> no_type c \<and> ref_name c = '''')
          (Invalid (entryPath @ [Child ''component'']) ''Either component or class should be specified'') @
        error_if (\<not> no_type c \<and> ref_type c \<notin> set LocalComponentTypes)
          (Invalid (entryPath @ [Child ''component'', Child ''type'']) ''Unknown component type'') @
        error_if (exclusiveClass \<noteq> ComponentClassUnspecified)
          (Invalid entryPath (''Update plan already contains class '' @ string_of_class exclusiveClass)) @
        (if exclusive (sel_Class entry)
         then error_if (i > 0) (Invalid (entryPath @ [Child ''class'']) ''Should be first and only entry'')
         else error_if (sel_Class entry \<noteq> ComponentClassStateless \<and> sel_Class entry \<noteq> ComponentClassUnspecified)
           (Invalid (entryPath @ [Child ''class'']) ''Unknown class'')) @
        validateUpdateModeForSelector spec entry (entryPath @ [Child ''updateMode'']) @
        plan_from spec (Suc i) (if exclusive (sel_Class entry) then sel_Class entry else exclusiveClass) rest)"

definition validateUpdatePlan :: "ytsaurus_spec \<Rightarrow> field_error list" where
  "validateUpdatePlan spec = plan_from spec 0 ComponentClassUnspecified (sp_UpdatePlan spec)"

section \<open>The webhook\<close>

text \<open>\<open>validateChyt\<close> has no conditions.\<close>

definition validateYtsaurus :: "validation_lib \<Rightarrow> ytsaurus \<Rightarrow> ytsaurus option \<Rightarrow> field_error list" where
  "validateYtsaurus V newYtsaurus oldYtsaurus =
    (let spec = yt_Spec newYtsaurus;
         constraint = sp_RequiresOperatorVersion spec; versionPath = spec_path ''requiresOperatorVersion''
     in (case ValidateVersionConstraint (\<lambda>c. case vl_ParseConstraints V c of Some e \<Rightarrow> Some e | None \<Rightarrow> vl_satisfies V c) constraint of
           None \<Rightarrow> []
         | Some e \<Rightarrow> [if vl_ParseConstraints V constraint \<noteq> None then Invalid versionPath e else Forbidden versionPath e]) @
        validateCommonSpec V spec @
        validatePodSpec V (sp_PodLabels spec) (sp_PodAnnotations spec) [Child ''spec''] @
        validateDiscovery V spec @
        validatePrimaryMasters V newYtsaurus oldYtsaurus @
        validateSecondaryMasters V newYtsaurus oldYtsaurus @
        validateHTTPProxies V spec @
        validateRPCProxies V spec @
        validateTCPProxies V spec @
        validateDataNodes V spec @
        validateExecNodes V spec @
        validateSchedulers V spec @
        validateControllerAgents V spec @
        validateTabletNodes V spec @
        validateStrawberry spec @
        validateQueryTrackers V spec @
        validateQueueAgents V spec @
        validateSpyt spec @
        validateYQLAgents V spec @
        validateUi spec @
        validateExtraTimbertruckComponents spec @
        validateExistsYtsaurus V newYtsaurus @
        validateUpdatePlan spec)"

text \<open>
  The answers of the webhook: an object of another type is refused before it is validated, and no
  object at all (a deletion) is accepted.
\<close>

datatype runtime_object = YtsaurusObject ytsaurus | OtherObject string

datatype admission_error = UnexpectedType string | InvalidObject string "field_error list"

definition evaluateYtsaurusValidation :: "validation_lib \<Rightarrow> ytsaurus option \<Rightarrow> ytsaurus option \<Rightarrow> admission_error option" where
  "evaluateYtsaurusValidation V newYtsaurus oldYtsaurus =
    (case newYtsaurus of
       None \<Rightarrow> None
     | Some new \<Rightarrow> (case validateYtsaurus V new oldYtsaurus of
         [] \<Rightarrow> None
       | errors \<Rightarrow> Some (InvalidObject (yt_Name new) errors)))"

definition ValidateCreate :: "validation_lib \<Rightarrow> runtime_object \<Rightarrow> admission_error option" where
  "ValidateCreate V obj = (case obj of
     OtherObject t \<Rightarrow> Some (UnexpectedType t)
   | YtsaurusObject newObject \<Rightarrow> evaluateYtsaurusValidation V (Some newObject) None)"

definition ValidateUpdate :: "validation_lib \<Rightarrow> runtime_object \<Rightarrow> runtime_object \<Rightarrow> admission_error option" where
  "ValidateUpdate V oldObj newObj = (case oldObj of
     OtherObject t \<Rightarrow> Some (UnexpectedType t)
   | YtsaurusObject oldObject \<Rightarrow> (case newObj of
       OtherObject t \<Rightarrow> Some (UnexpectedType t)
     | YtsaurusObject newObject \<Rightarrow> evaluateYtsaurusValidation V (Some newObject) (Some oldObject)))"

definition ValidateDelete :: "validation_lib \<Rightarrow> runtime_object \<Rightarrow> admission_error option" where
  "ValidateDelete V oldObj = (case oldObj of
     OtherObject t \<Rightarrow> Some (UnexpectedType t)
   | YtsaurusObject oldObject \<Rightarrow> evaluateYtsaurusValidation V None (Some oldObject))"

section \<open>Accepted lists\<close>

text \<open>Each validation returns no error exactly when each of its conditions holds.\<close>

lemma indexed_Nil [simp]: "indexed f xs = [] \<longleftrightarrow> (\<forall>i < length xs. f i (xs ! i) = [])"
proof -
  have "indexed f xs = [] \<longleftrightarrow> (\<forall>ys \<in> set (map2 f [0 ..< length xs] xs). ys = [])"
    unfolding indexed_def concat_eq_Nil_conv ..
  also have "\<dots> \<longleftrightarrow> (\<forall>i < length xs. f i (xs ! i) = [])"
    unfolding all_set_conv_all_nth by simp
  finally show ?thesis .
qed

lemma uv_Insert_Nil: "snd (uv_Insert u v path) = [] \<longleftrightarrow> v \<notin> fst ` set u"
  by (cases "map_of u v") (simp_all add: uv_Insert_def map_of_eq_None_iff flip: map_of_eq_None_iff)

lemma uv_Insert_keys: "fst ` set (fst (uv_Insert u v path)) = insert v (fst ` set u)"
  by (cases "map_of u v") (use map_of_SomeD in \<open>force simp: uv_Insert_def\<close>)+

lemma uv_Insert_length:
  "snd (uv_Insert u v path) = [] \<Longrightarrow> fst (uv_Insert u v path) = (v, path) # u"
  by (simp add: uv_Insert_def split: option.splits)

lemma validate_groups_accepted:
  assumes "validate_groups V spec field0 key check groups = []"
  shows "distinct (map gs_Name groups)"
    and "\<And>g. g \<in> set groups \<Longrightarrow> \<exists>path. validateInstanceSpec V spec (gs_InstanceSpec g) path = [] \<and> check g path = []"
proof -
  have *: "gs_Name (groups ! i) \<notin> gs_Name ` set (take i groups) \<and>
      validateInstanceSpec V spec (gs_InstanceSpec (groups ! i)) (spec_path field0 @ [Index i]) = [] \<and>
      check (groups ! i) (spec_path field0 @ [Index i]) = []" if "i < length groups" for i
    using assms that by (simp add: validate_groups_def Let_def)
  show "distinct (map gs_Name groups)"
    unfolding distinct_conv_nth
  proof (intro allI impI)
    fix i j assume ij: "i < length (map gs_Name groups)" "j < length (map gs_Name groups)" "i \<noteq> j"
    have "gs_Name (groups ! a) \<noteq> gs_Name (groups ! b)" if "a < b" "b < length groups" for a b
    proof -
      have "groups ! a \<in> set (take b groups)"
        using that by (metis in_set_conv_nth length_take min.absorb4 nth_take order.strict_trans)
      with * [OF that(2)] show ?thesis by (metis imageI)
    qed
    with ij show "map gs_Name groups ! i \<noteq> map gs_Name groups ! j"
      by (metis length_map linorder_neqE_nat nth_map)
  qed
  show "\<exists>path. validateInstanceSpec V spec (gs_InstanceSpec g) path = [] \<and> check g path = []" if "g \<in> set groups" for g
    using that * by (metis in_set_conv_nth)
qed

section \<open>Volume mounts\<close>

text \<open>Two mounts above the same path lie one above the other.\<close>

lemma under_mount_chain:
  assumes "under_mount p a" "under_mount p b" "length (vm_MountPath b) \<le> length (vm_MountPath a)"
  shows "under_mount (vm_MountPath a) b"
proof (cases "length (vm_MountPath b) = length (vm_MountPath a)")
  case True
  have "prefix (vm_MountPath a) p" "prefix (vm_MountPath b) p"
    using assms by (auto simp: under_mount_def dest: append_prefixD)
  with True have "vm_MountPath a = vm_MountPath b"
    by (metis prefix_length_prefix prefix_order.dual_order.antisym order_refl)
  then show ?thesis by (simp add: under_mount_def)
next
  case False
  with assms(3) have l: "length (vm_MountPath b @ ''/'') \<le> length (vm_MountPath a)" by simp
  have a: "prefix (vm_MountPath a) p" using assms(1) by (auto simp: under_mount_def dest: append_prefixD)
  with l have "p \<noteq> vm_MountPath b" by (auto dest: prefix_length_le)
  with assms(2) have "prefix (vm_MountPath b @ ''/'') p" by (simp add: under_mount_def)
  with a l have "prefix (vm_MountPath b @ ''/'') (vm_MountPath a)" by (metis prefix_length_prefix)
  then show ?thesis by (simp add: under_mount_def)
qed

text \<open>The longest mount above a path, whatever the order of the mounts.\<close>

definition longer_mount :: "volume_mount \<Rightarrow> volume_mount \<Rightarrow> volume_mount" where
  "longer_mount m best = (if length (vm_MountPath best) < length (vm_MountPath m) then m else best)"

definition most_specific_mount :: "volume_mount list \<Rightarrow> string \<Rightarrow> volume_mount option" where
  "most_specific_mount mounts path =
    (case filter (under_mount path) mounts of [] \<Rightarrow> None | m # rest \<Rightarrow> Some (fold longer_mount rest m))"

lemma fold_longer_last:
  "sorted_wrt (\<lambda>a b. length (vm_MountPath a) < length (vm_MountPath b)) (m # ms) \<Longrightarrow>
   fold longer_mount ms m = last (m # ms)"
  by (induction ms arbitrary: m) (auto simp: longer_mount_def)

lemma find_rev: "find P (rev xs) = (case filter P xs of [] \<Rightarrow> None | y # ys \<Rightarrow> Some (last (y # ys)))"
  by (induction xs rule: rev_induct) (auto split: list.splits)

lemma accepted_mounts_sorted:
  assumes "validate_volume_mounts mounts path = []"
  shows "sorted_wrt (\<lambda>a b. \<not> under_mount (vm_MountPath a) b) mounts"
  unfolding sorted_wrt_iff_nth_less
proof (intro allI impI)
  fix i j assume ij: "i < j" "j < length mounts"
  then have "mounts ! i \<in> set (take j mounts)"
    by (metis in_set_conv_nth length_take min.absorb4 nth_take order.strict_trans)
  with assms ij show "\<not> under_mount (vm_MountPath (mounts ! i)) (mounts ! j)"
    by (simp add: validate_volume_mounts_def Let_def)
qed

lemma backward_scan_most_specific:
  assumes "validate_volume_mounts mounts path = []"
  shows "FindVolumeMountForPath mounts p = most_specific_mount mounts p"
proof -
  let ?F = "filter (under_mount p) mounts"
  have "sorted_wrt (\<lambda>a b. \<not> under_mount (vm_MountPath a) b) ?F"
    using accepted_mounts_sorted [OF assms] by (rule sorted_wrt_filter)
  then have s: "sorted_wrt (\<lambda>a b. length (vm_MountPath a) < length (vm_MountPath b)) ?F"
    by (rule sorted_wrt_mono_rel [rotated]) (use under_mount_chain leI in \<open>fastforce\<close>)
  show ?thesis
    using s by (auto simp: FindVolumeMountForPath_def find_rev most_specific_mount_def simp del: sorted_wrt.simps
        split: list.splits dest!: fold_longer_last)
qed

end
