(* ===== verification/Admission.thy ===== *)
theory Admission
  imports Webhook Sample_Cluster
begin

text \<open>
  What the admission webhook guarantees: consistency of an accepted specification, the quorum of
  masters across an accepted change of their number, secure transports, the shape of update plans, and
  the mounts of locations.
\<close>

section \<open>Masters\<close>

text \<open>The cells of a cluster, primary first.\<close>

definition master_cells :: "ytsaurus \<Rightarrow> masters_spec list" where
  "master_cells y = sp_PrimaryMasters (yt_Spec y) # sp_SecondaryMasters (yt_Spec y)"

abbreviation cell_count :: "masters_spec \<Rightarrow> int" where
  "cell_count m \<equiv> is_InstanceCount (ms_InstanceSpec m)"

lemma master_accepted:
  assumes "validateMasterSpec V new old m oldM path = []"
  shows "validateInstanceSpecWithTimbertruck V (yt_Spec new) (ms_InstanceSpec m) (ms_Timbertruck m) path = []"
    and "FindFirstLocation (is_Locations (ms_InstanceSpec m)) LocationTypeMasterChangelogs \<noteq> None"
    and "FindFirstLocation (is_Locations (ms_InstanceSpec m)) LocationTypeMasterSnapshots \<noteq> None"
    and "cell_count m > 0 \<Longrightarrow> \<not> sp_EphemeralCluster (yt_Spec new) \<Longrightarrow> half (cell_count m) < min_ready m"
    and "\<And>om. oldM = Some om \<Longrightarrow> ms_CellTag om = ms_CellTag m"
    and "\<And>om. oldM = Some om \<Longrightarrow> \<exists>isPrimary changed. validate_master_change new (yt_Spec (ptr_deref old new)) m om isPrimary changed path = []"
  using assms by (auto simp: validateMasterSpec_def Let_def split: prod.splits)

lemma secondary_step:
  assumes "snd (secondary_from V new old i tags hosts (m # ms)) = []"
  shows "\<exists>path path1 h1.
    validateMasterSpec V new old m (Option.bind old (\<lambda>old. nth_option (sp_SecondaryMasters (yt_Spec old)) i)) path = [] \<and>
    snd (uv_Insert tags (ms_CellTag m) path1) = [] \<and>
    snd (secondary_from V new old (Suc i) (fst (uv_Insert tags (ms_CellTag m) path1)) h1 ms) = [] \<and>
    fst (secondary_from V new old i tags hosts (m # ms)) =
      fst (secondary_from V new old (Suc i) (fst (uv_Insert tags (ms_CellTag m) path1)) h1 ms)"
  using assms unfolding secondary_from.simps Let_def case_prod_beta fst_conv snd_conv append_is_Nil_conv by blast

lemma secondary_accepted:
  assumes "snd (secondary_from V new old i tags hosts ms) = []"
  shows "distinct (map ms_CellTag ms) \<and> ms_CellTag ` set ms \<inter> fst ` set tags = {} \<and>
    fst ` set (fst (secondary_from V new old i tags hosts ms)) = ms_CellTag ` set ms \<union> fst ` set tags \<and>
    length (fst (secondary_from V new old i tags hosts ms)) = length ms + length tags"
  using assms
proof (induction ms arbitrary: i tags hosts)
  case (Cons m ms)
  from secondary_step [OF Cons.prems] obtain path1 h1 where
    e: "snd (uv_Insert tags (ms_CellTag m) path1) = []"
       "snd (secondary_from V new old (Suc i) (fst (uv_Insert tags (ms_CellTag m) path1)) h1 ms) = []"
    and f: "fst (secondary_from V new old i tags hosts (m # ms)) =
      fst (secondary_from V new old (Suc i) (fst (uv_Insert tags (ms_CellTag m) path1)) h1 ms)" by blast
  have n: "ms_CellTag m \<notin> fst ` set tags" using e(1) by (simp add: uv_Insert_Nil)
  from Cons.IH [OF e(2)] n show ?case
    unfolding f uv_Insert_length [OF e(1)] by auto
qed simp

lemma secondary_cells_accepted:
  assumes "snd (secondary_from V new old i tags hosts ms) = []" "j < length ms"
  shows "\<exists>path. validateMasterSpec V new old (ms ! j)
    (Option.bind old (\<lambda>old. nth_option (sp_SecondaryMasters (yt_Spec old)) (i + j))) path = []"
  using assms
proof (induction ms arbitrary: i j tags hosts)
  case (Cons m ms)
  note step = secondary_step [OF Cons.prems(1)]
  show ?case
  proof (cases j)
    case 0 then show ?thesis using step by auto
  next
    case (Suc k)
    from step obtain tags1 hosts1 where "snd (secondary_from V new old (Suc i) tags1 hosts1 ms) = []" by blast
    from Cons.IH [OF this, of k] Cons.prems(2) Suc show ?thesis by simp
  qed
qed simp

lemma secondary_run:
  assumes "validateSecondaryMasters V new old = []"
  obtains hosts path where
    "snd (secondary_from V new old 0 [(ms_CellTag (sp_PrimaryMasters (yt_Spec new)), path)] hosts (sp_SecondaryMasters (yt_Spec new))) = []"
    "length (fst (secondary_from V new old 0 [(ms_CellTag (sp_PrimaryMasters (yt_Spec new)), path)] hosts (sp_SecondaryMasters (yt_Spec new)))) - 1
       \<le> MaxSecondaryMasterCells"
    "\<forall>(t, _) \<in> set (fst (secondary_from V new old 0 [(ms_CellTag (sp_PrimaryMasters (yt_Spec new)), path)] hosts (sp_SecondaryMasters (yt_Spec new)))).
       MinValidCellTag \<le> t \<and> t \<le> MaxValidCellTag"
proof -
  have i: "uv_Insert [] v p = ([(v, p)], [])" for v :: nat and p by (simp add: uv_Insert_def)
  show thesis
    using assms that
    unfolding validateSecondaryMasters_def Let_def case_prod_beta i fst_conv snd_conv append_is_Nil_conv error_if_Nil
      concat_eq_Nil_conv set_map ball_simps
    by (fastforce simp: case_prod_beta not_less)
qed

lemma count_change_in_maintenance:
  assumes "validate_master_change new old m om p ch path = []"
  shows "cell_count m = cell_count om \<or>
    map_option cmt_Shutdown (sp_ClusterMaintenance old) = Some ClusterShutdownExceptMasters \<and>
    map_option cmt_Shutdown (sp_ClusterMaintenance (yt_Spec new)) = Some ClusterShutdownExceptMasters"
proof -
  have d: "map_option cmt_Shutdown x = Some ClusterShutdownExceptMasters"
    if "cmt_Shutdown (ptr_deref x zero_maintenance) = ClusterShutdownExceptMasters" for x
    using that by (cases x) (simp_all add: zero_maintenance_def)
  have g: "(if c then error_if a e @ es else []) = [] \<longleftrightarrow> (c \<longrightarrow> \<not> a \<and> es = [])" for c a e es by simp
  from assms have "cmt_Shutdown (ptr_deref (sp_ClusterMaintenance old) zero_maintenance) \<noteq> ClusterShutdownExceptMasters \<or>
      cmt_Shutdown (ptr_deref (sp_ClusterMaintenance (yt_Spec new)) zero_maintenance) \<noteq> ClusterShutdownExceptMasters \<longrightarrow>
      \<not> cell_count om \<noteq> cell_count m"
    unfolding validate_master_change_def Let_def append_is_Nil_conv error_if_Nil g by argo
  with d show ?thesis by metis
qed

lemma removed_cells_accepted:
  assumes "validateSecondaryMasters V new (Some old) = []"
    and "length (sp_SecondaryMasters (yt_Spec new)) \<le> j" "j < length (sp_SecondaryMasters (yt_Spec old))"
  shows "cell_count (sp_SecondaryMasters (yt_Spec old) ! j) \<le> 0"
proof -
  have "\<forall>i \<in> set [length (sp_SecondaryMasters (yt_Spec new)) ..< length (sp_SecondaryMasters (yt_Spec old))].
      \<not> 0 < cell_count (sp_SecondaryMasters (yt_Spec old) ! i)"
    using assms(1)
    unfolding validateSecondaryMasters_def Let_def case_prod_beta append_is_Nil_conv option.case concat_eq_Nil_conv set_map
      ball_simps error_if_Nil
    by simp
  with assms(2,3) show ?thesis by (simp add: not_less)
qed

lemma accepted_parts:
  assumes "evaluateYtsaurusValidation V (Some new) old = None"
  shows "validateCommonSpec V (yt_Spec new) = []"
    and "validateDiscovery V (yt_Spec new) = []"
    and "validatePrimaryMasters V new old = []"
    and "validateSecondaryMasters V new old = []"
    and "validateHTTPProxies V (yt_Spec new) = []"
    and "validateRPCProxies V (yt_Spec new) = []"
    and "validateTCPProxies V (yt_Spec new) = []"
    and "validateDataNodes V (yt_Spec new) = []"
    and "validateExecNodes V (yt_Spec new) = []"
    and "validateSchedulers V (yt_Spec new) = []"
    and "validateControllerAgents V (yt_Spec new) = []"
    and "validateTabletNodes V (yt_Spec new) = []"
    and "validateStrawberry (yt_Spec new) = []"
    and "validateQueryTrackers V (yt_Spec new) = []"
    and "validateQueueAgents V (yt_Spec new) = []"
    and "validateYQLAgents V (yt_Spec new) = []"
    and "validateUi (yt_Spec new) = []"
    and "validateUpdatePlan (yt_Spec new) = []"
proof -
  have "validateYtsaurus V new old = []"
    using assms by (simp add: evaluateYtsaurusValidation_def split: list.splits)
  then show "validateCommonSpec V (yt_Spec new) = []"
    and "validateDiscovery V (yt_Spec new) = []"
    and "validatePrimaryMasters V new old = []"
    and "validateSecondaryMasters V new old = []"
    and "validateHTTPProxies V (yt_Spec new) = []"
    and "validateRPCProxies V (yt_Spec new) = []"
    and "validateTCPProxies V (yt_Spec new) = []"
    and "validateDataNodes V (yt_Spec new) = []"
    and "validateExecNodes V (yt_Spec new) = []"
    and "validateSchedulers V (yt_Spec new) = []"
    and "validateControllerAgents V (yt_Spec new) = []"
    and "validateTabletNodes V (yt_Spec new) = []"
    and "validateStrawberry (yt_Spec new) = []"
    and "validateQueryTrackers V (yt_Spec new) = []"
    and "validateQueueAgents V (yt_Spec new) = []"
    and "validateYQLAgents V (yt_Spec new) = []"
    and "validateUi (yt_Spec new) = []"
    and "validateUpdatePlan (yt_Spec new) = []"
    by (simp_all only: validateYtsaurus_def Let_def append_is_Nil_conv)
qed

lemma cells_accepted:
  assumes "evaluateYtsaurusValidation V (Some new) old = None" "i < length (master_cells new)"
  shows "\<exists>path. validateMasterSpec V new old (master_cells new ! i)
    (Option.bind old (\<lambda>old. nth_option (master_cells old) i)) path = []"
proof (cases i)
  case 0
  then show ?thesis
    using accepted_parts(3) [OF assms(1)]
    by (cases old) (auto simp: validatePrimaryMasters_def Let_def master_cells_def nth_option_def)
next
  case (Suc j)
  from secondary_run [OF accepted_parts(4) [OF assms(1)]] obtain tags hosts where
    "snd (secondary_from V new old 0 tags hosts (sp_SecondaryMasters (yt_Spec new))) = []" by blast
  from secondary_cells_accepted [OF this, of j] assms(2) Suc show ?thesis
    by (cases old) (auto simp: master_cells_def nth_option_def)
qed

text \<open>A majority of the new cell meets every set of instances that was ready before the change.\<close>

lemma quorum_meets:
  assumes "U \<subseteq> {0 ..< nat n}" "m \<le> int (card U)" "Q \<subseteq> {0 ..< nat k}" "k < 2 * int (card Q)"
    and "0 < k" "n - m \<le> k div 2" "k \<le> 2 * m - 1"
  shows "Q \<inter> U \<noteq> {}"
proof
  assume d: "Q \<inter> U = {}"
  have f: "finite U" "finite Q" using assms(1,3) finite_subset by blast+
  show False
  proof (cases "n \<le> k")
    case True
    then have "U \<union> Q \<subseteq> {0 ..< nat k}" using assms(1,3) by force
    then have "card (U \<union> Q) \<le> nat k" using card_mono [of "{0 ..< nat k}"] by simp
    then have "card U + card Q \<le> nat k" using f d by (simp add: card_Un_disjoint inf_commute)
    with assms(2,4,5,7) show False by linarith
  next
    case False
    then have "U \<union> Q \<subseteq> {0 ..< nat n}" using assms(1,3) by force
    then have "card (U \<union> Q) \<le> nat n" using card_mono [of "{0 ..< nat n}"] by simp
    then have "card U + card Q \<le> nat n" using f d by (simp add: card_Un_disjoint inf_commute)
    with assms(2,4,5,6) False show False by linarith
  qed
qed

section \<open>Consistent specifications\<close>

abbreviation has_location :: "instance_spec \<Rightarrow> location_type \<Rightarrow> bool" where
  "has_location inst t \<equiv> FindFirstLocation (is_Locations inst) t \<noteq> None"

text \<open>Relations between the parts of a specification that the operator relies on.\<close>

definition consistent_spec :: "ytsaurus_spec \<Rightarrow> bool" where
  "consistent_spec spec \<longleftrightarrow>
    (let cells = sp_PrimaryMasters spec # sp_SecondaryMasters spec; tags = map ms_CellTag cells
     in list_all (\<lambda>groups. distinct (map gs_Name (groups spec)))
          [sp_HTTPProxies, sp_RPCProxies, sp_TCPProxies, sp_DataNodes, sp_ExecNodes, sp_TabletNodes] \<and>
        DefaultHTTPProxyRole \<in> gs_Name ` set (sp_HTTPProxies spec) \<and>
        distinct tags \<and> (\<forall>t \<in> set tags. 0x0001 \<le> t \<and> t \<le> 0xf000) \<and> length cells \<le> 49 \<and>
        cell_count (sp_PrimaryMasters spec) \<ge> 1 \<and>
        (\<forall>m \<in> set cells. has_location (ms_InstanceSpec m) LocationTypeMasterChangelogs \<and>
           has_location (ms_InstanceSpec m) LocationTypeMasterSnapshots) \<and>
        (\<forall>g \<in> set (sp_DataNodes spec). has_location (gs_InstanceSpec g) LocationTypeChunkStore) \<and>
        (\<forall>g \<in> set (sp_ExecNodes spec). has_location (gs_InstanceSpec g) LocationTypeChunkCache \<and>
           has_location (gs_InstanceSpec g) LocationTypeSlots) \<and>
        (sp_Schedulers spec = None \<longleftrightarrow> sp_ControllerAgents spec = None) \<and>
        (sp_ExecNodes spec \<noteq> [] \<or> sp_HasStrawberryController spec \<or> sp_QueryTrackers spec \<noteq> None \<longrightarrow> sp_Schedulers spec \<noteq> None) \<and>
        (sp_QueryTrackers spec \<noteq> None \<or> sp_QueueAgents spec \<noteq> None \<longrightarrow> sp_TabletNodes spec \<noteq> []) \<and>
        (sp_YQLAgents spec \<noteq> None \<longrightarrow> sp_QueryTrackers spec \<noteq> None))"

lemma groups_of_accepted:
  assumes "evaluateYtsaurusValidation V (Some new) old = None"
  defines "spec \<equiv> yt_Spec new"
  shows "validate_groups V spec ''tcpProxies'' ''role'' (\<lambda>_ _. []) (sp_TCPProxies spec) = []"
    and "validate_groups V spec ''tabletNodes'' ''name'' (\<lambda>_ _. []) (sp_TabletNodes spec) = []"
    and "\<exists>check. validate_groups V spec ''httpProxies'' ''role'' check (sp_HTTPProxies spec) = []"
    and "\<exists>check. validate_groups V spec ''rpcProxies'' ''role'' check (sp_RPCProxies spec) = []"
    and "\<exists>check. validate_groups V spec ''dataNodes'' ''name'' check (sp_DataNodes spec) = []"
    and "\<exists>check. validate_groups V spec ''execNodes'' ''name'' check (sp_ExecNodes spec) = []"
  using accepted_parts(5-9,12) [OF assms(1)]
  unfolding spec_def validateTCPProxies_def validateTabletNodes_def validateHTTPProxies_def validateRPCProxies_def
    validateDataNodes_def validateExecNodes_def append_is_Nil_conv
  by blast+

lemma group_names_accepted:
  assumes "evaluateYtsaurusValidation V (Some new) old = None"
  defines "spec \<equiv> yt_Spec new"
  shows "list_all (\<lambda>groups. distinct (map gs_Name (groups spec)))
    [sp_HTTPProxies, sp_RPCProxies, sp_TCPProxies, sp_DataNodes, sp_ExecNodes, sp_TabletNodes]"
  using groups_of_accepted [OF assms(1)] unfolding spec_def list.pred_inject
  by (auto dest: validate_groups_accepted(1))

lemma node_locations_accepted:
  assumes "evaluateYtsaurusValidation V (Some new) old = None"
  shows "g \<in> set (sp_DataNodes (yt_Spec new)) \<Longrightarrow> has_location (gs_InstanceSpec g) LocationTypeChunkStore"
    and "g \<in> set (sp_ExecNodes (yt_Spec new)) \<Longrightarrow>
      has_location (gs_InstanceSpec g) LocationTypeChunkCache \<and> has_location (gs_InstanceSpec g) LocationTypeSlots"
  using accepted_parts(8,9) [OF assms]
  unfolding validateDataNodes_def validateExecNodes_def append_is_Nil_conv
  by (blast dest: validate_groups_accepted(2) error_if_Nil [THEN iffD1])+

lemma cell_tags_accepted:
  assumes "evaluateYtsaurusValidation V (Some new) old = None"
  defines "tags \<equiv> map ms_CellTag (master_cells new)"
  shows "distinct tags \<and> (\<forall>t \<in> set tags. 0x0001 \<le> t \<and> t \<le> 0xf000) \<and> length (master_cells new) \<le> 49"
proof -
  let ?sec = "sp_SecondaryMasters (yt_Spec new)" and ?p = "ms_CellTag (sp_PrimaryMasters (yt_Spec new))"
  from secondary_run [OF accepted_parts(4) [OF assms(1)]] obtain hosts path where
    r: "snd (secondary_from V new old 0 [(?p, path)] hosts ?sec) = []"
       "length (fst (secondary_from V new old 0 [(?p, path)] hosts ?sec)) - 1 \<le> 48"
       "\<forall>(t, _) \<in> set (fst (secondary_from V new old 0 [(?p, path)] hosts ?sec)). 0x0001 \<le> t \<and> t \<le> 0xf000" .
  note s = secondary_accepted [OF r(1)]
  from r(3) have "\<forall>t \<in> fst ` set (fst (secondary_from V new old 0 [(?p, path)] hosts ?sec)). 0x0001 \<le> t \<and> t \<le> 0xf000"
    by force
  with s r(2) show ?thesis by (auto simp: tags_def master_cells_def)
qed

lemma master_locations_accepted:
  assumes "evaluateYtsaurusValidation V (Some new) old = None" "m \<in> set (master_cells new)"
  shows "has_location (ms_InstanceSpec m) LocationTypeMasterChangelogs \<and>
    has_location (ms_InstanceSpec m) LocationTypeMasterSnapshots"
  using cells_accepted [OF assms(1)] master_accepted(2,3) assms(2) by (metis in_set_conv_nth)

lemma relations_accepted:
  assumes "evaluateYtsaurusValidation V (Some new) old = None"
  defines "spec \<equiv> yt_Spec new"
  shows "sp_Schedulers spec = None \<longleftrightarrow> sp_ControllerAgents spec = None"
    and "sp_ExecNodes spec \<noteq> [] \<or> sp_HasStrawberryController spec \<or> sp_QueryTrackers spec \<noteq> None \<longrightarrow> sp_Schedulers spec \<noteq> None"
    and "sp_QueryTrackers spec \<noteq> None \<or> sp_QueueAgents spec \<noteq> None \<longrightarrow> sp_TabletNodes spec \<noteq> []"
    and "sp_YQLAgents spec \<noteq> None \<longrightarrow> sp_QueryTrackers spec \<noteq> None"
proof -
  note parts = accepted_parts(9-11,13-16) [OF assms(1), folded spec_def, unfolded validateSchedulers_def validateControllerAgents_def
    validateExecNodes_def validateStrawberry_def validateQueryTrackers_def validateQueueAgents_def validateYQLAgents_def
    append_is_Nil_conv error_if_Nil]
  have single: "x = None \<or> needs = []" if "validate_single V spec f x needs = []" for f x needs
    using that by (simp add: validate_single_def split: option.splits)
  note needs = parts(2,3,5-7) [THEN single, unfolded append_is_Nil_conv error_if_Nil]
  show "sp_Schedulers spec = None \<longleftrightarrow> sp_ControllerAgents spec = None" using needs(1,2) by blast
  show "sp_ExecNodes spec \<noteq> [] \<or> sp_HasStrawberryController spec \<or> sp_QueryTrackers spec \<noteq> None \<longrightarrow> sp_Schedulers spec \<noteq> None"
    using conjunct2 [OF parts(1)] parts(4) needs(3) by argo
  show "sp_QueryTrackers spec \<noteq> None \<or> sp_QueueAgents spec \<noteq> None \<longrightarrow> sp_TabletNodes spec \<noteq> []"
    using needs(3,4) by argo
  show "sp_YQLAgents spec \<noteq> None \<longrightarrow> sp_QueryTrackers spec \<noteq> None" using needs(5) by argo
qed

lemma accepted_consistent:
  assumes "evaluateYtsaurusValidation V (Some new) old = None"
  shows "consistent_spec (yt_Spec new)"
proof -
  have "DefaultHTTPProxyRole \<in> gs_Name ` set (sp_HTTPProxies (yt_Spec new))"
    using accepted_parts(5) [OF assms] by (force simp: validateHTTPProxies_def list_ex_iff)
  moreover have "cell_count (sp_PrimaryMasters (yt_Spec new)) \<ge> 1"
    using accepted_parts(3) [OF assms] by (simp add: validatePrimaryMasters_def Let_def)
  ultimately show ?thesis
    unfolding consistent_spec_def Let_def master_cells_def [symmetric]
    using group_names_accepted [OF assms] cell_tags_accepted [OF assms] master_locations_accepted [OF assms]
      node_locations_accepted [OF assms] relations_accepted [OF assms]
    by blast
qed

section \<open>Instances of an accepted specification\<close>

text \<open>The instance specifications that the webhook validates as such.\<close>

definition validated_instances :: "ytsaurus \<Rightarrow> instance_spec list" where
  "validated_instances y =
    (let spec = yt_Spec y
     in sp_Discovery spec # map ms_InstanceSpec (master_cells y) @
        map gs_InstanceSpec (sp_HTTPProxies spec @ sp_RPCProxies spec @ sp_TCPProxies spec @ sp_DataNodes spec @
          sp_ExecNodes spec @ sp_TabletNodes spec) @
        concat (map (\<lambda>part. case part spec of None \<Rightarrow> [] | Some inst \<Rightarrow> [inst])
          [sp_Schedulers, sp_ControllerAgents, sp_QueryTrackers, sp_QueueAgents, sp_YQLAgents]))"

definition valid_instance :: "validation_lib \<Rightarrow> ytsaurus_spec \<Rightarrow> instance_spec \<Rightarrow> bool" where
  "valid_instance V spec inst \<longleftrightarrow> (\<exists>tt path. validateInstanceSpecWithTimbertruck V spec inst tt path = [])"

lemma valid_group:
  "validate_groups V spec f key check groups = [] \<Longrightarrow> g \<in> set groups \<Longrightarrow> valid_instance V spec (gs_InstanceSpec g)"
  unfolding valid_instance_def by (metis validate_groups_accepted(2) validateInstanceSpec_def)

lemma valid_single:
  "validate_single V spec f (Some inst) needs = [] \<Longrightarrow> valid_instance V spec inst"
  unfolding valid_instance_def by (auto simp: validate_single_def validateInstanceSpec_def)

lemma instances_valid:
  assumes acc: "evaluateYtsaurusValidation V (Some new) old = None" and i: "inst \<in> set (validated_instances new)"
  shows "valid_instance V (yt_Spec new) inst"
proof -
  let ?S = "yt_Spec new"
  from i consider
      "inst = sp_Discovery ?S"
    | m where "m \<in> set (master_cells new)" "inst = ms_InstanceSpec m"
    | g where "inst = gs_InstanceSpec g" "g \<in> set (sp_HTTPProxies ?S) \<or> g \<in> set (sp_RPCProxies ?S) \<or>
        g \<in> set (sp_TCPProxies ?S) \<or> g \<in> set (sp_DataNodes ?S) \<or> g \<in> set (sp_ExecNodes ?S) \<or> g \<in> set (sp_TabletNodes ?S)"
    | "sp_Schedulers ?S = Some inst" | "sp_ControllerAgents ?S = Some inst" | "sp_QueryTrackers ?S = Some inst"
    | "sp_QueueAgents ?S = Some inst" | "sp_YQLAgents ?S = Some inst"
    unfolding validated_instances_def Let_def by (fastforce split: option.splits)
  then show ?thesis
  proof cases
    case 1
    then show ?thesis
      using accepted_parts(2) [OF acc] unfolding valid_instance_def validateDiscovery_def validateInstanceSpec_def by blast
  next
    case 2
    then show ?thesis
      unfolding valid_instance_def using cells_accepted [OF acc] master_accepted(1) by (metis in_set_conv_nth)
  next
    case 3
    then show ?thesis using groups_of_accepted [OF acc] by (metis valid_group)
  qed (use accepted_parts(10,11,14-16) [OF acc, unfolded validateSchedulers_def validateControllerAgents_def
      validateQueryTrackers_def validateQueueAgents_def validateYQLAgents_def] valid_single in metis)+
qed

section \<open>Secure transports\<close>

definition secure_transport :: "rpc_transport option \<Rightarrow> bool" where
  "secure_transport t \<longleftrightarrow> (case t of None \<Rightarrow> False
     | Some r \<Rightarrow> rt_TLSRequired r \<and> \<not> rt_TLSInsecure r \<and> rt_TLSSecret r \<noteq> None \<and> rt_TLSClientSecret r \<noteq> None)"

definition effective_transport :: "ytsaurus_spec \<Rightarrow> instance_spec \<Rightarrow> rpc_transport option" where
  "effective_transport spec inst = (if is_NativeTransport inst = None then sp_NativeTransport spec else is_NativeTransport inst)"

lemma transport_accepted:
  assumes "validateTransportSecurity spec t path = []" "cf_SecureClusterTransports (features_of spec)"
  shows "secure_transport (if t = None then sp_NativeTransport spec else t)"
  using assms by (auto simp: validateTransportSecurity_def secure_transport_def Let_def split: option.splits)

lemma instance_transport_accepted:
  assumes "valid_instance V spec inst" "cf_SecureClusterTransports (features_of spec)"
  shows "secure_transport (effective_transport spec inst)"
proof -
  from assms(1) obtain path where "validateTransportSecurity spec (is_NativeTransport inst) path = []"
    by (auto simp: valid_instance_def validateInstanceSpecWithTimbertruck_def)
  from transport_accepted [OF this assms(2)] show ?thesis by (simp add: effective_transport_def)
qed

lemma proxies_secure:
  assumes acc: "evaluateYtsaurusValidation V (Some new) old = None"
    and sec: "cf_SecureClusterTransports (features_of (yt_Spec new))"
  shows "hp \<in> set (sp_HTTPProxies (yt_Spec new)) \<Longrightarrow> gs_HTTPSSecret hp \<noteq> None \<and> gs_DisableHTTP hp"
    and "rp \<in> set (sp_RPCProxies (yt_Spec new)) \<Longrightarrow>
      rt_TLSRequired (gs_Transport rp) \<and> \<not> rt_TLSInsecure (gs_Transport rp) \<and> rt_TLSSecret (gs_Transport rp) \<noteq> None"
proof -
  obtain f where f: "sp_ClusterFeatures (yt_Spec new) = Some f"
    using sec by (cases "sp_ClusterFeatures (yt_Spec new)") (simp_all add: zero_features_def)
  with accepted_parts(1) [OF acc] sec have "cf_HTTPProxyHaveHTTPSAddress f" by (simp add: validateCommonSpec_def)
  with f show "gs_HTTPSSecret hp \<noteq> None \<and> gs_DisableHTTP hp" if "hp \<in> set (sp_HTTPProxies (yt_Spec new))"
    using accepted_parts(5) [OF acc] that sec
    by (auto simp: validateHTTPProxies_def dest!: validate_groups_accepted(2))
  show "rt_TLSRequired (gs_Transport rp) \<and> \<not> rt_TLSInsecure (gs_Transport rp) \<and> rt_TLSSecret (gs_Transport rp) \<noteq> None"
    if "rp \<in> set (sp_RPCProxies (yt_Spec new))"
    using accepted_parts(6) [OF acc] that sec
    by (auto simp: validateRPCProxies_def Let_def dest!: validate_groups_accepted(2))
qed

section \<open>Update plans\<close>

lemma plan_entries_accepted:
  assumes "plan_from spec i c plan = []" "e \<in> set plan"
  shows "\<exists>path. validateUpdateModeForSelector spec e path = []"
    and "\<not> no_type (sel_Component e) \<Longrightarrow> ref_type (sel_Component e) \<in> set LocalComponentTypes"
    and "sel_Class e = ComponentClassUnspecified \<longleftrightarrow> \<not> no_type (sel_Component e) \<or> ref_name (sel_Component e) \<noteq> ''''"
  using assms by (induction plan arbitrary: i c) (auto simp: Let_def)

lemma plan_exclusive_accepted:
  assumes "plan_from spec i c plan = []"
  shows "c \<noteq> ComponentClassUnspecified \<Longrightarrow> plan = []"
    and "e \<in> set plan \<Longrightarrow> exclusive (sel_Class e) \<Longrightarrow> i = 0 \<and> plan = [e]"
proof -
  have c: "plan = []" if "plan_from spec i c plan = []" "c \<noteq> ComponentClassUnspecified" for i c plan
    using that by (cases plan) (simp_all add: Let_def)
  show "plan = []" if "c \<noteq> ComponentClassUnspecified" using assms that by (rule c)
  show "i = 0 \<and> plan = [e]" if e: "e \<in> set plan" "exclusive (sel_Class e)"
    using assms e
  proof (induction plan arbitrary: i c)
    case (Cons x plan)
    from Cons.prems(1) have r: "plan_from spec (Suc i) (if exclusive (sel_Class x) then sel_Class x else c) plan = []"
      and x: "exclusive (sel_Class x) \<Longrightarrow> i = 0" by (auto simp: Let_def split: if_splits)
    show ?case
    proof (cases "e = x")
      case True
      with r Cons.prems(3) have "plan = []" by (intro c [OF r]) auto
      with True x Cons.prems(3) show ?thesis by blast
    next
      case False
      with Cons.IH [OF r] Cons.prems(2,3) show ?thesis by auto
    qed
  qed simp
qed

lemma strategy_accepted:
  assumes "validateUpdateModeForSelector spec e path = []"
    and m: "GetUpdateStrategyType (Some e) \<in> {ComponentUpdateModeTypeRollingUpdate, ComponentUpdateModeTypeOnDelete}"
  shows "sel_Class e = ComponentClassUnspecified" "\<not> no_type (sel_Component e)"
    and "ref_type (sel_Component e) \<notin> set bulkOnlyComponentTypes"
    and "GetUpdateStrategyType (Some e) = ComponentUpdateModeTypeRollingUpdate \<Longrightarrow> ref_type (sel_Component e) = DataNodeType \<Longrightarrow>
      ref_name (sel_Component e) = '''' \<Longrightarrow> length (sp_DataNodes spec) \<le> 1 \<or> sel_Concurrency e \<noteq> None"
  using assms by (auto simp: validateUpdateModeForSelector_def Let_def split: if_splits)

section \<open>A concrete webhook\<close>

text \<open>A library that accepts labels and constraints, for a namespace with at most the sample cluster.\<close>

definition sample_lib :: validation_lib where
  "sample_lib = \<lparr>vl_ValidateLabels = (\<lambda>_ _. []), vl_ValidateAnnotations = (\<lambda>_ _. []), vl_DecodeContainer = (\<lambda>s. (s, None)),
     vl_List = (\<lambda>_. ([''yt''], None)), vl_ParseConstraints = (\<lambda>_. None), vl_satisfies = (\<lambda>_. None)\<rparr>"

definition located :: "location_type list \<Rightarrow> instance_spec \<Rightarrow> instance_spec" where
  "located types inst = inst\<lparr>is_VolumeMounts := [\<lparr>vm_Name = ''root'', vm_MountPath = ''/yt''\<rparr>, \<lparr>vm_Name = ''data'', vm_MountPath = ''/yt/data''\<rparr>],
     is_Locations := map (\<lambda>t. \<lparr>loc_LocationType = t, loc_Path = ''/yt/data/a'', loc_Medium = ''default''\<rparr>) types,
     is_HasPodAntiAffinity := True\<rparr>"

definition sample_transport :: rpc_transport where
  "sample_transport = \<lparr>rt_TLSSecret = Some ''tls'', rt_TLSClientSecret = Some ''client'', rt_TLSRequired = True, rt_TLSInsecure = False\<rparr>"

text \<open>Five masters, four of them required to be ready; transports are secure and a rolling update of data nodes is planned.\<close>

definition admitted :: "int \<Rightarrow> ytsaurus" where
  "admitted n = (sample_object ClusterStateRunning empty_update_status [])\<lparr>yt_Spec := sample_spec\<lparr>
     sp_ClusterFeatures := Some \<lparr>cf_EnableImageHeater = False, cf_HTTPProxyHaveHTTPSAddress = True,
       cf_RPCProxyHavePublicAddress = True, cf_SecureClusterTransports = True\<rparr>,
     sp_ClusterMaintenance := Some \<lparr>cmt_Shutdown = ClusterShutdownExceptMasters, cmt_AssignMasterCellsRoles = False\<rparr>,
     sp_NativeTransport := Some sample_transport,
     sp_UpdatePlan := [zero_selector\<lparr>sel_Component := \<lparr>ref_type = DataNodeType, ref_name = ''''\<rparr>,
       sel_Strategy := Some \<lparr>strat_RunPreChecks = None, strat_RollingUpdate = Some (), strat_OnDelete = None\<rparr>\<rparr>],
     sp_PrimaryMasters := sample_masters\<lparr>ms_InstanceSpec := (located [LocationTypeMasterChangelogs, LocationTypeMasterSnapshots]
       (sample_instance n))\<lparr>is_MinReadyInstanceCount := Some 4\<rparr>\<rparr>,
     sp_HTTPProxies := [(sample_group ''default'' 1)\<lparr>gs_HTTPSSecret := Some ''https'', gs_DisableHTTP := True\<rparr>],
     sp_RPCProxies := [(sample_group ''default'' 1)\<lparr>gs_Transport := sample_transport\<rparr>],
     sp_DataNodes := [(sample_group ''default'' 3)\<lparr>gs_InstanceSpec := located [LocationTypeChunkStore] (sample_instance 3)\<rparr>]\<rparr>\<rparr>"

lemmas sample_webhook_defs = sample_defs sample_lib_def located_def sample_transport_def admitted_def zero_selector_def
  zero_features_def zero_maintenance_def

lemmas instance_webhook_defs = validateInstanceSpec_def validateInstanceSpecWithTimbertruck_def validatePodSpec_def
  validateTimbertruckSpec_def validateStructuredLoggers_def validateTransportSecurity_def validate_volume_mounts_def
  validate_locations_def under_mount_def FindVolumeMountForPath_def suffix_to_prefix All_less_Suc Let_def

lemma admitted_instances:
  "validateInstanceSpecWithTimbertruck sample_lib (yt_Spec (admitted n)) (sample_instance k) None path = []"
  "validateInstanceSpecWithTimbertruck sample_lib (yt_Spec (admitted n)) (located types (sample_instance k)) None path = []"
  "validateInstanceSpecWithTimbertruck sample_lib (yt_Spec (admitted n))
     (located types (sample_instance k)\<lparr>is_MinReadyInstanceCount := r\<rparr>) None path = []"
  by (simp_all add: sample_webhook_defs instance_webhook_defs)

lemma sample_instance_fields [simp]:
  "is_InstanceCount (sample_instance n) = n" "is_Locations (sample_instance n) = []" "is_StructuredLoggers (sample_instance n) = []"
  "is_MinReadyInstanceCount (located types inst) = is_MinReadyInstanceCount inst"
  "is_HostNetwork (located types inst) = is_HostNetwork inst" "is_HostNetwork (sample_instance n) = None"
  "is_InstanceCount (located types inst) = is_InstanceCount inst" "is_HasPodAntiAffinity (located types inst)"
  "is_Locations (located types inst) = map (\<lambda>t. \<lparr>loc_LocationType = t, loc_Path = ''/yt/data/a'', loc_Medium = ''default''\<rparr>) types"
  by (simp_all add: sample_instance_def located_def)

lemma sample_group_fields [simp]:
  "gs_InstanceSpec (sample_group g n) = sample_instance n" "gs_Name (sample_group g n) = g"
  by (simp_all add: sample_group_def)

lemma sample_masters_fields [simp]:
  "ms_CellTag sample_masters = 1" "ms_HostAddresses sample_masters = []" "ms_Roles sample_masters = None"
  "ms_HydraPersistenceUploader sample_masters = None" "ms_Timbertruck sample_masters = None" "ms_Sidecars sample_masters = []"
  by (simp_all add: sample_masters_def)

lemma admitted_fields [simp]:
  "sp_PrimaryMasters (yt_Spec (admitted n)) = sample_masters\<lparr>ms_InstanceSpec :=
     (located [LocationTypeMasterChangelogs, LocationTypeMasterSnapshots] (sample_instance n))\<lparr>is_MinReadyInstanceCount := Some 4\<rparr>\<rparr>"
  "sp_SecondaryMasters (yt_Spec (admitted n)) = []" "\<not> sp_EphemeralCluster (yt_Spec (admitted n))"
  "sp_ClusterMaintenance (yt_Spec (admitted n)) = Some \<lparr>cmt_Shutdown = ClusterShutdownExceptMasters, cmt_AssignMasterCellsRoles = False\<rparr>"
  "sp_ClusterFeatures (yt_Spec (admitted n)) = Some \<lparr>cf_EnableImageHeater = False, cf_HTTPProxyHaveHTTPSAddress = True,
     cf_RPCProxyHavePublicAddress = True, cf_SecureClusterTransports = True\<rparr>"
  "sp_HTTPProxies (yt_Spec (admitted n)) = [(sample_group ''default'' 1)\<lparr>gs_HTTPSSecret := Some ''https'', gs_DisableHTTP := True\<rparr>]"
  "sp_RPCProxies (yt_Spec (admitted n)) = [(sample_group ''default'' 1)\<lparr>gs_Transport := sample_transport\<rparr>]"
  "sp_DataNodes (yt_Spec (admitted n)) = [(sample_group ''default'' 3)\<lparr>gs_InstanceSpec := located [LocationTypeChunkStore] (sample_instance 3)\<rparr>]"
  by (simp_all add: admitted_def sample_object_def sample_spec_def)

lemma admitted_masters: "validatePrimaryMasters sample_lib (admitted 7) (Some (admitted 5)) = []"
  by (simp add: admitted_instances validatePrimaryMasters_def validateMasterSpec_def Let_def uv_InsertAll_def uv_Insert_def GetMasterCellRoles_def
      validate_roles_def removed_roles_def chunk_roles_def uv_Count_def validate_master_change_def min_ready_def half_def
      validateHostAddresses_def validateHydraPersistenceUploaderSpec_def validateSidecars_def wrap32_def)

lemma admitted_others:
  "validateSecondaryMasters sample_lib (admitted 7) (Some (admitted 5)) = []"
  "validateHTTPProxies sample_lib (yt_Spec (admitted n)) = []"
  "validateRPCProxies sample_lib (yt_Spec (admitted n)) = []"
  "validateDataNodes sample_lib (yt_Spec (admitted n)) = []"
  by (simp_all add: admitted_instances validateInstanceSpec_def validateSecondaryMasters_def Let_def uv_InsertAll_def uv_Insert_def
      validateHTTPProxies_def validateRPCProxies_def validateDataNodes_def validate_groups_def sample_transport_def)

lemma admitted_rest:
  fixes n :: int
  defines "spec \<equiv> yt_Spec (admitted n)"
  shows "validateCommonSpec sample_lib spec = []" "validateDiscovery sample_lib spec = []" "validateTCPProxies sample_lib spec = []"
    "validateExecNodes sample_lib spec = []" "validateTabletNodes sample_lib spec = []" "validateSchedulers sample_lib spec = []"
    "validateControllerAgents sample_lib spec = []" "validateStrawberry spec = []" "validateQueryTrackers sample_lib spec = []"
    "validateQueueAgents sample_lib spec = []" "validateSpyt spec = []" "validateYQLAgents sample_lib spec = []"
    "validateUi spec = []" "validateExtraTimbertruckComponents spec = []" "validateExistsYtsaurus sample_lib (admitted n) = []"
    "validateUpdatePlan spec = []" "validatePodSpec sample_lib (sp_PodLabels spec) (sp_PodAnnotations spec) path = []"
    "sp_RequiresOperatorVersion spec = ''''"
  by (simp_all add: spec_def sample_webhook_defs validateCommonSpec_def validateDiscovery_def validateTCPProxies_def validateExecNodes_def
      validateTabletNodes_def validateSchedulers_def validateControllerAgents_def validateStrawberry_def validateQueryTrackers_def
      validateQueueAgents_def validateSpyt_def validateYQLAgents_def validateUi_def validateExtraTimbertruckComponents_def
      validateExistsYtsaurus_def validateUpdatePlan_def validate_groups_def validate_single_def instance_webhook_defs
      LocalComponentTypes_def validateUpdateModeForSelector_def GetUpdateStrategyType_def strategy_Type_def bulkOnlyComponentTypes_def)

lemma admitted_grows: "ValidateUpdate sample_lib (YtsaurusObject (admitted 5)) (YtsaurusObject (admitted 7)) = None"
  by (simp add: ValidateUpdate_def evaluateYtsaurusValidation_def validateYtsaurus_def ValidateVersionConstraint_def Let_def
      admitted_masters admitted_others admitted_rest)

section \<open>Properties\<close>

lemma update_accepted:
  "ValidateUpdate V (YtsaurusObject old) (YtsaurusObject new) = None \<longleftrightarrow> evaluateYtsaurusValidation V (Some new) (Some old) = None"
  by (simp add: ValidateUpdate_def)

lemma cell_change_accepted:
  assumes "ValidateUpdate V (YtsaurusObject old) (YtsaurusObject new) = None"
    and i: "i < length (master_cells old)" "i < length (master_cells new)"
  obtains isPrimary changed path where
    "validate_master_change new (yt_Spec old) (master_cells new ! i) (master_cells old ! i) isPrimary changed path = []"
    "ms_CellTag (master_cells old ! i) = ms_CellTag (master_cells new ! i)"
proof -
  from cells_accepted [OF assms(1) [unfolded update_accepted] i(2)] obtain path where
    "validateMasterSpec V new (Some old) (master_cells new ! i) (Some (master_cells old ! i)) path = []"
    using i(1) by (auto simp: nth_option_def)
  from master_accepted(5,6) [OF this] that show thesis by auto
qed

text \<open>
  (C24) An update that the webhook accepts keeps the quorum of each master cell: whichever instances of
  the old cell were ready, as many as the old specification demands, every majority of the new cell
  contains one of them.  Cells of one instance, which have no quorum to lose, are exempt.
\<close>

theorem accepted_update_keeps_quorum:
  assumes "ValidateUpdate V (YtsaurusObject old) (YtsaurusObject new) = None"
    and "i < length (master_cells old)" "i < length (master_cells new)"
    and "1 < cell_count (master_cells old ! i)" "cell_count (master_cells old ! i) < 2 ^ 30"
    and "0 \<le> min_ready (master_cells old ! i)"
    and "U \<subseteq> {0 ..< nat (cell_count (master_cells old ! i))}" "min_ready (master_cells old ! i) \<le> int (card U)"
    and "Q \<subseteq> {0 ..< nat (cell_count (master_cells new ! i))}" "cell_count (master_cells new ! i) < 2 * int (card Q)"
  shows "Q \<inter> U \<noteq> {}"
proof (rule quorum_meets [OF assms(7-10)])
  let ?n = "cell_count (master_cells old ! i)" and ?k = "cell_count (master_cells new ! i)"
    and ?m = "min_ready (master_cells old ! i)"
  obtain p ch path where
    v: "validate_master_change new (yt_Spec old) (master_cells new ! i) (master_cells old ! i) p ch path = []"
    using cell_change_accepted [OF assms(1-3)] .
  have m: "?m \<le> ?n" by (simp add: min_ready_def Let_def)
  have w: "wrap32 (?n - ?m) = ?n - ?m" "wrap32 (?m * 2 - 1) = ?m * 2 - 1"
    using m assms(4-6) by (auto intro!: wrap32_id simp: int32_def)
  have *: "\<not> (?k < 1 \<and> 0 < ?n)" "\<not> half ?k < ?n - ?m" "\<not> (?m * 2 - 1 < ?k \<and> 1 < ?n)"
    using v by (simp_all add: validate_master_change_def Let_def w)
  with assms(4) show "0 < ?k" by linarith
  with * assms(4) show "?n - ?m \<le> ?k div 2" "?k \<le> 2 * ?m - 1" by (simp_all add: half_def)
qed

theorem accepted_update_keeps_quorum_witness:
  "ValidateUpdate sample_lib (YtsaurusObject (admitted 5)) (YtsaurusObject (admitted 7)) = None \<and>
   {3, 4, 5, 6} \<inter> {0, 1, 2, 3 :: nat} \<noteq> {}"
  using accepted_update_keeps_quorum [OF admitted_grows, of 0 "{0, 1, 2, 3}" "{3, 4, 5, 6}"] admitted_grows
  by (simp add: master_cells_def min_ready_def Let_def)

text \<open>
  Outside of the maintenance that stops everything but the masters, before and after the update, an
  accepted update changes the number of instances of no cell; in any case it keeps the tag of every
  cell, and removes no cell that has instances.
\<close>

theorem accepted_update_masters_stable:
  assumes "ValidateUpdate V (YtsaurusObject old) (YtsaurusObject new) = None" "i < length (master_cells old)"
  shows "if i < length (master_cells new)
    then ms_CellTag (master_cells new ! i) = ms_CellTag (master_cells old ! i) \<and>
      (cell_count (master_cells new ! i) = cell_count (master_cells old ! i) \<or>
       map_option cmt_Shutdown (sp_ClusterMaintenance (yt_Spec old)) = Some ClusterShutdownExceptMasters \<and>
       map_option cmt_Shutdown (sp_ClusterMaintenance (yt_Spec new)) = Some ClusterShutdownExceptMasters)
    else cell_count (master_cells old ! i) \<le> 0"
proof (cases "i < length (master_cells new)")
  case True
  obtain p ch path where
    "validate_master_change new (yt_Spec old) (master_cells new ! i) (master_cells old ! i) p ch path = []"
    "ms_CellTag (master_cells old ! i) = ms_CellTag (master_cells new ! i)"
    using cell_change_accepted [OF assms True] .
  with count_change_in_maintenance show ?thesis using True by (metis (no_types, lifting))
next
  case False
  then obtain j where j: "i = Suc j" "length (sp_SecondaryMasters (yt_Spec new)) \<le> j" "j < length (sp_SecondaryMasters (yt_Spec old))"
    using assms(2) by (cases i) (auto simp: master_cells_def)
  have "validateSecondaryMasters V new (Some old) = []" using assms(1) accepted_parts(4) by (auto simp: update_accepted)
  from removed_cells_accepted [OF this j(2,3)] j(1) False show ?thesis by (simp add: master_cells_def)
qed

theorem accepted_update_masters_stable_witness:
  "ms_CellTag (master_cells (admitted 7) ! 0) = 1 \<and> cell_count (master_cells (admitted 5) ! 0) = 5"
  using accepted_update_masters_stable [OF admitted_grows, of 0] by (simp add: master_cells_def)



text \<open>
  (C27) With secure cluster transports, every accepted specification has TLS with verified certificates for
  the native transport of each validated instance group, HTTPS only for HTTP proxies, and TLS only for
  RPC proxies.
\<close>

theorem accepted_transports_secure:
  assumes "evaluateYtsaurusValidation V (Some new) old = None"
    and "cf_SecureClusterTransports (ptr_deref (sp_ClusterFeatures (yt_Spec new)) zero_features)"
  shows "list_all (\<lambda>inst. secure_transport (effective_transport (yt_Spec new) inst)) (validated_instances new) \<and>
    list_all (\<lambda>hp. gs_HTTPSSecret hp \<noteq> None \<and> gs_DisableHTTP hp) (sp_HTTPProxies (yt_Spec new)) \<and>
    list_all (\<lambda>rp. rt_TLSRequired (gs_Transport rp) \<and> \<not> rt_TLSInsecure (gs_Transport rp) \<and> rt_TLSSecret (gs_Transport rp) \<noteq> None)
      (sp_RPCProxies (yt_Spec new))"
  using instance_transport_accepted [OF instances_valid [OF assms(1)] assms(2)] proxies_secure [OF assms]
  by (simp add: list_all_iff)

theorem accepted_transports_secure_witness:
  "secure_transport (effective_transport (yt_Spec (admitted 7)) (sp_Discovery (yt_Spec (admitted 7))))"
  using accepted_transports_secure [OF admitted_grows [unfolded update_accepted]]
  by (simp add: validated_instances_def Let_def)

text \<open>
  In an accepted update plan a class of everything or nothing stands alone, and a rolling or
  on-delete strategy only selects a known component type that supports it; a rolling update of
  several groups of data nodes has a limit of concurrency.
\<close>

theorem accepted_update_plan:
  assumes "evaluateYtsaurusValidation V (Some new) old = None" "e \<in> set (sp_UpdatePlan (yt_Spec new))"
  shows "(sel_Class e = ComponentClassNothing \<or> sel_Class e = ComponentClassEverything \<longrightarrow> sp_UpdatePlan (yt_Spec new) = [e]) \<and>
    (GetUpdateStrategyType (Some e) \<in> {ComponentUpdateModeTypeRollingUpdate, ComponentUpdateModeTypeOnDelete} \<longrightarrow>
       ref_type (sel_Component e) \<in> set LocalComponentTypes - {QueueAgentType, QueryTrackerType, YqlAgentType}) \<and>
    (GetUpdateStrategyType (Some e) = ComponentUpdateModeTypeRollingUpdate \<and> sel_Component e = \<lparr>ref_type = DataNodeType, ref_name = ''''\<rparr> \<longrightarrow>
       length (sp_DataNodes (yt_Spec new)) \<le> 1 \<or> sel_Concurrency e \<noteq> None)"
proof -
  have p: "plan_from (yt_Spec new) 0 ComponentClassUnspecified (sp_UpdatePlan (yt_Spec new)) = []"
    using accepted_parts(18) [OF assms(1)] by (simp add: validateUpdatePlan_def)
  obtain path where v: "validateUpdateModeForSelector (yt_Spec new) e path = []"
    using plan_entries_accepted(1) [OF p assms(2)] by blast
  show ?thesis
    using plan_exclusive_accepted(2) [OF p assms(2)] plan_entries_accepted(2) [OF p assms(2)] strategy_accepted [OF v]
    by (auto simp: bulkOnlyComponentTypes_def)
qed

theorem accepted_update_plan_witness:
  "\<exists>e \<in> set (sp_UpdatePlan (yt_Spec (admitted 7))). GetUpdateStrategyType (Some e) = ComponentUpdateModeTypeRollingUpdate \<and>
     ref_type (sel_Component e) \<in> set LocalComponentTypes - {QueueAgentType, QueryTrackerType, YqlAgentType}"
proof -
  define e where "e = zero_selector\<lparr>sel_Component := \<lparr>ref_type = DataNodeType, ref_name = ''''\<rparr>,
    sel_Strategy := Some \<lparr>strat_RunPreChecks = None, strat_RollingUpdate = Some (), strat_OnDelete = None\<rparr>\<rparr>"
  have e: "e \<in> set (sp_UpdatePlan (yt_Spec (admitted 7)))" "GetUpdateStrategyType (Some e) = ComponentUpdateModeTypeRollingUpdate"
    by (simp_all add: e_def admitted_def GetUpdateStrategyType_def strategy_Type_def)
  from accepted_update_plan [OF admitted_grows [unfolded update_accepted] e(1)] e show ?thesis by auto
qed



end
