(* ===== verification/Init_Job.thy ===== *)
theory Init_Job
  imports Server_Contracts
begin

text \<open>
  Initialisation jobs: \<open>InitJob\<close> of \<open>pkg/components/init_job.go\<close>, the Kubernetes job of
  \<open>pkg/resources/job.go\<close>, and secrets of \<open>pkg/resources/string_secret.go\<close>.

  An init job is a state machine over reconciliations whose memory is a condition of the cluster
  (its reason and its status), the job object and its config map.  \<open>Job_Progress\<close> shows that its
  steps refine a small abstract machine, which reaches completion.
\<close>

section \<open>Jobs and secrets\<close>

definition job_IsStatusConditionTrue :: "job managed \<Rightarrow> string \<Rightarrow> bool" where
  "job_IsStatusConditionTrue j conditionType \<longleftrightarrow> list_ex (\<lambda>c. c = (conditionType, ConditionTrue)) (jb_Conditions (o_Content (mr_old j)))"

definition job_IsComplete :: "job managed \<Rightarrow> bool" where
  "job_IsComplete j = job_IsStatusConditionTrue j ''Complete''"

definition job_IsFailed :: "job managed \<Rightarrow> bool" where
  "job_IsFailed j = job_IsStatusConditionTrue j ''Failed''"

text \<open>Times are in seconds; an unfinished job has the duration of minus one nanosecond.\<close>

definition job_Duration :: "job managed \<Rightarrow> string" where
  "job_Duration j =
    (case (jb_StartTime (o_Content (mr_old j)), jb_CompletionTime (o_Content (mr_old j))) of
       (Some start, Some completion) \<Rightarrow> duration_string (completion - start)
     | _ \<Rightarrow> ''-1ns'')"

definition zero_job :: job where
  "zero_job = \<lparr>jb_BackoffLimit = 0, jb_ActiveDeadlineSeconds = 0, jb_Image = '''', jb_Command = [], jb_ConfigMap = '''',
     jb_HostNetwork = False, jb_TemplateAnnotations = Map.empty, jb_Conditions = [], jb_Active = 0, jb_Failed = 0,
     jb_StartTime = None, jb_CompletionTime = None\<rparr>"

definition job_Build :: "labeller \<Rightarrow> job managed \<Rightarrow> job managed" where
  "job_Build l j = j\<lparr>mr_new := object_meta l (mr_name j) ''*v1.Job'' zero_job\<rparr>"

definition secret_GetValue :: "secret managed \<Rightarrow> string \<Rightarrow> string option" where
  "secret_GetValue s key =
    (case sec_Data (o_Content (mr_old s)) key of
       Some v \<Rightarrow> Some v
     | None \<Rightarrow> sec_StringData (o_Content (mr_old s)) key)"

definition secret_Build :: "labeller \<Rightarrow> (string \<rightharpoonup> string) \<Rightarrow> secret managed \<Rightarrow> secret managed" where
  "secret_Build l stringData s = s\<lparr>mr_new := object_meta l (mr_name s) ''*v1.Secret''
     \<lparr>sec_Data = Map.empty, sec_StringData = stringData\<rparr>\<rparr>"

definition secret_NeedSync :: "secret managed \<Rightarrow> string \<Rightarrow> string \<Rightarrow> bool" where
  "secret_NeedSync s key value \<longleftrightarrow>
    (if \<not> managed_Exists s then True
     else case secret_GetValue s key of
            None \<Rightarrow> True
          | Some v \<Rightarrow> value \<noteq> '''' \<and> value \<noteq> v)"

section \<open>The init job\<close>

text \<open>
  The fields of an init job: those that never change, with the address of the object (\<open>init_job\<close>), and
  those that do (\<open>init_job_state\<close>).  The scripts are generators of the config map builder.  \<open>ij_built\<close> says
  whether \<open>builtJob\<close> is set, in which case it is the new object of the managed job.
\<close>

record init_job =
  ij_id :: nat
  ij_labeller :: labeller
  ij_instanceSpec :: instance_spec
  ij_statusCondition :: string
  ij_logFilePath :: string

record init_job_state =
  ij_job :: "job managed"
  ij_configs :: config_map_builder
  ij_reason :: string
  ij_scriptFileName :: string
  ij_built :: bool

record jobs = cluster +
  k_jobs :: "nat \<Rightarrow> init_job_state"
  k_secrets :: "nat \<Rightarrow> secret managed"

type_synonym ('x, 'a) jact = "('x jobs_scheme, 'a) state"

definition get_job :: "init_job \<Rightarrow> ('x, init_job_state) jact" where
  "get_job J = reads (\<lambda>w. k_jobs w (ij_id J))"

definition upd_job :: "init_job \<Rightarrow> (init_job_state \<Rightarrow> init_job_state) \<Rightarrow> ('x, unit) jact" where
  "upd_job J f = modifies (\<lambda>w. w\<lparr>k_jobs := (k_jobs w)(ij_id J := f (k_jobs w (ij_id J)))\<rparr>)"

lemma run_job_access [simp]:
  "run_state (get_job J) w = (k_jobs w (ij_id J), w)"
  "run_state (upd_job J f) w = ((), w\<lparr>k_jobs := (k_jobs w)(ij_id J := f (k_jobs w (ij_id J)))\<rparr>)"
  by (simp_all add: get_job_def upd_job_def)

abbreviation "InitJobDefaultReason \<equiv> ''InitJob''"
abbreviation "InitJobScriptName \<equiv> ''init-job-script.sh''"
abbreviation "ConfigMountPoint \<equiv> ''/config''"

definition empty_managed :: "string \<Rightarrow> 'p \<Rightarrow> 'p managed" where
  "empty_managed name0 content = \<lparr>mr_name = name0, mr_old = object_meta zero_labeller '''' '''' content,
     mr_new = object_meta zero_labeller '''' '''' content\<rparr>"

text \<open>
  \<open>NewInitJobForYtsaurus\<close>; it panics, as the labeller does, when the component has no name
  (\<open>None\<close>).  Volumes with certificates are left out with the other volumes.
\<close>

definition NewInitJob ::
  "nat \<Rightarrow> labeller \<Rightarrow> string \<Rightarrow> string option \<Rightarrow> instance_spec \<Rightarrow> config_generator list \<Rightarrow> (init_job \<times> init_job_state) option" where
  "NewInitJob address l name0 configOverrides instanceSpec generators =
    (case (GetInitJobName l name0, GetInitJobConfigMapName l name0) of
       (Some jobName, Some configName) \<Rightarrow>
         Some (\<lparr>ij_id = address, ij_labeller = l, ij_instanceSpec = instanceSpec,
             ij_statusCondition = GetInitJobCompletedCondition l name0,
             ij_logFilePath = (case FindFirstLocation (is_Locations instanceSpec) LocationTypeInitJobLogs of
               None \<Rightarrow> '''' | Some location \<Rightarrow> loc_Path location @ ''/'' @ jobName @ ''.log'')\<rparr>,
           \<lparr>ij_job = empty_managed jobName zero_job,
             ij_configs = \<lparr>cb_labeller = l, cb_generators = generators, cb_configOverrides = configOverrides,
               cb_overridesMap = object_meta zero_labeller '''' '''' Map.empty, cb_configMap = empty_managed configName Map.empty\<rparr>,
             ij_reason = InitJobDefaultReason, ij_scriptFileName = InitJobScriptName, ij_built = False\<rparr>)
     | _ \<Rightarrow> None)"

text \<open>\<open>AddScript\<close> and \<open>AddInitJobScript\<close> register a generator of a text file.\<close>

definition AddScript :: "string \<Rightarrow> string + string list \<Rightarrow> init_job_state \<Rightarrow> init_job_state" where
  "AddScript fileName text j = j\<lparr>ij_configs := (ij_configs j)\<lparr>cb_generators := cb_generators (ij_configs j) @
     [\<lparr>cg_FileName = fileName, cg_ConfigOverridesName = '''', cg_GlobalOverridesName = '''', cg_Format = ConfigFormatText,
       cg_Generator = map_sum id (\<lambda>lines. Some (JoinTextLines lines)) text\<rparr>]\<rparr>\<rparr>"

definition AddInitJobScript :: "string \<Rightarrow> init_job_state \<Rightarrow> init_job_state" where
  "AddInitJobScript script = AddScript InitJobScriptName (Inr [script])"

abbreviation job_name :: "init_job_state \<Rightarrow> string" where
  "job_name j \<equiv> mr_name (ij_job j)"

definition init_Restart :: "'e cenv_scheme \<Rightarrow> init_job \<Rightarrow> ('x, unit) jact" where
  "init_Restart E J = modifies (RemoveStatusCondition E (ij_statusCondition J))"

definition init_Exists :: "init_job_state \<Rightarrow> bool" where
  "init_Exists j = resources_Exists [Some (managed_Exists (ij_job j)), Some (builder_Exists (ij_configs j))]"

definition init_IsCompleted :: "'e cenv_scheme \<Rightarrow> init_job \<Rightarrow> 'x jobs_scheme \<Rightarrow> bool" where
  "init_IsCompleted E J w \<longleftrightarrow> init_Exists (k_jobs w (ij_id J)) \<and> IsStatusConditionTrue E (ij_statusCondition J) w"

definition init_Fetch :: "'e cenv_scheme \<Rightarrow> init_job \<Rightarrow> ('x, go_error) jact" where
  "init_Fetch E J = resources_seq
     [Some (do {
        j \<leftarrow> get_job J;
        (r, err) \<leftarrow> managed_Fetch ka_job E (ij_job j);
        upd_job J (\<lambda>j. j\<lparr>ij_job := r\<rparr>);
        ret err
      }),
      Some (do {
        j \<leftarrow> get_job J;
        (h, err) \<leftarrow> builder_Fetch E (ij_configs j);
        upd_job J (\<lambda>j. j\<lparr>ij_configs := h\<rparr>);
        ret err
      })]"

definition script_path :: "init_job_state \<Rightarrow> string" where
  "script_path j = ConfigMountPoint @ ''/'' @ ij_scriptFileName j"

definition init_Build :: "ytsaurus_spec \<Rightarrow> init_job \<Rightarrow> init_job_state \<Rightarrow> init_job_state" where
  "init_Build spec J j =
    (if ij_built j then j
     else
       (let r = job_Build (ij_labeller J) (ij_job j);
            content = zero_job\<lparr>jb_BackoffLimit := 3, jb_ActiveDeadlineSeconds := 3600,
              jb_Image := ptr_deref (is_Image (ij_instanceSpec J)) (sp_CoreImage spec),
              jb_Command := (if ij_logFilePath J \<noteq> ''''
                then [''/bin/bash'', ''-euxc'', ''exec &> >(tee -a '' @ ij_logFilePath J @ ''); . '' @ script_path j]
                else [''/bin/bash'', ''-eux'', script_path j]),
              jb_ConfigMap := mr_name (cb_configMap (ij_configs j)),
              jb_HostNetwork := ptr_deref (is_HostNetwork (ij_instanceSpec J)) (ptr_deref (sp_HostNetwork spec) False),
              jb_TemplateAnnotations := [InitJobReasonAnnotationName \<mapsto> ij_reason j]\<rparr>
        in j\<lparr>ij_job := r\<lparr>mr_new := SetMetaDataAnnotation InitJobReasonAnnotationName (ij_reason j) ((mr_new r)\<lparr>o_Content := content\<rparr>)\<rparr>,
             ij_built := True\<rparr>))"

section \<open>Starting and synchronising\<close>

definition waiting_job :: "init_job_state \<Rightarrow> string \<Rightarrow> component_status" where
  "waiting_job j what = ComponentStatusWaitingFor (''job '' @ job_name j @ what)"

definition init_config_status :: "init_job_state \<Rightarrow> component_status" where
  "init_config_status j = waiting_job j ('' configmap '' @ mr_name (cb_configMap (ij_configs j)) @ '' for reason '' @ ij_reason j)"

text \<open>The job is created and its start recorded in the condition.\<close>

definition start_job :: "'e cenv_scheme \<Rightarrow> init_job \<Rightarrow> init_job_state \<Rightarrow> ('x, component_status \<times> go_error) jact" where
  "start_job E J j = do {
     spec \<leftarrow> reads (\<lambda>w. yt_Spec (w_object w));
     upd_job J (init_Build spec J);
     j1 \<leftarrow> get_job J;
     started \<leftarrow> managed_Sync ka_job JobRequest E (ij_job j1);
     case started of
       Some e \<Rightarrow> ret (waiting_job j ('' start for reason '' @ ij_reason j), Some e)
     | None \<Rightarrow> do {
         record_normal (ij_reason j) (''Job '' @ job_name j @ '' started'');
         set_status_condition E (ij_statusCondition J) ConditionFalse (ij_reason j) (''Job '' @ job_name j @ '' started'');
         ret (waiting_job j ('' condition '' @ ij_statusCondition J @ '' for reason '' @ ij_reason j @ '' completion''), None)
       }
   }"

text \<open>Creation of the config map, then of the job.\<close>

definition init_launch :: "'e cenv_scheme \<Rightarrow> init_job \<Rightarrow> ('x, component_status \<times> go_error) jact" where
  "init_launch E J = do {
     j \<leftarrow> get_job J;
     (h, err) \<leftarrow> builder_Build E (ij_configs j);
     upd_job J (\<lambda>j. j\<lparr>ij_configs := h\<rparr>);
     case err of
       Some e \<Rightarrow> ret (init_config_status j, Some e)
     | None \<Rightarrow> do {
         synced \<leftarrow> (if \<not> builder_Exists h \<or> getAnnotation h InitJobReasonAnnotationName \<noteq> ij_reason j
           then do {
             let h1 = setAnnotation InitJobReasonAnnotationName (ij_reason j) h;
             upd_job J (\<lambda>j. j\<lparr>ij_configs := h1\<rparr>);
             builder_Sync E h1
           } else ret None);
         case synced of
           Some e \<Rightarrow> ret (init_config_status j, Some e)
         | None \<Rightarrow> start_job E J j
       }
   }"

definition init_start :: "'e cenv_scheme \<Rightarrow> init_job \<Rightarrow> bool \<Rightarrow> bool \<Rightarrow> bool \<Rightarrow> ('x, component_status \<times> go_error) jact" where
  "init_start E J dry isStarted isRestarted = do {
     j \<leftarrow> get_job J;
     if dry then ret (waiting_job j ('' start for reason '' @ ij_reason j), None)
     else if managed_Exists (ij_job j) then do {
       err \<leftarrow> managed_Delete ka_job JobRequest E (ij_job j);
       ret (waiting_job j ('' delete for reason '' @ ij_reason j), err)
     }
     else if isRestarted \<and> builder_Exists (ij_configs j) then do {
       err \<leftarrow> managed_Delete ka_cm CmRequest E (cb_configMap (ij_configs j));
       ret (waiting_job j ('' configmap '' @ mr_name (cb_configMap (ij_configs j)) @ '' delete''), err)
     }
     else if \<not> isStarted then do {
       set_status_condition E (ij_statusCondition J) ConditionFalse (ij_reason j) (''Job '' @ job_name j @ '' starting'');
       ret (waiting_job j ('' starting for reason '' @ ij_reason j), None)
     }
     else init_launch E J
   }"

definition init_Sync :: "'e cenv_scheme \<Rightarrow> init_job \<Rightarrow> bool \<Rightarrow> ('x, component_status \<times> go_error) jact" where
  "init_Sync E J dry = do {
     j \<leftarrow> get_job J;
     condition \<leftarrow> reads (GetStatusCondition E (ij_statusCondition J));
     let isStarted = (case condition of None \<Rightarrow> False | Some c \<Rightarrow> c_Reason c = ij_reason j);
     let isCompleted = (case condition of None \<Rightarrow> False | Some c \<Rightarrow> c_Reason c = ij_reason j \<and> c_Status c = ConditionTrue);
     let isExists = init_Exists j;
     let details = '' condition '' @ ij_statusCondition J @ '' for reason '' @ ij_reason j;
     if isExists \<and> isCompleted then
       ret (ComponentStatusReadyAfter (''Job '' @ job_name j @ details @ '' completed in '' @ job_Duration (ij_job j)), None)
     else if \<not> isStarted \<or> \<not> isExists \<or> job_IsFailed (ij_job j) then init_start E J dry isStarted (condition = None)
     else if \<not> job_IsComplete (ij_job j) then do {
       let status = waiting_job j (details @ '' completion, active: '' @ show_int (jb_Active (o_Content (mr_old (ij_job j)))) @
         '', failed: '' @ show_int (jb_Failed (o_Content (mr_old (ij_job j)))));
       (if dry then ret ()
        else set_status_condition E (ij_statusCondition J) ConditionFalse (ij_reason j) (cs_Message status));
       ret (status, None)
     }
     else do {
       let message = ''Job '' @ job_name j @ '' completed in '' @ job_Duration (ij_job j);
       (if dry then ret ()
        else do {
          record_normal (ij_reason j) message;
          set_status_condition E (ij_statusCondition J) ConditionTrue (ij_reason j) message
        });
       ret (waiting_job j details, None)
     }
   }"

section \<open>Scripts\<close>

definition init_RunScript ::
  "'e cenv_scheme \<Rightarrow> init_job \<Rightarrow> bool \<Rightarrow> string \<Rightarrow> string \<Rightarrow> (component_status \<Rightarrow> ('x, component_status) jact) option \<Rightarrow>
   ('x, component_status \<times> go_error) jact" where
  "init_RunScript E J dry reason scriptFileName complete = do {
     j \<leftarrow> get_job J;
     if \<not> list_ex (\<lambda>g. cg_FileName g = scriptFileName) (cb_generators (ij_configs j))
     then let err = ''generator not found: '' @ scriptFileName in ret (ComponentStatusBlocked err, Some err)
     else do {
       upd_job J (\<lambda>j. j\<lparr>ij_reason := reason, ij_scriptFileName := scriptFileName, ij_built := False\<rparr>);
       (status, err) \<leftarrow> init_Sync E J dry;
       case complete of
         Some finish \<Rightarrow>
           if err = None \<and> IsReady status then do { status1 \<leftarrow> finish status; ret (status1, err) }
           else ret (status, err)
       | None \<Rightarrow> ret (status, err)
     }
   }"

definition init_RunUpdateScript ::
  "'e cenv_scheme \<Rightarrow> init_job \<Rightarrow> bool \<Rightarrow> update_state \<Rightarrow> string \<Rightarrow> ('x, unit) jact option \<Rightarrow>
   ('x, component_status \<times> go_error) jact" where
  "init_RunUpdateScript E J dry updateState scriptFileName complete = do {
     j \<leftarrow> get_job J;
     let updateCondition = GetUpdateStateCompleteCondition updateState;
     updateCond \<leftarrow> reads (GetUpdateStatusCondition E updateCondition);
     if updateCond = None \<and> dry
     then ret (waiting_job j ('' start for update '' @ string_of_update_state updateState), None)
     else do {
       (if updateCond = None then do {
          init_Restart E J;
          set_update_condition E updateCondition ConditionFalse ''JobStarting'' (''Job '' @ job_name j @ '' is starting'')
        } else ret ());
       init_RunScript E J dry (string_of_update_state updateState) scriptFileName (Some (\<lambda>status.
         if dry then ret (ComponentStatusWaitingFor (''update condition '' @ updateCondition @ '' after completing job''))
         else do {
           (case complete of None \<Rightarrow> ret () | Some finish \<Rightarrow> finish);
           j1 \<leftarrow> get_job J;
           let done_status = ComponentStatusReadyAfter (''Job '' @ job_name j1 @ '' for update '' @
             string_of_update_state updateState @ '' is complete in '' @ job_Duration (ij_job j1));
           modifies (LogUpdate (cs_Message done_status));
           set_update_condition E updateCondition ConditionTrue ''JobComplete'' (cs_Message done_status);
           ret done_status
         }))
     }
   }"

section \<open>Contracts\<close>

locale job_reading = yt_reading R for R :: "'x jobs_scheme \<Rightarrow> 'x jobs_scheme \<Rightarrow> bool" +
  assumes R_jobs: "R w (w\<lparr>k_jobs := f\<rparr>)"
    and R_secrets: "R w (w\<lparr>k_secrets := g\<rparr>)"
begin

lemma kept_job_access: "kept R (get_job J)" "kept R (upd_job J g)"
  unfolding get_job_def upd_job_def by (intro kept_reads preord_R kept_modifies R_jobs)+

lemma kept_init_Fetch: "kept R (init_Fetch E J)"
  unfolding init_Fetch_def by (rule kept_resources_seq[OF preord_R]) (auto intro!: yt_intros kept_job_access)

text \<open>A dry run only reads.\<close>

lemma kept_init_Sync_dry: "kept R (init_Sync E J True)"
proof -
  have "kept R (init_start E J True b c)" for b c
    unfolding init_start_def if_True by (intro yt_intros kept_job_access)
  then show ?thesis unfolding init_Sync_def if_True by (intro yt_intros kept_job_access)
qed

end

locale job_bookkeeping = job_reading R + cluster_bookkeeping R for R :: "'x jobs_scheme \<Rightarrow> 'x jobs_scheme \<Rightarrow> bool"
begin

text \<open>A relation that tolerates the condition of the job is kept by the whole job.\<close>

lemma kept_init_Sync:
  assumes "\<And>s r m. kept R (set_status_condition E (ij_statusCondition J) s r m)"
  shows "kept R (init_Sync E J dry)"
proof -
  have "kept R (init_launch E J)"
    unfolding init_launch_def start_job_def
    by (intro yt_intros kept_job_access kept_builder_Sync kept_managed_Sync kept_record assms)
  then show ?thesis
    unfolding init_Sync_def init_start_def
    by (intro yt_intros kept_job_access kept_managed_Delete kept_record assms)
qed

lemma kept_init_RunScript:
  assumes "\<And>s r m. kept R (set_status_condition E (ij_statusCondition J) s r m)"
    and "\<And>finish st. complete = Some finish \<Longrightarrow> kept R (finish st)"
  shows "kept R (init_RunScript E J dry reason script complete)"
proof (cases complete)
  case None
  show ?thesis unfolding init_RunScript_def None option.case
    by (intro yt_intros kept_job_access kept_init_Sync assms)
next
  case (Some finish)
  note finish = assms(2) [OF Some]
  show ?thesis unfolding init_RunScript_def Some option.case
    by (intro yt_intros kept_job_access kept_init_Sync assms(1) finish)
qed

lemma kept_init_RunUpdateScript:
  assumes "\<And>s r m. kept R (set_status_condition E (ij_statusCondition J) s r m)"
    and "\<And>t s r m. kept R (set_update_condition E t s r m)"
    and "kept R (init_Restart E J)"
    and "\<And>finish. complete = Some finish \<Longrightarrow> kept R finish"
  shows "kept R (init_RunUpdateScript E J dry st script complete)"
proof -
  have log: "kept R (modifies (LogUpdate m))" for m
    unfolding LogUpdate_def by (intro kept_modifies R_normal)
  have c: "kept R (case complete of None \<Rightarrow> ret () | Some finish \<Rightarrow> finish)"
    using assms(4) by (cases complete) (simp_all add: kept_return preord_R)
  have f: "kept R (f st)"
    if "Some (\<lambda>status. if dry then ret (w status) else do { (case complete of None \<Rightarrow> ret () | Some finish \<Rightarrow> finish); j1 \<leftarrow> get_job J; g j1 }) = Some f"
      "\<And>j. kept R (g j)" for w f g st
    using that(1) by (auto intro!: yt_intros c kept_job_access that(2))
  show ?thesis
    unfolding init_RunUpdateScript_def
    by (intro yt_intros kept_job_access kept_init_RunScript assms(1-3); (erule f)?; intro yt_intros log assms(1-3))
qed

end

interpretation jq: job_bookkeeping keeps
  by unfold_locales (simp_all add: keeps_def same_control_def GetClusterState_def GetUpdateState_def
      GetUpdatingComponents_def conds_wf_def status_of_cond_def)

interpretation jr: job_reading no_write
  by unfold_locales (simp_all add: no_write_def)

lemma NewInitJob_condition:
  "NewInitJob a l n ov inst gens = Some (J, s) \<Longrightarrow> ij_statusCondition J \<noteq> ''ReadyToWork''"
proof -
  have "xs @ ''InitJobCompleted'' \<noteq> ''ReadyToWork''" for xs
  proof
    assume "xs @ ''InitJobCompleted'' = ''ReadyToWork''"
    from arg_cong [OF this, of last] show False by simp
  qed
  then show "NewInitJob a l n ov inst gens = Some (J, s) \<Longrightarrow> ij_statusCondition J \<noteq> ''ReadyToWork''"
    by (auto simp: NewInitJob_def GetInitJobCompletedCondition_def GetCondition_def split: option.splits simp flip: append_assoc)
qed

lemma keeps_RemoveStatusCondition: "meta_laws E \<Longrightarrow> t \<noteq> ''ReadyToWork'' \<Longrightarrow> keeps w (RemoveStatusCondition E t w)"
  by (auto simp: keeps_def same_control_def GetClusterState_def GetUpdateState_def GetUpdatingComponents_def
      status_of_RemoveStatusCondition, simp add: RemoveStatusCondition_def)

lemma quiet_init_Restart: "meta_laws E \<Longrightarrow> ij_statusCondition J \<noteq> ''ReadyToWork'' \<Longrightarrow> quiet (init_Restart E J)"
  unfolding init_Restart_def by (intro kept_modifies keeps_RemoveStatusCondition)

lemma quiet_init:
  assumes "meta_laws E" "ij_statusCondition J \<noteq> ''ReadyToWork''"
  shows "quiet (init_Sync E J dry)"
    and "(\<And>finish. complete = Some finish \<Longrightarrow> quiet finish) \<Longrightarrow> quiet (init_RunUpdateScript E J dry st script complete)"
proof -
  note conditions = quiet_set_status_condition [OF assms] quiet_set_update_condition [OF assms(1)] quiet_init_Restart [OF assms]
  show "quiet (init_Sync E J dry)" by (intro jq.kept_init_Sync conditions)
  show "quiet (init_RunUpdateScript E J dry st script complete)" if "\<And>finish. complete = Some finish \<Longrightarrow> quiet finish"
    using that by (intro jq.kept_init_RunUpdateScript conditions)
qed

end
