(* ===== verification/Job_Progress.thy ===== *)
theory Job_Progress
  imports Init_Job
begin

text \<open>
  Progress of init jobs.  Reconciliations against a cluster that stores what it is told to store take an
  init job through an abstract machine of three components: the recorded start, the job, and the
  config map.  From every state the machine completes.
\<close>

section \<open>The abstract machine\<close>

datatype job_outcome = JobRunning | JobFailed | JobComplete

record job_view =
  jv_condition :: "(string \<times> bool) option"
  jv_job :: "job_outcome option"
  jv_config :: bool

definition job_started :: "string \<Rightarrow> job_view \<Rightarrow> bool" where
  "job_started reason v \<longleftrightarrow> map_option fst (jv_condition v) = Some reason"

definition job_finished :: "string \<Rightarrow> job_view \<Rightarrow> bool" where
  "job_finished reason v \<longleftrightarrow> jv_condition v = Some (reason, True) \<and> jv_job v \<noteq> None \<and> jv_config v"

definition job_next :: "string \<Rightarrow> job_view \<Rightarrow> job_view" where
  "job_next reason v =
    (if job_finished reason v then v
     else if \<not> job_started reason v \<or> jv_job v = None \<or> \<not> jv_config v \<or> jv_job v = Some JobFailed then
       if jv_job v \<noteq> None then v\<lparr>jv_job := None\<rparr>
       else if jv_condition v = None \<and> jv_config v then v\<lparr>jv_config := False\<rparr>
       else if \<not> job_started reason v then v\<lparr>jv_condition := Some (reason, False)\<rparr>
       else v\<lparr>jv_condition := Some (reason, False), jv_job := Some JobRunning, jv_config := True\<rparr>
     else v\<lparr>jv_condition := Some (reason, jv_job v = Some JobComplete)\<rparr>)"

text \<open>Between two reconciliations a running job completes.\<close>

definition job_runs :: "job_view \<Rightarrow> job_view" where
  "job_runs v = (if jv_job v = Some JobRunning then v\<lparr>jv_job := Some JobComplete\<rparr> else v)"

definition job_rank :: "string \<Rightarrow> job_view \<Rightarrow> nat" where
  "job_rank reason v =
    (if job_finished reason v then 0
     else if job_started reason v then
       (if jv_job v = Some JobComplete \<and> jv_config v then 1
        else if jv_job v = None \<or> jv_job v = Some JobRunning \<and> jv_config v then 2 else 3)
     else if jv_job v \<noteq> None then 5 else if jv_condition v = None \<and> jv_config v then 4 else 3)"

lemma job_rank_decreases: "job_rank reason (job_runs (job_next reason v)) \<le> job_rank reason v - 1"
proof -
  have o: "j = None \<or> j = Some JobRunning \<or> j = Some JobFailed \<or> j = Some JobComplete" for j
    by (metis job_outcome.exhaust option.exhaust)
  obtain c j b where v: "v = \<lparr>jv_condition = c, jv_job = j, jv_config = b\<rparr>" by (cases v)
  consider "c = None" | x where "c = Some (reason, x)" | r x where "c = Some (r, x)" "r \<noteq> reason" by (cases c) auto
  then show ?thesis
    by cases (insert o [of j], auto simp: v job_rank_def job_next_def job_runs_def job_finished_def job_started_def)
qed

lemma job_machine_completes: "job_finished reason (((job_runs \<circ> job_next reason) ^^ 5) v)"
proof -
  have "job_rank reason (((job_runs \<circ> job_next reason) ^^ n) v) \<le> 5 - n" for n
  proof (induction n)
    case 0
    show ?case by (simp add: job_rank_def)
  next
    case (Suc n)
    have "job_rank reason (((job_runs \<circ> job_next reason) ^^ Suc n) v) \<le> job_rank reason (((job_runs \<circ> job_next reason) ^^ n) v) - 1"
      using job_rank_decreases by simp
    with Suc show ?case by linarith
  qed
  from this [of 5] have "job_rank reason (((job_runs \<circ> job_next reason) ^^ 5) v) = 0" by simp
  then show ?thesis by (simp add: job_rank_def split: if_splits)
qed

section \<open>A cluster that stores objects\<close>

record job_store =
  st_job :: "job k8s_object option"
  st_config :: "config_map k8s_object option"

text \<open>A client that finds the stored object and accepts every request.\<close>

definition serves :: "'p object_client \<Rightarrow> 'p k8s_object option \<Rightarrow> bool" where
  "serves C stored \<longleftrightarrow>
     (\<forall>name0. oc_Get C name0 = (case stored of Some obj \<Rightarrow> Inl obj | None \<Rightarrow> Inr NotFoundError)) \<and>
     (\<forall>obj. \<exists>owned. oc_SetControllerReference C obj = (owned, None) \<and> o_Content owned = o_Content obj) \<and>
     (\<forall>obj. oc_Create C obj = None \<and> oc_Update C obj = None \<and> oc_Delete C obj = None)"

text \<open>What a request does to the stored objects; a new job has not finished.\<close>

definition stored :: "'p k8s_object \<Rightarrow> 'p k8s_object" where
  "stored obj = obj\<lparr>o_ResourceVersion := ''1''\<rparr>"

fun store_request :: "kube_request \<Rightarrow> job_store \<Rightarrow> job_store" where
  "store_request (JobRequest (k8s_request.CreateObject obj)) s = s\<lparr>st_job := Some (stored obj)\<rparr>"
| "store_request (JobRequest (DeleteRequest _)) s = s\<lparr>st_job := None\<rparr>"
| "store_request (CmRequest (k8s_request.CreateObject obj)) s = s\<lparr>st_config := Some (stored obj)\<rparr>"
| "store_request (CmRequest (UpdateObject obj)) s = s\<lparr>st_config := Some (stored obj)\<rparr>"
| "store_request (CmRequest (DeleteRequest _)) s = s\<lparr>st_config := None\<rparr>"
| "store_request _ s = s"

definition complete_job :: "job k8s_object \<Rightarrow> job k8s_object" where
  "complete_job obj = obj\<lparr>o_Content := (o_Content obj)\<lparr>jb_Conditions := [(''Complete'', ConditionTrue)]\<rparr>\<rparr>"

definition outcome_of :: "job k8s_object \<Rightarrow> job_outcome" where
  "outcome_of obj =
    (if (''Failed'', ConditionTrue) \<in> set (jb_Conditions (o_Content obj)) then JobFailed
     else if (''Complete'', ConditionTrue) \<in> set (jb_Conditions (o_Content obj)) then JobComplete
     else JobRunning)"

text \<open>The condition that the job records.\<close>

definition condition_of :: "init_job \<Rightarrow> 'x jobs_scheme \<Rightarrow> (string \<times> bool) option" where
  "condition_of J w = map_option (\<lambda>c. (c_Reason c, c_Status c = ConditionTrue))
     (cond_find (GetStatusConditions (w_object w)) (ij_statusCondition J))"

definition view_of :: "init_job \<Rightarrow> 'x jobs_scheme \<Rightarrow> job_store \<Rightarrow> job_view" where
  "view_of J w s = \<lparr>jv_condition = condition_of J w, jv_job = map_option outcome_of (st_job s), jv_config = (st_config s \<noteq> None)\<rparr>"

text \<open>One reconciliation: the job is fetched and synchronised, and the cluster executes the requests.\<close>

definition reconcile_job :: "'e cenv_scheme \<Rightarrow> init_job \<Rightarrow> ('x, component_status \<times> go_error) jact" where
  "reconcile_job E J = do { _ \<leftarrow> init_Fetch E J; init_Sync E J False }"

definition new_requests :: "'x kube_scheme \<Rightarrow> 'x kube_scheme \<Rightarrow> kube_request list" where
  "new_requests w w' = drop (length (k_requests w)) (k_requests w')"

definition job_cycle :: "(job_store \<Rightarrow> 'e cenv_scheme) \<Rightarrow> init_job \<Rightarrow> 'x jobs_scheme \<times> job_store \<Rightarrow> 'x jobs_scheme \<times> job_store" where
  "job_cycle Es J = (\<lambda>(w, s).
     let w' = snd (run_state (reconcile_job (Es s) J) w); s' = fold store_request (new_requests w w') s
     in (w', s'\<lparr>st_job := map_option (\<lambda>obj. if outcome_of obj = JobRunning then complete_job obj else obj) (st_job s')\<rparr>))"

text \<open>
  The cluster cooperates: it serves its objects, and the configuration of the job can be generated; for
  simplicity there are no overrides.
\<close>

definition cooperates :: "'e cenv_scheme \<Rightarrow> job_store \<Rightarrow> bool" where
  "cooperates E s \<longleftrightarrow> meta_laws E \<and>
     (\<forall>n. serves (ka_job (e_Kube E n)) (st_job s) \<and> serves (ka_cm (e_Kube E n)) (st_config s)) \<and>
     (\<forall>d. \<exists>h. cc_Hash (e_Codec E) d = Inr h) \<and> (\<forall>f a b. \<exists>d. cc_Diff (e_Codec E) f a b = Inr d)"

text \<open>Names are set, configurations are generated, and a built job has not run.\<close>

definition generates :: "config_map_builder \<Rightarrow> bool" where
  "generates h \<longleftrightarrow> o_ResourceVersion (cb_overridesMap h) = '''' \<and> distinct (map cg_FileName (cb_generators h)) \<and>
     (\<forall>d \<in> set (cb_generators h). cg_Format d \<in> {ConfigFormatText, ConfigFormatYson} \<and> (\<exists>c. cg_Generator d = Inr c))"

definition job_wf :: "init_job_state \<Rightarrow> bool" where
  "job_wf j \<longleftrightarrow> job_name j \<noteq> '''' \<and> mr_name (cb_configMap (ij_configs j)) \<noteq> '''' \<and>
     (ij_built j \<longrightarrow> o_Name (mr_new (ij_job j)) \<noteq> '''' \<and> jb_Conditions (o_Content (mr_new (ij_job j))) = []) \<and>
     cb_configOverrides (ij_configs j) = None \<and> generates (ij_configs j)"

definition job_ready :: "init_job \<Rightarrow> string \<Rightarrow> 'x jobs_scheme \<Rightarrow> bool" where
  "job_ready J reason w \<longleftrightarrow> conds_wf w \<and> ij_reason (k_jobs w (ij_id J)) = reason \<and> job_wf (k_jobs w (ij_id J))"

definition store_wf :: "job_store \<Rightarrow> bool" where
  "store_wf s \<longleftrightarrow> (\<forall>obj. st_job s = Some obj \<longrightarrow> o_ResourceVersion obj \<noteq> '''') \<and>
     (\<forall>obj. st_config s = Some obj \<longrightarrow> o_ResourceVersion obj \<noteq> '''')"

section \<open>Runs against a serving cluster\<close>

definition same_jobs :: "'x jobs_scheme \<Rightarrow> 'x jobs_scheme \<Rightarrow> bool" where
  "same_jobs w w' \<longleftrightarrow> w_object w' = w_object w \<and> k_jobs w' = k_jobs w"

lemma preord_same_jobs: "preord same_jobs"
  by (auto simp: preord_def reflp_def transp_def same_jobs_def)

interpretation sj: bookkeeping same_jobs
  by unfold_locales (simp_all add: preord_same_jobs, simp_all add: same_jobs_def RecordNormal_def RecordWarning_def)

lemma run_managed_Fetch:
  assumes "serves (cl (e_Kube E (k_calls w))) found"
  shows "run_state (managed_Fetch cl E r) w =
    ((r\<lparr>mr_old := (case found of Some obj \<Rightarrow> obj | None \<Rightarrow> (mr_old r)\<lparr>o_ResourceVersion := ''''\<rparr>)\<rparr>, None), w\<lparr>k_calls := Suc (k_calls w)\<rparr>)"
  using assms
  by (auto simp: managed_Fetch_def api_call_def FetchObject_def serves_def go_error_of_def split: option.splits)

lemma run_managed_Sync:
  assumes "serves (cl (e_Kube E (k_calls w))) found" "o_Name (mr_new r) \<noteq> ''''"
  shows "\<exists>obj. o_Content obj = o_Content (mr_new r) \<and> fst (run_state (managed_Sync cl rq E r) w) = None \<and>
    k_requests (snd (run_state (managed_Sync cl rq E r) w)) = k_requests w @
      [rq (if managed_Exists r then UpdateObject obj else k8s_request.CreateObject obj)]"
proof -
  let ?C = "cl (e_Kube E (k_calls w))"
  have own: "\<exists>owned. oc_SetControllerReference ?C obj = (owned, None) \<and> o_Content owned = o_Content obj" for obj
    using assms(1) by (simp add: serves_def)
  have ok: "oc_Create ?C obj = None" "oc_Update ?C obj = None" for obj
    using assms(1) by (simp_all add: serves_def)
  have c: "\<exists>owned w1. o_Content owned = o_Content obj \<and> k_requests w1 = k_requests v \<and>
      createAndReferenceObject ?C obj v = (w1, [k8s_request.CreateObject owned], None)" for obj and v :: "'c kube_scheme"
    using own [of obj] by (auto simp: createAndReferenceObject_def ok)
  have u: "\<exists>owned w1. o_Content owned = o_Content obj \<and> k_requests w1 = k_requests v \<and>
      updateObject ?C obj v = (w1, [UpdateObject owned], None)" for obj and v :: "'c kube_scheme"
    using own [of obj] by (auto simp: updateObject_def ok)
  have "\<exists>obj w1. o_Content obj = o_Content (mr_new r) \<and> k_requests w1 = k_requests v \<and>
      SyncObject ?C (mr_old r) (mr_new r) v =
        (w1, [if managed_Exists r then UpdateObject obj else k8s_request.CreateObject obj], None)" for v :: "'c kube_scheme"
    using assms(2) c [of "(mr_new r)\<lparr>o_Annotations := _\<rparr>"]
      u [of "(mr_new r)\<lparr>o_Annotations := _, o_ResourceVersion := _, o_Finalizers := _\<rparr>"]
    by (simp add: SyncObject_def Let_def managed_Exists_def)
  from this [of "w\<lparr>k_calls := Suc (k_calls w)\<rparr>"] show ?thesis
    by (auto simp: managed_Sync_def api_call_def add_requests_def)
qed

lemma run_managed_Delete:
  assumes "serves (cl (e_Kube E (k_calls w))) found"
  shows "fst (run_state (managed_Delete cl rq E r) w) = None"
    "k_requests (snd (run_state (managed_Delete cl rq E r) w)) = k_requests w @ [rq (DeleteRequest (mr_old r))]"
  using assms by (auto simp: managed_Delete_def api_call_def add_requests_def DeleteObject_def serves_def go_error_of_def)

lemma generated_value: "generates h \<Longrightarrow> d \<in> set (cb_generators h) \<Longrightarrow> \<exists>c. config_value E h d = Inr c"
  by (force simp: generates_def config_value_def convert_config_def Let_def)

lemma build_loop_ok:
  assumes "\<And>d. d \<in> set gs \<Longrightarrow> \<exists>c. config_value E h d = Inr c" "\<And>d. d \<in> set gs \<Longrightarrow> data (cg_FileName d) = None"
    "distinct (map cg_FileName gs)"
  shows "\<exists>data'. fst (run_state (build_loop E h gs data) w) = (data', None)"
  using assms
proof (induction gs arbitrary: data w)
  case (Cons d gs)
  obtain w1 where g: "run_state (getConfig E h d) w = (config_value E h d, w1)" using run_getConfig by blast
  obtain c where c: "config_value E h d = Inr c" using Cons.prems(1) by fastforce
  have "\<exists>data'. fst (run_state (build_loop E h gs (case c of None \<Rightarrow> data | Some b \<Rightarrow> data(cg_FileName d \<mapsto> b))) w1) = (data', None)"
  proof (rule Cons.IH)
    show "(case c of None \<Rightarrow> data | Some b \<Rightarrow> data(cg_FileName d \<mapsto> b)) (cg_FileName x) = None" if "x \<in> set gs" for x
    proof -
      have "cg_FileName x \<noteq> cg_FileName d" using that Cons.prems(3) by (metis distinct.simps(2) image_eqI list.set_map list.simps(9))
      with that Cons.prems(2) [of x] show ?thesis by (cases c) simp_all
    qed
  qed (use Cons.prems in auto)
  then show ?case using g c Cons.prems(2) by simp
qed simp

lemma builder_Build_ok:
  assumes "generates h" "\<And>d. \<exists>x. cc_Hash (e_Codec E) d = Inr x"
  shows "\<exists>cm. fst (run_state (builder_Build E h) w) = (h\<lparr>cb_configMap := (cb_configMap h)\<lparr>mr_new := cm\<rparr>\<rparr>, None) \<and>
    o_Name cm = mr_name (cb_configMap h)"
proof -
  have "\<exists>data'. fst (run_state (build_loop E h (cb_generators h) Map.empty) w) = (data', None)"
    using assms(1) generated_value by (intro build_loop_ok) (auto simp: generates_def)
  then obtain data' w1 where l: "run_state (build_loop E h (cb_generators h) Map.empty) w = ((data', None), w1)"
    by (metis prod.collapse)
  obtain x where "cc_Hash (e_Codec E) data' = Inr x" using assms(2) by blast
  then show ?thesis using l
    by (auto simp: builder_Build_def Let_def SetMetaDataAnnotation_def object_meta_def split: option.splits)
qed

lemma needReload_ok:
  assumes "\<And>d. d \<in> set gs \<Longrightarrow> \<exists>c. config_value E h d = Inr c" "\<And>f a b. \<exists>d. cc_Diff (e_Codec E) f a b = Inr d"
  shows "case fst (run_state (need_reload_loop E h gs) w) of None \<Rightarrow> True | Some (st, err) \<Rightarrow> err = None"
  using assms(1)
proof (induction gs arbitrary: w)
  case (Cons d gs)
  obtain w1 where g: "run_state (getConfig E h d) w = (config_value E h d, w1)" using run_getConfig by blast
  obtain c where c: "config_value E h d = Inr c" using Cons.prems by fastforce
  let ?cur = "getCurrentConfigValue h (cg_FileName d)"
  obtain df where df: "cc_Diff (e_Codec E) (cg_FileName d) (bytes_of ?cur) (bytes_of c) = Inr df" using assms(2) by blast
  have IH: "case fst (run_state (need_reload_loop E h gs) w1) of None \<Rightarrow> True | Some (st, err) \<Rightarrow> err = None"
    using Cons.prems by (intro Cons.IH) simp
  consider "?cur = None" "c \<noteq> None" | "\<not> (?cur = None \<and> c \<noteq> None)" "bytes_of ?cur \<noteq> bytes_of c"
    | "\<not> (?cur = None \<and> c \<noteq> None)" "bytes_of ?cur = bytes_of c" by argo
  then show ?case
  proof cases
    case 1 then show ?thesis using g c by (simp add: Let_def)
  next
    case 2 then show ?thesis using g c df by (simp only: need_reload_loop.simps run_state_bind Let_def) (simp add: df)
  next
    case 3 then show ?thesis using g c IH by (simp only: need_reload_loop.simps run_state_bind Let_def) simp
  qed
qed simp

lemma builder_Sync_ok:
  assumes "generates h" "\<And>f a b. \<exists>d. cc_Diff (e_Codec E) f a b = Inr d" "o_Name (mr_new (cb_configMap h)) \<noteq> ''''"
    and "\<And>n. serves (ka_cm (e_Kube E n)) found"
  shows "\<exists>obj reqs. fst (run_state (builder_Sync E h) w) = None \<and> k_requests (snd (run_state (builder_Sync E h) w)) = k_requests w @ reqs \<and>
    (if builder_Exists h then reqs = [] \<or> reqs = [CmRequest (UpdateObject obj)] else reqs = [CmRequest (k8s_request.CreateObject obj)])"
proof -
  obtain st err w1 where n: "run_state (needReload E h) w = ((st, err), w1)" by (metis surj_pair)
  have "err = None"
    using needReload_ok [of "cb_generators h" E h w] generated_value [OF assms(1)] assms(2) n
    by (auto simp: needReload_def run_or_else split: prod.splits option.splits)
  moreover have "k_requests w1 = k_requests w" using keptD_eq [OF rq.kept_needReload n] by (simp add: no_request_def)
  moreover note run_managed_Sync [of ka_cm E w1 found "cb_configMap h" CmRequest, OF assms(4,3)]
  ultimately show ?thesis
    using n by (cases "builder_Exists h") (auto simp: builder_Sync_def builder_Exists_def)
qed

section \<open>Refinement\<close>

text \<open>The object of the job after it has been fetched.\<close>

definition fetched :: "'p managed \<Rightarrow> 'p k8s_object option \<Rightarrow> 'p managed" where
  "fetched r found = r\<lparr>mr_old := (case found of Some obj \<Rightarrow> obj | None \<Rightarrow> (mr_old r)\<lparr>o_ResourceVersion := ''''\<rparr>)\<rparr>"

definition fetched_job :: "job_store \<Rightarrow> init_job_state \<Rightarrow> init_job_state" where
  "fetched_job s j = j\<lparr>ij_job := fetched (ij_job j) (st_job s),
     ij_configs := (ij_configs j)\<lparr>cb_configMap := fetched (cb_configMap (ij_configs j)) (st_config s)\<rparr>\<rparr>"

lemma run_init_Fetch:
  assumes "cooperates E s" "cb_configOverrides (ij_configs (k_jobs w (ij_id J))) = None"
  shows "\<exists>w1. run_state (init_Fetch E J) w = (None, w1) \<and> w_object w1 = w_object w \<and> k_requests w1 = k_requests w \<and>
    k_jobs w1 = (k_jobs w)(ij_id J := fetched_job s (k_jobs w (ij_id J)))"
proof -
  have f: "serves (ka_job (e_Kube E n)) (st_job s)" "serves (ka_cm (e_Kube E n)) (st_config s)" for n
    using assms(1) by (simp_all add: cooperates_def)
  show ?thesis
    using assms(2)
    by (simp add: init_Fetch_def run_managed_Fetch [where cl = ka_job and E = E, OF f(1)] builder_Fetch_def run_managed_Fetch [where cl = ka_cm and E = E, OF f(2)] fetched_def fetched_job_def)
qed

lemma fetched_Exists: "store_wf s \<Longrightarrow> managed_Exists (fetched r (st_job s)) \<longleftrightarrow> st_job s \<noteq> None"
  "store_wf s \<Longrightarrow> managed_Exists (fetched r' (st_config s)) \<longleftrightarrow> st_config s \<noteq> None"
  by (auto simp: store_wf_def managed_Exists_def fetched_def split: option.splits)

lemma outcome_of_stored [simp]: "outcome_of (stored obj) = outcome_of obj" "outcome_of (complete_job obj) = JobComplete"
  "o_ResourceVersion (complete_job obj) = o_ResourceVersion obj"
  by (simp_all add: outcome_of_def stored_def complete_job_def)

lemma condition_of_Set:
  assumes "meta_laws E" "conds_wf w"
  shows "condition_of J (SetStatusCondition E (mkcond (ij_statusCondition J) st r m) w) = Some (r, st = ConditionTrue)"
proof -
  let ?c = "(mkcond (ij_statusCondition J) st r m)\<lparr>c_ObservedGeneration := yt_Generation (w_object w)\<rparr>"
  obtain time where m: "fst (m_Set E (GetStatusConditions (w_object w)) ?c) = cond_put (GetStatusConditions (w_object w)) (?c\<lparr>c_LastTransitionTime := time\<rparr>)"
    using meta_set [OF assms(1)] .
  have "cond_wf (cond_put (GetStatusConditions (w_object w)) (?c\<lparr>c_LastTransitionTime := time\<rparr>))"
    using assms by (metis conds_wf_def meta_set_wf m)
  then show ?thesis
    by (simp add: condition_of_def SetStatusCondition_def Let_def m cond_find_sort cond_find_put)
qed

lemma conds_wf_object: "w_object w' = w_object w \<Longrightarrow> conds_wf w' \<longleftrightarrow> conds_wf w"
  by (simp add: conds_wf_def)

lemma frame_Set [simp]: "k_jobs (SetStatusCondition E c w) = k_jobs w" "k_jobs (RecordNormal r m w) = k_jobs w"
  "k_requests (SetStatusCondition E c w) = k_requests w"
  by (simp_all add: SetStatusCondition_def RecordNormal_def Let_def)

lemma job_wf_init_Build:
  assumes "job_wf j"
  shows "job_wf (init_Build spec J j)" "ij_built (init_Build spec J j)" "ij_reason (init_Build spec J j) = ij_reason j"
    "managed_Exists (ij_job (init_Build spec J j)) = managed_Exists (ij_job j)"
  using assms
  by (auto simp: job_wf_def init_Build_def Let_def job_Build_def object_meta_def SetMetaDataAnnotation_def zero_job_def managed_Exists_def)

lemma run_start_job:
  assumes co: "cooperates E s" and ready: "job_ready J reason w" and new: "\<not> managed_Exists (ij_job (k_jobs w (ij_id J)))"
    and j: "ij_reason j = reason"
  shows "\<exists>obj. snd (fst (run_state (start_job E J j) w)) = None \<and> job_ready J reason (snd (run_state (start_job E J j) w)) \<and>
    condition_of J (snd (run_state (start_job E J j) w)) = Some (reason, False) \<and>
    k_requests (snd (run_state (start_job E J j) w)) = k_requests w @ [JobRequest (k8s_request.CreateObject obj)] \<and> outcome_of obj = JobRunning"
proof -
  let ?j = "init_Build (yt_Spec (w_object w)) J (k_jobs w (ij_id J))"
  let ?w1 = "w\<lparr>k_jobs := (k_jobs w)(ij_id J := ?j)\<rparr>"
  note built = job_wf_init_Build [of "k_jobs w (ij_id J)" "yt_Spec (w_object w)" J]
  have n: "o_Name (mr_new (ij_job ?j)) \<noteq> ''''" "jb_Conditions (o_Content (mr_new (ij_job ?j))) = []" "\<not> managed_Exists (ij_job ?j)"
    using built ready new by (auto simp: job_ready_def job_wf_def)
  have "serves (ka_job (e_Kube E (k_calls ?w1))) (st_job s)" using co by (simp add: cooperates_def)
  from run_managed_Sync [where cl = ka_job and w = ?w1 and rq = JobRequest, OF this n(1)] n(3) obtain obj w2 where
    o: "o_Content obj = o_Content (mr_new (ij_job ?j))" "run_state (managed_Sync ka_job JobRequest E (ij_job ?j)) ?w1 = (None, w2)"
      "k_requests w2 = k_requests w @ [JobRequest (k8s_request.CreateObject obj)]"
    by (auto simp: prod_eq_iff)
  have w2: "w_object w2 = w_object w" "k_jobs w2 = (k_jobs w)(ij_id J := ?j)"
    using keptD_eq [OF sj.kept_managed_Sync o(2)] by (simp_all add: same_jobs_def)
  have E: "meta_laws E" using co by (simp add: cooperates_def)
  have wf: "conds_wf (RecordNormal r m w2)" for r m
    using w2(1) ready by (simp add: conds_wf_def job_ready_def)
  then have "job_ready J reason (SetStatusCondition E c (RecordNormal r m w2))" for c r m
    using E w2(2) built ready by (simp add: job_ready_def)
  moreover have "outcome_of obj = JobRunning" using o(1) n(2) by (simp add: outcome_of_def)
  ultimately show ?thesis
    using o(2,3) j E wf by (auto simp: start_job_def condition_of_Set)
qed

lemma run_init_launch:
  assumes co: "cooperates E s" and ready: "job_ready J reason w" and j: "k_jobs w (ij_id J) = j"
    and new: "\<not> managed_Exists (ij_job j)" and conf: "builder_Exists (ij_configs j) \<longleftrightarrow> st_config s \<noteq> None"
  shows "\<exists>reqs. snd (fst (run_state (init_launch E J) w)) = None \<and> job_ready J reason (snd (run_state (init_launch E J) w)) \<and>
    k_requests (snd (run_state (init_launch E J) w)) = k_requests w @ reqs \<and>
    view_of J (snd (run_state (init_launch E J) w)) (fold store_request reqs s) =
      \<lparr>jv_condition = Some (reason, False), jv_job = Some JobRunning, jv_config = True\<rparr>"
proof -
  have hash: "\<And>d. \<exists>x. cc_Hash (e_Codec E) d = Inr x" and diff: "\<And>f a b. \<exists>d. cc_Diff (e_Codec E) f a b = Inr d"
    and f: "\<And>n. serves (ka_cm (e_Kube E n)) (st_config s)"
    using co by (simp_all add: cooperates_def)
  have g: "generates (ij_configs j)" "mr_name (cb_configMap (ij_configs j)) \<noteq> ''''" "ij_reason j = reason"
    using ready j by (simp_all add: job_ready_def job_wf_def)
  obtain cm w1 where b: "run_state (builder_Build E (ij_configs j)) w =
      (((ij_configs j)\<lparr>cb_configMap := (cb_configMap (ij_configs j))\<lparr>mr_new := cm\<rparr>\<rparr>, None), w1)" "o_Name cm = mr_name (cb_configMap (ij_configs j))"
    using builder_Build_ok [OF g(1) hash, of w] by (metis prod.collapse)
  define h where "h = (ij_configs j)\<lparr>cb_configMap := (cb_configMap (ij_configs j))\<lparr>mr_new := cm\<rparr>\<rparr>"
  have w1: "w_object w1 = w_object w" "k_jobs w1 = k_jobs w" "k_requests w1 = k_requests w"
    using keptD_eq [OF sj.kept_builder_Build b(1)] keptD_eq [OF rq.kept_builder_Build b(1)] by (simp_all add: same_jobs_def no_request_def)
  define annotated where "annotated \<longleftrightarrow> builder_Exists h \<and> getAnnotation h InitJobReasonAnnotationName = ij_reason j"
  define h1 where "h1 = (if annotated then h else setAnnotation InitJobReasonAnnotationName (ij_reason j) h)"
  define w2 where "w2 = w1\<lparr>k_jobs := (k_jobs w1)(ij_id J := j\<lparr>ij_configs := h1\<rparr>)\<rparr>"
  have h1: "generates h1" "o_Name (mr_new (cb_configMap h1)) \<noteq> ''''" "builder_Exists h1 = builder_Exists (ij_configs j)"
    using g(1,2) b(2) by (simp_all add: h1_def h_def setAnnotation_def SetMetaDataAnnotation_def generates_def builder_Exists_def managed_Exists_def)
  obtain obj reqs w3 where sy: "run_state (if annotated then ret None else builder_Sync E h1) w2 = (None, w3)"
      "k_requests w3 = k_requests w2 @ reqs"
      "if builder_Exists h1 then reqs = [] \<or> reqs = [CmRequest (UpdateObject obj)] else reqs = [CmRequest (k8s_request.CreateObject obj)]"
    using builder_Sync_ok [OF h1(1) diff h1(2) f, of w2] h1(3)
    by (cases annotated) (auto simp: annotated_def h_def builder_Exists_def managed_Exists_def prod_eq_iff)
  have "kept same_jobs (if annotated then ret None else builder_Sync E h1)"
    by (intro kept_intros preord_same_jobs sj.kept_builder_Sync)
  from keptD_eq [OF this sy(1)] have w3: "w_object w3 = w_object w" "k_jobs w3 (ij_id J) = j\<lparr>ij_configs := h1\<rparr>"
    using w1 by (simp_all add: same_jobs_def w2_def)
  have collapse: "w1\<lparr>k_jobs := (k_jobs w1)(ij_id J := x, ij_id J := y)\<rparr> = w1\<lparr>k_jobs := (k_jobs w1)(ij_id J := y)\<rparr>" for x y by simp
  have "(\<not> builder_Exists h \<or> getAnnotation h InitJobReasonAnnotationName \<noteq> ij_reason j) = (\<not> annotated)"
    by (simp add: annotated_def)
  note launch = init_launch_def run_state_bind run_job_access j b(1) [folded h_def] case_prod_conv option.case Let_def this
  have l: "run_state (init_launch E J) w = run_state (start_job E J j) w3"
  proof (cases annotated)
    case True
    then have "w3 = w1\<lparr>k_jobs := (k_jobs w1)(ij_id J := j\<lparr>ij_configs := h\<rparr>)\<rparr>" using sy(1) by (simp add: h1_def w2_def)
    then show ?thesis unfolding launch by (simp add: True w1(2) j)
  next
    case False
    then have "run_state (builder_Sync E (setAnnotation InitJobReasonAnnotationName (ij_reason j) h))
        (w1\<lparr>k_jobs := (k_jobs w1)(ij_id J := j\<lparr>ij_configs := setAnnotation InitJobReasonAnnotationName (ij_reason j) h\<rparr>)\<rparr>) = (None, w3)"
      using sy(1) by (simp add: h1_def w2_def)
    then show ?thesis unfolding launch by (simp add: False w1(2) j)
  qed
  have r3: "job_ready J reason w3" "\<not> managed_Exists (ij_job (k_jobs w3 (ij_id J)))"
    using ready j w3 new h1(1)
    by (simp_all add: job_ready_def conds_wf_def job_wf_def h1_def h_def setAnnotation_def)
  have "fold store_request reqs s = s\<lparr>st_config := st_config (fold store_request reqs s)\<rparr>" "st_config (fold store_request reqs s) \<noteq> None"
    using sy(3) h1(3) conf by (auto split: if_splits)
  moreover obtain obj where o: "snd (fst (run_state (start_job E J j) w3)) = None" "job_ready J reason (snd (run_state (start_job E J j) w3))"
      "condition_of J (snd (run_state (start_job E J j) w3)) = Some (reason, False)" "outcome_of obj = JobRunning"
      "k_requests (snd (run_state (start_job E J j) w3)) = k_requests w3 @ [JobRequest (k8s_request.CreateObject obj)]"
    using run_start_job [OF co r3 g(3)] by auto
  moreover have "k_requests w3 = k_requests w @ reqs" using sy(2) w1(3) by (simp add: w2_def)
  ultimately show ?thesis
    by (intro exI [of _ "reqs @ [JobRequest (k8s_request.CreateObject obj)]"]) (simp add: l view_of_def)
qed

text \<open>A synchronisation of a fetched job is one step of the machine.\<close>

definition refined :: "init_job \<Rightarrow> string \<Rightarrow> job_store \<Rightarrow> 'x jobs_scheme \<Rightarrow> job_view \<Rightarrow> (component_status \<times> go_error) \<times> 'x jobs_scheme \<Rightarrow> bool" where
  "refined J reason s w v = (\<lambda>((status, err), w'). err = None \<and> job_ready J reason w' \<and>
     (\<exists>reqs. k_requests w' = k_requests w @ reqs \<and> store_wf (fold store_request reqs s) \<and> view_of J w' (fold store_request reqs s) = v))"

lemma refined_set:
  assumes "cooperates E s" "job_ready J reason w" "store_wf s" "same_jobs w w1" "k_requests w1 = k_requests w"
  shows "refined J reason s w ((view_of J w s)\<lparr>jv_condition := Some (reason, st = ConditionTrue)\<rparr>)
     ((status, None), SetStatusCondition E (mkcond (ij_statusCondition J) st reason m) w1)"
proof -
  have "conds_wf w1" "job_ready J reason w1" using assms(2,4) by (auto simp: job_ready_def same_jobs_def conds_wf_def)
  with assms show ?thesis
    by (auto simp: refined_def cooperates_def job_ready_def view_of_def condition_of_Set intro!: exI [of _ "[]"])
qed

lemma fetched_outcome:
  assumes "store_wf s" "managed_Exists (fetched r (st_job s))"
  shows "job_IsFailed (fetched r (st_job s)) \<longleftrightarrow> map_option outcome_of (st_job s) = Some JobFailed"
    "\<not> job_IsFailed (fetched r (st_job s)) \<Longrightarrow> job_IsComplete (fetched r (st_job s)) \<longleftrightarrow> map_option outcome_of (st_job s) = Some JobComplete"
proof -
  obtain obj where "st_job s = Some obj" using assms fetched_Exists(1) by blast
  then show "job_IsFailed (fetched r (st_job s)) \<longleftrightarrow> map_option outcome_of (st_job s) = Some JobFailed"
    "\<not> job_IsFailed (fetched r (st_job s)) \<Longrightarrow> job_IsComplete (fetched r (st_job s)) \<longleftrightarrow> map_option outcome_of (st_job s) = Some JobComplete"
    by (auto simp: job_IsFailed_def job_IsComplete_def job_IsStatusConditionTrue_def fetched_def outcome_of_def list_ex_iff)
qed

lemma refined_delete:
  assumes "cooperates E s" "job_ready J reason w" "store_wf s"
  shows "managed_Exists r \<Longrightarrow> refined J reason s w ((view_of J w s)\<lparr>jv_job := None\<rparr>)
      (run_state (do { err \<leftarrow> managed_Delete ka_job JobRequest E r; ret (status, err) }) w)"
    and "managed_Exists r' \<Longrightarrow> refined J reason s w ((view_of J w s)\<lparr>jv_config := False\<rparr>)
      (run_state (do { err \<leftarrow> managed_Delete ka_cm CmRequest E r'; ret (status, err) }) w)"
proof -
  have f: "\<And>n. serves (ka_job (e_Kube E n)) (st_job s)" "\<And>n. serves (ka_cm (e_Kube E n)) (st_config s)"
    using assms(1) by (simp_all add: cooperates_def)
  have k: "same_jobs w (snd (run_state (managed_Delete cl rq E q) w))" for cl :: "kube_api \<Rightarrow> 'c object_client" and rq q
    using keptD [OF sj.kept_managed_Delete] .
  show "refined J reason s w ((view_of J w s)\<lparr>jv_job := None\<rparr>)
      (run_state (do { err \<leftarrow> managed_Delete ka_job JobRequest E r; ret (status, err) }) w)"
    using run_managed_Delete [where cl = ka_job and E = E and w = w and rq = JobRequest and r = r, OF f(1)] k [of ka_job JobRequest r] assms(2,3)
    by (auto simp: refined_def same_jobs_def job_ready_def conds_wf_def view_of_def condition_of_def store_wf_def split: prod.splits)
  show "refined J reason s w ((view_of J w s)\<lparr>jv_config := False\<rparr>)
      (run_state (do { err \<leftarrow> managed_Delete ka_cm CmRequest E r'; ret (status, err) }) w)"
    using run_managed_Delete [where cl = ka_cm and E = E and w = w and rq = CmRequest and r = r', OF f(2)] k [of ka_cm CmRequest r'] assms(2,3)
    by (auto simp: refined_def same_jobs_def job_ready_def conds_wf_def view_of_def condition_of_def store_wf_def split: prod.splits)
qed

lemma store_wf_request: "store_wf s \<Longrightarrow> store_wf (store_request q s)"
  by (cases "(q, s)" rule: store_request.cases) (auto simp: store_wf_def stored_def)

lemma store_wf_requests: "store_wf s \<Longrightarrow> store_wf (fold store_request reqs s)"
  by (induction reqs arbitrary: s) (simp_all add: store_wf_request)

lemma refined_launch:
  assumes "cooperates E s" "job_ready J reason w" "store_wf s" "k_jobs w (ij_id J) = fetched_job s j" "st_job s = None"
  shows "refined J reason s w \<lparr>jv_condition = Some (reason, False), jv_job = Some JobRunning, jv_config = True\<rparr> (run_state (init_launch E J) w)"
proof -
  have "\<not> managed_Exists (ij_job (fetched_job s j))" "builder_Exists (ij_configs (fetched_job s j)) \<longleftrightarrow> st_config s \<noteq> None"
    using fetched_Exists(1) [OF assms(3), of "ij_job j"] fetched_Exists(2) [OF assms(3), of "cb_configMap (ij_configs j)"] assms(5)
    by (simp_all add: fetched_job_def builder_Exists_def)
  from run_init_launch [OF assms(1,2,4) this] store_wf_requests [OF assms(3)] show ?thesis
    by (auto simp: refined_def split: prod.splits)
qed

lemma run_init_Sync:
  assumes co: "cooperates E s" and ready: "job_ready J reason w" and st: "store_wf s" and j: "k_jobs w (ij_id J) = fetched_job s j"
  shows "refined J reason s w (job_next reason (view_of J w s)) (run_state (init_Sync E J False) w)"
proof -
  let ?j = "fetched_job s j" and ?v = "view_of J w s"
  have E: "GetStatusCondition E (ij_statusCondition J) w = cond_find (GetStatusConditions (w_object w)) (ij_statusCondition J)"
    using co by (simp add: cooperates_def GetStatusCondition_def meta_laws_simps)
  have r: "ij_reason ?j = reason" using ready j by (simp add: job_ready_def)
  have x: "managed_Exists (ij_job ?j) \<longleftrightarrow> jv_job ?v \<noteq> None" "builder_Exists (ij_configs ?j) \<longleftrightarrow> jv_config ?v"
    using fetched_Exists [OF st] by (simp_all add: fetched_job_def builder_Exists_def view_of_def)
  have o: "jv_job ?v \<noteq> None \<Longrightarrow> job_IsFailed (ij_job ?j) \<longleftrightarrow> jv_job ?v = Some JobFailed"
    "jv_job ?v \<noteq> None \<Longrightarrow> \<not> job_IsFailed (ij_job ?j) \<Longrightarrow> job_IsComplete (ij_job ?j) \<longleftrightarrow> jv_job ?v = Some JobComplete"
    using fetched_outcome [OF st, of "ij_job j"] x(1) by (simp_all add: fetched_job_def view_of_def)
  have c: "jv_condition ?v = map_option (\<lambda>c. (c_Reason c, c_Status c = ConditionTrue)) (GetStatusCondition E (ij_statusCondition J) w)"
    by (simp add: E view_of_def condition_of_def)
  have started: "(case GetStatusCondition E (ij_statusCondition J) w of None \<Rightarrow> False | Some c \<Rightarrow> c_Reason c = ij_reason ?j) \<longleftrightarrow> job_started reason ?v"
    by (simp add: job_started_def c r split: option.split)
  have completed: "(case GetStatusCondition E (ij_statusCondition J) w of None \<Rightarrow> False | Some c \<Rightarrow> c_Reason c = ij_reason ?j \<and> c_Status c = ConditionTrue) \<longleftrightarrow>
      jv_condition ?v = Some (reason, True)"
    by (simp add: c r split: option.split)
  have none: "GetStatusCondition E (ij_statusCondition J) w = None \<longleftrightarrow> jv_condition ?v = None" by (simp add: c)
  have ex: "init_Exists ?j \<longleftrightarrow> jv_job ?v \<noteq> None \<and> jv_config ?v" by (simp add: init_Exists_def resources_Exists_def x)
  have id: "refined J reason s w ?v ((status, None), w)" for status
    using ready st by (auto simp: refined_def intro!: exI [of _ "[]"])
  have rec: "same_jobs w (RecordNormal t m w)" "k_requests (RecordNormal t m w) = k_requests w" for t m
    by (simp_all add: same_jobs_def RecordNormal_def)
  note set = refined_set [OF co ready st, of w] and delete = refined_delete [OF co ready st]
  note sync = init_Sync_def init_start_def Let_def run_state_bind run_job_access j r started completed none ex x
  let ?restart = "\<not> job_started reason ?v \<or> jv_job ?v = None \<or> \<not> jv_config ?v \<or> jv_job ?v = Some JobFailed"
  consider "job_finished reason ?v"
    | "\<not> job_finished reason ?v" ?restart "jv_job ?v \<noteq> None"
    | "\<not> job_finished reason ?v" "jv_job ?v = None" "jv_condition ?v = None" "jv_config ?v"
    | "\<not> job_finished reason ?v" "jv_job ?v = None" "\<not> (jv_condition ?v = None \<and> jv_config ?v)" "\<not> job_started reason ?v"
    | "\<not> job_finished reason ?v" "jv_job ?v = None" "\<not> (jv_condition ?v = None \<and> jv_config ?v)" "job_started reason ?v"
    | "\<not> job_finished reason ?v" "\<not> ?restart" "jv_job ?v \<noteq> Some JobComplete"
    | "\<not> job_finished reason ?v" "\<not> ?restart" "jv_job ?v = Some JobComplete"
    by argo
  then show ?thesis
  proof cases
    case 1 then show ?thesis using id by (simp add: sync job_finished_def job_next_def)
  next
    case 2
    then have "job_next reason ?v = ?v\<lparr>jv_job := None\<rparr>" by (simp add: job_next_def)
    then show ?thesis using 2 delete(1) [of "ij_job ?j"] o(1) by (auto simp: sync job_finished_def)
  next
    case 3
    then have "job_next reason ?v = ?v\<lparr>jv_config := False\<rparr>" by (simp add: job_next_def)
    then show ?thesis using 3 delete(2) [of "cb_configMap (ij_configs ?j)"] x(2) by (auto simp: sync builder_Exists_def job_finished_def)
  next
    case 4
    then have "job_next reason ?v = ?v\<lparr>jv_condition := Some (reason, False)\<rparr>" by (auto simp: job_next_def)
    then show ?thesis using 4 set [of ConditionFalse] preordD(1) [OF preord_same_jobs, of w] by (auto simp: sync job_finished_def)
  next
    case 5
    then have n: "job_next reason ?v = \<lparr>jv_condition = Some (reason, False), jv_job = Some JobRunning, jv_config = True\<rparr>"
      by (auto simp: job_next_def)
    have "st_job s = None" using 5(2) by (simp add: view_of_def)
    from refined_launch [OF co ready st j this] show ?thesis using 5 n by (auto simp: sync job_finished_def)
  next
    case 6
    then have "job_next reason ?v = ?v\<lparr>jv_condition := Some (reason, False)\<rparr>" by (simp add: job_next_def)
    then show ?thesis using 6 set [of ConditionFalse] preordD(1) [OF preord_same_jobs, of w] o by (auto simp: sync job_finished_def)
  next
    case 7
    then have "job_next reason ?v = ?v\<lparr>jv_condition := Some (reason, True)\<rparr>" by (simp add: job_next_def)
    then show ?thesis using 7 refined_set [OF co ready st rec, of ConditionTrue] o by (auto simp: sync job_finished_def)
  qed
qed

lemma run_reconcile_job:
  assumes co: "cooperates E s" and ready: "job_ready J reason w" and st: "store_wf s"
  shows "refined J reason s w (job_next reason (view_of J w s)) (run_state (reconcile_job E J) w)"
proof -
  have "cb_configOverrides (ij_configs (k_jobs w (ij_id J))) = None" using ready by (simp add: job_ready_def job_wf_def)
  from run_init_Fetch [OF co this] obtain w1 where f: "run_state (init_Fetch E J) w = (None, w1)" "w_object w1 = w_object w"
      "k_requests w1 = k_requests w" "k_jobs w1 = (k_jobs w)(ij_id J := fetched_job s (k_jobs w (ij_id J)))"
    by blast
  have "job_ready J reason w1"
    using ready f(2,4) by (simp add: job_ready_def conds_wf_def job_wf_def fetched_job_def fetched_def generates_def)
  from run_init_Sync [OF co this st, of "k_jobs w (ij_id J)"] f
  have "refined J reason s w1 (job_next reason (view_of J w1 s)) (run_state (init_Sync E J False) w1)" by simp
  moreover have "view_of J w1 s = view_of J w s" using f(2) by (simp add: view_of_def condition_of_def)
  ultimately show ?thesis using f(1,3) by (simp add: reconcile_job_def refined_def)
qed

lemma job_cycle_step:
  assumes co: "cooperates (Es s) s" and ready: "job_ready J reason w" and st: "store_wf s" and c: "job_cycle Es J (w, s) = (w', s')"
  shows "job_ready J reason w' \<and> store_wf s' \<and> view_of J w' s' = job_runs (job_next reason (view_of J w s))"
proof -
  obtain status err w1 where r: "run_state (reconcile_job (Es s) J) w = ((status, err), w1)" by (metis surj_pair)
  from run_reconcile_job [OF co ready st] r obtain reqs where q: "job_ready J reason w1" "k_requests w1 = k_requests w @ reqs"
      "store_wf (fold store_request reqs s)" "view_of J w1 (fold store_request reqs s) = job_next reason (view_of J w s)"
    by (auto simp: refined_def)
  let ?s = "fold store_request reqs s"
  have "w' = w1" "s' = ?s\<lparr>st_job := map_option (\<lambda>obj. if outcome_of obj = JobRunning then complete_job obj else obj) (st_job ?s)\<rparr>"
    using c r q(2) by (simp_all add: job_cycle_def Let_def new_requests_def)
  then show ?thesis
    unfolding q(4) [symmetric]
    using q(1,3) by (cases "st_job ?s") (auto simp: view_of_def job_runs_def store_wf_def)
qed

lemma finished_reconcile:
  assumes co: "cooperates E s" and ready: "job_ready J reason w" and st: "store_wf s" and fin: "job_finished reason (view_of J w s)"
  shows "\<exists>status w1. run_state (reconcile_job E J) w = ((status, None), w1) \<and> IsReady status \<and> k_requests w1 = k_requests w"
proof -
  have "cb_configOverrides (ij_configs (k_jobs w (ij_id J))) = None" using ready by (simp add: job_ready_def job_wf_def)
  from run_init_Fetch [OF co this] obtain w1 where f: "run_state (init_Fetch E J) w = (None, w1)" "w_object w1 = w_object w"
      "k_requests w1 = k_requests w" "k_jobs w1 = (k_jobs w)(ij_id J := fetched_job s (k_jobs w (ij_id J)))"
    by blast
  let ?j = "fetched_job s (k_jobs w (ij_id J))"
  have "init_Exists ?j"
    using fin fetched_Exists [OF st] by (auto simp: init_Exists_def resources_Exists_def fetched_job_def builder_Exists_def job_finished_def view_of_def)
  moreover have "ij_reason ?j = reason" using ready by (simp add: job_ready_def fetched_job_def)
  moreover have "\<exists>c. GetStatusCondition E (ij_statusCondition J) w1 = Some c \<and> c_Reason c = reason \<and> c_Status c = ConditionTrue"
    using fin co f(2) by (auto simp: cooperates_def GetStatusCondition_def meta_laws_simps job_finished_def view_of_def condition_of_def)
  ultimately show ?thesis
    using f by (auto simp: reconcile_job_def init_Sync_def Let_def ComponentStatusReadyAfter_def IsReady_def)
qed

lemma job_cycles:
  assumes "\<And>s. cooperates (Es s) s" "job_ready J reason w" "store_wf s" "(job_cycle Es J ^^ n) (w, s) = (w', s')"
  shows "job_ready J reason w' \<and> store_wf s' \<and> view_of J w' s' = ((job_runs \<circ> job_next reason) ^^ n) (view_of J w s)"
  using assms(4)
proof (induction n arbitrary: w' s')
  case (Suc n)
  obtain w1 s1 where c: "(job_cycle Es J ^^ n) (w, s) = (w1, s1)" by (metis surj_pair)
  note IH = Suc.IH [OF this]
  have "job_cycle Es J (w1, s1) = (w', s')" using Suc.prems c by simp
  from job_cycle_step [of Es, OF assms(1) conjunct1 [OF IH] _ this] IH show ?case by simp
qed (use assms in auto)

section \<open>Properties\<close>

text \<open>
  (C29) Refinement: one reconciliation of an init job, with the cluster executing its requests, is one step of
  the abstract machine, whatever state the job is found in.
\<close>

theorem init_job_refines:
  assumes "cooperates (Es s) s" "job_ready J reason w" "store_wf s" "job_cycle Es J (w, s) = (w', s')"
  shows "view_of J w' s' = job_runs (job_next reason (view_of J w s)) \<and> job_ready J reason w' \<and> store_wf s'"
  using job_cycle_step [OF assms] by simp

text \<open>
  (C30) Liveness: from every state of the condition, of the job and of its config map - left over by an earlier
  run, failed, half deleted or never created - five reconciliations against a cluster that stores objects and
  runs jobs complete the init job: the next one reports it ready and sends nothing.
\<close>

theorem init_job_completes:
  assumes "\<And>s. cooperates (Es s) s" "job_ready J reason w" "store_wf s" "(job_cycle Es J ^^ 5) (w, s) = (w', s')"
    and "run_state (reconcile_job (Es s') J) w' = ((status, err), w'')"
  shows "IsReady status \<and> err = None \<and> k_requests w'' = k_requests w'"
proof -
  have f: "job_ready J reason w'" "store_wf s'" "job_finished reason (view_of J w' s')"
    using job_cycles [OF assms(1-4)] job_machine_completes by metis+
  from finished_reconcile [OF assms(1) this] assms(5) show ?thesis by auto
qed

section \<open>Witnesses\<close>

lemma NewInitJob_wf:
  assumes "NewInitJob a l name0 None inst [] = Some (J, j)"
  shows "job_wf (AddInitJobScript script j)" "ij_reason (AddInitJobScript script j) = InitJobDefaultReason"
  using assms
  by (auto simp: NewInitJob_def GetInitJobName_def GetInitJobConfigMapName_def AddInitJobScript_def AddScript_def job_wf_def
      generates_def empty_managed_def object_meta_def split: option.splits)

definition storing_env :: "job_store \<Rightarrow> cenv" where
  "storing_env s = sample_cenv ((sample_api None [])\<lparr>ka_job := sample_client (st_job s), ka_cm := sample_client (st_config s)\<rparr>)"

lemma storing_env_cooperates: "cooperates (storing_env s) s"
proof -
  have "e_Codec (storing_env s) = sample_codec" by (simp add: storing_env_def sample_cenv_def sample_kenv_def kenv.defs env.defs)
  then show ?thesis by (simp add: cooperates_def storing_env_def serves_def sample_client_def sample_codec_def)
qed

definition sample_init :: "init_job \<times> init_job_state" where
  "sample_init = the (NewInitJob 0 (ForComponent MasterType '''' zero_labeller) ''default'' None (sample_instance 1) [])"

text \<open>A job that failed in an earlier run and whose config map is gone.\<close>

definition failed_store :: job_store where
  "failed_store = \<lparr>st_job = Some ((object_meta zero_labeller ''job'' ''*v1.Job'' (zero_job\<lparr>jb_Conditions := [(''Failed'', ConditionTrue)]\<rparr>))
     \<lparr>o_ResourceVersion := ''7''\<rparr>), st_config = None\<rparr>"

definition sample_jobs :: jobs where
  "sample_jobs = cluster.extend sample_running \<lparr>k_jobs = (\<lambda>_. AddInitJobScript ''exit 0'' (snd sample_init)), k_secrets = (\<lambda>_. empty_managed '''' \<lparr>sec_Data = Map.empty, sec_StringData = Map.empty\<rparr>)\<rparr>"

lemma sample_jobs_ready: "job_ready (fst sample_init) InitJobDefaultReason sample_jobs" "store_wf failed_store"
proof -
  have n: "NewInitJob 0 (ForComponent MasterType '''' zero_labeller) ''default'' None (sample_instance 1) [] = Some (fst sample_init, snd sample_init)"
  proof -
    have "\<not> Option.is_none (NewInitJob 0 (ForComponent MasterType '''' zero_labeller) ''default'' None (sample_instance 1) [])" by code_simp
    then show ?thesis by (auto simp: sample_init_def Option.is_none_def)
  qed
  have "conds_wf sample_jobs" by code_simp
  then show "job_ready (fst sample_init) InitJobDefaultReason sample_jobs"
    using NewInitJob_wf [OF n] by (simp add: job_ready_def sample_jobs_def cluster.defs)
  show "store_wf failed_store" by (simp add: store_wf_def failed_store_def)
qed

theorem init_job_refines_witness:
  "view_of (fst sample_init) (fst (job_cycle storing_env (fst sample_init) (sample_jobs, failed_store)))
     (snd (job_cycle storing_env (fst sample_init) (sample_jobs, failed_store))) =
   \<lparr>jv_condition = None, jv_job = None, jv_config = False\<rparr>"
proof -
  have "job_next InitJobDefaultReason (view_of (fst sample_init) sample_jobs failed_store) = \<lparr>jv_condition = None, jv_job = None, jv_config = False\<rparr>"
    by code_simp
  then show ?thesis
    using init_job_refines [of storing_env, OF storing_env_cooperates sample_jobs_ready prod.collapse [symmetric]]
    by (simp add: job_runs_def)
qed

theorem init_job_completes_witness:
  "let (w, s) = (job_cycle storing_env (fst sample_init) ^^ 5) (sample_jobs, failed_store)
   in IsReady (fst (fst (run_state (reconcile_job (storing_env s) (fst sample_init)) w)))"
proof -
  obtain w s where c: "(job_cycle storing_env (fst sample_init) ^^ 5) (sample_jobs, failed_store) = (w, s)" by (metis surj_pair)
  obtain status err w1 where r: "run_state (reconcile_job (storing_env s) (fst sample_init)) w = ((status, err), w1)" by (metis surj_pair)
  from init_job_completes [of storing_env, OF storing_env_cooperates sample_jobs_ready c r] c r show ?thesis by simp
qed

end
