(* ===== verification/Token_Secret.thy ===== *)
theory Token_Secret
  imports Job_Progress
begin

text \<open>
  What the components with init jobs share: the secret with the token of their user
  (\<open>pkg/resources/string_secret.go\<close> and its use in every \<open>Sync\<close>), the command that creates a user
  (\<open>pkg/components/user.go\<close>), users created through the client, and the scripts of
  \<open>pkg/components/helpers.go\<close> and \<open>init_job.go\<close>.
\<close>

section \<open>Secrets\<close>

abbreviation "TokenSecretKey \<equiv> ''YT_TOKEN''"

definition fetch_secret :: "'e kenv_scheme \<Rightarrow> nat \<Rightarrow> ('x, go_error) jact" where
  "fetch_secret E a = do {
     s \<leftarrow> reads (\<lambda>w. k_secrets w a);
     (r, err) \<leftarrow> managed_Fetch ka_secret E s;
     modifies (\<lambda>w. w\<lparr>k_secrets := (k_secrets w)(a := r)\<rparr>);
     ret err
   }"

definition create_token :: "'e cenv_scheme \<Rightarrow> labeller \<Rightarrow> nat \<Rightarrow> ('x, go_error) jact" where
  "create_token E l a = do {
     s \<leftarrow> reads (\<lambda>w. k_secrets w a);
     token \<leftarrow> reads (\<lambda>w. e_Token E (k_calls w));
     let r = secret_Build l [TokenSecretKey \<mapsto> token] s;
     modifies (\<lambda>w. w\<lparr>k_secrets := (k_secrets w)(a := r)\<rparr>);
     managed_Sync ka_secret SecretRequest E r
   }"

text \<open>A component waits for its secret, which it creates when it is missing or has no token.\<close>

definition ensure_secret ::
  "'e cenv_scheme \<Rightarrow> labeller \<Rightarrow> nat \<Rightarrow> bool \<Rightarrow> ('x, component_status \<times> go_error) jact \<Rightarrow> ('x, component_status \<times> go_error) jact" where
  "ensure_secret E l a dry rest = do {
     s \<leftarrow> reads (\<lambda>w. k_secrets w a);
     if secret_NeedSync s TokenSecretKey '''' then do {
       err \<leftarrow> when_do (\<not> dry) (create_token E l a);
       ret (ComponentStatusWaitingFor (mr_name s), err)
     } else rest
   }"

definition token_of :: "secret managed \<Rightarrow> string" where
  "token_of s = ptr_deref (secret_GetValue s TokenSecretKey) ''''"

section \<open>Users\<close>

definition createUserCommand :: "'e cenv_scheme \<Rightarrow> string \<Rightarrow> string \<Rightarrow> string \<Rightarrow> bool \<Rightarrow> string list" where
  "createUserCommand E userName password token isSuperuser =
    [''/usr/bin/yt create user --attributes '' @ [CHR 0x27] @ ''{name=\"'' @ userName @ ''\"}'' @ [CHR 0x27] @ '' --ignore-existing''] @
    (if isSuperuser
     then [''/usr/bin/yt add-member '' @ userName @ '' superusers || true'',
           ''while [ \"$(/usr/bin/yt check-permission --format json '' @ userName @ '' administer /)\" != '' @ [CHR 0x27] @
             ''{\"action\":\"allow\"}'' @ [CHR 0x27] @ '' ] ; do sleep 1 ; done'']
     else []) @
    (if password \<noteq> ''''
     then [''/usr/bin/yt execute set_user_password '' @ [CHR 0x27] @ ''{user='' @ userName @ '';new_password_sha256=\"'' @ e_Sha256 E password @ ''\"}'' @ [CHR 0x27]]
     else []) @
    (if token \<noteq> ''''
     then [''/usr/bin/yt create map_node '' @ [CHR 0x27] @ ''//sys/cypress_tokens/'' @ e_Sha256 E token @ [CHR 0x27] @ '' --ignore-existing'',
           ''/usr/bin/yt set '' @ [CHR 0x27] @ ''//sys/cypress_tokens/'' @ e_Sha256 E token @ ''/@user'' @ [CHR 0x27] @ '' '' @ [CHR 0x27] @ userName @ [CHR 0x27]]
     else [])"

definition grant_token :: "'e cenv_scheme \<Rightarrow> string \<Rightarrow> string \<Rightarrow> ('x, go_error) cact" where
  "grant_token E userName token = do {
     let tokenPath = ''//sys/cypress_tokens/'' @ e_Sha256 E token;
     err \<leftarrow> yt_write E (CreateNode tokenPath ''map_node'' [] False True);
     if err \<noteq> None then ret err
     else yt_write E (SetNode (e_Attr E tokenPath ''user'') (YString userName))
   }"

definition make_superuser :: "'e cenv_scheme \<Rightarrow> string \<Rightarrow> ('x, go_error) cact" where
  "make_superuser E userName = do {
     err \<leftarrow> yt_write E (AddMember ''superusers'' userName);
     ret (case err of None \<Rightarrow> None | Some e \<Rightarrow> if e_AlreadyPresent E e then None else Some e)
   }"

definition CreateUser :: "'e cenv_scheme \<Rightarrow> string \<Rightarrow> string \<Rightarrow> bool \<Rightarrow> ('x, go_error) cact" where
  "CreateUser E userName token isSuperuser = do {
     created \<leftarrow> yt_write E (EnsureObject ''user'' [(''name'', YString userName)]);
     if created \<noteq> None then ret created
     else do {
       granted \<leftarrow> when_do (token \<noteq> '''') (grant_token E userName token);
       if granted \<noteq> None then ret granted
       else when_do isSuperuser (make_superuser E userName)
     }
   }"

section \<open>What they keep\<close>

context job_reading
begin

lemma kept_secrets: "kept R (modifies (\<lambda>w. w\<lparr>k_secrets := (k_secrets w)(a := s)\<rparr>))"
  by (intro kept_modifies R_secrets)

lemma kept_fetch_secret: "kept R (fetch_secret E a)"
  unfolding fetch_secret_def by (intro yt_intros kept_secrets)

lemma kept_ensure_secret_dry: "kept R rest \<Longrightarrow> kept R (ensure_secret E l a True rest)"
  unfolding ensure_secret_def when_do_def not_True_eq_False if_False by (intro yt_intros)

end

context job_bookkeeping
begin

lemma kept_ensure_secret: "kept R rest \<Longrightarrow> kept R (ensure_secret E l a dry rest)"
  unfolding ensure_secret_def create_token_def by (intro yt_intros kept_secrets kept_managed_Sync)

end

context yt_writing
begin

lemma kept_CreateUser: "kept R (CreateUser E u t s)"
  unfolding CreateUser_def grant_token_def make_superuser_def by (intro yt_intros kept_yt_write)

end

end
