(* ===== verification/Ypatch.thy ===== *)
theory Ypatch
  imports Job_Progress "HOL-Library.List_Lexorder" "HOL-Library.Char_ord"
begin

text \<open>
  Cypress patches: \<open>pkg/ypatch\<close>.  Operations and patch sets are those of \<open>patch.go\<close>, their
  application to Cypress that of \<open>apply.go\<close>, and the construction of a patch from a comparison
  that of \<open>diff.go\<close>.  A patch set is an association list with distinct keys; the comparison of two values is
  that of the package \<open>go-cmp\<close>, a parameter.
\<close>

section \<open>Patches\<close>

datatype patch_op = PatchOpAdd | PatchOpCopy | PatchOpMove | PatchOpRemove | PatchOpReplace | PatchOpTest | PatchOpOther string

record patch_operation =
  po_Op :: patch_op
  po_Path :: string
  po_From :: string
  po_Value :: yt_value

type_synonym patch = "patch_operation list"
type_synonym patch_set = "(string \<times> patch) list"

definition Add :: "string \<Rightarrow> yt_value \<Rightarrow> patch_operation" where
  "Add path value = \<lparr>po_Op = PatchOpAdd, po_Path = path, po_From = '''', po_Value = value\<rparr>"

definition Copy :: "string \<Rightarrow> string \<Rightarrow> patch_operation" where
  "Copy path from = \<lparr>po_Op = PatchOpCopy, po_Path = path, po_From = from, po_Value = YEntity\<rparr>"

definition Move :: "string \<Rightarrow> string \<Rightarrow> patch_operation" where
  "Move path from = \<lparr>po_Op = PatchOpMove, po_Path = path, po_From = from, po_Value = YEntity\<rparr>"

definition Remove :: "string \<Rightarrow> patch_operation" where
  "Remove path = \<lparr>po_Op = PatchOpRemove, po_Path = path, po_From = '''', po_Value = YEntity\<rparr>"

definition Replace :: "string \<Rightarrow> yt_value \<Rightarrow> patch_operation" where
  "Replace path value = \<lparr>po_Op = PatchOpReplace, po_Path = path, po_From = '''', po_Value = value\<rparr>"

definition ReplaceOrRemove :: "string \<Rightarrow> yt_value option \<Rightarrow> patch_operation" where
  "ReplaceOrRemove path value = (case value of None \<Rightarrow> Remove path | Some v \<Rightarrow> Replace path v)"

definition Test :: "string \<Rightarrow> yt_value \<Rightarrow> patch_operation" where
  "Test path value = \<lparr>po_Op = PatchOpTest, po_Path = path, po_From = '''', po_Value = value\<rparr>"

definition AddPatch :: "string \<Rightarrow> patch \<Rightarrow> patch_set \<Rightarrow> patch_set" where
  "AddPatch path patch p =
    (case map_of p path of
       None \<Rightarrow> p @ [(path, patch)]
     | Some old \<Rightarrow> AList.update path (old @ patch) p)"

definition AddPatchSet :: "patch_set \<Rightarrow> patch_set \<Rightarrow> patch_set" where
  "AddPatchSet patchSet p = fold (\<lambda>(path, patch). AddPatch path patch) patchSet p"

section \<open>Comparison\<close>

text \<open>
  A step of the path of a reported difference; the indices of a slice are those before and after.
  A report has the values of the two sides that are valid.
\<close>

datatype cmp_step = StructField string | MapIndex string | SliceIndex int int | OtherStep

datatype cmp_result = CmpEqual | CmpAdded yt_value | CmpRemoved yt_value | CmpChanged yt_value yt_value

text \<open>
  The libraries: \<open>e_CmpReports\<close> are the results that a comparison reports, \<open>e_ListIndex\<close> the path of an
  item, and \<open>e_ParsePatch\<close> and \<open>e_FormatPatch\<close> read and write a patch set as YSON (a nil one is \<open>None\<close>).
\<close>

record penv = cenv +
  e_CmpEqual :: "yt_value \<Rightarrow> yt_value \<Rightarrow> bool"
  e_CmpReports :: "yt_value \<Rightarrow> yt_value \<Rightarrow> (cmp_step list \<times> cmp_result) list"
  e_ListIndex :: "string \<Rightarrow> int \<Rightarrow> string"
  e_ParsePatch :: "string \<Rightarrow> string + patch_set"
  e_FormatPatch :: "patch_set option \<Rightarrow> string + string"

fun report_path :: "'e penv_scheme \<Rightarrow> bool \<Rightarrow> cmp_step list \<Rightarrow> string \<Rightarrow> string" where
  "report_path E after_valid [] path = path"
| "report_path E after_valid (StructField name0 # steps) path = report_path E after_valid steps (e_Child E path name0)"
| "report_path E after_valid (MapIndex key # steps) path = report_path E after_valid steps (e_Child E path key)"
| "report_path E after_valid (SliceIndex indexBefore indexAfter # steps) path =
    report_path E after_valid steps (e_ListIndex E path (if after_valid then indexAfter else indexBefore))"
| "report_path E after_valid (OtherStep # steps) path = report_path E after_valid steps path"

definition Report :: "'e penv_scheme \<Rightarrow> bool \<Rightarrow> cmp_step list \<times> cmp_result \<Rightarrow> patch" where
  "Report E withTest = (\<lambda>(steps, rs).
     case rs of
       CmpEqual \<Rightarrow> []
     | CmpAdded after \<Rightarrow> [Add (report_path E True steps '''') after]
     | CmpRemoved before \<Rightarrow>
         (if withTest then [Test (report_path E False steps '''') before] else []) @ [Remove (report_path E False steps '''')]
     | CmpChanged before after \<Rightarrow>
         (if withTest then [Test (report_path E True steps '''') before] else []) @ [Replace (report_path E True steps '''') after])"

definition BuildPatch :: "'e penv_scheme \<Rightarrow> yt_value \<Rightarrow> yt_value \<Rightarrow> bool \<Rightarrow> patch" where
  "BuildPatch E before after withTest =
    (if e_CmpEqual E before after then []
     else concat (map (Report E withTest) (e_CmpReports E before after)))"

section \<open>Application to Cypress\<close>

definition ypathIsAbsolute :: "'e cenv_scheme \<Rightarrow> string \<Rightarrow> bool" where
  "ypathIsAbsolute E path =
    (case e_SplitTokens E path of
       Inr (token # _) \<Rightarrow> token = ''/''
     | _ \<Rightarrow> False)"

fun contains_attr :: "string \<Rightarrow> bool" where
  "contains_attr (a # b # cs) = (a = CHR ''/'' \<and> b = CHR ''@'' \<or> contains_attr (b # cs))"
| "contains_attr _ = False"

text \<open>
  \<open>SetNode\<close> with recursion: setting a nested attribute whose parent is missing is retried on the parent, with the
  value wrapped, down to the node, which is then created.  Each retry is on a shorter path, so there are at
  most as many as the path is long.
\<close>

fun set_retry :: "nat \<Rightarrow> 'e cenv_scheme \<Rightarrow> string \<Rightarrow> yt_value \<Rightarrow> ('x, go_error) cact" where
  "set_retry n E dst value = do {
     err \<leftarrow> yt_write E (SetNodeRecursive dst value);
     case err of
       None \<Rightarrow> ret None
     | Some e \<Rightarrow>
         if e_ContainsResolveError E e \<and> contains_attr dst then
           (case e_Split E dst of
              Inl err2 \<Rightarrow> ret (Some err2)
            | Inr (parent, child) \<Rightarrow>
                if take 2 child \<noteq> ''/@'' then
                  (case n of
                     0 \<Rightarrow> ret (Some e)
                   | Suc m \<Rightarrow> set_retry m E parent (YMap [(drop 1 child, value)]))
                else yt_write E (CreateNode parent ''map_node'' [(drop 2 child, value)] True False))
         else ret (Some e)
   }"

definition target_SetNode :: "'e cenv_scheme \<Rightarrow> string \<Rightarrow> yt_value \<Rightarrow> ('x, go_error) cact" where
  "target_SetNode E dst value = set_retry (length dst) E dst value"

definition apply_step :: "'e penv_scheme \<Rightarrow> bool \<Rightarrow> string \<Rightarrow> patch_operation \<Rightarrow> ('x, go_error) cact" where
  "apply_step E dryRun path op = do {
     let dst = path @ po_Path op;
     case po_Op op of
       PatchOpAdd \<Rightarrow> when_do (\<not> dryRun) (target_SetNode E dst (po_Value op))
     | PatchOpReplace \<Rightarrow> when_do (\<not> dryRun) (target_SetNode E dst (po_Value op))
     | PatchOpRemove \<Rightarrow> when_do (\<not> dryRun) (yt_write E (RemoveNode dst True True))
     | PatchOpTest \<Rightarrow> do {
         api \<leftarrow> yt_call E;
         ret (case ya_GetValue api dst of
                Inl err \<Rightarrow> Some err
              | Inr tmp \<Rightarrow> if BuildPatch E tmp (po_Value op) True \<noteq> [] then Some ''test failed'' else None)
       }
     | PatchOpOther name0 \<Rightarrow> ret (Some (''unknown patch operation: '' @ name0))
     | _ \<Rightarrow> do {
         let src = (if ypathIsAbsolute E (po_From op) then po_From op else path @ po_From op);
         api \<leftarrow> yt_call E;
         case ya_GetValue api src of
           Inl err \<Rightarrow> ret (Some err)
         | Inr tmp \<Rightarrow>
             if dryRun then ret None
             else do {
               err \<leftarrow> target_SetNode E dst tmp;
               if err = None \<and> po_Op op = PatchOpMove then yt_write E (RemoveNode src True True) else ret err
             }
       }
   }"

fun apply_steps :: "'e penv_scheme \<Rightarrow> bool \<Rightarrow> string \<Rightarrow> nat \<Rightarrow> patch \<Rightarrow> ('x, go_error) cact" where
  "apply_steps E dryRun path i [] = ret None"
| "apply_steps E dryRun path i (op # patch) = do {
     err \<leftarrow> apply_step E dryRun path op;
     case err of
       Some e \<Rightarrow> ret (Some (''patch step '' @ show_nat i @ '' failed for path '' @ path @ po_Path op @ '': '' @ e))
     | None \<Rightarrow> apply_steps E dryRun path (Suc i) patch
   }"

definition ApplyPatch :: "'e penv_scheme \<Rightarrow> bool \<Rightarrow> string \<Rightarrow> patch \<Rightarrow> ('x, go_error) cact" where
  "ApplyPatch E dryRun path patch = apply_steps E dryRun path 0 patch"

definition sorted_paths :: "patch_set \<Rightarrow> string list" where
  "sorted_paths patchSet = sort (map fst patchSet)"

fun apply_paths :: "'e penv_scheme \<Rightarrow> bool \<Rightarrow> string \<Rightarrow> patch_set \<Rightarrow> string list \<Rightarrow> ('x, go_error) cact" where
  "apply_paths E dryRun path patchSet [] = ret None"
| "apply_paths E dryRun path patchSet (patchPath # paths) = do {
     err \<leftarrow> ApplyPatch E dryRun (path @ patchPath) (case map_of patchSet patchPath of None \<Rightarrow> [] | Some patch \<Rightarrow> patch);
     if err \<noteq> None then ret err else apply_paths E dryRun path patchSet paths
   }"

definition ApplyPatchSet :: "'e penv_scheme \<Rightarrow> bool \<Rightarrow> string \<Rightarrow> patch_set \<Rightarrow> ('x, go_error) cact" where
  "ApplyPatchSet E dryRun path patchSet = apply_paths E dryRun path patchSet (sorted_paths patchSet)"

section \<open>Patch sets\<close>

text \<open>What a patch set holds for a path; adding appends.\<close>

definition patch_at :: "patch_set \<Rightarrow> string \<Rightarrow> patch" where
  "patch_at p path = (case map_of p path of None \<Rightarrow> [] | Some patch \<Rightarrow> patch)"

lemma patch_at_AddPatch: "patch_at (AddPatch path patch p) path' = patch_at p path' @ (if path' = path then patch else [])"
  by (auto simp: patch_at_def AddPatch_def update_conv' map_add_def split: option.splits)

lemma distinct_AddPatch: "distinct (map fst p) \<Longrightarrow> distinct (map fst (AddPatch path patch p))"
  by (auto simp: AddPatch_def map_of_eq_None_iff distinct_update split: option.splits)

lemma patch_at_AddPatchSet:
  "distinct (map fst q) \<Longrightarrow> patch_at (AddPatchSet q p) path = patch_at p path @ patch_at q path"
proof (induction q arbitrary: p)
  case (Cons x q)
  obtain k v where x: "x = (k, v)" by fastforce
  have "patch_at q path = []" if "path = k"
  proof -
    have "map_of q k = None" using Cons.prems x by (simp add: map_of_eq_None_iff)
    with that show ?thesis by (simp add: patch_at_def)
  qed
  with Cons x show ?case by (auto simp: AddPatchSet_def patch_at_AddPatch) (simp_all add: patch_at_def)
qed (simp add: AddPatchSet_def patch_at_def)

lemma distinct_AddPatchSet: "distinct (map fst p) \<Longrightarrow> distinct (map fst (AddPatchSet q p))"
  by (induction q arbitrary: p) (auto simp: AddPatchSet_def distinct_AddPatch)

section \<open>Retries\<close>

text \<open>The law of \<open>ypath.Split\<close> that bounds the retries: the parent of a path is shorter.\<close>

definition split_law :: "'e cenv_scheme \<Rightarrow> bool" where
  "split_law E \<longleftrightarrow> (\<forall>path parent child. e_Split E path = Inr (parent, child) \<longrightarrow> length parent < length path)"

declare set_retry.simps [simp del]

lemma set_retry_stable:
  assumes "split_law E"
  shows "length dst \<le> n \<Longrightarrow> length dst \<le> m \<Longrightarrow> set_retry n E dst val = (set_retry m E dst val :: ('x, go_error) cact)"
proof (induction dst arbitrary: n m val rule: measure_induct_rule [of length])
  case (less dst)
  have body: "(case n of 0 \<Rightarrow> ret (Some e) | Suc k \<Rightarrow> set_retry k E parent v) = (case m of 0 \<Rightarrow> (ret (Some e) :: ('x, go_error) cact) | Suc k \<Rightarrow> set_retry k E parent v)"
    if "e_Split E dst = Inr (parent, child)" for parent child e v
  proof -
    have p: "length parent < length dst" using assms that by (auto simp: split_law_def)
    then obtain n' m' where "n = Suc n'" "m = Suc m'" using less.prems by (metis Suc_pred' less_le_trans less_nat_zero_code not_gr_zero)
    with p less.prems less.IH [OF p, of n' m' v] show ?thesis by simp
  qed
  show ?case
    unfolding set_retry.simps [of n] set_retry.simps [of m]
    by (rule arg_cong [where f = "State_Monad.bind _"], rule ext) (auto simp: body split: option.split sum.split prod.split)
qed

text \<open>The bound on the retries is never reached: with a larger one the result is the same.\<close>

lemma set_retry_bound: "split_law E \<Longrightarrow> length dst \<le> n \<Longrightarrow> set_retry n E dst value = target_SetNode E dst value"
  unfolding target_SetNode_def by (rule set_retry_stable) simp_all

section \<open>What applying a patch keeps\<close>

context yt_writing
begin

lemma kept_set_retry: "kept R (set_retry n E dst val)"
proof (induction n arbitrary: dst val)
  case 0
  show ?case unfolding set_retry.simps [of 0] nat.case by (intro yt_intros kept_yt_write)
next
  case (Suc n)
  show ?case unfolding set_retry.simps [of "Suc n"] nat.case by (intro yt_intros kept_yt_write Suc.IH)
qed

lemma kept_apply_step: "kept R (apply_step E dry path op)"
  unfolding apply_step_def target_SetNode_def
  by (cases "po_Op op"; simp only: patch_op.case; intro yt_intros kept_yt_write kept_set_retry)

lemma kept_ApplyPatch: "kept R (ApplyPatch E dry path patch)"
proof -
  have "kept R (apply_steps E dry path i patch)" for i
    by (induction patch arbitrary: i) (simp_all only: apply_steps.simps, (intro yt_intros kept_apply_step; assumption?)+)
  then show ?thesis by (simp add: ApplyPatch_def)
qed

lemma kept_ApplyPatchSet: "kept R (ApplyPatchSet E dry path patchSet)"
proof -
  have "kept R (apply_paths E dry path patchSet paths)" for paths
    by (induction paths) (simp_all only: apply_paths.simps, (intro yt_intros kept_ApplyPatch; assumption?)+)
  then show ?thesis by (simp add: ApplyPatchSet_def)
qed

end

section \<open>Order of application\<close>

text \<open>The patch of the client copies the cluster connection, so it has to come after the patches of that attribute.\<close>

lemma sorted_paths_order:
  assumes "sorted_paths p = before @ (''<>'' @ path) # after"
  shows "\<not> (\<exists>rest. CHR ''/'' # rest \<in> set after)"
proof
  assume "\<exists>rest. CHR ''/'' # rest \<in> set after"
  then obtain rest where "CHR ''/'' # rest \<in> set after" ..
  moreover have "sorted (sorted_paths p)" by (simp add: sorted_paths_def)
  ultimately have "''<>'' @ path \<le> CHR ''/'' # rest" using assms by (auto simp: sorted_append)
  then show False by (simp add: less_eq_char_def list_le_def)
qed

end
