(* ===== verification/Yt_Client.thy ===== *)
theory Yt_Client
  imports Token_Secret Ypatch Update_Flow
begin

text \<open>
  The YTsaurus client component, \<open>YtsaurusClient\<close> of \<open>pkg/components/ytsaurus_client.go\<close>, with the
  quorum check of \<open>pkg/checks/master.go\<close>: it creates the user and the client of the operator, checks the
  health of the cluster, applies Cypress patches, and during an update of the cluster carries out the
  steps that need the client - safe mode, saving, removing and restoring tablet cells.
\<close>

section \<open>State\<close>

text \<open>
  The configuration overrides and the config map with the applied patch.  The cells of the masters, primary
  first, are given by their labellers and the addresses of their servers; of every component the client
  knows the labeller and the patch.
\<close>

record clients = jobs +
  k_overrides :: "config_map managed option"
  k_patch :: "config_map managed"

type_synonym ('x, 'a) ycact = "('x clients_scheme, 'a) state"
type_synonym 'x yccomponent = "'x clients_ext jobs_ext ccomponent"

record 'x patched =
  pc_labeller :: labeller
  pc_patch :: "'x clients_scheme \<Rightarrow> patch_set option"

record 'x yt_client =
  yc_labeller :: labeller
  yc_job :: init_job
  yc_secret :: nat
  yc_httpProxy :: "'x yccomponent"
  yc_cells :: "(labeller \<times> nat) list"
  yc_components :: "'x patched list"

abbreviation "PrimaryMastersPath \<equiv> ''//sys/primary_masters''"
abbreviation "SecondaryMastersPath \<equiv> ''//sys/secondary_masters''"
abbreviation "MasterHydraPath \<equiv> ''orchid/monitoring/hydra''"
abbreviation "TabletCellsPath \<equiv> ''//sys/tablet_cells''"
abbreviation "EnableTabletCellDecommissionPath \<equiv>
  ''//sys/@config/tablet_manager/tablet_cell_decommissioner/enable_tablet_cell_decommission''"

text \<open>\<open>SimpleStatus\<close> reports the place in the file; the line is left out.\<close>

abbreviation client_updating :: component_status where
  "client_updating \<equiv> SimpleStatus ''ytsaurus_client.go'' SyncStatusUpdating"

text \<open>\<open>errors.Join\<close>, and the format of a list of strings.\<close>

definition errors_Join :: "go_error list \<Rightarrow> go_error" where
  "errors_Join errs = (case List.map_filter id errs of [] \<Rightarrow> None | es \<Rightarrow> Some (join ''\<newline>'' es))"

definition show_list :: "string list \<Rightarrow> string" where
  "show_list xs = ''['' @ join '' '' xs @ '']''"

section \<open>Quorum of masters\<close>

definition GetCypressPath :: "'e cenv_scheme \<Rightarrow> labeller \<Rightarrow> string" where
  "GetCypressPath E l =
    (if l_InstanceGroup l = '''' then PrimaryMastersPath else e_Child E SecondaryMastersPath (l_InstanceGroup l))"

text \<open>The state of every listed master, in order.\<close>

fun master_hydras ::
  "'e cenv_scheme \<Rightarrow> string \<Rightarrow> master_address list \<Rightarrow> ('x, string + (master_address \<times> master_hydra) list) cact" where
  "master_hydras E mastersPath [] = ret (Inr [])"
| "master_hydras E mastersPath (master # masters) = do {
     api \<leftarrow> yt_call E;
     case ya_GetHydra api (e_Child E (e_Child E mastersPath (ma_Address master)) MasterHydraPath) of
       Inl err \<Rightarrow> ret (Inl err)
     | Inr hydra \<Rightarrow> do {
         rest \<leftarrow> master_hydras E mastersPath masters;
         ret (map_sum id ((#) (master, hydra)) rest)
       }
   }"

definition master_names :: "(master_address \<times> master_hydra \<Rightarrow> bool) \<Rightarrow> (master_address \<times> master_hydra) list \<Rightarrow> string list" where
  "master_names P ms = map (\<lambda>(m, h). ''['' @ show_int (mh_SelfID h) @ ''] '' @ ma_Address m) (filter P ms)"

definition MasterQuorumHealth ::
  "'e cenv_scheme \<Rightarrow> string \<Rightarrow> int \<Rightarrow> int \<Rightarrow> ('x, bool \<times> string \<times> go_error) cact" where
  "MasterQuorumHealth E mastersPath totalCount requiredCount = do {
     api \<leftarrow> yt_call E;
     case ya_ListMasters api mastersPath of
       Inl err \<Rightarrow> ret (False, '''', Some err)
     | Inr masters \<Rightarrow> do {
         hydras \<leftarrow> master_hydras E mastersPath masters;
         case hydras of
           Inl err \<Rightarrow> ret (False, '''', Some err)
         | Inr ms \<Rightarrow> do {
             let inactive = master_names (\<lambda>(m, h). \<not> mh_Active h) ms;
             let maintenance = master_names (\<lambda>(m, h). ma_Maintenance m) ms;
             let leaders = master_names (\<lambda>(m, h). mh_State h = ''leading'') ms;
             let followers = master_names (\<lambda>(m, h). mh_State h = ''following'') ms;
             let (note0, ok) =
               (if maintenance \<noteq> [] then (''There is a master in maintenance'', False)
                else if inactive \<noteq> [] then (''There is a non-active master'', False)
                else if length leaders \<noteq> 1 then (''There is no single leader'', False)
                else if int (length followers) + 1 < requiredCount then (''Not enough followers'', False)
                else (''Quorum is OK'', True));
             ret (ok, note0 @ '': leaders/followers/required/total='' @ show_nat (length leaders) @ ''/'' @ show_nat (length followers) @
               ''/'' @ show_int requiredCount @ ''/'' @ show_int totalCount @ '', leaders='' @ show_list leaders @ '', followers='' @
               show_list followers @ '', inactive='' @ show_list inactive @ '', maintenance='' @ show_list maintenance, None)
           }
       }
   }"

section \<open>Health checks\<close>

abbreviation "ConditionMastersQuorumCheck \<equiv> ''MastersQuorumCheck''"
abbreviation "ConditionLostVitalChunksCheck \<equiv> ''LostVitalChunksCheck''"
abbreviation "ConditionQuorumMissingChunksCheck \<equiv> ''QuorumMissingChunksCheck''"
abbreviation "ConditionTabletCellBundlesHealthCheck \<equiv> ''TabletCellBundlesHealthCheck''"

definition ReportCondition :: "'e cenv_scheme \<Rightarrow> string \<Rightarrow> bool \<Rightarrow> string \<Rightarrow> go_error \<Rightarrow> ('x, go_error) cact" where
  "ReportCondition E conditionType ok msg err = do {
     current \<leftarrow> reads (IsStatusConditionTrue E conditionType);
     (if current \<noteq> ok then record_normal conditionType msg else ret ());
     modifies (SetStatusCondition E (MakeCondition conditionType ok msg err));
     ret err
   }"

definition quorum_condition :: "labeller \<Rightarrow> string" where
  "quorum_condition l = GetCondition l ''-QuorumCheck''"

primrec check_cells :: "'e cenv_scheme \<Rightarrow> (labeller \<times> nat) list \<Rightarrow> ('x, go_error list) cact" where
  "check_cells E [] = ret []"
| "check_cells E (cell # cells) = do {
     let (l, server) = cell;
     totalCount \<leftarrow> reads (\<lambda>w. si_instanceCount (k_servers w server));
     requiredCount \<leftarrow> reads (impl_minReady server 0);
     (ok, msg, err) \<leftarrow> MasterQuorumHealth E (GetCypressPath E l) totalCount requiredCount;
     reported \<leftarrow> ReportCondition E (quorum_condition l) ok msg err;
     errs \<leftarrow> check_cells E cells;
     ret (reported # errs)
   }"

definition UpdateMasterQuorumCheck :: "'e cenv_scheme \<Rightarrow> (labeller \<times> nat) list \<Rightarrow> ('x, go_error) cact" where
  "UpdateMasterQuorumCheck E cells = do {
     errs \<leftarrow> check_cells E cells;
     modifies (\<lambda>w. SetStatusCondition E (MergeConditions (mkcond ConditionMastersQuorumCheck ConditionTrue ''Update'' '''')
       (\<lambda>t. GetStatusCondition E t w) (map (quorum_condition \<circ> fst) cells)) w);
     ret (errors_Join errs)
   }"

text \<open>A variable that could not be read keeps its zero value.\<close>

definition UpdateCounterHealthCheck :: "'e cenv_scheme \<Rightarrow> string \<Rightarrow> string \<Rightarrow> ('x, go_error) cact" where
  "UpdateCounterHealthCheck E counterPath conditionType = do {
     api \<leftarrow> yt_call E;
     let (count, err) = (case ya_GetInt api counterPath of Inl e \<Rightarrow> (0, Some e) | Inr n \<Rightarrow> (n, None));
     ReportCondition E conditionType (count = 0) (counterPath @ '' = '' @ show_int count) err
   }"

definition GetNotGoodTabletCellBundles :: "'e cenv_scheme \<Rightarrow> ('x, string list \<times> go_error) cact" where
  "GetNotGoodTabletCellBundles E = do {
     api \<leftarrow> yt_call E;
     ret (case ya_ListHealth api ''//sys/tablet_cell_bundles'' of
            Inl err \<Rightarrow> ([], Some err)
          | Inr bundles \<Rightarrow> (map bh_Name (filter (\<lambda>b. bh_Health b \<noteq> ''good'') bundles), None))
   }"

definition UpdateTabletCellBundlesHealthCheck :: "'e cenv_scheme \<Rightarrow> ('x, go_error) cact" where
  "UpdateTabletCellBundlesHealthCheck E = do {
     (notGoodBundles, err) \<leftarrow> GetNotGoodTabletCellBundles E;
     let msg = (if notGoodBundles \<noteq> []
       then ''Tablet cell bundles ('' @ show_list notGoodBundles @ '') aren'' @ [CHR 0x27] @ ''t in '' @ [CHR 0x27] @ ''good'' @ [CHR 0x27] @ '' health''
       else '''');
     ReportCondition E ConditionTabletCellBundlesHealthCheck (msg = '''') msg err
   }"

definition UpdateClusterHealthChecks :: "'e cenv_scheme \<Rightarrow> (labeller \<times> nat) list \<Rightarrow> ('x, go_error) cact" where
  "UpdateClusterHealthChecks E cells = do {
     skip \<leftarrow> reads ShouldSkipCypressOperations;
     if \<not> skip then do {
       e1 \<leftarrow> UpdateMasterQuorumCheck E cells;
       e2 \<leftarrow> UpdateCounterHealthCheck E LostVitalChunksCountPath ConditionLostVitalChunksCheck;
       e3 \<leftarrow> UpdateCounterHealthCheck E QuorumMissingChunksCountPath ConditionQuorumMissingChunksCheck;
       e4 \<leftarrow> UpdateTabletCellBundlesHealthCheck E;
       modifies (\<lambda>w. SetStatusCondition E (MergeConditions (mkcond ConditionUpdateIsPossible ConditionTrue ''HealthChecks'' '''')
         (\<lambda>t. GetStatusCondition E t w)
         [ConditionMastersQuorumCheck, ConditionLostVitalChunksCheck, ConditionQuorumMissingChunksCheck, ConditionTabletCellBundlesHealthCheck]) w);
       ret (errors_Join [e1, e2, e3, e4])
     } else do {
       set_status_condition E ConditionUpdateIsPossible ConditionTrue ''HealthChecks'' ''Cypress operations skipped'';
       ret None
     }
   }"

section \<open>Safe mode, tablet cells and nodes\<close>

definition EnableSafeMode :: "'e cenv_scheme \<Rightarrow> ('x, go_error) cact" where
  "EnableSafeMode E = yt_write E (SetNode ''//sys/@enable_safe_mode'' (YBool True))"

definition DisableSafeMode :: "'e cenv_scheme \<Rightarrow> ('x, go_error) cact" where
  "DisableSafeMode E = yt_write E (SetNode ''//sys/@enable_safe_mode'' (YBool False))"

definition GetTabletCells :: "'e cenv_scheme \<Rightarrow> ('x, string + tablet_cell_bundle_info list) cact" where
  "GetTabletCells E = do {
     api \<leftarrow> yt_call E;
     ret (ya_ListBundles api ''//sys/tablet_cell_bundles'')
   }"

primrec remove_cells :: "'e cenv_scheme \<Rightarrow> string list \<Rightarrow> ('x, go_error) cact" where
  "remove_cells E [] = ret None"
| "remove_cells E (tabletCell # tabletCells) = do {
     err \<leftarrow> yt_write E (RemoveNode (e_Child E TabletCellsPath tabletCell) False False);
     if err \<noteq> None then ret err else remove_cells E tabletCells
   }"

text \<open>An error of switching decommissioning on again is only logged.\<close>

definition RemoveTabletCells :: "'e cenv_scheme \<Rightarrow> ('x, go_error) cact" where
  "RemoveTabletCells E = do {
     api \<leftarrow> yt_call E;
     case ya_ListNode api TabletCellsPath of
       Inl err \<Rightarrow> ret (Some err)
     | Inr tabletCells \<Rightarrow>
         if tabletCells = [] then ret None
         else do {
           disabled \<leftarrow> yt_write E (SetNode EnableTabletCellDecommissionPath (YBool False));
           if disabled \<noteq> None then ret disabled
           else do {
             err \<leftarrow> remove_cells E tabletCells;
             _ \<leftarrow> yt_write E (SetNode EnableTabletCellDecommissionPath (YBool True));
             ret err
           }
         }
   }"

definition AreTabletCellsRemoved :: "'e cenv_scheme \<Rightarrow> ('x, nat \<times> go_error) cact" where
  "AreTabletCellsRemoved E = do {
     api \<leftarrow> yt_call E;
     ret (case ya_ListNode api TabletCellsPath of
            Inl err \<Rightarrow> (0, Some err)
          | Inr tabletCells \<Rightarrow> (length tabletCells, None))
   }"

primrec RecoverTableCells :: "'e cenv_scheme \<Rightarrow> tablet_cell_bundle_info list \<Rightarrow> ('x, go_error) cact" where
  "RecoverTableCells E [] = ret None"
| "RecoverTableCells E (bundle # bundles) = do {
     err \<leftarrow> CreateTabletCells E (tcb_Name bundle) (tcb_TabletCellCount bundle);
     if err \<noteq> None then ret err else RecoverTableCells E bundles
   }"

abbreviation "disableBundleControllerPath \<equiv> ''//sys/@disable_bundle_controller''"

text \<open>Whether the bundle controller is disabled; \<open>None\<close> when the attribute does not exist.\<close>

definition IsBundleControllerDisabled :: "'e cenv_scheme \<Rightarrow> ('x, string + bool option) cact" where
  "IsBundleControllerDisabled E = do {
     api \<leftarrow> yt_call E;
     ret (case ya_GetBool api disableBundleControllerPath of
            Inr disabled \<Rightarrow> Inr (Some disabled)
          | Inl err \<Rightarrow>
              if e_ContainsResolveError E err then Inr None
              else Inl (''failed to get '' @ disableBundleControllerPath @ '': '' @ err))
   }"

definition SetBundleControllerDisabled :: "'e cenv_scheme \<Rightarrow> bool option \<Rightarrow> ('x, go_error) cact" where
  "SetBundleControllerDisabled E disabled =
    (case disabled of
       Some b \<Rightarrow> do {
         err \<leftarrow> yt_write E (SetNode disableBundleControllerPath (YBool b));
         ret (map_option (\<lambda>e. ''failed to set '' @ disableBundleControllerPath @ '': '' @ e) err)
       }
     | None \<Rightarrow> do {
         err \<leftarrow> yt_write E (RemoveNode disableBundleControllerPath False True);
         ret (map_option (\<lambda>e. ''failed to remove '' @ disableBundleControllerPath @ '': '' @ e) err)
       })"

abbreviation "realChunkLocationPath \<equiv> ''//sys/@config/node_tracker/enable_real_chunk_locations''"

definition ensureRealChunkLocationsEnabled :: "'e cenv_scheme \<Rightarrow> ('x, go_error) cact" where
  "ensureRealChunkLocationsEnabled E = do {
     api \<leftarrow> yt_call E;
     case ya_GetBool api realChunkLocationPath of
       Inl err \<Rightarrow>
         ret (if e_ContainsResolveError E err then None
              else Some (''failed to get '' @ realChunkLocationPath @ '': '' @ err))
     | Inr isChunkLocationsEnabled \<Rightarrow>
         if isChunkLocationsEnabled then ret None
         else do {
           err \<leftarrow> yt_write E (SetNode realChunkLocationPath (YBool True));
           ret (map_option (\<lambda>e. ''failed to set '' @ realChunkLocationPath @ '': '' @ e) err)
         }
   }"

definition getDataNodesInfo :: "'e cenv_scheme \<Rightarrow> ('x, string + data_node_meta list) cact" where
  "getDataNodesInfo E = do {
     api \<leftarrow> yt_call E;
     ret (map_sum (\<lambda>err. ''failed to list data_nodes: '' @ err) id (ya_ListDataNodes api (ComponentCypressPath DataNodeType)))
   }"

definition areActiveDataNodesWithImaginaryChunksExist :: "'e cenv_scheme \<Rightarrow> ('x, bool \<times> go_error) cact" where
  "areActiveDataNodesWithImaginaryChunksExist E = do {
     dndMeta \<leftarrow> getDataNodesInfo E;
     ret (case dndMeta of
            Inl err \<Rightarrow> (False, Some err)
          | Inr nodes \<Rightarrow> (filter (\<lambda>dnd. dn_UseImaginaryChunks dnd \<and> dn_State dnd \<noteq> ''offline'') nodes \<noteq> [], None))
   }"

section \<open>Cypress patches\<close>

definition client_GetCypressPatch :: "labeller \<Rightarrow> patch_set" where
  "client_GetCypressPatch l = [(''<>//sys/clusters'', [Copy (''/'' @ l_ClusterName l) ''//sys/@cluster_connection''])]"

abbreviation "CypressPatchFileName \<equiv> ''cypress-patch.yson''"
abbreviation "PendingCypressPatchFileName \<equiv> ''pending-cypress-patch.yson''"
abbreviation "PreviousCypressPatchFileName \<equiv> ''previous-cypress-patch.yson''"
abbreviation "ConfigOverridesVersionAnnotationName \<equiv> ''ytsaurus.tech/config-overrides-version''"
abbreviation "DescriptionAnnotationName \<equiv> ''kubernetes.io/description''"

text \<open>The overrides when they exist.\<close>

definition existing_overrides :: "config_map managed option \<Rightarrow> config_map k8s_object option" where
  "existing_overrides overrides =
    (case overrides of
       None \<Rightarrow> None
     | Some r \<Rightarrow> if managed_Exists r then Some (mr_old r) else None)"

definition override_data :: "config_map managed option \<Rightarrow> string \<Rightarrow> string option" where
  "override_data overrides fileName = Option.bind (existing_overrides overrides) (\<lambda>obj. o_Content obj fileName)"

text \<open>The name of the file of a component; every component has a label.\<close>

definition patch_file :: "labeller \<Rightarrow> string \<Rightarrow> string" where
  "patch_file l name0 = ptr_deref (GetCypressPatchFileName l name0) ''''"

record patch_build =
  pb_Data :: config_map
  pb_Current :: patch_set
  pb_Pending :: patch_set
  pb_Description :: string

definition override_patch :: "'e penv_scheme \<Rightarrow> config_map managed option \<Rightarrow> string \<Rightarrow> patch_set option \<Rightarrow> string + patch_set option" where
  "override_patch E overrides patchFileName componentPatch =
    (case override_data overrides patchFileName of
       None \<Rightarrow> Inr componentPatch
     | Some data \<Rightarrow>
         (case e_ParsePatch E data of
            Inl err \<Rightarrow> Inl (''cannot parse cypress patch override '' @ patchFileName @ '': '' @ err)
          | Inr override \<Rightarrow>
              Inr (Some (case componentPatch of None \<Rightarrow> override | Some p \<Rightarrow> AddPatchSet override p))))"

text \<open>A component whose patch is applied now: the previous text is kept when the text changes.\<close>

definition add_current :: "config_map \<Rightarrow> labeller \<Rightarrow> patch_set \<Rightarrow> string \<Rightarrow> patch_build \<Rightarrow> patch_build" where
  "add_current old l componentPatch text b =
    (let patchFileName = patch_file l CypressPatchFileName;
         previousFileName = patch_file l PreviousCypressPatchFileName;
         before = ptr_deref (old patchFileName) '''';
         previousData = (if text = before then ptr_deref (old previousFileName) '''' else before);
         data = (pb_Data b)(patchFileName \<mapsto> text)
     in b\<lparr>pb_Data := (if previousData \<noteq> '''' then data(previousFileName \<mapsto> previousData) else data),
          pb_Current := AddPatchSet componentPatch (pb_Current b)\<rparr>)"

text \<open>Any other component keeps its saved patch, and a change of it is pending.\<close>

definition add_saved :: "'e penv_scheme \<Rightarrow> config_map \<Rightarrow> labeller \<Rightarrow> patch_set \<Rightarrow> string \<Rightarrow> patch_build \<Rightarrow> string + patch_build" where
  "add_saved E old l componentPatch text b =
    (let patchFileName = patch_file l CypressPatchFileName;
         saved = (case old patchFileName of
            None \<Rightarrow> Inr ('''', b)
          | Some data \<Rightarrow>
              (case e_ParsePatch E data of
                 Inl err \<Rightarrow> Inl (''cannot parse current cypress patch '' @ patchFileName @ '': '' @ err)
               | Inr savedPatch \<Rightarrow> Inr (data, b\<lparr>pb_Data := (pb_Data b)(patchFileName \<mapsto> data), pb_Current := AddPatchSet savedPatch (pb_Current b)\<rparr>)))
     in case saved of
          Inl err \<Rightarrow> Inl err
        | Inr (savedData, b1) \<Rightarrow>
            let b2 = (if text \<noteq> savedData
                      then b1\<lparr>pb_Data := (pb_Data b1)(patch_file l PendingCypressPatchFileName \<mapsto> text),
                              pb_Pending := AddPatchSet componentPatch (pb_Pending b1),
                              pb_Description := pb_Description b1 @ ''pending: '' @ ptr_deref (GetFullComponentLabel l) '''' @ ''\<newline>''\<rparr>
                      else b1);
                previousFileName = patch_file l PreviousCypressPatchFileName
            in Inr (case old previousFileName of
                      None \<Rightarrow> b2
                    | Some data \<Rightarrow> b2\<lparr>pb_Data := (pb_Data b2)(previousFileName \<mapsto> data)\<rparr>))"

definition build_component :: "'e penv_scheme \<Rightarrow> 'x clients_scheme \<Rightarrow> 'x patched \<Rightarrow> patch_build \<Rightarrow> string + patch_build" where
  "build_component E w c b =
    (let l = pc_labeller c; patchFileName = patch_file l CypressPatchFileName
     in case override_patch E (k_overrides w) patchFileName (pc_patch c w) of
          Inl err \<Rightarrow> Inl err
        | Inr componentPatch \<Rightarrow>
            (case e_FormatPatch E componentPatch of
               Inl err \<Rightarrow> Inl (''cannot format component cypress patch '' @ patchFileName @ '': '' @ err)
             | Inr text \<Rightarrow>
                 if \<not> managed_Exists (k_patch w) \<or> IsUpdatingComponent (l_ComponentType l) (GetInstanceGroup l) w \<or>
                    GetClusterState w = ClusterStateInitializing
                 then Inr (add_current (o_Content (mr_old (k_patch w))) l (ptr_deref componentPatch []) text b)
                 else add_saved E (o_Content (mr_old (k_patch w))) l (ptr_deref componentPatch []) text b))"

fun build_components :: "'e penv_scheme \<Rightarrow> 'x clients_scheme \<Rightarrow> 'x patched list \<Rightarrow> patch_build \<Rightarrow> string + patch_build" where
  "build_components E w [] b = Inr b"
| "build_components E w (c # cs) b =
    (case build_component E w c b of
       Inl err \<Rightarrow> Inl err
     | Inr b1 \<Rightarrow> build_components E w cs b1)"

text \<open>The files with the whole patch, and the annotation with the description.\<close>

definition finish_build :: "'e penv_scheme \<Rightarrow> 'x clients_scheme \<Rightarrow> config_map k8s_object \<Rightarrow> patch_build \<Rightarrow> string + config_map k8s_object \<times> patch_set" where
  "finish_build E w cp b =
    (case e_FormatPatch E (Some (pb_Current b)) of
       Inl err \<Rightarrow> Inl (''cannot format current cypress patch '' @ CypressPatchFileName @ '': '' @ err)
     | Inr current \<Rightarrow>
         (let old = o_Content (mr_old (k_patch w));
              data1 = (pb_Data b)(CypressPatchFileName \<mapsto> current);
              pending = (if pb_Pending b = [] then Inr data1
                else case e_FormatPatch E (Some (pb_Pending b)) of
                       Inl err \<Rightarrow> Inl (''cannot format pending cypress patch '' @ PendingCypressPatchFileName @ '': '' @ err)
                     | Inr text \<Rightarrow> Inr (data1(PendingCypressPatchFileName \<mapsto> text)))
          in case pending of
               Inl err \<Rightarrow> Inl err
             | Inr data2 \<Rightarrow>
                 let before = ptr_deref (old CypressPatchFileName) '''';
                     previousPatchData = (if current = before then ptr_deref (old PreviousCypressPatchFileName) '''' else before);
                     data3 = (if previousPatchData \<noteq> '''' then data2(PreviousCypressPatchFileName \<mapsto> previousPatchData) else data2)
                 in Inr (SetMetaDataAnnotation DescriptionAnnotationName (pb_Description b) (cp\<lparr>o_Content := data3\<rparr>), pb_Current b)))"

definition BuildCypressPatch :: "'e penv_scheme \<Rightarrow> 'x yt_client \<Rightarrow> 'x clients_scheme \<Rightarrow> string + config_map k8s_object \<times> patch_set" where
  "BuildCypressPatch E yc w =
    (let cp0 = object_meta (yc_labeller yc) (mr_name (k_patch w)) ''*v1.ConfigMap'' Map.empty;
         (cp, description) = (case existing_overrides (k_overrides w) of
            None \<Rightarrow> (cp0, '''')
          | Some obj \<Rightarrow> (SetMetaDataAnnotation ConfigOverridesVersionAnnotationName (o_ResourceVersion obj) cp0,
                        ''overrides-version: '' @ o_ResourceVersion obj @ ''\<newline>''))
     in case build_components E w (yc_components yc) \<lparr>pb_Data = Map.empty, pb_Current = [], pb_Pending = [], pb_Description = description\<rparr> of
          Inl err \<Rightarrow> Inl err
        | Inr b \<Rightarrow>
            (case override_data (k_overrides w) CypressPatchFileName of
               None \<Rightarrow> finish_build E w cp b
             | Some data \<Rightarrow>
                 (case e_ParsePatch E data of
                    Inl err \<Rightarrow> Inl (''cannot parse cypress patch override '' @ CypressPatchFileName @ '': '' @ err)
                  | Inr patch \<Rightarrow> finish_build E w cp (b\<lparr>pb_Current := AddPatchSet patch (pb_Current b)\<rparr>))))"

definition SyncCypressPatch :: "'e penv_scheme \<Rightarrow> 'x yt_client \<Rightarrow> ('x, go_error) ycact" where
  "SyncCypressPatch E yc = do {
     built \<leftarrow> reads (BuildCypressPatch E yc);
     case built of
       Inl err \<Rightarrow> do {
         record_warning ''CypressPatch'' (''Failed to build cypress patch: '' @ err);
         set_status_condition E ''CypressPatchApplied'' ConditionFalse ''PatchBuildFailed'' (''Error: '' @ err);
         ret None
       }
     | Inr (cp, patch) \<Rightarrow> do {
         modifies (\<lambda>w. w\<lparr>k_patch := (k_patch w)\<lparr>mr_new := cp\<rparr>\<rparr>);
         r \<leftarrow> reads k_patch;
         synced \<leftarrow> managed_Sync ka_cm CmRequest E r;
         skip \<leftarrow> reads ShouldSkipCypressOperations;
         if synced \<noteq> None then ret synced
         else if skip then do {
           record_normal ''CypressPatch'' ''Skip patch apply in test'';
           ret None
         }
         else do {
           applied \<leftarrow> ApplyPatchSet E False '''' patch;
           (case applied of
              None \<Rightarrow> do {
                record_normal ''CypressPatch'' ''patch applied'';
                set_status_condition E ''CypressPatchApplied'' ConditionTrue ''PatchApplied''
                  (''Description: '' @ ptr_deref (annotation_of cp DescriptionAnnotationName) '''')
              }
            | Some err \<Rightarrow> do {
                record_warning ''CypressPatch'' (''Failed to apply cypress patch: '' @ err);
                set_status_condition E ''CypressPatchApplied'' ConditionFalse ''PatchApplyFailed'' (''Error: '' @ err)
              });
           ret None
         }
       }
   }"

section \<open>Steps of an update\<close>

text \<open>
  A step is carried out until its condition of the update is set; then nothing is left to do.  The condition
  is set once the step has succeeded.
\<close>

definition client_step ::
  "'e cenv_scheme \<Rightarrow> string \<Rightarrow> ('x, component_status \<times> go_error) ycact \<Rightarrow> ('x, component_status \<times> go_error) ycact" where
  "client_step E condition step = do {
     finished \<leftarrow> reads (IsUpdateStatusConditionTrue E condition);
     if finished then ret (client_updating, None) else step
   }"

definition mark_step :: "'e cenv_scheme \<Rightarrow> string \<Rightarrow> string \<Rightarrow> go_error \<Rightarrow> ('x, component_status \<times> go_error) ycact" where
  "mark_step E condition message err =
    (case err of
       Some e \<Rightarrow> ret (client_updating, Some e)
     | None \<Rightarrow> do {
         set_update_condition E condition ConditionTrue ''Update'' message;
         ret (client_updating, None)
       })"

definition save_cells :: "'e cenv_scheme \<Rightarrow> ('x, component_status \<times> go_error) ycact" where
  "save_cells E = do {
     bundleControllerDisabled \<leftarrow> IsBundleControllerDisabled E;
     case bundleControllerDisabled of
       Inl err \<Rightarrow> ret (client_updating, Some err)
     | Inr disabled \<Rightarrow> do {
         tabletCellBundles \<leftarrow> GetTabletCells E;
         case tabletCellBundles of
           Inl err \<Rightarrow> ret (client_updating, Some err)
         | Inr bundles \<Rightarrow> do {
             modifies (map_update_status (\<lambda>u. u\<lparr>us_BundleController := Some \<lparr>bci_Disabled = disabled\<rparr>, us_TabletCellBundles := bundles\<rparr>));
             mark_step E ''TabletCellsSaved'' ''Tablet cells were saved'' None
           }
       }
   }"

definition start_removing :: "'e cenv_scheme \<Rightarrow> ('x, component_status \<times> go_error) ycact" where
  "start_removing E = do {
     disabled \<leftarrow> SetBundleControllerDisabled E (Some True);
     err \<leftarrow> (if disabled \<noteq> None then ret disabled else RemoveTabletCells E);
     mark_step E ''TabletCellsRemovingStarted'' ''Tablet cells removing was started'' err
   }"

definition wait_removed :: "'e cenv_scheme \<Rightarrow> ('x, component_status \<times> go_error) ycact" where
  "wait_removed E = do {
     (count, err) \<leftarrow> AreTabletCellsRemoved E;
     if err \<noteq> None then ret (client_updating, err)
     else if count \<noteq> 0
     then ret (ComponentStatusUpdating (''Waiting for decommission of '' @ show_nat count @ '' tablet cells''), None)
     else mark_step E ''TabletCellsRemoved'' ''Tablet cells were removed'' None
   }"

definition check_imaginary_chunks :: "'e cenv_scheme \<Rightarrow> ('x, component_status \<times> go_error) ycact" where
  "check_imaginary_chunks E = do {
     (haveImaginaryChunks, err) \<leftarrow> areActiveDataNodesWithImaginaryChunksExist E;
     if \<not> haveImaginaryChunks then do {
       set_update_condition E ''DataNodesWithImaginaryChunksAbsent'' ConditionTrue ''Update''
         ''No active data nodes with imaginary chunks found'';
       ret (client_updating, err)
     }
     else do {
       requested \<leftarrow> reads (IsUpdateStatusConditionTrue E ''DataNodesNeedPodsRemoval'');
       (if requested then ret ()
        else set_update_condition E ''DataNodesNeedPodsRemoval'' ConditionTrue ''Update''
          ''Some data nodes have imaginary chunks and need to be restarted'');
       ret (client_updating, None)
     }
   }"

definition remove_imaginary_chunks :: "'e cenv_scheme \<Rightarrow> ('x, component_status \<times> go_error) ycact" where
  "remove_imaginary_chunks E = do {
     enabled \<leftarrow> reads (IsUpdateStatusConditionTrue E ''RealChunksAttributeEnabled'');
     if \<not> enabled then do {
       err \<leftarrow> ensureRealChunkLocationsEnabled E;
       mark_step E ''RealChunksAttributeEnabled'' ''Real chunk locations attribute is set to true'' err
     }
     else client_step E ''DataNodesWithImaginaryChunksAbsent'' (check_imaginary_chunks E)
   }"

definition recover_cells :: "'e cenv_scheme \<Rightarrow> ('x, component_status \<times> go_error) ycact" where
  "recover_cells E = do {
     saved \<leftarrow> reads (IsUpdateStatusConditionTrue E ''TabletCellsSaved'');
     updateStatus \<leftarrow> reads update_status_of;
     recovered \<leftarrow> (if saved then RecoverTableCells E (us_TabletCellBundles updateStatus) else ret None);
     err \<leftarrow> (if recovered \<noteq> None then ret recovered
       else case us_BundleController updateStatus of
              None \<Rightarrow> ret None
            | Some info \<Rightarrow> SetBundleControllerDisabled E (bci_Disabled info));
     mark_step E ''TabletCellsRecovered'' ''Tablet cells recovered'' err
   }"

definition client_states :: "update_state list" where
  "client_states = [UpdateStatePossibilityCheck, UpdateStateWaitingForSafeModeEnabled, UpdateStateWaitingForSafeModeDisabled,
     UpdateStateWaitingForTabletCellsSaving, UpdateStateWaitingForTabletCellsRecovery,
     UpdateStateWaitingForTabletCellsRemovingStart, UpdateStateWaitingForTabletCellsRemoved,
     UpdateStateWaitingForImaginaryChunksAbsence, UpdateStateWaitingForCypressPatch]"

definition client_update_step :: "'e penv_scheme \<Rightarrow> 'x yt_client \<Rightarrow> update_state \<Rightarrow> ('x, component_status \<times> go_error) ycact" where
  "client_update_step E yc state =
    (case state of
         UpdateStatePossibilityCheck \<Rightarrow> do {
           err \<leftarrow> UpdateClusterHealthChecks E (yc_cells yc);
           ret (client_updating, err)
         }
       | UpdateStateWaitingForSafeModeEnabled \<Rightarrow> client_step E ''SafeModeEnabled'' (do {
           err \<leftarrow> EnableSafeMode E;
           mark_step E ''SafeModeEnabled'' ''Safe mode was enabled'' err
         })
       | UpdateStateWaitingForTabletCellsSaving \<Rightarrow> client_step E ''TabletCellsSaved'' (save_cells E)
       | UpdateStateWaitingForTabletCellsRemovingStart \<Rightarrow> client_step E ''TabletCellsRemovingStarted'' (start_removing E)
       | UpdateStateWaitingForTabletCellsRemoved \<Rightarrow> client_step E ''TabletCellsRemoved'' (wait_removed E)
       | UpdateStateWaitingForImaginaryChunksAbsence \<Rightarrow> remove_imaginary_chunks E
       | UpdateStateWaitingForTabletCellsRecovery \<Rightarrow> client_step E ''TabletCellsRecovered'' (recover_cells E)
       | UpdateStateWaitingForSafeModeDisabled \<Rightarrow> client_step E ''SafeModeDisabled'' (do {
           err \<leftarrow> DisableSafeMode E;
           mark_step E ''SafeModeDisabled'' ''Safe mode disabled'' err
         })
       | UpdateStateWaitingForCypressPatch \<Rightarrow> client_step E ''CypressPatchApplied'' (do {
           err \<leftarrow> SyncCypressPatch E yc;
           mark_step E ''CypressPatchApplied'' ''Cypress patches applied'' err
         })
       | _ \<Rightarrow> ret (client_updating, None))"

definition client_handleUpdatingState :: "'e penv_scheme \<Rightarrow> 'x yt_client \<Rightarrow> bool \<Rightarrow> ('x, component_status \<times> go_error) ycact" where
  "client_handleUpdatingState E yc dry = do {
     state \<leftarrow> reads GetUpdateState;
     if dry then
       ret (if state \<in> set client_states then ComponentStatusUpdating ''Ytsaurus client actions'' else ComponentStatusReady, None)
     else client_update_step E yc state
   }"

section \<open>The component\<close>

definition fetch_config_map :: "'e kenv_scheme \<Rightarrow> config_map managed \<Rightarrow> ('x, config_map managed \<times> go_error) kact" where
  "fetch_config_map E r = managed_Fetch ka_cm E r"

text \<open>
  The HTTP proxy is fetched by its own component; \<open>cmp_Fetch\<close> is that method.
\<close>

definition client_Fetch :: "'e cenv_scheme \<Rightarrow> 'x yt_client \<Rightarrow> ('x, go_error) ycact" where
  "client_Fetch E yc = do {
     overrides \<leftarrow> reads k_overrides;
     resources_seq
      [Some (fetch_secret E (yc_secret yc)),
       Some (init_Fetch E (yc_job yc)),
       Some (State (\<lambda>w. case cmp_Fetch (yc_httpProxy yc) w of (w1, err) \<Rightarrow> (err, w1))),
       map_option (\<lambda>o0. do {
         (r, err) \<leftarrow> fetch_config_map E o0;
         modifies (\<lambda>w. w\<lparr>k_overrides := Some r\<rparr>);
         ret err
       }) overrides,
       Some (do {
         p \<leftarrow> reads k_patch;
         (r, err) \<leftarrow> fetch_config_map E p;
         modifies (\<lambda>w. w\<lparr>k_patch := r\<rparr>);
         ret err
       })]
   }"

definition NeedSyncCypressPatch :: "'e cenv_scheme \<Rightarrow> 'x clients_scheme \<Rightarrow> component_status" where
  "NeedSyncCypressPatch E w =
    (if \<not> managed_Exists (k_patch w) then ComponentStatusPending (''Need to create '' @ mr_name (k_patch w))
     else if (case existing_overrides (k_overrides w) of
                None \<Rightarrow> False
              | Some obj \<Rightarrow> o_ResourceVersion obj \<noteq>
                  ptr_deref (annotation_of (mr_old (k_patch w)) ConfigOverridesVersionAnnotationName) '''')
     then ComponentStatusPending (''Need to update overrides in '' @ mr_name (k_patch w))
     else if \<not> IsStatusConditionTrue E ''CypressPatchApplied'' w then
       (if ShouldSkipCypressOperations w then ComponentStatusReadyAfter ''Cypress patch applying is skipped''
        else ComponentStatusPending ''Need to apply cypress patch'')
     else ComponentStatusReadyAfter ''Cypress patch is up to date and applied'')"

text \<open>Once the user exists and the client is created: the steps of an update, the patch, or the health checks.\<close>

definition client_work :: "'e penv_scheme \<Rightarrow> 'x yt_client \<Rightarrow> bool \<Rightarrow> ('x, component_status \<times> go_error) ycact" where
  "client_work E yc dry = do {
     updating \<leftarrow> reads IsUpdating;
     if updating then client_handleUpdatingState E yc dry
     else do {
       patchStatus \<leftarrow> reads (NeedSyncCypressPatch E);
       if cs_SyncStatus patchStatus \<noteq> SyncStatusReady then do {
         err \<leftarrow> when_do (\<not> dry) (SyncCypressPatch E yc);
         ret (if err \<noteq> None then (ComponentStatusPending ''error'', err) else (patchStatus, None))
       }
       else do {
         possible \<leftarrow> reads (IsStatusConditionTrueAndObservedGeneration E ConditionUpdateIsPossible);
         if possible then ret (ComponentStatusReady, None)
         else if dry then ret (ComponentStatusPending ''Cluster health checks'', None)
         else do {
           _ \<leftarrow> UpdateClusterHealthChecks E (yc_cells yc);
           ret (ComponentStatusReady, None)
         }
       }
     }
   }"

definition client_Sync :: "'e penv_scheme \<Rightarrow> 'x yt_client \<Rightarrow> bool \<Rightarrow> ('x, component_status \<times> go_error) ycact" where
  "client_Sync E yc dry = do {
     hpStatus \<leftarrow> reads (GetStatus (yc_httpProxy yc));
     shutdown \<leftarrow> reads (\<lambda>w. cmt_Shutdown (GetClusterMaintenance w));
     if \<not> IsRunning hpStatus then ret (Blocker hpStatus, None)
     else if shutdown = ClusterShutdownEverything \<or> shutdown = ClusterShutdownExceptMasters
     then ret (ComponentStatusReadyAfter ''HTTP proxy is shutdown'', None)
     else ensure_secret E (yc_labeller yc) (yc_secret yc) dry (do {
       (status, err) \<leftarrow> init_Sync E (yc_job yc) dry;
       if err \<noteq> None \<or> cs_SyncStatus status \<noteq> SyncStatusReady then ret (status, err)
       else do {
         created \<leftarrow> reads k_client;
         if \<not> created \<and> e_NewClient E \<noteq> None then ret (ComponentStatusWaitingFor ''ytClient init'', e_NewClient E)
         else do {
           modifies (\<lambda>w. w\<lparr>k_client := True\<rparr>);
           client_work E yc dry
         }
       }
     })
   }"

end
