(* ===== verification/Client_Contracts.thy ===== *)
theory Client_Contracts
  imports Yt_Client
begin

text \<open>
  What the client component guarantees: an update is only declared possible when every check of this pass
  succeeded, and the tablet cells removed for an update are those restored after it.
\<close>

section \<open>The masters that a check has seen\<close>

definition hydra_path :: "'e cenv_scheme \<Rightarrow> string \<Rightarrow> master_address \<Rightarrow> string" where
  "hydra_path E path m = e_Child E (e_Child E path (ma_Address m)) MasterHydraPath"

text \<open>
  The answers from call \<open>n\<close> on describe a healthy cell: every listed master is active and not in maintenance, exactly
  one leads, and it has the required number of peers.
\<close>

definition quorum_answers :: "'e cenv_scheme \<Rightarrow> nat \<Rightarrow> string \<Rightarrow> (master_address \<times> master_hydra) list \<Rightarrow> bool" where
  "quorum_answers E n path ms \<longleftrightarrow> ya_ListMasters (e_Yt E n) path = Inr (map fst ms) \<and>
     (\<forall>i < length ms. ya_GetHydra (e_Yt E (Suc n + i)) (hydra_path E path (fst (ms ! i))) = Inr (snd (ms ! i)))"

definition quorum_holds :: "(master_address \<times> master_hydra) list \<Rightarrow> int \<Rightarrow> bool" where
  "quorum_holds ms required \<longleftrightarrow>
     (\<forall>(m, h) \<in> set ms. mh_Active h \<and> \<not> ma_Maintenance m) \<and>
     length (filter (\<lambda>(m, h). mh_State h = ''leading'') ms) = 1 \<and>
     required \<le> int (length (filter (\<lambda>(m, h). mh_State h = ''following'') ms)) + 1"

definition quorum_good :: "'e cenv_scheme \<Rightarrow> nat \<Rightarrow> string \<Rightarrow> int \<Rightarrow> bool" where
  "quorum_good E n path required \<longleftrightarrow> (\<exists>ms. quorum_answers E n path ms \<and> quorum_holds ms required)"

lemma run_master_hydras:
  assumes "run_state (master_hydras E path masters) w = (r, w')"
  shows "w' = w\<lparr>k_calls := k_calls w'\<rparr> \<and> k_calls w \<le> k_calls w' \<and>
    (\<forall>ms. r = Inr ms \<longrightarrow> map fst ms = masters \<and>
       (\<forall>i < length ms. ya_GetHydra (e_Yt E (k_calls w + i)) (hydra_path E path (fst (ms ! i))) = Inr (snd (ms ! i))))"
  using assms
proof (induction masters arbitrary: w r)
  case (Cons m masters)
  let ?w1 = "w\<lparr>k_calls := Suc (k_calls w)\<rparr>"
  show ?case
  proof (cases "ya_GetHydra (e_Yt E (k_calls w)) (hydra_path E path m)")
    case (Inl err)
    with Cons.prems show ?thesis by (auto simp: hydra_path_def)
  next
    case (Inr h)
    obtain r1 w1 where s: "run_state (master_hydras E path masters) ?w1 = (r1, w1)" by (metis surj_pair)
    have w': "w' = w1" "r = map_sum id ((#) (m, h)) r1"
      using Cons.prems Inr s by (auto simp: hydra_path_def)
    note IH = Cons.IH [OF s [folded w'(1)]]
    have "ya_GetHydra (e_Yt E (k_calls w + i)) (hydra_path E path (fst (ms ! i))) = Inr (snd (ms ! i))"
      if "r = Inr ms" "i < length ms" for ms i
      using that IH Inr w'(2) by (cases i; cases r1) auto
    moreover have "w' = w\<lparr>k_calls := k_calls w'\<rparr>"
      using IH by (metis (no_types, lifting) kube.update_convs(1) kube.surjective kube.ext_inject)
    ultimately show ?thesis using IH w'(2) by (cases r1) auto
  qed
qed auto

lemma run_master_hydras_ok:
  assumes "\<forall>i < length ms. ya_GetHydra (e_Yt E (k_calls w + i)) (hydra_path E path (fst (ms ! i))) = Inr (snd (ms ! i))"
  shows "fst (run_state (master_hydras E path (map fst ms)) w) = Inr ms"
  using assms
proof (induction ms arbitrary: w)
  case (Cons x ms)
  have "ya_GetHydra (e_Yt E (k_calls w)) (hydra_path E path (fst x)) = Inr (snd x)" using Cons.prems by force
  moreover have "fst (run_state (master_hydras E path (map fst ms)) (w\<lparr>k_calls := Suc (k_calls w)\<rparr>)) = Inr ms"
    using Cons.prems by (intro Cons.IH) force
  ultimately show ?case by (auto simp: hydra_path_def split: prod.splits)
qed simp

lemma master_names_simps [simp]: "master_names P ms = [] \<longleftrightarrow> filter P ms = []" "length (master_names P ms) = length (filter P ms)"
  by (simp_all add: master_names_def)

lemma run_MasterQuorumHealth:
  assumes "run_state (MasterQuorumHealth E path total0 required) w = ((ok, msg, err), w')"
  shows "w' = w\<lparr>k_calls := k_calls w'\<rparr>" "k_calls w < k_calls w'" "err = None \<and> ok \<longleftrightarrow> quorum_good E (k_calls w) path required"
proof -
  let ?w1 = "w\<lparr>k_calls := Suc (k_calls w)\<rparr>"
  have "w' = w\<lparr>k_calls := k_calls w'\<rparr> \<and> k_calls w < k_calls w' \<and> (err = None \<and> ok \<longleftrightarrow> quorum_good E (k_calls w) path required)"
  proof (cases "ya_ListMasters (e_Yt E (k_calls w)) path")
    case (Inl e)
    with assms show ?thesis by (auto simp: MasterQuorumHealth_def quorum_good_def quorum_answers_def)
  next
    case (Inr masters)
    obtain r w1 where h: "run_state (master_hydras E path masters) ?w1 = (r, w1)" by (metis surj_pair)
    note hs = run_master_hydras [OF h]
    have w1: "w1 = w\<lparr>k_calls := k_calls w1\<rparr>"
      using hs by (metis (no_types, lifting) kube.update_convs(1) kube.surjective kube.ext_inject)
    have same: "ms' = ms" if "r = Inr ms" "quorum_answers E (k_calls w) path ms'" for ms ms'
      using that Inr h run_master_hydras_ok [of ms' E ?w1 path] by (auto simp: quorum_answers_def)
    have some: "\<exists>ms. r = Inr ms" if "quorum_answers E (k_calls w) path ms'" for ms'
      using that Inr h run_master_hydras_ok [of ms' E ?w1 path] by (auto simp: quorum_answers_def)
    show ?thesis
    proof (cases r)
      case (Inl e)
      with assms Inr h have "w' = w1" "\<not> ok" by (simp_all add: MasterQuorumHealth_def)
      with w1 hs some Inl show ?thesis by (auto simp: quorum_good_def)
    next
      case r: (Inr ms)
      have "w' = w1" "err = None"
        using assms Inr h r by (simp_all add: MasterQuorumHealth_def Let_def split: if_splits)
      moreover have "quorum_answers E (k_calls w) path ms" using Inr hs r by (simp add: quorum_answers_def)
      moreover have "ok \<longleftrightarrow> quorum_holds ms required"
        using assms Inr h r by (auto simp: MasterQuorumHealth_def Let_def quorum_holds_def filter_empty_conv split: if_splits)
      ultimately show ?thesis using w1 hs same r by (auto simp: quorum_good_def)
    qed
  qed
  then show "w' = w\<lparr>k_calls := k_calls w'\<rparr>" "k_calls w < k_calls w'" "err = None \<and> ok \<longleftrightarrow> quorum_good E (k_calls w) path required"
    by blast+
qed

section \<open>Reports\<close>

text \<open>
  A pass of the checks only counts calls and sets conditions.  What it keeps: the servers, the resource but
  for its conditions, and the well-formedness of the conditions.
\<close>

definition checked :: "'x cluster_scheme \<Rightarrow> 'x cluster_scheme \<Rightarrow> bool" where
  "checked w w' \<longleftrightarrow> k_servers w' = k_servers w \<and> yt_Spec (w_object w') = yt_Spec (w_object w) \<and>
     yt_Generation (w_object w') = yt_Generation (w_object w) \<and>
     k_calls w \<le> k_calls w' \<and> (conds_wf w \<longrightarrow> conds_wf w')"

lemma preord_checked: "preord checked"
  by (auto simp: preord_def reflp_def transp_def checked_def)

lemma checked_trans: "checked w w1 \<Longrightarrow> checked w1 w2 \<Longrightarrow> checked w w2"
  using preordD(2) [OF preord_checked] .

lemma checked_calls: "k_calls w \<le> n \<Longrightarrow> checked w (w\<lparr>k_calls := n\<rparr>)"
  by (simp add: checked_def conds_wf_def)

lemma checked_Set: "meta_laws E \<Longrightarrow> checked w (SetStatusCondition E c w)"
  by (simp add: checked_def) (simp add: SetStatusCondition_def Let_def)

lemma status_calls [simp]: "status_of_cond (w\<lparr>k_calls := n\<rparr>) t = status_of_cond w t"
  "status_of_cond (RecordNormal r m w) t = status_of_cond w t"
  by (simp_all add: status_of_cond_def)

lemma c_MakeCondition [simp]: "c_Type (MakeCondition t ok msg err) = t"
  "c_Status (MakeCondition t ok msg err) = ConditionTrue \<longleftrightarrow> err = None \<and> ok"
  by (auto simp: MakeCondition_def Let_def split: option.splits)

lemma run_ReportCondition:
  assumes "meta_laws E" "conds_wf w" "run_state (ReportCondition E t ok msg err) w = (r, w')"
  shows "r = err" "checked w w'" "k_calls w' = k_calls w" "t' \<noteq> t \<Longrightarrow> status_of_cond w' t' = status_of_cond w t'"
    "status_of_cond w' t = Some ConditionTrue \<longleftrightarrow> err = None \<and> ok"
proof -
  define w1 where "w1 = (if IsStatusConditionTrue E t w \<noteq> ok then RecordNormal t msg w else w)"
  have w1: "checked w w1" "k_calls w1 = k_calls w" "conds_wf w1" "status_of_cond w1 x = status_of_cond w x" for x
    using assms(2) by (auto simp: w1_def checked_def conds_wf_def RecordNormal_def status_of_cond_def)
  have r: "r = err" "w' = SetStatusCondition E (MakeCondition t ok msg err) w1"
    using assms(3) by (auto simp: ReportCondition_def w1_def split: if_splits)
  show "r = err" by (fact r)
  show "checked w w'" using checked_trans [OF w1(1) checked_Set [OF assms(1)]] r by simp
  show "k_calls w' = k_calls w" using r w1(2) by (simp add: SetStatusCondition_def Let_def)
  show "t' \<noteq> t \<Longrightarrow> status_of_cond w' t' = status_of_cond w t'"
    using r w1(3,4) assms(1) by (simp add: status_of_SetStatusCondition)
  show "status_of_cond w' t = Some ConditionTrue \<longleftrightarrow> err = None \<and> ok"
    using r w1(3) assms(1) by (simp add: status_of_SetStatusCondition)
qed

text \<open>A healthy cell, seen by a call between two states.\<close>

definition cell_seen :: "'e cenv_scheme \<Rightarrow> 'x cluster_scheme \<Rightarrow> 'x cluster_scheme \<Rightarrow> labeller \<times> nat \<Rightarrow> bool" where
  "cell_seen E w w' = (\<lambda>(l, a). \<exists>n. k_calls w \<le> n \<and> n < k_calls w' \<and> quorum_good E n (GetCypressPath E l) (impl_minReady a 0 w))"

abbreviation cell_condition :: "labeller \<times> nat \<Rightarrow> string" where
  "cell_condition cell \<equiv> quorum_condition (fst cell)"

lemma cell_seen_mono: "checked w0 w \<Longrightarrow> checked w' w1 \<Longrightarrow> cell_seen E w w' cell \<Longrightarrow> cell_seen E w0 w1 cell"
proof (cases cell)
  case (Pair l a)
  assume c: "checked w0 w" "checked w' w1" "cell_seen E w w' cell"
  then obtain n where "k_calls w \<le> n" "n < k_calls w'" "quorum_good E n (GetCypressPath E l) (impl_minReady a 0 w)"
    using Pair by (auto simp: cell_seen_def)
  moreover have "impl_minReady a 0 w = impl_minReady a 0 w0" "k_calls w0 \<le> k_calls w" "k_calls w' \<le> k_calls w1"
    using c(1,2) by (simp_all add: checked_def impl_minReady_def)
  ultimately show ?thesis using Pair by (auto simp: cell_seen_def intro!: exI [of _ n])
qed

lemma run_check_cells:
  assumes "meta_laws E" "conds_wf w" "distinct (map cell_condition cells)" "run_state (check_cells E cells) w = (errs, w')"
  shows "checked w w' \<and> (\<forall>t. t \<notin> cell_condition ` set cells \<longrightarrow> status_of_cond w' t = status_of_cond w t) \<and>
    (\<forall>cell \<in> set cells. status_of_cond w' (cell_condition cell) = Some ConditionTrue \<longrightarrow> cell_seen E w w' cell) \<and>
    ((\<forall>cell \<in> set cells. status_of_cond w' (cell_condition cell) = Some ConditionTrue) \<longrightarrow> (\<forall>e \<in> set errs. e = None))"
  using assms(2-4)
proof (induction cells arbitrary: w errs)
  case Nil
  then show ?case using preordD(1) [OF preord_checked] by simp
next
  case (Cons cell cells)
  obtain l a where cell: "cell = (l, a)" by fastforce
  let ?path = "GetCypressPath E l" and ?total = "si_instanceCount (k_servers w a)" and ?min = "impl_minReady a 0 w"
  obtain ok msg err w1 where q: "run_state (MasterQuorumHealth E ?path ?total ?min) w = ((ok, msg, err), w1)" by (metis prod.collapse)
  note Q = run_MasterQuorumHealth [OF q]
  have c1: "checked w w1" using Q(1,2) checked_calls [of w "k_calls w1"] by simp
  have s1: "status_of_cond w1 t = status_of_cond w t" for t using Q(1) status_calls(1) by metis
  have wf1: "conds_wf w1" using c1 Cons.prems(1) by (simp add: checked_def)
  obtain r w2 where p: "run_state (ReportCondition E (quorum_condition l) ok msg err) w1 = (r, w2)" by (metis surj_pair)
  note P = run_ReportCondition [OF assms(1) wf1 p]
  have c2: "checked w w2" using checked_trans [OF c1 P(2)] .
  have wf2: "conds_wf w2" using c2 Cons.prems(1) by (simp add: checked_def)
  obtain es where s: "run_state (check_cells E cells) w2 = (es, w')" and errs: "errs = r # es"
    using Cons.prems(3) cell q p by (auto split: prod.splits)
  have d: "quorum_condition l \<notin> cell_condition ` set cells" "distinct (map cell_condition cells)"
    using Cons.prems(2) cell by auto
  note IH = Cons.IH [OF wf2 d(2) s]
  have c: "checked w w'" using checked_trans [OF c2] IH by blast
  have kept: "status_of_cond w' (quorum_condition l) = status_of_cond w2 (quorum_condition l)" using IH d(1) by blast
  have "cell_seen E w w' cell" "err = None" if "status_of_cond w' (quorum_condition l) = Some ConditionTrue"
  proof -
    have "err = None" "ok" using P(5) that kept by auto
    then have "quorum_good E (k_calls w) ?path ?min" using Q(3) by blast
    moreover have "k_calls w < k_calls w'" using Q(2) P(3) IH by (simp add: checked_def)
    ultimately show "cell_seen E w w' cell" using cell by (auto simp: cell_seen_def)
    show "err = None" by fact
  qed
  moreover have "cell_seen E w w' x" if "x \<in> set cells" "status_of_cond w' (cell_condition x) = Some ConditionTrue" for x
    using IH that cell_seen_mono [OF c2 preordD(1) [OF preord_checked]] by blast
  moreover have "status_of_cond w' t = status_of_cond w t" if "t \<notin> cell_condition ` set (cell # cells)" for t
    using that IH P(4) s1 cell by auto
  ultimately show ?case using c IH errs P(1) cell by auto
qed

text \<open>A merged condition is true when all its inputs are.\<close>

lemma MergeConditions_not_true:
  "c_Status out \<noteq> ConditionTrue \<Longrightarrow> c_Status (MergeConditions out g inputs) \<noteq> ConditionTrue"
proof (induction inputs arbitrary: out)
  case (Cons i inputs)
  have "c_Status (MergeConditions_step g i out) \<noteq> ConditionTrue"
    using Cons.prems by (simp add: MergeConditions_step_status)
  from Cons.IH [OF this] show ?case by (simp add: MergeConditions_Cons)
qed simp

lemma MergeConditions_true:
  "c_Status (MergeConditions out g inputs) = ConditionTrue \<Longrightarrow> i \<in> set inputs \<Longrightarrow> input_status g i = ConditionTrue"
proof (induction inputs arbitrary: out)
  case (Cons j inputs)
  have "input_status g j = ConditionTrue"
  proof (rule ccontr)
    assume "input_status g j \<noteq> ConditionTrue"
    then have "c_Status (MergeConditions_step g j out) \<noteq> ConditionTrue" by (simp add: MergeConditions_step_status)
    from MergeConditions_not_true [OF this] Cons.prems(1) show False by (simp add: MergeConditions_Cons)
  qed
  with Cons show ?case by (auto simp: MergeConditions_Cons)
qed simp

lemma MergeConditions_all_true:
  "c_Status out = ConditionTrue \<Longrightarrow> (\<And>i. i \<in> set inputs \<Longrightarrow> input_status g i = ConditionTrue) \<Longrightarrow> c_Status (MergeConditions out g inputs) = ConditionTrue"
  by (induction inputs arbitrary: out) (simp_all add: MergeConditions_Cons MergeConditions_step_status)

lemma input_status_true:
  "meta_laws E \<Longrightarrow> input_status (\<lambda>t. GetStatusCondition E t w) i = ConditionTrue \<longleftrightarrow> status_of_cond w i = Some ConditionTrue"
  by (auto simp: input_status_def GetStatusCondition_def meta_laws_simps status_of_cond_def split: option.splits)

lemma run_merge:
  assumes "meta_laws E" "conds_wf w"
    and "w' = SetStatusCondition E (MergeConditions (mkcond t ConditionTrue r m) (\<lambda>i. GetStatusCondition E i w) inputs) w"
  shows "checked w w'" "k_calls w' = k_calls w" "t' \<noteq> t \<Longrightarrow> status_of_cond w' t' = status_of_cond w t'"
    "status_of_cond w' t = Some ConditionTrue \<longleftrightarrow> (\<forall>i \<in> set inputs. status_of_cond w i = Some ConditionTrue)"
proof -
  let ?c = "MergeConditions (mkcond t ConditionTrue r m) (\<lambda>i. GetStatusCondition E i w) inputs"
  have t: "c_Type ?c = t" by simp
  show "checked w w'" using assms(1,3) checked_Set by blast
  show "k_calls w' = k_calls w" using assms(3) by (simp add: SetStatusCondition_def Let_def)
  show "t' \<noteq> t \<Longrightarrow> status_of_cond w' t' = status_of_cond w t'"
    unfolding assms(3) status_of_SetStatusCondition [OF assms(1,2)] t by simp
  have "status_of_cond w' t = Some ConditionTrue \<longleftrightarrow> c_Status ?c = ConditionTrue"
    unfolding assms(3) status_of_SetStatusCondition [OF assms(1,2)] t by simp
  also have "\<dots> \<longleftrightarrow> (\<forall>i \<in> set inputs. input_status (\<lambda>i. GetStatusCondition E i w) i = ConditionTrue)"
    using MergeConditions_true MergeConditions_all_true by (metis mkcond_simps(2))
  finally show "status_of_cond w' t = Some ConditionTrue \<longleftrightarrow> (\<forall>i \<in> set inputs. status_of_cond w i = Some ConditionTrue)"
    by (simp add: input_status_true [OF assms(1)])
qed

lemma run_UpdateCounterHealthCheck:
  assumes "meta_laws E" "conds_wf w" "run_state (UpdateCounterHealthCheck E path t) w = (r, w')"
  shows "checked w w'" "k_calls w' = Suc (k_calls w)" "t' \<noteq> t \<Longrightarrow> status_of_cond w' t' = status_of_cond w t'"
    "status_of_cond w' t = Some ConditionTrue \<longleftrightarrow> ya_GetInt (e_Yt E (k_calls w)) path = Inr 0" "status_of_cond w' t = Some ConditionTrue \<Longrightarrow> r = None"
proof -
  let ?w1 = "w\<lparr>k_calls := Suc (k_calls w)\<rparr>"
  obtain count err where c: "(case ya_GetInt (e_Yt E (k_calls w)) path of Inl e \<Rightarrow> (0, Some e) | Inr n \<Rightarrow> (n, None)) = (count, err)"
    by (metis surj_pair)
  have "conds_wf ?w1" using assms(2) by (simp add: conds_wf_def)
  note P = run_ReportCondition [OF assms(1) this, of t "count = 0" "path @ '' = '' @ show_int count" err r w']
  have p: "run_state (ReportCondition E t (count = 0) (path @ '' = '' @ show_int count) err) ?w1 = (r, w')"
    using assms(3) c by (simp add: UpdateCounterHealthCheck_def Let_def split: sum.splits)
  show "checked w w'" using checked_trans [OF checked_calls [of w "Suc (k_calls w)"] P(2) [OF p]] by simp
  show "k_calls w' = Suc (k_calls w)" using P(3) [OF p] by simp
  show "t' \<noteq> t \<Longrightarrow> status_of_cond w' t' = status_of_cond w t'" using P(4) [OF p] by simp
  show "status_of_cond w' t = Some ConditionTrue \<longleftrightarrow> ya_GetInt (e_Yt E (k_calls w)) path = Inr 0" "status_of_cond w' t = Some ConditionTrue \<Longrightarrow> r = None"
    using P(1,5) [OF p] c by (auto split: sum.splits)
qed

definition bundles_good :: "'e cenv_scheme \<Rightarrow> nat \<Rightarrow> bool" where
  "bundles_good E n \<longleftrightarrow> (\<exists>bundles. ya_ListHealth (e_Yt E n) ''//sys/tablet_cell_bundles'' = Inr bundles \<and>
     (\<forall>b \<in> set bundles. bh_Health b = ''good''))"

lemma run_UpdateTabletCellBundlesHealthCheck:
  assumes "meta_laws E" "conds_wf w" "run_state (UpdateTabletCellBundlesHealthCheck E) w = (r, w')"
  shows "checked w w'" "k_calls w' = Suc (k_calls w)"
    "t' \<noteq> ConditionTabletCellBundlesHealthCheck \<Longrightarrow> status_of_cond w' t' = status_of_cond w t'"
    "status_of_cond w' ConditionTabletCellBundlesHealthCheck = Some ConditionTrue \<longleftrightarrow> bundles_good E (k_calls w)"
    "status_of_cond w' ConditionTabletCellBundlesHealthCheck = Some ConditionTrue \<Longrightarrow> r = None"
proof -
  let ?w1 = "w\<lparr>k_calls := Suc (k_calls w)\<rparr>"
  obtain bad err where g: "run_state (GetNotGoodTabletCellBundles E) w = ((bad, err), ?w1)"
    by (cases "ya_ListHealth (e_Yt E (k_calls w)) ''//sys/tablet_cell_bundles''") (simp_all add: GetNotGoodTabletCellBundles_def)
  have good: "err = None \<and> bad = [] \<longleftrightarrow> bundles_good E (k_calls w)"
    using g by (auto simp: GetNotGoodTabletCellBundles_def bundles_good_def filter_empty_conv split: sum.splits)
  obtain msg where p: "run_state (ReportCondition E ConditionTabletCellBundlesHealthCheck (bad = []) msg err) ?w1 = (r, w')"
    using assms(3) g by (auto simp: UpdateTabletCellBundlesHealthCheck_def Let_def split: if_splits)
  have "conds_wf ?w1" using assms(2) by (simp add: conds_wf_def)
  note P = run_ReportCondition [OF assms(1) this p]
  show "checked w w'" using checked_trans [OF checked_calls [of w "Suc (k_calls w)"] P(2)] by simp
  show "k_calls w' = Suc (k_calls w)" using P(3) by simp
  show "t' \<noteq> ConditionTabletCellBundlesHealthCheck \<Longrightarrow> status_of_cond w' t' = status_of_cond w t'" using P(4) by simp
  show "status_of_cond w' ConditionTabletCellBundlesHealthCheck = Some ConditionTrue \<longleftrightarrow> bundles_good E (k_calls w)"
    "status_of_cond w' ConditionTabletCellBundlesHealthCheck = Some ConditionTrue \<Longrightarrow> r = None"
    using P(1,5) good by auto
qed

lemma quorum_condition_other:
  "quorum_condition l \<notin> {ConditionMastersQuorumCheck, ConditionLostVitalChunksCheck, ConditionQuorumMissingChunksCheck,
     ConditionTabletCellBundlesHealthCheck, ConditionUpdateIsPossible, ''ReadyToWork''}"
proof -
  have "take 12 (rev (quorum_condition l)) = rev ''-QuorumCheck''" by (simp add: quorum_condition_def GetCondition_def)
  then show ?thesis by auto
qed

lemma errors_Join_None: "errors_Join errs = None \<longleftrightarrow> (\<forall>e \<in> set errs. e = None)"
proof -
  have "List.map_filter id errs = [] \<longleftrightarrow> (\<forall>e \<in> set errs. e = None)" by (induction errs) (auto simp: List.map_filter_def)
  then show ?thesis by (cases "List.map_filter id errs") (auto simp: errors_Join_def)
qed

text \<open>Everything a pass of the checks has seen when it declares an update possible.\<close>

lemma run_UpdateMasterQuorumCheck:
  assumes "meta_laws E" "conds_wf w" "distinct (map cell_condition cells)" "run_state (UpdateMasterQuorumCheck E cells) w = (r, w')"
  shows "checked w w'"
    "status_of_cond w' ConditionMastersQuorumCheck = Some ConditionTrue \<Longrightarrow> r = None \<and> (\<forall>cell \<in> set cells. cell_seen E w w' cell)"
proof -
  obtain errs w1 where c: "run_state (check_cells E cells) w = (errs, w1)" by (metis surj_pair)
  note C = run_check_cells [OF assms(1-3) c]
  have wf: "conds_wf w1" using C assms(2) by (simp add: checked_def)
  have r: "r = errors_Join errs" "w' = SetStatusCondition E (MergeConditions (mkcond ConditionMastersQuorumCheck ConditionTrue ''Update'' '''')
      (\<lambda>t. GetStatusCondition E t w1) (map (quorum_condition \<circ> fst) cells)) w1"
    using assms(4) c by (simp_all add: UpdateMasterQuorumCheck_def)
  note M = run_merge [OF assms(1) wf r(2)]
  show "checked w w'" using checked_trans C M(1) by blast
  show "r = None \<and> (\<forall>cell \<in> set cells. cell_seen E w w' cell)" if "status_of_cond w' ConditionMastersQuorumCheck = Some ConditionTrue"
  proof -
    have t: "status_of_cond w1 (cell_condition cell) = Some ConditionTrue" if "cell \<in> set cells" for cell
      using M(4) \<open>status_of_cond w' _ = _\<close> that by simp
    have "cell_seen E w w' cell" if "cell \<in> set cells" for cell
      using C t [OF that] that cell_seen_mono [OF preordD(1) [OF preord_checked] M(1)] by blast
    moreover have "\<forall>e \<in> set errs. e = None" using C t by blast
    ultimately show ?thesis using r(1) by (simp add: errors_Join_None)
  qed
qed

section \<open>An update is only possible on a healthy cluster\<close>

text \<open>
  (C4) Safety of the health checks: when a pass of the checks that is not skipped leaves the condition
  \<open>UpdateIsPossible\<close> true - the condition on which the reconciler starts an update and the update flow passes its
  possibility check - then in this very pass every cell of the masters answered with a quorum (all masters active, none in
  maintenance, a single leader, enough followers), no vital chunk is lost, no chunk misses its
  quorum, every tablet cell bundle is good, and no read failed.
\<close>

theorem update_possible_is_safe:
  assumes "meta_laws E" "conds_wf w" "distinct (map cell_condition cells)" "\<not> ShouldSkipCypressOperations w"
    and "run_state (UpdateClusterHealthChecks E cells) w = (err, w')" "IsStatusConditionTrue E ConditionUpdateIsPossible w'"
  shows "err = None \<and> (\<forall>cell \<in> set cells. cell_seen E w w' cell) \<and>
    (\<exists>n. k_calls w \<le> n \<and> n + 3 = k_calls w' \<and> ya_GetInt (e_Yt E n) LostVitalChunksCountPath = Inr 0 \<and>
       ya_GetInt (e_Yt E (n + 1)) QuorumMissingChunksCountPath = Inr 0 \<and> bundles_good E (n + 2))"
proof -
  obtain e1 w1 where r1: "run_state (UpdateMasterQuorumCheck E cells) w = (e1, w1)" by (metis surj_pair)
  obtain e2 w2 where r2: "run_state (UpdateCounterHealthCheck E LostVitalChunksCountPath ConditionLostVitalChunksCheck) w1 = (e2, w2)" by (metis surj_pair)
  obtain e3 w3 where r3: "run_state (UpdateCounterHealthCheck E QuorumMissingChunksCountPath ConditionQuorumMissingChunksCheck) w2 = (e3, w3)" by (metis surj_pair)
  obtain e4 w4 where r4: "run_state (UpdateTabletCellBundlesHealthCheck E) w3 = (e4, w4)" by (metis surj_pair)
  let ?inputs = "[ConditionMastersQuorumCheck, ConditionLostVitalChunksCheck, ConditionQuorumMissingChunksCheck, ConditionTabletCellBundlesHealthCheck]"
  have r: "err = errors_Join [e1, e2, e3, e4]" "w' = SetStatusCondition E (MergeConditions
      (mkcond ConditionUpdateIsPossible ConditionTrue ''HealthChecks'' '''') (\<lambda>t. GetStatusCondition E t w4) ?inputs) w4"
    using assms(4,5) r1 r2 r3 r4 by (simp_all add: UpdateClusterHealthChecks_def)
  note Q = run_UpdateMasterQuorumCheck [OF assms(1-3) r1]
  have wf1: "conds_wf w1" using Q(1) assms(2) by (simp add: checked_def)
  note A = run_UpdateCounterHealthCheck [OF assms(1) wf1 r2]
  have wf2: "conds_wf w2" using A(1) wf1 by (simp add: checked_def)
  note B = run_UpdateCounterHealthCheck [OF assms(1) wf2 r3]
  have wf3: "conds_wf w3" using B(1) wf2 by (simp add: checked_def)
  note C = run_UpdateTabletCellBundlesHealthCheck [OF assms(1) wf3 r4]
  have wf4: "conds_wf w4" using C(1) wf3 by (simp add: checked_def)
  note M = run_merge [OF assms(1) wf4 r(2)]
  have "status_of_cond w' ConditionUpdateIsPossible = Some ConditionTrue"
    using assms(6) by (simp add: IsStatusCondition_iff [OF assms(1)])
  then have t: "status_of_cond w4 i = Some ConditionTrue" if "i \<in> set ?inputs" for i using M(4) that by blast
  have "checked w1 w'" using checked_trans [OF checked_trans [OF checked_trans [OF A(1) B(1)] C(1)] M(1)] .
  moreover have "e1 = None \<and> (\<forall>cell \<in> set cells. cell_seen E w w1 cell)"
    using Q(2) t [of ConditionMastersQuorumCheck] C(3) B(3) A(3) by simp
  moreover have "e2 = None \<and> ya_GetInt (e_Yt E (k_calls w1)) LostVitalChunksCountPath = Inr 0"
    using A(4,5) t [of ConditionLostVitalChunksCheck] C(3) B(3) by simp
  moreover have "e3 = None \<and> ya_GetInt (e_Yt E (k_calls w2)) QuorumMissingChunksCountPath = Inr 0"
    using B(4,5) t [of ConditionQuorumMissingChunksCheck] C(3) by simp
  moreover have "e4 = None \<and> bundles_good E (k_calls w3)"
    using C(4,5) t [of ConditionTabletCellBundlesHealthCheck] by simp
  moreover have "k_calls w' = k_calls w1 + 3" "k_calls w2 = k_calls w1 + 1" "k_calls w3 = k_calls w1 + 2"
    using A(2) B(2) C(2) M(2) by simp_all
  moreover have "k_calls w \<le> k_calls w1" using Q(1) by (simp add: checked_def)
  ultimately show ?thesis
    using r(1) cell_seen_mono [OF preordD(1) [OF preord_checked]] by (fastforce simp: errors_Join_None intro!: exI [of _ "k_calls w1"])
qed

section \<open>Tablet cells survive an update\<close>

abbreviation create_cell :: "string \<Rightarrow> yt_command" where
  "create_cell bundle \<equiv> CreateObject ''tablet_cell'' [(''tablet_cell_bundle'', YString bundle)]"

text \<open>The commands that create the cells of the saved bundles, from none, and restore the bundle controller.\<close>

definition restoring :: "tablet_cell_bundle_info list \<Rightarrow> bool option \<Rightarrow> yt_command list" where
  "restoring bundles disabled =
     concat (map (\<lambda>b. replicate (nat (tcb_TabletCellCount b)) (create_cell (tcb_Name b))) bundles) @
     [case disabled of Some b \<Rightarrow> SetNode disableBundleControllerPath (YBool b) | None \<Rightarrow> RemoveNode disableBundleControllerPath False True]"

text \<open>No bundle has a cell.\<close>

definition no_cells :: "'e cenv_scheme \<Rightarrow> bool" where
  "no_cells E \<longleftrightarrow> (\<forall>n b. ya_GetInt (e_Yt E n) (''//sys/tablet_cell_bundles/'' @ b @ ''/@tablet_cell_count'') = Inr 0)"

lemma run_yt_write: "run_state (yt_write E cmd) w = (err, w') \<Longrightarrow> k_commands w' = k_commands w @ [cmd] \<and> w_object w' = w_object w"
  by (auto simp: yt_write_def)

lemma run_create_cells:
  "run_state (create_cells E b n) w = (None, w') \<Longrightarrow> k_commands w' = k_commands w @ replicate n (create_cell b)"
proof (induction n arbitrary: w)
  case (Suc n)
  obtain err w1 where y: "run_state (yt_write E (create_cell b)) w = (err, w1)" by (metis surj_pair)
  have "err = None" "run_state (create_cells E b n) w1 = (None, w')" using Suc.prems y by (auto split: if_splits)
  with Suc.IH run_yt_write [OF y] show ?case by simp
qed simp

lemma run_RecoverTableCells:
  assumes "no_cells E" "run_state (RecoverTableCells E bundles) w = (None, w')"
  shows "k_commands w' = k_commands w @ concat (map (\<lambda>b. replicate (nat (tcb_TabletCellCount b)) (create_cell (tcb_Name b))) bundles)"
  using assms(2)
proof (induction bundles arbitrary: w)
  case (Cons b bundles)
  obtain err w1 where c: "run_state (CreateTabletCells E (tcb_Name b) (tcb_TabletCellCount b)) w = (err, w1)" by (metis surj_pair)
  have "err = None" "run_state (RecoverTableCells E bundles) w1 = (None, w')" using Cons.prems c by (auto split: if_splits)
  moreover have "k_commands w1 = k_commands w @ replicate (nat (tcb_TabletCellCount b)) (create_cell (tcb_Name b))"
    using c calculation(1) assms(1) run_create_cells by (fastforce simp: CreateTabletCells_def no_cells_def)
  ultimately show ?case using Cons.IH by simp
qed simp

lemma run_save_cells:
  assumes "run_state (save_cells E) w = ((st, None), w1)"
  obtains bundles disabled where "ya_ListBundles (e_Yt E (Suc (k_calls w))) ''//sys/tablet_cell_bundles'' = Inr bundles"
    "case ya_GetBool (e_Yt E (k_calls w)) disableBundleControllerPath of
       Inr b \<Rightarrow> disabled = Some b | Inl e \<Rightarrow> e_ContainsResolveError E e \<and> disabled = None"
    "us_TabletCellBundles (update_status_of w1) = bundles" "us_BundleController (update_status_of w1) = Some \<lparr>bci_Disabled = disabled\<rparr>"
proof -
  have u: "us_TabletCellBundles (update_status_of (SetUpdateStatusCondition E c v)) = us_TabletCellBundles (update_status_of v)"
    "us_BundleController (update_status_of (SetUpdateStatusCondition E c v)) = us_BundleController (update_status_of v)" for c and v :: "'a clients_scheme"
    by (auto simp: SetUpdateStatusCondition_def Let_def map_update_status_def map_status_def split: prod.splits)
  show ?thesis
    using assms that
    by (auto simp: save_cells_def IsBundleControllerDisabled_def GetTabletCells_def mark_step_def u map_update_status_def map_status_def
        split: sum.splits if_splits)
qed

lemma run_recover_cells:
  assumes "IsUpdateStatusConditionTrue E ''TabletCellsSaved'' w" "no_cells E" "run_state (recover_cells E) w = ((st, None), w')"
    and "us_BundleController (update_status_of w) = Some \<lparr>bci_Disabled = disabled\<rparr>"
  shows "k_commands w' = k_commands w @ restoring (us_TabletCellBundles (update_status_of w)) disabled"
proof -
  obtain recovered w1 where r: "run_state (RecoverTableCells E (us_TabletCellBundles (update_status_of w))) w = (recovered, w1)"
    by (metis surj_pair)
  obtain err w2 where s: "run_state (SetBundleControllerDisabled E disabled) w1 = (err, w2)" by (metis surj_pair)
  have n: "recovered = None" "err = None" "k_commands w' = k_commands w2"
    using assms(1,3,4) r s by (auto simp: recover_cells_def mark_step_def split: if_splits option.splits prod.splits)
  have "k_commands w2 = k_commands w1 @ [case disabled of Some b \<Rightarrow> SetNode disableBundleControllerPath (YBool b) | None \<Rightarrow> RemoveNode disableBundleControllerPath False True]"
    using s by (auto simp: SetBundleControllerDisabled_def split: option.splits prod.splits dest: run_yt_write)
  with n run_RecoverTableCells [OF assms(2)] r show ?thesis by (simp add: restoring_def)
qed

text \<open>
  (C28) Round trip of the tablet cells: what the recovery step of an update creates is what the saving step found.  If the cells
  were saved, the status of the update kept the record, and all cells are gone, then a
  successful recovery sends exactly the commands that create, for every bundle that was listed, as many cells
  as it had, and restores the switch of the bundle controller to its value, or removes it if it was absent.
\<close>

theorem tablet_cells_roundtrip:
  assumes "run_state (save_cells E) w = ((st, None), w1)"
    and "us_TabletCellBundles (update_status_of w2) = us_TabletCellBundles (update_status_of w1)"
    and "us_BundleController (update_status_of w2) = us_BundleController (update_status_of w1)"
    and "IsUpdateStatusConditionTrue E' ''TabletCellsSaved'' w2" "no_cells E'"
    and "run_state (recover_cells E') w2 = ((st', None), w3)"
  shows "\<exists>bundles disabled. ya_ListBundles (e_Yt E (Suc (k_calls w))) ''//sys/tablet_cell_bundles'' = Inr bundles \<and>
    (case ya_GetBool (e_Yt E (k_calls w)) disableBundleControllerPath of
       Inr b \<Rightarrow> disabled = Some b | Inl e \<Rightarrow> e_ContainsResolveError E e \<and> disabled = None) \<and>
    k_commands w3 = k_commands w2 @ restoring bundles disabled"
proof -
  obtain bundles disabled where s: "ya_ListBundles (e_Yt E (Suc (k_calls w))) ''//sys/tablet_cell_bundles'' = Inr bundles"
    "case ya_GetBool (e_Yt E (k_calls w)) disableBundleControllerPath of
       Inr b \<Rightarrow> disabled = Some b | Inl e \<Rightarrow> e_ContainsResolveError E e \<and> disabled = None"
    "us_TabletCellBundles (update_status_of w1) = bundles" "us_BundleController (update_status_of w1) = Some \<lparr>bci_Disabled = disabled\<rparr>"
    using run_save_cells [OF assms(1)] .
  have "us_BundleController (update_status_of w2) = Some \<lparr>bci_Disabled = disabled\<rparr>" using assms(3) s(4) by simp
  from run_recover_cells [OF assms(4-6) this] have "k_commands w3 = k_commands w2 @ restoring bundles disabled"
    using assms(2) s(3) by simp
  with s(1,2) show ?thesis by blast
qed


section \<open>The component keeps to its part of the status\<close>

text \<open>Relations that also tolerate the objects of the client.\<close>

locale client_bookkeeping = job_bookkeeping R for R :: "'x clients_scheme \<Rightarrow> 'x clients_scheme \<Rightarrow> bool" +
  assumes R_client: "R w (w\<lparr>k_client := b\<rparr>)"
    and R_overrides: "R w (w\<lparr>k_overrides := o0\<rparr>)"
    and R_patch: "R w (w\<lparr>k_patch := p\<rparr>)"
begin

lemma kept_client_objects:
  "kept R (modifies (\<lambda>w. w\<lparr>k_client := b\<rparr>))" "kept R (modifies (\<lambda>w. w\<lparr>k_overrides := o0\<rparr>))" "kept R (modifies (\<lambda>w. w\<lparr>k_patch := p w\<rparr>))"
  by (intro kept_modifies R_client R_overrides R_patch)+

lemma kept_client_Fetch:
  assumes "\<And>w. R w (fst (cmp_Fetch (yc_httpProxy yc) w))"
  shows "kept R (client_Fetch E yc)"
proof -
  have "kept R (State (\<lambda>w. case cmp_Fetch (yc_httpProxy yc) w of (w1, err) \<Rightarrow> (err, w1)))"
    using assms by (auto intro!: keptI split: prod.splits) (metis fst_conv)
  moreover have "kept R (do { (r, err) \<leftarrow> fetch_config_map E o0; modifies (\<lambda>w. w\<lparr>k_overrides := Some r\<rparr>); ret err })" for o0
    unfolding fetch_config_map_def by (intro yt_intros kept_client_objects)
  moreover have "kept R (do { p \<leftarrow> reads k_patch; (r, err) \<leftarrow> fetch_config_map E p; modifies (\<lambda>w. w\<lparr>k_patch := r\<rparr>); ret err })"
    unfolding fetch_config_map_def by (intro yt_intros kept_client_objects)
  ultimately show ?thesis
    unfolding client_Fetch_def
    by (intro yt_intros kept_resources_seq [OF preord_R]) (auto simp: eq_commute [of "Some _" "map_option _ _"] intro: kept_fetch_secret kept_init_Fetch)
qed

end

interpretation yq: client_bookkeeping keeps
  by unfold_locales (simp_all add: keeps_def same_control_def GetClusterState_def GetUpdateState_def
      GetUpdatingComponents_def conds_wf_def status_of_cond_def)

lemma quiet_ReportCondition: "meta_laws E \<Longrightarrow> t \<noteq> ''ReadyToWork'' \<Longrightarrow> quiet (ReportCondition E t ok msg err)"
  unfolding ReportCondition_def
  by (intro cq.yt_intros qt.kept_record kept_modifies keeps_SetStatusCondition) simp_all

lemma quiet_MasterQuorumHealth: "quiet (MasterQuorumHealth E path n m)"
proof -
  have "quiet (master_hydras E path masters)" for masters
    by (induction masters) (simp_all only: master_hydras.simps, (intro cq.yt_intros; assumption?)+)
  then show ?thesis unfolding MasterQuorumHealth_def by (intro cq.yt_intros)
qed

lemma quiet_merge:
  "meta_laws E \<Longrightarrow> t \<noteq> ''ReadyToWork'' \<Longrightarrow>
   quiet (modifies (\<lambda>w. SetStatusCondition E (MergeConditions (mkcond t s r m) (\<lambda>i. GetStatusCondition E i w) inputs) w))"
  by (intro kept_modifies keeps_SetStatusCondition) simp_all

lemma quiet_UpdateClusterHealthChecks:
  assumes "meta_laws E"
  shows "quiet (UpdateClusterHealthChecks E cells)"
proof -
  have q: "quorum_condition l \<noteq> ''ReadyToWork''" for l using quorum_condition_other [of l] by simp
  have "quiet (check_cells E cells)"
    by (induction cells) (simp_all only: check_cells.simps, (intro cq.yt_intros quiet_MasterQuorumHealth quiet_ReportCondition assms q; assumption?)+)
  then have a: "quiet (UpdateMasterQuorumCheck E cells)"
    unfolding UpdateMasterQuorumCheck_def by (intro cq.yt_intros quiet_merge assms) simp_all
  have b: "quiet (UpdateCounterHealthCheck E path t)" if "t \<noteq> ''ReadyToWork''" for path t
    unfolding UpdateCounterHealthCheck_def by (intro cq.yt_intros quiet_ReportCondition assms that)
  have c: "quiet (UpdateTabletCellBundlesHealthCheck E)"
    unfolding UpdateTabletCellBundlesHealthCheck_def GetNotGoodTabletCellBundles_def by (intro cq.yt_intros quiet_ReportCondition assms) simp
  show ?thesis
    unfolding UpdateClusterHealthChecks_def by (intro cq.yt_intros quiet_set_status_condition assms quiet_merge a b c) simp_all
qed

lemma quiet_SyncCypressPatch: "meta_laws E \<Longrightarrow> quiet (SyncCypressPatch E yc)"
  unfolding SyncCypressPatch_def
  by (intro cq.yt_intros qt.kept_record yq.kept_client_objects qt.kept_managed_Sync cq.kept_ApplyPatchSet quiet_set_status_condition) simp_all

lemma quiet_mark_step: "meta_laws E \<Longrightarrow> quiet (mark_step E c m err)"
  unfolding mark_step_def by (intro cq.yt_intros quiet_set_update_condition)

lemma quiet_client_actions:
  "quiet (EnableSafeMode E)" "quiet (DisableSafeMode E)" "quiet (GetTabletCells E)" "quiet (RemoveTabletCells E)"
  "quiet (AreTabletCellsRemoved E)" "quiet (RecoverTableCells E bundles)" "quiet (IsBundleControllerDisabled E)"
  "quiet (SetBundleControllerDisabled E d)" "quiet (ensureRealChunkLocationsEnabled E)"
  "quiet (areActiveDataNodesWithImaginaryChunksExist E)"
proof -
  have c: "quiet (create_cells E b n)" for b n
    by (induction n) (simp_all only: create_cells.simps, (intro cq.yt_intros cq.kept_yt_write; assumption?)+)
  have r: "quiet (remove_cells E cells)" for cells
    by (induction cells) (simp_all only: remove_cells.simps, (intro cq.yt_intros cq.kept_yt_write; assumption?)+)
  show "quiet (RecoverTableCells E bundles)"
    by (induction bundles) (simp_all only: RecoverTableCells.simps CreateTabletCells_def, (intro cq.yt_intros c; assumption?)+)
  show "quiet (RemoveTabletCells E)" unfolding RemoveTabletCells_def by (intro cq.yt_intros cq.kept_yt_write r)
qed (unfold EnableSafeMode_def DisableSafeMode_def GetTabletCells_def AreTabletCellsRemoved_def IsBundleControllerDisabled_def
    SetBundleControllerDisabled_def ensureRealChunkLocationsEnabled_def areActiveDataNodesWithImaginaryChunksExist_def getDataNodesInfo_def,
    (intro cq.yt_intros cq.kept_yt_write)+)

lemma quiet_client_steps:
  assumes "meta_laws E"
  shows "quiet (save_cells E)" "quiet (start_removing E)" "quiet (wait_removed E)" "quiet (remove_imaginary_chunks E)" "quiet (recover_cells E)"
proof -
  have u: "quiet (modifies (map_update_status (\<lambda>u. u\<lparr>us_BundleController := a, us_TabletCellBundles := b\<rparr>)))" for a b
    by (intro kept_modifies keeps_map_update_status) simp_all
  note steps = cq.yt_intros quiet_client_actions quiet_mark_step quiet_set_update_condition assms
  show "quiet (save_cells E)" unfolding save_cells_def by (intro steps u)
  show "quiet (start_removing E)" unfolding start_removing_def by (intro steps)
  show "quiet (wait_removed E)" unfolding wait_removed_def by (intro steps)
  show "quiet (recover_cells E)" unfolding recover_cells_def by (intro steps)
  show "quiet (remove_imaginary_chunks E)" unfolding remove_imaginary_chunks_def check_imaginary_chunks_def client_step_def by (intro steps)
qed

lemma quiet_client_Sync:
  assumes "meta_laws E" "ij_statusCondition (yc_job yc) \<noteq> ''ReadyToWork''"
  shows "quiet (client_Sync E yc dry)"
proof -
  note steps = cq.yt_intros quiet_client_actions quiet_client_steps quiet_mark_step quiet_UpdateClusterHealthChecks quiet_SyncCypressPatch assms
  have "quiet (client_update_step E yc state)" for state
    unfolding client_update_step_def client_step_def by (cases state; simp only: update_state.case; intro steps)
  then have "quiet (client_handleUpdatingState E yc dry)" unfolding client_handleUpdatingState_def by (intro steps)
  then have "quiet (client_work E yc dry)" unfolding client_work_def by (intro steps)
  then show ?thesis
    unfolding client_Sync_def
    by (intro steps jq.kept_ensure_secret yq.kept_client_objects quiet_init)
qed

text \<open>The client as a component of the cluster.\<close>

definition client_component :: "'e penv_scheme \<Rightarrow> 'x yt_client \<Rightarrow> nat \<Rightarrow> 'x yccomponent" where
  "client_component E yc address = \<lparr>cmp_id = address, cmp_labeller = yc_labeller yc,
     cmp_Fetch = (\<lambda>w. prod.swap (run_state (client_Fetch E yc) w)),
     cmp_NeedUpdate = (\<lambda>w. (w, ComponentStatusReady)),
     cmp_Sync = (\<lambda>dry w. prod.swap (run_state (client_Sync E yc dry) w))\<rparr>"

lemma client_well_behaved:
  assumes "meta_laws E" "ij_statusCondition (yc_job yc) \<noteq> ''ReadyToWork''" "well_behaved (yc_httpProxy yc)"
  shows "well_behaved (client_component E yc address)"
proof -
  have "quiet (client_Fetch E yc)" using assms(3) by (intro yq.kept_client_Fetch) (simp add: well_behaved_def)
  with quiet_client_Sync [OF assms(1,2)] show ?thesis
    by (simp add: well_behaved_def client_component_def keptD)
qed

section \<open>Witnesses\<close>

definition yt_env :: "yt_api \<Rightarrow> cenv" where
  "yt_env api = (sample_cenv (sample_api None []))\<lparr>e_Yt := (\<lambda>_. api)\<rparr>"

lemma meta_laws_yt_env [simp]: "meta_laws (yt_env api)"
  using meta_laws_sample_cenv [of "sample_api None []"] by (simp add: yt_env_def meta_laws_def)

definition healthy_yt :: yt_api where
  "healthy_yt = sample_yt\<lparr>ya_ListMasters := (\<lambda>_. Inr [\<lparr>ma_Address = ''a'', ma_Maintenance = False\<rparr>, \<lparr>ma_Address = ''b'', ma_Maintenance = False\<rparr>,
       \<lparr>ma_Address = ''c'', ma_Maintenance = False\<rparr>]),
     ya_GetHydra := (\<lambda>path. Inr \<lparr>mh_State = (if path = ''//sys/primary_masters/a/orchid/monitoring/hydra'' then ''leading'' else ''following''),
       mh_SelfID = 0, mh_Active = True, mh_ReadOnly = False, mh_LastSnapshotReadOnly = False\<rparr>),
     ya_ListHealth := (\<lambda>_. Inr [\<lparr>bh_Name = ''default'', bh_Health = ''good''\<rparr>])\<rparr>"

definition sample_state :: cluster where
  "sample_state = sample_cluster ClusterStateRunning empty_update_status (existing_server (sample_sts 0 3))"

definition sample_cells :: "(labeller \<times> nat) list" where
  "sample_cells = [(ForComponent MasterType '''' zero_labeller, 0)]"

text \<open>Checks of a cluster that always answers well pass.\<close>

lemma check_cells_pass:
  assumes "meta_laws E" "conds_wf w" "distinct (map cell_condition cells)" "run_state (check_cells E cells) w = (errs, w')"
    and "\<And>n l a. (l, a) \<in> set cells \<Longrightarrow> quorum_good E n (GetCypressPath E l) (impl_minReady a 0 w)"
  shows "\<forall>cell \<in> set cells. status_of_cond w' (cell_condition cell) = Some ConditionTrue"
  using assms(2-5)
proof (induction cells arbitrary: w errs)
  case (Cons cell cells)
  obtain l a where cell: "cell = (l, a)" by fastforce
  let ?path = "GetCypressPath E l" and ?total = "si_instanceCount (k_servers w a)" and ?min = "impl_minReady a 0 w"
  obtain ok msg err w1 where q: "run_state (MasterQuorumHealth E ?path ?total ?min) w = ((ok, msg, err), w1)" by (metis prod.collapse)
  note Q = run_MasterQuorumHealth [OF q]
  have c1: "checked w w1" using Q(1,2) checked_calls [of w "k_calls w1"] by simp
  have wf1: "conds_wf w1" using c1 Cons.prems(1) by (simp add: checked_def)
  obtain r w2 where p: "run_state (ReportCondition E (quorum_condition l) ok msg err) w1 = (r, w2)" by (metis surj_pair)
  note P = run_ReportCondition [OF assms(1) wf1 p]
  have c2: "checked w w2" using checked_trans [OF c1 P(2)] .
  then have wf2: "conds_wf w2" and m: "impl_minReady b 0 w2 = impl_minReady b 0 w" for b
    using Cons.prems(1) by (simp_all add: checked_def impl_minReady_def)
  obtain es where s: "run_state (check_cells E cells) w2 = (es, w')"
    using Cons.prems(3) cell q p by (auto split: prod.splits)
  have d: "quorum_condition l \<notin> cell_condition ` set cells" "distinct (map cell_condition cells)" using Cons.prems(2) cell by auto
  have "status_of_cond w' (quorum_condition l) = status_of_cond w2 (quorum_condition l)"
    using run_check_cells [OF assms(1) wf2 d(2) s] d(1) by blast
  moreover have "status_of_cond w2 (quorum_condition l) = Some ConditionTrue"
    using P(5) Q(3) Cons.prems(4) [of l a] cell by auto
  moreover have "\<forall>cell \<in> set cells. status_of_cond w' (cell_condition cell) = Some ConditionTrue"
    using Cons.IH [OF wf2 d(2) s] Cons.prems(4) m by simp
  ultimately show ?case using cell by simp
qed simp

lemma checks_pass:
  assumes "meta_laws E" "conds_wf w" "distinct (map cell_condition cells)" "\<not> ShouldSkipCypressOperations w"
    and "\<And>n l a. (l, a) \<in> set cells \<Longrightarrow> quorum_good E n (GetCypressPath E l) (impl_minReady a 0 w)"
    and "\<And>n. ya_GetInt (e_Yt E n) LostVitalChunksCountPath = Inr 0" "\<And>n. ya_GetInt (e_Yt E n) QuorumMissingChunksCountPath = Inr 0" "\<And>n. bundles_good E n"
    and "run_state (UpdateClusterHealthChecks E cells) w = (err, w')"
  shows "IsStatusConditionTrue E ConditionUpdateIsPossible w'"
proof -
  obtain errs w0 where r0: "run_state (check_cells E cells) w = (errs, w0)" by (metis surj_pair)
  obtain e1 w1 where r1: "run_state (UpdateMasterQuorumCheck E cells) w = (e1, w1)" by (metis surj_pair)
  obtain e2 w2 where r2: "run_state (UpdateCounterHealthCheck E LostVitalChunksCountPath ConditionLostVitalChunksCheck) w1 = (e2, w2)" by (metis surj_pair)
  obtain e3 w3 where r3: "run_state (UpdateCounterHealthCheck E QuorumMissingChunksCountPath ConditionQuorumMissingChunksCheck) w2 = (e3, w3)" by (metis surj_pair)
  obtain e4 w4 where r4: "run_state (UpdateTabletCellBundlesHealthCheck E) w3 = (e4, w4)" by (metis surj_pair)
  let ?inputs = "[ConditionMastersQuorumCheck, ConditionLostVitalChunksCheck, ConditionQuorumMissingChunksCheck, ConditionTabletCellBundlesHealthCheck]"
  have r: "w' = SetStatusCondition E (MergeConditions
      (mkcond ConditionUpdateIsPossible ConditionTrue ''HealthChecks'' '''') (\<lambda>t. GetStatusCondition E t w4) ?inputs) w4"
    using assms(4,9) r1 r2 r3 r4 by (simp_all add: UpdateClusterHealthChecks_def)
  have q: "w1 = SetStatusCondition E (MergeConditions (mkcond ConditionMastersQuorumCheck ConditionTrue ''Update'' '''')
      (\<lambda>t. GetStatusCondition E t w0) (map (quorum_condition \<circ> fst) cells)) w0"
    using r0 r1 by (simp add: UpdateMasterQuorumCheck_def)
  have wf0: "conds_wf w0" using run_check_cells [OF assms(1-3) r0] assms(2) by (simp add: checked_def)
  note Q = run_merge [OF assms(1) wf0 q]
  have wf1: "conds_wf w1" using Q(1) wf0 by (simp add: checked_def)
  note A = run_UpdateCounterHealthCheck [OF assms(1) wf1 r2]
  have wf2: "conds_wf w2" using A(1) wf1 by (simp add: checked_def)
  note B = run_UpdateCounterHealthCheck [OF assms(1) wf2 r3]
  have wf3: "conds_wf w3" using B(1) wf2 by (simp add: checked_def)
  note C = run_UpdateTabletCellBundlesHealthCheck [OF assms(1) wf3 r4]
  have wf4: "conds_wf w4" using C(1) wf3 by (simp add: checked_def)
  have "status_of_cond w1 ConditionMastersQuorumCheck = Some ConditionTrue"
    unfolding Q(4) using check_cells_pass [OF assms(1-3) r0 assms(5)] by simp
  moreover have "status_of_cond w2 ConditionLostVitalChunksCheck = Some ConditionTrue" using A(4) assms(6) by simp
  moreover have "status_of_cond w3 ConditionQuorumMissingChunksCheck = Some ConditionTrue" using B(4) assms(7) by simp
  moreover have "status_of_cond w4 ConditionTabletCellBundlesHealthCheck = Some ConditionTrue" using C(4) assms(8) by simp
  ultimately have "\<forall>i \<in> set ?inputs. status_of_cond w4 i = Some ConditionTrue" using A(3) B(3) C(3) by simp
  then show ?thesis using run_merge(4) [OF assms(1) wf4 r] by (simp add: IsStatusCondition_iff [OF assms(1)])
qed

theorem update_possible_is_safe_witness:
  "let E = yt_env healthy_yt; w' = snd (run_state (UpdateClusterHealthChecks E sample_cells) sample_state)
   in cell_seen E sample_state w' (hd sample_cells)"
proof -
  let ?E = "yt_env healthy_yt"
  have "quorum_good ?E n PrimaryMastersPath 3" for n
  proof -
    let ?m = "\<lambda>a. \<lparr>ma_Address = a, ma_Maintenance = False\<rparr>"
    let ?h = "\<lambda>st. \<lparr>mh_State = st, mh_SelfID = 0, mh_Active = True, mh_ReadOnly = False, mh_LastSnapshotReadOnly = False\<rparr>"
    let ?ms = "[(?m ''a'', ?h ''leading''), (?m ''b'', ?h ''following''), (?m ''c'', ?h ''following'')]"
    have "quorum_answers ?E n PrimaryMastersPath ?ms"
      by (auto simp: quorum_answers_def hydra_path_def yt_env_def healthy_yt_def sample_cenv_def kenv.defs less_Suc_eq)
    moreover have "quorum_holds ?ms 3" by (simp add: quorum_holds_def)
    ultimately show ?thesis by (auto simp: quorum_good_def)
  qed
  moreover have m: "GetCypressPath ?E (ForComponent MasterType '''' zero_labeller) = PrimaryMastersPath" "impl_minReady 0 0 sample_state = 3" by code_simp+
  ultimately have cells: "(l, a) \<in> set sample_cells \<Longrightarrow> quorum_good ?E n (GetCypressPath ?E l) (impl_minReady a 0 sample_state)" for n l a
    by (simp add: sample_cells_def)
  have api: "ya_GetInt (e_Yt ?E n) path = Inr 0" "bundles_good ?E n" for n path
    by (simp_all add: yt_env_def healthy_yt_def sample_yt_def bundles_good_def)
  have c: "conds_wf sample_state" "\<not> ShouldSkipCypressOperations sample_state" "distinct (map cell_condition sample_cells)" by code_simp+
  obtain err w' where r: "run_state (UpdateClusterHealthChecks ?E sample_cells) sample_state = (err, w')" by (metis surj_pair)
  have "IsStatusConditionTrue ?E ConditionUpdateIsPossible w'"
    using checks_pass [OF meta_laws_yt_env c(1,3,2) cells api(1,1,2) r] .
  from update_possible_is_safe [OF meta_laws_yt_env c(1,3,2) r this] r show ?thesis by (simp add: sample_cells_def)
qed

definition bundles_yt :: yt_api where
  "bundles_yt = sample_yt\<lparr>ya_ListBundles := (\<lambda>_. Inr [\<lparr>tcb_Name = ''default'', tcb_TabletCellCount = 2\<rparr>, \<lparr>tcb_Name = ''sys'', tcb_TabletCellCount = 1\<rparr>]),
     ya_GetBool := (\<lambda>_. Inr False)\<rparr>"

definition client_state :: clients where
  "client_state = jobs.extend sample_jobs \<lparr>k_overrides = None, k_patch = empty_managed '''' Map.empty\<rparr>"

theorem tablet_cells_roundtrip_witness:
  "let E = yt_env bundles_yt; w2 = snd (run_state (save_cells E) client_state)
   in k_commands (snd (run_state (recover_cells E) w2)) = k_commands w2 @
     [create_cell ''default'', create_cell ''default'', create_cell ''sys'', SetNode disableBundleControllerPath (YBool False)]"
proof -
  let ?E = "yt_env bundles_yt" and ?w = client_state
  obtain st w1 where s: "run_state (save_cells ?E) ?w = ((st, None), w1)"
  proof -
    have "snd (fst (run_state (save_cells ?E) ?w)) = None" by code_simp
    then show ?thesis using that by (metis prod.collapse)
  qed
  have "IsUpdateStatusConditionTrue ?E ''TabletCellsSaved'' (snd (run_state (save_cells ?E) ?w))" by code_simp
  then have t: "IsUpdateStatusConditionTrue ?E ''TabletCellsSaved'' w1" using s by simp
  have n: "no_cells ?E" by (simp add: no_cells_def yt_env_def bundles_yt_def sample_yt_def)
  have "snd (fst (run_state (recover_cells ?E) (snd (run_state (save_cells ?E) ?w)))) = None" by code_simp
  then obtain st' w3 where r: "run_state (recover_cells ?E) w1 = ((st', None), w3)" using s by (metis prod.collapse snd_conv)
  have "\<exists>bundles disabled. ya_ListBundles bundles_yt ''//sys/tablet_cell_bundles'' = Inr bundles \<and>
      (case ya_GetBool bundles_yt disableBundleControllerPath of Inr b \<Rightarrow> disabled = Some b | Inl e \<Rightarrow> e_ContainsResolveError ?E e \<and> disabled = None) \<and>
      k_commands w3 = k_commands w1 @ restoring bundles disabled"
    using tablet_cells_roundtrip [OF s refl refl t n r] by (simp add: yt_env_def)
  then show ?thesis using s r by (simp add: bundles_yt_def restoring_def eval_nat_numeral)
qed


end
