(* ===== verification/Masters.thy ===== *)
theory Masters
  imports Client_Contracts Webhook
begin

text \<open>
  The masters: \<open>pkg/components/master.go\<close>.  A cluster has one primary cell and any number of secondary cells, each
  a component of its own; the primary cell runs the scripts of all cells as init jobs.  New secondary cells
  have to be registered: the status of the update lists the unregistered cells, and three conditions of the
  cluster (preparation, registration, completion) say which pass of the maintenance is due.
\<close>

section \<open>Cells\<close>

type_synonym 'x jcomponent = "'x jobs_ext ccomponent"
type_synonym 'x joutcome = "('x, component_status \<times> go_error) jact"

abbreviation "ConditionMasterCellsPreparation \<equiv> ''MasterCellsPreparation''"
abbreviation "ConditionMasterCellsRegistration \<equiv> ''MasterCellsRegistration''"
abbreviation "ConditionMasterCellsCompletion \<equiv> ''MasterCellsCompletion''"
abbreviation "ConditionMasterCellsInitialized \<equiv> ''MasterCellsInitialized''"
abbreviation "PhaseCellsInitialization \<equiv> ''CellsInitialization''"
abbreviation "PhaseCellsRolesAssignment \<equiv> ''CellsRolesAssignment''"
abbreviation "PhaseCellsRolesAssigned \<equiv> ''CellsRolesAssigned''"
abbreviation "PhaseClusterInitialization \<equiv> ''ClusterInitialization''"
abbreviation "PhaseClusterReconfiguration \<equiv> ''ClusterReconfiguration''"
abbreviation "PhaseCellRegistration \<equiv> ''CellRegistration''"
abbreviation "InstancePhaseAnnotationName \<equiv> ''ytsaurus.tech/instance-phase''"
abbreviation "YTCellTagLabelName \<equiv> ''ytsaurus.tech/cell-tag''"
abbreviation "YTCellIDLabelName \<equiv> ''ytsaurus.tech/cell-id''"

text \<open>
  The primary cell has an init job and knows the secondary cells with their components.  The secret with the
  credentials of the administrator and the one of the uploader are kept by their addresses among the secrets;
  the identifier of the cell is the one \<open>generateCellID\<close> yields for its tag.
\<close>

record 'x master = "'x jobs_ext server_component" +
  m_mastersSpec :: masters_spec
  m_initJob :: "init_job option"
  m_adminCredentials :: "(string \<times> nat) option"
  m_uploaderSecret :: "nat option"
  m_secondaryMasters :: "(masters_spec \<times> 'x jcomponent) list"
  m_cellID :: string

definition IsPrimary :: "('x, 'z) master_scheme \<Rightarrow> bool" where
  "IsPrimary m \<longleftrightarrow> l_InstanceGroup (sc_labeller m) = ''''"

definition IsUnregistered :: "masters_spec \<Rightarrow> 'x yts_scheme \<Rightarrow> bool" where
  "IsUnregistered spec w =
    list_ex (\<lambda>info. mcm_CellTag info = ms_CellTag spec \<and> mcm_Unregistered info) (us_MasterCellsMaintenance (update_status_of w))"

text \<open>The format \<open>%+v\<close> of the list of cells.\<close>

definition show_maintenance :: "master_cell_maintenance_info list \<Rightarrow> string" where
  "show_maintenance infos = show_list (map (\<lambda>info. ''{CellTag:'' @ show_nat (mcm_CellTag info) @ '' Unregistered:'' @
     (if mcm_Unregistered info then ''true'' else ''false'') @ ''}'') infos)"

definition maintenance_with :: "masters_spec \<Rightarrow> bool \<Rightarrow> master_cell_maintenance_info list \<Rightarrow> master_cell_maintenance_info list" where
  "maintenance_with spec unregistered maintenance =
    filter (\<lambda>info. mcm_CellTag info \<noteq> ms_CellTag spec) maintenance @
    (if unregistered then [\<lparr>mcm_CellTag = ms_CellTag spec, mcm_Unregistered = True\<rparr>] else [])"

definition SetUnregistered :: "masters_spec \<Rightarrow> bool \<Rightarrow> ('x, unit) act" where
  "SetUnregistered spec unregistered = do {
     maintenance \<leftarrow> reads (\<lambda>w. maintenance_with spec unregistered (us_MasterCellsMaintenance (update_status_of w)));
     modifies (map_update_status (\<lambda>u. u\<lparr>us_MasterCellsMaintenance := maintenance\<rparr>));
     record_normal ''MasterCell'' (''Maintenance '' @ show_maintenance maintenance)
   }"

section \<open>Fetching\<close>

definition fetch_credentials :: "'e cenv_scheme \<Rightarrow> string \<Rightarrow> nat \<Rightarrow> ('x, go_error) jact" where
  "fetch_credentials E name0 a = do {
     api \<leftarrow> api_call E;
     s \<leftarrow> reads (\<lambda>w. k_secrets w a);
     let (found, err) = FetchObject (ka_secret api) name0 (mr_old s);
     modifies (\<lambda>w. w\<lparr>k_secrets := (k_secrets w)(a := s\<lparr>mr_old := found\<rparr>)\<rparr>);
     ret (go_error_of err)
   }"

definition Master_Fetch :: "'e cenv_scheme \<Rightarrow> ('x, 'z) master_scheme \<Rightarrow> ('x, go_error) jact" where
  "Master_Fetch E m = do {
     err \<leftarrow> (case m_adminCredentials m of None \<Rightarrow> ret None | Some (name0, a) \<Rightarrow> fetch_credentials E name0 a);
     if err \<noteq> None then ret err
     else resources_seq [Some (impl_Fetch E (sc_id m)), map_option (init_Fetch E) (m_initJob m),
            map_option (fetch_secret E) (m_uploaderSecret m)]
   }"

definition Master_ArePodsReady :: "'e cenv_scheme \<Rightarrow> ('x, 'z) master_scheme \<Rightarrow> 'x joutcome" where
  "Master_ArePodsReady E m = arePodsReady (serverImpl E (sc_id m)) [YTServerContainerName]"

section \<open>Updates\<close>

definition Master_NeedUpdate :: "'e cenv_scheme \<Rightarrow> ('x, 'z) master_scheme \<Rightarrow> ('x, component_status) jact" where
  "Master_NeedUpdate E m = do {
     maintenance \<leftarrow> reads GetClusterMaintenance;
     preparation \<leftarrow> reads (IsStatusConditionTrue E ConditionMasterCellsPreparation);
     registration \<leftarrow> reads (IsStatusConditionTrue E ConditionMasterCellsRegistration);
     completion \<leftarrow> reads (IsStatusConditionTrue E ConditionMasterCellsCompletion);
     unregistered \<leftarrow> reads (IsUnregistered (m_mastersSpec m));
     let maintained = cmt_Shutdown maintenance = ClusterShutdownExceptMasters;
     if maintained \<and> preparation then ret (ComponentStatusNeedUpdate ''Master cells preparation'')
     else if maintained \<and> registration then ret (ComponentStatusNeedUpdate ''Master cells registration'')
     else if maintained \<and> completion then ret (ComponentStatusNeedUpdate ''Master cells completion'')
     else if \<not> IsPrimary m \<and> unregistered \<and> \<not> registration
     then ret (ComponentStatusBlocked (''Secondary master cell '' @ l_InstanceGroup (sc_labeller m) @ '' cannot register yet''))
     else impl_needUpdate E (sc_id m)
   }"

definition remove_condition :: "'e cenv_scheme \<Rightarrow> string \<Rightarrow> ('x, unit) act" where
  "remove_condition E conditionType = modifies (RemoveStatusCondition E conditionType)"

primrec register_cells :: "masters_spec list \<Rightarrow> ('x, unit) act" where
  "register_cells [] = ret ()"
| "register_cells (spec # specs) = do {
     unregistered \<leftarrow> reads (IsUnregistered spec);
     (if is_InstanceCount (ms_InstanceSpec spec) > 0 \<and> unregistered then SetUnregistered spec False else ret ());
     register_cells specs
   }"

text \<open>What the completion of a job changes, for the states in which a job completes with more than its condition.\<close>

definition snapshots_saved :: "'e cenv_scheme \<Rightarrow> ('x, unit) act" where
  "snapshots_saved E = set_update_condition E ''SnaphotsSaved'' ConditionTrue ''Update'' ''Master read-only snapshots were built''"

definition close_registration :: "'e cenv_scheme \<Rightarrow> ('x, 'z) master_scheme \<Rightarrow> ('x, unit) jact" where
  "close_registration E m = do {
     register_cells (map fst (m_secondaryMasters m));
     remove_condition E ConditionMasterCellsRegistration
   }"

definition settle_cells :: "'e cenv_scheme \<Rightarrow> ('x, unit) act" where
  "settle_cells E = do {
     set_status_condition E ConditionMasterCellsInitialized ConditionTrue PhaseCellsRolesAssignment ''Master cells roles assignment complete'';
     set_status_condition E ConditionMasterCellsCompletion ConditionTrue PhaseCellRegistration ''Master cells completion is pending''
   }"

definition open_registration :: "'e cenv_scheme \<Rightarrow> bool \<Rightarrow> ('x, component_status \<times> go_error) act" where
  "open_registration E dry = do {
     (if dry then ret ()
      else do {
        remove_condition E ConditionMasterCellsPreparation;
        set_status_condition E ConditionMasterCellsRegistration ConditionTrue PhaseCellRegistration ''Master cells registration is open'';
        set_update_condition E (GetUpdateStateCompleteCondition UpdateStateWaitingForMasterCellsAcception) ConditionTrue ''Complete'' ''Done''
      });
     ret (ComponentStatusWaitingFor ''opening master cell registration'', None)
   }"

text \<open>The script of an update state of the primary cell, and what its completion changes.\<close>

definition update_script ::
  "'e cenv_scheme \<Rightarrow> ('x, 'z) master_scheme \<Rightarrow> update_state \<Rightarrow> (string \<times> ('x, unit) jact option) option" where
  "update_script E m state =
    (case state of
       UpdateStateWaitingForSnapshots \<Rightarrow> Some (''master-enter-read-only.sh'', Some (snapshots_saved E))
     | UpdateStateWaitingForMasterEnterReadOnly \<Rightarrow> Some (''master-enter-read-only.sh'', None)
     | UpdateStateWaitingForMasterCellsEnterReadOnly \<Rightarrow> Some (''master-enter-read-only.sh'', None)
     | UpdateStateWaitingForMasterExitReadOnly \<Rightarrow> Some (''master-exit-read-only.sh'', None)
     | UpdateStateWaitingForMasterCellsExitReadOnly \<Rightarrow> Some (''master-exit-read-only.sh'', None)
     | UpdateStateWaitingForSidecarsInitialize \<Rightarrow> Some (''cluster-initialization.sh'', None)
     | UpdateStateWaitingForMasterCellsPreparation \<Rightarrow> Some (''master-cells-preparation.sh'', None)
     | UpdateStateWaitingForMasterCellsRegistration \<Rightarrow> Some (''master-cells-wait-registration.sh'', Some (close_registration E m))
     | UpdateStateWaitingForMasterCellsSettlement \<Rightarrow> Some (''master-cells-settlement.sh'', Some (settle_cells E))
     | UpdateStateWaitingForMasterCellsCompletion \<Rightarrow>
         Some (''master-cells-completion.sh'', Some (remove_condition E ConditionMasterCellsCompletion))
     | _ \<Rightarrow> None)"

text \<open>A secondary cell has no init job; using it would dereference a nil pointer.\<close>

definition with_job :: "('x, 'z) master_scheme \<Rightarrow> (init_job \<Rightarrow> 'x joutcome) \<Rightarrow> 'x joutcome" where
  "with_job m run =
    (case m_initJob m of
       None \<Rightarrow> ret (ComponentStatusBlocked ''panic: nil init job'', Some ''panic: nil init job'')
     | Some J \<Rightarrow> run J)"

definition pods_removal :: "'e cenv_scheme \<Rightarrow> ('x, 'z) master_scheme \<Rightarrow> bool \<Rightarrow> 'x joutcome \<Rightarrow> 'x joutcome" where
  "pods_removal E m dry rest = do {
     strategy \<leftarrow> reads (getComponentUpdateStrategy MasterType (GetInstanceGroup (sc_labeller m)));
     handled (if strategy = ComponentUpdateModeTypeOnDelete
              then handleOnDeleteUpdatingClusterState E (sc_labeller m) component_UpdatePreCheck (serverImpl E (sc_id m)) dry
              else handleBulkUpdatingClusterState E (sc_labeller m) component_UpdatePreCheck (serverImpl E (sc_id m)) dry) rest
   }"

definition Master_update :: "'e cenv_scheme \<Rightarrow> ('x, 'z) master_scheme \<Rightarrow> bool \<Rightarrow> 'x joutcome \<Rightarrow> 'x joutcome" where
  "Master_update E m dry rest = do {
     chosen \<leftarrow> reads (IsUpdatingComponent (l_ComponentType (sc_labeller m)) (GetInstanceGroup (sc_labeller m)));
     updateState \<leftarrow> reads GetUpdateState;
     if \<not> chosen then ret (ComponentStatusReadyAfter ''Not updating component'', None)
     else if IsPrimary m \<and> updateState = UpdateStateWaitingForMasterCellsAcception then open_registration E dry
     else case (if IsPrimary m then update_script E m updateState else None) of
       Some (script, complete) \<Rightarrow> with_job m (\<lambda>J. init_RunUpdateScript E J dry updateState script complete)
     | None \<Rightarrow>
         if updateState = UpdateStateWaitingForPodsRemoval then pods_removal E m dry rest
         else if updateState = UpdateStateWaitingForMasterReady \<or> updateState = UpdateStateWaitingForMasterCellsRegistration then rest
         else ret (ComponentStatusReadyAfter ''No actions required for this update state'', None)
   }"

section \<open>Synchronisation\<close>

definition setInstanceCount :: "int \<Rightarrow> server_impl \<Rightarrow> server_impl" where
  "setInstanceCount instanceCount s = s\<lparr>si_instanceCount := instanceCount\<rparr>"

definition getPodAnnotation :: "string \<Rightarrow> server_impl \<Rightarrow> string" where
  "getPodAnnotation name0 s = ptr_deref (ss_TemplateAnnotations (o_Content (mr_old (si_statefulSet s))) name0) ''''"

text \<open>The assignment of roles to cells; it is recorded in dry runs, too.\<close>

definition assign_roles :: "'e cenv_scheme \<Rightarrow> ('x, unit) act" where
  "assign_roles E = do {
     maintenance \<leftarrow> reads GetClusterMaintenance;
     cellsInitialized \<leftarrow> reads (GetStatusCondition E ConditionMasterCellsInitialized);
     let assigning = (case cellsInitialized of None \<Rightarrow> False | Some c \<Rightarrow> c_Reason c = PhaseCellsRolesAssignment);
     if cmt_Shutdown maintenance = ClusterShutdownExceptMasters \<and> cmt_AssignMasterCellsRoles maintenance then
       (if \<not> assigning then do {
          set_status_condition E ConditionMasterCellsInitialized ConditionFalse PhaseCellsRolesAssignment ''Master cells roles assignment is pending'';
          set_status_condition E ConditionMasterCellsPreparation ConditionTrue PhaseClusterReconfiguration ''Master cells roles assignment is pending''
        } else ret ())
     else if assigning \<and> (case cellsInitialized of None \<Rightarrow> False | Some c \<Rightarrow> c_Status c = ConditionTrue) then
       set_status_condition E ConditionMasterCellsInitialized ConditionTrue PhaseCellsRolesAssigned ''Master cells roles assigned''
     else ret ()
   }"

definition cells_step :: "'e cenv_scheme \<Rightarrow> ('x, 'z) master_scheme \<Rightarrow> bool \<Rightarrow> 'x joutcome \<Rightarrow> 'x joutcome" where
  "cells_step E m dry rest = do {
     unregistered \<leftarrow> reads (IsUnregistered (m_mastersSpec m));
     preparation \<leftarrow> reads (IsStatusConditionTrue E ConditionMasterCellsPreparation);
     registration \<leftarrow> reads (IsStatusConditionTrue E ConditionMasterCellsRegistration);
     let initiated = is_InstanceCount (ms_InstanceSpec (m_mastersSpec m)) > 0;
     let joining = \<not> IsPrimary m \<and> initiated \<and> unregistered;
     if \<not> IsPrimary m \<and> \<not> initiated \<and> \<not> unregistered then do {
       (if dry then ret () else SetUnregistered (m_mastersSpec m) True);
       ret (ComponentStatusWaitingFor ''marking secondary master cell unregistered'', None)
     }
     else if joining \<and> \<not> registration \<and> \<not> preparation then do {
       (if dry then ret ()
        else set_status_condition E ConditionMasterCellsPreparation ConditionTrue PhaseClusterReconfiguration
          ''Secondary master cells registration is pending'');
       ret (ComponentStatusWaitingFor ''starting secondary master cell registration'', None)
     }
     else do {
       (if joining \<and> \<not> registration then upd_server (sc_id m) (setInstanceCount 0) else ret ());
       assign_roles E;
       rest
     }
   }"

primrec string_of_location_type :: "location_type \<Rightarrow> string" where
  "string_of_location_type LocationTypeChunkStore = ''ChunkStore''"
| "string_of_location_type LocationTypeChunkCache = ''ChunkCache''"
| "string_of_location_type LocationTypeSlots = ''Slots''"
| "string_of_location_type LocationTypeLogs = ''Logs''"
| "string_of_location_type LocationTypeMasterChangelogs = ''MasterChangelogs''"
| "string_of_location_type LocationTypeMasterSnapshots = ''MasterSnapshots''"
| "string_of_location_type LocationTypeImageCache = ''ImageCache''"
| "string_of_location_type LocationTypeJobProxyLogs = ''JobProxyLogs''"
| "string_of_location_type LocationTypeInitJobLogs = ''InitJobLogs''"
| "string_of_location_type (OtherLocationType s) = s"

text \<open>
  The uploader of snapshots needs mounts for the locations of snapshots and changelogs; of the pod template the
  container is built.
\<close>

definition missing_location :: "instance_spec \<Rightarrow> location_type list \<Rightarrow> go_error" where
  "missing_location spec requiredLocations =
    (case find (\<lambda>t. FindFirstLocation (is_Locations spec) t = None) requiredLocations of
       Some t \<Rightarrow> Some (''no location of type '' @ quoted (string_of_location_type t) @ '' found'')
     | None \<Rightarrow>
         map_option (\<lambda>l. ''no volume mount covers location '' @ quoted (string_of_location_type (loc_LocationType l)) @ '' (path '' @ quoted (loc_Path l) @ '')'')
           (find (\<lambda>l. loc_LocationType l \<in> set requiredLocations \<and> FindVolumeMountForPath (is_VolumeMounts spec) (loc_Path l) = None)
             (is_Locations spec)))"

definition addHydraPersistenceUploaderToPodSpec ::
  "string \<Rightarrow> instance_spec \<Rightarrow> (string \<times> string) list \<Rightarrow> string + (string \<times> string) list" where
  "addHydraPersistenceUploaderToPodSpec hydraImage spec containers =
    (case missing_location spec [LocationTypeMasterSnapshots, LocationTypeMasterChangelogs] of
       Some err \<Rightarrow> Inl (''failed to resolve mounts for hydra persistence uploader: '' @ err)
     | None \<Rightarrow> Inr (containers @ [(''hydra-persistence-uploader'', hydraImage)]))"

definition set_template :: "(stateful_set \<Rightarrow> stateful_set) \<Rightarrow> nat \<Rightarrow> ('x servers_scheme, unit) state" where
  "set_template f a = upd_server a (map_new f)"

definition build_containers :: "'e cenv_scheme \<Rightarrow> masters_spec \<Rightarrow> (string \<times> string) list \<Rightarrow> (string \<times> string) list \<times> go_error" where
  "build_containers E spec containers =
    (case (case ms_HydraPersistenceUploader spec of
             None \<Rightarrow> Inr containers
           | Some uploader \<Rightarrow>
               (case hpu_Image uploader of
                  None \<Rightarrow> Inr containers
                | Some hydraImage \<Rightarrow> addHydraPersistenceUploaderToPodSpec hydraImage (ms_InstanceSpec spec) containers)) of
       Inl err \<Rightarrow> (containers, Some err)
     | Inr containers1 \<Rightarrow> AddSidecarsToPodSpec E (ms_Sidecars spec) containers1)"

definition Master_doServerSync :: "'e cenv_scheme \<Rightarrow> ('x, 'z) master_scheme \<Rightarrow> ('x, go_error) jact" where
  "Master_doServerSync E m = do {
     let a = sc_id m;
     let spec = m_mastersSpec m;
     upd_server a buildStatefulSet;
     set_template (\<lambda>ss. ss\<lparr>ss_TemplateLabels := (ss_TemplateLabels ss)(YTCellTagLabelName \<mapsto> GetCellName (ms_CellTag spec),
       YTCellIDLabelName \<mapsto> m_cellID m)\<rparr>) a;
     initializing \<leftarrow> reads IsInitializing;
     cellsInitialized \<leftarrow> reads (IsStatusConditionTrue E ConditionMasterCellsInitialized);
     (if initializing \<and> \<not> cellsInitialized
      then set_template (\<lambda>ss. ss\<lparr>ss_TemplateAnnotations := (ss_TemplateAnnotations ss)(InstancePhaseAnnotationName \<mapsto> PhaseCellsInitialization)\<rparr>) a
      else ret ());
     s \<leftarrow> get_server a;
     let (containers, err) = build_containers E spec (ss_Containers (o_Content (mr_new (si_statefulSet s))));
     set_template (\<lambda>ss. ss\<lparr>ss_Containers := containers\<rparr>) a;
     if err \<noteq> None then ret err else impl_Sync E a
   }"

text \<open>
  During the initialisation masters are started once more after their roles are assigned: the annotation of the
  phase in the pod template asks for it.
\<close>

definition Master_needSync :: "'e cenv_scheme \<Rightarrow> ('x, 'z) master_scheme \<Rightarrow> ('x, bool) jact" where
  "Master_needSync E m = do {
     needSync \<leftarrow> serverComponent_NeedSync E m;
     initializing \<leftarrow> reads IsInitializing;
     cellsInitialized \<leftarrow> reads (IsStatusConditionTrue E ConditionMasterCellsInitialized);
     s \<leftarrow> get_server (sc_id m);
     ret (needSync \<or> initializing \<and> cellsInitialized \<and> getPodAnnotation InstancePhaseAnnotationName s = PhaseCellsInitialization)
   }"

primrec wait_for_all :: "'x ccomponent list \<Rightarrow> 'x outcome \<Rightarrow> 'x outcome" where
  "wait_for_all [] rest = rest"
| "wait_for_all (c # cs) rest = wait_for (Some c) (wait_for_all cs rest)"

text \<open>The two phases of the initialisation; the first one completes with a status that is not ready.\<close>

definition cells_initialized :: "'e cenv_scheme \<Rightarrow> component_status \<Rightarrow> ('x, component_status) act" where
  "cells_initialized E status = do {
     set_status_condition E ConditionMasterCellsInitialized ConditionTrue PhaseCellsInitialization ''Master cell roles initialized'';
     ret (ComponentStatusWaitingFor ''cluster initialization'')
   }"

definition runInitPhaseJobs :: "'e cenv_scheme \<Rightarrow> ('x, 'z) master_scheme \<Rightarrow> bool \<Rightarrow> 'x joutcome" where
  "runInitPhaseJobs E m dry = with_job m (\<lambda>J. do {
     cellsInitialized \<leftarrow> reads (IsStatusConditionTrue E ConditionMasterCellsInitialized);
     if \<not> cellsInitialized
     then init_RunScript E J dry PhaseCellsInitialization ''master-cells-initialization.sh'' (Some (cells_initialized E))
     else init_RunScript E J dry PhaseClusterInitialization ''cluster-initialization.sh'' None
   })"

text \<open>A step that has to be ready before the next one runs.\<close>

definition ready_then :: "('s, component_status \<times> go_error) state \<Rightarrow> ('s, component_status \<times> go_error) state \<Rightarrow>
   ('s, component_status \<times> go_error) state" where
  "ready_then step rest = do {
     (status, err) \<leftarrow> step;
     if \<not> IsReady status \<or> err \<noteq> None then ret (status, err) else rest
   }"

definition Master_work :: "'e cenv_scheme \<Rightarrow> ('x, 'z) master_scheme \<Rightarrow> bool \<Rightarrow> 'x joutcome" where
  "Master_work E m dry =
     sync_server (Master_needSync E m) dry (Master_doServerSync E m)
     (ready_then (Master_ArePodsReady E m)
     (wait_for_all (map snd (m_secondaryMasters m)) (do {
        initializing \<leftarrow> reads IsInitializing;
        if IsPrimary m \<and> initializing
        then ready_then (runInitPhaseJobs E m dry) (ret (ComponentStatusReady, None))
        else ret (ComponentStatusReady, None)
      })))"

definition Master_Sync :: "'e cenv_scheme \<Rightarrow> ('x, 'z) master_scheme \<Rightarrow> bool \<Rightarrow> 'x joutcome" where
  "Master_Sync E m dry =
     if_updating (Master_update E m dry)
     ((case m_uploaderSecret m of None \<Rightarrow> id | Some a \<Rightarrow> ensure_secret E (sc_labeller m) a dry)
     (do {
        initializing \<leftarrow> reads IsInitializing;
        if initializing then Master_work E m dry else cells_step E m dry (Master_work E m dry)
      }))"

end
