(* ===== verification/Master_Contracts.thy ===== *)
theory Master_Contracts
  imports Masters
begin

text \<open>
  What the masters promise: the registration of secondary cells, when the operator may start their pods, what
  readiness of the masters means, and that the component keeps to its part of the status.
\<close>

section \<open>Registration of cells\<close>

lemma IsUnregistered_frame [simp]:
  "IsUnregistered spec (RecordNormal r msg w) = IsUnregistered spec w"
  by (simp add: IsUnregistered_def RecordNormal_def)

lemma IsUnregistered_with:
  "IsUnregistered spec (map_update_status (\<lambda>u. u\<lparr>us_MasterCellsMaintenance := maintenance_with spec' b (us_MasterCellsMaintenance (update_status_of w))\<rparr>) w) =
   (if ms_CellTag spec = ms_CellTag spec' then b else IsUnregistered spec w)"
  by (auto simp: IsUnregistered_def maintenance_with_def list_ex_iff map_update_status_def map_status_def)

lemma run_SetUnregistered:
  "IsUnregistered spec (snd (run_state (SetUnregistered spec' b) w)) = (if ms_CellTag spec = ms_CellTag spec' then b else IsUnregistered spec w)"
  by (simp add: SetUnregistered_def record_normal_def IsUnregistered_with)

text \<open>The cells registered by the completion of the registration are those that have instances.\<close>

lemma run_register_cells:
  "IsUnregistered spec (snd (run_state (register_cells specs) w)) \<longleftrightarrow>
   IsUnregistered spec w \<and> \<not> list_ex (\<lambda>s. ms_CellTag s = ms_CellTag spec \<and> is_InstanceCount (ms_InstanceSpec s) > 0) specs"
proof (induction specs arbitrary: w)
  case (Cons s specs)
  have same: "ms_CellTag s = ms_CellTag spec \<Longrightarrow> IsUnregistered s w = IsUnregistered spec w" by (simp add: IsUnregistered_def)
  show ?case using same by (auto simp: Cons.IH run_SetUnregistered case_prod_beta split: if_splits)
qed simp

section \<open>The component keeps to its part of the status\<close>

lemma quiet_SetUnregistered: "quiet (SetUnregistered spec b)"
  unfolding SetUnregistered_def
  by (intro kept_intros quiet_record kept_modifies keeps_map_update_status) simp_all

lemma quiet_register_cells: "quiet (register_cells specs)"
  by (induction specs) (simp_all only: register_cells.simps, (intro kept_intros quiet_SetUnregistered; assumption?)+)

lemma quiet_remove_condition: "meta_laws E \<Longrightarrow> t \<noteq> ''ReadyToWork'' \<Longrightarrow> quiet (remove_condition E t)"
  unfolding remove_condition_def by (intro kept_modifies keeps_RemoveStatusCondition)

lemma quiet_master_steps:
  assumes "meta_laws E"
  shows "quiet (snapshots_saved E)" "quiet (close_registration E m)" "quiet (settle_cells E)" "quiet (open_registration E dry)"
    "quiet (assign_roles E)"
  unfolding snapshots_saved_def close_registration_def settle_cells_def open_registration_def assign_roles_def
  by (intro kept_intros quiet_set_update_condition quiet_set_status_condition quiet_remove_condition quiet_register_cells assms; simp)+

lemma quiet_update_script:
  "meta_laws E \<Longrightarrow> update_script E m st = Some (script, complete) \<Longrightarrow> complete = Some finish \<Longrightarrow> quiet finish"
  by (cases st) (auto simp: update_script_def quiet_master_steps quiet_remove_condition)

lemma quiet_pods_removal: "meta_laws E \<Longrightarrow> quiet rest \<Longrightarrow> quiet (pods_removal E m dry rest)"
  unfolding pods_removal_def component_UpdatePreCheck_def
  by (intro kept_intros impl.quiet_handleOnDelete impl.quiet_handleBulk)

lemma kept_ready_then [kept_intros]: "preord R \<Longrightarrow> kept R step \<Longrightarrow> kept R rest \<Longrightarrow> kept R (ready_then step rest)"
  unfolding ready_then_def by (intro kept_intros)

lemma kept_wait_for_all [kept_intros]: "preord R \<Longrightarrow> kept R rest \<Longrightarrow> kept R (wait_for_all cs rest)"
  by (induction cs) (auto intro: kept_intros)

lemma quiet_with_job: "(\<And>J. m_initJob m = Some J \<Longrightarrow> quiet (run J)) \<Longrightarrow> quiet (with_job m run)"
  unfolding with_job_def by (cases "m_initJob m") (auto intro: kept_intros)

abbreviation job_conditions_ok :: "('x, 'z) master_scheme \<Rightarrow> bool" where
  "job_conditions_ok m \<equiv> pred_option (\<lambda>J. ij_statusCondition J \<noteq> ''ReadyToWork'') (m_initJob m)"

lemma quiet_Master_update:
  assumes "meta_laws E" "job_conditions_ok m" "quiet rest"
  shows "quiet (Master_update E m dry rest)"
proof -
  have script: "quiet (case (if IsPrimary m then update_script E m st else None) of
      Some (script, complete) \<Rightarrow> with_job m (\<lambda>J. init_RunUpdateScript E J dry st script complete) | None \<Rightarrow> other)"
    if "quiet other" for st other
    using that assms(2) by (auto split: option.split if_splits intro!: quiet_with_job quiet_init quiet_update_script assms(1))
  show ?thesis
    unfolding Master_update_def
    by (intro kept_bind kept_reads kept_if kept_return preord_keeps script quiet_master_steps quiet_pods_removal assms)
qed

lemma quiet_Master_doServerSync: "quiet (Master_doServerSync E m)"
  unfolding Master_doServerSync_def set_template_def by (intro cq.yt_intros sq.kept_impl_Sync)

lemma quiet_runInitPhaseJobs:
  assumes "meta_laws E" "job_conditions_ok m" shows "quiet (runInitPhaseJobs E m dry)"
proof -
  have "quiet (cells_initialized E st)" for st unfolding cells_initialized_def by (intro kept_intros assms) simp
  then show ?thesis
    unfolding runInitPhaseJobs_def using assms
    by (intro quiet_with_job kept_intros jq.kept_init_RunScript quiet_set_status_condition) auto
qed

lemma quiet_Master_work:
  assumes "meta_laws E" "job_conditions_ok m" shows "quiet (Master_work E m dry)"
  unfolding Master_work_def Master_needSync_def Master_ArePodsReady_def
  by (intro kept_intros cq.yt_intros quiet_Master_doServerSync cq.kept_need impl.quiet_arePodsReady quiet_runInitPhaseJobs assms)

lemma quiet_cells_step: "meta_laws E \<Longrightarrow> quiet rest \<Longrightarrow> quiet (cells_step E m dry rest)"
  unfolding cells_step_def
  by (intro cq.yt_intros quiet_SetUnregistered quiet_set_status_condition quiet_master_steps) simp_all

lemma quiet_Master_Sync:
  assumes "meta_laws E" "job_conditions_ok m" shows "quiet (Master_Sync E m dry)"
  unfolding Master_Sync_def
  by (cases "m_uploaderSecret m")
     (simp_all add: kept_intros quiet_Master_update quiet_cells_step quiet_Master_work assms jq.kept_ensure_secret)

text \<open>The masters as a component of the cluster.\<close>

definition master_component :: "'e cenv_scheme \<Rightarrow> ('x, 'z) master_scheme \<Rightarrow> 'x jcomponent" where
  "master_component E m = \<lparr>cmp_id = sc_id m, cmp_labeller = sc_labeller m,
     cmp_Fetch = (\<lambda>w. prod.swap (run_state (Master_Fetch E m) w)),
     cmp_NeedUpdate = (\<lambda>w. prod.swap (run_state (Master_NeedUpdate E m) w)),
     cmp_Sync = (\<lambda>dry w. prod.swap (run_state (Master_Sync E m dry) w))\<rparr>"

context job_reading
begin

lemma kept_Master_reads: "kept R (Master_Fetch E m)" "kept R (Master_NeedUpdate E m)"
proof -
  have "kept R (resources_seq [Some (impl_Fetch E (sc_id m)), map_option (init_Fetch E) (m_initJob m),
      map_option (fetch_secret E) (m_uploaderSecret m)])"
    by (rule kept_resources_seq [OF preord_R])
       (auto simp: eq_commute [of "Some _" "map_option _ _"] intro: kept_impl_Fetch kept_init_Fetch kept_fetch_secret)
  then show "kept R (Master_Fetch E m)"
    unfolding Master_Fetch_def fetch_credentials_def by (intro yt_intros kept_secrets)
  show "kept R (Master_NeedUpdate E m)" unfolding Master_NeedUpdate_def by (intro yt_intros kept_impl_needUpdate)
qed

end

lemma master_well_behaved:
  assumes "meta_laws E" "job_conditions_ok m"
  shows "well_behaved (master_component E m)"
  using jq.kept_Master_reads [of E m] quiet_Master_Sync [OF assms] by (simp add: well_behaved_def master_component_def keptD)

section \<open>The window of registration\<close>

text \<open>The status of one condition of the cluster is left alone.\<close>

definition same_condition :: "string \<Rightarrow> 'x yts_scheme \<Rightarrow> 'x yts_scheme \<Rightarrow> bool" where
  "same_condition t w w' \<longleftrightarrow> (conds_wf w \<longrightarrow> conds_wf w' \<and> status_of_cond w' t = status_of_cond w t)"

lemma preord_same_condition [kept_intros]: "preord (same_condition t)"
  by (auto simp: preord_def reflp_def transp_def same_condition_def)

interpretation sc: job_bookkeeping "same_condition t" for t
  by unfold_locales (simp_all add: preord_same_condition,
      simp_all add: same_condition_def conds_wf_def status_of_cond_def RecordNormal_def RecordWarning_def)

lemma same_condition_status [kept_intros]:
  "meta_laws E \<Longrightarrow> t' \<noteq> t \<Longrightarrow> kept (same_condition t) (set_status_condition E t' s r m)"
  "meta_laws E \<Longrightarrow> t' \<noteq> t \<Longrightarrow> kept (same_condition t) (remove_condition E t')"
  unfolding set_status_condition_def remove_condition_def
  by (rule kept_modifies; simp add: same_condition_def status_of_SetStatusCondition status_of_RemoveStatusCondition)+

lemma same_condition_update [kept_intros]: "meta_laws E \<Longrightarrow> kept (same_condition t) (set_update_condition E t' s r m)"
  unfolding set_update_condition_def
  by (rule kept_modifies) (auto simp: same_condition_def SetUpdateStatusCondition_def map_update_status_def map_status_def
      conds_wf_def status_of_cond_def GetStatusConditions_def meta_set_wf)

lemma same_condition_summary [kept_intros]: "kept (same_condition t) (modifies (UpdateOnDeleteComponentsSummary E t' b))"
proof (rule kept_modifies)
  fix w :: "'x yts_scheme"
  have step: "GetStatusConditions (w_object (fst (wait_summary_step E t' b c acc))) = GetStatusConditions (w_object (fst acc)) \<and>
      us_Conditions (update_status_of (fst (wait_summary_step E t' b c acc))) = us_Conditions (update_status_of (fst acc))"
    for c and acc :: "'x yts_scheme \<times> string list"
    by (cases acc) (auto simp: wait_summary_step_def Let_def split: option.splits if_splits prod.splits)
  have fold: "GetStatusConditions (w_object (fst (fold (wait_summary_step E t' b) cs acc))) = GetStatusConditions (w_object (fst acc)) \<and>
      us_Conditions (update_status_of (fst (fold (wait_summary_step E t' b) cs acc))) = us_Conditions (update_status_of (fst acc))"
    for cs and acc :: "'x yts_scheme \<times> string list"
    by (induction cs arbitrary: acc) (simp_all add: step)
  show "same_condition t w (UpdateOnDeleteComponentsSummary E t' b w)"
    using fold [of "us_UpdatingComponents (update_status_of w)" "(w, [])"]
    by (auto simp: UpdateOnDeleteComponentsSummary_def same_condition_def conds_wf_def status_of_cond_def GetStatusConditions_def
        map_update_status_def map_status_def split: prod.splits)
qed

abbreviation job_spares :: "string \<Rightarrow> ('x, 'z) master_scheme \<Rightarrow> bool" where
  "job_spares t m \<equiv> pred_option (\<lambda>J. ij_statusCondition J \<noteq> t) (m_initJob m)"

lemma same_condition_with_job:
  "(\<And>J. m_initJob m = Some J \<Longrightarrow> kept (same_condition t) (run J)) \<Longrightarrow> kept (same_condition t) (with_job m run)"
  unfolding with_job_def by (cases "m_initJob m") (auto intro: kept_intros)

lemma same_condition_pods_removal:
  fixes m :: "('x, 'z) master_scheme"
  assumes "meta_laws E" "kept (same_condition t) rest"
  shows "kept (same_condition t) (pods_removal E m dry rest)"
proof -
  have p: "kept (same_condition t) (removePods E (serverImpl E (sc_id m)) (sc_labeller m) :: ('x, go_error) jact)"
    unfolding removePods_def serverImpl_simps by (intro kept_intros assms sc.kept_impl_listPods sc.kept_impl_removePods)
  show ?thesis
    unfolding pods_removal_def handleOnDeleteUpdatingClusterState_def handleBulkUpdatingClusterState_def prechecks_guard_def
      runPrechecks_def component_UpdatePreCheck_def serverImpl_simps
    by (intro kept_intros p assms sc.kept_impl_listPods sc.kept_impl_Sync sc.kept_impl_Fetch sc.kept_server_access
        sc.kept_impl_arePodsUpdated)
qed

lemma same_condition_jobs:
  assumes "meta_laws E" "job_spares t m"
  shows "(\<And>finish. complete = Some finish \<Longrightarrow> kept (same_condition t) finish) \<Longrightarrow>
      kept (same_condition t) (with_job m (\<lambda>J. init_RunUpdateScript E J dry st script complete))"
    and "t \<noteq> ConditionMasterCellsInitialized \<Longrightarrow> kept (same_condition t) (runInitPhaseJobs E m dry)"
proof -
  have c: "kept (same_condition t) (set_status_condition E (ij_statusCondition J) s r msg)" "kept (same_condition t) (init_Restart E J)"
    if "m_initJob m = Some J" for J s r msg
    using assms that unfolding init_Restart_def remove_condition_def [symmetric] by (auto intro: kept_intros)
  show "kept (same_condition t) (with_job m (\<lambda>J. init_RunUpdateScript E J dry st script complete))"
    if "\<And>finish. complete = Some finish \<Longrightarrow> kept (same_condition t) finish"
    using that by (intro same_condition_with_job sc.kept_init_RunUpdateScript c same_condition_update assms)
  show "kept (same_condition t) (runInitPhaseJobs E m dry)" if "t \<noteq> ConditionMasterCellsInitialized"
    unfolding runInitPhaseJobs_def cells_initialized_def using that assms(1)
    by (intro same_condition_with_job kept_intros sc.kept_init_RunScript c) (auto intro!: kept_intros)
qed

lemma same_condition_SetUnregistered: "kept (same_condition t) (SetUnregistered spec b)"
  by (rule keptI) (auto simp: SetUnregistered_def record_normal_def same_condition_def conds_wf_def status_of_cond_def
      GetStatusConditions_def RecordNormal_def map_update_status_def map_status_def)

lemma same_registration:
  assumes "meta_laws E" "job_spares ConditionMasterCellsRegistration m"
  shows "kept (same_condition ConditionMasterCellsRegistration) (Master_work E m dry)"
    and "kept (same_condition ConditionMasterCellsRegistration) (cells_step E m dry (Master_work E m dry))"
proof -
  let ?R = "same_condition ConditionMasterCellsRegistration"
  show work: "kept ?R (Master_work E m dry)"
    unfolding Master_work_def Master_needSync_def Master_ArePodsReady_def arePodsReady_def Master_doServerSync_def set_template_def serverImpl_simps
    by (intro kept_intros sc.yt_intros sc.kept_need sc.kept_impl_listPods sc.kept_impl_Sync same_condition_jobs assms) simp_all
  show "kept ?R (cells_step E m dry (Master_work E m dry))"
    unfolding cells_step_def assign_roles_def
    by (intro sc.yt_intros kept_intros work same_condition_SetUnregistered assms(1)) simp_all
qed

context job_reading
begin

lemma kept_init_RunScript_dry:
  "(\<And>finish st. complete = Some finish \<Longrightarrow> kept R (finish st)) \<Longrightarrow> kept R (init_RunScript E J True reason script complete)"
  unfolding init_RunScript_def
  by (cases complete) (simp_all only: option.case, (intro yt_intros kept_job_access kept_init_Sync_dry; blast)+)

lemma kept_init_RunUpdateScript_dry: "kept R (init_RunUpdateScript E J True st script complete)"
proof -
  have f: "kept R (f st)" if "Some (\<lambda>status. if True then ret (v status) else g status) = Some f" for v g f st
    using that by (auto intro: yt_intros)
  show ?thesis
    unfolding init_RunUpdateScript_def simp_thms
    by (intro yt_intros kept_job_access kept_init_RunScript_dry; (erule f)?; simp?)
qed

end

text \<open>Running an update of the masters, once the state is known.\<close>

definition master_rest :: "'e cenv_scheme \<Rightarrow> ('x, 'z) master_scheme \<Rightarrow> bool \<Rightarrow> 'x joutcome" where
  "master_rest E m dry = (case m_uploaderSecret m of None \<Rightarrow> id | Some a \<Rightarrow> ensure_secret E (sc_labeller m) a dry) (do {
     initializing \<leftarrow> reads IsInitializing;
     if initializing then Master_work E m dry else cells_step E m dry (Master_work E m dry)
   })"

lemma Master_Sync_rest: "Master_Sync E m dry = if_updating (Master_update E m dry) (master_rest E m dry)"
  by (simp add: Master_Sync_def master_rest_def)

lemma same_registration_rest:
  assumes "meta_laws E" "job_spares ConditionMasterCellsRegistration m"
  shows "kept (same_condition ConditionMasterCellsRegistration) (master_rest E m dry)"
  unfolding master_rest_def
  by (cases "m_uploaderSecret m") (simp_all add: kept_intros sc.kept_ensure_secret same_registration assms)

lemma same_registration_update:
  assumes "meta_laws E" "job_spares ConditionMasterCellsRegistration m"
    and "\<not> (IsPrimary m \<and> \<not> dry \<and> st \<in> {UpdateStateWaitingForMasterCellsAcception, UpdateStateWaitingForMasterCellsRegistration})"
  shows "GetUpdateState w = st \<Longrightarrow> same_condition ConditionMasterCellsRegistration w (snd (run_state (Master_update E m dry (master_rest E m dry)) w))"
proof -
  let ?R = "same_condition ConditionMasterCellsRegistration"
  assume st: "GetUpdateState w = st"
  note rest = same_registration_rest [OF assms(1,2), of dry]
  have opened: "kept ?R (open_registration E dry)" if dry
    using that unfolding open_registration_def by (auto intro: kept_intros)
  have script: "kept ?R (with_job m (\<lambda>J. init_RunUpdateScript E J dry st script complete))"
    if "update_script E m st = Some (script, complete)" "IsPrimary m" for script complete
  proof (cases dry)
    case True
    then show ?thesis by (auto intro!: same_condition_with_job sc.kept_init_RunUpdateScript_dry)
  next
    case False
    then have "complete = Some finish \<Longrightarrow> kept ?R finish" for finish
      using that assms(1,3) by (cases st) (auto simp: update_script_def snapshots_saved_def settle_cells_def intro!: kept_intros)
    then show ?thesis by (intro same_condition_jobs assms)
  qed
  let ?chosen = "case (if IsPrimary m then update_script E m st else None) of
      Some (script, complete) \<Rightarrow> with_job m (\<lambda>J. init_RunUpdateScript E J dry st script complete)
    | None \<Rightarrow>
        if st = UpdateStateWaitingForPodsRemoval then pods_removal E m dry (master_rest E m dry)
        else if st = UpdateStateWaitingForMasterReady \<or> st = UpdateStateWaitingForMasterCellsRegistration then master_rest E m dry
        else ret (ComponentStatusReadyAfter ''No actions required for this update state'', None)"
  have other: "kept ?R (if st = UpdateStateWaitingForPodsRemoval then pods_removal E m dry (master_rest E m dry)
      else if st = UpdateStateWaitingForMasterReady \<or> st = UpdateStateWaitingForMasterCellsRegistration then master_rest E m dry
      else ret (ComponentStatusReadyAfter ''No actions required for this update state'', None))"
    by (intro kept_intros same_condition_pods_removal rest assms(1))
  have chosen: "kept ?R ?chosen"
  proof (cases "if IsPrimary m then update_script E m st else None")
    case None
    show ?thesis unfolding None option.case by (rule other)
  next
    case (Some sc)
    then have "IsPrimary m" "update_script E m st = Some (fst sc, snd sc)" by (simp_all split: if_splits)
    then show ?thesis unfolding Some option.case case_prod_beta by (intro script)
  qed
  have "run_state (Master_update E m dry (master_rest E m dry)) w =
    (if \<not> IsUpdatingComponent (l_ComponentType (sc_labeller m)) (GetInstanceGroup (sc_labeller m)) w
     then ((ComponentStatusReadyAfter ''Not updating component'', None), w)
     else if IsPrimary m \<and> st = UpdateStateWaitingForMasterCellsAcception then run_state (open_registration E dry) w
     else run_state ?chosen w)"
    unfolding Master_update_def st [symmetric] by simp
  moreover have "same_condition ConditionMasterCellsRegistration w w" by (rule preordD(1) [OF preord_same_condition])
  ultimately show ?thesis using opened [THEN keptD, of w] chosen [THEN keptD, of w] assms(3) by (auto simp del: split_paired_All)
qed

text \<open>A condition that may be removed, but not changed otherwise.\<close>

definition may_remove :: "string \<Rightarrow> 'x yts_scheme \<Rightarrow> 'x yts_scheme \<Rightarrow> bool" where
  "may_remove t w w' \<longleftrightarrow> (conds_wf w \<longrightarrow> conds_wf w' \<and> status_of_cond w' t \<in> {status_of_cond w t, None})"

lemma preord_may_remove [kept_intros]: "preord (may_remove t)"
  by (auto simp: preord_def reflp_def transp_def may_remove_def)

interpretation mr: job_bookkeeping "may_remove t" for t
  by unfold_locales (simp_all add: preord_may_remove,
      simp_all add: may_remove_def conds_wf_def status_of_cond_def RecordNormal_def RecordWarning_def)

lemma may_remove_same: "kept (same_condition t) m \<Longrightarrow> kept (may_remove t) m"
  by (rule keptI, drule keptD) (auto simp: same_condition_def may_remove_def)


lemma may_remove_close: "meta_laws E \<Longrightarrow> kept (may_remove ConditionMasterCellsRegistration) (close_registration E m)"
proof -
  let ?t = ConditionMasterCellsRegistration
  assume E: "meta_laws E"
  have "kept (same_condition ?t) (register_cells specs)" for specs
    by (induction specs) (simp_all only: register_cells.simps, (intro kept_intros same_condition_SetUnregistered; assumption?)+)
  note register = may_remove_same [OF this]
  have "kept (may_remove ?t) (remove_condition E ?t)"
    unfolding remove_condition_def by (rule kept_modifies) (simp add: may_remove_def status_of_RemoveStatusCondition E)
  then show ?thesis unfolding close_registration_def by (intro kept_bind preord_may_remove register)
qed

text \<open>
  (C18) Safety of the maintenance of master cells: no synchronisation of any master cell changes the condition that
  opens the registration of secondary cells, but the primary cell in two steps of the maintenance flow, never in
  a dry run: it opens the registration when the cells are accepted, and closes it when their registration is over.
\<close>

theorem registration_window:
  assumes "meta_laws E" "conds_wf w" "job_spares ConditionMasterCellsRegistration m"
    and "run_state (Master_Sync E m dry) w = (r, w')"
    and "status_of_cond w' ConditionMasterCellsRegistration \<noteq> status_of_cond w ConditionMasterCellsRegistration"
  shows "IsPrimary m \<and> \<not> dry \<and> GetClusterState w = ClusterStateUpdating \<and>
    (if status_of_cond w' ConditionMasterCellsRegistration = None
     then GetUpdateState w = UpdateStateWaitingForMasterCellsRegistration
     else status_of_cond w' ConditionMasterCellsRegistration = Some ConditionTrue \<and>
       GetUpdateState w = UpdateStateWaitingForMasterCellsAcception)"
proof -
  let ?t = ConditionMasterCellsRegistration
  have neq: "\<not> same_condition ?t w w'" using assms(2,5) by (simp add: same_condition_def)
  have updating: "GetClusterState w = ClusterStateUpdating"
    using neq assms(4) keptD [OF same_registration_rest [OF assms(1,3), of dry], of w]
    by (auto simp: Master_Sync_rest if_updating_def split: if_splits)
  then have run: "run_state (Master_update E m dry (master_rest E m dry)) w = (r, w')"
    using assms(4) by (simp add: Master_Sync_rest if_updating_def)
  then have at: "IsPrimary m" "\<not> dry"
    "GetUpdateState w \<in> {UpdateStateWaitingForMasterCellsAcception, UpdateStateWaitingForMasterCellsRegistration}"
    using neq same_registration_update [OF assms(1,3), of dry "GetUpdateState w" w] by auto
  have "may_remove ?t w w'" if "GetUpdateState w = UpdateStateWaitingForMasterCellsRegistration"
  proof -
    have c: "kept (same_condition ?t) (set_status_condition E (ij_statusCondition J) s r msg)" "kept (same_condition ?t) (init_Restart E J)"
      if "m_initJob m = Some J" for J s r msg
      using assms that unfolding init_Restart_def remove_condition_def [symmetric] by (auto intro: kept_intros)
    have "kept (may_remove ?t) (init_RunUpdateScript E J dry st script (Some (close_registration E m)))" if "m_initJob m = Some J" for J st script
      using c [OF that] may_remove_close [OF assms(1)] assms(1) by (intro mr.kept_init_RunUpdateScript) (auto intro: may_remove_same same_condition_update)
    then have "kept (may_remove ?t) (with_job m (\<lambda>J. init_RunUpdateScript E J dry st script (Some (close_registration E m))))" for st script
      unfolding with_job_def by (cases "m_initJob m") (auto intro: kept_intros)
    note k = keptD [OF this, of w]
    show ?thesis using run that at(1) k preordD(1) [OF preord_may_remove]
      by (auto simp: Master_update_def update_script_def split: if_splits) (metis snd_conv)
  qed
  moreover have "status_of_cond w' ?t = Some ConditionTrue" if "GetUpdateState w = UpdateStateWaitingForMasterCellsAcception"
    using run that at(1,2) neq assms(1,2) same_condition_update [OF assms(1), THEN keptD]
    by (auto simp: Master_update_def open_registration_def remove_condition_def same_condition_def status_of_SetStatusCondition split: if_splits)
  ultimately show ?thesis using at updating assms(2,5) by (auto simp: may_remove_def)
qed

section \<open>Cells that are not registered have no pods\<close>

text \<open>A server whose next StatefulSet has no replicas, built already or not.\<close>

definition scaled_down :: "server_impl \<Rightarrow> bool" where
  "scaled_down s \<longleftrightarrow> (if si_builtStatefulSet s then ss_Replicas (new_sts s) = Some 0 else si_instanceCount s = 0)"

abbreviation no_pods :: "kube_request \<Rightarrow> bool" where
  "no_pods \<equiv> writes_sts (\<lambda>ss. ss_Replicas ss = Some 0)"

lemma scaled_down_built:
  "scaled_down s \<Longrightarrow> si_builtStatefulSet (buildStatefulSet s) \<and> ss_Replicas (new_sts (buildStatefulSet s)) = Some 0"
  by (simp add: scaled_down_def buildStatefulSet_def rebuildStatefulSet_def Let_def)

lemma impl_Sync_no_pods:
  assumes "keeps_content E" "si_builtStatefulSet (k_servers w a)" "ss_Replicas (new_sts (k_servers w a)) = Some 0"
  shows "issues no_pods w (snd (run_state (impl_Sync E a) w))"
  using assms(2,3) build_objects_new(1)
  by (intro impl_Sync_issues [OF assms(1)]) (auto simp: config_change_def)

lemma doServerSync_no_pods:
  assumes "keeps_content E" "scaled_down (k_servers w (sc_id m))"
  shows "issues no_pods w (snd (run_state (Master_doServerSync E m) w))"
proof -
  let ?a = "sc_id m"
  have sync: "issues no_pods w (snd (run_state (impl_Sync E ?a) (w\<lparr>k_servers := (k_servers w)(?a := s)\<rparr>)))"
    if "si_builtStatefulSet s" "ss_Replicas (new_sts s) = Some 0" for s
    using impl_Sync_no_pods [OF assms(1), of "w\<lparr>k_servers := (k_servers w)(?a := s)\<rparr>" ?a] that by (simp add: issues_def)
  show ?thesis
    using scaled_down_built [OF assms(2)] issues_no_request [of w "w\<lparr>k_servers := _\<rparr>"]
    unfolding Master_doServerSync_def set_template_def Let_def
    by (auto simp: no_request_def case_prod_beta intro!: sync)
qed

lemma same_servers_NeedSync: "kept same_servers (Master_needSync E m)"
  unfolding Master_needSync_def serverComponent_NeedSync_def impl_needSync_def impl_needUpdate_def timbertruckConfigNeedsReload_def get_server_def
  by (intro kept_intros ss.kept_builder)

lemma Master_work_no_pods:
  assumes "keeps_content E" "scaled_down (k_servers w (sc_id m))" "\<not> IsPrimary m"
  shows "issues no_pods w (snd (run_state (Master_work E m dry) w))"
proof -
  let ?rest = "ready_then (Master_ArePodsReady E m) (wait_for_all (map snd (m_secondaryMasters m)) (do {
        initializing \<leftarrow> reads IsInitializing;
        if IsPrimary m \<and> initializing
        then ready_then (runInitPhaseJobs E m dry) (ret (ComponentStatusReady, None))
        else ret (ComponentStatusReady, None) }))"
  obtain need w1 where n: "run_state (Master_needSync E m) w = (need, w1)" by fastforce
  have "kept no_request (Master_needSync E m)"
    unfolding Master_needSync_def by (intro kept_intros cw.yt_intros cw.kept_need)
  with n have w1: "no_request w w1" "k_servers w1 = k_servers w"
    using keptD_eq [OF same_servers_NeedSync n] by (auto simp: same_servers_def dest: keptD_eq)
  have "kept no_request ?rest"
    unfolding Master_ArePodsReady_def arePodsReady_def serverImpl_simps using assms(3)
    by (intro kept_intros sr.kept_impl_listPods) simp_all
  then have "issues no_pods w1 (snd (run_state ?rest w1))" by (intro issues_no_request) (rule keptD)
  moreover have "issues no_pods w1 (snd (run_state (Master_doServerSync E m) w1))"
    using doServerSync_no_pods [OF assms(1), of w1 m] assms(2) w1(2) by simp
  ultimately have "issues no_pods w1 (snd (run_state (Master_work E m dry) w))"
    using n issues_no_request [of w1 w1] by (auto simp: Master_work_def sync_server_def when_do_def no_request_def split: prod.splits)
  then show ?thesis using preordD(2) [OF preord_issues issues_no_request [OF w1(1)]] by blast
qed

lemma no_request_assign_roles: "kept no_request (assign_roles E)" "kept same_servers (assign_roles E)"
  unfolding assign_roles_def set_status_condition_def
  by (intro kept_intros kept_modifies; simp add: no_request_def same_servers_def SetStatusCondition_def Let_def)+

lemma no_pods_ensure_secret:
  "issues no_pods w (snd (run_state rest w)) \<Longrightarrow> issues no_pods w (snd (run_state (ensure_secret E l a dry rest) w))"
proof -
  assume rest: "issues no_pods w (snd (run_state rest w))"
  have "kept (issues no_pods) (create_token E l a :: ('x, go_error) jact)"
    unfolding create_token_def
    by (intro kept_intros issues_managed_Sync_other kept_issues_no_request kept_modifies; simp add: no_request_def)
  then have "issues no_pods w (snd (run_state (create_token E l a) w))" by (rule keptD)
  then show ?thesis
    using rest issues_no_request [of w w] by (auto simp: ensure_secret_def when_do_def no_request_def case_prod_beta)
qed

text \<open>
  (C19) Safety of the registration of cells: outside an update a secondary cell that is listed as unregistered
  gets no pods while the registration is not open: every StatefulSet the operator writes for it has zero replicas, whatever
  number of instances the specification asks for.
\<close>

theorem unregistered_cell_has_no_pods:
  assumes "keeps_content E" "\<not> IsPrimary m" "IsUnregistered (m_mastersSpec m) w" "is_InstanceCount (ms_InstanceSpec (m_mastersSpec m)) > 0"
    and "\<not> IsStatusConditionTrue E ConditionMasterCellsRegistration w" "GetClusterState w \<notin> {ClusterStateUpdating, ClusterStateInitializing}"
    and "\<not> si_builtStatefulSet (k_servers w (sc_id m))" "run_state (Master_Sync E m dry) w = (r, w')"
  shows "\<exists>reqs. k_requests w' = k_requests w @ reqs \<and> list_all no_pods reqs"
proof -
  have state: "\<not> IsInitializing w" "GetClusterState w \<noteq> ClusterStateUpdating" using assms(6) by (simp_all add: IsInitializing_def)
  let ?w = "w\<lparr>k_servers := (k_servers w)(sc_id m := setInstanceCount 0 (k_servers w (sc_id m)))\<rparr>"
  obtain w1 where roles: "run_state (assign_roles E) ?w = ((), w1)" by (metis surj_pair unit.exhaust)
  have "scaled_down (k_servers w1 (sc_id m))" and n: "no_request w w1"
    using keptD_eq [OF no_request_assign_roles(1) roles] keptD_eq [OF no_request_assign_roles(2) roles] assms(7)
    by (simp_all add: scaled_down_def setInstanceCount_def same_servers_def no_request_def)
  then have "issues no_pods w1 (snd (run_state (Master_work E m dry) w1))" by (intro Master_work_no_pods assms)
  then have work: "issues no_pods w (snd (run_state (Master_work E m dry) w1))"
    using preordD(2) [OF preord_issues issues_no_request [OF n]] by blast
  have "issues no_pods w (snd (run_state (cells_step E m dry (Master_work E m dry)) w))"
    using assms(2-5) roles work issues_no_request [of w w] issues_no_request [of w "SetStatusCondition E c w" for c]
    by (simp add: cells_step_def Let_def no_request_def)
  then have "issues no_pods w (snd (run_state (master_rest E m dry) w))"
    unfolding master_rest_def using state by (cases "m_uploaderSecret m") (auto intro: no_pods_ensure_secret)
  then show ?thesis using assms(8) state by (simp add: Master_Sync_rest if_updating_def issues_def)
qed

section \<open>Readiness of the masters\<close>

text \<open>A job that has to do anything is not ready.\<close>

definition answers_not_ready :: "('s, component_status \<times> 'e) state \<Rightarrow> bool" where
  "answers_not_ready m \<longleftrightarrow> (\<forall>w. \<not> IsReady (fst (fst (run_state m w))))"

lemma not_ready_intros:
  "\<not> IsReady st \<Longrightarrow> answers_not_ready (ret (st, e))"
  "(\<And>x. answers_not_ready (f x)) \<Longrightarrow> answers_not_ready (State_Monad.bind act f)"
  "answers_not_ready m \<Longrightarrow> answers_not_ready n \<Longrightarrow> answers_not_ready (if b then m else n)"
  "answers_not_ready m \<Longrightarrow> (\<And>x. answers_not_ready (h x)) \<Longrightarrow> answers_not_ready (case o0 of None \<Rightarrow> m | Some x \<Rightarrow> h x)"
  "(\<And>x y. answers_not_ready (g x y)) \<Longrightarrow> answers_not_ready (case p of (x, y) \<Rightarrow> g x y)"
  "answers_not_ready (k v) \<Longrightarrow> answers_not_ready (let x = v in k x)"
  by (auto simp: answers_not_ready_def case_prod_beta split: option.splits)

lemma init_start_not_ready: "answers_not_ready (init_start E J dry b c)"
  unfolding init_start_def init_launch_def start_job_def
  by (intro not_ready_intros; simp add: waiting_job_def init_config_status_def ComponentStatusWaitingFor_def IsReady_def)

lemma init_Sync_ready:
  assumes "run_state (init_Sync E J dry) w = ((st, err), w')" "IsReady st"
  shows "init_Exists (k_jobs w (ij_id J)) \<and> (\<exists>c. GetStatusCondition E (ij_statusCondition J) w = Some c \<and>
    c_Reason c = ij_reason (k_jobs w (ij_id J)) \<and> c_Status c = ConditionTrue)"
proof -
  have start: "\<not> IsReady st" if "run_state (init_start E J dry b c) w = ((st, err), w')" for b c
    using init_start_not_ready [of E J dry b c] that unfolding answers_not_ready_def by (metis fst_conv)
  then show ?thesis
    using assms
    by (auto simp: init_Sync_def Let_def waiting_job_def ComponentStatusWaitingFor_def IsReady_def split: if_splits option.splits)
qed

lemma ready_then_ready:
  assumes "run_state (ready_then step rest) w = ((st, None), w')" "IsReady st"
  obtains st1 w1 where "run_state step w = ((st1, None), w1)" "IsReady st1" "run_state rest w1 = ((st, None), w')"
  using assms by (auto simp: ready_then_def case_prod_beta split: if_splits) (metis prod.collapse)+

lemma wait_for_all_ready:
  "run_state (wait_for_all cs rest) w = ((st, err), w') \<Longrightarrow> IsReady st \<Longrightarrow>
   (\<forall>c \<in> set cs. IsRunning (GetStatus c w)) \<and> run_state rest w = ((st, err), w')"
  by (induction cs) (auto simp: wait_for_def Blocker_def IsReady_def split: if_splits)

text \<open>Looking at the cluster leaves the object, the servers and the jobs alone.\<close>

definition looked :: "'x jobs_scheme \<Rightarrow> 'x jobs_scheme \<Rightarrow> bool" where
  "looked w w' \<longleftrightarrow> w_object w' = w_object w \<and> w_status w' = w_status w \<and> k_servers w' = k_servers w \<and> k_jobs w' = k_jobs w \<and>
     k_calls w \<le> k_calls w'"

lemma preord_looked [kept_intros]: "preord looked"
  by (auto simp: preord_def reflp_def transp_def looked_def)

interpretation lk: reading looked
  by unfold_locales (simp_all add: preord_looked, simp_all add: looked_def RecordNormal_def RecordWarning_def)

lemma looked_parts [kept_intros]: "kept looked (Master_needSync E m)" "kept looked (Master_ArePodsReady E m)"
  unfolding Master_needSync_def serverComponent_NeedSync_def impl_needSync_def impl_needUpdate_def timbertruckConfigNeedsReload_def
    get_server_def Master_ArePodsReady_def arePodsReady_def impl_listPods_def serverImpl_simps
  by (intro kept_intros lk.kept_builder lk.kept_api_call)+

lemma Master_ArePodsReady_ready:
  assumes "run_state (Master_ArePodsReady E m) w = ((st, None), w')" "IsReady st"
  obtains pods where "ka_ListPods (e_Kube E (k_calls w)) (si_labeller (k_servers w (sc_id m))) = Inr pods"
    "IsReady (pods_status pods [YTServerContainerName] (si_instanceCount (k_servers w (sc_id m))) (impl_minReady (sc_id m) 0 w))"
  using assms by (auto simp: Master_ArePodsReady_def arePodsReady_def impl_listPods_def api_call_def impl_minReady_def split: sum.splits)

lemma ensure_secret_ready:
  "run_state (ensure_secret E l a dry rest) w = ((st, err), w') \<Longrightarrow> IsReady st \<Longrightarrow> run_state rest w = ((st, err), w')"
  by (auto simp: ensure_secret_def ComponentStatusWaitingFor_def IsReady_def case_prod_beta split: if_splits)

lemma Master_needSync_False:
  assumes "run_state (Master_needSync E m) w = (False, w1)" "IsInitializing w" "IsStatusConditionTrue E ConditionMasterCellsInitialized w"
  shows "getPodAnnotation InstancePhaseAnnotationName (k_servers w (sc_id m)) \<noteq> PhaseCellsInitialization"
proof -
  obtain b w2 where n: "run_state (serverComponent_NeedSync E m) w = (b, w2)" by fastforce
  have "kept looked (serverComponent_NeedSync E m)"
    unfolding serverComponent_NeedSync_def impl_needSync_def impl_needUpdate_def timbertruckConfigNeedsReload_def get_server_def
    by (intro kept_intros lk.kept_builder)
  from keptD_eq [OF this n] have "IsInitializing w2 = IsInitializing w" "k_servers w2 = k_servers w"
    "IsStatusConditionTrue E ConditionMasterCellsInitialized w2 = IsStatusConditionTrue E ConditionMasterCellsInitialized w"
    by (simp_all add: looked_def IsInitializing_def GetClusterState_def IsStatusConditionTrue_def)
  with n assms show ?thesis by (auto simp: Master_needSync_def)
qed

lemma RunScript_ready:
  assumes "run_state (init_RunScript E J dry reason script None) w = ((st, None), w')" "IsReady st"
  shows "init_Exists (k_jobs w (ij_id J)) \<and> (\<exists>c. GetStatusCondition E (ij_statusCondition J) w = Some c \<and> c_Reason c = reason \<and> c_Status c = ConditionTrue)"
  using assms
  by (auto simp: init_RunScript_def Let_def ComponentStatusBlocked_def IsReady_def init_Exists_def GetStatusCondition_def case_prod_beta
      dest!: init_Sync_ready [unfolded IsReady_def] split: if_splits)

lemma runInitPhaseJobs_ready:
  assumes "run_state (runInitPhaseJobs E m dry) w = ((st, None), w')" "IsReady st"
  shows "IsStatusConditionTrue E ConditionMasterCellsInitialized w \<and> (\<exists>J c. m_initJob m = Some J \<and> init_Exists (k_jobs w (ij_id J)) \<and>
    GetStatusCondition E (ij_statusCondition J) w = Some c \<and> c_Reason c = PhaseClusterInitialization \<and> c_Status c = ConditionTrue)"
proof -
  obtain J where J: "m_initJob m = Some J" using assms by (cases "m_initJob m") (auto simp: runInitPhaseJobs_def with_job_def)
  have "IsStatusConditionTrue E ConditionMasterCellsInitialized w"
    using assms J by (auto simp: runInitPhaseJobs_def with_job_def init_RunScript_def Let_def cells_initialized_def ComponentStatusWaitingFor_def
        ComponentStatusBlocked_def IsReady_def case_prod_beta split: if_splits)
  moreover from this have "run_state (init_RunScript E J dry PhaseClusterInitialization ''cluster-initialization.sh'' None) w = ((st, None), w')"
    using assms(1) J by (simp add: runInitPhaseJobs_def with_job_def)
  ultimately show ?thesis using RunScript_ready assms(2) J by blast
qed


text \<open>
  (C20) What readiness of the masters means while the cluster is being initialised: the primary masters report ready without an
  error only when the roles of all cells have been initialised, the StatefulSet has been rolled since then (its pod
  template no longer asks for the phase before), the API server lists enough ready masters in this very call, every
  secondary cell runs, and the job that initialises the cluster has completed.
\<close>

theorem ready_masters_are_initialised:
  assumes "GetClusterState w = ClusterStateInitializing" "IsPrimary m"
    and "run_state (Master_Sync E m dry) w = ((status, None), w')" "IsReady status"
  shows "IsStatusConditionTrue E ConditionMasterCellsInitialized w \<and>
    getPodAnnotation InstancePhaseAnnotationName (k_servers w (sc_id m)) \<noteq> PhaseCellsInitialization \<and>
    (\<exists>J c. m_initJob m = Some J \<and> init_Exists (k_jobs w (ij_id J)) \<and> GetStatusCondition E (ij_statusCondition J) w = Some c \<and>
       c_Reason c = PhaseClusterInitialization \<and> c_Status c = ConditionTrue) \<and>
    (\<forall>c \<in> snd ` set (m_secondaryMasters m). IsRunning (GetStatus c w)) \<and>
    (\<exists>n \<ge> k_calls w. \<exists>pods. ka_ListPods (e_Kube E n) (si_labeller (k_servers w (sc_id m))) = Inr pods \<and>
       IsReady (pods_status pods [YTServerContainerName] (si_instanceCount (k_servers w (sc_id m))) (impl_minReady (sc_id m) 0 w)))"
proof -
  have init: "IsInitializing w" using assms(1) by (simp add: IsInitializing_def)
  have work: "run_state (Master_work E m dry) w = ((status, None), w')"
    using assms(1,3,4) init
    by (cases "m_uploaderSecret m") (auto simp: Master_Sync_def if_updating_def dest!: ensure_secret_ready)
  obtain need w1 where n: "run_state (Master_needSync E m) w = (need, w1)" by fastforce
  have l1: "looked w w1" using keptD_eq [OF looked_parts(1) n] .
  have need: "\<not> need" using work n assms(4)
    by (auto simp: Master_work_def sync_server_def ComponentStatusWaitingFor_def IsReady_def case_prod_beta split: if_splits)
  then have "run_state (ready_then (Master_ArePodsReady E m) (wait_for_all (map snd (m_secondaryMasters m)) (do {
      initializing \<leftarrow> reads IsInitializing;
      if IsPrimary m \<and> initializing then ready_then (runInitPhaseJobs E m dry) (ret (ComponentStatusReady, None))
      else ret (ComponentStatusReady, None) }))) w1 = ((status, None), w')"
    using work n by (simp add: Master_work_def sync_server_def)
  then obtain st2 w2 where p: "run_state (Master_ArePodsReady E m) w1 = ((st2, None), w2)" "IsReady st2"
    and r: "run_state (wait_for_all (map snd (m_secondaryMasters m)) (do {
      initializing \<leftarrow> reads IsInitializing;
      if IsPrimary m \<and> initializing then ready_then (runInitPhaseJobs E m dry) (ret (ComponentStatusReady, None))
      else ret (ComponentStatusReady, None) })) w2 = ((status, None), w')"
    using assms(4) by (elim ready_then_ready)
  have l2: "looked w w2" using preordD(2) [OF preord_looked l1 keptD_eq [OF looked_parts(2) p(1)]] .
  note waited = wait_for_all_ready [OF r assms(4)]
  have "IsInitializing w2" using l2 init by (simp add: looked_def IsInitializing_def GetClusterState_def)
  with waited assms(2) have "run_state (ready_then (runInitPhaseJobs E m dry) (ret (ComponentStatusReady, None))) w2 = ((status, None), w')" by simp
  then obtain st3 w3 where "run_state (runInitPhaseJobs E m dry) w2 = ((st3, None), w3)" "IsReady st3"
    using assms(4) by (elim ready_then_ready)
  note jobs = runInitPhaseJobs_ready [OF this]
  obtain pods where "ka_ListPods (e_Kube E (k_calls w1)) (si_labeller (k_servers w1 (sc_id m))) = Inr pods"
    "IsReady (pods_status pods [YTServerContainerName] (si_instanceCount (k_servers w1 (sc_id m))) (impl_minReady (sc_id m) 0 w1))"
    using Master_ArePodsReady_ready [OF p] .
  moreover have "getPodAnnotation InstancePhaseAnnotationName (k_servers w (sc_id m)) \<noteq> PhaseCellsInitialization"
    if "IsStatusConditionTrue E ConditionMasterCellsInitialized w"
    using Master_needSync_False [of E m w w1] n need init that by simp
  ultimately show ?thesis
    using l1 l2 jobs waited
    by (auto simp: looked_def IsStatusConditionTrue_def GetStatusCondition_def GetStatus_def impl_minReady_def)
qed

section \<open>Witnesses\<close>

definition sample_master :: "string \<Rightarrow> unit master" where
  "sample_master cell = \<lparr>sc_id = 0, sc_labeller = ForComponent MasterType cell zero_labeller, sc_master = None, sc_hasClient = True,
     m_mastersSpec = sample_masters, m_initJob = (if cell = '''' then Some (fst sample_init) else None), m_adminCredentials = None,
     m_uploaderSecret = None, m_secondaryMasters = [], m_cellID = ''1-2-3-4''\<rparr>"

text \<open>A job with its config map, which has run.\<close>

definition existing_job :: init_job_state where
  "existing_job = (let j = AddScript ''cluster-initialization.sh'' (Inr [''exit 0'']) (snd sample_init)
     in j\<lparr>ij_job := (ij_job j)\<lparr>mr_old := (mr_old (ij_job j))\<lparr>o_ResourceVersion := ''7''\<rparr>\<rparr>,
          ij_configs := (ij_configs j)\<lparr>cb_configMap := (cb_configMap (ij_configs j))\<lparr>mr_old :=
            (mr_old (cb_configMap (ij_configs j)))\<lparr>o_ResourceVersion := ''8''\<rparr>\<rparr>\<rparr>\<rparr>)"

definition master_world :: "cluster_state \<Rightarrow> update_status \<Rightarrow> condition list \<Rightarrow> jobs" where
  "master_world state us conds = cluster.extend
     ((sample_cluster state us (existing_server (sample_sts 0 3)))\<lparr>w_object := sample_object state us conds\<rparr>)
     \<lparr>k_jobs = (\<lambda>_. existing_job), k_secrets = (\<lambda>_. empty_managed '''' \<lparr>sec_Data = Map.empty, sec_StringData = Map.empty\<rparr>)\<rparr>"

definition accepting :: jobs where
  "accepting = master_world ClusterStateUpdating (empty_update_status\<lparr>us_State := UpdateStateWaitingForMasterCellsAcception,
     us_UpdatingComponents := [\<lparr>ref_type = MasterType, ref_name = ''''\<rparr>]\<rparr>) []"

theorem registration_window_witness:
  "status_of_cond (snd (run_state (Master_Sync (sample_cenv (sample_api None [])) (sample_master '''') False) accepting))
     ConditionMasterCellsRegistration = Some ConditionTrue \<and> GetUpdateState accepting = UpdateStateWaitingForMasterCellsAcception"
proof -
  let ?E = "sample_cenv (sample_api None [])" and ?m = "sample_master ''''" and ?t = ConditionMasterCellsRegistration
  obtain r w' where r: "run_state (Master_Sync ?E ?m False) accepting = (r, w')" by (metis surj_pair)
  have a: "GetClusterState accepting = ClusterStateUpdating" "IsPrimary ?m" "status_of_cond accepting ?t = None" "conds_wf accepting"
    "GetUpdateState accepting = UpdateStateWaitingForMasterCellsAcception"
    "IsUpdatingComponent (l_ComponentType (sc_labeller ?m)) (GetInstanceGroup (sc_labeller ?m)) accepting"
    by code_simp+
  have "ij_statusCondition (fst sample_init) \<noteq> ?t" by code_simp
  then have spares: "job_spares ?t ?m" by (simp add: sample_master_def)
  let ?w1 = "SetStatusCondition ?E (mkcond ?t ConditionTrue PhaseCellRegistration ''Master cells registration is open'')
      (RemoveStatusCondition ?E ConditionMasterCellsPreparation accepting)"
  have "status_of_cond ?w1 ?t = Some ConditionTrue" "conds_wf ?w1" using a(4) by (simp_all add: status_of_SetStatusCondition)
  moreover have "same_condition ?t ?w1 (snd (run_state (set_update_condition ?E c s r msg) ?w1))" for c s r msg
    by (rule keptD [OF same_condition_update]) simp
  ultimately have "status_of_cond w' ?t = Some ConditionTrue"
    using r a by (auto simp: Master_Sync_def if_updating_def Master_update_def open_registration_def remove_condition_def same_condition_def)
  with registration_window [OF meta_laws_sample_cenv a(4) spares r] a r show ?thesis by auto
qed

definition joining :: jobs where
  "joining = master_world ClusterStateRunning (empty_update_status\<lparr>us_MasterCellsMaintenance :=
     [\<lparr>mcm_CellTag = ms_CellTag sample_masters, mcm_Unregistered = True\<rparr>]\<rparr>)
     [mkcond ConditionMasterCellsPreparation ConditionTrue PhaseClusterReconfiguration '''']"

theorem unregistered_cell_has_no_pods_witness:
  "list_all no_pods (k_requests (snd (run_state (Master_Sync (sample_cenv (sample_api None [])) (sample_master ''7'') False) joining)))"
proof -
  let ?E = "sample_cenv (sample_api None [])"
  obtain r w' where r: "run_state (Master_Sync ?E (sample_master ''7'') False) joining = (r, w')" by (metis surj_pair)
  have kc: "keeps_content ?E" by (simp add: keeps_content_def sample_api_def sample_client_def)
  have "\<not> IsPrimary (sample_master ''7'')" "IsUnregistered (m_mastersSpec (sample_master ''7'')) joining"
    "is_InstanceCount (ms_InstanceSpec (m_mastersSpec (sample_master ''7''))) > 0"
    "\<not> IsStatusConditionTrue ?E ConditionMasterCellsRegistration joining"
    "GetClusterState joining \<notin> {ClusterStateUpdating, ClusterStateInitializing}"
    "\<not> si_builtStatefulSet (k_servers joining (sc_id (sample_master ''7'')))"
    by code_simp+
  from unregistered_cell_has_no_pods [OF kc this r] have "\<exists>reqs. k_requests w' = k_requests joining @ reqs \<and> list_all no_pods reqs" .
  moreover have "k_requests joining = []" by code_simp
  ultimately show ?thesis using r by auto
qed

definition initialised :: jobs where
  "initialised = master_world ClusterStateInitializing empty_update_status
     [mkcond (ij_statusCondition (fst sample_init)) ConditionTrue PhaseClusterInitialization '''',
      mkcond ConditionMasterCellsInitialized ConditionTrue PhaseCellsInitialization '''']"

theorem ready_masters_are_initialised_witness:
  "\<exists>n pods. ka_ListPods (e_Kube (sample_cenv (sample_api None [sample_pod ''a'' True, sample_pod ''b'' True, sample_pod ''c'' True])) n)
     zero_labeller = Inr pods \<and> IsReady (pods_status pods [YTServerContainerName] 3 3)"
proof -
  let ?E = "sample_cenv (sample_api None [sample_pod ''a'' True, sample_pod ''b'' True, sample_pod ''c'' True])" and ?m = "sample_master ''''"
  obtain status err w' where r: "run_state (Master_Sync ?E ?m False) initialised = ((status, err), w')" by (metis surj_pair)
  have "snd (fst (run_state (Master_Sync ?E ?m False) initialised)) = None" by code_simp
  with r have err: "err = None" by simp
  have "IsReady (fst (fst (run_state (Master_Sync ?E ?m False) initialised)))" by code_simp
  with r have st: "IsReady status" by simp
  have s: "GetClusterState initialised = ClusterStateInitializing" "IsPrimary ?m" "si_instanceCount (k_servers initialised (sc_id ?m)) = 3" "impl_minReady (sc_id ?m) 0 initialised = 3"
    by code_simp+
  have l: "si_labeller (k_servers initialised (sc_id ?m)) = zero_labeller"
    by (simp add: initialised_def master_world_def cluster.defs sample_cluster_def servers.defs kube.defs existing_server_def sample_server_def)
  from ready_masters_are_initialised [OF s(1,2) r [unfolded err] st] show ?thesis unfolding s(3,4) l by blast
qed

end
