(* ===== verification/Init_Servers.thy ===== *)
theory Init_Servers
  imports Master_Contracts
begin

text \<open>
  The servers with initialisation jobs: scheduler, query tracker, queue agent and YQL agent
  (\<open>pkg/components/scheduler.go\<close>, \<open>query_tracker.go\<close>, \<open>queue_agent.go\<close>, \<open>yql_agent.go\<close>).  Their state tables live in tablet
  cells, so that their jobs wait for the tablet nodes.
\<close>

section \<open>Common parts\<close>

text \<open>
  A nil pointer dereference ends the reconciliation; here it is a status that is not ready and carries the
  message, so that the caller stops as well.
\<close>

definition panic_status :: "string \<Rightarrow> component_status" where
  "panic_status what = ComponentStatusSprintf (OtherSyncStatus ''panic'') what"

lemma not_IsReady_panic [simp]: "\<not> IsReady (panic_status what)"
  by (simp add: panic_status_def IsReady_def ComponentStatusSprintf_def)

text \<open>
  Pre-checks that look at the component of the client but not at the client, unlike \<open>with_client\<close>; the check
  calls the client.
\<close>

definition with_unchecked_client :: "bool \<Rightarrow> ('x, component_status) cact \<Rightarrow> ('x, component_status) cact" where
  "with_unchecked_client hasClient check = do {
     ytClient \<leftarrow> reads k_client;
     if \<not> hasClient then ret (ComponentStatusBlocked ''YtsaurusClient component is not available'')
     else if \<not> ytClient then ret (panic_status ''nil YT client'')
     else check
   }"

definition instances_PreCheck :: "'e cenv_scheme \<Rightarrow> component_type \<Rightarrow> ('x, 'z) server_component_scheme \<Rightarrow> ('x, component_status) cact" where
  "instances_PreCheck E t c = with_unchecked_client (sc_hasClient c) (do {
     instanceCount \<leftarrow> reads (\<lambda>w. si_instanceCount (k_servers w (sc_id c)));
     counted \<leftarrow> IsInstanceCountEqualYTSpec E t instanceCount;
     ret (case counted of Some err \<Rightarrow> ComponentStatusBlocked (''Error: '' @ err) | None \<Rightarrow> ComponentStatusReady)
   })"

definition is_chosen :: "('x, 'z) server_component_scheme \<Rightarrow> 'y yts_scheme \<Rightarrow> bool" where
  "is_chosen c = IsUpdatingComponent (l_ComponentType (sc_labeller c)) (GetInstanceGroup (sc_labeller c))"

definition job_completed :: "'e cenv_scheme \<Rightarrow> init_job \<Rightarrow> ('x, bool) jact" where
  "job_completed E J = reads (init_IsCompleted E J)"

text \<open>Commands sent one after the other until one fails.\<close>

primrec yt_writes :: "'e cenv_scheme \<Rightarrow> yt_command list \<Rightarrow> ('x, go_error) cact" where
  "yt_writes E [] = ret None"
| "yt_writes E (c # cs) = do {
     err \<leftarrow> yt_write E c;
     if err \<noteq> None then ret err else yt_writes E cs
   }"

text \<open>The connection of the cluster is copied to the list of clusters.\<close>

definition copy_connection :: "'e cenv_scheme \<Rightarrow> labeller \<Rightarrow> ('x, go_error) cact" where
  "copy_connection E l = do {
     api \<leftarrow> yt_call E;
     case ya_GetMap api ''//sys/@cluster_connection'' of
       Inl err \<Rightarrow> ret (Some err)
     | Inr connection \<Rightarrow> yt_write E (SetNode (''//sys/clusters/'' @ l_ClusterName l) (YMap connection))
   }"

definition connect_server :: "'e cenv_scheme \<Rightarrow> labeller \<Rightarrow> string \<Rightarrow> yt_value \<Rightarrow> ('x, go_error) cact" where
  "connect_server E l name0 v = do {
     err \<leftarrow> yt_write E (SetNode (''//sys/@cluster_connection/'' @ name0) v);
     if err \<noteq> None then ret err else copy_connection E l
   }"

text \<open>The addresses of the instances; a negative count panics.\<close>

definition with_addresses :: "labeller \<Rightarrow> instance_spec \<Rightarrow> nat \<Rightarrow> (yt_value \<Rightarrow> ('x, go_error) cact) \<Rightarrow> ('x, go_error) cact" where
  "with_addresses l spec port f =
    (case GetInstanceAddresses l (is_InstanceCount spec) port of
       None \<Rightarrow> ret (Some ''panic: no addresses'')
     | Some addresses \<Rightarrow> f (YList (map YString addresses)))"

text \<open>The environment that the job gets from the secret is not part of the job of the model.\<close>

definition prepare_job :: "init_job \<Rightarrow> ('x, unit) jact" where
  "prepare_job J = do {
     spec \<leftarrow> reads (\<lambda>w. yt_Spec (w_object w));
     upd_job J (init_Build spec J)
   }"

abbreviation server_updating :: "string \<Rightarrow> component_status" where
  "server_updating file \<equiv> SimpleStatus file SyncStatusUpdating"

text \<open>
  State tables are updated in two states of the update: the job is restarted, then awaited.  Without tablet
  nodes there is nothing to do.
\<close>

definition state_prepare :: "'e cenv_scheme \<Rightarrow> string \<Rightarrow> init_job \<Rightarrow> bool \<Rightarrow> bool \<Rightarrow> ('x, unit) jact \<Rightarrow> ('x, component_status option \<times> go_error) jact" where
  "state_prepare E file J needed dry prepared = do {
     (if dry then ret () else do {
        (if needed then init_Restart E J else ret ());
        prepared
      });
     ret (Some (server_updating file), None)
   }"

definition state_await :: "'e cenv_scheme \<Rightarrow> string \<Rightarrow> init_job \<Rightarrow> bool \<Rightarrow> bool \<Rightarrow> ('x, unit) jact \<Rightarrow> ('x, component_status option \<times> go_error) jact" where
  "state_await E file J needed dry updated = do {
     completed \<leftarrow> reads (init_IsCompleted E J);
     if needed \<and> \<not> completed then ret (None, None)
     else do {
       (if dry then ret () else updated);
       ret (Some (server_updating file), None)
     }
   }"

definition fetch_all :: "'e cenv_scheme \<Rightarrow> nat \<Rightarrow> init_job list \<Rightarrow> nat list \<Rightarrow> ('x, go_error) jact" where
  "fetch_all E a js secrets = resources_seq
     (Some (impl_Fetch E a) # map (\<lambda>J. Some (init_Fetch E J)) js @ map (\<lambda>s. Some (fetch_secret E s)) secrets)"

section \<open>Scheduler\<close>

record 'x scheduler = "'x jobs_ext server_component" +
  sch_tabletNodes :: "'x jcomponent list"
  sch_initUserJob :: init_job
  sch_initOpArchiveJob :: init_job
  sch_secret :: nat

definition Scheduler_Fetch :: "'e cenv_scheme \<Rightarrow> ('x, 'z) scheduler_scheme \<Rightarrow> ('x, go_error) jact" where
  "Scheduler_Fetch E s = fetch_all E (sc_id s) [sch_initOpArchiveJob s, sch_initUserJob s] [sch_secret s]"

text \<open>The values of alerts are printed by a function of the environment.\<close>

definition Scheduler_UpdatePreCheck :: "'e cenv_scheme \<Rightarrow> (yt_value list \<Rightarrow> string) \<Rightarrow> ('x, 'z) scheduler_scheme \<Rightarrow> ('x, component_status) jact" where
  "Scheduler_UpdatePreCheck E show_alerts s = with_client (sc_hasClient s) (do {
     api \<leftarrow> yt_call E;
     case ya_GetList api ''//sys/scheduler/@alerts'' of
       Inl err \<Rightarrow> ret (ComponentStatusBlocked (''Could not check scheduler alerts: '' @ err))
     | Inr alerts \<Rightarrow>
         if alerts \<noteq> []
         then ret (ComponentStatusBlocked (''Scheduler has '' @ show_nat (length alerts) @ '' alerts: '' @ show_alerts alerts))
         else do {
           api1 \<leftarrow> yt_call E;
           case ya_GetMap api1 ''//sys/scheduler/orchid'' of
             Inl err \<Rightarrow> ret (ComponentStatusBlocked (''Failed to get scheduler orchid data: '' @ err))
           | Inr orchid \<Rightarrow> ret ComponentStatusReady
         }
   })"

text \<open>An error of the job of the user is not looked at when its status is ready.\<close>

definition initOpArchive :: "'e cenv_scheme \<Rightarrow> ('x, 'z) scheduler_scheme \<Rightarrow> bool \<Rightarrow> 'x joutcome" where
  "initOpArchive E s dry =
    (if sch_tabletNodes s = [] then ret (ComponentStatusReady, None)
     else do {
       (status, err) \<leftarrow> init_Sync E (sch_initUserJob s) dry;
       if \<not> IsReady status then ret (status, err)
       else wait_for_all (sch_tabletNodes s)
         (init_RunScript E (sch_initOpArchiveJob s) dry ''InitOperationsArchive'' ''operations-archive-initialization.sh'' None)
     })"

definition Scheduler_update ::
  "'e cenv_scheme \<Rightarrow> (yt_value list \<Rightarrow> string) \<Rightarrow> ('x, 'z) scheduler_scheme \<Rightarrow> bool \<Rightarrow> 'x joutcome \<Rightarrow> 'x joutcome" where
  "Scheduler_update E show_alerts s dry rest = do {
     chosen \<leftarrow> reads (is_chosen s);
     updateState \<leftarrow> reads GetUpdateState;
     if \<not> chosen then ret (ComponentStatusReadyAfter ''Not updating component'', None)
     else if updateState = UpdateStateWaitingForPodsRemoval \<or> updateState = UpdateStateWaitingForPodsCreation
     then handled (dispatchComponentUpdate E (sc_labeller s) (Scheduler_UpdatePreCheck E show_alerts s) (serverImpl E (sc_id s)) dry) rest
     else if updateState = UpdateStateWaitingForOpArchiveUpdate
     then init_RunUpdateScript E (sch_initOpArchiveJob s) dry updateState ''operations-archive-update.sh'' None
     else ret (ComponentStatusReady, None)
   }"

definition Scheduler_Sync :: "'e cenv_scheme \<Rightarrow> (yt_value list \<Rightarrow> string) \<Rightarrow> ('x, 'z) scheduler_scheme \<Rightarrow> bool \<Rightarrow> 'x joutcome" where
  "Scheduler_Sync E show_alerts s dry =
    if_updating (Scheduler_update E show_alerts s dry)
    (wait_for (sc_master s)
    (ensure_secret E (sc_labeller s) (sch_secret s) dry
    (sync_server (serverComponent_NeedSync E s) dry (impl_Sync E (sc_id s))
    (ready_then (serverComponent_ArePodsReady E s) (do {
       ready \<leftarrow> reads IsReadyForInitJobs;
       completed \<leftarrow> job_completed E (sch_initOpArchiveJob s);
       if ready \<and> \<not> completed then ready_then (initOpArchive E s dry) (ret (ComponentStatusReady, None))
       else ret (ComponentStatusReady, None)
     })))))"

section \<open>Query tracker\<close>

record 'x query_tracker = "'x jobs_ext server_component" +
  qt_spec :: instance_spec
  qt_tabletNodes :: "'x jcomponent list"
  qt_initQTState :: init_job
  qt_initCondition :: string
  qt_secret :: nat

definition QueryTracker_Fetch :: "'e cenv_scheme \<Rightarrow> ('x, 'z) query_tracker_scheme \<Rightarrow> ('x, go_error) jact" where
  "QueryTracker_Fetch E qt = fetch_all E (sc_id qt) [qt_initQTState qt] [qt_secret qt]"

definition QueryTracker_UpdatePreCheck :: "'e cenv_scheme \<Rightarrow> ('x, 'z) query_tracker_scheme \<Rightarrow> ('x, component_status) jact" where
  "QueryTracker_UpdatePreCheck E = instances_PreCheck E QueryTrackerType"

definition QueryTracker_createUser :: "'e cenv_scheme \<Rightarrow> ('x, 'z) query_tracker_scheme \<Rightarrow> ('x, go_error) jact" where
  "QueryTracker_createUser E qt = do {
     token \<leftarrow> reads (\<lambda>w. token_of (k_secrets w (qt_secret qt)));
     CreateUser E ''query_tracker'' token True
   }"

definition query_config :: "labeller \<Rightarrow> yt_value" where
  "query_config l =
    (let engine = YMap [(''default_cluster'', YString (l_ClusterName l))]
     in YMap [(''query_tracker'', YMap [(''ql_engine'', engine), (''chyt_engine'', engine), (''spyt_engine'', engine)])])"

definition strings_value :: "string list \<Rightarrow> yt_value" where
  "strings_value ss = YList (map YString ss)"

definition allow_entry :: "string list \<Rightarrow> string list \<Rightarrow> (string \<times> yt_value) list \<Rightarrow> yt_value" where
  "allow_entry subjects permissions extra =
     YMap ([(''action'', YString ''allow''), (''subjects'', strings_value subjects), (''permissions'', strings_value permissions)] @ extra)"

definition query_object :: "string \<Rightarrow> string list option \<Rightarrow> yt_command" where
  "query_object name0 everyone = EnsureObject ''access_control_object''
     ([(''name'', YString name0), (''namespace'', YString ''queries'')] @
      (case everyone of None \<Rightarrow> []
       | Some permissions \<Rightarrow> [(''principal_acl'', YList [allow_entry [''everyone''] permissions []])]))"

definition query_objects :: "yt_command list" where
  "query_objects =
    [EnsureObject ''access_control_object_namespace''
       [(''name'', YString ''queries''),
        (''acl'', YList
          [allow_entry [''owner''] [''read'', ''write'', ''administer'', ''remove''] [(''inheritance_mode'', YString ''immediate_descendants_only'')],
           allow_entry [''users''] [''modify_children''] [(''inheritance_mode'', YString ''object_only'')]])],
     query_object ''nobody'' None,
     query_object ''everyone'' (Some [''read'', ''use'']),
     query_object ''everyone-use'' (Some [''use'']),
     query_object ''everyone-share'' (Some [''read'', ''use''])]"

abbreviation "QueryTrackerRPCPort \<equiv> 9028"

definition QueryTracker_init :: "'e cenv_scheme \<Rightarrow> ('x, 'z) query_tracker_scheme \<Rightarrow> ('x, go_error) jact" where
  "QueryTracker_init E qt = do {
     created \<leftarrow> yt_write E (CreateNode ''//sys/query_tracker/config'' ''document'' [(''value'', query_config (sc_labeller qt))] True True);
     if created \<noteq> None then ret created
     else with_addresses (sc_labeller qt) (qt_spec qt) QueryTrackerRPCPort (\<lambda>addresses. do {
       connected \<leftarrow> connect_server E (sc_labeller qt) ''query_tracker''
         (YMap [(''stages'', YMap [(''production'', YMap
            [(''root'', YString ''//sys/query_tracker''), (''user'', YString ''query_tracker''),
             (''channel'', YMap [(''addresses'', addresses)])])])]);
       if connected \<noteq> None then ret connected else yt_writes E query_objects
     })
   }"

text \<open>What a call that is not dry does before it looks at the job.\<close>

definition QueryTracker_enter :: "'e cenv_scheme \<Rightarrow> ('x, 'z) query_tracker_scheme \<Rightarrow> 'x joutcome \<Rightarrow> 'x joutcome" where
  "QueryTracker_enter E qt rest = do {
     ytClient \<leftarrow> reads k_client;
     state \<leftarrow> reads GetClusterState;
     if \<not> ytClient then ret (ComponentStatusWaitingFor ''getting yt client'', None)
     else do {
       created \<leftarrow> when_do (state \<noteq> ClusterStateUpdating) (QueryTracker_createUser E qt);
       if created \<noteq> None then ret (ComponentStatusWaitingFor ''create qt user'', created)
       else do {
         err \<leftarrow> QueryTracker_init E qt;
         if err \<noteq> None then ret (ComponentStatusWaitingFor (GetFullComponentName (sc_labeller qt) @ '' initialization''), err)
         else do {
           set_status_condition E (qt_initCondition qt) ConditionTrue ''InitQueryTrackerCompleted''
             ''Init query tracker successfully completed'';
           prepare_job (qt_initQTState qt);
           rest
         }
       }
     }
   }"

definition QueryTracker_setup :: "'e cenv_scheme \<Rightarrow> ('x, 'z) query_tracker_scheme \<Rightarrow> bool \<Rightarrow> 'x joutcome" where
  "QueryTracker_setup E qt dry = do {
     s \<leftarrow> get_server (sc_id qt);
     if si_instanceCount s = 0 then ret (ComponentStatusReady, None)
     else if qt_tabletNodes qt = []
     then ret (ComponentStatusBlockedBy ''tablet nodes'', Some ''cannot initialize query tracker without tablet nodes'')
     else wait_for_all (qt_tabletNodes qt) (do {
       skip \<leftarrow> reads ShouldSkipCypressOperations;
       if skip then ret (ComponentStatusReady, None)
       else (if dry then id else QueryTracker_enter E qt)
         (ready_then (init_Sync E (qt_initQTState qt) dry) (do {
            initialized \<leftarrow> reads (IsStatusConditionTrue E (qt_initCondition qt));
            ret (if initialized then ComponentStatusReady
                 else ComponentStatusWaitingFor (''setting '' @ qt_initCondition qt @ '' condition''), None)
          }))
     })
   }"

definition updateQTState :: "'e cenv_scheme \<Rightarrow> ('x, 'z) query_tracker_scheme \<Rightarrow> bool \<Rightarrow> ('x, component_status option \<times> go_error) jact" where
  "updateQTState E qt dry = do {
     updateState \<leftarrow> reads GetUpdateState;
     if updateState = UpdateStateWaitingForQTStateUpdatingPrepare
     then state_prepare E ''query_tracker.go'' (qt_initQTState qt) True dry (
       set_update_condition E ''QTStatePreparedForUpdating'' ConditionTrue ''QTStatePreparedForUpdating'' ''Query Tracker state prepared for updating'')
     else if updateState = UpdateStateWaitingForQTStateUpdate
     then state_await E ''query_tracker.go'' (qt_initQTState qt) True dry (
       set_update_condition E ''QTStateUpdated'' ConditionTrue ''QTStateUpdated'' ''Query tracker state updated'')
     else ret (None, None)
   }"

text \<open>The update of a component with state tables.\<close>

definition state_update ::
  "'e cenv_scheme \<Rightarrow> ('x jobs_ext, 'z) server_component_scheme \<Rightarrow> ('x, component_status) jact \<Rightarrow>
   ('x, component_status option \<times> go_error) jact \<Rightarrow> update_state \<Rightarrow> bool \<Rightarrow> 'x joutcome \<Rightarrow> 'x joutcome" where
  "state_update E c preCheck updateTables lastState dry rest = do {
     chosen \<leftarrow> reads (is_chosen c);
     if \<not> chosen then ret (ComponentStatusReadyAfter ''Not updating component'', None)
     else handled (handleBulkUpdatingClusterState E (sc_labeller c) preCheck (serverImpl E (sc_id c)) dry)
       (handled updateTables (do {
          updateState \<leftarrow> reads GetUpdateState;
          if updateState \<noteq> UpdateStateWaitingForPodsCreation \<and> updateState \<noteq> lastState
          then ret (ComponentStatusReady, None) else rest
        }))
   }"

text \<open>Both ways out after the pods are ready return the same.\<close>

definition QueryTracker_Sync :: "'e cenv_scheme \<Rightarrow> ('x, 'z) query_tracker_scheme \<Rightarrow> bool \<Rightarrow> 'x joutcome" where
  "QueryTracker_Sync E qt dry =
    if_updating (state_update E qt (QueryTracker_UpdatePreCheck E qt) (updateQTState E qt dry) UpdateStateWaitingForQTStateUpdate dry)
    (ensure_secret E (sc_labeller qt) (qt_secret qt) dry
    (ready_then (QueryTracker_setup E qt dry)
    (sync_server (serverComponent_NeedSync E qt) dry (impl_Sync E (sc_id qt))
    (ready_then (serverComponent_ArePodsReady E qt) (ret (ComponentStatusReady, None))))))"

section \<open>Queue agent\<close>

record 'x queue_agent = "'x jobs_ext server_component" +
  qa_spec :: instance_spec
  qa_ytsaurusClient :: "'x jcomponent"
  qa_tabletNodes :: "'x jcomponent list"
  qa_initQAStateJob :: init_job
  qa_initCondition :: string
  qa_secret :: nat

definition QueueAgent_Fetch :: "'e cenv_scheme \<Rightarrow> ('x, 'z) queue_agent_scheme \<Rightarrow> ('x, go_error) jact" where
  "QueueAgent_Fetch E qa = fetch_all E (sc_id qa) [qa_initQAStateJob qa] [qa_secret qa]"

definition QueueAgent_UpdatePreCheck :: "'e cenv_scheme \<Rightarrow> ('x, 'z) queue_agent_scheme \<Rightarrow> ('x, component_status) jact" where
  "QueueAgent_UpdatePreCheck E = instances_PreCheck E QueueAgentType"

definition QueueAgent_createUser :: "'e cenv_scheme \<Rightarrow> ('x, 'z) queue_agent_scheme \<Rightarrow> ('x, go_error) jact" where
  "QueueAgent_createUser E qa = do {
     token \<leftarrow> reads (\<lambda>w. token_of (k_secrets w (qa_secret qa)));
     CreateUser E ''queue_agent'' token True
   }"

definition queue_config :: "labeller \<Rightarrow> yt_value" where
  "queue_config l = YMap
     [(''queue_agent'', YMap [(''controller'', YMap [(''enable_automatic_trimming'', YBool True)])]),
      (''cypress_synchronizer'', YMap [(''policy'', YString ''watching''), (''clusters'', strings_value [l_ClusterName l])])]"

abbreviation "QueueAgentRPCPort \<equiv> 9030"

definition QueueAgent_init :: "'e cenv_scheme \<Rightarrow> ('x, 'z) queue_agent_scheme \<Rightarrow> ('x, go_error) jact" where
  "QueueAgent_init E qa = do {
     created \<leftarrow> yt_write E (CreateNode ''//sys/queue_agents/config'' ''document'' [(''value'', queue_config (sc_labeller qa))] True True);
     if created \<noteq> None then ret created
     else with_addresses (sc_labeller qa) (qa_spec qa) QueueAgentRPCPort (\<lambda>addresses.
       connect_server E (sc_labeller qa) ''queue_agent''
         (YMap [(''stages'', YMap [(''production'', YMap [(''addresses'', addresses)])]),
                (''queue_consumer_registration_manager'', YMap [(''resolve_symlinks'', YBool True), (''resolve_replicas'', YBool True)])]))
   }"

definition needQAStateInit :: "('x, 'z) queue_agent_scheme \<Rightarrow> bool" where
  "needQAStateInit qa \<longleftrightarrow> 0 < length (qa_tabletNodes qa)"

definition initQAState :: "'e cenv_scheme \<Rightarrow> ('x, 'z) queue_agent_scheme \<Rightarrow> bool \<Rightarrow> 'x joutcome" where
  "initQAState E qa dry = wait_for_all (qa_tabletNodes qa) (do {
     (if dry then ret () else prepare_job (qa_initQAStateJob qa));
     init_Sync E (qa_initQAStateJob qa) dry
   })"

definition updateQAState :: "'e cenv_scheme \<Rightarrow> ('x, 'z) queue_agent_scheme \<Rightarrow> bool \<Rightarrow> ('x, component_status option \<times> go_error) jact" where
  "updateQAState E qa dry = do {
     updateState \<leftarrow> reads GetUpdateState;
     if updateState = UpdateStateWaitingForQAStateUpdatingPrepare
     then state_prepare E ''queue_agent.go'' (qa_initQAStateJob qa) (needQAStateInit qa) dry (
       set_update_condition E ''QAStatePreparedForUpdating'' ConditionTrue ''QAStatePreparedForUpdating'' ''Queue agent state prepared for updating'')
     else if updateState = UpdateStateWaitingForQAStateUpdate
     then state_await E ''queue_agent.go'' (qa_initQAStateJob qa) (needQAStateInit qa) dry (
       set_update_condition E ''QAStateUpdated'' ConditionTrue ''QAStateUpdated'' ''Queue agent state updated'')
     else ret (None, None)
   }"

text \<open>
  The variable of the client is assigned only outside updates: during an update it is nil, and the
  initialisation, should it be needed, dereferences it.
\<close>

definition QueueAgent_user :: "'e cenv_scheme \<Rightarrow> ('x, 'z) queue_agent_scheme \<Rightarrow> bool \<Rightarrow> (bool \<Rightarrow> 'x joutcome) \<Rightarrow> 'x joutcome" where
  "QueueAgent_user E qa dry rest = do {
     state \<leftarrow> reads GetClusterState;
     if state = ClusterStateUpdating then rest False
     else wait_for (Some (qa_ytsaurusClient qa))
       (if dry then rest False
        else do {
          ytClient \<leftarrow> reads k_client;
          if \<not> ytClient then ret (panic_status ''nil YT client'', Some ''panic: nil YT client'')
          else do {
            err \<leftarrow> QueueAgent_createUser E qa;
            if err \<noteq> None then ret (ComponentStatusWaitingFor ''create qa user'', err) else rest True
          }
        })
   }"

definition QueueAgent_finish :: "'e cenv_scheme \<Rightarrow> ('x, 'z) queue_agent_scheme \<Rightarrow> bool \<Rightarrow> bool \<Rightarrow> 'x joutcome" where
  "QueueAgent_finish E qa dry ytClient = do {
     initialized \<leftarrow> reads (IsStatusConditionTrue E (qa_initCondition qa));
     if initialized then ret (ComponentStatusReady, None)
     else if dry then ret (ComponentStatusWaitingFor (''setting '' @ qa_initCondition qa @ '' condition''), None)
     else if \<not> ytClient then ret (panic_status ''nil YT client'', Some ''panic: nil YT client'')
     else do {
       err \<leftarrow> QueueAgent_init E qa;
       if err \<noteq> None then ret (ComponentStatusWaitingFor (GetFullComponentName (sc_labeller qa) @ '' initialization''), err)
       else do {
         set_status_condition E (qa_initCondition qa) ConditionTrue ''InitQueueAgentCompleted''
           ''Init queue agent successfully completed'';
         ret (ComponentStatusWaitingFor (''setting '' @ qa_initCondition qa @ '' condition''), None)
       }
     }
   }"

text \<open>What happens once the pods are ready.\<close>

definition QueueAgent_tables :: "'e cenv_scheme \<Rightarrow> ('x, 'z) queue_agent_scheme \<Rightarrow> bool \<Rightarrow> 'x joutcome" where
  "QueueAgent_tables E qa dry = do {
     state \<leftarrow> reads GetClusterState;
     updateState \<leftarrow> reads GetUpdateState;
     s \<leftarrow> get_server (sc_id qa);
     skip \<leftarrow> reads ShouldSkipCypressOperations;
     if state = ClusterStateUpdating \<and> updateState = UpdateStateWaitingForPodsCreation then ret (ComponentStatusReady, None)
     else if si_instanceCount s = 0 \<or> skip then ret (ComponentStatusReady, None)
     else QueueAgent_user E qa dry (\<lambda>ytClient. ready_then (initQAState E qa dry) (QueueAgent_finish E qa dry ytClient))
   }"

definition QueueAgent_work :: "'e cenv_scheme \<Rightarrow> ('x, 'z) queue_agent_scheme \<Rightarrow> bool \<Rightarrow> 'x joutcome" where
  "QueueAgent_work E qa dry =
    ensure_secret E (sc_labeller qa) (qa_secret qa) dry
    (sync_server (serverComponent_NeedSync E qa) dry (impl_Sync E (sc_id qa))
    (ready_then (serverComponent_ArePodsReady E qa) (QueueAgent_tables E qa dry)))"

definition QueueAgent_Sync :: "'e cenv_scheme \<Rightarrow> ('x, 'z) queue_agent_scheme \<Rightarrow> bool \<Rightarrow> 'x joutcome" where
  "QueueAgent_Sync E qa dry =
    if_updating (state_update E qa (QueueAgent_UpdatePreCheck E qa) (updateQAState E qa dry) UpdateStateWaitingForQAStateUpdate dry)
    (wait_for (sc_master qa)
    (if qa_tabletNodes qa = []
     then ret (ComponentStatusBlockedBy ''tablet nodes'', Some ''cannot initialize queue agent without tablet nodes'')
     else wait_for_all (qa_tabletNodes qa) (QueueAgent_work E qa dry)))"

section \<open>YQL agent\<close>

record 'x yql_agent = "'x jobs_ext server_component" +
  yqla_spec :: instance_spec
  yqla_initEnvironment :: init_job
  yqla_secret :: nat
  yqla_execSecret :: "nat option"

definition YqlAgent_Fetch :: "'e cenv_scheme \<Rightarrow> ('x, 'z) yql_agent_scheme \<Rightarrow> ('x, go_error) jact" where
  "YqlAgent_Fetch E yqla = fetch_all E (sc_id yqla) [yqla_initEnvironment yqla]
     (yqla_secret yqla # (case yqla_execSecret yqla of None \<Rightarrow> [] | Some a \<Rightarrow> [a]))"

abbreviation "YQLAgentRPCPort \<equiv> 9019"

definition YqlAgent_GetCypressPatch :: "('x, 'z) yql_agent_scheme \<Rightarrow> patch_set option" where
  "YqlAgent_GetCypressPatch yqla =
     map_option (\<lambda>addresses. [(''//sys/@cluster_connection'',
         [Replace ''/yql_agent/stages/production/channel/addresses'' (YList (map YString addresses))])])
       (GetInstanceAddresses (sc_labeller yqla) (is_InstanceCount (yqla_spec yqla)) YQLAgentRPCPort)"

definition YqlAgent_UpdatePreCheck :: "'e cenv_scheme \<Rightarrow> ('x, 'z) yql_agent_scheme \<Rightarrow> ('x, component_status) jact" where
  "YqlAgent_UpdatePreCheck E = instances_PreCheck E YqlAgentType"

definition YqlAgent_update :: "'e cenv_scheme \<Rightarrow> ('x, 'z) yql_agent_scheme \<Rightarrow> bool \<Rightarrow> 'x joutcome \<Rightarrow> 'x joutcome" where
  "YqlAgent_update E yqla dry rest = do {
     chosen \<leftarrow> reads (is_chosen yqla);
     updateState \<leftarrow> reads GetUpdateState;
     if \<not> chosen then ret (ComponentStatusReadyAfter ''Not updating component'', None)
     else if updateState = UpdateStateWaitingForPodsRemoval \<or> updateState = UpdateStateWaitingForPodsCreation
     then handled (handleBulkUpdatingClusterState E (sc_labeller yqla) (YqlAgent_UpdatePreCheck E yqla) (serverImpl E (sc_id yqla)) dry) rest
     else if updateState = UpdateStateWaitingForYqlaUpdate
     then init_RunUpdateScript E (yqla_initEnvironment yqla) dry updateState ''yql-agent-update.sh'' None
     else ret (ComponentStatusReady, None)
   }"

text \<open>The volumes with tokens and the environment of the container are not part of the pod template of the model.\<close>

definition YqlAgent_doServerSync :: "'e cenv_scheme \<Rightarrow> ('x, 'z) yql_agent_scheme \<Rightarrow> ('x, go_error) jact" where
  "YqlAgent_doServerSync E yqla = do {
     upd_server (sc_id yqla) buildStatefulSet;
     impl_Sync E (sc_id yqla)
   }"

definition YqlAgent_work :: "'e cenv_scheme \<Rightarrow> ('x, 'z) yql_agent_scheme \<Rightarrow> bool \<Rightarrow> 'x joutcome" where
  "YqlAgent_work E yqla dry = do {
     ready \<leftarrow> reads IsReadyForInitJobs;
     completed \<leftarrow> job_completed E (yqla_initEnvironment yqla);
     let serve = sync_server (serverComponent_NeedSync E yqla) dry (YqlAgent_doServerSync E yqla)
       (ready_then (serverComponent_ArePodsReady E yqla) (ret (ComponentStatusReady, None)));
     if ready \<and> \<not> completed
     then ready_then (init_RunScript E (yqla_initEnvironment yqla) dry ''YQLAgentInit'' ''yql-agent-initialization.sh'' None) serve
     else serve
   }"

definition YqlAgent_Sync :: "'e cenv_scheme \<Rightarrow> ('x, 'z) yql_agent_scheme \<Rightarrow> bool \<Rightarrow> 'x joutcome" where
  "YqlAgent_Sync E yqla dry =
    if_updating (YqlAgent_update E yqla dry)
    (wait_for (sc_master yqla)
    (ensure_secret E (sc_labeller yqla) (yqla_secret yqla) dry
    ((case yqla_execSecret yqla of None \<Rightarrow> id | Some a \<Rightarrow> ensure_secret E (sc_labeller yqla) a dry)
    (YqlAgent_work E yqla dry))))"

end
