(* ===== verification/Init_Contracts.thy ===== *)
theory Init_Contracts
  imports Init_Servers
begin

text \<open>
  Contracts of the components with initialisation jobs: all of them keep to their part of the status and write
  nothing in a dry run, their state tables wait for the tablet nodes, and what their readiness means.
\<close>

section \<open>All components\<close>

text \<open>A component that has jobs, or a server component of the other kind.\<close>

datatype 'x cluster_part =
    MasterPart "'x master"
  | SchedulerPart "'x scheduler"
  | QueryTrackerPart "'x query_tracker"
  | QueueAgentPart "'x queue_agent"
  | YqlAgentPart "'x yql_agent"
  | ServerPart "'x jobs_ext server_kind"

fun part_Fetch :: "'e cenv_scheme \<Rightarrow> 'x cluster_part \<Rightarrow> ('x, go_error) jact" where
  "part_Fetch E (MasterPart m) = Master_Fetch E m"
| "part_Fetch E (SchedulerPart s) = Scheduler_Fetch E s"
| "part_Fetch E (QueryTrackerPart qt) = QueryTracker_Fetch E qt"
| "part_Fetch E (QueueAgentPart qa) = QueueAgent_Fetch E qa"
| "part_Fetch E (YqlAgentPart yqla) = YqlAgent_Fetch E yqla"
| "part_Fetch E (ServerPart k) = kind_Fetch E k"

fun part_NeedUpdate :: "'e cenv_scheme \<Rightarrow> 'x cluster_part \<Rightarrow> ('x, component_status) jact" where
  "part_NeedUpdate E (MasterPart m) = Master_NeedUpdate E m"
| "part_NeedUpdate E (SchedulerPart s) = impl_needUpdate E (sc_id s)"
| "part_NeedUpdate E (QueryTrackerPart qt) = impl_needUpdate E (sc_id qt)"
| "part_NeedUpdate E (QueueAgentPart qa) = impl_needUpdate E (sc_id qa)"
| "part_NeedUpdate E (YqlAgentPart yqla) = impl_needUpdate E (sc_id yqla)"
| "part_NeedUpdate E (ServerPart k) = kind_NeedUpdate E k"

fun part_Sync :: "'e cenv_scheme \<Rightarrow> (yt_value list \<Rightarrow> string) \<Rightarrow> 'x cluster_part \<Rightarrow> bool \<Rightarrow> 'x joutcome" where
  "part_Sync E show_alerts (MasterPart m) dry = Master_Sync E m dry"
| "part_Sync E show_alerts (SchedulerPart s) dry = Scheduler_Sync E show_alerts s dry"
| "part_Sync E show_alerts (QueryTrackerPart qt) dry = QueryTracker_Sync E qt dry"
| "part_Sync E show_alerts (QueueAgentPart qa) dry = QueueAgent_Sync E qa dry"
| "part_Sync E show_alerts (YqlAgentPart yqla) dry = YqlAgent_Sync E yqla dry"
| "part_Sync E show_alerts (ServerPart k) dry = kind_Sync E k dry"

text \<open>The conditions of the cluster by which a component remembers its jobs.\<close>

fun part_conditions :: "'x cluster_part \<Rightarrow> string list" where
  "part_conditions (MasterPart m) = (case m_initJob m of None \<Rightarrow> [] | Some J \<Rightarrow> [ij_statusCondition J])"
| "part_conditions (SchedulerPart s) = [ij_statusCondition (sch_initUserJob s), ij_statusCondition (sch_initOpArchiveJob s)]"
| "part_conditions (QueryTrackerPart qt) = [ij_statusCondition (qt_initQTState qt), qt_initCondition qt]"
| "part_conditions (QueueAgentPart qa) = [ij_statusCondition (qa_initQAStateJob qa), qa_initCondition qa]"
| "part_conditions (YqlAgentPart yqla) = [ij_statusCondition (yqla_initEnvironment yqla)]"
| "part_conditions (ServerPart k) = []"

definition part_component :: "'e cenv_scheme \<Rightarrow> (yt_value list \<Rightarrow> string) \<Rightarrow> 'x cluster_part \<Rightarrow> nat \<Rightarrow> labeller \<Rightarrow> 'x jcomponent" where
  "part_component E show_alerts p address l = \<lparr>cmp_id = address, cmp_labeller = l,
     cmp_Fetch = (\<lambda>w. prod.swap (run_state (part_Fetch E p) w)),
     cmp_NeedUpdate = (\<lambda>w. prod.swap (run_state (part_NeedUpdate E p) w)),
     cmp_Sync = (\<lambda>dry w. prod.swap (run_state (part_Sync E show_alerts p dry) w))\<rparr>"

section \<open>Reading parts\<close>

context yt_reading
begin

lemma kept_instances_PreCheck: "kept R (instances_PreCheck E t c)"
  unfolding instances_PreCheck_def with_unchecked_client_def by (intro yt_intros kept_IsInstanceCountEqualYTSpec)

end

context job_reading
begin

lemma kept_fetch_all: "kept R (fetch_all E a js secrets)"
  unfolding fetch_all_def
  by (rule kept_resources_seq [OF preord_R]) (auto intro: kept_impl_Fetch kept_init_Fetch kept_fetch_secret)

lemma kept_Scheduler_UpdatePreCheck: "kept R (Scheduler_UpdatePreCheck E show_alerts s)"
  unfolding Scheduler_UpdatePreCheck_def by (intro kept_with_client yt_intros)

lemma kept_part_Fetch: "kept R (part_Fetch E p)"
  by (cases p) (simp_all add: kept_Master_reads kept_kind_Fetch Scheduler_Fetch_def QueryTracker_Fetch_def QueueAgent_Fetch_def
      YqlAgent_Fetch_def kept_fetch_all)

lemma kept_part_NeedUpdate: "kept R (part_NeedUpdate E p)"
  by (cases p) (simp_all add: kept_Master_reads kept_kind_NeedUpdate kept_impl_needUpdate)

end

context yt_writing
begin

lemma kept_yt_writes: "kept R (yt_writes E cs)"
  by (induction cs) (auto intro!: yt_intros kept_yt_write)

lemma kept_connect_server: "kept R (connect_server E l n v)"
  unfolding connect_server_def copy_connection_def by (intro yt_intros kept_yt_write)

lemma kept_with_addresses: "(\<And>v. kept R (f v)) \<Longrightarrow> kept R (with_addresses l spec port f)"
  unfolding with_addresses_def by (intro yt_intros)

end

context job_bookkeeping
begin

lemma kept_server_init: "kept R (QueryTracker_init E qt)" "kept R (QueueAgent_init E qa)"
  unfolding QueryTracker_init_def QueueAgent_init_def
  by (intro yt_intros kept_yt_write kept_with_addresses kept_connect_server kept_yt_writes)+

lemma kept_createUser: "kept R (QueryTracker_createUser E qt)" "kept R (QueueAgent_createUser E qa)"
  unfolding QueryTracker_createUser_def QueueAgent_createUser_def by (intro yt_intros kept_CreateUser)+

end

section \<open>The contract of the controller\<close>

lemma quiet_prepare_job: "quiet (prepare_job J)"
  unfolding prepare_job_def by (intro cq.yt_intros jq.kept_job_access)

lemma quiet_RunScript:
  "meta_laws E \<Longrightarrow> ij_statusCondition J \<noteq> ''ReadyToWork'' \<Longrightarrow> quiet (init_RunScript E J dry reason script None)"
  by (intro jq.kept_init_RunScript quiet_set_status_condition) simp_all

lemma quiet_RunUpdateScript:
  "meta_laws E \<Longrightarrow> ij_statusCondition J \<noteq> ''ReadyToWork'' \<Longrightarrow> quiet (init_RunUpdateScript E J dry st script None)"
  by (rule quiet_init) simp_all

lemma quiet_state_steps:
  assumes "meta_laws E" "ij_statusCondition J \<noteq> ''ReadyToWork''" "quiet act"
  shows "quiet (state_prepare E file J needed dry act)" "quiet (state_await E file J needed dry act)"
  unfolding state_prepare_def state_await_def by (intro cq.yt_intros quiet_init_Restart assms)+

lemma quiet_state_update:
  "meta_laws E \<Longrightarrow> quiet pre \<Longrightarrow> quiet tables \<Longrightarrow> quiet rest \<Longrightarrow> quiet (state_update E c pre tables st dry rest)"
  unfolding state_update_def by (intro kept_intros impl.quiet_handleBulk)

lemmas quiet_job_parts = quiet_parts jq.kept_ensure_secret quiet_init(1) quiet_RunScript quiet_RunUpdateScript quiet_prepare_job
  quiet_set_status_condition quiet_set_update_condition quiet_state_steps quiet_state_update cq.kept_instances_PreCheck
  jq.kept_Scheduler_UpdatePreCheck jq.kept_createUser jq.kept_server_init impl.quiet_handleBulk sq.kept_server_access

lemma quiet_Scheduler_Sync:
  assumes "meta_laws E" "\<forall>c \<in> set (part_conditions (SchedulerPart s)). c \<noteq> ''ReadyToWork''"
  shows "quiet (Scheduler_Sync E show_alerts s dry)"
  using assms unfolding Scheduler_Sync_def Scheduler_update_def initOpArchive_def job_completed_def
  by (intro kept_intros cq.yt_intros quiet_job_parts) (simp_all)

lemma quiet_QueryTracker_Sync:
  assumes "meta_laws E" "\<forall>c \<in> set (part_conditions (QueryTrackerPart qt)). c \<noteq> ''ReadyToWork''"
  shows "quiet (QueryTracker_Sync E qt dry)"
proof -
  have "quiet (QueryTracker_setup E qt dry)"
    unfolding QueryTracker_setup_def QueryTracker_enter_def using assms
    by (cases dry; simp only: if_True if_False id_apply) (intro kept_intros cq.yt_intros quiet_job_parts; simp)+
  moreover have "quiet (updateQTState E qt dry)"
    unfolding updateQTState_def using assms by (intro kept_intros quiet_job_parts; simp)
  ultimately show ?thesis
    unfolding QueryTracker_Sync_def QueryTracker_UpdatePreCheck_def using assms(1) by (intro kept_intros quiet_job_parts)
qed

lemma quiet_QueueAgent_Sync:
  assumes "meta_laws E" "\<forall>c \<in> set (part_conditions (QueueAgentPart qa)). c \<noteq> ''ReadyToWork''"
  shows "quiet (QueueAgent_Sync E qa dry)"
proof -
  have user: "quiet (QueueAgent_user E qa dry rest)" if "\<And>b. quiet (rest b)" for rest
    unfolding QueueAgent_user_def using assms(1) that by (intro kept_intros quiet_job_parts)
  have state: "quiet (initQAState E qa dry)" "quiet (QueueAgent_finish E qa dry b)" for b
    unfolding initQAState_def QueueAgent_finish_def using assms by (intro kept_intros quiet_job_parts; simp)+
  have "quiet (QueueAgent_work E qa dry)"
    unfolding QueueAgent_work_def QueueAgent_tables_def by (intro kept_intros cq.yt_intros quiet_job_parts user state assms(1))
  moreover have "quiet (updateQAState E qa dry)"
    unfolding updateQAState_def using assms by (intro kept_intros quiet_job_parts; simp)
  ultimately show ?thesis
    unfolding QueueAgent_Sync_def QueueAgent_UpdatePreCheck_def using assms(1) by (intro kept_intros quiet_job_parts)
qed

lemma quiet_YqlAgent_Sync:
  assumes "meta_laws E" "\<forall>c \<in> set (part_conditions (YqlAgentPart yqla)). c \<noteq> ''ReadyToWork''"
  shows "quiet (YqlAgent_Sync E yqla dry)"
proof -
  have "quiet (YqlAgent_doServerSync E yqla)" unfolding YqlAgent_doServerSync_def by (intro cq.yt_intros sq.kept_impl_Sync)
  then have work: "quiet (YqlAgent_work E yqla dry)"
    using assms unfolding YqlAgent_work_def job_completed_def Let_def by (intro kept_intros quiet_job_parts) simp_all
  have update: "quiet rest \<Longrightarrow> quiet (YqlAgent_update E yqla dry rest)" for rest
    using assms unfolding YqlAgent_update_def YqlAgent_UpdatePreCheck_def by (intro kept_intros quiet_job_parts) simp_all
  have "quiet ((case yqla_execSecret yqla of None \<Rightarrow> id | Some a \<Rightarrow> ensure_secret E (sc_labeller yqla) a dry) (YqlAgent_work E yqla dry))"
    using work by (cases "yqla_execSecret yqla") (auto intro: jq.kept_ensure_secret)
  then show ?thesis
    unfolding YqlAgent_Sync_def by (intro kept_intros jq.kept_ensure_secret update)
qed

lemma quiet_part_Sync:
  assumes "meta_laws E" "\<forall>c \<in> set (part_conditions p). c \<noteq> ''ReadyToWork''"
  shows "quiet (part_Sync E show_alerts p dry)"
proof (cases p)
  case (MasterPart m)
  then have "job_conditions_ok m" using assms(2) by (cases "m_initJob m") simp_all
  then show ?thesis using MasterPart quiet_Master_Sync [OF assms(1)] by simp
qed (use assms in \<open>simp_all add: quiet_Scheduler_Sync quiet_QueryTracker_Sync quiet_QueueAgent_Sync quiet_YqlAgent_Sync quiet_kind_Sync\<close>)

text \<open>
  Every component that runs servers implements the interface the controller relies on, the masters and
  the other components with jobs included: whatever the API server and YTsaurus answer, fetching, looking for
  updates and synchronising, dry or not, change neither the specification nor the cluster and update state, nor the
  updating components, nor the status of any component, and never save the object.
\<close>

theorem components_well_behaved:
  assumes "meta_laws E" "\<forall>c \<in> set (part_conditions p). c \<noteq> ''ReadyToWork''"
  shows "well_behaved (part_component E show_alerts p address l)"
  using keptD [OF jq.kept_part_Fetch [of E p]] keptD [OF jq.kept_part_NeedUpdate [of E p]] keptD [OF quiet_part_Sync [OF assms]]
  by (simp add: well_behaved_def part_component_def case_prod_beta)

section \<open>Dry runs\<close>

lemma no_write_conditions [kept_intros]:
  "kept no_write (set_status_condition E t s r m :: ('x cluster_scheme, unit) state)"
  "kept no_write (set_update_condition E t s r m :: ('x cluster_scheme, unit) state)"
  by (rule keptI, simp add: no_write_def)+

lemma no_write_master_parts:
  fixes m :: "('x, 'z) master_scheme"
  shows "kept no_write (runInitPhaseJobs E m True)" "kept no_write (assign_roles E :: ('x jobs_scheme, unit) state)"
  "kept no_write rest \<Longrightarrow> kept no_write (cells_step E m True rest)"
  "kept no_write rest \<Longrightarrow> kept no_write (pods_removal E m True rest)"
proof -
  have finish: "kept no_write (cells_initialized E st :: ('x jobs_scheme, component_status) state)" for st
    unfolding cells_initialized_def by (intro kept_intros)
  show "kept no_write (runInitPhaseJobs E m True)"
    unfolding runInitPhaseJobs_def with_job_def by (intro kept_intros jr.kept_init_RunScript_dry; use finish in auto)
  show roles: "kept no_write (assign_roles E :: ('x jobs_scheme, unit) state)"
    unfolding assign_roles_def by (intro kept_intros)
  show "kept no_write rest \<Longrightarrow> kept no_write (cells_step E m True rest)"
    unfolding cells_step_def if_True by (intro kept_intros cr.kept_server_access roles)
  show "kept no_write rest \<Longrightarrow> kept no_write (pods_removal E m True rest)"
    unfolding pods_removal_def component_UpdatePreCheck_def by (intro kept_intros dw.rd.R_handleOnDelete dw.rd.R_handleBulk)
qed

lemma no_write_dry_Master: "kept no_write (Master_Sync E m True)"
proof -
  have work: "kept no_write (Master_work E m True)"
    unfolding Master_work_def Master_needSync_def Master_ArePodsReady_def arePodsReady_def serverImpl_simps
    by (intro kept_intros cr.kept_need cr.kept_server_access cr.kept_impl_listPods no_write_master_parts) simp_all
  have script: "kept no_write (case (if IsPrimary m then update_script E m st else None) of
      Some (script, complete) \<Rightarrow> with_job m (\<lambda>J. init_RunUpdateScript E J True st script complete) | None \<Rightarrow> other)"
    if "kept no_write other" for st other
    using that by (auto simp: with_job_def split: option.split if_splits intro: kept_intros jr.kept_init_RunUpdateScript_dry)
  have update: "kept no_write rest \<Longrightarrow> kept no_write (Master_update E m True rest)" for rest
    unfolding Master_update_def open_registration_def if_True
    by (intro kept_bind kept_reads kept_if kept_return preord_no_write script no_write_master_parts)
  show ?thesis
    unfolding Master_Sync_def
    by (cases "m_uploaderSecret m") (simp_all add: kept_intros update work no_write_master_parts jr.kept_ensure_secret_dry)
qed

lemmas dry_job_parts = dw.dry_parts jr.kept_ensure_secret_dry jr.kept_init_Sync_dry jr.kept_init_RunScript_dry
  jr.kept_init_RunUpdateScript_dry cr.kept_instances_PreCheck jr.kept_Scheduler_UpdatePreCheck dw.rd.R_handleBulk cr.kept_server_access

lemma no_write_dry_agents:
  "kept no_write (Scheduler_Sync E show_alerts s True)" "kept no_write (QueryTracker_Sync E qt True)"
  "kept no_write (QueueAgent_Sync E qa True)" "kept no_write (YqlAgent_Sync E yqla True)"
proof -
  show "kept no_write (Scheduler_Sync E show_alerts s True)"
    unfolding Scheduler_Sync_def Scheduler_update_def initOpArchive_def job_completed_def
    by (intro kept_intros dry_job_parts) simp_all
  have tables: "kept no_write (state_prepare E place J b True act)" "kept no_write (state_await E place J b True act)" for place J b and act :: "('x, unit) jact"
    unfolding state_prepare_def state_await_def if_True by (intro kept_intros)+
  have update: "kept no_write (state_update E c (instances_PreCheck E t c) act st True rest)"
    if "kept no_write act" "kept no_write rest" for c :: "('x jobs_ext, 'y) server_component_scheme" and act t st rest
    unfolding state_update_def by (intro kept_intros dry_job_parts that)
  show "kept no_write (QueryTracker_Sync E qt True)"
    unfolding QueryTracker_Sync_def QueryTracker_setup_def QueryTracker_UpdatePreCheck_def updateQTState_def if_True id_apply
    by (intro kept_intros dry_job_parts tables update) simp_all
  have user: "kept no_write (QueueAgent_user E qa True rest)" if "\<And>b. kept no_write (rest b)" for rest
    unfolding QueueAgent_user_def if_True by (intro kept_intros that)
  show "kept no_write (QueueAgent_Sync E qa True)"
    unfolding QueueAgent_Sync_def QueueAgent_work_def QueueAgent_tables_def QueueAgent_UpdatePreCheck_def updateQAState_def initQAState_def
      QueueAgent_finish_def if_True
    by (intro kept_intros dry_job_parts tables update user) simp_all
  show "kept no_write (YqlAgent_Sync E yqla True)"
    unfolding YqlAgent_Sync_def YqlAgent_update_def YqlAgent_UpdatePreCheck_def YqlAgent_work_def job_completed_def Let_def
    by (cases "yqla_execSecret yqla"; simp only: option.case id_apply) (intro kept_intros dry_job_parts; simp)+
qed

text \<open>
  A dry run writes nothing: when the controller only asks for the status of a component, masters and
  components with jobs included, no request that creates, changes or deletes an object is sent to Kubernetes and no
  writing command is sent to YTsaurus, in every state of the cluster and of the update.
\<close>

theorem dry_sync_writes_nothing: "no_write w (snd (run_state (part_Sync E show_alerts p True) w))"
proof -
  have servers: "kept no_write (kind_Sync E k True)" for k :: "'x jobs_ext server_kind"
    by (cases k) (simp_all add: dw.kept_dry_Syncs no_write_dry_ExecNode)
  then have "kept no_write (part_Sync E show_alerts p True)" by (cases p) (simp_all add: no_write_dry_Master no_write_dry_agents)
  then show ?thesis by (rule keptD)
qed

section \<open>Readiness of the queue agent\<close>

text \<open>Steps that leave the object, the servers and the progress of all jobs alone.\<close>

definition steady :: "'x jobs_scheme \<Rightarrow> 'x jobs_scheme \<Rightarrow> bool" where
  "steady w w' \<longleftrightarrow> w_object w' = w_object w \<and> w_status w' = w_status w \<and> k_servers w' = k_servers w \<and> k_calls w \<le> k_calls w' \<and>
     (\<forall>i. init_Exists (k_jobs w' i) = init_Exists (k_jobs w i) \<and> ij_reason (k_jobs w' i) = ij_reason (k_jobs w i))"

lemma preord_steady [kept_intros]: "preord steady"
  by (auto simp: preord_def reflp_def transp_def steady_def)

interpretation st: reading steady
  by unfold_locales (simp_all add: preord_steady, simp_all add: steady_def RecordNormal_def RecordWarning_def)

lemma steady_reads [kept_intros]: "kept steady (serverComponent_NeedSync E c)" "kept steady (serverComponent_ArePodsReady E c)"
  unfolding serverComponent_NeedSync_def impl_needSync_def impl_needUpdate_def timbertruckConfigNeedsReload_def
    get_server_def serverComponent_ArePodsReady_def arePodsReady_def impl_listPods_def serverImpl_simps
  by (intro kept_intros st.kept_builder st.kept_api_call)+

lemma steady_yt_write [kept_intros]: "kept steady (yt_write E cmd)"
  by (rule keptI) (simp add: yt_write_def steady_def)

lemma steady_createUser [kept_intros]: "kept steady (QueueAgent_createUser E qa)"
  unfolding QueueAgent_createUser_def CreateUser_def grant_token_def make_superuser_def by (intro kept_intros)

lemma steady_prepare_job [kept_intros]: "kept steady (prepare_job J)"
proof (rule keptI)
  fix w :: "'x jobs_scheme"
  have "init_Exists (init_Build spec J j) = init_Exists j \<and> ij_reason (init_Build spec J j) = ij_reason j" for spec j
    by (simp add: init_Build_def init_Exists_def job_Build_def builder_Exists_def managed_Exists_def Let_def)
  then show "steady w (snd (run_state (prepare_job J) w))" by (simp add: prepare_job_def steady_def)
qed

lemma steady_simps:
  assumes "steady w w'"
  shows "GetClusterState w' = GetClusterState w" "GetUpdateState w' = GetUpdateState w" "GetStatus c w' = GetStatus c w"
    "IsStatusConditionTrue E t w' = IsStatusConditionTrue E t w" "GetStatusCondition E t w' = GetStatusCondition E t w"
    "ShouldSkipCypressOperations w' = ShouldSkipCypressOperations w" "init_IsCompleted E J w' = init_IsCompleted E J w"
    "k_servers w' = k_servers w"
  using assms by (simp_all add: steady_def GetClusterState_def GetUpdateState_def GetStatus_def IsStatusConditionTrue_def
      GetStatusCondition_def ShouldSkipCypressOperations_def init_IsCompleted_def)

lemma NeedSync_ready:
  assumes "run_state (sync_server (serverComponent_NeedSync E c) dry sync rest) w = ((st, err), w')" "IsReady st"
  obtains w1 where "steady w w1" "run_state rest w1 = ((st, err), w')"
proof -
  obtain need w1 where n: "run_state (serverComponent_NeedSync E c) w = (need, w1)" by fastforce
  have "\<not> need" using assms n
    by (auto simp: sync_server_def ComponentStatusWaitingFor_def IsReady_def case_prod_beta split: if_splits)
  then show ?thesis using that [of w1] keptD_eq [OF steady_reads(1) n] assms(1) n by (simp add: sync_server_def)
qed

lemma ArePodsReady_ready:
  assumes "run_state (serverComponent_ArePodsReady E c) w = ((st, None), w')" "IsReady st"
  obtains pods where "ka_ListPods (e_Kube E (k_calls w)) (si_labeller (k_servers w (sc_id c))) = Inr pods"
    "IsReady (pods_status pods [] (si_instanceCount (k_servers w (sc_id c))) (impl_minReady (sc_id c) 0 w))"
  using assms by (auto simp: serverComponent_ArePodsReady_def arePodsReady_def impl_listPods_def api_call_def impl_minReady_def split: sum.splits)

lemma init_Sync_ready_state:
  assumes "run_state (init_Sync E J dry) w = ((st, err), w')" "IsReady st"
  shows "w' = w"
proof -
  have start: "\<not> IsReady st" if "run_state (init_start E J dry b c) w = ((st, err), w')" for b c
    using init_start_not_ready [of E J dry b c] that unfolding answers_not_ready_def by (metis fst_conv)
  then show ?thesis
    using assms
    by (auto simp: init_Sync_def Let_def waiting_job_def ComponentStatusWaitingFor_def IsReady_def split: if_splits option.splits)
qed

text \<open>The job of the state tables reports ready only when it has completed.\<close>

lemma initQAState_ready:
  assumes "meta_laws E" "run_state (initQAState E qa dry) w = ((st, None), w')" "IsReady st"
  shows "init_IsCompleted E (qa_initQAStateJob qa) w \<and> steady w w'"
proof -
  let ?J = "qa_initQAStateJob qa"
  note waited = wait_for_all_ready [OF assms(2) [unfolded initQAState_def] assms(3)]
  obtain w1 where w1: "steady w w1" "run_state (init_Sync E ?J dry) w1 = ((st, None), w')"
  proof (cases dry)
    case True
    then show ?thesis using that [of w] waited preordD(1) [OF preord_steady, of w] by simp
  next
    case False
    obtain u w1 where p: "run_state (prepare_job ?J) w = (u, w1)" by (cases "run_state (prepare_job ?J) w")
    show ?thesis using that [of w1] keptD_eq [OF steady_prepare_job p] waited p False by simp
  qed
  from init_Sync_ready [OF w1(2) assms(3)] init_Sync_ready_state [OF w1(2) assms(3)] steady_simps [OF w1(1)] w1(1) show ?thesis
    by (auto simp: init_IsCompleted_def steady_def IsStatusConditionTrue_def GetStatusCondition_def meta_laws_simps [OF assms(1)])
qed

lemma QueueAgent_user_ready:
  assumes "run_state (QueueAgent_user E qa dry rest) w = ((st, None), w')" "IsReady st" "GetClusterState w \<noteq> ClusterStateUpdating"
  obtains b w1 where "IsRunning (GetStatus (qa_ytsaurusClient qa) w)" "steady w w1" "run_state (rest b) w1 = ((st, None), w')"
proof -
  obtain err w1 where c: "run_state (QueueAgent_createUser E qa) w = (err, w1)" by fastforce
  note s = keptD_eq [OF steady_createUser c]
  show ?thesis
    using assms c that [of w False] that [OF _ s, of True] preordD(1) [OF preord_steady, of w]
    by (auto simp: QueueAgent_user_def wait_for_def Blocker_def ComponentStatusWaitingFor_def IsReady_def panic_status_def
        ComponentStatusSprintf_def split: if_splits)
qed

text \<open>What the part of \<open>Sync\<close> that does the work has seen when it reports ready.\<close>

lemma QueueAgent_work_ready:
  assumes "meta_laws E" "run_state (QueueAgent_work E qa dry) w = ((st, None), w')" "IsReady st"
    and "GetClusterState w \<noteq> ClusterStateUpdating"
    and "si_instanceCount (k_servers w (sc_id qa)) \<noteq> 0" "\<not> ShouldSkipCypressOperations w"
  shows "IsRunning (GetStatus (qa_ytsaurusClient qa) w) \<and> init_IsCompleted E (qa_initQAStateJob qa) w \<and>
    IsStatusConditionTrue E (qa_initCondition qa) w \<and>
    (\<exists>n \<ge> k_calls w. \<exists>pods. ka_ListPods (e_Kube E n) (si_labeller (k_servers w (sc_id qa))) = Inr pods \<and>
       IsReady (pods_status pods [] (si_instanceCount (k_servers w (sc_id qa))) (impl_minReady (sc_id qa) 0 w)))"
proof -
  obtain w1 where w1: "steady w w1"
    and r1: "run_state (ready_then (serverComponent_ArePodsReady E qa) (QueueAgent_tables E qa dry)) w1 = ((st, None), w')"
    using NeedSync_ready [OF ensure_secret_ready [OF assms(2) [unfolded QueueAgent_work_def] assms(3)] assms(3)] .
  from r1 assms(3) obtain st2 w2 where p: "run_state (serverComponent_ArePodsReady E qa) w1 = ((st2, None), w2)" "IsReady st2"
    and r2: "run_state (QueueAgent_tables E qa dry) w2 = ((st, None), w')" by (elim ready_then_ready)
  have w2: "steady w w2" using preordD(2) [OF preord_steady w1 keptD_eq [OF steady_reads(2) p(1)]] .
  have r3: "run_state (QueueAgent_user E qa dry (\<lambda>ytClient. ready_then (initQAState E qa dry) (QueueAgent_finish E qa dry ytClient))) w2 = ((st, None), w')"
    using r2 steady_simps [OF w2] assms(4-6) by (simp add: QueueAgent_tables_def get_server_def)
  obtain b w3 where running: "IsRunning (GetStatus (qa_ytsaurusClient qa) w2)" and w3: "steady w2 w3"
    and r4: "run_state (ready_then (initQAState E qa dry) (QueueAgent_finish E qa dry b)) w3 = ((st, None), w')"
    using QueueAgent_user_ready [OF r3 assms(3)] steady_simps(1) [OF w2] assms(4) by metis
  from r4 assms(3) obtain st4 w4 where j: "run_state (initQAState E qa dry) w3 = ((st4, None), w4)" "IsReady st4"
    and r5: "run_state (QueueAgent_finish E qa dry b) w4 = ((st, None), w')" by (elim ready_then_ready)
  note completed = initQAState_ready [OF assms(1) j]
  have w34: "steady w w3" "steady w w4" using preordD(2) [OF preord_steady w2 w3] preordD(2) [OF preord_steady _ conjunct2 [OF completed]] by blast+
  have condition: "IsStatusConditionTrue E (qa_initCondition qa) w4"
    using r5 assms(3) by (auto simp: QueueAgent_finish_def ComponentStatusWaitingFor_def panic_status_def ComponentStatusSprintf_def IsReady_def
        case_prod_beta split: if_splits)
  obtain pods where "ka_ListPods (e_Kube E (k_calls w1)) (si_labeller (k_servers w1 (sc_id qa))) = Inr pods"
    "IsReady (pods_status pods [] (si_instanceCount (k_servers w1 (sc_id qa))) (impl_minReady (sc_id qa) 0 w1))"
    using ArePodsReady_ready [OF p] .
  moreover have "k_calls w \<le> k_calls w1" "k_servers w1 = k_servers w" "impl_minReady (sc_id qa) 0 w1 = impl_minReady (sc_id qa) 0 w"
    using w1 by (simp_all add: steady_def impl_minReady_def)
  moreover have "IsRunning (GetStatus (qa_ytsaurusClient qa) w)" "init_IsCompleted E (qa_initQAStateJob qa) w"
    "IsStatusConditionTrue E (qa_initCondition qa) w"
    using running completed condition by (simp_all add: steady_simps [OF w2] steady_simps [OF w34(1)] steady_simps [OF w34(2)])
  ultimately show ?thesis by auto
qed

text \<open>
  (C21) What readiness of the queue agent means outside updates, when it has instances and the cluster takes Cypress
  operations: the masters, the tablet nodes, of which there is at least one, and the client were running, the job that creates the state
  tables has completed, the condition that records the registration of the agents is true, and the API server lists enough ready
  pods in this very call.
\<close>

theorem ready_queue_agent_is_initialised:
  assumes "meta_laws E" "GetClusterState w \<noteq> ClusterStateUpdating"
    and "si_instanceCount (k_servers w (sc_id qa)) \<noteq> 0" "\<not> ShouldSkipCypressOperations w"
    and "run_state (QueueAgent_Sync E qa dry) w = ((status, None), w')" "IsReady status"
  shows "pred_option (\<lambda>c. IsRunning (GetStatus c w)) (sc_master qa) \<and> qa_tabletNodes qa \<noteq> [] \<and>
    (\<forall>c \<in> set (qa_tabletNodes qa). IsRunning (GetStatus c w)) \<and> IsRunning (GetStatus (qa_ytsaurusClient qa) w) \<and>
    init_IsCompleted E (qa_initQAStateJob qa) w \<and> IsStatusConditionTrue E (qa_initCondition qa) w \<and>
    (\<exists>n \<ge> k_calls w. \<exists>pods. ka_ListPods (e_Kube E n) (si_labeller (k_servers w (sc_id qa))) = Inr pods \<and>
       IsReady (pods_status pods [] (si_instanceCount (k_servers w (sc_id qa))) (impl_minReady (sc_id qa) 0 w)))"
proof -
  let ?rest = "if qa_tabletNodes qa = [] then ret (ComponentStatusBlockedBy ''tablet nodes'', Some ''cannot initialize queue agent without tablet nodes'')
     else wait_for_all (qa_tabletNodes qa) (QueueAgent_work E qa dry)"
  have "run_state (wait_for (sc_master qa) ?rest) w = ((status, None), w')"
    using assms(2,5) by (simp add: QueueAgent_Sync_def if_updating_def)
  then have "pred_option (\<lambda>c. IsRunning (GetStatus c w)) (sc_master qa)" and r: "run_state ?rest w = ((status, None), w')"
    using assms(6) by (auto simp: wait_for_def Blocker_def IsReady_def split: option.splits if_splits)
  moreover have nonempty: "qa_tabletNodes qa \<noteq> []" using r by (auto split: if_splits)
  moreover have "run_state (wait_for_all (qa_tabletNodes qa) (QueueAgent_work E qa dry)) w = ((status, None), w')"
    using r nonempty by simp
  note waited = wait_for_all_ready [OF this assms(6)]
  ultimately show ?thesis using QueueAgent_work_ready [OF assms(1) _ assms(6,2,3,4)] waited by blast
qed

section \<open>The client of the queue agent during an update\<close>

definition panicked :: "component_status \<Rightarrow> bool" where
  "panicked st \<longleftrightarrow> (\<exists>what. st = panic_status what)"

text \<open>The answer of an action in a state is not a panic.\<close>

definition calm :: "'s \<Rightarrow> ('s, component_status \<times> go_error) state \<Rightarrow> bool" where
  "calm w act \<longleftrightarrow> \<not> panicked (fst (fst (run_state act w)))"

lemma sane_status [simp]:
  "\<not> panicked ComponentStatusReady" "\<not> panicked (ComponentStatusReadyAfter m)" "\<not> panicked (ComponentStatusWaitingFor m)"
  "\<not> panicked (ComponentStatusBlocked m)" "\<not> panicked (ComponentStatusBlockedBy m)" "\<not> panicked (ComponentStatusUpdateStep m)"
  "\<not> panicked (ComponentStatusStarted m)" "\<not> panicked (Blocker st)" "\<not> panicked (server_updating place)"
  by (simp_all add: panicked_def panic_status_def component_status_defs)

lemma calm_intros:
  "\<not> panicked st \<Longrightarrow> calm w (ret (st, e))"
  "calm (snd (run_state act w)) (f (fst (run_state act w))) \<Longrightarrow> calm w (State_Monad.bind act f)"
  "calm w m \<Longrightarrow> calm w n \<Longrightarrow> calm w (if b then m else n)"
  "calm w m \<Longrightarrow> (\<And>x. calm w (h x)) \<Longrightarrow> calm w (case o0 of None \<Rightarrow> m | Some x \<Rightarrow> h x)"
  "(\<And>x y. calm w (g x y)) \<Longrightarrow> calm w (case p of (x, y) \<Rightarrow> g x y)"
  "calm w (k v) \<Longrightarrow> calm w (let x = v in k x)"
  by (auto simp: calm_def case_prod_beta split: option.splits)

lemma calm_init_Sync: "calm w (init_Sync E J dry)"
  unfolding init_Sync_def init_start_def init_launch_def start_job_def
  by (intro calm_intros; simp add: waiting_job_def init_config_status_def)

lemma calm_ArePodsReady: "calm w (serverComponent_ArePodsReady E c)"
  by (auto simp: serverComponent_ArePodsReady_def arePodsReady_def calm_def pods_status_def Let_def case_prod_beta split: sum.splits)

lemma calm_wait_for: "calm w rest \<Longrightarrow> calm w (wait_for c rest)" "calm w rest \<Longrightarrow> calm w (wait_for_all cs rest)"
proof -
  show wait: "calm w (wait_for c rest)" if "calm w rest" for c rest
    using that by (cases c) (auto simp: wait_for_def calm_def)
  show "calm w rest \<Longrightarrow> calm w (wait_for_all cs rest)" by (induction cs) (auto intro: wait)
qed

lemma calm_ensure_secret: "calm w rest \<Longrightarrow> calm w (ensure_secret E l a dry rest)"
  by (auto simp: ensure_secret_def calm_def case_prod_beta)

lemma calm_sync_server:
  assumes "\<And>w1. steady w w1 \<Longrightarrow> calm w1 rest"
  shows "calm w (sync_server (serverComponent_NeedSync E c) dry sync rest)"
proof -
  obtain need w1 where n: "run_state (serverComponent_NeedSync E c) w = (need, w1)" by fastforce
  with assms [OF keptD_eq [OF steady_reads(1) n]] show ?thesis by (auto simp: sync_server_def calm_def case_prod_beta)
qed

lemma calm_ready_then:
  assumes "calm w act" "\<And>st w1. run_state act w = ((st, None), w1) \<Longrightarrow> IsReady st \<Longrightarrow> calm w1 rest"
  shows "calm w (ready_then act rest)"
proof -
  obtain st err w1 where r: "run_state act w = ((st, err), w1)" by (metis surj_pair)
  show ?thesis using assms(1) assms(2) [of st w1] r by (auto simp: ready_then_def calm_def)
qed

text \<open>The work of an update never gets as far as the initialisation, which would use the client.\<close>

lemma calm_QueueAgent_work:
  assumes "meta_laws E" "GetClusterState w = ClusterStateUpdating"
    and "GetUpdateState w = UpdateStateWaitingForPodsCreation \<or> \<not> init_IsCompleted E (qa_initQAStateJob qa) w"
  shows "calm w (QueueAgent_work E qa dry)"
proof -
  have tables: "calm w1 (QueueAgent_tables E qa dry)" if "steady w w1" for w1
  proof -
    have "calm w1 (initQAState E qa dry)"
      unfolding initQAState_def by (intro calm_wait_for calm_intros calm_init_Sync)
    then have "calm w1 (ready_then (initQAState E qa dry) (QueueAgent_finish E qa dry False))"
      if "\<not> init_IsCompleted E (qa_initQAStateJob qa) w1"
      using that initQAState_ready [OF assms(1)] by (intro calm_ready_then) blast+
    with assms(2,3) show ?thesis
      by (auto simp: QueueAgent_tables_def QueueAgent_user_def get_server_def steady_simps [OF that] calm_def)
  qed
  show ?thesis
    unfolding QueueAgent_work_def
    by (intro calm_ensure_secret calm_sync_server calm_ready_then calm_ArePodsReady tables)
       (metis keptD_eq steady_reads(2) preordD(2) preord_steady)
qed

lemma handleBulk_answers:
  "fst (fst (run_state (handleBulkUpdatingClusterState E l pre manager dry) w)) = Some st \<Longrightarrow> \<not> panicked st"
  by (auto simp: handleBulkUpdatingClusterState_def prechecks_guard_def runPrechecks_def or_else_def Let_def case_prod_beta split: if_splits)

text \<open>
  The variable of the client of the queue agent is nil during an update.  Nevertheless no call of
  \<open>Sync\<close> in an update dereferences it, whatever the API server and YTsaurus answer: the step that would is reached only
  when the job of the state tables has completed, and then the update step reports before it.
\<close>

theorem queue_agent_update_spares_nil_client:
  assumes "meta_laws E" "GetClusterState w = ClusterStateUpdating"
    and "run_state (QueueAgent_Sync E qa dry) w = ((status, err), w')"
  shows "\<not> panicked status"
proof -
  let ?bulk = "handleBulkUpdatingClusterState E (sc_labeller qa) (QueueAgent_UpdatePreCheck E qa) (serverImpl E (sc_id qa)) dry"
  let ?rest = "wait_for (sc_master qa) (if qa_tabletNodes qa = []
     then ret (ComponentStatusBlockedBy ''tablet nodes'', Some ''cannot initialize queue agent without tablet nodes'')
     else wait_for_all (qa_tabletNodes qa) (QueueAgent_work E qa dry))"
  obtain st err1 w1 where b: "run_state ?bulk w = ((st, err1), w1)" by (metis surj_pair)
  have "quiet ?bulk"
    unfolding QueueAgent_UpdatePreCheck_def by (intro impl.quiet_handleBulk assms(1) cq.kept_instances_PreCheck)
  from keptD_eq [OF this b] have w1: "GetClusterState w1 = ClusterStateUpdating" "GetUpdateState w1 = GetUpdateState w"
    using assms(2) by (simp_all add: keeps_def same_control_def)
  have rest: "calm w1 ?rest"
    if "GetUpdateState w1 = UpdateStateWaitingForPodsCreation \<or> \<not> init_IsCompleted E (qa_initQAStateJob qa) w1"
    using calm_QueueAgent_work [OF assms(1) w1(1) that] by (auto intro!: calm_wait_for calm_intros)
  have "st = Some s \<Longrightarrow> \<not> panicked s" for s using handleBulk_answers [of E _ _ _ dry w s] b by (metis fst_conv)
  then show ?thesis
    using assms(2,3) b w1(1) rest
    by (auto simp: QueueAgent_Sync_def if_updating_def state_update_def handled_def updateQAState_def state_prepare_def state_await_def
        calm_def case_prod_beta split: if_splits option.splits)
qed

section \<open>Witnesses\<close>

definition sample_queue_agent :: "unit queue_agent" where
  "sample_queue_agent = \<lparr>sc_id = 0, sc_labeller = ForComponent QueueAgentType '''' zero_labeller, sc_master = None, sc_hasClient = True,
     qa_spec = ms_InstanceSpec sample_masters, qa_ytsaurusClient = const_component 1 YtsaurusClientType '''' SyncStatusReady,
     qa_tabletNodes = [const_component 2 TabletNodeType '''' SyncStatusReady], qa_initQAStateJob = fst sample_init,
     qa_initCondition = ''queueAgentInitCompleted'', qa_secret = 0\<rparr>"

text \<open>A world in which every other component is ready and every secret has a token.\<close>

definition agent_world :: "cluster_state \<Rightarrow> update_status \<Rightarrow> condition list \<Rightarrow> jobs" where
  "agent_world state us conds = (master_world state us conds)
     \<lparr>w_status := (\<lambda>_. ComponentStatusReady),
      k_secrets := (\<lambda>_. let s = empty_managed ''token'' \<lparr>sec_Data = [TokenSecretKey \<mapsto> ''t''], sec_StringData = Map.empty\<rparr>
        in s\<lparr>mr_old := (mr_old s)\<lparr>o_ResourceVersion := ''3''\<rparr>\<rparr>)\<rparr>"

definition served :: jobs where
  "served = agent_world ClusterStateRunning empty_update_status
     [mkcond (ij_statusCondition (fst sample_init)) ConditionTrue InitJobDefaultReason '''', mkcond ''queueAgentInitCompleted'' ConditionTrue '''' '''']"

theorem components_well_behaved_witness:
  "well_behaved (part_component (sample_cenv (sample_api None [])) (\<lambda>_. '''') (QueueAgentPart sample_queue_agent) 0 zero_labeller)"
proof -
  have "ij_statusCondition (fst sample_init) \<noteq> ''ReadyToWork''" by code_simp
  then show ?thesis by (intro components_well_behaved) (simp_all add: sample_queue_agent_def)
qed

theorem ready_queue_agent_is_initialised_witness:
  "\<exists>n pods. ka_ListPods (e_Kube (sample_cenv (sample_api None [sample_pod ''a'' True, sample_pod ''b'' True, sample_pod ''c'' True])) n)
     zero_labeller = Inr pods \<and> IsReady (pods_status pods [] 3 3)"
proof -
  let ?E = "sample_cenv (sample_api None [sample_pod ''a'' True, sample_pod ''b'' True, sample_pod ''c'' True])" and ?qa = sample_queue_agent
  obtain status err w' where r: "run_state (QueueAgent_Sync ?E ?qa False) served = ((status, err), w')" by (metis surj_pair)
  have "snd (fst (run_state (QueueAgent_Sync ?E ?qa False) served)) = None" by code_simp
  with r have err: "err = None" by simp
  have "IsReady (fst (fst (run_state (QueueAgent_Sync ?E ?qa False) served)))" by code_simp
  with r have st: "IsReady status" by simp
  have s: "GetClusterState served \<noteq> ClusterStateUpdating" "si_instanceCount (k_servers served (sc_id ?qa)) \<noteq> 0"
    "\<not> ShouldSkipCypressOperations served" "si_instanceCount (k_servers served (sc_id ?qa)) = 3" "impl_minReady (sc_id ?qa) 0 served = 3"
    by code_simp+
  have l: "si_labeller (k_servers served (sc_id ?qa)) = zero_labeller"
    by (simp add: served_def agent_world_def master_world_def cluster.defs sample_cluster_def servers.defs kube.defs existing_server_def
        sample_server_def)
  from ready_queue_agent_is_initialised [OF meta_laws_sample_cenv s(1-3) r [unfolded err] st] show ?thesis unfolding s(4,5) l by blast
qed

definition tables_updating :: jobs where
  "tables_updating = agent_world ClusterStateUpdating (empty_update_status\<lparr>us_State := UpdateStateWaitingForQAStateUpdate,
     us_UpdatingComponents := [\<lparr>ref_type = QueueAgentType, ref_name = ''''\<rparr>]\<rparr>) []"

theorem queue_agent_update_spares_nil_client_witness:
  "\<not> panicked (fst (fst (run_state (QueueAgent_Sync (sample_cenv (sample_api None [])) sample_queue_agent False) tables_updating)))"
proof -
  let ?E = "sample_cenv (sample_api None [])"
  obtain status err w' where r: "run_state (QueueAgent_Sync ?E sample_queue_agent False) tables_updating = ((status, err), w')" by (metis surj_pair)
  have "GetClusterState tables_updating = ClusterStateUpdating" by code_simp
  from queue_agent_update_spares_nil_client [OF meta_laws_sample_cenv this r] r show ?thesis by simp
qed

end
