(* ===== verification/Microservice.thy ===== *)
theory Microservice
  imports Init_Servers
begin

text \<open>
  Microservices, \<open>pkg/components/microservice.go\<close> with \<open>pkg/resources/deployment.go\<close>: a Deployment with its config map
  and service, and the two components built on it, the user interface (\<open>pkg/components/ui.go\<close>) and the controller of
  Strawberry (\<open>pkg/components/strawberry_controller.go\<close>).  The objects of the operator live in \<open>k_micros\<close>, by
  address; the built Deployment and service are the new objects of the managed ones, as the pointers are the same.
\<close>

section \<open>State\<close>

record microservice_impl =
  mi_labeller :: labeller
  mi_image :: string
  mi_instanceCount :: int
  mi_deployment :: "deployment managed"
  mi_built :: bool
  mi_service :: "service managed"
  mi_configs :: config_map_builder
  mi_builtDeployment :: bool
  mi_builtService :: bool

record micros = jobs +
  k_micros :: "nat \<Rightarrow> microservice_impl"

type_synonym ('x, 'a) mact = "('x micros_scheme, 'a) state"
type_synonym 'x mcomponent = "'x micros_ext jcomponent"
type_synonym 'x moutcome = "('x, component_status \<times> go_error) mact"

definition get_micro :: "nat \<Rightarrow> ('x, microservice_impl) mact" where
  "get_micro a = reads (\<lambda>w. k_micros w a)"

definition upd_micro :: "nat \<Rightarrow> (microservice_impl \<Rightarrow> microservice_impl) \<Rightarrow> ('x, unit) mact" where
  "upd_micro a f = modifies (\<lambda>w. w\<lparr>k_micros := (k_micros w)(a := f (k_micros w a))\<rparr>)"

lemma run_micro_access [simp]:
  "run_state (get_micro a) w = (k_micros w a, w)"
  "run_state (upd_micro a f) w = ((), w\<lparr>k_micros := (k_micros w)(a := f (k_micros w a))\<rparr>)"
  by (simp_all add: get_micro_def upd_micro_def)

text \<open>
  The constructor; \<open>generators\<close> are the entries of a map, added in the order of their file names.  It panics, as the
  labeller does, when the component has no name (\<open>None\<close>).
\<close>

definition newMicroservice ::
  "labeller \<Rightarrow> string option \<Rightarrow> string \<Rightarrow> int \<Rightarrow> config_generator list \<Rightarrow> string \<Rightarrow> string \<Rightarrow> microservice_impl option" where
  "newMicroservice l configOverrides image0 instanceCount generators deploymentName serviceName =
    map_option (\<lambda>configName.
      \<lparr>mi_labeller = l, mi_image = image0, mi_instanceCount = instanceCount,
       mi_deployment = empty_managed deploymentName
         \<lparr>dp_Replicas = None, dp_TemplateLabels = Map.empty, dp_TemplateAnnotations = Map.empty, dp_InitContainers = [], dp_Containers = []\<rparr>,
       mi_built = False,
       mi_service = empty_managed serviceName \<lparr>svc_Type = '''', svc_ClusterIP = '''', svc_Selector = Map.empty\<rparr>,
       mi_configs = \<lparr>cb_labeller = l, cb_generators = sort_key cg_FileName generators, cb_configOverrides = configOverrides,
         cb_overridesMap = object_meta zero_labeller '''' '''' Map.empty, cb_configMap = empty_managed configName Map.empty\<rparr>,
       mi_builtDeployment = False, mi_builtService = False\<rparr>)
     (GetMainConfigMapName l)"

section \<open>Reading\<close>

definition micro_Fetch :: "'e kenv_scheme \<Rightarrow> nat \<Rightarrow> ('x, go_error) mact" where
  "micro_Fetch E a = resources_seq
     [Some (do {
        s \<leftarrow> get_micro a;
        (r, err) \<leftarrow> managed_Fetch ka_deployment E (mi_deployment s);
        upd_micro a (\<lambda>s. s\<lparr>mi_deployment := r\<rparr>);
        ret err
      }),
      Some (do {
        s \<leftarrow> get_micro a;
        (h, err) \<leftarrow> builder_Fetch E (mi_configs s);
        upd_micro a (\<lambda>s. s\<lparr>mi_configs := h\<rparr>);
        ret err
      }),
      Some (do {
        s \<leftarrow> get_micro a;
        (r, err) \<leftarrow> managed_Fetch ka_svc E (mi_service s);
        upd_micro a (\<lambda>s. s\<lparr>mi_service := r\<rparr>);
        ret err
      })]"

definition micro_Exists :: "microservice_impl \<Rightarrow> bool" where
  "micro_Exists s = resources_Exists [Some (managed_Exists (mi_deployment s)), Some (builder_Exists (mi_configs s)),
     Some (managed_Exists (mi_service s))]"

definition micro_minReady :: "nat \<Rightarrow> int \<Rightarrow> 'x micros_scheme \<Rightarrow> int" where
  "micro_minReady a margin w = max (wrap32 (mi_instanceCount (k_micros w a) - margin)) 0"

definition micro_listPods :: "'e kenv_scheme \<Rightarrow> nat \<Rightarrow> ('x, string + pod list) mact" where
  "micro_listPods E a = do {
     s \<leftarrow> get_micro a;
     api \<leftarrow> api_call E;
     ret (ka_ListPods api (mi_labeller s))
   }"

definition micro_replicas :: "microservice_impl \<Rightarrow> int" where
  "micro_replicas s = ptr_deref (dp_Replicas (o_Content (mr_old (mi_deployment s)))) 1"

definition micro_needSync :: "'e kenv_scheme \<Rightarrow> nat \<Rightarrow> ('x, bool) mact" where
  "micro_needSync E a = do {
     s \<leftarrow> get_micro a;
     (configStatus, err) \<leftarrow> needReload E (mi_configs s);
     updating \<leftarrow> reads IsUpdating;
     ret (\<not> micro_Exists s \<or> (updating \<and> err = None \<and> IsNeedUpdate configStatus) \<or> micro_replicas s \<noteq> mi_instanceCount s)
   }"

text \<open>An existing Deployment has a container.\<close>

definition micro_imageCorresponds :: "microservice_impl \<Rightarrow> bool" where
  "micro_imageCorresponds s \<longleftrightarrow>
    (case dp_Containers (o_Content (mr_old (mi_deployment s))) of [] \<Rightarrow> False | (_, image0) # _ \<Rightarrow> image0 = mi_image s)"

definition micro_needUpdate :: "'e kenv_scheme \<Rightarrow> nat \<Rightarrow> ('x, component_status) mact" where
  "micro_needUpdate E a = do {
     s \<leftarrow> get_micro a;
     if \<not> micro_Exists s then ret (ComponentStatusPending ''init'')
     else if \<not> micro_imageCorresponds s then ret (ComponentStatusNeedUpdate ''image update'')
     else do {
       (status, err) \<leftarrow> needReload E (mi_configs s);
       ret (if err = None \<and> IsNeedUpdate status then status else ComponentStatusReady)
     }
   }"

section \<open>Building and synchronising\<close>

definition new_deployment :: "labeller \<Rightarrow> deployment" where
  "new_deployment l = \<lparr>dp_Replicas = None, dp_TemplateLabels = ptr_deref (GetMetaLabelMap l False) Map.empty,
     dp_TemplateAnnotations = l_Annotations l, dp_InitContainers = [], dp_Containers = []\<rparr>"

definition deployment_Build :: "microservice_impl \<Rightarrow> microservice_impl" where
  "deployment_Build s =
    (if mi_built s then s
     else s\<lparr>mi_built := True, mi_deployment := (mi_deployment s)\<lparr>mr_new :=
       object_meta (mi_labeller s) (mr_name (mi_deployment s)) ''*v1.Deployment'' (new_deployment (mi_labeller s))\<rparr>\<rparr>)"

definition map_deployment :: "(deployment \<Rightarrow> deployment) \<Rightarrow> microservice_impl \<Rightarrow> microservice_impl" where
  "map_deployment f s = s\<lparr>mi_deployment := (mi_deployment s)\<lparr>mr_new :=
     (mr_new (mi_deployment s))\<lparr>o_Content := f (o_Content (mr_new (mi_deployment s)))\<rparr>\<rparr>\<rparr>"

definition rebuildDeployment :: "microservice_impl \<Rightarrow> microservice_impl" where
  "rebuildDeployment s =
    (map_deployment (\<lambda>d. d\<lparr>dp_Replicas := Some (mi_instanceCount s), dp_Containers := [('''', mi_image s)]\<rparr>) (deployment_Build s))
      \<lparr>mi_builtDeployment := True\<rparr>"

definition buildDeployment :: "microservice_impl \<Rightarrow> microservice_impl" where
  "buildDeployment s = (if mi_builtDeployment s then s else rebuildDeployment s)"

definition buildService :: "microservice_impl \<Rightarrow> microservice_impl" where
  "buildService s =
    (if mi_builtService s then s
     else s\<lparr>mi_service := build_service (mi_labeller s) '''' (mi_service s), mi_builtService := True\<rparr>)"

definition micro_setConfigHash :: "config_map k8s_object \<Rightarrow> microservice_impl \<Rightarrow> microservice_impl \<times> go_error" where
  "micro_setConfigHash cm s =
    (let configHash = ptr_deref (annotation_of cm ConfigHashAnnotationName) ''''
     in if configHash = '''' then (s, Some (''config hash is not found for '' @ o_Name cm))
        else (map_deployment (\<lambda>d. d\<lparr>dp_TemplateAnnotations := (dp_TemplateAnnotations d)(ConfigHashAnnotationName \<mapsto> configHash)\<rparr>) s, None))"

definition micro_setInstanceHash :: "config_codec \<Rightarrow> microservice_impl \<Rightarrow> microservice_impl \<times> go_error" where
  "micro_setInstanceHash C s =
    (let d = o_Content (mr_new (mi_deployment s))
     in case cc_HashTemplate C (dp_TemplateLabels d) (dp_TemplateAnnotations d) (dp_InitContainers d @ dp_Containers d) of
       Inl err \<Rightarrow> (s, Some err)
     | Inr instanceHash \<Rightarrow> (s\<lparr>mi_deployment := (mi_deployment s)\<lparr>mr_new :=
         SetMetaDataAnnotation ''ytsaurus.tech/instance-hash'' instanceHash (mr_new (mi_deployment s))\<rparr>\<rparr>, None))"

text \<open>The in-memory part of \<open>Sync\<close>, between building the config map and writing.\<close>

definition micro_build :: "config_codec \<Rightarrow> microservice_impl \<Rightarrow> microservice_impl \<times> go_error" where
  "micro_build C s =
    (let (s1, err) = micro_setConfigHash (mr_new (cb_configMap (mi_configs s))) (buildService (buildDeployment s))
     in case err of Some e \<Rightarrow> (s1, Some e) | None \<Rightarrow> micro_setInstanceHash C s1)"

definition micro_Sync :: "'e kenv_scheme \<Rightarrow> nat \<Rightarrow> ('x, go_error) mact" where
  "micro_Sync E a = do {
     s \<leftarrow> get_micro a;
     (h, err) \<leftarrow> builder_Build E (mi_configs s);
     upd_micro a (\<lambda>s. s\<lparr>mi_configs := h\<rparr>);
     case err of
       Some e \<Rightarrow> ret (Some e)
     | None \<Rightarrow> do {
         s1 \<leftarrow> get_micro a;
         let (s2, err2) = micro_build (e_Codec E) s1;
         upd_micro a (\<lambda>_. s2);
         case err2 of
           Some e \<Rightarrow> ret (Some e)
         | None \<Rightarrow> resources_seq
             [Some (managed_Sync ka_deployment DeploymentRequest E (mi_deployment s2)),
              Some (builder_Sync E (mi_configs s2)),
              Some (managed_Sync ka_svc SvcRequest E (mi_service s2))]
       }
   }"

text \<open>Pods are removed by writing back the specification that was found, scaled to zero.\<close>

definition scale_to_zero :: "microservice_impl \<Rightarrow> microservice_impl" where
  "scale_to_zero s =
    (map_deployment (\<lambda>_. (o_Content (mr_old (mi_deployment s)))\<lparr>dp_Replicas := Some 0\<rparr>) (deployment_Build s))\<lparr>mi_builtDeployment := True\<rparr>"

definition micro_removePods :: "'e kenv_scheme \<Rightarrow> nat \<Rightarrow> ('x, go_error) mact" where
  "micro_removePods E a = do {
     upd_micro a scale_to_zero;
     micro_Sync E a
   }"

definition microserviceImpl :: "'e kenv_scheme \<Rightarrow> nat \<Rightarrow> 'x micros_ext jobs_ext cluster_ext servers_ext kube_ext pods_manager" where
  "microserviceImpl E a =
    \<lparr>pm_getInstanceCount = (\<lambda>w. mi_instanceCount (k_micros w a)),
     pm_getMinReadyInstanceCount = micro_minReady a,
     pm_listPods = micro_listPods E a,
     pm_removePods = micro_removePods E a,
     pm_podsImageCorrespondsToSpec = (\<lambda>w. micro_imageCorresponds (k_micros w a)),
     pm_arePodsUpdatedToNewRevision = ret True\<rparr>"

lemma microserviceImpl_simps [simp]:
  "pm_getInstanceCount (microserviceImpl E a) w = mi_instanceCount (k_micros w a)"
  "pm_getMinReadyInstanceCount (microserviceImpl E a) = micro_minReady a"
  "pm_listPods (microserviceImpl E a) = micro_listPods E a"
  "pm_removePods (microserviceImpl E a) = micro_removePods E a"
  "pm_arePodsUpdatedToNewRevision (microserviceImpl E a) = ret True"
  by (simp_all add: microserviceImpl_def)

section \<open>User interface\<close>

text \<open>What both components do in an update.\<close>

definition micro_update :: "'e cenv_scheme \<Rightarrow> ('x micros_ext jobs_ext, 'z) server_component_scheme \<Rightarrow> bool \<Rightarrow> 'x moutcome \<Rightarrow> 'x moutcome" where
  "micro_update E c dry rest = do {
     chosen \<leftarrow> reads (is_chosen c);
     updateState \<leftarrow> reads GetUpdateState;
     if chosen then
       if updateState = UpdateStateWaitingForPodsRemoval then do {
         err \<leftarrow> when_do (\<not> dry) (removePods E (microserviceImpl E (sc_id c)) (sc_labeller c));
         ret (ComponentStatusUpdateStep ''pods removal'', err)
       }
       else if updateState \<noteq> UpdateStateWaitingForPodsCreation then ret (ComponentStatusReady, None)
       else rest
     else ret (ComponentStatusReadyAfter ''Not updating component'', None)
   }"

definition set_service_type :: "string \<Rightarrow> microservice_impl \<Rightarrow> microservice_impl" where
  "set_service_type t s = s\<lparr>mi_service := (mi_service s)\<lparr>mr_new := (mr_new (mi_service s))
     \<lparr>o_Content := (o_Content (mr_new (mi_service s)))\<lparr>svc_Type := t\<rparr>\<rparr>\<rparr>\<rparr>"

text \<open>The number of instances the constructor asks for.\<close>

definition ui_instances :: "int \<Rightarrow> 'x yts_scheme \<Rightarrow> int" where
  "ui_instances instanceCount w =
    (if cmt_Shutdown (GetClusterMaintenance w) \<in> {ClusterShutdownExceptMasters, ClusterShutdownEverything} then 0 else instanceCount)"

record 'x ui = "'x micros_ext jobs_ext server_component" +
  ui_initJob :: init_job
  ui_secret :: nat
  ui_serviceType :: string

definition UI_Fetch :: "'e cenv_scheme \<Rightarrow> ('x, 'z) ui_scheme \<Rightarrow> ('x, go_error) mact" where
  "UI_Fetch E u = resources_seq [Some (micro_Fetch E (sc_id u)), Some (init_Fetch E (ui_initJob u)), Some (fetch_secret E (ui_secret u))]"

text \<open>Of the pod template the containers with their images; volumes, environment and ports are not part of the model.\<close>

definition UI_build :: "string \<Rightarrow> microservice_impl \<Rightarrow> microservice_impl" where
  "UI_build serviceType s =
     map_deployment (\<lambda>d. d\<lparr>dp_InitContainers := [(''prepare-secret'', mi_image s)], dp_Containers := [(''yt-ui'', mi_image s)]\<rparr>)
       (buildDeployment (set_service_type serviceType (buildService s)))"

definition UI_syncComponents :: "'e cenv_scheme \<Rightarrow> ('x, 'z) ui_scheme \<Rightarrow> ('x, go_error) mact" where
  "UI_syncComponents E u = do {
     upd_micro (sc_id u) (UI_build (ui_serviceType u));
     micro_Sync E (sc_id u)
   }"

text \<open>The secret of the user interface has the token twice, once inside a JSON document.\<close>

definition create_ui_token :: "'e cenv_scheme \<Rightarrow> labeller \<Rightarrow> nat \<Rightarrow> ('x, go_error) jact" where
  "create_ui_token E l a = do {
     s \<leftarrow> reads (\<lambda>w. k_secrets w a);
     token \<leftarrow> reads (\<lambda>w. e_Token E (k_calls w));
     let r = secret_Build l [''yt-interface-secret.json'' \<mapsto> ''{\"oauthToken\" : \"'' @ token @ ''\"}'', TokenSecretKey \<mapsto> token] s;
     modifies (\<lambda>w. w\<lparr>k_secrets := (k_secrets w)(a := r)\<rparr>);
     managed_Sync ka_secret SecretRequest E r
   }"

definition ensure_ui_secret :: "'e cenv_scheme \<Rightarrow> labeller \<Rightarrow> nat \<Rightarrow> bool \<Rightarrow> 'x joutcome \<Rightarrow> 'x joutcome" where
  "ensure_ui_secret E l a dry rest = do {
     s \<leftarrow> reads (\<lambda>w. k_secrets w a);
     if secret_NeedSync s TokenSecretKey '''' then do {
       err \<leftarrow> when_do (\<not> dry) (create_ui_token E l a);
       ret (ComponentStatusWaitingFor (mr_name s), err)
     } else rest
   }"

definition micro_ArePodsReady :: "'e kenv_scheme \<Rightarrow> nat \<Rightarrow> 'x moutcome" where
  "micro_ArePodsReady E a = arePodsReady (microserviceImpl E a) []"

definition UI_Sync :: "'e cenv_scheme \<Rightarrow> ('x, 'z) ui_scheme \<Rightarrow> bool \<Rightarrow> 'x moutcome" where
  "UI_Sync E u dry =
    if_updating (micro_update E u dry)
    (wait_for (sc_master u)
    (ensure_ui_secret E (sc_labeller u) (ui_secret u) dry
    (ready_then (init_Sync E (ui_initJob u) dry)
    (sync_server (micro_needSync E (sc_id u)) dry (UI_syncComponents E u)
    (micro_ArePodsReady E (sc_id u))))))"

section \<open>Strawberry\<close>

record 'x strawberry = "'x micros_ext jobs_ext server_component" +
  str_scheduler :: "'x mcomponent"
  str_dataNodes :: "'x mcomponent list"
  str_initUserAndUrlJob :: init_job
  str_initChytClusterJob :: init_job
  str_secret :: nat

definition strawberry_instances :: "'x yts_scheme \<Rightarrow> int" where
  "strawberry_instances w = (if cmt_Shutdown (GetClusterMaintenance w) \<noteq> ClusterShutdownNone then 0 else 1)"

definition Strawberry_Fetch :: "'e cenv_scheme \<Rightarrow> ('x, 'z) strawberry_scheme \<Rightarrow> ('x, go_error) mact" where
  "Strawberry_Fetch E c = resources_seq [Some (micro_Fetch E (sc_id c)), Some (init_Fetch E (str_initUserAndUrlJob c)),
     Some (init_Fetch E (str_initChytClusterJob c)), Some (fetch_secret E (str_secret c))]"

definition Strawberry_build :: "microservice_impl \<Rightarrow> microservice_impl" where
  "Strawberry_build s =
     map_deployment (\<lambda>d. d\<lparr>dp_Containers := [(''strawberry'', mi_image s)]\<rparr>)
       (buildDeployment (set_service_type ''ClusterIP'' (buildService s)))"

definition Strawberry_syncComponents :: "'e cenv_scheme \<Rightarrow> ('x, 'z) strawberry_scheme \<Rightarrow> ('x, go_error) mact" where
  "Strawberry_syncComponents E c = do {
     upd_micro (sc_id c) Strawberry_build;
     micro_Sync E (sc_id c)
   }"

text \<open>Unlike the user interface the controller does not look at its pods.\<close>

definition Strawberry_Sync :: "'e cenv_scheme \<Rightarrow> ('x, 'z) strawberry_scheme \<Rightarrow> bool \<Rightarrow> 'x moutcome" where
  "Strawberry_Sync E c dry =
    if_updating (micro_update E c dry)
    (wait_for (sc_master c)
    (wait_for (Some (str_scheduler c))
    (wait_for_all (str_dataNodes c)
    (ensure_secret E (sc_labeller c) (str_secret c) dry
    (ready_then (init_Sync E (str_initUserAndUrlJob c) dry) (do {
       (if dry then ret () else prepare_job (str_initChytClusterJob c));
       ready_then (init_Sync E (str_initChytClusterJob c) dry)
       (sync_server (micro_needSync E (sc_id c)) dry (Strawberry_syncComponents E c)
       (ret (ComponentStatusReady, None)))
     }))))))"

section \<open>Contracts\<close>

locale micro_reading = job_reading R for R :: "'x micros_scheme \<Rightarrow> 'x micros_scheme \<Rightarrow> bool" +
  assumes R_micros: "R w (w\<lparr>k_micros := f\<rparr>)"
begin

lemma kept_micro_access: "kept R (get_micro a)" "kept R (upd_micro a g)"
  unfolding get_micro_def upd_micro_def by (intro kept_reads preord_R kept_modifies R_micros)+

lemma kept_micro_Fetch: "kept R (micro_Fetch E a)"
  unfolding micro_Fetch_def
  by (rule kept_resources_seq [OF preord_R]) (auto intro!: yt_intros kept_micro_access kept_managed_Fetch kept_builder)

lemma kept_micro_reads: "kept R (micro_needSync E a)" "kept R (micro_needUpdate E a)" "kept R (micro_listPods E a)"
  unfolding micro_needSync_def micro_needUpdate_def micro_listPods_def
  by (intro yt_intros kept_micro_access kept_builder kept_api_call)+

lemma kept_UI_Fetch: "kept R (UI_Fetch E u)"
  unfolding UI_Fetch_def by (rule kept_resources_seq [OF preord_R]) (auto intro: kept_micro_Fetch kept_init_Fetch kept_fetch_secret)

lemma kept_Strawberry_Fetch: "kept R (Strawberry_Fetch E c)"
  unfolding Strawberry_Fetch_def
  by (rule kept_resources_seq [OF preord_R]) (auto intro: kept_micro_Fetch kept_init_Fetch kept_fetch_secret)

end

locale micro_bookkeeping = micro_reading R + job_bookkeeping R for R :: "'x micros_scheme \<Rightarrow> 'x micros_scheme \<Rightarrow> bool"
begin

lemma kept_micro_Sync: "kept R (micro_Sync E a)"
  unfolding micro_Sync_def
  by (intro yt_intros kept_micro_access kept_builder kept_resources_seq) (auto intro: kept_builder_Sync kept_managed_Sync)

lemma kept_micro_removePods: "kept R (micro_removePods E a)"
  unfolding micro_removePods_def by (intro yt_intros kept_micro_access kept_micro_Sync)

lemma kept_micro_writes: "kept R (UI_syncComponents E u)" "kept R (Strawberry_syncComponents E c)"
  unfolding UI_syncComponents_def Strawberry_syncComponents_def
  by (intro yt_intros kept_micro_access kept_micro_Sync)+

lemma kept_ensure_ui_secret: "kept R rest \<Longrightarrow> kept R (ensure_ui_secret E l a dry rest)"
  unfolding ensure_ui_secret_def create_ui_token_def Let_def
  by (intro yt_intros kept_modifies R_secrets kept_managed_Sync) simp_all

end

interpretation mq: micro_bookkeeping keeps
  by unfold_locales (simp add: keeps_def same_control_def GetClusterState_def GetUpdateState_def
      GetUpdatingComponents_def conds_wf_def status_of_cond_def)

interpretation mw: micro_reading no_write
  by unfold_locales (simp add: no_write_def)

interpretation mi: pods_contract "microserviceImpl E a" for E :: "'e kenv_scheme" and a
  by unfold_locales (simp_all add: mq.kept_micro_reads mq.kept_micro_removePods kept_intros)

interpretation mi_read: pods_reader E "microserviceImpl E a" no_write for E :: "'e kenv_scheme" and a
  by unfold_locales (simp_all add: preord_no_write mw.kept_micro_reads, simp add: no_write_def)

lemma quiet_micro_update:
  "meta_laws E \<Longrightarrow> quiet rest \<Longrightarrow> quiet (micro_update E c dry rest)"
  unfolding micro_update_def by (intro kept_intros mi.quiet_remove) simp_all

lemma quiet_UI_Sync:
  assumes "meta_laws E" "ij_statusCondition (ui_initJob u) \<noteq> ''ReadyToWork''"
  shows "quiet (UI_Sync E u dry)"
  unfolding UI_Sync_def micro_ArePodsReady_def
  by (intro kept_intros quiet_micro_update mq.kept_ensure_ui_secret quiet_init(1) assms mq.kept_micro_reads mq.kept_micro_writes mi.quiet_arePodsReady)

lemma quiet_Strawberry_Sync:
  assumes "meta_laws E" "ij_statusCondition (str_initUserAndUrlJob c) \<noteq> ''ReadyToWork''"
    "ij_statusCondition (str_initChytClusterJob c) \<noteq> ''ReadyToWork''"
  shows "quiet (Strawberry_Sync E c dry)"
proof -
  have "quiet (prepare_job (str_initChytClusterJob c))"
    unfolding prepare_job_def by (intro kept_intros jq.kept_job_access)
  then show ?thesis unfolding Strawberry_Sync_def
    by (intro kept_intros quiet_micro_update jq.kept_ensure_secret quiet_init(1) assms mq.kept_micro_reads mq.kept_micro_writes)
qed

lemma no_write_micro_update: "kept no_write rest \<Longrightarrow> kept no_write (micro_update E c True rest)"
  unfolding micro_update_def by (intro kept_intros) simp_all

lemma no_write_services:
  "kept no_write (UI_Sync E u True)" "kept no_write (Strawberry_Sync E c True)"
proof -
  have secret: "kept no_write rest \<Longrightarrow> kept no_write (ensure_ui_secret E l a True rest)" for l a and rest :: "'x joutcome"
    unfolding ensure_ui_secret_def by (intro kept_intros) simp_all
  show "kept no_write (UI_Sync E u True)"
    unfolding UI_Sync_def micro_ArePodsReady_def
    by (intro kept_intros no_write_micro_update secret jr.kept_init_Sync_dry mw.kept_micro_reads mi_read.R_arePodsReady) simp_all
  show "kept no_write (Strawberry_Sync E c True)"
    unfolding Strawberry_Sync_def if_True
    by (intro kept_intros no_write_micro_update jr.kept_ensure_secret_dry jr.kept_init_Sync_dry mw.kept_micro_reads) simp_all
qed

section \<open>The Deployments that are written\<close>

fun deployment_write :: "kube_request \<Rightarrow> deployment option" where
  "deployment_write (DeploymentRequest (k8s_request.CreateObject obj)) = Some (o_Content obj)"
| "deployment_write (DeploymentRequest (UpdateObject obj)) = Some (o_Content obj)"
| "deployment_write _ = None"

abbreviation writes_deployment :: "(deployment \<Rightarrow> bool) \<Rightarrow> kube_request \<Rightarrow> bool" where
  "writes_deployment Q \<equiv> (\<lambda>req. pred_option Q (deployment_write req))"

text \<open>As for StatefulSets, \<open>SetControllerReference\<close> only changes the metadata.\<close>

definition keeps_deployments :: "'e kenv_scheme \<Rightarrow> bool" where
  "keeps_deployments E \<longleftrightarrow> (\<forall>n obj. o_Content (fst (oc_SetControllerReference (ka_deployment (e_Kube E n)) obj)) = o_Content obj)"

lemma issues_managed_Sync_deployment:
  assumes "keeps_deployments E" "Q (o_Content (mr_new r))"
  shows "kept (issues (writes_deployment Q)) (managed_Sync ka_deployment DeploymentRequest E r)"
proof (rule keptI)
  fix w obtain err w' where r: "run_state (managed_Sync ka_deployment DeploymentRequest E r) w = (err, w')" by fastforce
  obtain reqs w1 err' where s: "SyncObject (ka_deployment (e_Kube E (k_calls w))) (mr_old r) (mr_new r) (w\<lparr>k_calls := Suc (k_calls w)\<rparr>) = (w1, reqs, err')"
    "k_requests w' = k_requests w @ map DeploymentRequest reqs" by (rule requests_managed_Sync [OF r])
  have "list_all (\<lambda>r'. (\<exists>obj. o_Content obj = o_Content (mr_new r) \<and> (r' = k8s_request.CreateObject obj \<or> r' = UpdateObject obj))) reqs"
    by (rule SyncObject_content [OF s(1)]) (use assms(1) in \<open>simp add: keeps_deployments_def\<close>)
  then have "list_all (writes_deployment Q) (map DeploymentRequest reqs)"
    using assms(2) by (fastforce simp: list_all_iff)
  with r s(2) show "issues (writes_deployment Q) w (snd (run_state (managed_Sync ka_deployment DeploymentRequest E r) w))"
    by (auto simp: issues_def)
qed

abbreviation new_deployment_of :: "microservice_impl \<Rightarrow> deployment" where
  "new_deployment_of s \<equiv> o_Content (mr_new (mi_deployment s))"

lemma micro_build_deployment:
  assumes "micro_build C s = (s2, None)" "mi_builtDeployment s"
  shows "\<exists>hash. new_deployment_of s2 = (new_deployment_of s)\<lparr>dp_TemplateAnnotations :=
    (dp_TemplateAnnotations (new_deployment_of s))(ConfigHashAnnotationName \<mapsto> hash)\<rparr>"
  using assms
  by (auto simp: micro_build_def micro_setConfigHash_def micro_setInstanceHash_def buildDeployment_def buildService_def map_deployment_def
      SetMetaDataAnnotation_def Let_def split: if_splits sum.splits option.splits)

text \<open>A microservice whose Deployment has been built writes it, with the hash of its configuration.\<close>

definition same_micros :: "'x micros_scheme \<Rightarrow> 'x micros_scheme \<Rightarrow> bool" where
  "same_micros w w' \<longleftrightarrow> k_micros w' = k_micros w"

lemma preord_same_micros [kept_intros]: "preord same_micros"
  by (auto simp: preord_def reflp_def transp_def same_micros_def)

interpretation sm: reading same_micros
  by unfold_locales (simp_all add: preord_same_micros, simp_all add: same_micros_def RecordNormal_def RecordWarning_def)

lemma issues_trans: "issues P u v \<Longrightarrow> issues P v w \<Longrightarrow> issues P u w"
  using preordD(2) [OF preord_issues] .

lemma issues_micro_Sync:
  assumes "keeps_deployments E" "mi_builtDeployment (k_micros w a)"
    and "\<And>hash. Q ((new_deployment_of (k_micros w a))\<lparr>dp_TemplateAnnotations :=
      (dp_TemplateAnnotations (new_deployment_of (k_micros w a)))(ConfigHashAnnotationName \<mapsto> hash)\<rparr>)"
  shows "issues (writes_deployment Q) w (snd (run_state (micro_Sync E a) (w :: 'x micros_scheme)))"
proof -
  let ?s = "k_micros w a"
  obtain h err w1 where b: "run_state (builder_Build E (mi_configs ?s)) w = ((h, err), w1)" by (metis surj_pair)
  have w1: "k_micros w1 = k_micros w" "issues (writes_deployment Q) w w1"
    using keptD_eq [OF sm.kept_builder_Build b] issues_no_request [OF keptD_eq [OF rq.kept_builder_Build b]] by (simp_all add: same_micros_def)
  let ?w2 = "w1\<lparr>k_micros := (k_micros w)(a := ?s\<lparr>mi_configs := h\<rparr>)\<rparr>"
  have w2: "issues (writes_deployment Q) w ?w2" using w1(2) by (simp add: issues_def)
  obtain s2 err2 where m: "micro_build (e_Codec E) (?s\<lparr>mi_configs := h\<rparr>) = (s2, err2)" by fastforce
  let ?w3 = "?w2\<lparr>k_micros := (k_micros w)(a := s2)\<rparr>"
  have w3: "issues (writes_deployment Q) w ?w3" using w2 by (simp add: issues_def)
  show ?thesis
  proof (cases "err = None \<and> err2 = None")
    case False
    then show ?thesis using b m w1(1) w2 w3 by (cases err) (auto simp: micro_Sync_def)
  next
    case True
    then have "Q (new_deployment_of s2)" using micro_build_deployment [of "e_Codec E" "?s\<lparr>mi_configs := h\<rparr>" s2] m assms(2,3) by auto
    then have "kept (issues (writes_deployment Q)) (managed_Sync ka_deployment DeploymentRequest E (mi_deployment s2) :: ('x micros_scheme, go_error) state)"
      by (rule issues_managed_Sync_deployment [OF assms(1)])
    moreover have "kept (issues (writes_deployment Q)) (builder_Sync E h :: ('x micros_scheme, go_error) state)" for h
      unfolding builder_Sync_def
      by (intro kept_intros kept_issues_no_request [OF rq.kept_needReload] issues_managed_Sync_other) simp
    moreover have "kept (issues (writes_deployment Q)) (managed_Sync ka_svc SvcRequest E r :: ('x micros_scheme, go_error) state)" for r
      by (rule issues_managed_Sync_other) simp
    ultimately have "kept (issues (writes_deployment Q)) (resources_seq [Some (managed_Sync ka_deployment DeploymentRequest E (mi_deployment s2)),
        Some (builder_Sync E (mi_configs s2)), Some (managed_Sync ka_svc SvcRequest E (mi_service s2))] :: ('x micros_scheme, go_error) state)"
      by (intro kept_resources_seq preord_issues) auto
    from issues_trans [OF w3 keptD [OF this]] show ?thesis
      using b m True w1(1) by (simp add: micro_Sync_def)
  qed
qed

lemma issues_rebuilt_Sync:
  assumes "keeps_deployments E" "mi_builtDeployment (f (k_micros w a))"
    and "\<And>hash. Q ((new_deployment_of (f (k_micros w a)))\<lparr>dp_TemplateAnnotations :=
      (dp_TemplateAnnotations (new_deployment_of (f (k_micros w a))))(ConfigHashAnnotationName \<mapsto> hash)\<rparr>)"
  shows "issues (writes_deployment Q) w (snd (run_state (do { upd_micro a f; micro_Sync E a }) w))"
proof -
  let ?w = "w\<lparr>k_micros := (k_micros w)(a := f (k_micros w a))\<rparr>"
  have "issues (writes_deployment Q) ?w (snd (run_state (micro_Sync E a) ?w))"
    by (rule issues_micro_Sync [OF assms(1)]) (use assms(2,3) in simp_all)
  then show ?thesis by (simp add: issues_def)
qed

section \<open>Properties\<close>


text \<open>
  A microservice that is scaled to zero, as in a cluster that is shut down, never picks up a new image: the image is a reason for an
  update, but with an unchanged configuration no state of the cluster makes it a reason to write the Deployment, so that the
  update ends with the old image and the reason for it still there.
\<close>

theorem stopped_microservice_keeps_image:
  assumes "micro_Exists (k_micros w a)" "\<not> micro_imageCorresponds (k_micros w a)"
    and "mi_instanceCount (k_micros w a) = 0" "micro_replicas (k_micros w a) = 0"
    and "fst (run_state (needReload E (mi_configs (k_micros w a))) w) = (ComponentStatusReady, None)"
  shows "\<not> fst (run_state (micro_needSync E a) w) \<and> IsNeedUpdate (fst (run_state (micro_needUpdate E a) w))"
  using assms
  by (simp add: micro_needSync_def micro_needUpdate_def ComponentStatusReady_def ComponentStatusNeedUpdate_def IsNeedUpdate_def
      ComponentStatusSprintf_def case_prod_beta)

section \<open>Witnesses\<close>

definition sample_micro :: microservice_impl where
  "sample_micro = the (newMicroservice (ForComponent UIType '''' zero_labeller) None ''ui:2'' 3
     [sample_generator ''clusters-config.json'' ''{}'', sample_generator ''a.js'' ''1''] ''ytsaurus-ui-deployment'' ''ytsaurus-ui'')"

definition sample_deployment :: "int \<Rightarrow> deployment k8s_object" where
  "sample_deployment n = (object_meta zero_labeller ''ytsaurus-ui-deployment'' ''*v1.Deployment''
     \<lparr>dp_Replicas = Some n, dp_TemplateLabels = Map.empty, dp_TemplateAnnotations = Map.empty, dp_InitContainers = [],
      dp_Containers = [(''yt-ui'', ''ui:1'')]\<rparr>)\<lparr>o_ResourceVersion := ''5''\<rparr>"

definition micro_world :: "microservice_impl \<Rightarrow> micros" where
  "micro_world s = jobs.extend sample_jobs \<lparr>k_micros = (\<lambda>_. s)\<rparr>"

definition sample_ui :: "'x ui" where
  "sample_ui = server_component.extend \<lparr>sc_id = 0, sc_labeller = ForComponent UIType '''' zero_labeller, sc_master = None, sc_hasClient = False\<rparr>
     \<lparr>ui_initJob = fst sample_init, ui_secret = 0, ui_serviceType = ''NodePort''\<rparr>"

definition sample_menv :: cenv where
  "sample_menv = sample_cenv (sample_api None [])"

definition found_micro :: "int \<Rightarrow> int \<Rightarrow> microservice_impl" where
  "found_micro wanted found = sample_micro\<lparr>mi_instanceCount := wanted,
     mi_deployment := (mi_deployment sample_micro)\<lparr>mr_old := sample_deployment found\<rparr>,
     mi_service := (mi_service sample_micro)\<lparr>mr_old := (mr_old (mi_service sample_micro))\<lparr>o_ResourceVersion := ''6''\<rparr>\<rparr>,
     mi_configs := (mi_configs sample_micro)\<lparr>cb_generators := [], cb_configMap := (cb_configMap (mi_configs sample_micro))
       \<lparr>mr_old := (mr_old (cb_configMap (mi_configs sample_micro)))\<lparr>o_ResourceVersion := ''7''\<rparr>\<rparr>\<rparr>\<rparr>"

lemma keeps_sample: "keeps_deployments sample_menv"
  by (simp add: keeps_deployments_def sample_menv_def sample_cenv_def sample_kenv_def sample_api_def sample_client_def kenv.defs env.defs)


theorem stopped_microservice_keeps_image_witness:
  "\<not> fst (run_state (micro_needSync sample_menv 0) (micro_world (found_micro 0 0))) \<and>
   IsNeedUpdate (fst (run_state (micro_needUpdate sample_menv 0) (micro_world (found_micro 0 0))))"
proof (rule stopped_microservice_keeps_image)
  show "micro_Exists (k_micros (micro_world (found_micro 0 0)) 0)" by code_simp
  show "\<not> micro_imageCorresponds (k_micros (micro_world (found_micro 0 0)) 0)" by code_simp
  show "mi_instanceCount (k_micros (micro_world (found_micro 0 0)) 0) = 0" by code_simp
  show "micro_replicas (k_micros (micro_world (found_micro 0 0)) 0) = 0" by code_simp
  show "fst (run_state (needReload sample_menv (mi_configs (k_micros (micro_world (found_micro 0 0)) 0))) (micro_world (found_micro 0 0))) =
    (ComponentStatusReady, None)" by code_simp
qed

end
