(* ===== verification/Image_Heater.thy ===== *)
theory Image_Heater
  imports Microservice "HOL-Library.AList"
begin

text \<open>
  The image heater, \<open>pkg/components/image_heater.go\<close> with \<open>pkg/resources/daemonset.go\<close>: before an update, DaemonSets pull the
  images of the components to the nodes.  Components with the same images and the same place share a DaemonSet; an
  annotation of it names the components it stands for.  The Go maps of \<open>Sync\<close> are association lists, in the order in which
  their keys were first added; the one loop over such a map has effects that commute, and the others sort its keys.
\<close>

section \<open>State\<close>

record heater_target =
  ht_Images :: "(string \<times> string) list"
  ht_ImagePullSecrets :: "string list"
  ht_NodeSelector :: "string \<rightharpoonup> string"
  ht_Tolerations :: "string list"
  ht_NodeAffinity :: "string option"

text \<open>
  The heater has the labellers of all components and the targets they give; \<open>ih_Hash\<close> is \<open>resources.Hash\<close> on the parts of the
  DaemonSet it is called with.
\<close>

record image_heater =
  ih_labeller :: labeller
  ih_components :: "(labeller \<times> heater_target option) list"
  ih_Hash :: "string list \<Rightarrow> (string \<rightharpoonup> string) \<Rightarrow> string option \<Rightarrow> string list \<Rightarrow> (string \<times> string) list \<Rightarrow> int \<Rightarrow> string + string"

record heated = micros +
  k_daemonSetList :: "daemon_set k8s_object list"
  k_nameToHeater :: "string \<rightharpoonup> daemon_set k8s_object"

type_synonym ('x, 'a) hact = "('x heated_scheme, 'a) state"
type_synonym 'x houtcome = "('x, component_status \<times> go_error) hact"

section \<open>DaemonSets\<close>

definition new_daemon_set :: "labeller \<Rightarrow> int \<Rightarrow> daemon_set" where
  "new_daemon_set l maxUnavailable = \<lparr>ds_Generation = 0, ds_Deleted = False, ds_Labels = ptr_deref (GetMetaLabelMap l False) Map.empty,
     ds_MaxUnavailable = maxUnavailable, ds_TemplateLabels = ptr_deref (GetMetaLabelMap l False) Map.empty,
     ds_TemplateAnnotations = l_Annotations l, ds_ImagePullSecrets = [], ds_NodeSelector = Map.empty, ds_Tolerations = [],
     ds_NodeAffinity = None, ds_Containers = [], ds_ObservedGeneration = 0, ds_DesiredNumberScheduled = 0,
     ds_CurrentNumberScheduled = 0, ds_UpdatedNumberScheduled = 0, ds_NumberReady = 0, ds_NumberAvailable = 0\<rparr>"

text \<open>The first two cases of \<open>GetDaemonSetStatus\<close> look at the metadata of the object.\<close>

definition GetDaemonSetStatus :: "daemon_set k8s_object \<Rightarrow> bool \<times> string" where
  "GetDaemonSetStatus obj =
    (let ds = o_Content obj; prefix = ''daemon set '' @ o_Name obj; desired = ds_DesiredNumberScheduled ds;
         of_desired = (\<lambda>n. show_int n @ '' of '' @ show_int desired)
     in if o_ResourceVersion obj = '''' then (False, prefix @ '' does not exist'')
        else if ds_Deleted ds then (False, prefix @ '' is deleted'')
        else if ds_ObservedGeneration ds \<noteq> ds_Generation ds then (False, prefix @ '' is not observed'')
        else if desired = 0 then (True, prefix @ '' has no desired nodes'')
        else if ds_CurrentNumberScheduled ds < desired then (False, prefix @ '' scheduled pods: '' @ of_desired (ds_CurrentNumberScheduled ds))
        else if ds_UpdatedNumberScheduled ds < desired then (False, prefix @ '' updated pods: '' @ of_desired (ds_UpdatedNumberScheduled ds))
        else if ds_NumberReady ds < desired then (False, prefix @ '' ready pods: '' @ of_desired (ds_NumberReady ds))
        else if ds_NumberAvailable ds < desired then (False, prefix @ '' available pods: '' @ of_desired (ds_NumberAvailable ds))
        else (True, prefix @ '' is ready at '' @ show_int desired @ '' nodes''))"

section \<open>Targets\<close>

abbreviation "ImageHeaterLabelName \<equiv> ''ytsaurus.tech/image-heater''"
abbreviation "ImageHeaterTargetsAnnotationName \<equiv> ''ytsaurus.tech/image-heater-targets''"
abbreviation "InstanceHashAnnotationName \<equiv> ''ytsaurus.tech/instance-hash''"
abbreviation "DefaultImageHeaterConcurrency \<equiv> 100 :: int"

definition GetImageHeaterName :: "labeller \<Rightarrow> string" where
  "GetImageHeaterName l = GetComponentShortName l"

text \<open>\<open>strings.Fields\<close> and \<open>strings.Join\<close> with a space.\<close>

definition is_space :: "char \<Rightarrow> bool" where
  "is_space c \<longleftrightarrow> c \<in> set [CHR '' '', CHR 0x09, CHR 0x0A, CHR 0x0B, CHR 0x0C, CHR 0x0D]"

fun fields :: "string \<Rightarrow> string \<Rightarrow> string list" where
  "fields word [] = (if word = [] then [] else [word])"
| "fields word (c # cs) =
    (if is_space c then (if word = [] then fields [] cs else word # fields [] cs) else fields (word @ [c]) cs)"

definition Fields :: "string \<Rightarrow> string list" where
  "Fields = fields []"

fun join_spaces :: "string list \<Rightarrow> string" where
  "join_spaces [] = []"
| "join_spaces [w] = w"
| "join_spaces (w # ws) = w @ '' '' @ join_spaces ws"

definition heater_targets :: "daemon_set k8s_object \<Rightarrow> string list" where
  "heater_targets obj = Fields (ptr_deref (annotation_of obj ImageHeaterTargetsAnnotationName) '''')"

definition set_heaters :: "string list \<Rightarrow> daemon_set k8s_object \<Rightarrow> (string \<rightharpoonup> daemon_set k8s_object) \<Rightarrow> (string \<rightharpoonup> daemon_set k8s_object)" where
  "set_heaters names obj m = fold (\<lambda>name0 m. m(name0 \<mapsto> obj)) names m"

definition ImageHeater_Fetch :: "'e cenv_scheme \<Rightarrow> image_heater \<Rightarrow> ('x, go_error) hact" where
  "ImageHeater_Fetch E ih = do {
     api \<leftarrow> api_call E;
     case ka_ListDaemonSets api (ih_labeller ih) of
       Inl err \<Rightarrow> ret (Some err)
     | Inr items \<Rightarrow> do {
         modifies (\<lambda>w. w\<lparr>k_daemonSetList := items,
           k_nameToHeater := fold (\<lambda>obj. set_heaters (heater_targets obj) obj) items Map.empty\<rparr>);
         ret None
       }
   }"

definition ImageHeater_NeedSync :: "'e cenv_scheme \<Rightarrow> 'x yts_scheme \<Rightarrow> bool" where
  "ImageHeater_NeedSync E w \<longleftrightarrow> \<not> IsStatusConditionTrueAndObservedGeneration E ConditionImageHeaterComplete w"

definition ImageHeater_NeedUpdate :: "('x, component_status) hact" where
  "ImageHeater_NeedUpdate = ret ComponentStatusReady"

definition GetHeaterStatus :: "image_heater \<Rightarrow> component_ref \<Rightarrow> 'x heated_scheme \<Rightarrow> component_status" where
  "GetHeaterStatus ih component w =
    (let name0 = GetImageHeaterName (ForComponent (ref_type component) (ref_name component) (ih_labeller ih))
     in case k_nameToHeater w name0 of
       None \<Rightarrow> ComponentStatusReadyAfter (''No active image heater for '' @ name0)
     | Some heater \<Rightarrow>
         (case GetDaemonSetStatus heater of
            (True, message) \<Rightarrow> ComponentStatusReadyAfter (''Image heater ready: '' @ message)
          | (False, message) \<Rightarrow> ComponentStatusPending (''Waiting image heater: '' @ message)))"

section \<open>Building heaters\<close>

definition buildImageHeater :: "image_heater \<Rightarrow> string \<Rightarrow> update_selector \<Rightarrow> heater_target \<Rightarrow> string + daemon_set managed \<times> string" where
  "buildImageHeater ih name0 selector target =
    (let l = ForComponent ImageHeaterType name0 (ih_labeller ih);
         maxUnavailable = ptr_deref (sel_Concurrency selector) DefaultImageHeaterConcurrency;
         ds0 = new_daemon_set l maxUnavailable;
         containers = sort_key fst (ht_Images target);
         ds = ds0\<lparr>ds_Labels := (ds_Labels ds0)(ImageHeaterLabelName \<mapsto> name0),
                  ds_TemplateLabels := (ds_TemplateLabels ds0)(ImageHeaterLabelName \<mapsto> name0),
                  ds_ImagePullSecrets := ht_ImagePullSecrets target, ds_Tolerations := ht_Tolerations target,
                  ds_NodeSelector := ht_NodeSelector target, ds_NodeAffinity := ht_NodeAffinity target,
                  ds_Containers := containers\<rparr>;
         managed0 = empty_managed (GetComponentShortName l) (new_daemon_set zero_labeller 0)
     in case ih_Hash ih (ht_Tolerations target) (ht_NodeSelector target) (ht_NodeAffinity target) (ht_ImagePullSecrets target)
               containers maxUnavailable of
       Inl err \<Rightarrow> Inl err
     | Inr hash \<Rightarrow> Inr (managed0\<lparr>mr_new := SetMetaDataAnnotation InstanceHashAnnotationName hash
           (object_meta l (GetComponentShortName l) ''*v1.DaemonSet'' ds)\<rparr>, hash))"

text \<open>The heaters to apply, by hash with the names of their targets, and the DaemonSets to delete, by name.\<close>

record heater_plan =
  hp_groups :: "(string \<times> daemon_set managed \<times> string list) list"
  hp_toDelete :: "(string \<times> daemon_set k8s_object) list"

definition delete_later :: "daemon_set managed \<Rightarrow> heater_plan \<Rightarrow> heater_plan" where
  "delete_later heater plan =
    (if managed_Exists heater then plan\<lparr>hp_toDelete := AList.update (mr_name heater) (mr_old heater) (hp_toDelete plan)\<rparr> else plan)"

definition add_heater :: "string \<Rightarrow> string \<Rightarrow> daemon_set managed \<Rightarrow> heater_plan \<Rightarrow> heater_plan" where
  "add_heater name0 hash heater plan =
    (case map_of (hp_groups plan) hash of
       None \<Rightarrow> plan\<lparr>hp_groups := AList.update hash (heater, [name0]) (hp_groups plan)\<rparr>
     | Some (other, names) \<Rightarrow>
         if mr_name heater < mr_name other \<and> (managed_Exists heater \<or> \<not> managed_Exists other)
         then delete_later other (plan\<lparr>hp_groups := AList.update hash (heater, names @ [name0]) (hp_groups plan)\<rparr>)
         else delete_later heater (plan\<lparr>hp_groups := AList.update hash (other, names @ [name0]) (hp_groups plan)\<rparr>))"

fun plan_heaters ::
  "'e cenv_scheme \<Rightarrow> image_heater \<Rightarrow> (labeller \<times> heater_target option) list \<Rightarrow> heater_plan
    \<Rightarrow> ('x, (component_status \<times> go_error) + heater_plan) hact" where
  "plan_heaters E ih [] plan = ret (Inr plan)"
| "plan_heaters E ih ((l, target) # components) plan = do {
     selector \<leftarrow> reads (GetImageHeater (GetImageHeaterName l));
     case (selector, target) of
       (Some selector0, Some target0) \<Rightarrow>
         (case buildImageHeater ih (GetImageHeaterName l) selector0 target0 of
            Inl err \<Rightarrow> ret (Inl (ComponentStatusPending ''Cannot build image heater'', Some err))
          | Inr (heater, hash) \<Rightarrow> do {
              (fetched, err) \<leftarrow> managed_Fetch ka_ds E heater;
              if err \<noteq> None then ret (Inl (ComponentStatusPending ''Cannot fetch image heater'', err))
              else plan_heaters E ih components (add_heater (GetImageHeaterName l) hash fetched plan)
            })
     | _ \<Rightarrow> plan_heaters E ih components plan
   }"

section \<open>Applying heaters\<close>

definition with_targets :: "string list \<Rightarrow> daemon_set managed \<Rightarrow> daemon_set managed" where
  "with_targets names heater = heater\<lparr>mr_new :=
     SetMetaDataAnnotation ImageHeaterTargetsAnnotationName (join_spaces (sort names)) (mr_new heater)\<rparr>"

definition to_apply :: "heater_plan \<Rightarrow> (string \<times> daemon_set managed \<times> string list) list" where
  "to_apply plan = fold (\<lambda>(hash, heater, names). AList.update (mr_name heater) (with_targets names heater, sort names)) (hp_groups plan) []"

definition to_delete :: "heater_plan \<Rightarrow> daemon_set k8s_object list \<Rightarrow> (string \<times> daemon_set k8s_object) list" where
  "to_delete plan items =
    fold (\<lambda>ds m. if map_of (to_apply plan) (o_Name ds) = None then AList.update (o_Name ds) ds m else m) items (hp_toDelete plan)"

definition sorted_entries :: "(string \<times> 'b) list \<Rightarrow> (string \<times> 'b) list" where
  "sorted_entries m = sort_key fst m"

fun delete_heaters :: "'e cenv_scheme \<Rightarrow> (string \<times> daemon_set k8s_object) list \<Rightarrow> ('x, (component_status \<times> go_error) option) hact" where
  "delete_heaters E [] = ret None"
| "delete_heaters E ((_, ds) # entries) = do {
     err \<leftarrow> managed_Delete ka_ds DsRequest E \<lparr>mr_name = o_Name ds, mr_old = ds, mr_new = ds\<rparr>;
     if err \<noteq> None then ret (Some (ComponentStatusPending (''Cannot delete '' @ o_Name ds), err))
     else delete_heaters E entries
   }"

definition needs_write :: "daemon_set managed \<Rightarrow> bool" where
  "needs_write heater \<longleftrightarrow> \<not> managed_Exists heater \<or> IsAnnotationChanged heater InstanceHashAnnotationName \<or>
     IsAnnotationChanged heater ImageHeaterTargetsAnnotationName"

record heater_progress =
  hr_progress :: int
  hr_syncStatus :: sync_status
  hr_complete :: condition_status
  hr_report :: string

definition report_heater :: "bool \<Rightarrow> bool \<Rightarrow> string \<Rightarrow> heater_progress \<Rightarrow> heater_progress" where
  "report_heater write ready message p =
    p\<lparr>hr_progress := (if ready then hr_progress p + 1 else hr_progress p),
      hr_syncStatus := (if write then SyncStatusPending else hr_syncStatus p),
      hr_complete := (if ready then hr_complete p else ConditionFalse),
      hr_report := hr_report p @ ''; '' @ message\<rparr>"

text \<open>A write leaves the answer of the server in the new object, to which the map of the targets points.\<close>

definition write_heater :: "'e cenv_scheme \<Rightarrow> daemon_set managed \<Rightarrow> string list \<Rightarrow> ('x, go_error) hact" where
  "write_heater E heater names = do {
     n \<leftarrow> reads k_calls;
     err \<leftarrow> managed_Sync ka_ds DsRequest E heater;
     modifies (\<lambda>w. if err = None then w\<lparr>k_nameToHeater := set_heaters names (ka_Written (e_Kube E n) (mr_new heater)) (k_nameToHeater w)\<rparr> else w);
     ret err
   }"

fun apply_heaters ::
  "'e cenv_scheme \<Rightarrow> bool \<Rightarrow> (string \<times> daemon_set managed \<times> string list) list \<Rightarrow> heater_progress
    \<Rightarrow> ('x, (component_status \<times> go_error) + heater_progress) hact" where
  "apply_heaters E dry [] p = ret (Inr p)"
| "apply_heaters E dry ((name0, heater, names) # entries) p =
    (case GetDaemonSetStatus (mr_old heater) of (ready, message) \<Rightarrow>
      if needs_write heater then do {
        err \<leftarrow> when_do (\<not> dry) (write_heater E heater names);
        if err \<noteq> None then ret (Inl (ComponentStatusPending (''Cannot create '' @ mr_name heater), err))
        else apply_heaters E dry entries (report_heater True False (''daemon set '' @ mr_name heater @ '' need sync'') p)
      }
      else apply_heaters E dry entries (report_heater False ready message p))"

definition finish_heating :: "'e cenv_scheme \<Rightarrow> nat \<Rightarrow> heater_progress \<Rightarrow> 'x houtcome" where
  "finish_heating E needed p = do {
     let status = ComponentStatusSprintf (hr_syncStatus p)
       (''Ready '' @ show_int (hr_progress p) @ '' of '' @ show_nat needed @ hr_report p);
     record_normal ''ImageHeater'' (cs_Message status);
     set_status_condition E ConditionImageHeaterComplete (hr_complete p) ''Sync'' (cs_Message status);
     ret (status, None)
   }"

definition heating_start :: "bool \<Rightarrow> heater_progress" where
  "heating_start deleting =
    \<lparr>hr_progress = 0, hr_syncStatus = (if deleting then SyncStatusPending else SyncStatusReady),
     hr_complete = (if deleting then ConditionFalse else ConditionTrue), hr_report = ''''\<rparr>"

definition heat :: "'e cenv_scheme \<Rightarrow> bool \<Rightarrow> heater_plan \<Rightarrow> 'x houtcome" where
  "heat E dry plan = do {
     items \<leftarrow> reads k_daemonSetList;
     let apply = sorted_entries (to_apply plan);
     let delete = sorted_entries (to_delete plan items);
     modifies (\<lambda>w. w\<lparr>k_nameToHeater := 
       fold (\<lambda>(_, heater, names). set_heaters (sort names) (mr_new (with_targets names heater))) (hp_groups plan) (k_nameToHeater w)\<rparr>);
     failed \<leftarrow> (if dry then ret None else delete_heaters E delete);
     case failed of
       Some r \<Rightarrow> ret r
     | None \<Rightarrow> do {
         r \<leftarrow> apply_heaters E dry apply (heating_start (delete \<noteq> []));
         case r of Inl failure \<Rightarrow> ret failure | Inr p \<Rightarrow> finish_heating E (length apply) p
       }
   }"

definition ImageHeater_Sync :: "'e cenv_scheme \<Rightarrow> image_heater \<Rightarrow> bool \<Rightarrow> 'x houtcome" where
  "ImageHeater_Sync E ih dry = do {
     need \<leftarrow> reads (ImageHeater_NeedSync E);
     if \<not> need then ret (ComponentStatusReadyAfter ''Image heating is complete'', None)
     else do {
       r \<leftarrow> plan_heaters E ih (ih_components ih) \<lparr>hp_groups = [], hp_toDelete = []\<rparr>;
       case r of Inl failure \<Rightarrow> ret failure | Inr plan \<Rightarrow> heat E dry plan
     }
   }"

section \<open>Plans\<close>

lemma run_fetch_heater:
  "run_state (managed_Fetch cl E r) w =
    ((r\<lparr>mr_old := fst (FetchObject (cl (e_Kube E (k_calls w))) (mr_name r) ((mr_old r)\<lparr>o_ResourceVersion := ''''\<rparr>))\<rparr>,
      go_error_of (snd (FetchObject (cl (e_Kube E (k_calls w))) (mr_name r) ((mr_old r)\<lparr>o_ResourceVersion := ''''\<rparr>)))),
     w\<lparr>k_calls := Suc (k_calls w)\<rparr>)"
  by (simp add: managed_Fetch_def api_call_def case_prod_beta)

text \<open>The names of the components that are heated, and what a heater is built from.\<close>

definition heated_names :: "(labeller \<times> heater_target option) list \<Rightarrow> 'x yts_scheme \<Rightarrow> string list" where
  "heated_names components w =
    map (GetImageHeaterName \<circ> fst) (filter (\<lambda>(l, target). target \<noteq> None \<and> GetImageHeater (GetImageHeaterName l) w \<noteq> None) components)"

definition heater_name :: "image_heater \<Rightarrow> string \<Rightarrow> string" where
  "heater_name ih name0 = GetComponentShortName (ForComponent ImageHeaterType name0 (ih_labeller ih))"

definition heater_of :: "image_heater \<Rightarrow> 'x yts_scheme \<Rightarrow> (labeller \<times> heater_target option) list \<Rightarrow> string \<Rightarrow> string \<Rightarrow> daemon_set managed \<Rightarrow> bool" where
  "heater_of ih w components name0 hash heater \<longleftrightarrow>
    (\<exists>l target selector old. (l, Some target) \<in> set components \<and> name0 = GetImageHeaterName l \<and> GetImageHeater name0 w = Some selector \<and>
       buildImageHeater ih name0 selector target = Inr (heater\<lparr>mr_old := old\<rparr>, hash))"

lemma buildImageHeater_simps:
  assumes "buildImageHeater ih name0 selector target = Inr (heater, hash)"
  shows "mr_name heater = heater_name ih name0" "o_ResourceVersion (mr_new heater) = []"
    "annotation_of (mr_new heater) InstanceHashAnnotationName = Some hash"
  using assms
  by (auto simp: buildImageHeater_def Let_def heater_name_def empty_managed_def SetMetaDataAnnotation_def object_meta_def annotation_of_def
      split: sum.splits)

lemma heater_of_simps:
  assumes "heater_of ih w components name0 hash heater"
  shows "mr_name heater = heater_name ih name0" "o_ResourceVersion (mr_new heater) = []"
    "annotation_of (mr_new heater) InstanceHashAnnotationName = Some hash"
  using assms by (auto simp: heater_of_def dest: buildImageHeater_simps)

text \<open>The loop over the components is a fold over the heaters it builds and fetches, and changes nothing but the count of the calls.\<close>

definition add_heaters :: "(string \<times> string \<times> daemon_set managed) list \<Rightarrow> heater_plan \<Rightarrow> heater_plan" where
  "add_heaters hs = fold (\<lambda>(name0, hash, heater). add_heater name0 hash heater) hs"

lemma heated_calls:
  "GetImageHeater n (w\<lparr>k_calls := c\<rparr>) = GetImageHeater n w" "heated_names cs (w\<lparr>k_calls := c\<rparr>) = heated_names cs w"
  "heater_of ih (w\<lparr>k_calls := c\<rparr>) cs name0 hash heater = heater_of ih w cs name0 hash heater"
proof -
  show g: "GetImageHeater n (w\<lparr>k_calls := c\<rparr>) = GetImageHeater n w" for n
    by (simp add: GetImageHeater_def GetClusterFeatures_def split: prod.split option.split)
  show "heated_names cs (w\<lparr>k_calls := c\<rparr>) = heated_names cs w"
    "heater_of ih (w\<lparr>k_calls := c\<rparr>) cs name0 hash heater = heater_of ih w cs name0 hash heater"
    by (simp_all add: heated_names_def heater_of_def g)
qed

lemma heated_names_Cons:
  "heated_names ((l, target) # cs) w =
    (if target \<noteq> None \<and> GetImageHeater (GetImageHeaterName l) w \<noteq> None then [GetImageHeaterName l] else []) @ heated_names cs w"
  by (simp add: heated_names_def)

lemma heater_of_Cons: "heater_of ih w cs name0 hash heater \<Longrightarrow> heater_of ih w (c # cs) name0 hash heater"
  unfolding heater_of_def by (metis list.set_intros(2))

lemma run_plan_heaters:
  assumes "run_state (plan_heaters E ih cs plan) w = (r, w')"
  shows "w' = w\<lparr>k_calls := k_calls w'\<rparr> \<and>
    (case r of Inl (status, err) \<Rightarrow> err \<noteq> None
     | Inr plan' \<Rightarrow> \<exists>hs. plan' = add_heaters hs plan \<and> map fst hs = heated_names cs w \<and>
         (\<forall>(name0, hash, heater) \<in> set hs. heater_of ih w cs name0 hash heater))"
  using assms
proof (induction cs arbitrary: plan w)
  case Nil
  then show ?case by (auto simp: add_heaters_def heated_names_def)
next
  case (Cons c cs)
  obtain l target where c: "c = (l, target)" by fastforce
  show ?case
  proof (cases "target = None \<or> GetImageHeater (GetImageHeaterName l) w = None")
    case True
    then have "run_state (plan_heaters E ih cs plan) w = (r, w')" using Cons(2) by (auto simp: c split: option.splits)
    from Cons(1) [OF this] True show ?thesis
      by (fastforce simp: c heated_names_Cons split: sum.splits intro: heater_of_Cons)
  next
    case False
    then obtain t s where ts: "target = Some t" "GetImageHeater (GetImageHeaterName l) w = Some s" by auto
    show ?thesis
    proof (cases "buildImageHeater ih (GetImageHeaterName l) s t")
      case (Inl err)
      then show ?thesis using Cons(2) ts by (auto simp: c)
    next
      case (Inr b)
      obtain heater hash where b: "b = (heater, hash)" by fastforce
      let ?o = "FetchObject (ka_ds (e_Kube E (k_calls w))) (mr_name heater) ((mr_old heater)\<lparr>o_ResourceVersion := []\<rparr>)"
      let ?w = "w\<lparr>k_calls := Suc (k_calls w)\<rparr>" and ?h = "heater\<lparr>mr_old := fst ?o\<rparr>"
      show ?thesis
      proof (cases "go_error_of (snd ?o)")
        case (Some e)
        then show ?thesis using Cons(2) ts Inr by (auto simp: c b run_fetch_heater)
      next
        case None
        then have "run_state (plan_heaters E ih cs (add_heater (GetImageHeaterName l) hash ?h plan)) ?w = (r, w')"
          using Cons(2) ts Inr by (simp add: c b run_fetch_heater)
        note IH = Cons(1) [OF this]
        have h: "heater_of ih w (c # cs) (GetImageHeaterName l) hash ?h"
          using ts Inr unfolding heater_of_def c b by (intro exI [of _ l] exI [of _ t] exI [of _ s] exI [of _ "mr_old heater"]) simp
        show ?thesis
        proof (cases r)
          case (Inl a)
          then show ?thesis using IH by (auto split: prod.splits)
        next
          case (Inr plan')
          with conjunct2 [OF IH, unfolded heated_calls] obtain hs where hs: "plan' = add_heaters hs (add_heater (GetImageHeaterName l) hash ?h plan)" "map fst hs = heated_names cs w"
              "\<forall>(name0, hash, heater) \<in> set hs. heater_of ih w cs name0 hash heater"
            by auto
          let ?hs = "(GetImageHeaterName l, hash, ?h) # hs"
          have "\<forall>(name0, hash, heater) \<in> set ?hs. heater_of ih w (c # cs) name0 hash heater"
            using hs(3) h heater_of_Cons [of ih w cs] by fastforce
          moreover have "plan' = add_heaters ?hs plan" "map fst ?hs = heated_names (c # cs) w"
            using hs(1,2) ts by (simp_all add: c heated_names_Cons add_heaters_def)
          ultimately have "\<exists>hs. plan' = add_heaters hs plan \<and> map fst hs = heated_names (c # cs) w \<and>
              (\<forall>(name0, hash, heater) \<in> set hs. heater_of ih w (c # cs) name0 hash heater)" by blast
          then show ?thesis using conjunct1 [OF IH] unfolding Inr by simp
        qed
      qed
    qed
  qed
qed

section \<open>What a plan is\<close>

text \<open>
  The invariant of the loop: the groups have different hashes; they divide the names of the heaters \<open>hs\<close> seen so far;
  the heater of a group is that of one of its names, and the names of a group have its hash; what is deleted is not
  the heater of a group.
\<close>

definition heaters_ok :: "(string \<times> string \<times> daemon_set managed) list \<Rightarrow> heater_plan \<Rightarrow> bool" where
  "heaters_ok hs plan \<longleftrightarrow>
    distinct (map fst (hp_groups plan)) \<and>
    mset (concat (map (snd \<circ> snd) (hp_groups plan))) = mset (map fst hs) \<and>
    (\<forall>hash heater names. (hash, heater, names) \<in> set (hp_groups plan) \<longrightarrow>
       (\<exists>n \<in> set names. (n, hash, heater) \<in> set hs) \<and> (\<forall>n \<in> set names. \<exists>x. (n, hash, x) \<in> set hs)) \<and>
    (\<forall>d \<in> fst ` set (hp_toDelete plan).
       (\<exists>n h x. (n, h, x) \<in> set hs \<and> d = mr_name x) \<and> (\<forall>h x ns. (h, x, ns) \<in> set (hp_groups plan) \<longrightarrow> mr_name x \<noteq> d))"

lemma heaters_ok_start: "heaters_ok [] \<lparr>hp_groups = [], hp_toDelete = []\<rparr>"
  by (simp add: heaters_ok_def)

lemma update_split:
  assumes "distinct (map fst m)" "map_of m k = Some v"
  obtains xs ys where "m = xs @ (k, v) # ys" "AList.update k v' m = xs @ (k, v') # ys" "k \<notin> fst ` set xs" "k \<notin> fst ` set ys"
proof -
  obtain xs ys where m: "m = xs @ (k, v) # ys" using map_of_SomeD [OF assms(2)] by (meson split_list)
  then have k: "k \<notin> fst ` set xs" "k \<notin> fst ` set ys" using assms(1) by auto
  then have "AList.update k v' (xs @ (k, v) # ys) = xs @ (k, v') # ys" by (induction xs) auto
  then show ?thesis using that m k by blast
qed

lemma update_new: "map_of m k = None \<Longrightarrow> AList.update k v m = m @ [(k, v)]"
  by (induction m) (auto split: if_splits)

lemma heaters_okI:
  assumes "distinct (map fst groups)" "mset (concat (map (snd \<circ> snd) groups)) = mset (map fst hs)"
    and "\<And>hash heater names. (hash, heater, names) \<in> set groups \<Longrightarrow>
      (\<exists>n \<in> set names. (n, hash, heater) \<in> set hs) \<and> (\<forall>n \<in> set names. \<exists>x. (n, hash, x) \<in> set hs)"
    and "\<And>d. d \<in> fst ` set del \<Longrightarrow> (\<exists>n h x. (n, h, x) \<in> set hs \<and> d = mr_name x) \<and> (\<forall>h x ns. (h, x, ns) \<in> set groups \<longrightarrow> mr_name x \<noteq> d)"
  shows "heaters_ok hs \<lparr>hp_groups = groups, hp_toDelete = del\<rparr>"
  unfolding heaters_ok_def heater_plan.simps using assms by blast

lemma heaters_okD:
  assumes "heaters_ok hs \<lparr>hp_groups = groups, hp_toDelete = del\<rparr>"
  shows "distinct (map fst groups)" "mset (concat (map (snd \<circ> snd) groups)) = mset (map fst hs)"
    "(hash, heater, names) \<in> set groups \<Longrightarrow> \<exists>n \<in> set names. (n, hash, heater) \<in> set hs"
    "(hash, heater, names) \<in> set groups \<Longrightarrow> n \<in> set names \<Longrightarrow> \<exists>x. (n, hash, x) \<in> set hs"
    "d \<in> fst ` set del \<Longrightarrow> \<exists>n h x. (n, h, x) \<in> set hs \<and> d = mr_name x"
    "d \<in> fst ` set del \<Longrightarrow> (hash, heater, names) \<in> set groups \<Longrightarrow> mr_name heater \<noteq> d"
  using assms unfolding heaters_ok_def heater_plan.simps by blast+

lemma fst_update: "fst ` set (AList.update k v m) = insert k (fst ` set m)"
  by (induction m) auto

lemma add_heater_ok:
  assumes ok: "heaters_ok hs plan" and fresh: "\<And>n h x. (n, h, x) \<in> set hs \<Longrightarrow> mr_name x \<noteq> mr_name heater"
    and inj: "\<And>n h x n' h' x'. (n, h, x) \<in> set hs \<Longrightarrow> (n', h', x') \<in> set hs \<Longrightarrow> mr_name x = mr_name x' \<Longrightarrow> h = h'"
  shows "heaters_ok (hs @ [(name0, hash, heater)]) (add_heater name0 hash heater plan)"
proof -
  obtain groups del where plan: "plan = \<lparr>hp_groups = groups, hp_toDelete = del\<rparr>" by (cases plan)
  note ok = ok [unfolded plan]
  let ?hs = "hs @ [(name0, hash, heater)]"
  show ?thesis
  proof (cases "map_of groups hash")
    case None
    then have new: "hash \<notin> fst ` set groups" by (simp add: map_of_eq_None_iff)
    have "heaters_ok ?hs \<lparr>hp_groups = groups @ [(hash, heater, [name0])], hp_toDelete = del\<rparr>"
    proof (rule heaters_okI)
      fix d assume d: "d \<in> fst ` set del"
      from heaters_okD(5) [OF ok d] obtain n h x where x: "(n, h, x) \<in> set hs" "d = mr_name x" by blast
      then show "(\<exists>n h x. (n, h, x) \<in> set ?hs \<and> d = mr_name x) \<and> (\<forall>h x ns. (h, x, ns) \<in> set (groups @ [(hash, heater, [name0])]) \<longrightarrow> mr_name x \<noteq> d)"
        using heaters_okD(6) [OF ok d] fresh [OF x(1)] by auto
    next
      fix h x ns assume "(h, x, ns) \<in> set (groups @ [(hash, heater, [name0])])"
      then show "(\<exists>n \<in> set ns. (n, h, x) \<in> set ?hs) \<and> (\<forall>n \<in> set ns. \<exists>x. (n, h, x) \<in> set ?hs)"
        using heaters_okD(3,4) [OF ok] by fastforce
    qed (use heaters_okD(1,2) [OF ok] new in auto)
    then show ?thesis using None by (simp add: plan add_heater_def update_new)
  next
    case (Some g)
    obtain other names where g: "g = (other, names)" by fastforce
    define swap where "swap \<longleftrightarrow> mr_name heater < mr_name other \<and> (managed_Exists heater \<or> \<not> managed_Exists other)"
    define keep where "keep = (if swap then heater else other)"
    define drop' where "drop' = (if swap then other else heater)"
    define del' where "del' = (if managed_Exists drop' then AList.update (mr_name drop') (mr_old drop') del else del)"
    obtain xs ys where u: "groups = xs @ (hash, other, names) # ys" "hash \<notin> fst ` set xs" "hash \<notin> fst ` set ys"
        "AList.update hash (keep, names @ [name0]) groups = xs @ (hash, keep, names @ [name0]) # ys"
      using update_split [OF heaters_okD(1) [OF ok] Some, of "(keep, names @ [name0])"] g by metis
    let ?groups = "xs @ (hash, keep, names @ [name0]) # ys"
    have mem: "(hash, other, names) \<in> set groups" by (simp add: u(1))
    obtain n0 where n0: "(n0, hash, other) \<in> set hs" using heaters_okD(3) [OF ok mem] by blast
    have "heaters_ok ?hs \<lparr>hp_groups = ?groups, hp_toDelete = del'\<rparr>"
    proof (rule heaters_okI)
      show "distinct (map fst ?groups)" using heaters_okD(1) [OF ok] by (simp add: u(1))
      show "mset (concat (map (snd \<circ> snd) ?groups)) = mset (map fst ?hs)" using heaters_okD(2) [OF ok] by (simp add: u(1))
    next
      fix h x ns assume "(h, x, ns) \<in> set ?groups"
      then consider "(h, x, ns) \<in> set groups" | "h = hash" "x = keep" "ns = names @ [name0]" by (auto simp: u(1))
      then show "(\<exists>n \<in> set ns. (n, h, x) \<in> set ?hs) \<and> (\<forall>n \<in> set ns. \<exists>x. (n, h, x) \<in> set ?hs)"
      proof cases
        case 1
        then show ?thesis using heaters_okD(3,4) [OF ok] by fastforce
      next
        case 2
        then show ?thesis using heaters_okD(3,4) [OF ok mem] by (auto simp: keep_def)
      qed
    next
      fix d assume "d \<in> fst ` set del'"
      then consider "d \<in> fst ` set del" | "d = mr_name drop'" by (auto simp: del'_def fst_update split: if_splits)
      then show "(\<exists>n h x. (n, h, x) \<in> set ?hs \<and> d = mr_name x) \<and> (\<forall>h x ns. (h, x, ns) \<in> set ?groups \<longrightarrow> mr_name x \<noteq> d)"
      proof cases
        case 1
        from heaters_okD(5) [OF ok 1] obtain n h x where x: "(n, h, x) \<in> set hs" "d = mr_name x" by blast
        then show ?thesis using heaters_okD(6) [OF ok 1] fresh [OF x(1)] mem by (auto simp: keep_def u(1))
      next
        case 2
        have "mr_name x \<noteq> mr_name heater \<and> mr_name x \<noteq> mr_name other" if "(h, x, ns) \<in> set (xs @ ys)" for h x ns
        proof -
          have "(h, x, ns) \<in> set groups" "h \<noteq> hash" using that u(2,3) by (auto simp: u(1) image_iff)
          then show ?thesis using heaters_okD(3) [OF ok] fresh inj [OF _ n0] by metis
        qed
        then show ?thesis using 2 n0 fresh [OF n0] by (auto simp: keep_def drop'_def)
      qed
    qed
    then show ?thesis using Some g u(4) by (auto simp: plan add_heater_def keep_def drop'_def swap_def del'_def delete_later_def)
  qed
qed

lemma add_heaters_ok:
  assumes "distinct (map (\<lambda>(_, _, x). mr_name x) hs)"
  shows "heaters_ok hs (add_heaters hs \<lparr>hp_groups = [], hp_toDelete = []\<rparr>)"
  using assms
proof (induction hs rule: rev_induct)
  case Nil
  then show ?case by (simp add: add_heaters_def heaters_ok_start)
next
  case (snoc e hs)
  obtain name0 hash heater where e: "e = (name0, hash, heater)" by (cases e)
  have d: "distinct (map (\<lambda>(_, _, x). mr_name x) hs)" using snoc(2) by simp
  have "heaters_ok (hs @ [e]) (add_heater name0 hash heater (add_heaters hs \<lparr>hp_groups = [], hp_toDelete = []\<rparr>))"
    unfolding e
  proof (rule add_heater_ok)
    show "heaters_ok hs (add_heaters hs \<lparr>hp_groups = [], hp_toDelete = []\<rparr>)" using snoc d by simp
    show "mr_name x \<noteq> mr_name heater" if "(n, h, x) \<in> set hs" for n h x
      using snoc(2) that by (force simp: e)
    show "h = h'" if "(n, h, x) \<in> set hs" "(n', h', x') \<in> set hs" "mr_name x = mr_name x'" for n h x n' h' x'
      using inj_onD [of "\<lambda>(_, _, x). mr_name x" "set hs" "(n, h, x)" "(n', h', x')"] d that by (simp add: distinct_map)
  qed
  then show ?case by (simp add: add_heaters_def e)
qed

section \<open>Maps of names\<close>

lemma set_heaters_apply: "set_heaters names obj m n = (if n \<in> set names then Some obj else m n)"
  unfolding set_heaters_def by (induction names arbitrary: m) auto

lemma fold_set_heaters:
  assumes "n \<in> (\<Union>(h, x, ns) \<in> set gs. set (f ns))"
  shows "\<exists>h x ns. (h, x, ns) \<in> set gs \<and> n \<in> set (f ns) \<and> fold (\<lambda>(_, x, ns). set_heaters (f ns) (obj x ns)) gs m n = Some (obj x ns)"
  using assms
proof (induction gs rule: rev_induct)
  case (snoc g gs)
  obtain h x ns where g: "g = (h, x, ns)" by (cases g)
  show ?case
  proof (cases "n \<in> set (f ns)")
    case True
    then show ?thesis by (auto simp: g set_heaters_apply)
  next
    case False
    with snoc(2) have "n \<in> (\<Union>(h, x, ns) \<in> set gs. set (f ns))" by (auto simp: g)
    from snoc(1) [OF this] False show ?thesis by (auto simp: g set_heaters_apply)
  qed
qed simp

section \<open>Applying a plan\<close>

lemma heated_frame [simp]:
  "k_nameToHeater (SetStatusCondition E c w) = k_nameToHeater w" "k_nameToHeater (RecordNormal r m w) = k_nameToHeater w"
  by (simp_all add: SetStatusCondition_def RecordNormal_def map_status_def Let_def)

lemma apply_heaters_dry: "\<exists>p'. run_state (apply_heaters E True entries p) w = (Inr p', w)"
  by (induction entries arbitrary: p) (auto simp: when_do_def split: prod.split)

section \<open>Contracts\<close>

locale heater_reading = micro_reading R for R :: "'x heated_scheme \<Rightarrow> 'x heated_scheme \<Rightarrow> bool" +
  assumes R_heaters: "R w (w\<lparr>k_nameToHeater := m\<rparr>)"
    and R_daemonSets: "R w (w\<lparr>k_daemonSetList := ds\<rparr>)"
begin

lemma kept_set_heaters: "kept R (modifies (\<lambda>w. w\<lparr>k_nameToHeater := g w\<rparr>))"
  by (intro kept_modifies R_heaters)

lemma kept_ImageHeater_Fetch: "kept R (ImageHeater_Fetch E ih)"
proof -
  have "R w (w\<lparr>k_daemonSetList := ds, k_nameToHeater := m\<rparr>)" for w ds m
    using preordD(2) [OF preord_R R_daemonSets R_heaters] .
  then show ?thesis unfolding ImageHeater_Fetch_def by (intro yt_intros kept_api_call kept_modifies)
qed

lemma kept_plan_heaters: "kept R (plan_heaters E ih cs plan)"
  by (induction cs arbitrary: plan) (auto intro!: yt_intros kept_managed_Fetch split: option.split sum.split)

lemma kept_heat_dry:
  assumes "\<And>s r m. kept R (set_status_condition E ConditionImageHeaterComplete s r m)"
  shows "kept R (ImageHeater_Sync E ih True)"
proof -
  have "kept R (apply_heaters E True es p)" for es p
    using apply_heaters_dry [of E es p] preordD(1) [OF preord_R] by (metis keptI snd_conv)
  then show ?thesis
    unfolding ImageHeater_Sync_def heat_def finish_heating_def Let_def if_True
    by (intro yt_intros kept_plan_heaters kept_set_heaters kept_record assms)
qed

end

locale heater_bookkeeping = heater_reading R + micro_bookkeeping R for R :: "'x heated_scheme \<Rightarrow> 'x heated_scheme \<Rightarrow> bool"
begin

lemma kept_heater_writes: "kept R (delete_heaters E ds)" "kept R (apply_heaters E dry es p)"
proof -
  have heater: "kept R (write_heater E heater names)" for heater names
  proof -
    have "R w (if b then w\<lparr>k_nameToHeater := m\<rparr> else w)" for b w m using R_heaters preordD(1) [OF preord_R] by simp
    then show ?thesis unfolding write_heater_def by (intro yt_intros kept_managed_Sync kept_modifies)
  qed
  show "kept R (delete_heaters E ds)"
    by (induction E ds rule: delete_heaters.induct) (auto intro!: yt_intros kept_managed_Delete)
  show "kept R (apply_heaters E dry es p)"
    by (induction es arbitrary: p) (auto intro!: yt_intros heater split: prod.split)
qed

lemma kept_ImageHeater_Sync:
  assumes "\<And>s r m. kept R (set_status_condition E ConditionImageHeaterComplete s r m)"
  shows "kept R (ImageHeater_Sync E ih dry)"
  unfolding ImageHeater_Sync_def heat_def finish_heating_def Let_def
  by (intro yt_intros kept_plan_heaters kept_set_heaters kept_heater_writes kept_record assms)

end

interpretation hq: heater_bookkeeping keeps
  by unfold_locales (simp_all add: keeps_def same_control_def GetClusterState_def GetUpdateState_def
      GetUpdatingComponents_def conds_wf_def status_of_cond_def)

interpretation hw: heater_reading no_write
  by unfold_locales (simp_all add: no_write_def)

section \<open>Properties\<close>

lemma Sync_plan:
  assumes "run_state (ImageHeater_Sync E ih dry) w = ((status, None), w')" "ImageHeater_NeedSync E w"
  obtains hs n plan where "run_state (plan_heaters E ih (ih_components ih) \<lparr>hp_groups = [], hp_toDelete = []\<rparr>) w = (Inr plan, w\<lparr>k_calls := n\<rparr>)"
    "plan = add_heaters hs \<lparr>hp_groups = [], hp_toDelete = []\<rparr>" "map fst hs = heated_names (ih_components ih) w"
    "\<forall>(name0, hash, heater) \<in> set hs. heater_of ih w (ih_components ih) name0 hash heater"
    "run_state (heat E dry plan) (w\<lparr>k_calls := n\<rparr>) = ((status, None), w')"
proof -
  obtain r w1 where p: "run_state (plan_heaters E ih (ih_components ih) \<lparr>hp_groups = [], hp_toDelete = []\<rparr>) w = (r, w1)" by fastforce
  note run = run_plan_heaters [OF p]
  obtain n where w1: "w1 = w\<lparr>k_calls := n\<rparr>" using run by blast
  show ?thesis
  proof (cases r)
    case (Inl a)
    then have "a = (status, None)" using assms p by (simp add: ImageHeater_Sync_def)
    with run Inl show ?thesis by simp
  next
    case (Inr plan)
    then have "run_state (heat E dry plan) w1 = ((status, None), w')" using assms p by (simp add: ImageHeater_Sync_def)
    then show ?thesis using that p conjunct2 [OF run] Inr w1 by auto
  qed
qed

lemma heaters_ok_of:
  assumes "map fst hs = heated_names cs w" "\<forall>(name0, hash, heater) \<in> set hs. heater_of ih w cs name0 hash heater"
    and "distinct (map (heater_name ih) (heated_names cs w))"
  shows "heaters_ok hs (add_heaters hs \<lparr>hp_groups = [], hp_toDelete = []\<rparr>)"
proof (rule add_heaters_ok)
  have "map (\<lambda>(_, _, x). mr_name x) hs = map (heater_name ih) (map fst hs)"
    using assms(2) by (auto simp: heater_of_simps(1))
  then show "distinct (map (\<lambda>(_, _, x). mr_name x) hs)" using assms(1,3) by simp
qed

lemma plan_covers:
  assumes "heaters_ok hs plan" "n \<in> fst ` set hs"
  shows "n \<in> (\<Union>(h, x, ns) \<in> set (hp_groups plan). set (sort ns))"
proof -
  have "mset (concat (map (snd \<circ> snd) (hp_groups plan))) = mset (map fst hs)" using assms(1) by (simp add: heaters_ok_def)
  then have "n \<in> set (concat (map (snd \<circ> snd) (hp_groups plan)))" using assms(2) by (metis image_set set_mset_mset)
  then show ?thesis by force
qed

abbreviation replaced_heaters :: "heater_plan \<Rightarrow> (string \<rightharpoonup> daemon_set k8s_object) \<Rightarrow> (string \<rightharpoonup> daemon_set k8s_object)" where
  "replaced_heaters plan \<equiv> fold (\<lambda>(_, heater, names). set_heaters (sort names) (mr_new (with_targets names heater))) (hp_groups plan)"

lemma heat_dry_names:
  assumes "run_state (heat E True plan) w = (r, w')"
  shows "k_nameToHeater w' = replaced_heaters plan (k_nameToHeater w)"
proof -
  let ?es = "sorted_entries (to_apply plan)" and ?d = "sorted_entries (to_delete plan (k_daemonSetList w)) \<noteq> []"
  let ?w = "w\<lparr>k_nameToHeater := replaced_heaters plan (k_nameToHeater w)\<rparr>"
  obtain p' where "run_state (apply_heaters E True ?es (heating_start ?d)) ?w = (Inr p', ?w)" using apply_heaters_dry by blast
  then show ?thesis using assms by (auto simp: heat_def Let_def finish_heating_def record_normal_def set_status_condition_def)
qed

text \<open>
  (C34) As long as heating is not complete, no component that is heated is reported as heated, even when its own DaemonSet runs on all
  nodes: planning replaces the objects that were found by the ones that were built, which do not exist yet as far as their metadata tells.  The
  update of some components therefore waits for the images of all.
\<close>

theorem heating_waits_for_all:
  assumes "run_state (ImageHeater_Sync E ih True) w = ((status, None), w')" "ImageHeater_NeedSync E w"
    and "distinct (map (heater_name ih) (heated_names (ih_components ih) w))"
    and "GetImageHeaterName (ForComponent (ref_type c) (ref_name c) (ih_labeller ih)) \<in> set (heated_names (ih_components ih) w)"
  shows "\<not> IsReady (GetHeaterStatus ih c w')"
proof -
  let ?n = "GetImageHeaterName (ForComponent (ref_type c) (ref_name c) (ih_labeller ih))"
  obtain hs k plan where p: "plan = add_heaters hs \<lparr>hp_groups = [], hp_toDelete = []\<rparr>" "map fst hs = heated_names (ih_components ih) w"
      "\<forall>(name0, hash, heater) \<in> set hs. heater_of ih w (ih_components ih) name0 hash heater"
      and h: "run_state (heat E True plan) (w\<lparr>k_calls := k\<rparr>) = ((status, None), w')"
    using Sync_plan [OF assms(1,2)] .
  have ok: "heaters_ok hs plan" using heaters_ok_of [OF p(2,3) assms(3)] p(1) by simp
  have "k_nameToHeater w' = replaced_heaters plan (k_nameToHeater w)" using heat_dry_names [OF h] by simp
  moreover have "?n \<in> (\<Union>(h, x, ns) \<in> set (hp_groups plan). set (sort ns))"
    by (rule plan_covers [OF ok]) (metis assms(4) p(2) image_set)
  ultimately obtain hash x ns where x: "(hash, x, ns) \<in> set (hp_groups plan)" "k_nameToHeater w' ?n = Some (mr_new (with_targets ns x))"
    using fold_set_heaters [of ?n sort "hp_groups plan" "\<lambda>x ns. mr_new (with_targets ns x)" "k_nameToHeater w"] by auto
  from ok x(1) obtain n where "(n, hash, x) \<in> set hs" unfolding heaters_ok_def by blast
  then have "o_ResourceVersion (mr_new x) = []" using p(3) heater_of_simps(2) by fastforce
  then show ?thesis
    using x(2) by (simp add: GetHeaterStatus_def GetDaemonSetStatus_def with_targets_def SetMetaDataAnnotation_def ComponentStatusPending_def
        ComponentStatusSprintf_def IsReady_def Let_def)
qed

lemma heaters_ok_delete:
  assumes "heaters_ok hs plan" "d \<in> fst ` set (hp_toDelete plan)" "(h, x, ns) \<in> set (hp_groups plan)"
  shows "mr_name x \<noteq> d"
proof -
  have "heaters_ok hs \<lparr>hp_groups = hp_groups plan, hp_toDelete = hp_toDelete plan\<rparr>" using assms(1) by (cases plan) simp
  from heaters_okD(6) [OF this assms(2,3)] show ?thesis .
qed

text \<open>What is applied and what is deleted.\<close>

lemma fst_to_apply: "fst ` set (to_apply plan) = (\<lambda>(_, heater, _). mr_name heater) ` set (hp_groups plan)"
proof -
  have "fst ` set (fold (\<lambda>(hash, heater, names). AList.update (mr_name heater) (with_targets names heater, sort names)) gs m) =
      fst ` set m \<union> (\<lambda>(_, heater, _). mr_name heater) ` set gs" for gs :: "(string \<times> daemon_set managed \<times> string list) list" and m
    by (induction gs arbitrary: m) (simp_all add: fst_update case_prod_beta)
  then show ?thesis by (simp add: to_apply_def)
qed

lemma fst_to_delete:
  "fst ` set (to_delete plan items) = fst ` set (hp_toDelete plan) \<union> (o_Name ` set items - fst ` set (to_apply plan))"
proof -
  have "fst ` set (fold (\<lambda>ds m. if map_of (to_apply plan) (o_Name ds) = None then AList.update (o_Name ds) ds m else m) items m) =
      fst ` set m \<union> (o_Name ` set items - fst ` set (to_apply plan))" for m
  proof (induction items arbitrary: m)
    case (Cons ds items)
    show ?case unfolding fold_Cons comp_apply Cons by (cases "o_Name ds \<in> fst ` set (to_apply plan)") (simp_all add: fst_update map_of_eq_None_iff insert_Diff_if)
  qed simp
  then show ?thesis by (simp add: to_delete_def)
qed


lemma apply_heaters_complete:
  assumes "run_state (apply_heaters E dry es p) w = (Inr p', w')" "hr_complete p' = ConditionTrue"
  shows "hr_complete p = ConditionTrue \<and> w' = w \<and> hr_syncStatus p' = hr_syncStatus p \<and>
    (\<forall>(name0, heater, names) \<in> set es. \<not> needs_write heater \<and> fst (GetDaemonSetStatus (mr_old heater)))"
  using assms
proof (induction es arbitrary: p w)
  case (Cons e es)
  obtain name0 heater names where e: "e = (name0, heater, names)" by (cases e)
  obtain ready message where g: "GetDaemonSetStatus (mr_old heater) = (ready, message)" by fastforce
  show ?case
  proof (cases "needs_write heater")
    case True
    obtain err w1 where d: "run_state (when_do (\<not> dry) (write_heater E heater names)) w = (err, w1)" by fastforce
    then have "run_state (apply_heaters E dry es (report_heater True False (''daemon set '' @ mr_name heater @ '' need sync'') p)) w1 = (Inr p', w')"
      using Cons(2) True by (cases err) (auto simp: e g)
    from Cons(1) [OF this Cons(3)] show ?thesis by (simp add: report_heater_def)
  next
    case False
    then have "run_state (apply_heaters E dry es (report_heater False ready message p)) w = (Inr p', w')" using Cons(2) by (simp add: e g)
    from Cons(1) [OF this Cons(3)] False show ?thesis by (simp add: report_heater_def e g split: if_splits)
  qed
qed simp

lemma heater_failures:
  "run_state (delete_heaters E ds) w = (Some (st, err), w') \<Longrightarrow> err \<noteq> None"
  "run_state (apply_heaters E dry es p) w2 = (Inl (st, err), w3) \<Longrightarrow> err \<noteq> None"
proof -
  show "run_state (delete_heaters E ds) w = (Some (st, err), w') \<Longrightarrow> err \<noteq> None"
    by (induction ds arbitrary: w) (auto split: prod.splits if_splits)
  show "run_state (apply_heaters E dry es p) w2 = (Inl (st, err), w3) \<Longrightarrow> err \<noteq> None"
    by (induction es arbitrary: p w2) (auto split: prod.splits if_splits)
qed

text \<open>
  (C36) What a completed heating means: when a synchronisation that looked at the heaters, dry or not, leaves the condition of completion true, then no
  DaemonSet is to be deleted, every one that is needed exists with the hash and the targets it should have, and has
  running pods on all nodes it should; nothing has been written, and the heater reports ready.
\<close>

theorem complete_heating:
  assumes "meta_laws E" "conds_wf w" "run_state (ImageHeater_Sync E ih dry) w = ((status, None), w')" "ImageHeater_NeedSync E w"
    and "IsStatusConditionTrue E ConditionImageHeaterComplete w'"
  shows "\<exists>plan w1. run_state (plan_heaters E ih (ih_components ih) \<lparr>hp_groups = [], hp_toDelete = []\<rparr>) w = (Inr plan, w1) \<and>
    to_delete plan (k_daemonSetList w) = [] \<and>
    (\<forall>(name0, heater, names) \<in> set (to_apply plan). \<not> needs_write heater \<and> fst (GetDaemonSetStatus (mr_old heater))) \<and>
    IsReady status \<and> k_requests w' = k_requests w"
proof -
  obtain n plan where p: "run_state (plan_heaters E ih (ih_components ih) \<lparr>hp_groups = [], hp_toDelete = []\<rparr>) w = (Inr plan, w\<lparr>k_calls := n\<rparr>)"
      and h: "run_state (heat E dry plan) (w\<lparr>k_calls := n\<rparr>) = ((status, None), w')"
    using Sync_plan [OF assms(3,4)] .
  let ?es = "sorted_entries (to_apply plan)" and ?d = "sorted_entries (to_delete plan (k_daemonSetList w))"
  let ?w = "w\<lparr>k_calls := n, k_nameToHeater := replaced_heaters plan (k_nameToHeater w)\<rparr>"
  obtain failed w1 where f: "run_state (if dry then ret None else delete_heaters E ?d) ?w = (failed, w1)" by fastforce
  have "quiet (if dry then ret None else delete_heaters E ?d)" by (intro kept_intros hq.kept_heater_writes)
  from keptD_eq [OF this f] have "conds_wf w1" using assms(2) by (simp add: keeps_def same_control_def conds_wf_def)
  have "failed = None"
    using h f by (cases failed) (auto simp: heat_def Let_def dest: heater_failures(1) split: if_splits)
  obtain r w2 where a: "run_state (apply_heaters E dry ?es (heating_start (?d \<noteq> []))) w1 = (r, w2)" by fastforce
  obtain p' where r: "r = Inr p'"
    using h f a \<open>failed = None\<close> by (cases r) (auto simp: heat_def Let_def dest: heater_failures(2))
  have fin: "run_state (finish_heating E (length ?es) p') w2 = ((status, None), w')"
    using h f a r \<open>failed = None\<close> by (simp add: heat_def Let_def)
  have "conds_wf w2" using keptD_eq [OF hq.kept_heater_writes(2) a] \<open>conds_wf w1\<close> by (simp add: keeps_def same_control_def conds_wf_def)
  then have c: "hr_complete p' = ConditionTrue"
    using fin assms(5) by (auto simp: finish_heating_def Let_def record_normal_def set_status_condition_def IsStatusCondition_iff [OF assms(1)]
        status_of_SetStatusCondition [OF assms(1)] mkcond_def)
  note all = apply_heaters_complete [OF a [unfolded r] c]
  then have "?d = []" by (simp add: heating_start_def split: if_splits)
  then have d: "to_delete plan (k_daemonSetList w) = []" and w1: "w1 = ?w"
    using f by (auto simp: sorted_entries_def dest: arg_cong [of _ _ length] split: if_splits)
  have "IsReady status" "k_requests w' = k_requests w"
    using fin all w1 \<open>?d = []\<close> by (auto simp: finish_heating_def Let_def record_normal_def set_status_condition_def heating_start_def
        ComponentStatusSprintf_def IsReady_def)
  moreover have "\<forall>(name0, heater, names) \<in> set (to_apply plan). \<not> needs_write heater \<and> fst (GetDaemonSetStatus (mr_old heater))"
    using all unfolding sorted_entries_def set_sort by blast
  ultimately show ?thesis using p d by blast
qed

section \<open>Witnesses\<close>

definition sample_target :: heater_target where
  "sample_target = \<lparr>ht_Images = [(''server'', ''yt:2'')], ht_ImagePullSecrets = [], ht_NodeSelector = Map.empty, ht_Tolerations = [], ht_NodeAffinity = None\<rparr>"

definition named_labeller :: "component_type \<Rightarrow> labeller" where
  "named_labeller t = ForComponent t '''' (zero_labeller\<lparr>l_ResourceName := ''yt''\<rparr>)"

text \<open>Two components that share a heater, and one that has nothing to heat; the DaemonSet of one of them runs.\<close>

definition sample_heater :: image_heater where
  "sample_heater = \<lparr>ih_labeller = named_labeller ImageHeaterType,
     ih_components = [(named_labeller ImageHeaterType, None), (named_labeller MasterType, Some sample_target),
       (named_labeller DiscoveryType, Some sample_target)],
     ih_Hash = (\<lambda>_ _ _ _ _ _. Inr ''hash'')\<rparr>"

definition running_heater :: "daemon_set k8s_object" where
  "running_heater = (object_meta zero_labeller ''ih-ds-yt-yt'' ''*v1.DaemonSet'' ((new_daemon_set zero_labeller 100)
     \<lparr>ds_DesiredNumberScheduled := 2, ds_CurrentNumberScheduled := 2, ds_UpdatedNumberScheduled := 2, ds_NumberReady := 2, ds_NumberAvailable := 2\<rparr>))
     \<lparr>o_ResourceVersion := ''3'', o_Annotations := Some [InstanceHashAnnotationName \<mapsto> ''hash'', ImageHeaterTargetsAnnotationName \<mapsto> ''ds-yt ms-yt'']\<rparr>"

definition heater_env :: cenv where
  "heater_env = sample_cenv ((sample_api None [])\<lparr>ka_ds := (sample_client None)
     \<lparr>oc_Get := (\<lambda>n. if n = ''ih-ds-yt-yt'' then Inl running_heater else Inr NotFoundError)\<rparr>,
     ka_ListDaemonSets := (\<lambda>_. Inr [running_heater])\<rparr>)"

definition heated_world :: "daemon_set k8s_object list \<Rightarrow> heated" where
  "heated_world items = micros.extend (jobs.extend
     (sample_jobs\<lparr>w_object := (w_object sample_jobs)\<lparr>yt_Spec := (yt_Spec (w_object sample_jobs))
       \<lparr>sp_ClusterFeatures := Some (zero_features\<lparr>cf_EnableImageHeater := True\<rparr>)\<rparr>\<rparr>\<rparr>)
     \<lparr>k_micros = (\<lambda>_. sample_micro)\<rparr>) \<lparr>k_daemonSetList = items, k_nameToHeater = Map.empty\<rparr>"

lemma heated_world_names: "heated_names (ih_components sample_heater) (heated_world [running_heater]) = [''ms-yt'', ''ds-yt'']" by code_simp

lemma heater_names_distinct: "distinct (map (heater_name sample_heater) (heated_names (ih_components sample_heater) (heated_world [running_heater])))"
  by code_simp

lemma NeedSync_heated_world: "ImageHeater_NeedSync heater_env (heated_world [running_heater])" by code_simp

theorem heating_waits_for_all_witness:
  "fst (GetDaemonSetStatus running_heater) \<and>
   \<not> IsReady (GetHeaterStatus sample_heater \<lparr>ref_type = DiscoveryType, ref_name = ''''\<rparr>
     (snd (run_state (ImageHeater_Sync heater_env sample_heater True) (heated_world [running_heater]))))"
proof -
  have "snd (fst (run_state (ImageHeater_Sync heater_env sample_heater True) (heated_world [running_heater]))) = None" by code_simp
  then obtain status w' where r: "run_state (ImageHeater_Sync heater_env sample_heater True) (heated_world [running_heater]) = ((status, None), w')"
    by (metis prod.collapse)
  have "GetImageHeaterName (ForComponent DiscoveryType '''' (ih_labeller sample_heater)) \<in> set [''ms-yt'', ''ds-yt'']" by code_simp
  moreover have "fst (GetDaemonSetStatus running_heater)" by code_simp
  ultimately show ?thesis
    using heating_waits_for_all [OF r NeedSync_heated_world heater_names_distinct, of "\<lparr>ref_type = DiscoveryType, ref_name = ''''\<rparr>"] r
    by (simp add: heated_world_names)
qed


theorem complete_heating_witness:
  "\<exists>status w' plan w1. run_state (ImageHeater_Sync heater_env sample_heater False) (heated_world [running_heater]) = ((status, None), w') \<and>
     run_state (plan_heaters heater_env sample_heater (ih_components sample_heater) \<lparr>hp_groups = [], hp_toDelete = []\<rparr>)
       (heated_world [running_heater]) = (Inr plan, w1) \<and>
     to_delete plan [running_heater] = [] \<and> IsReady status \<and> k_requests w' = k_requests (heated_world [running_heater])"
proof -
  let ?w = "heated_world [running_heater]" and ?r = "run_state (ImageHeater_Sync heater_env sample_heater False) (heated_world [running_heater])"
  have "snd (fst ?r) = None" by code_simp
  then obtain status w' where r: "?r = ((status, None), w')" by (metis prod.collapse)
  have "IsStatusConditionTrue heater_env ConditionImageHeaterComplete (snd ?r)" by code_simp
  then have c: "IsStatusConditionTrue heater_env ConditionImageHeaterComplete w'" by (simp add: r)
  have wf: "conds_wf ?w" by code_simp
  have l: "k_daemonSetList ?w = [running_heater]" by (simp add: heated_world_def micros.defs)
  have "meta_laws heater_env" using meta_laws_sample_cenv by (simp add: heater_env_def)
  from complete_heating [OF this wf r NeedSync_heated_world c] r l show ?thesis by auto
qed

end
