(* ===== verification/Service_Contracts.thy ===== *)
theory Service_Contracts
  imports Init_Contracts Image_Heater
begin

text \<open>
  All components of a cluster that the theories model, servers, microservices and the image heater, as one type, with the
  contracts they keep towards the controller.
\<close>

section \<open>All components\<close>

datatype 'x service_part =
    UIPart "'x heated_ext ui"
  | StrawberryPart "'x heated_ext strawberry"
  | HeaterPart image_heater
  | ClusterPart "'x heated_ext micros_ext cluster_part"

fun service_Fetch :: "'e cenv_scheme \<Rightarrow> 'x service_part \<Rightarrow> ('x, go_error) hact" where
  "service_Fetch E (UIPart u) = UI_Fetch E u"
| "service_Fetch E (StrawberryPart c) = Strawberry_Fetch E c"
| "service_Fetch E (HeaterPart ih) = ImageHeater_Fetch E ih"
| "service_Fetch E (ClusterPart p) = part_Fetch E p"

fun service_NeedUpdate :: "'e cenv_scheme \<Rightarrow> 'x service_part \<Rightarrow> ('x, component_status) hact" where
  "service_NeedUpdate E (UIPart u) = micro_needUpdate E (sc_id u)"
| "service_NeedUpdate E (StrawberryPart c) = micro_needUpdate E (sc_id c)"
| "service_NeedUpdate E (HeaterPart ih) = ImageHeater_NeedUpdate"
| "service_NeedUpdate E (ClusterPart p) = part_NeedUpdate E p"

fun service_Sync :: "'e cenv_scheme \<Rightarrow> (yt_value list \<Rightarrow> string) \<Rightarrow> 'x service_part \<Rightarrow> bool \<Rightarrow> 'x houtcome" where
  "service_Sync E show_alerts (UIPart u) dry = UI_Sync E u dry"
| "service_Sync E show_alerts (StrawberryPart c) dry = Strawberry_Sync E c dry"
| "service_Sync E show_alerts (HeaterPart ih) dry = ImageHeater_Sync E ih dry"
| "service_Sync E show_alerts (ClusterPart p) dry = part_Sync E show_alerts p dry"

fun service_conditions :: "'x service_part \<Rightarrow> string list" where
  "service_conditions (UIPart u) = [ij_statusCondition (ui_initJob u)]"
| "service_conditions (StrawberryPart c) = [ij_statusCondition (str_initUserAndUrlJob c), ij_statusCondition (str_initChytClusterJob c)]"
| "service_conditions (HeaterPart ih) = []"
| "service_conditions (ClusterPart p) = part_conditions p"

definition service_component ::
  "'e cenv_scheme \<Rightarrow> (yt_value list \<Rightarrow> string) \<Rightarrow> 'x service_part \<Rightarrow> nat \<Rightarrow> labeller \<Rightarrow> 'x heated_ext mcomponent" where
  "service_component E show_alerts p address l = \<lparr>cmp_id = address, cmp_labeller = l,
     cmp_Fetch = (\<lambda>w. prod.swap (run_state (service_Fetch E p) w)),
     cmp_NeedUpdate = (\<lambda>w. prod.swap (run_state (service_NeedUpdate E p) w)),
     cmp_Sync = (\<lambda>dry w. prod.swap (run_state (service_Sync E show_alerts p dry) w))\<rparr>"

section \<open>Contracts\<close>

lemma quiet_service_reads: "quiet (service_Fetch E p)" "quiet (service_NeedUpdate E p)"
  by (cases p; simp add: mq.kept_UI_Fetch mq.kept_Strawberry_Fetch hq.kept_ImageHeater_Fetch jq.kept_part_Fetch
      mq.kept_micro_reads jq.kept_part_NeedUpdate ImageHeater_NeedUpdate_def kept_intros)+

lemma quiet_service_Sync:
  assumes "meta_laws E" "\<forall>c \<in> set (service_conditions p). c \<noteq> ''ReadyToWork''"
  shows "quiet (service_Sync E show_alerts p dry)"
proof (cases p)
  case (HeaterPart ih)
  have "quiet (ImageHeater_Sync E ih dry)"
    by (intro hq.kept_ImageHeater_Sync quiet_set_status_condition assms(1)) simp
  then show ?thesis using HeaterPart by simp
qed (use assms in \<open>simp_all add: quiet_UI_Sync quiet_Strawberry_Sync quiet_part_Sync\<close>)



section \<open>Witness\<close>


end
