(* ===== verification/Releases.thy ===== *)
theory Releases
  imports Init_Contracts
begin

text \<open>
  The releases of CHYT and SPYT, \<open>pkg/components/chyt.go\<close> and \<open>spyt.go\<close> with their controllers (\<open>controllers/chyt_sync.go\<close>,
  \<open>chyt_controller.go\<close>, \<open>spyt_sync.go\<close>, \<open>spyt_controller.go\<close>) and proxies (\<open>pkg/apiproxy/chyt.go\<close>, \<open>spyt.go\<close>): jobs that run
  once, and a status that says how far they are.

  The init jobs read the specification of the cluster, and the conditions and the generation of the Chyt or Spyt object that owns them:
  the object of the world has both.  The state of the cluster is an argument; \<open>k_release\<close> is the release status, and
  \<open>k_savedReleases\<close> the history of those that were saved.
\<close>

section \<open>State\<close>

datatype release_status =
    ReleaseStatusUndefined
  | ReleaseStatusCreatingUserSecret
  | ReleaseStatusCreatingUser
  | ReleaseStatusUploadingIntoCypress
  | ReleaseStatusCreatingChPublicClique
  | ReleaseStatusFinished

record releases = jobs +
  k_release :: release_status
  k_savedReleases :: "release_status list"

type_synonym ('x, 'a) ract = "('x releases_scheme, 'a) state"
type_synonym 'x routcome = "('x, component_status \<times> go_error) ract"

record chyt =
  ch_labeller :: labeller
  ch_secret :: nat
  ch_initUser :: init_job
  ch_initEnvironment :: init_job
  ch_initChPublicJob :: init_job
  ch_CreatePublicClique :: "bool option"
  ch_MakeDefault :: bool

record spyt =
  sy_labeller :: labeller
  sy_secret :: nat
  sy_initUser :: init_job
  sy_initEnvironment :: init_job

definition set_release :: "release_status \<Rightarrow> ('x, unit) ract" where
  "set_release r = modifies (\<lambda>w. w\<lparr>k_release := r\<rparr>)"

lemma run_set_release [simp]: "run_state (set_release r) w = ((), w\<lparr>k_release := r\<rparr>)"
  by (simp add: set_release_def)

section \<open>Synchronisation\<close>

definition Chyt_Fetch :: "'e cenv_scheme \<Rightarrow> chyt \<Rightarrow> ('x, go_error) ract" where
  "Chyt_Fetch E c = resources_seq [Some (init_Fetch E (ch_initUser c)), Some (init_Fetch E (ch_initEnvironment c)),
     Some (init_Fetch E (ch_initChPublicJob c)), Some (fetch_secret E (ch_secret c))]"

definition Spyt_Fetch :: "'e cenv_scheme \<Rightarrow> spyt \<Rightarrow> ('x, go_error) ract" where
  "Spyt_Fetch E s = resources_seq [Some (init_Fetch E (sy_initUser s)), Some (init_Fetch E (sy_initEnvironment s)),
     Some (fetch_secret E (sy_secret s))]"

definition chyt_createInitScript :: "chyt \<Rightarrow> string" where
  "chyt_createInitScript c = ''/setup_cluster_for_chyt.sh'' @ (if ch_MakeDefault c then '' --make-default'' else '''')"

text \<open>The user of the release: its token, then its job; a job that is not ready ends the synchronisation, its error is passed on.\<close>

definition release_secret :: "'e cenv_scheme \<Rightarrow> labeller \<Rightarrow> nat \<Rightarrow> bool \<Rightarrow> 'x routcome \<Rightarrow> 'x routcome" where
  "release_secret E l a dry rest = do {
     s \<leftarrow> reads (\<lambda>w. k_secrets w a);
     if secret_NeedSync s TokenSecretKey '''' then do {
       err \<leftarrow> when_do (\<not> dry) (create_token E l a);
       set_release ReleaseStatusCreatingUserSecret;
       ret (ComponentStatusWaitingFor (mr_name s), err)
     } else rest
   }"

definition release_job :: "'e cenv_scheme \<Rightarrow> init_job \<Rightarrow> bool \<Rightarrow> bool \<Rightarrow> release_status \<Rightarrow> 'x routcome \<Rightarrow> 'x routcome" where
  "release_job E J strict dry r rest = do {
     (status, err) \<leftarrow> init_Sync E J dry;
     if (strict \<and> err \<noteq> None) \<or> cs_SyncStatus status \<noteq> SyncStatusReady then do {
       set_release r;
       ret (status, err)
     } else rest
   }"

definition finish_release :: "'x routcome" where
  "finish_release = do {
     set_release ReleaseStatusFinished;
     ret (ComponentStatusReady, None)
   }"

text \<open>A job that is built with an environment of its own before it is synchronised.\<close>

definition prepared_job :: "'e cenv_scheme \<Rightarrow> init_job \<Rightarrow> bool \<Rightarrow> bool \<Rightarrow> release_status \<Rightarrow> 'x routcome \<Rightarrow> 'x routcome" where
  "prepared_job E J strict dry r rest = do {
     (if dry then ret () else prepare_job J);
     release_job E J strict dry r rest
   }"

definition Chyt_clique :: "'e cenv_scheme \<Rightarrow> chyt \<Rightarrow> bool \<Rightarrow> 'x routcome" where
  "Chyt_clique E c dry = do {
     strawberry \<leftarrow> reads (\<lambda>w. sp_HasStrawberryController (yt_Spec (w_object w)));
     if strawberry \<and> ch_CreatePublicClique c = Some True
     then prepared_job E (ch_initChPublicJob c) True dry ReleaseStatusCreatingChPublicClique finish_release
     else finish_release
   }"

definition Chyt_Sync :: "'e cenv_scheme \<Rightarrow> chyt \<Rightarrow> cluster_state \<Rightarrow> bool \<Rightarrow> 'x routcome" where
  "Chyt_Sync E c state dry =
    (if state \<noteq> ClusterStateRunning then ret (ComponentStatusBlockedBy ''ytsaurus is not running'', None)
     else release_secret E (ch_labeller c) (ch_secret c) dry
       (release_job E (ch_initUser c) False dry ReleaseStatusCreatingUser
       (prepared_job E (ch_initEnvironment c) True dry ReleaseStatusUploadingIntoCypress (Chyt_clique E c dry))))"

definition Spyt_Sync :: "'e cenv_scheme \<Rightarrow> spyt \<Rightarrow> string \<Rightarrow> cluster_state \<Rightarrow> bool \<Rightarrow> 'x routcome" where
  "Spyt_Sync E s ytsaurusName state dry =
    (if state \<noteq> ClusterStateRunning then ret (ComponentStatusBlockedBy ytsaurusName, None)
     else do {
       r \<leftarrow> reads k_release;
       if r = ReleaseStatusFinished then ret (ComponentStatusReady, None)
       else release_secret E (sy_labeller s) (sy_secret s) dry
         (release_job E (sy_initUser s) False dry ReleaseStatusCreatingUser
         (prepared_job E (sy_initEnvironment s) False dry ReleaseStatusUploadingIntoCypress finish_release))
     })"

section \<open>Controllers\<close>

text \<open>\<open>UpdateStatus\<close> and \<open>SaveReleaseStatus\<close> of the proxies.\<close>

definition update_release :: "'e cenv_scheme \<Rightarrow> ('x, go_error) ract" where
  "update_release E = do {
     err \<leftarrow> State (\<lambda>w. prod.swap (UpdateStatus E w));
     modifies (\<lambda>w. if err = None then w\<lparr>k_savedReleases := k_savedReleases w @ [k_release w]\<rparr> else w);
     ret err
   }"

definition SaveReleaseStatus :: "'e cenv_scheme \<Rightarrow> release_status \<Rightarrow> ('x, go_error) ract" where
  "SaveReleaseStatus E r = do {
     set_release r;
     update_release E
   }"

text \<open>
  \<open>Sync\<close> of both controllers: \<open>ignored\<close> is \<open>ShouldIgnoreResource\<close>, \<open>fetch\<close> and \<open>sync\<close> are the methods of the component.
\<close>

definition release_Sync ::
  "'e cenv_scheme \<Rightarrow> bool \<Rightarrow> ('x, go_error) ract \<Rightarrow> (bool \<Rightarrow> 'x routcome) \<Rightarrow> ('x, ctrl_result \<times> go_error) ract" where
  "release_Sync E ignored fetch sync =
    (if ignored then ret (\<lparr>r_Requeue = False, r_RequeueAfter = 60\<rparr>, None)
     else do {
       err \<leftarrow> fetch;
       if err \<noteq> None then ret (\<lparr>r_Requeue = True, r_RequeueAfter = 0\<rparr>, err)
       else do {
         r \<leftarrow> reads k_release;
         if r = ReleaseStatusFinished then ret (empty_result, None)
         else do {
           (status, err1) \<leftarrow> sync True;
           if err1 \<noteq> None \<or> cs_SyncStatus status = SyncStatusBlocked then ret (\<lparr>r_Requeue = False, r_RequeueAfter = 10\<rparr>, err1)
           else if cs_SyncStatus status = SyncStatusReady then do {
             err2 \<leftarrow> SaveReleaseStatus E ReleaseStatusFinished;
             ret (\<lparr>r_Requeue = True, r_RequeueAfter = 0\<rparr>, err2)
           }
           else do {
             (_, err2) \<leftarrow> sync False;
             if err2 \<noteq> None then ret (\<lparr>r_Requeue = True, r_RequeueAfter = 0\<rparr>, err2)
             else do {
               err3 \<leftarrow> update_release E;
               ret (\<lparr>r_Requeue = True, r_RequeueAfter = 0\<rparr>, err3)
             }
           }
         }
       }
     })"

definition ChytReconciler_Sync :: "'e cenv_scheme \<Rightarrow> bool \<Rightarrow> chyt \<Rightarrow> cluster_state \<Rightarrow> ('x, ctrl_result \<times> go_error) ract" where
  "ChytReconciler_Sync E ignored c state = release_Sync E ignored (Chyt_Fetch E c) (Chyt_Sync E c state)"

definition SpytReconciler_Sync :: "'e cenv_scheme \<Rightarrow> bool \<Rightarrow> spyt \<Rightarrow> string \<Rightarrow> cluster_state \<Rightarrow> ('x, ctrl_result \<times> go_error) ract" where
  "SpytReconciler_Sync E ignored s ytsaurusName state = release_Sync E ignored (Spyt_Fetch E s) (Spyt_Sync E s ytsaurusName state)"

text \<open>
  \<open>Reconcile\<close>: \<open>found\<close> and \<open>cluster\<close> are what the client answers for the object and for its cluster; an object that is gone
  is not an error.
\<close>

definition ChytReconciler_Reconcile ::
  "'e cenv_scheme \<Rightarrow> bool \<Rightarrow> chyt + client_error \<Rightarrow> cluster_state + client_error \<Rightarrow> ('x, ctrl_result \<times> go_error) ract" where
  "ChytReconciler_Reconcile E ignored found cluster =
    (case found of
       Inr NotFoundError \<Rightarrow> ret (empty_result, None)
     | Inr err \<Rightarrow> ret (empty_result, go_error_of (Some err))
     | Inl c \<Rightarrow>
         (case cluster of
            Inr err \<Rightarrow> ret (\<lparr>r_Requeue = False, r_RequeueAfter = 10\<rparr>, go_error_of (Some err))
          | Inl state \<Rightarrow> ChytReconciler_Sync E ignored c state))"

definition SpytReconciler_Reconcile ::
  "'e cenv_scheme \<Rightarrow> bool \<Rightarrow> spyt + client_error \<Rightarrow> (string \<times> cluster_state) + client_error \<Rightarrow> ('x, ctrl_result \<times> go_error) ract" where
  "SpytReconciler_Reconcile E ignored found cluster =
    (case found of
       Inr NotFoundError \<Rightarrow> ret (empty_result, None)
     | Inr err \<Rightarrow> ret (empty_result, go_error_of (Some err))
     | Inl s \<Rightarrow>
         (case cluster of
            Inr err \<Rightarrow> ret (\<lparr>r_Requeue = False, r_RequeueAfter = 10\<rparr>, go_error_of (Some err))
          | Inl (ytsaurusName, state) \<Rightarrow> SpytReconciler_Sync E ignored s ytsaurusName state))"

section \<open>What a finished release means\<close>

definition chyt_released :: "'e cenv_scheme \<Rightarrow> chyt \<Rightarrow> 'x jobs_scheme \<Rightarrow> bool" where
  "chyt_released E c w \<longleftrightarrow> init_IsCompleted E (ch_initUser c) w \<and> init_IsCompleted E (ch_initEnvironment c) w \<and>
    (sp_HasStrawberryController (yt_Spec (w_object w)) \<and> ch_CreatePublicClique c = Some True \<longrightarrow> init_IsCompleted E (ch_initChPublicJob c) w)"

definition spyt_released :: "'e cenv_scheme \<Rightarrow> spyt \<Rightarrow> 'x jobs_scheme \<Rightarrow> bool" where
  "spyt_released E s w \<longleftrightarrow> init_IsCompleted E (sy_initUser s) w \<and> init_IsCompleted E (sy_initEnvironment s) w"

text \<open>A synchronisation that ends as finished.\<close>

abbreviation ends_finished :: "component_status \<Rightarrow> 'x releases_scheme \<Rightarrow> bool" where
  "ends_finished st w \<equiv> IsReady st \<or> k_release w = ReleaseStatusFinished"

lemma init_Sync_ready_err:
  assumes "run_state (init_Sync E J dry) w = ((st, err), w')" "IsReady st"
  shows "err = None"
proof -
  have start: "\<not> IsReady st" if "run_state (init_start E J dry b c) w = ((st, err), w')" for b c
    using init_start_not_ready [of E J dry b c] that unfolding answers_not_ready_def by (metis fst_conv)
  then show ?thesis
    using assms
    by (auto simp: init_Sync_def Let_def waiting_job_def ComponentStatusWaitingFor_def IsReady_def split: if_splits option.splits)
qed

lemma release_job_finished:
  assumes "run_state (release_job E J strict dry r rest) w = ((st, err), w')" "ends_finished st w'" "r \<noteq> ReleaseStatusFinished"
  shows "(meta_laws E \<longrightarrow> init_IsCompleted E J w) \<and> run_state rest w = ((st, err), w')"
proof -
  obtain st1 err1 w1 where i: "run_state (init_Sync E J dry) w = ((st1, err1), w1)" by (metis surj_pair)
  show ?thesis
  proof (cases "IsReady st1")
    case True
    with init_Sync_ready [OF i] init_Sync_ready_state [OF i] init_Sync_ready_err [OF i] have
      "w1 = w" "err1 = None" "meta_laws E \<longrightarrow> init_IsCompleted E J w"
      by (auto simp: init_IsCompleted_def IsStatusConditionTrue_def GetStatusCondition_def meta_laws_simps)
    then show ?thesis using assms(1) i True by (auto simp: release_job_def IsReady_def)
  next
    case False
    then show ?thesis using assms i by (auto simp: release_job_def IsReady_def)
  qed
qed

lemma release_secret_finished:
  assumes "run_state (release_secret E l a dry rest) w = ((st, err), w')" "ends_finished st w'"
  shows "run_state rest w = ((st, err), w')"
  using assms by (auto simp: release_secret_def ComponentStatusWaitingFor_def IsReady_def case_prod_beta split: if_splits)

lemma steady_completed: "steady w w' \<Longrightarrow> init_IsCompleted E J w' = init_IsCompleted E J w"
  by (simp add: steady_simps)

lemma prepared_job_finished:
  assumes "run_state (prepared_job E J strict dry r rest) w = ((st, err), w')" "ends_finished st w'" "r \<noteq> ReleaseStatusFinished"
  obtains w1 where "steady w w1" "meta_laws E \<longrightarrow> init_IsCompleted E J w" "run_state rest w1 = ((st, err), w')"
proof -
  obtain w1 where w1: "steady w w1" "run_state (release_job E J strict dry r rest) w1 = ((st, err), w')"
  proof (cases dry)
    case True
    then show ?thesis using that [of w] assms(1) preordD(1) [OF preord_steady, of w] by (simp add: prepared_job_def)
  next
    case False
    obtain u w1 where p: "run_state (prepare_job J) w = (u, w1)" by (cases "run_state (prepare_job J) w")
    show ?thesis using that [OF keptD_eq [OF steady_prepare_job p]] assms(1) p False by (simp add: prepared_job_def)
  qed
  from release_job_finished [OF w1(2) assms(2,3)] steady_completed [OF w1(1)] w1(1) that show ?thesis by metis
qed

lemma finish_release_steady:
  assumes "run_state finish_release w = ((st, err), w')" shows "steady w w' \<and> IsReady st"
  using assms by (auto simp: finish_release_def steady_def ComponentStatusReady_def IsReady_def ComponentStatusSprintf_def)

lemma Chyt_Sync_finished:
  assumes "run_state (Chyt_Sync E c state dry) w = ((st, err), w')" "ends_finished st w'" "k_release w \<noteq> ReleaseStatusFinished"
  shows "state = ClusterStateRunning \<and> (meta_laws E \<longrightarrow> chyt_released E c w') \<and> IsReady st"
proof -
  have run: "state = ClusterStateRunning"
    using assms by (auto simp: Chyt_Sync_def ComponentStatusBlockedBy_def ComponentStatusBlocked_def ComponentStatusSprintf_def IsReady_def split: if_splits)
  then have "run_state (release_secret E (ch_labeller c) (ch_secret c) dry (release_job E (ch_initUser c) False dry ReleaseStatusCreatingUser
      (prepared_job E (ch_initEnvironment c) True dry ReleaseStatusUploadingIntoCypress (Chyt_clique E c dry)))) w = ((st, err), w')"
    using assms(1) by (simp add: Chyt_Sync_def)
  from release_job_finished [OF release_secret_finished [OF this assms(2)] assms(2)]
  have user: "meta_laws E \<longrightarrow> init_IsCompleted E (ch_initUser c) w"
    and r1: "run_state (prepared_job E (ch_initEnvironment c) True dry ReleaseStatusUploadingIntoCypress (Chyt_clique E c dry)) w = ((st, err), w')"
    by simp_all
  from prepared_job_finished [OF r1 assms(2)] obtain w1 where w1: "steady w w1" "meta_laws E \<longrightarrow> init_IsCompleted E (ch_initEnvironment c) w"
    and r2: "run_state (Chyt_clique E c dry) w1 = ((st, err), w')" by auto
  show ?thesis
  proof (cases "sp_HasStrawberryController (yt_Spec (w_object w1)) \<and> ch_CreatePublicClique c = Some True")
    case True
    then have "run_state (prepared_job E (ch_initChPublicJob c) True dry ReleaseStatusCreatingChPublicClique finish_release) w1 = ((st, err), w')"
      using r2 by (simp add: Chyt_clique_def)
    from prepared_job_finished [OF this assms(2)] obtain w2 where w2: "steady w1 w2" "meta_laws E \<longrightarrow> init_IsCompleted E (ch_initChPublicJob c) w1"
        "run_state finish_release w2 = ((st, err), w')" by auto
    note t = preordD(2) [OF preord_steady]
    have "steady w1 w'" "steady w w'" using t [OF w2(1) conjunct1 [OF finish_release_steady [OF w2(3)]]] t [OF w1(1)] by blast+
    then show ?thesis using run user w1(2) w2(2) steady_completed [OF w1(1), of E] finish_release_steady [OF w2(3)] by (simp add: chyt_released_def steady_completed)
  next
    case False
    then have "run_state finish_release w1 = ((st, err), w')" using r2 by (auto simp: Chyt_clique_def)
    note s = conjunct1 [OF finish_release_steady [OF this]] and f = conjunct2 [OF finish_release_steady [OF this]]
    have "steady w w'" using preordD(2) [OF preord_steady w1(1) s] .
    moreover have "w_object w' = w_object w1" using s by (simp add: steady_def)
    ultimately show ?thesis using run user w1(2) False f by (auto simp: chyt_released_def steady_completed)
  qed
qed

lemma Spyt_Sync_finished:
  assumes "run_state (Spyt_Sync E s name0 state dry) w = ((st, err), w')" "ends_finished st w'" "k_release w \<noteq> ReleaseStatusFinished"
  shows "state = ClusterStateRunning \<and> (meta_laws E \<longrightarrow> spyt_released E s w') \<and> IsReady st"
proof -
  have run: "state = ClusterStateRunning"
    using assms by (auto simp: Spyt_Sync_def ComponentStatusBlockedBy_def ComponentStatusBlocked_def ComponentStatusSprintf_def IsReady_def split: if_splits)
  then have "run_state (release_secret E (sy_labeller s) (sy_secret s) dry (release_job E (sy_initUser s) False dry ReleaseStatusCreatingUser
      (prepared_job E (sy_initEnvironment s) False dry ReleaseStatusUploadingIntoCypress finish_release))) w = ((st, err), w')"
    using assms(1,3) by (simp add: Spyt_Sync_def)
  from release_job_finished [OF release_secret_finished [OF this assms(2)] assms(2)]
  have user: "meta_laws E \<longrightarrow> init_IsCompleted E (sy_initUser s) w"
    and r1: "run_state (prepared_job E (sy_initEnvironment s) False dry ReleaseStatusUploadingIntoCypress finish_release) w = ((st, err), w')"
    by simp_all
  from prepared_job_finished [OF r1 assms(2)] obtain w1 where w1: "steady w w1" "meta_laws E \<longrightarrow> init_IsCompleted E (sy_initEnvironment s) w"
    and r2: "run_state finish_release w1 = ((st, err), w')" by auto
  have "steady w w'" using preordD(2) [OF preord_steady w1(1) conjunct1 [OF finish_release_steady [OF r2]]] .
  then show ?thesis using run user w1(2) finish_release_steady [OF r2] by (simp add: spyt_released_def steady_completed)
qed

section \<open>Contract of a release\<close>

definition same_saved :: "'x releases_scheme \<Rightarrow> 'x releases_scheme \<Rightarrow> bool" where
  "same_saved w w' \<longleftrightarrow> k_savedReleases w' = k_savedReleases w"

lemma preord_same_saved [kept_intros]: "preord same_saved"
  by (auto simp: preord_def reflp_def transp_def same_saved_def)

text \<open>
  What the controller of a release relies on: fetching and synchronising never save, a synchronisation that ends as finished is
  ready and has done what the release has to do, and saving does not undo it.
\<close>

locale release =
  fixes E :: "'e cenv_scheme" and fetch :: "('x, go_error) ract" and sync :: "bool \<Rightarrow> 'x routcome" and released :: "'x releases_scheme \<Rightarrow> bool"
  assumes fetch_saved: "kept same_saved fetch"
    and sync_saved: "kept same_saved (sync dry)"
    and sync_finished: "run_state (sync dry) w = ((st, err), w') \<Longrightarrow> ends_finished st w' \<Longrightarrow> k_release w \<noteq> ReleaseStatusFinished \<Longrightarrow>
      released w' \<and> IsReady st"
    and released_update: "released w \<Longrightarrow> released (snd (run_state (update_release E) w))"
    and released_status: "released w \<Longrightarrow> released (w\<lparr>k_release := r\<rparr>)"
begin

lemma saved_finished:
  assumes "run_state (release_Sync E ignored fetch sync) w = (r, w')"
    and "ReleaseStatusFinished \<in> set (drop (length (k_savedReleases w)) (k_savedReleases w'))"
  shows "released w'"
proof -
  have ign: "\<not> ignored" using assms by (auto simp: release_Sync_def)
  obtain err w1 where f: "run_state fetch w = (err, w1)" by fastforce
  have s1: "k_savedReleases w1 = k_savedReleases w" using keptD_eq [OF fetch_saved f] by (simp add: same_saved_def)
  have e: "err = None" using assms ign f s1 by (auto simp: release_Sync_def split: if_splits)
  have k1: "k_release w1 \<noteq> ReleaseStatusFinished" using assms ign f s1 e by (auto simp: release_Sync_def split: if_splits)
  obtain st err1 w2 where d: "run_state (sync True) w1 = ((st, err1), w2)" by (metis surj_pair)
  have s2: "k_savedReleases w2 = k_savedReleases w" using keptD_eq [OF sync_saved d] s1 by (simp add: same_saved_def)
  have e1: "\<not> (err1 \<noteq> None \<or> cs_SyncStatus st = SyncStatusBlocked)"
    using assms ign f s2 e k1 d by (auto simp: release_Sync_def split: if_splits)
  show ?thesis
  proof (cases "IsReady st")
    case True
    then have "w' = snd (run_state (update_release E) (w2\<lparr>k_release := ReleaseStatusFinished\<rparr>))"
      using assms(1) ign f e k1 d e1 by (auto simp: release_Sync_def SaveReleaseStatus_def IsReady_def case_prod_beta)
    then show ?thesis using sync_finished [OF d _ k1] True released_update released_status by simp
  next
    case False
    then have k2: "k_release w2 \<noteq> ReleaseStatusFinished" using sync_finished [OF d _ k1] by blast
    obtain st2 err2 w3 where n: "run_state (sync False) w2 = ((st2, err2), w3)" by (metis surj_pair)
    have s3: "k_savedReleases w3 = k_savedReleases w" using keptD_eq [OF sync_saved n] s2 by (simp add: same_saved_def)
    have e2: "err2 = None" using assms ign f s3 e k1 d e1 False n by (auto simp: release_Sync_def IsReady_def split: if_splits)
    have w': "w' = snd (run_state (update_release E) w3)"
      using assms(1) ign f e k1 d e1 False n e2 by (auto simp: release_Sync_def IsReady_def case_prod_beta)
    have frame: "k_savedReleases (fst (UpdateStatus E w3)) = k_savedReleases w3" "k_release (fst (UpdateStatus E w3)) = k_release w3"
      by (simp_all add: UpdateStatus_def updateOperatorVersion_def Let_def case_prod_beta)
    have "k_release w3 = ReleaseStatusFinished"
      using assms(2) w' s3 frame by (auto simp: update_release_def case_prod_beta split: if_splits)
    with sync_finished [OF n _ k2] show ?thesis using released_update w' by simp
  qed
qed

end

section \<open>The releases keep it\<close>

interpretation rs: job_bookkeeping same_saved
  by unfold_locales (simp_all add: preord_same_saved, simp_all add: same_saved_def RecordNormal_def RecordWarning_def)

lemma saved_condition: "kept same_saved (set_status_condition E t s r m :: ('x, unit) ract)"
  by (rule keptI) (simp add: same_saved_def set_status_condition_def SetStatusCondition_def Let_def map_status_def)

lemma saved_Fetch: "kept same_saved (Chyt_Fetch E c)" "kept same_saved (Spyt_Fetch E s)"
  unfolding Chyt_Fetch_def Spyt_Fetch_def
  by (rule kept_resources_seq [OF preord_same_saved], force intro: rs.kept_init_Fetch rs.kept_fetch_secret)+

lemma saved_parts:
  "kept same_saved rest \<Longrightarrow> kept same_saved (release_secret E l a dry rest)"
  "kept same_saved rest \<Longrightarrow> kept same_saved (release_job E J strict dry r rest)"
  "kept same_saved rest \<Longrightarrow> kept same_saved (prepared_job E J strict dry r rest)"
  "kept same_saved finish_release"
proof -
  have set: "kept same_saved (set_release r)" for r
    unfolding set_release_def by (rule kept_modifies) (simp add: same_saved_def)
  have token: "kept same_saved (create_token E l a)" for E :: "'e cenv_scheme" and l a
    unfolding create_token_def Let_def by (intro kept_intros rs.kept_managed_Sync kept_modifies) (simp add: same_saved_def)
  have prepare: "kept same_saved (prepare_job J)" for J
    unfolding prepare_job_def by (intro kept_intros rs.kept_job_access)
  show "kept same_saved rest \<Longrightarrow> kept same_saved (release_secret E l a dry rest)"
    unfolding release_secret_def by (intro kept_intros set token) simp_all
  show job: "kept same_saved rest \<Longrightarrow> kept same_saved (release_job E J strict dry r rest)" for rest
    unfolding release_job_def by (intro kept_intros set rs.kept_init_Sync saved_condition)
  show "kept same_saved rest \<Longrightarrow> kept same_saved (prepared_job E J strict dry r rest)"
    unfolding prepared_job_def by (intro kept_intros job prepare)
  show "kept same_saved finish_release" unfolding finish_release_def by (intro kept_intros set)
qed

lemma saved_Sync: "kept same_saved (Chyt_Sync E c state dry)" "kept same_saved (Spyt_Sync E s name0 state dry)"
  unfolding Chyt_Sync_def Spyt_Sync_def Chyt_clique_def by (intro kept_intros saved_parts)+

text \<open>Saving changes no condition but the version of the operator.\<close>

lemma completed_update:
  assumes "meta_laws E" "ij_statusCondition J \<noteq> ConditionOperatorVersion"
  shows "init_IsCompleted E J (snd (run_state (update_release E) w)) = init_IsCompleted E J w"
proof -
  let ?v = "fst (updateOperatorVersion E w)"
  have "m_IsTrue E (GetStatusConditions (w_object ?v)) (ij_statusCondition J) = m_IsTrue E (GetStatusConditions (w_object w)) (ij_statusCondition J)"
    using assms(2)
    by (simp add: updateOperatorVersion_def meta_laws_simps [OF assms(1)] meta_set_find_other [OF assms(1)] Let_def cond_find_filter
        mkcond_def case_prod_beta split: option.split)
  moreover have "w_object (snd (run_state (update_release E) w)) = w_object ?v" "k_jobs (snd (run_state (update_release E) w)) = k_jobs ?v"
    by (simp_all add: update_release_def UpdateStatus_def Let_def case_prod_beta)
  moreover have "k_jobs ?v = k_jobs w" by (simp add: updateOperatorVersion_def Let_def case_prod_beta)
  ultimately show ?thesis by (simp add: init_IsCompleted_def IsStatusConditionTrue_def)
qed

text \<open>The jobs as \<open>NewChyt\<close> and \<open>NewSpyt\<close> create them, each with a condition of its own.\<close>

definition chyt_ok :: "chyt \<Rightarrow> bool" where
  "chyt_ok c \<longleftrightarrow> ij_statusCondition (ch_initUser c) = GetInitJobCompletedCondition (ch_labeller c) ''user'' \<and>
    ij_statusCondition (ch_initEnvironment c) = GetInitJobCompletedCondition (ch_labeller c) ''release'' \<and>
    ij_statusCondition (ch_initChPublicJob c) = GetInitJobCompletedCondition (ch_labeller c) ''ch-public''"

definition spyt_ok :: "spyt \<Rightarrow> bool" where
  "spyt_ok s \<longleftrightarrow> ij_statusCondition (sy_initUser s) = GetInitJobCompletedCondition (sy_labeller s) ''user'' \<and>
    ij_statusCondition (sy_initEnvironment s) = GetInitJobCompletedCondition (sy_labeller s) ''spyt-environment''"

lemma job_condition_name: "GetInitJobCompletedCondition l n \<noteq> ConditionOperatorVersion"
proof
  assume "GetInitJobCompletedCondition l n = ConditionOperatorVersion"
  then have "hd (rev (GetInitJobCompletedCondition l n)) = hd (rev ConditionOperatorVersion)" by simp
  then show False by (simp add: GetInitJobCompletedCondition_def GetCondition_def)
qed

lemma spec_update: "yt_Spec (w_object (snd (run_state (update_release E) w))) = yt_Spec (w_object w)"
  by (simp add: update_release_def case_prod_beta)

lemma completed_release [simp]: "init_IsCompleted E J (w\<lparr>k_release := r\<rparr>) = init_IsCompleted E J w"
  by (simp add: init_IsCompleted_def IsStatusConditionTrue_def)

interpretation ch: release E "Chyt_Fetch E c" "Chyt_Sync E c state" "\<lambda>w. meta_laws E \<and> chyt_ok c \<longrightarrow> state = ClusterStateRunning \<and> chyt_released E c w"
  for E :: "'e cenv_scheme" and c state
proof
  show "(meta_laws E \<and> chyt_ok c \<longrightarrow> state = ClusterStateRunning \<and> chyt_released E c w') \<and> IsReady st"
    if "run_state (Chyt_Sync E c state dry) w = ((st, err), w')" "ends_finished st w'" "k_release w \<noteq> ReleaseStatusFinished"
    for dry w st err and w' :: "'x releases_scheme"
    using Chyt_Sync_finished [OF that] by simp
qed (auto simp: saved_Fetch saved_Sync chyt_released_def chyt_ok_def job_condition_name completed_update spec_update)

interpretation sy: release E "Spyt_Fetch E s" "Spyt_Sync E s name0 state" "\<lambda>w. meta_laws E \<and> spyt_ok s \<longrightarrow> state = ClusterStateRunning \<and> spyt_released E s w"
  for E :: "'e cenv_scheme" and s name0 state
proof
  show "(meta_laws E \<and> spyt_ok s \<longrightarrow> state = ClusterStateRunning \<and> spyt_released E s w') \<and> IsReady st"
    if "run_state (Spyt_Sync E s name0 state dry) w = ((st, err), w')" "ends_finished st w'" "k_release w \<noteq> ReleaseStatusFinished"
    for dry w st err and w' :: "'x releases_scheme"
    using Spyt_Sync_finished [OF that] by simp
qed (auto simp: saved_Fetch saved_Sync spyt_released_def spyt_ok_def job_condition_name completed_update)

section \<open>Finished releases\<close>

text \<open>
  (C38) The controllers of CHYT and SPYT save the release status Finished only while the cluster is running and when every job of
  the release has completed: the user, the upload and, if a public clique is asked for in a cluster with Strawberry, the clique.
\<close>

theorem finished_releases_are_done:
  assumes "meta_laws E" "chyt_ok c" "spyt_ok s"
    and "run_state (ChytReconciler_Sync E ignored c state) w = (r, w1)"
    and "run_state (SpytReconciler_Sync E ignored s ytsaurusName state) w = (r', w2)"
  shows "(ReleaseStatusFinished \<in> set (drop (length (k_savedReleases w)) (k_savedReleases w1)) \<longrightarrow>
      state = ClusterStateRunning \<and> chyt_released E c w1) \<and>
    (ReleaseStatusFinished \<in> set (drop (length (k_savedReleases w)) (k_savedReleases w2)) \<longrightarrow>
      state = ClusterStateRunning \<and> spyt_released E s w2)"
  using ch.saved_finished [OF assms(4) [unfolded ChytReconciler_Sync_def]] sy.saved_finished [OF assms(5) [unfolded SpytReconciler_Sync_def]]
    assms(1-3) by blast

section \<open>Witness\<close>

definition release_init :: "nat \<Rightarrow> labeller \<Rightarrow> string \<Rightarrow> init_job" where
  "release_init a l condition = \<lparr>ij_id = a, ij_labeller = l, ij_instanceSpec = sample_instance 1, ij_statusCondition = condition,
     ij_logFilePath = []\<rparr>"

definition sample_chyt :: chyt where
  "sample_chyt = (let l = ForComponent ChytType ''c'' zero_labeller in
     \<lparr>ch_labeller = l, ch_secret = 0, ch_initUser = release_init 0 l ''userCHYT-cInitJobCompleted'',
      ch_initEnvironment = release_init 1 l ''releaseCHYT-cInitJobCompleted'',
      ch_initChPublicJob = release_init 2 l ''ch-publicCHYT-cInitJobCompleted'', ch_CreatePublicClique = None, ch_MakeDefault = True\<rparr>)"

definition sample_spyt :: spyt where
  "sample_spyt = (let l = ForComponent SpytType ''s'' zero_labeller in
     \<lparr>sy_labeller = l, sy_secret = 0, sy_initUser = release_init 0 l ''userSPYT-sInitJobCompleted'',
      sy_initEnvironment = release_init 1 l ''spyt-environmentSPYT-sInitJobCompleted''\<rparr>)"

text \<open>A cluster in which every job has completed and the token exists.\<close>

definition release_api :: kube_api where
  "release_api = (sample_api None [])
     \<lparr>ka_job := sample_client (Some ((object_meta zero_labeller ''job'' ''*v1.Job'' zero_job)\<lparr>o_ResourceVersion := ''1''\<rparr>)),
      ka_cm := sample_client (Some ((object_meta zero_labeller ''config'' ''*v1.ConfigMap'' Map.empty)\<lparr>o_ResourceVersion := ''1''\<rparr>)),
      ka_secret := sample_client (Some ((object_meta zero_labeller ''token'' ''*v1.Secret''
        \<lparr>sec_Data = [TokenSecretKey \<mapsto> ''t''], sec_StringData = Map.empty\<rparr>)\<lparr>o_ResourceVersion := ''1''\<rparr>))\<rparr>"

definition release_world :: releases where
  "release_world = jobs.extend (agent_world ClusterStateRunning empty_update_status
     (map (\<lambda>t. mkcond t ConditionTrue InitJobDefaultReason [])
       [''userCHYT-cInitJobCompleted'', ''releaseCHYT-cInitJobCompleted'', ''userSPYT-sInitJobCompleted'', ''spyt-environmentSPYT-sInitJobCompleted'']))
     \<lparr>k_release = ReleaseStatusUndefined, k_savedReleases = []\<rparr>"

definition found_job :: "init_job_state \<Rightarrow> init_job_state" where
  "found_job j = j\<lparr>ij_job := (ij_job j)\<lparr>mr_old := (object_meta zero_labeller ''job'' ''*v1.Job'' zero_job)\<lparr>o_ResourceVersion := ''1''\<rparr>\<rparr>,
     ij_configs := (ij_configs j)\<lparr>cb_configMap := (cb_configMap (ij_configs j))
       \<lparr>mr_old := (object_meta zero_labeller ''config'' ''*v1.ConfigMap'' Map.empty)\<lparr>o_ResourceVersion := ''1''\<rparr>\<rparr>\<rparr>\<rparr>"

lemma found_job [simp]:
  "cb_configOverrides (ij_configs (found_job j)) = cb_configOverrides (ij_configs j)" "ij_reason (found_job j) = ij_reason j"
  "init_Exists (found_job j)"
  by (simp_all add: found_job_def init_Exists_def resources_Exists_def managed_Exists_def builder_Exists_def object_meta_def)

lemma sample_fetches:
  "cb_configOverrides (ij_configs (k_jobs w (ij_id J))) = None \<Longrightarrow>
   run_state (init_Fetch (sample_cenv release_api) J) w =
     (None, w\<lparr>k_calls := k_calls w + 2, k_jobs := (k_jobs w)(ij_id J := found_job (k_jobs w (ij_id J)))\<rparr>)"
  by (simp add: init_Fetch_def builder_Fetch_def managed_Fetch_def api_call_def release_api_def sample_client_def FetchObject_def found_job_def
     sample_cenv_def sample_kenv_def kenv.defs env.defs go_error_of_def)

lemma sample_fetch_secret:
  "run_state (fetch_secret (sample_cenv release_api) a) w = (None, w\<lparr>k_calls := Suc (k_calls w), k_secrets := (k_secrets w)(a := (k_secrets w a)
     \<lparr>mr_old := (object_meta zero_labeller ''token'' ''*v1.Secret'' \<lparr>sec_Data = [TokenSecretKey \<mapsto> ''t''], sec_StringData = Map.empty\<rparr>)
       \<lparr>o_ResourceVersion := ''1''\<rparr>\<rparr>)\<rparr>)"
  by (simp add: fetch_secret_def managed_Fetch_def api_call_def release_api_def sample_client_def FetchObject_def
     sample_cenv_def sample_kenv_def kenv.defs env.defs go_error_of_def)

text \<open>A completed job and a token that is there let the synchronisation go on.\<close>

lemma completed_release_job:
  assumes "init_Exists (k_jobs w (ij_id J))" "GetStatusCondition E (ij_statusCondition J) w = Some c"
    and "c_Reason c = ij_reason (k_jobs w (ij_id J))" "c_Status c = ConditionTrue"
  shows "run_state (release_job E J strict dry r rest) w = run_state rest w"
  using assms by (simp add: release_job_def init_Sync_def ComponentStatusReadyAfter_def Let_def)

lemma present_token:
  assumes "managed_Exists (k_secrets w a)" "sec_Data (o_Content (mr_old (k_secrets w a))) TokenSecretKey = Some t"
  shows "run_state (release_secret E l a dry rest) w = run_state rest w"
  using assms by (simp add: release_secret_def secret_NeedSync_def secret_GetValue_def)

lemma sample_release_world:
  "cb_configOverrides (ij_configs (k_jobs release_world a)) = None" "ij_reason (k_jobs release_world a) = InitJobDefaultReason"
  "k_savedReleases release_world = []" "k_release release_world = ReleaseStatusUndefined"
  by code_simp+

lemma sample_release_conditions:
  "GetStatusCondition (sample_cenv release_api) (ij_statusCondition (ch_initUser sample_chyt)) release_world =
     Some (mkcond (ij_statusCondition (ch_initUser sample_chyt)) ConditionTrue InitJobDefaultReason [])"
  "GetStatusCondition (sample_cenv release_api) (ij_statusCondition (ch_initEnvironment sample_chyt)) release_world =
     Some (mkcond (ij_statusCondition (ch_initEnvironment sample_chyt)) ConditionTrue InitJobDefaultReason [])"
  "GetStatusCondition (sample_cenv release_api) (ij_statusCondition (sy_initUser sample_spyt)) release_world =
     Some (mkcond (ij_statusCondition (sy_initUser sample_spyt)) ConditionTrue InitJobDefaultReason [])"
  "GetStatusCondition (sample_cenv release_api) (ij_statusCondition (sy_initEnvironment sample_spyt)) release_world =
     Some (mkcond (ij_statusCondition (sy_initEnvironment sample_spyt)) ConditionTrue InitJobDefaultReason [])"
  by code_simp+

lemma sample_release_jobs:
  "ij_id (ch_initUser sample_chyt) = 0" "ij_id (ch_initEnvironment sample_chyt) = 1" "ij_id (ch_initChPublicJob sample_chyt) = 2"
  "ij_id (sy_initUser sample_spyt) = 0" "ij_id (sy_initEnvironment sample_spyt) = 1" "ch_CreatePublicClique sample_chyt = None"
  by (simp_all add: sample_chyt_def sample_spyt_def release_init_def Let_def)

lemma sample_update_release:
  "k_savedReleases (snd (run_state (update_release (sample_cenv release_api)) w)) = k_savedReleases w @ [k_release w]"
proof -
  have "e_StatusUpdate (sample_cenv release_api) = (\<lambda>_. None)"
    by (simp add: sample_cenv_def sample_kenv_def kenv.defs env.defs sample_env_def meta_api.defs)
  then show ?thesis by (simp add: update_release_def UpdateStatus_def updateOperatorVersion_def Let_def case_prod_beta)
qed

lemmas sample_release_run = release_Sync_def resources_seq.simps sample_fetches sample_fetch_secret sample_release_world
  sample_release_conditions [unfolded GetStatusCondition_def] sample_release_jobs completed_release_job present_token GetStatusCondition_def
  finish_release_def mkcond_def managed_Exists_def object_meta_def SaveReleaseStatus_def sample_update_release
  ComponentStatusReady_def ComponentStatusSprintf_def prepared_job_def

lemma sample_chyt_run:
  "k_savedReleases (snd (run_state (ChytReconciler_Sync (sample_cenv release_api) False sample_chyt ClusterStateRunning) release_world)) =
     [ReleaseStatusFinished]"
  by (simp add: ChytReconciler_Sync_def Chyt_Fetch_def Chyt_Sync_def Chyt_clique_def sample_release_run case_prod_beta)

lemma sample_spyt_run:
  "k_savedReleases (snd (run_state (SpytReconciler_Sync (sample_cenv release_api) False sample_spyt ''yt'' ClusterStateRunning) release_world)) =
     [ReleaseStatusFinished]"
  by (simp add: SpytReconciler_Sync_def Spyt_Fetch_def Spyt_Sync_def sample_release_run case_prod_beta)

theorem finished_releases_are_done_witness:
  "chyt_released (sample_cenv release_api) sample_chyt
     (snd (run_state (ChytReconciler_Sync (sample_cenv release_api) False sample_chyt ClusterStateRunning) release_world)) \<and>
   spyt_released (sample_cenv release_api) sample_spyt
     (snd (run_state (SpytReconciler_Sync (sample_cenv release_api) False sample_spyt ''yt'' ClusterStateRunning) release_world))"
proof -
  have ok: "chyt_ok sample_chyt" "spyt_ok sample_spyt" by code_simp+
  from finished_releases_are_done [where w = release_world and ignored = False and state = ClusterStateRunning and ytsaurusName = "''yt''",
      OF meta_laws_sample_cenv [of release_api] ok prod.collapse [symmetric] prod.collapse [symmetric]]
  show ?thesis unfolding sample_release_world(3) sample_chyt_run sample_spyt_run by simp
qed

end
