(* ===== verification/Remote_Nodes.thy ===== *)
theory Remote_Nodes
  imports Server_Contracts Component_Manager
begin

text \<open>
  Node groups that belong to another cluster: remote data, tablet and exec nodes (\<open>pkg/components/data_node_remote.go\<close>,
  \<open>tablet_node_remote.go\<close>, \<open>exec_node_remote.go\<close>) and offshore data gateways (\<open>offshore_data_gateway.go\<close>), with their
  controllers (\<open>controllers/remotedatanodes_sync.go\<close>, \<open>remotedatanodes_controller.go\<close> and their siblings).  They run the server of a
  component without a Ytsaurus object behind it, and there is no update flow: whatever has changed is applied at once.

  The object of the world is the resource of the node group with its common specification, generation and conditions;
  \<open>k_remoteStatus\<close> is its release status, \<open>k_savedRemotes\<close> the history of what was saved, with the observed generation.
\<close>

section \<open>State\<close>

datatype remote_release_status =
    RemoteNodeReleaseStatusUndefined
  | RemoteNodeReleaseStatusPending
  | RemoteNodeReleaseStatusRunning

record remotes = cluster +
  k_remoteStatus :: remote_release_status
  k_savedRemotes :: "(remote_release_status \<times> int) list"

type_synonym ('x, 'a) nact = "('x remotes_scheme, 'a) state"
type_synonym 'x noutcome = "('x, component_status \<times> go_error) nact"

section \<open>Components\<close>

text \<open>Without a Ytsaurus object \<open>IsUpdatingResources\<close> is true.\<close>

definition remote_NeedSync :: "'e kenv_scheme \<Rightarrow> ('x, 'z) server_component_scheme \<Rightarrow> ('x, bool) cact" where
  "remote_NeedSync E c = impl_needSync E (sc_id c) True"

definition remoteExec_NeedSync :: "'e kenv_scheme \<Rightarrow> ('x, 'z) server_component_scheme \<Rightarrow> ('x, bool) cact" where
  "remoteExec_NeedSync E n = do {
     need \<leftarrow> impl_needSync E (sc_id n) True;
     if need then ret True else sidecarConfigNeedsReload E (sc_id n)
   }"

definition RemoteDataNode_Sync :: "'e cenv_scheme \<Rightarrow> ('x, 'z) server_component_scheme \<Rightarrow> bool \<Rightarrow> 'x outcome" where
  "RemoteDataNode_Sync E n dry =
     sync_server (remote_NeedSync E n) dry (impl_Sync E (sc_id n)) (serverComponent_ArePodsReady E n)"

definition RemoteTabletNode_Sync :: "'e cenv_scheme \<Rightarrow> ('x, 'z) server_component_scheme \<Rightarrow> bool \<Rightarrow> 'x outcome" where
  "RemoteTabletNode_Sync E n dry =
     sync_server (remote_NeedSync E n) dry (impl_Sync E (sc_id n)) (serverComponent_ArePodsReady E n)"

definition OffshoreDataGateway_Sync :: "'e cenv_scheme \<Rightarrow> ('x, 'z) server_component_scheme \<Rightarrow> bool \<Rightarrow> 'x outcome" where
  "OffshoreDataGateway_Sync E p dry =
     sync_server (remote_NeedSync E p) dry (impl_Sync E (sc_id p)) (serverComponent_ArePodsReady E p)"

definition RemoteExecNode_Sync :: "'e cenv_scheme \<Rightarrow> ('x, 'z) exec_node_scheme \<Rightarrow> bool \<Rightarrow> 'x outcome" where
  "RemoteExecNode_Sync E n dry = do {
     need \<leftarrow> remoteExec_NeedSync E n;
     if need then do {
       built \<leftarrow> when_do (\<not> dry) (doBuildBase E n);
       if built \<noteq> None then ret (ComponentStatusBlockedBy ''cannot build exec node spec'', built)
       else do {
         err \<leftarrow> when_do (\<not> dry) (doSyncBase E (sc_id n));
         ret (ComponentStatusWaitingFor ''components'', err)
       }
     } else serverComponent_ArePodsReady E n
   }"

datatype 'x remote_nodes =
    RemoteDataNode "'x server_component"
  | RemoteTabletNode "'x server_component"
  | RemoteExecNode "'x exec_node"
  | OffshoreDataGateway "'x server_component"

primrec remote_id :: "'x remote_nodes \<Rightarrow> nat" where
  "remote_id (RemoteDataNode n) = sc_id n"
| "remote_id (RemoteTabletNode n) = sc_id n"
| "remote_id (RemoteExecNode n) = sc_id n"
| "remote_id (OffshoreDataGateway p) = sc_id p"

primrec remote_Fetch :: "'e cenv_scheme \<Rightarrow> 'x remote_nodes \<Rightarrow> ('x, go_error) cact" where
  "remote_Fetch E (RemoteDataNode n) = component_Fetch E (sc_id n) False"
| "remote_Fetch E (RemoteTabletNode n) = component_Fetch E (sc_id n) False"
| "remote_Fetch E (RemoteExecNode n) = baseExecNode_Fetch E (sc_id n)"
| "remote_Fetch E (OffshoreDataGateway p) = component_Fetch E (sc_id p) False"

primrec remote_nodes_Sync :: "'e cenv_scheme \<Rightarrow> 'x remote_nodes \<Rightarrow> bool \<Rightarrow> 'x outcome" where
  "remote_nodes_Sync E (RemoteDataNode n) dry = RemoteDataNode_Sync E n dry"
| "remote_nodes_Sync E (RemoteTabletNode n) dry = RemoteTabletNode_Sync E n dry"
| "remote_nodes_Sync E (RemoteExecNode n) dry = RemoteExecNode_Sync E n dry"
| "remote_nodes_Sync E (OffshoreDataGateway p) dry = OffshoreDataGateway_Sync E p dry"

section \<open>Controllers\<close>

text \<open>Remote nodes record the generation through the proxy, with the version of the operator; the gateways write it themselves.\<close>

definition observe_generation :: "'e env_scheme \<Rightarrow> 'x remote_nodes \<Rightarrow> 'y yts_scheme \<Rightarrow> 'y yts_scheme" where
  "observe_generation E k w =
    (case k of
       OffshoreDataGateway p \<Rightarrow> w\<lparr>w_object := SetStatusObservedGeneration (yt_Generation (w_object w)) (w_object w)\<rparr>
     | _ \<Rightarrow> fst (SyncObservedGeneration E w))"

definition save_remote :: "'e cenv_scheme \<Rightarrow> bool \<Rightarrow> ('x, ctrl_result \<times> go_error) nact" where
  "save_remote E requeue = do {
     err \<leftarrow> reads (\<lambda>w. e_StatusUpdate E (w_object w));
     if err \<noteq> None then ret (\<lparr>r_Requeue = True, r_RequeueAfter = 0\<rparr>, err)
     else do {
       modifies (\<lambda>w. w\<lparr>k_savedRemotes := k_savedRemotes w @ [(k_remoteStatus w, GetStatusObservedGeneration (w_object w))]\<rparr>);
       ret (\<lparr>r_Requeue = requeue, r_RequeueAfter = 0\<rparr>, None)
     }
   }"

definition RemoteReconciler_Sync :: "'e cenv_scheme \<Rightarrow> bool \<Rightarrow> 'x remotes_ext remote_nodes \<Rightarrow> ('x, ctrl_result \<times> go_error) nact" where
  "RemoteReconciler_Sync E ignored k =
    (if ignored then ret (\<lparr>r_Requeue = False, r_RequeueAfter = 60\<rparr>, None)
     else do {
       err \<leftarrow> remote_Fetch E k;
       if err \<noteq> None then ret (\<lparr>r_Requeue = True, r_RequeueAfter = 0\<rparr>, err)
       else do {
         (status, err1) \<leftarrow> remote_nodes_Sync E k False;
         if err1 \<noteq> None then ret (\<lparr>r_Requeue = True, r_RequeueAfter = 0\<rparr>, err1)
         else do {
           let requeue = (cs_SyncStatus status \<noteq> SyncStatusReady);
           modifies (\<lambda>w. w\<lparr>k_remoteStatus := (if requeue then RemoteNodeReleaseStatusPending else RemoteNodeReleaseStatusRunning)\<rparr>);
           modifies (observe_generation E k);
           save_remote E requeue
         }
       }
     })"

definition RemoteReconciler_Reconcile ::
  "'e cenv_scheme \<Rightarrow> bool \<Rightarrow> 'x remotes_ext remote_nodes + client_error \<Rightarrow> client_error option \<Rightarrow> ('x, ctrl_result \<times> go_error) nact" where
  "RemoteReconciler_Reconcile E ignored found cluster =
    (case found of
       Inr NotFoundError \<Rightarrow> ret (empty_result, None)
     | Inr err \<Rightarrow> ret (empty_result, go_error_of (Some err))
     | Inl k \<Rightarrow>
         (case cluster of
            Some err \<Rightarrow> ret (\<lparr>r_Requeue = False, r_RequeueAfter = 10\<rparr>, go_error_of (Some err))
          | None \<Rightarrow> RemoteReconciler_Sync E ignored k))"

text \<open>The controllers of the four kinds of resources.\<close>

definition RemoteDataNodesReconciler_Sync where
  "RemoteDataNodesReconciler_Sync E ignored n = RemoteReconciler_Sync E ignored (RemoteDataNode n)"

definition RemoteTabletNodesReconciler_Sync where
  "RemoteTabletNodesReconciler_Sync E ignored n = RemoteReconciler_Sync E ignored (RemoteTabletNode n)"

definition RemoteExecNodesReconciler_Sync where
  "RemoteExecNodesReconciler_Sync E ignored n = RemoteReconciler_Sync E ignored (RemoteExecNode n)"

definition OffshoreDataGatewaysReconciler_Sync where
  "OffshoreDataGatewaysReconciler_Sync E ignored p = RemoteReconciler_Sync E ignored (OffshoreDataGateway p)"

definition RemoteDataNodesReconciler_Reconcile where
  "RemoteDataNodesReconciler_Reconcile E ignored found = RemoteReconciler_Reconcile E ignored (map_sum RemoteDataNode id found)"

definition RemoteTabletNodesReconciler_Reconcile where
  "RemoteTabletNodesReconciler_Reconcile E ignored found = RemoteReconciler_Reconcile E ignored (map_sum RemoteTabletNode id found)"

definition RemoteExecNodesReconciler_Reconcile where
  "RemoteExecNodesReconciler_Reconcile E ignored found = RemoteReconciler_Reconcile E ignored (map_sum RemoteExecNode id found)"

definition OffshoreDataGatewaysReconciler_Reconcile where
  "OffshoreDataGatewaysReconciler_Reconcile E ignored found = RemoteReconciler_Reconcile E ignored (map_sum OffshoreDataGateway id found)"

section \<open>Contract of a node group\<close>

text \<open>
  What the controllers rely on: fetching leaves alone what the listing of pods depends on and writes nothing, and a
  synchronisation that reports ready has seen enough ready pods and has written nothing.
\<close>

locale node_group =
  fixes E :: "'e cenv_scheme" and a :: nat and fetch :: "('x, go_error) cact" and sync :: "'x outcome"
  assumes fetch_view: "kept (same_view a) fetch"
    and fetch_reads: "kept no_write fetch"
    and sync_ready: "run_state sync w = ((status, None), w') \<Longrightarrow> IsReady status \<Longrightarrow> pods_seen E a w \<and> no_write w w'"
begin

lemma ready_after_fetch:
  assumes "run_state fetch w = (err, w1)" "run_state sync w1 = ((status, None), w')" "IsReady status"
  shows "pods_seen E a w \<and> no_write w w'"
  using sync_ready [OF assms(2,3)] pods_seen_before [OF keptD_eq [OF fetch_view assms(1)]] keptD_eq [OF fetch_reads assms(1)]
    preordD(2) [OF preord_no_write] by blast

end

lemma ready_pods:
  assumes "run_state (serverComponent_ArePodsReady E c) w = ((status, None), w')" "IsReady status"
  shows "pods_seen E (sc_id c) w \<and> no_write w w'"
proof -
  have "pods_seen E (sc_id c) w"
    using assms by (auto simp: serverComponent_ArePodsReady_def arePodsReady_def impl_listPods_def api_call_def
      pods_seen_def impl_minReady_def split: sum.splits)
  moreover have "no_write w w'" using keptD_eq [OF cr.kept_pods assms(1)] .
  ultimately show ?thesis ..
qed

lemma remote_needs:
  "kept (same_view a) (remote_NeedSync E c)" "kept (same_view a) (remoteExec_NeedSync E n)"
  "kept no_write (remote_NeedSync E c)" "kept no_write (remoteExec_NeedSync E n)"
proof -
  show "kept (same_view a) (remote_NeedSync E c)" "kept (same_view a) (remoteExec_NeedSync E n)"
    unfolding remote_NeedSync_def remoteExec_NeedSync_def impl_needSync_def impl_needUpdate_def timbertruckConfigNeedsReload_def
      sidecarConfigNeedsReload_def
    by (intro kept_intros sv.kept_builder)+
  show "kept no_write (remote_NeedSync E c)" "kept no_write (remoteExec_NeedSync E n)"
    unfolding remote_NeedSync_def remoteExec_NeedSync_def sidecarConfigNeedsReload_def
    by (intro cr.yt_intros cr.kept_impl_needSync)+
qed

lemma ready_after_need:
  assumes "kept (same_view (sc_id c)) need" "kept no_write need"
    and "run_state (do { n \<leftarrow> need; if n then f else serverComponent_ArePodsReady E c }) w = ((status, None), w')" "IsReady status"
    and "\<And>v. \<not> IsReady (fst (fst (run_state f v)))"
  shows "pods_seen E (sc_id c) w \<and> no_write w w'"
proof -
  obtain n w1 where n: "run_state need w = (n, w1)" by fastforce
  with assms(3-5) have "\<not> n" by (cases n) (auto, metis fst_conv)
  with assms(3) n have "run_state (serverComponent_ArePodsReady E c) w1 = ((status, None), w')" by simp
  from ready_pods [OF this assms(4)] pods_seen_before [OF keptD_eq [OF assms(1) n]] keptD_eq [OF assms(2) n]
    preordD(2) [OF preord_no_write] show ?thesis by blast
qed

lemma view_of_Fetch: "kept (same_view a) (remote_Fetch E k)"
proof -
  have parts: "kept (same_view a) (fetch_statefulSet E b)" "kept (same_view a) (fetch_configs E b)" "kept (same_view a) (fetch_timbertruck E b)"
    "kept (same_view a) (fetch_headless E b)" "kept (same_view a) (fetch_monitoring E b)" for b
    unfolding fetch_statefulSet_def fetch_configs_def fetch_timbertruck_def fetch_headless_def fetch_monitoring_def
    by (intro kept_intros sv.kept_builder sv.kept_managed_Fetch; simp)+
  have "kept (same_view a) (resources_seq [Some (fetch_statefulSet E b), Some (fetch_configs E b), Some (fetch_timbertruck E b),
       Some (fetch_headless E b), Some (fetch_monitoring E b)])" for b
    by (rule kept_resources_seq [OF preord_same_view]) (auto intro: parts)
  then have impl: "kept (same_view a) (impl_Fetch E b)" for b
    unfolding impl_Fetch_def by (intro kept_intros sv.kept_builder)
  have "kept (same_view a) (component_Fetch E b False)" "kept (same_view a) (baseExecNode_Fetch E b)" for b
    unfolding component_Fetch_def baseExecNode_Fetch_def
    by (rule kept_resources_seq [OF preord_same_view]; auto intro!: impl kept_intros sv.kept_builder)+
  then show ?thesis by (cases k) simp_all
qed

lemma remote_nodes_ready:
  fixes w :: "'x cluster_scheme"
  assumes "run_state (remote_nodes_Sync E k dry) w = ((status, None), w')" "IsReady status"
  shows "pods_seen E (remote_id k) w \<and> no_write w w'"
proof -
  have server: "pods_seen E (sc_id c) w \<and> no_write w w'"
    if "run_state (sync_server (remote_NeedSync E c) dry (impl_Sync E (sc_id c)) (serverComponent_ArePodsReady E c)) w = ((status, None), w')"
    for c :: "'x server_component"
    by (rule ready_after_need [OF remote_needs(1,3) that [unfolded sync_server_def] assms(2)]) (simp add: case_prod_beta IsReady_def)
  have exec: "pods_seen E (sc_id n) w \<and> no_write w w'"
    if "run_state (RemoteExecNode_Sync E n dry) w = ((status, None), w')" for n :: "'x exec_node"
    by (rule ready_after_need [OF remote_needs(2,4) that [unfolded RemoteExecNode_Sync_def] assms(2)])
      (simp add: case_prod_beta IsReady_def)
  show ?thesis
    using assms(1) server exec
    by (cases k) (auto simp: RemoteDataNode_Sync_def RemoteTabletNode_Sync_def OffshoreDataGateway_Sync_def)
qed

interpretation ng: node_group E "remote_id k" "remote_Fetch E k" "remote_nodes_Sync E k dry" for E :: "'e cenv_scheme" and k dry
proof
  show "kept no_write (remote_Fetch E k)"
    by (cases k) (simp_all add: cr.kept_component_Fetch cr.kept_baseExecNode_Fetch)
qed (use view_of_Fetch remote_nodes_ready in blast)+

section \<open>Properties\<close>

context cluster_bookkeeping
begin

lemma kept_remote_Fetch: "kept R (remote_Fetch E k)"
  by (cases k) (simp_all add: kept_component_Fetch kept_baseExecNode_Fetch)

lemma kept_remote_nodes_Sync: "kept R (remote_nodes_Sync E k dry)"
proof -
  have "kept R (sync_server (remote_NeedSync E c) dry (impl_Sync E (sc_id c)) (serverComponent_ArePodsReady E c))" for c :: "'x server_component"
    unfolding sync_server_def remote_NeedSync_def by (intro yt_intros kept_impl_needSync kept_impl_Sync kept_pods)
  moreover have "kept R (RemoteExecNode_Sync E n dry)" for n :: "'x exec_node"
    unfolding RemoteExecNode_Sync_def remoteExec_NeedSync_def sidecarConfigNeedsReload_def
    by (intro yt_intros kept_impl_needSync kept_doBuildBase kept_doSyncBase kept_pods)
  ultimately show ?thesis
    by (cases k) (simp_all add: RemoteDataNode_Sync_def RemoteTabletNode_Sync_def OffshoreDataGateway_Sync_def)
qed

end

definition same_remotes :: "'x remotes_scheme \<Rightarrow> 'x remotes_scheme \<Rightarrow> bool" where
  "same_remotes w w' \<longleftrightarrow> k_savedRemotes w' = k_savedRemotes w"

lemma preord_same_remotes [kept_intros]: "preord same_remotes"
  by (auto simp: preord_def reflp_def transp_def same_remotes_def)

interpretation rk: cluster_bookkeeping same_remotes
  by unfold_locales (simp_all add: preord_same_remotes, simp_all add: same_remotes_def RecordNormal_def RecordWarning_def)

lemma run_save_remote:
  assumes "run_state (save_remote E requeue) w = ((result, None), w')"
  shows "r_Requeue result = requeue \<and> w' = w\<lparr>k_savedRemotes := k_savedRemotes w @ [(k_remoteStatus w, GetStatusObservedGeneration (w_object w))]\<rparr>"
  using assms by (auto simp: save_remote_def split: if_splits)

lemma observed_generation:
  "GetStatusObservedGeneration (w_object (observe_generation E k w)) = yt_Generation (w_object (observe_generation E k w))"
  by (auto simp: observe_generation_def SyncObservedGeneration_def updateOperatorVersion_def Let_def case_prod_beta
      GetStatusObservedGeneration_def SetStatusObservedGeneration_def SetStatusConditions_def split: remote_nodes.splits)

lemma observed_frame:
  "k_remoteStatus (observe_generation E k w) = k_remoteStatus w" "k_savedRemotes (observe_generation E k w) = k_savedRemotes w"
  "k_requests (observe_generation E k w) = k_requests w" "k_commands (observe_generation E k w) = k_commands w"
  by (auto simp: observe_generation_def SyncObservedGeneration_def updateOperatorVersion_def Let_def case_prod_beta split: remote_nodes.splits)

text \<open>
  (C40) The status of a remote node group tells the truth: a reconciliation that ends without an error saves exactly one status, for the
  current generation; it asks to be run again exactly when the status is not Running; and Running is saved only if nothing had to be written
  in this reconciliation, and the API server has listed enough ready pods in it.
\<close>

theorem remote_status_is_true:
  assumes "run_state (RemoteReconciler_Sync E False k) w = ((result, None), w')"
  shows "k_savedRemotes w' = k_savedRemotes w @ [(k_remoteStatus w', yt_Generation (w_object w'))] \<and>
    k_remoteStatus w' = (if r_Requeue result then RemoteNodeReleaseStatusPending else RemoteNodeReleaseStatusRunning) \<and>
    (\<not> r_Requeue result \<longrightarrow> pods_seen E (remote_id k) w \<and> no_write w w')"
proof -
  obtain err w1 where f: "run_state (remote_Fetch E k) w = (err, w1)" by fastforce
  obtain status err1 w2 where y: "run_state (remote_nodes_Sync E k False) w1 = ((status, err1), w2)" by (metis surj_pair)
  have e: "err = None" "err1 = None" using assms f y by (auto simp: RemoteReconciler_Sync_def split: if_splits)
  let ?r = "cs_SyncStatus status \<noteq> SyncStatusReady"
  let ?w = "observe_generation E k (w2\<lparr>k_remoteStatus := (if ?r then RemoteNodeReleaseStatusPending else RemoteNodeReleaseStatusRunning)\<rparr>)"
  have "run_state (save_remote E ?r) ?w = ((result, None), w')"
    using assms f y e by (simp add: RemoteReconciler_Sync_def Let_def)
  from run_save_remote [OF this] have r: "r_Requeue result = ?r"
    and w': "w' = ?w\<lparr>k_savedRemotes := k_savedRemotes ?w @ [(k_remoteStatus ?w, GetStatusObservedGeneration (w_object ?w))]\<rparr>" by simp_all
  have "k_savedRemotes w2 = k_savedRemotes w" using keptD_eq [OF rk.kept_remote_Fetch f] keptD_eq [OF rk.kept_remote_nodes_Sync y] by (simp add: same_remotes_def)
  moreover have "pods_seen E (remote_id k) w \<and> no_write w w2" if "\<not> ?r"
    using ng.ready_after_fetch [OF f y [unfolded e]] that by (simp add: IsReady_def)
  ultimately show ?thesis using r w' by (simp add: observed_frame observed_generation no_write_def)
qed

section \<open>Witness\<close>

definition sample_remote :: "'x remote_nodes" where
  "sample_remote = RemoteDataNode \<lparr>sc_id = 0, sc_labeller = ForComponent DataNodeType '''' zero_labeller, sc_master = None, sc_hasClient = False\<rparr>"

definition remote_api :: kube_api where
  "remote_api = (sample_api (Some (sample_sts 0 3)) [sample_pod ''a'' True, sample_pod ''b'' True, sample_pod ''c'' True])
     \<lparr>ka_cm := sample_client (Some ((object_meta zero_labeller ''config'' ''*v1.ConfigMap'' [''a.yson'' \<mapsto> ''{}''])\<lparr>o_ResourceVersion := ''1''\<rparr>)),
      ka_svc := sample_client (Some (mr_old (sample_service ''data-nodes'')))\<rparr>"

definition remote_world :: remotes where
  "remote_world = cluster.extend (sample_cluster ClusterStateRunning empty_update_status (sample_server (sample_sts 0 3)))
     \<lparr>k_remoteStatus = RemoteNodeReleaseStatusUndefined, k_savedRemotes = []\<rparr>"

text \<open>The server after its objects were fetched.\<close>

definition found_server :: server_impl where
  "found_server = (sample_server (sample_sts 0 3))
     \<lparr>si_configs := sample_builder\<lparr>cb_configMap := (cb_configMap sample_builder)
        \<lparr>mr_old := (object_meta zero_labeller ''config'' ''*v1.ConfigMap'' [''a.yson'' \<mapsto> ''{}''])\<lparr>o_ResourceVersion := ''1''\<rparr>\<rparr>\<rparr>,
      si_headlessService := sample_service ''data-nodes'',
      si_monitoringService := (sample_service ''monitoring'')\<lparr>mr_old := mr_old (sample_service ''data-nodes'')\<rparr>\<rparr>"

lemma sample_remote_fetch:
  "run_state (remote_Fetch (sample_cenv remote_api) sample_remote) remote_world =
     (None, remote_world\<lparr>k_calls := 4, k_servers := (k_servers remote_world)(0 := found_server)\<rparr>)"
proof -
  have s: "k_servers remote_world 0 = sample_server (sample_sts 0 3)" "k_calls remote_world = 0"
    by (simp_all add: remote_world_def sample_cluster_def sample_kube_def cluster.defs servers.defs kube.defs comps.defs)
  show ?thesis
    by (simp add: sample_remote_def component_Fetch_def impl_Fetch_def fetch_statefulSet_def fetch_configs_def fetch_timbertruck_def
        fetch_headless_def fetch_monitoring_def managed_Fetch_def builder_Fetch_def api_call_def FetchObject_def s go_error_of_def
        remote_api_def sample_api_def sample_client_def found_server_def sample_server_def sample_builder_def sample_service_def)
qed

lemma sample_needReload: "run_state (needReload (sample_cenv remote_api) (si_configs found_server)) w = ((ComponentStatusReady, None), w)"
  by (simp add: needReload_def found_server_def sample_builder_def sample_generator_def getConfig_def or_else_def getCurrentConfigValue_def
      object_meta_def IsAnnotationChanged_def annotation_of_def builder_Exists_def convert_config_def managed_Exists_def Let_def)

lemma sample_found: "impl_Exists found_server" "podsImageCorrespondsToSpec found_server" "si_timbertruckConfigs found_server = None"
  "GetReplicas found_server = si_instanceCount found_server"
  by code_simp+

lemma sample_remote_run:
  "fst (run_state (RemoteReconciler_Sync (sample_cenv remote_api) False sample_remote) remote_world) = (empty_result, None)"
proof -
  let ?E = "sample_cenv remote_api" and ?w = "remote_world\<lparr>k_calls := 4, k_servers := (k_servers remote_world)(0 := found_server)\<rparr>"
  let ?p = "pods_status [sample_pod ''a'' True, sample_pod ''b'' True, sample_pod ''c'' True] [] 3 3"
  have count: "si_instanceCount found_server = 3" "min_ready_count (si_MinReadyInstanceCount found_server) 3 0 = 3" by code_simp+
  have ready: "cs_SyncStatus ?p = SyncStatusReady" by code_simp
  have pods: "ka_ListPods remote_api l = Inr [sample_pod ''a'' True, sample_pod ''b'' True, sample_pod ''c'' True]" for l
    by (simp add: remote_api_def sample_api_def)
  have "run_state (remote_nodes_Sync ?E sample_remote False) ?w = ((?p, None), ?w\<lparr>k_calls := 5\<rparr>)"
    by (simp add: sample_remote_def RemoteDataNode_Sync_def sync_server_def remote_NeedSync_def impl_needSync_def impl_needUpdate_def
        timbertruckConfigNeedsReload_def sample_found sample_needReload serverComponent_ArePodsReady_def arePodsReady_def impl_listPods_def
        api_call_def impl_minReady_def count pods IsNeedUpdate_def)
  moreover have "e_StatusUpdate ?E = (\<lambda>_. None)"
    by (simp add: sample_cenv_def sample_kenv_def kenv.defs env.defs sample_env_def meta_api.defs)
  ultimately show ?thesis
    by (simp add: RemoteReconciler_Sync_def sample_remote_fetch save_remote_def Let_def empty_result_def ready)
qed

theorem remote_status_is_true_witness:
  "pods_seen (sample_cenv remote_api) (remote_id (sample_remote :: unit remotes_ext remote_nodes)) remote_world \<and>
   fst ` set (k_savedRemotes (snd (run_state (RemoteReconciler_Sync (sample_cenv remote_api) False sample_remote) remote_world))) =
     {RemoteNodeReleaseStatusRunning}"
proof -
  let ?run = "run_state (RemoteReconciler_Sync (sample_cenv remote_api) False sample_remote) remote_world"
  have r: "?run = ((empty_result, None), snd ?run)" using sample_remote_run by (metis prod.collapse)
  have "k_savedRemotes remote_world = []" by (simp add: remote_world_def cluster.defs)
  with remote_status_is_true [OF r] show ?thesis by (simp add: empty_result_def)
qed

end
