(* ===== verification/Cell_Id.thy ===== *)
theory Cell_Id
  imports Prelude "HOL-Library.Word"
begin

text \<open>
  The identifiers of master cells, \<open>pkg/ytconfig/cell_id.go\<close>: the bytes of a fixed UUID in which the tag of the cell and the
  object type of master cells are written, as four hexadecimal numbers without leading zeros.  The UUID comes from
  a library and is a parameter.
\<close>

unbundle bit_operations_syntax

section \<open>Generation\<close>

definition hex_digit :: "nat \<Rightarrow> char" where
  "hex_digit n = ''0123456789abcdef'' ! n"

text \<open>The format \<open>%02x\<close> of a byte.\<close>

definition hex_byte :: "8 word \<Rightarrow> string" where
  "hex_byte b = [hex_digit (unat b div 16), hex_digit (unat b mod 16)]"

definition getGUIDPart :: "8 word list \<Rightarrow> string" where
  "getGUIDPart data = dropWhile (\<lambda>c. c = CHR ''0'') (concat (map hex_byte data))"

definition masterCellType :: "64 word" where
  "masterCellType = 601"

definition cell_bytes :: "8 word list \<Rightarrow> 16 word \<Rightarrow> 8 word list" where
  "cell_bytes uuidBytes cellTag = uuidBytes
    [4 := ucast (drop_bit 8 cellTag), 5 := ucast (cellTag AND 0xff),
     6 := ucast (drop_bit 8 masterCellType), 7 := ucast (masterCellType AND 0xff)]"

definition generateCellID :: "8 word list \<Rightarrow> 16 word \<Rightarrow> string" where
  "generateCellID uuidBytes cellTag =
    (let b = cell_bytes uuidBytes cellTag
     in getGUIDPart (drop 12 b) @ ''-'' @ getGUIDPart (take 4 (drop 8 b)) @ ''-'' @
        getGUIDPart (take 4 (drop 4 b)) @ ''-'' @ getGUIDPart (take 4 b))"

section \<open>Reading an identifier\<close>

text \<open>A reader of identifiers: the fields between dashes, and the value of a hexadecimal number.\<close>

fun dash_fields :: "string \<Rightarrow> string list" where
  "dash_fields [] = [[]]"
| "dash_fields (c # cs) =
    (if c = CHR ''-'' then [] # dash_fields cs
     else case dash_fields cs of [] \<Rightarrow> [[c]] | f # fs \<Rightarrow> (c # f) # fs)"

definition hex_value_digit :: "char \<Rightarrow> nat" where
  "hex_value_digit c = (if of_char c < (58::nat) then of_char c - 48 else of_char c - 87)"

definition hex_value :: "string \<Rightarrow> nat" where
  "hex_value s = foldl (\<lambda>v c. v * 16 + hex_value_digit c) 0 s"

lemma dash_fields_append:
  "CHR ''-'' \<notin> set f \<Longrightarrow> dash_fields (f @ CHR ''-'' # cs) = f # dash_fields cs"
  by (induction f) auto

lemma dash_fields_last: "CHR ''-'' \<notin> set f \<Longrightarrow> dash_fields f = [f]"
  by (induction f) auto

lemma hex_digit_cases:
  assumes "n < 16"
  shows "hex_digit n \<noteq> CHR ''-'' \<and> hex_value_digit (hex_digit n) = n"
proof -
  have "\<forall>n \<in> set [0..<16]. hex_digit n \<noteq> CHR ''-'' \<and> hex_value_digit (hex_digit n) = n" by code_simp
  then show ?thesis using assms by simp
qed

lemma hex_byte_digits:
  "CHR ''-'' \<notin> set (hex_byte b)" "foldl (\<lambda>v c. v * 16 + hex_value_digit c) v (hex_byte b) = v * 256 + unat b"
proof -
  have "unat b < 256" using unsigned_less [of b, where ?'a = nat] by simp
  then have "unat b div 16 < 16" by linarith
  then show "CHR ''-'' \<notin> set (hex_byte b)" "foldl (\<lambda>v c. v * 16 + hex_value_digit c) v (hex_byte b) = v * 256 + unat b"
    using hex_digit_cases [of "unat b div 16"] hex_digit_cases [of "unat b mod 16"] by (auto simp: hex_byte_def)
qed

lemma dash_notin_GUIDPart: "CHR ''-'' \<notin> set (getGUIDPart bs)"
  by (auto simp: getGUIDPart_def hex_byte_digits dest!: set_dropWhileD)

lemma hex_value_trim: "hex_value (dropWhile (\<lambda>c. c = CHR ''0'') s) = hex_value s"
  by (induction s) (simp_all add: hex_value_def hex_value_digit_def)

lemma hex_value_bytes:
  "foldl (\<lambda>v c. v * 16 + hex_value_digit c) v (concat (map hex_byte bs)) = foldl (\<lambda>v b. v * 256 + unat b) v bs"
  by (induction bs arbitrary: v) (simp_all add: hex_byte_digits)

lemma hex_value_GUIDPart: "hex_value (getGUIDPart bs) = foldl (\<lambda>v b. v * 256 + unat b) 0 bs"
  by (simp add: getGUIDPart_def hex_value_trim) (simp add: hex_value_def hex_value_bytes)

text \<open>The two bytes of a 16-bit number.\<close>

lemma word16_bytes: "unat (ucast (drop_bit 8 w) :: 8 word) * 256 + unat (ucast (w AND 0xff) :: 8 word) = unat (w :: 16 word)"
proof -
  have lt: "unat w < 65536" using unsigned_less [of w, where ?'a = nat] by simp
  have "w AND 0xff = take_bit 8 w" by (simp add: take_bit_eq_mask mask_eq_exp_minus_1)
  then have "unat (w AND 0xff) = take_bit 8 (unat w)" by (simp only: unsigned_take_bit_eq)
  then have "unat (w AND 0xff) = unat w mod 256" by (simp add: take_bit_eq_mod)
  then have low: "unat (ucast (w AND 0xff) :: 8 word) = unat w mod 256"
    by (simp add: unsigned_ucast_eq take_bit_eq_mod)
  have "unat (drop_bit 8 w) = unat w div 256"
    using lt by (simp only: unsigned_drop_bit_eq) (simp add: drop_bit_eq_div take_bit_eq_mod)
  then have "unat (ucast (drop_bit 8 w) :: 8 word) = unat w div 256"
    using lt by (simp add: unsigned_ucast_eq take_bit_eq_mod)
  with low show ?thesis by (metis div_mult_mod_eq)
qed

text \<open>
  (C39) The identifier of a master cell can be read back: it consists of four fields, and the third one is the number whose upper
  sixteen bits are the tag of the cell and whose lower ones are the object type of master cells, whatever zeros the
  formatting trims.  In particular cells with different tags have different identifiers.
\<close>

theorem cell_id_roundtrip:
  assumes "length uuidBytes = 16"
  shows "length (dash_fields (generateCellID uuidBytes cellTag)) = 4 \<and>
    hex_value (dash_fields (generateCellID uuidBytes cellTag) ! 2) = unat cellTag * 65536 + 601 \<and>
    (generateCellID uuidBytes cellTag = generateCellID uuidBytes otherTag \<longleftrightarrow> cellTag = otherTag)"
proof -
  have fields: "dash_fields (generateCellID uuidBytes t) =
      (let b = cell_bytes uuidBytes t in map getGUIDPart [drop 12 b, take 4 (drop 8 b), take 4 (drop 4 b), take 4 b])" for t
    by (simp add: generateCellID_def Let_def dash_fields_append dash_fields_last dash_notin_GUIDPart)
  have bytes: "take 4 (drop 4 (cell_bytes uuidBytes t)) =
      [ucast (drop_bit 8 t), ucast (t AND 0xff), ucast (drop_bit 8 masterCellType), ucast (masterCellType AND 0xff)]" for t
    using assms by (auto simp: cell_bytes_def list_eq_iff_nth_eq nth_list_update less_Suc_eq numeral_eq_Suc)
  have type: "unat (ucast (drop_bit 8 masterCellType) :: 8 word) * 256 + unat (ucast (masterCellType AND 0xff) :: 8 word) = 601"
    by (simp add: masterCellType_def)
  have read: "hex_value (dash_fields (generateCellID uuidBytes t) ! 2) = unat t * 65536 + 601" for t
    using word16_bytes [of t] type by (simp add: fields Let_def hex_value_GUIDPart bytes)
  then have "generateCellID uuidBytes cellTag = generateCellID uuidBytes otherTag \<longleftrightarrow> cellTag = otherTag"
    by (metis add_right_imp_eq mult_right_cancel unsigned_word_eqI zero_neq_numeral)
  then show ?thesis using read by (simp add: fields Let_def)
qed

definition sample_uuid :: "8 word list" where
  "sample_uuid = [0x07, 0xb0, 0x0c, 0xd0, 0x9d, 0x12, 0x11, 0xee, 0xbe, 0x56, 0x02, 0x42, 0xac, 0x12, 0x00, 0x02]"

theorem cell_id_roundtrip_witness:
  "length sample_uuid = 16 \<and> length (dash_fields (generateCellID sample_uuid 1)) = 4 \<and>
   hex_value (dash_fields (generateCellID sample_uuid 1) ! 2) = 66137 \<and>
   generateCellID sample_uuid 1 \<noteq> generateCellID sample_uuid 2"
proof -
  have "length sample_uuid = 16" by (simp add: sample_uuid_def)
  with cell_id_roundtrip [OF this, of 1 2] show ?thesis by simp
qed

end
