(* ===== verification/Spec2Isabelle.thy ===== *)
theory Spec2Isabelle
  imports Reconciler Prechecks Admission Service_Contracts Releases Remote_Nodes Cell_Id
begin

text \<open>
  \<^bold>\<open>A verification of the control logic of the YTsaurus Kubernetes operator.\<close>

  The operator keeps a YTsaurus cluster in the shape its custom resource asks for.  One call of
  \<open>Reconcile\<close> (\<open>controllers/ytsaurus_controller.go\<close>) builds the components of the cluster, fetches
  their status, and either moves the cluster state machine by one transition, executes one step of
  the update flow, or lets every pending component work towards readiness.  All memory between two
  calls is the status of the custom resource.

  \<^bold>\<open>Theories.\<close>
  \<^item> \<open>Prelude\<close>: Go errors as options, 32-bit wrap-around, decimal rendering, joining of strings.
  \<^item> \<open>Api_Types\<close>, \<open>Resource\<close>: the types of \<open>api/v1\<close> and \<open>pkg/consts/types.go\<close>, with the fields of
    the specification and of the status that the control logic reads or writes.
  \<^item> \<open>Labeller\<close>: names, labels and condition types (\<open>pkg/labeller\<close>, \<open>pkg/consts/names.go\<close>,
    \<open>pkg/consts/labels.go\<close>).
  \<^item> \<open>Conditions\<close>: lists of status conditions (\<open>pkg/checks/conditions.go\<close>, \<open>sortConditions\<close>).  The
    functions of the package \<open>meta\<close> of apimachinery are a parameter; \<open>meta_laws\<close> is what its
    documentation promises, and \<open>meta_at\<close> is an instance.
  \<^item> \<open>Api_Proxy\<close>, \<open>Ytsaurus_Proxy\<close>: \<open>pkg/apiproxy/proxy.go\<close> and \<open>pkg/apiproxy/ytsaurus.go\<close>: the
    custom resource in memory, the last saved status, the recorded events.  Whether the API server
    accepts a request is a parameter of the environment.
  \<^item> \<open>Component\<close>: statuses and the interface every component implements
    (\<open>pkg/components/component.go\<close>), as a table of methods.
  \<^item> \<open>Timbertruck_Delivery\<close>: which logs are delivered (\<open>pkg/components/timbertruck.go\<close>).
  \<^item> \<open>Component_Manager\<close>: \<open>controllers/component_manager.go\<close>.
  \<^item> \<open>Update_Flow\<close>: \<open>controllers/update_flow_steps.go\<close>, the update flow as a heap of steps.
  \<^item> \<open>Reconciler\<close>: \<open>controllers/ytsaurus_controller.go\<close>.
  \<^item> \<open>Sample_Cluster\<close>: a small concrete cluster on which the witnesses evaluate.
  \<^item> \<open>Actions\<close>: component code as actions of the state monad, and the relations actions keep.
  \<^item> \<open>Pods\<close>: counting and classification of pods (\<open>pkg/components/pods_manager.go\<close>) and the
    arithmetic of instance counts (\<open>pkg/components/server.go\<close>).
  \<^item> \<open>Server\<close>: the interfaces \<open>podsManager\<close> and \<open>server\<close> as tables of methods, and the update
    strategies of \<open>pkg/components/helpers.go\<close> that drive a server.
  \<^item> \<open>Kube\<close>: managed objects (\<open>pkg/resources/resource.go\<close>) and the requests sent for them.
  \<^item> \<open>Config_Map\<close>: \<open>pkg/components/config_map_builder.go\<close>; codecs are parameters.
  \<^item> \<open>Server_Impl\<close>: \<open>serverImpl\<close> of \<open>pkg/components/server.go\<close>; \<open>Server_Updates\<close>: what its updates
    do to the StatefulSet.
  \<^item> \<open>Yt_Api\<close>: reads and writes of Cypress; the client library is a parameter.
  \<^item> \<open>Server_Components\<close>: discovery, proxies, nodes, caches, balancers and controller agents, one file
    of \<open>pkg/components\<close> each; \<open>Server_Contracts\<close>, \<open>Prechecks\<close>: what they promise.
  \<^item> \<open>Init_Job\<close>: the jobs that run scripts in the cluster (\<open>pkg/components/init_job.go\<close>,
    \<open>pkg/resources/job.go\<close>); \<open>Job_Progress\<close>: a cluster that stores objects and runs jobs, and the abstract
    machine an init job refines; \<open>Token_Secret\<close>: secrets with tokens and users.
  \<^item> \<open>Ypatch\<close>: patches of Cypress (\<open>pkg/ypatch/patch.go\<close>, \<open>diff.go\<close>, \<open>apply.go\<close>); comparison of values
    and splitting of paths are parameters.
  \<^item> \<open>Yt_Client\<close>: the client component with its health checks, update steps and Cypress patch
    (\<open>pkg/components/ytsaurus_client.go\<close>, \<open>pkg/checks/master.go\<close>); \<open>Client_Contracts\<close>: what it promises.
  \<^item> \<open>Masters\<close>: the primary and secondary master cells with their maintenance
    (\<open>pkg/components/master.go\<close>); \<open>Master_Contracts\<close>: what they promise.
  \<^item> \<open>Init_Servers\<close>: scheduler, query tracker, queue agent and YQL agent (\<open>pkg/components/scheduler.go\<close>,
    \<open>query_tracker.go\<close>, \<open>queue_agent.go\<close>, \<open>yql_agent.go\<close>); \<open>Init_Contracts\<close>: the contracts of all components
    with servers, and what the readiness of a queue agent means.
  \<^item> \<open>Microservice\<close>: microservices (\<open>pkg/components/microservice.go\<close>, \<open>pkg/resources/deployment.go\<close>), the user interface and
    Strawberry (\<open>pkg/components/ui.go\<close>, \<open>strawberry_controller.go\<close>).
  \<^item> \<open>Image_Heater\<close>: the DaemonSets that pull images before an update (\<open>pkg/components/image_heater.go\<close>,
    \<open>pkg/resources/daemonset.go\<close>).
  \<^item> \<open>Service_Contracts\<close>: the contracts of all components together.
  \<^item> \<open>Releases\<close>: the releases of CHYT and SPYT with their controllers (\<open>pkg/components/chyt.go\<close>, \<open>spyt.go\<close>,
    \<open>controllers/chyt_sync.go\<close>, \<open>chyt_controller.go\<close>, \<open>spyt_sync.go\<close>, \<open>spyt_controller.go\<close>).
  \<^item> \<open>Remote_Nodes\<close>: node groups of another cluster and the offshore data gateways, with their controllers
    (\<open>pkg/components/data_node_remote.go\<close>, \<open>tablet_node_remote.go\<close>, \<open>exec_node_remote.go\<close>, \<open>offshore_data_gateway.go\<close>,
    \<open>controllers/remotedatanodes_sync.go\<close> and its siblings, which differ in the type of the resource only).
  \<^item> \<open>Cell_Id\<close>: the identifiers of master cells (\<open>pkg/ytconfig/cell_id.go\<close>).
  \<^item> \<open>Webhook\<close>: the validations of \<open>validators/ytsaurus_webhook.go\<close>, \<open>validators/helpers.go\<close> and
    \<open>validators/webhook.go\<close>; \<open>Admission\<close>: what an accepted object satisfies.

  \<^bold>\<open>State.\<close>  \<open>yts\<close> is the object of the Ytsaurus proxy: the resource in memory, the stored status,
  the events, the number of saves.  \<open>comps\<close> adds the status fields of the component objects, by
  address; \<open>kube\<close>, \<open>servers\<close> and \<open>cluster\<close> extend it by the managed Kubernetes objects with the history of
  writing requests, the server objects, and the history of commands sent to YTsaurus; \<open>jobs\<close>, \<open>micros\<close> and \<open>heated\<close> add the
  objects of init jobs and secrets, of microservices, and of the image heater, \<open>releases\<close> and \<open>remotes\<close> the status of a release and of a remote node group.  Operations
  take and return the state; errors are \<open>string option\<close> as Go's \<open>error\<close>.  The world outside changes
  between two calls: the environment answers the \<open>n\<close>-th call to the API server (or to YTsaurus) with
  its \<open>n\<close>-th client, and a counter in the state numbers the calls.

  \<^bold>\<open>Interfaces.\<close>  \<open>pods_contract\<close> and \<open>server_contract\<close> are what components rely on in a server,
  \<open>pods_reader\<close> and \<open>server_reader\<close> what its reading methods keep; all are interpreted for
  \<open>serverImpl\<close>.  \<open>reading\<close>, \<open>bookkeeping\<close>, \<open>server_reading\<close>, \<open>server_bookkeeping\<close>, \<open>yt_reading\<close>,
  \<open>yt_writing\<close>, \<open>cluster_bookkeeping\<close>, \<open>job_reading\<close>, \<open>job_bookkeeping\<close>,
  \<open>client_bookkeeping\<close>, \<open>micro_reading\<close>, \<open>micro_bookkeeping\<close>, \<open>heater_reading\<close>, \<open>heater_bookkeeping\<close> and \<open>dry_reading\<close> say which elementary effects a relation between
  states tolerates; an action composed of such effects keeps the relation.  They are interpreted for
  the relations the properties speak of: nothing decided about the cluster (\<open>keeps\<close>), no request, no
  write, the same objects, the same update conditions, the same saved releases.  \<open>release\<close> is what the controller of a release relies on,
  interpreted for CHYT and SPYT; \<open>node_group\<close> is what the controllers of remote nodes rely on.  \<open>update_flow\<close> is the interface between a
  pointer structure of steps and a list of states.

  \<^bold>\<open>What is shown.\<close>
  \<^item> The cluster state machine: one reconciliation takes at most one transition of \<open>cluster_step\<close>,
    saves at most once, keeps the \<open>ReadyToWork\<close> condition in step with the state, starts an update
    only when it is possible, and asks to be run again until the cluster is ready.
  \<^item> The component manager: dependencies come first, the aggregated flags say what the component
    statuses say, the update plan partitions the components and respects its concurrency limits,
    and the sync loop decides nothing about the cluster.
  \<^item> The update flow: the pointer structure built by \<open>buildFlowTree\<close> and \<open>masterMaintenanceFlow\<close>
    refines a list of states (locale \<open>update_flow\<close>, interpreted for both); it terminates, its steps
    have conditions, and what an update disables it enables again in reverse order.
  \<^item> Servers: a rolling update stays within its budget of unavailable pods, pods count as removed only
    when they are gone, the pod counters are exact, and a built configuration compares as current.
  \<^item> Components: every component keeps the contract of the controller and writes nothing
    in a dry run; one with servers and without jobs waits for the masters, and is ready only with enough ready pods; pre-checks run
    once, and drain an exec node before its pod is replaced in the step in which they run.
  \<^item> Microservices: which Deployments are written when pods are removed and created again; one that is scaled to zero keeps its old image.
  \<^item> The image heater: its plan divides the components by what they pull, completed heating means that all
    DaemonSets are in place and running, and until then no component counts as heated.
  \<^item> Releases: a release is saved as finished only when all its jobs have completed in a running cluster.
  \<^item> Remote nodes: the saved status is true for the current generation, and Running rests on pods listed in the same reconciliation.
  \<^item> Cell identifiers can be read back, so that different cells have different ones.
  \<^item> Masters: the registration of cells opens and closes only in its two steps of the maintenance, an
    unregistered cell has no pods before, and masters that report ready are initialised.
  \<^item> Servers with jobs: a queue agent that reports ready has its state tables, and its update never uses the
    client it does not have.
  \<^item> Init jobs: from any leftover of earlier runs a job is started afresh and completes within five
    reconciliations, each a step of the abstract machine.
  \<^item> The client: an update counts as possible only when masters, chunks and tablet cell bundles were all found
    healthy; the tablet cells recovered after an update are those saved before it; a failed listing of data
    nodes is still recorded as the absence of imaginary chunks.
  \<^item> Admission: an accepted update keeps the quorum of every master cell and changes masters only
    during their maintenance; an accepted specification is consistent, its transports are secure when
    asked to be, its update plan is well formed, and mounts are found by the most specific path.

  \<^bold>\<open>Bounds.\<close>  All loops of the source run over lists but one: setting a nested
  attribute retries at the parent path, at most as often as the path has characters (\<open>set_retry\<close>), and
  \<open>set_retry_bound\<close> shows that more retries change nothing.  Go's \<open>int32\<close> counters wrap
  around by \<open>wrap32\<close>.

  \<^bold>\<open>Not modelled.\<close>  Log messages, time (a transition time is an input of the environment), the
  Kubernetes and YTsaurus clients beyond the outcome of each call, and pod templates beyond what the
  comparison of objects reads.  The texts of the scripts of init jobs, and the volumes, ports and environment of containers, have no
  control flow the other parts depend on.  The generation of YTsaurus server configurations (\<open>pkg/ytconfig\<close>, but the cell
  identifiers) fills large trees field by field for a marshaller that is not part of the sources; the config map builder takes its
  result as a parameter.  Ordered maps of configuration patches, generated deep copies and test helpers are left out.
\<close>

end
